(* ===== verification/Prelude.thy ===== *)
theory Prelude
  imports Main "HOL-Library.Finite_Map" "HOL-Library.Sublist" "HOL-Library.Word"
    "HOL-Library.List_Lexorder" "HOL-Library.Char_ord"
begin

text \<open>
  What every component of the library shares: the error values, the result type, the Go
  types of file modes and times, and the generic lemmas on lists and finite maps.

  Go strings and byte slices are byte sequences, modelled as \<open>string\<close>: a \<open>char\<close> is an 8-bit
  value, and \<open>of_char\<close> reads it as a number below 256.  A Go map is a finite map
  \<open>('k, 'v) fmap\<close>.  A fallible function returns \<open>gerr + 'a\<close> (\<open>Inl\<close> the error), a
  method whose only result is an error returns \<open>gerr option\<close> (\<open>None\<close> is nil) beside the
  new state.
\<close>

named_theorems returns_simps \<open>loops of the code that return, as equations\<close>
named_theorems frame_simps \<open>state components an operation leaves alone\<close>

subsection \<open>Errors\<close>

text \<open>
  The sentinel errors of \<open>io/fs\<close> and \<open>io\<close>, \<open>fs.PathError\<close>, and the error built by \<open>core.E(op, message, cause)\<close>.  The
  message is kept as the list of parts the code hands to \<open>core.Concat\<close>.  \<open>Diverges\<close> is no
  error of the code: it marks a call whose loop does not return, so that a model of such a
  call is total; each component proves that it never occurs.
\<close>

datatype gerr =
    ErrNotExist | ErrExist | ErrInvalid | ErrPermission | ErrEOF
  | ErrUnexpectedEOF
  | ErrNew string
  | SkipDir | SkipAll
  | PathError string string gerr
  | CoreE (err_op: string) (err_msg: "string list") (err_cause: "gerr option")
  | Diverges

type_synonym 'a res = "gerr + 'a"

text \<open>\<open>errors.Is\<close>: the target occurs in the chain of causes.\<close>

fun err_is :: "gerr \<Rightarrow> gerr \<Rightarrow> bool" where
  "err_is (CoreE op m (Some c)) t \<longleftrightarrow> CoreE op m (Some c) = t \<or> err_is c t"
| "err_is (PathError op p c) t \<longleftrightarrow> PathError op p c = t \<or> err_is c t"
| "err_is e t \<longleftrightarrow> e = t"

definition is_ok :: "'a res \<Rightarrow> bool" where
  "is_ok r \<longleftrightarrow> (case r of Inl _ \<Rightarrow> False | Inr _ \<Rightarrow> True)"

lemma is_ok_simps [simp]: "is_ok (Inr x)" "\<not> is_ok (Inl e)"
  by (simp_all add: is_ok_def)

lemma is_ok_iff: "is_ok r \<longleftrightarrow> (\<exists>x. r = Inr x)"
  by (auto simp: is_ok_def split: sum.splits)

text \<open>A loop that performs a step for each element and returns the first error.\<close>

fun each :: "('a \<Rightarrow> 's \<Rightarrow> gerr option \<times> 's) \<Rightarrow> 'a list \<Rightarrow> 's \<Rightarrow> gerr option \<times> 's" where
  "each f [] s = (None, s)"
| "each f (x # xs) s =
     (case f x s of (Some err, s') \<Rightarrow> (Some err, s') | (None, s') \<Rightarrow> each f xs s')"

lemma each_inv:
  "(\<And>x s e s'. P s \<Longrightarrow> f x s = (e, s') \<Longrightarrow> P s') \<Longrightarrow> P s \<Longrightarrow> each f xs s = (e, s') \<Longrightarrow> P s'"
  by (induction xs arbitrary: s) (auto split: prod.splits option.splits, blast+)

lemma each_pure:
  "(\<And>x s. x \<in> set xs \<Longrightarrow> f x s = (None, g x s)) \<Longrightarrow> each f xs s = (None, fold g xs s)"
  by (induction xs arbitrary: s) simp_all

lemma fold_snoc: "fold (\<lambda>x acc. acc @ [x]) xs acc = acc @ xs"
  by (induction xs arbitrary: acc) simp_all

subsection \<open>Results and options of package core\<close>

text \<open>
  A \<open>core.Result\<close>: whether it is OK, and a value that has the type the caller expects
  (\<open>ROk\<close>), is an error (\<open>RFail\<close>) or has another type.
\<close>

datatype 'a core_result = ROk 'a | ROkOther | RFail gerr | RFailOther

text \<open>
  The options of an action are a function from keys to values of any type; a missing key has a value
  of no type the handlers ask for.
\<close>

datatype 'm opt_value = OptMedium 'm | OptBytes string | OptString string | OptBool bool | OptInt int | OptOther

type_synonym 'm options = "string \<Rightarrow> 'm opt_value"

definition opt_string :: "'m options \<Rightarrow> string \<Rightarrow> string" where
  "opt_string opts k = (case opts k of OptString s \<Rightarrow> s | _ \<Rightarrow> '''')"

definition opt_medium :: "'m options \<Rightarrow> string \<Rightarrow> 'm option" where
  "opt_medium opts k = (case opts k of OptMedium m \<Rightarrow> Some m | _ \<Rightarrow> None)"

definition opt_bool :: "'m options \<Rightarrow> string \<Rightarrow> bool" where
  "opt_bool opts k = (case opts k of OptBool b \<Rightarrow> b | _ \<Rightarrow> False)"

definition opt_int :: "'m options \<Rightarrow> string \<Rightarrow> int" where
  "opt_int opts k = (case opts k of OptInt i \<Rightarrow> i | _ \<Rightarrow> 0)"

subsection \<open>File modes and times\<close>

text \<open>
  \<open>fs.FileMode\<close> is a 32-bit word whose top bits hold the type; a time is the number of
  nanoseconds since the zero time, which is \<open>time.Time{}\<close>.
\<close>

type_synonym file_mode = "32 word"
type_synonym gotime = int

unbundle bit_operations_syntax

definition ModeDir :: file_mode where "ModeDir = push_bit 31 1"

definition ModeType :: file_mode where
  "ModeType = push_bit 31 1 OR push_bit 27 1 OR push_bit 25 1 OR push_bit 24 1
     OR push_bit 26 1 OR push_bit 21 1 OR push_bit 19 1"

definition zero_time :: gotime where "zero_time = 0"

subsection \<open>Finite maps\<close>

declare fmfilter_cong [cong del]

text \<open>The test \<open>_, ok := m[k]\<close>.\<close>

definition has_key :: "('k, 'v) fmap \<Rightarrow> 'k \<Rightarrow> bool" where
  "has_key m k \<longleftrightarrow> fmlookup m k \<noteq> None"

lemma has_key_dom: "has_key m k \<longleftrightarrow> k |\<in>| fmdom m"
  by (auto simp: has_key_def fmlookup_dom_iff)

lemma has_key_simps [simp]:
  "\<not> has_key fmempty k"
  "has_key (fmupd k v m) j \<longleftrightarrow> j = k \<or> has_key m j"
  "has_key (fmdrop k m) j \<longleftrightarrow> j \<noteq> k \<and> has_key m j"
  "has_key (fmfilter P m) k \<longleftrightarrow> P k \<and> has_key m k"
  by (auto simp: has_key_def split: if_splits)

lemma has_key_Some: "fmlookup m k = Some v \<Longrightarrow> has_key m k"
  by (simp add: has_key_def)

lemma not_has_key: "\<not> has_key m k \<longleftrightarrow> fmlookup m k = None"
  by (simp add: has_key_def)

lemma has_keyE:
  assumes "has_key m k"
  obtains v where "fmlookup m k = Some v"
  using assms by (auto simp: has_key_def)

lemma fmap_eqI: "(\<And>k. fmlookup m k = fmlookup n k) \<Longrightarrow> m = n"
  by (rule fmap_ext)

text \<open>A missing key of a Go map with string values reads as the empty string.\<close>

definition value_or_empty :: "(string, string) fmap \<Rightarrow> string \<Rightarrow> string" where
  "value_or_empty mp k = (case fmlookup mp k of Some v \<Rightarrow> v | None \<Rightarrow> '''')"

text \<open>Deleting the keys of a list that satisfy a predicate, one after the other.\<close>

definition drop_keys :: "('k \<Rightarrow> bool) \<Rightarrow> 'k list \<Rightarrow> ('k, 'v) fmap \<Rightarrow> ('k, 'v) fmap" where
  "drop_keys P ks m = fold (\<lambda>k m. if P k then fmdrop k m else m) ks m"

lemma fmlookup_drop_keys:
  "fmlookup (drop_keys P ks m) k = (if k \<in> set ks \<and> P k then None else fmlookup m k)"
  unfolding drop_keys_def
  by (induction ks arbitrary: m) auto

lemma drop_keys_filter:
  assumes "fset (fmdom m) \<subseteq> set ks"
  shows "drop_keys P ks m = fmfilter (\<lambda>k. \<not> P k) m"
proof (rule fmap_eqI)
  fix k
  have "fmlookup m k \<noteq> None \<Longrightarrow> k \<in> set ks"
    using assms by (auto simp: fmlookup_dom_iff subset_iff)
  then show "fmlookup (drop_keys P ks m) k = fmlookup (fmfilter (\<lambda>k. \<not> P k) m) k"
    by (cases "fmlookup m k") (auto simp: fmlookup_drop_keys)
qed

lemma takeWhile_no_sep [simp]: "c \<notin> set s \<Longrightarrow> takeWhile (\<lambda>x. x \<noteq> c) s = s"
  by (auto simp: takeWhile_eq_all_conv)

lemma takeWhile_sep [simp]: "c \<notin> set s \<Longrightarrow> takeWhile (\<lambda>x. x \<noteq> c) (s @ c # t) = s"
  by (induction s) auto

lemma sublist_single: "sublist [c] s \<longleftrightarrow> c \<in> set s"
proof
  assume "c \<in> set s"
  then obtain a b where "s = a @ c # b" by (meson split_list)
  then show "sublist [c] s" by (auto simp: sublist_def)
qed (auto dest: set_mono_sublist)

text \<open>
  Go compares strings byte by byte, a proper prefix being smaller: this is the order \<open><\<close>
  on \<open>string\<close> that the theories \<open>List_Lexorder\<close> and \<open>Char_ord\<close> provide.
\<close>

lemma string_order_examples: "''a'' < (''ab'' :: string)" "''Z'' < (''a'' :: string)"
  by code_simp+

end
