(* ===== verification/Runtime.thy ===== *)
theory Runtime
  imports Prelude
begin

text \<open>
  The environment the code runs in.  The first part models the functions of Go's standard
  packages \<open>strings\<close> and \<open>path\<close>.  The second part is the interface \<open>go_env\<close>: the string and
  path functions of the external package \<open>dappco.re/go\<close> (\<open>core\<close>, not part of the
  repository) and the order in which the Go runtime ranges over a map.  Both are a record
  the definitions of the library take as an argument; the locale \<open>go_runtime\<close> states what
  the code relies on: the \<open>core\<close> functions wrap the standard functions of the same purpose
  (\<open>README.md\<close>, \<open>docs/architecture.md\<close>), and a range visits every key once.
\<close>

subsection \<open>Package strings\<close>

definition trim_prefix :: "string \<Rightarrow> string \<Rightarrow> string" where
  "trim_prefix s p = (if prefix p s then drop (length p) s else s)"

definition trim_suffix :: "string \<Rightarrow> string \<Rightarrow> string" where
  "trim_suffix s p = (if suffix p s then take (length s - length p) s else s)"

fun split_on :: "char \<Rightarrow> string \<Rightarrow> string list" where
  "split_on c [] = [[]]"
| "split_on c (x # xs) =
     (if x = c then [] # split_on c xs
      else (case split_on c xs of [] \<Rightarrow> [[x]] | y # ys \<Rightarrow> (x # y) # ys))"

text \<open>\<open>strings.SplitN(s, sep, 2)\<close>: cut at the first separator, if there is one.\<close>

definition split2 :: "char \<Rightarrow> string \<Rightarrow> string list" where
  "split2 c s = (if c \<in> set s then [takeWhile (\<lambda>x. x \<noteq> c) s, tl (dropWhile (\<lambda>x. x \<noteq> c) s)] else [s])"

definition replace_char :: "char \<Rightarrow> char \<Rightarrow> string \<Rightarrow> string" where
  "replace_char a b s = map (\<lambda>c. if c = a then b else c) s"

fun join_with :: "char \<Rightarrow> string list \<Rightarrow> string" where
  "join_with c [] = []"
| "join_with c [x] = x"
| "join_with c (x # y # ys) = x @ c # join_with c (y # ys)"

abbreviation slash :: char where "slash \<equiv> CHR ''/''"

lemma takeWhile_at_slash: "slash \<in> set s \<Longrightarrow> \<exists>r. s = takeWhile (\<lambda>x. x \<noteq> slash) s @ slash # r"
  by (induction s) auto

subsection \<open>Package path\<close>

text \<open>
  \<open>path.Clean\<close>: the elements between slashes, without the empty and the \<open>.\<close> ones, each
  \<open>..\<close> removing the element before it (kept at the start of an unrooted path, dropped at
  the start of a rooted one).
\<close>

definition clean_step :: "bool \<Rightarrow> string list \<Rightarrow> string \<Rightarrow> string list" where
  "clean_step rooted stack c =
     (if c = ''..'' then
        (case stack of
           [] \<Rightarrow> (if rooted then [] else [''..''])
         | t # ts \<Rightarrow> (if t = ''..'' then ''..'' # stack else ts))
      else c # stack)"

definition path_elems :: "string \<Rightarrow> string list" where
  "path_elems p = filter (\<lambda>c. c \<noteq> [] \<and> c \<noteq> ''.'') (split_on slash p)"

definition clean_elems :: "bool \<Rightarrow> string list \<Rightarrow> string list" where
  "clean_elems rooted cs = rev (foldl (clean_step rooted) [] cs)"

definition is_rooted :: "string \<Rightarrow> bool" where
  "is_rooted p \<longleftrightarrow> prefix ''/'' p"

definition path_clean :: "string \<Rightarrow> string" where
  "path_clean p =
     (let out = join_with slash (clean_elems (is_rooted p) (path_elems p))
      in if is_rooted p then slash # out else if out = [] then ''.'' else out)"

definition dir_part :: "string \<Rightarrow> string" where
  "dir_part p = rev (dropWhile (\<lambda>c. c \<noteq> slash) (rev p))"

definition path_dir :: "string \<Rightarrow> string" where
  "path_dir p = path_clean (dir_part p)"

definition path_base :: "string \<Rightarrow> string" where
  "path_base p =
     (if p = [] then ''.''
      else let q = rev (dropWhile (\<lambda>c. c = slash) (rev p));
               f = rev (takeWhile (\<lambda>c. c \<noteq> slash) (rev q))
           in if f = [] then ''/'' else f)"

definition path_join :: "string list \<Rightarrow> string" where
  "path_join ps =
     (let qs = filter (\<lambda>p. p \<noteq> []) ps
      in if qs = [] then [] else path_clean (join_with slash qs))"

lemma path_examples:
  "path_clean ''/a/../b//c/.'' = ''/b/c''" "path_clean ''../a'' = ''../a''"
  "path_clean ''/..'' = ''/''" "path_dir ''a/b'' = ''a''" "path_dir ''a'' = ''.''"
  "path_base ''a/b/'' = ''b''" "path_join [''a'', '''', ''../c''] = ''c''"
  by code_simp+

subsection \<open>The interface\<close>

record go_env =
  HasPrefix :: "string \<Rightarrow> string \<Rightarrow> bool"
  HasSuffix :: "string \<Rightarrow> string \<Rightarrow> bool"
  TrimPrefix :: "string \<Rightarrow> string \<Rightarrow> string"
  TrimSuffix :: "string \<Rightarrow> string \<Rightarrow> string"
  Contains :: "string \<Rightarrow> string \<Rightarrow> bool"
  Split :: "string \<Rightarrow> string \<Rightarrow> string list"
  SplitN :: "string \<Rightarrow> string \<Rightarrow> nat \<Rightarrow> string list"
  Concat :: "string list \<Rightarrow> string"
  Replace :: "string \<Rightarrow> string \<Rightarrow> string \<Rightarrow> string"
  Trim :: "string \<Rightarrow> string"
  Lower :: "string \<Rightarrow> string"
  PathDir :: "string \<Rightarrow> string"
  PathBase :: "string \<Rightarrow> string"
  PathJoin :: "string list \<Rightarrow> string"
  CleanPath :: "string \<Rightarrow> string \<Rightarrow> string"
  Path :: "string list \<Rightarrow> string"
  PathIsAbs :: "string \<Rightarrow> bool"
  Join :: "string \<Rightarrow> string list \<Rightarrow> string"
  range_keys :: "string fset \<Rightarrow> string list"

text \<open>
  \<open>core.Path\<close> joins its segments and cleans the result, which the code uses for absolute paths;
  where a relative path is anchored is left open.  Paths are those of a Unix system.
\<close>

text \<open>
  \<open>strings.TrimSpace\<close> cuts white space at both ends; the code relies only on its result
  being a contiguous part of the argument, and on it leaving a string alone whose first and
  last bytes are printable ASCII.
\<close>

definition printable :: "char \<Rightarrow> bool" where
  "printable c \<longleftrightarrow> 33 \<le> (of_char c :: nat) \<and> (of_char c :: nat) \<le> 126"

locale go_runtime =
  fixes E :: go_env
  assumes HasPrefix_eq: "HasPrefix E s p \<longleftrightarrow> prefix p s"
    and HasSuffix_eq: "HasSuffix E s p \<longleftrightarrow> suffix p s"
    and TrimPrefix_eq: "TrimPrefix E s p = trim_prefix s p"
    and TrimSuffix_eq: "TrimSuffix E s p = trim_suffix s p"
    and Contains_eq: "Contains E s p \<longleftrightarrow> sublist p s"
    and Split_eq: "Split E s [c] = split_on c s"
    and SplitN_eq: "SplitN E s [c] 2 = split2 c s"
    and Concat_eq: "Concat E ss = concat ss"
    and Replace_eq: "Replace E s [a] [b] = replace_char a b s"
    and Trim_part: "sublist (Trim E s) s"
    and Trim_id: "s \<noteq> [] \<Longrightarrow> printable (hd s) \<Longrightarrow> printable (last s) \<Longrightarrow> Trim E s = s"
    and PathDir_eq: "PathDir E p = path_dir p"
    and PathBase_eq: "PathBase E p = path_base p"
    and PathJoin_eq: "PathJoin E ps = path_join ps"
    and CleanPath_eq: "CleanPath E p ''/'' = path_clean p"
    and Path_eq: "is_rooted p \<Longrightarrow> Path E (p # ps) = path_clean (join_with slash (p # ps))"
    and PathIsAbs_eq: "PathIsAbs E p \<longleftrightarrow> is_rooted p"
    and range_distinct: "distinct (range_keys E A)"
    and range_set: "set (range_keys E A) = fset A"
begin

lemmas core_eqs [simp] = HasPrefix_eq HasSuffix_eq TrimPrefix_eq TrimSuffix_eq Contains_eq
  Split_eq SplitN_eq Concat_eq Replace_eq PathDir_eq PathBase_eq PathJoin_eq CleanPath_eq PathIsAbs_eq
  range_distinct range_set

lemma range_mem_iff: "k \<in> set (range_keys E (fmdom m)) \<longleftrightarrow> has_key m k"
  by (simp add: has_key_dom)

lemma drop_keys_range:
  "drop_keys P (range_keys E (fmdom m)) m = fmfilter (\<lambda>k. \<not> P k) m"
  by (rule drop_keys_filter) simp

end

end
