(* ===== verification/Paths.thy ===== *)
theory Paths
  imports Runtime
begin

text \<open>
  Facts about the path functions that every medium uses: cleaned paths, their elements,
  their parents, and the progress of \<open>PathDir\<close> that makes the ancestor loops return.
  A path is \<open>norm_path\<close> when it is a relative path of ordinary elements, the form every
  backend stores.  The theory closes with \<open>go_core\<close>, the environment built from the
  standard packages, and its interpretation of the interface.
\<close>

subsection \<open>Splitting and joining\<close>

lemma split_on_not_Nil [simp]: "split_on c s \<noteq> []"
  by (induction s) (auto split: list.splits)

lemma join_Cons: "ys \<noteq> [] \<Longrightarrow> join_with c (y # ys) = y @ c # join_with c ys"
  by (cases ys) auto

lemma join_Cons_Cons [simp]: "join_with c ((x # y) # ys) = x # join_with c (y # ys)"
  by (cases ys) auto

lemma join_split [simp]: "join_with c (split_on c s) = s"
proof (induction s)
  case (Cons x xs)
  then show ?case
    by (cases "split_on c xs") (auto simp: join_Cons)
qed simp

lemma split_on_no_sep: "c \<notin> set s \<Longrightarrow> split_on c s = [s]"
  by (induction s) auto

lemma split_on_append: "c \<notin> set s \<Longrightarrow> split_on c (s @ c # t) = s # split_on c t"
  by (induction s) auto

lemma split_join: "cs \<noteq> [] \<Longrightarrow> \<forall>x\<in>set cs. c \<notin> set x \<Longrightarrow> split_on c (join_with c cs) = cs"
  by (induction c cs rule: join_with.induct) (auto simp: split_on_no_sep split_on_append)

lemma split_on_elems: "x \<in> set (split_on c s) \<Longrightarrow> c \<notin> set x"
  by (induction s arbitrary: x) (auto split: if_splits list.splits)

lemma split_on_snoc: "split_on c (s @ [c]) = split_on c s @ [[]]"
  by (induction s) (auto split: list.splits)

lemma split_on_append_sep: "split_on c (s @ c # t) = split_on c s @ split_on c t"
  by (induction s) (auto split: list.splits)

lemma join_with_append:
  "xs \<noteq> [] \<Longrightarrow> ys \<noteq> [] \<Longrightarrow> join_with c (xs @ ys) = join_with c xs @ c # join_with c ys"
proof (induction c xs rule: join_with.induct)
  case (2 c x)
  then show ?case by (cases ys) auto
qed auto

lemma split2_nth:
  "split2 c s = (case split_on c s of [x] \<Rightarrow> [x] | x # ys \<Rightarrow> [x, join_with c ys])"
proof (cases "c \<in> set s")
  case True
  then obtain a b where s: "s = a @ c # b" "c \<notin> set a"
    by (meson split_list_first)
  have "takeWhile (\<lambda>x. x \<noteq> c) s = a" "dropWhile (\<lambda>x. x \<noteq> c) s = c # b"
    using s by (auto simp: takeWhile_append dropWhile_append takeWhile_eq_all_conv)
  then show ?thesis
    using s join_split [of c b]
    by (auto simp: split2_def split_on_append simp del: join_split split: list.split)
qed (simp add: split2_def split_on_no_sep)

subsection \<open>Length of cleaned paths\<close>

definition weight :: "string list \<Rightarrow> nat" where
  "weight cs = sum_list (map (\<lambda>c. Suc (length c)) cs)"

lemma weight_simps [simp]:
  "weight [] = 0" "weight (c # cs) = Suc (length c) + weight cs"
  "weight (cs @ ds) = weight cs + weight ds" "weight (rev cs) = weight cs"
  by (simp_all add: weight_def rev_map [symmetric])

lemma weight_split: "weight (split_on c s) = Suc (length s)"
  by (induction s) (auto split: list.splits)

lemma length_join: "length (join_with c cs) = weight cs - 1"
  by (induction c cs rule: join_with.induct) auto

lemma weight_filter: "weight (filter P cs) \<le> weight cs"
  by (induction cs) auto

lemma weight_clean_step: "weight (clean_step r stack c) \<le> weight stack + Suc (length c)"
  by (cases stack) (auto simp: clean_step_def)

lemma weight_foldl: "weight (foldl (clean_step r) stack cs) \<le> weight stack + weight cs"
proof (induction cs arbitrary: stack)
  case (Cons c cs)
  show ?case
    using Cons.IH [of "clean_step r stack c"] weight_clean_step [of r stack c] by simp
qed simp

lemma weight_clean: "weight (clean_elems r cs) \<le> weight cs"
  using weight_foldl [of r "[]" cs] by (simp add: clean_elems_def)

lemma path_elems_snoc: "path_elems (s @ ''/'') = path_elems s"
  by (simp add: path_elems_def split_on_snoc)

lemma path_elems_Cons: "path_elems (slash # s) = path_elems s"
  by (simp add: path_elems_def)

lemma weight_path_elems: "weight (path_elems s) \<le> Suc (length s)"
  using weight_filter [of _ "split_on slash s"] by (simp add: path_elems_def weight_split)

lemma length_clean_dir:
  assumes "s \<noteq> []"
  shows "length (path_clean (s @ ''/'')) \<le> length s"
proof -
  have *: "weight (clean_elems r (path_elems s)) \<le> Suc (length s)" for r
    using weight_clean weight_path_elems le_trans by blast
  show ?thesis
  proof (cases "is_rooted (s @ ''/'')")
    case True
    then obtain t where s: "s = slash # t"
      using assms by (cases s) (auto simp: is_rooted_def)
    have "weight (clean_elems True (path_elems t)) \<le> Suc (length t)"
      using weight_clean weight_path_elems le_trans by blast
    then show ?thesis
      using s True by (simp add: path_clean_def Let_def path_elems_Cons path_elems_snoc length_join)
  next
    case False
    then show ?thesis
      using assms * [of False] length_greater_0_conv [of s]
      by (auto simp: path_clean_def Let_def path_elems_snoc length_join Suc_le_eq
            simp del: length_greater_0_conv)
  qed
qed

lemma dir_part_cases: "dir_part p = [] \<or> (\<exists>s. dir_part p = s @ ''/'' \<and> prefix (s @ ''/'') p)"
proof (cases "dropWhile (\<lambda>c. c \<noteq> slash) (rev p)")
  case Nil
  then show ?thesis by (simp add: dir_part_def)
next
  case (Cons c t)
  then have c: "c = slash"
    using hd_dropWhile [of "\<lambda>c. c \<noteq> slash" "rev p"] by simp
  have "suffix (c # t) (rev p)"
    using suffix_dropWhile [of "\<lambda>c. c \<noteq> slash" "rev p"] Cons by simp
  then have "prefix (rev t @ ''/'') p"
    by (simp add: suffix_to_prefix c)
  then show ?thesis using Cons c by (auto simp: dir_part_def)
qed

lemma path_dir_progress: "path_dir p = ''.'' \<or> path_dir p = p \<or> length (path_dir p) < length p"
proof -
  consider "dir_part p = []" | s where "dir_part p = s @ ''/''" "prefix (s @ ''/'') p"
    using dir_part_cases by blast
  then show ?thesis
  proof cases
    case 1
    then show ?thesis by (simp add: path_dir_def path_clean_def is_rooted_def clean_elems_def path_elems_def)
  next
    case 2
    note len = prefix_length_le [OF 2(2)]
    show ?thesis
    proof (cases "s = []")
      case True
      then have "path_dir p = ''/''"
        using 2 by (simp add: path_dir_def path_clean_def is_rooted_def clean_elems_def path_elems_def)
      moreover have "p = ''/'' \<or> 1 < length p"
        using 2 True by (cases p; cases "tl p") auto
      ultimately show ?thesis by auto
    next
      case False
      then have "length (path_dir p) \<le> length s"
        using 2 by (simp add: path_dir_def length_clean_dir)
      then show ?thesis using len by simp
    qed
  qed
qed

subsection \<open>Cleaned relative paths\<close>

definition good_elem :: "string \<Rightarrow> bool" where
  "good_elem e \<longleftrightarrow> e \<noteq> [] \<and> e \<noteq> ''.'' \<and> e \<noteq> ''..'' \<and> slash \<notin> set e"

definition norm_path :: "string \<Rightarrow> bool" where
  "norm_path p \<longleftrightarrow> list_all good_elem (split_on slash p)"

lemma norm_pathE:
  assumes "norm_path p"
  obtains cs where "cs \<noteq> []" "list_all good_elem cs" "p = join_with slash cs" "split_on slash p = cs"
  using assms by (metis join_split norm_path_def split_on_not_Nil)

lemma norm_path_join:
  "cs \<noteq> [] \<Longrightarrow> list_all good_elem cs \<Longrightarrow> norm_path (join_with slash cs)"
  by (simp add: norm_path_def split_join list_all_iff good_elem_def)

lemma norm_path_not_Nil: "norm_path p \<Longrightarrow> p \<noteq> []"
  by (auto simp: norm_path_def good_elem_def)

lemma norm_path_not_dot: "norm_path p \<Longrightarrow> p \<noteq> ''.'' \<and> p \<noteq> ''..''"
  by (auto simp: norm_path_def good_elem_def)

lemma norm_path_hd: "norm_path p \<Longrightarrow> \<not> prefix ''/'' p"
  by (cases p) (auto simp: norm_path_def good_elem_def)

lemma foldl_clean_good:
  "list_all good_elem cs \<Longrightarrow> foldl (clean_step r) st cs = rev cs @ st"
  by (induction cs arbitrary: st) (auto simp: clean_step_def good_elem_def)

lemma clean_elems_good: "list_all good_elem cs \<Longrightarrow> clean_elems r cs = cs"
  by (simp add: clean_elems_def foldl_clean_good)

lemma path_elems_norm: "norm_path p \<Longrightarrow> path_elems p = split_on slash p"
  by (simp add: path_elems_def norm_path_def filter_id_conv list_all_iff good_elem_def)

lemma clean_norm [simp]: "norm_path p \<Longrightarrow> path_clean p = p"
  using norm_path_hd [of p] norm_path_not_Nil [of p]
  by (simp add: path_clean_def Let_def is_rooted_def path_elems_norm clean_elems_good norm_path_def)

lemma clean_rooted_norm [simp]: "norm_path p \<Longrightarrow> path_clean (slash # p) = slash # p"
  by (simp add: path_clean_def Let_def is_rooted_def path_elems_Cons path_elems_norm
      clean_elems_good norm_path_def)

text \<open>Cleaning a rooted path leaves no element that could climb out of the root.\<close>

lemma clean_step_rooted:
  "list_all good_elem st \<Longrightarrow> c \<noteq> [] \<Longrightarrow> c \<noteq> ''.'' \<Longrightarrow> slash \<notin> set c \<Longrightarrow>
   list_all good_elem (clean_step True st c)"
  by (cases st) (auto simp: clean_step_def good_elem_def)

lemma clean_elems_rooted:
  assumes "\<forall>c\<in>set cs. c \<noteq> [] \<and> c \<noteq> ''.'' \<and> slash \<notin> set c"
  shows "list_all good_elem (clean_elems True cs)"
proof -
  have "list_all good_elem st \<Longrightarrow> list_all good_elem (foldl (clean_step True) st cs)" for st
    using assms by (induction cs arbitrary: st) (auto intro: clean_step_rooted)
  from this [of "[]"] show ?thesis by (simp add: clean_elems_def list_all_iff)
qed

lemma path_elems_mem: "c \<in> set (path_elems p) \<Longrightarrow> c \<noteq> [] \<and> c \<noteq> ''.'' \<and> slash \<notin> set c"
  by (auto simp: path_elems_def dest: split_on_elems)

lemma clean_rooted_cases:
  "path_clean (slash # p) = ''/'' \<or> (\<exists>q. path_clean (slash # p) = slash # q \<and> norm_path q)"
proof -
  let ?cs = "clean_elems True (path_elems p)"
  have good: "list_all good_elem ?cs"
    by (rule clean_elems_rooted) (simp add: path_elems_mem)
  have eq: "path_clean (slash # p) = slash # join_with slash ?cs"
    by (simp add: path_clean_def is_rooted_def path_elems_Cons)
  show ?thesis
  proof (cases "?cs = []")
    case False
    then show ?thesis using eq good by (auto intro: norm_path_join)
  qed (simp add: eq)
qed

lemma clean_no_dotdot:
  assumes "\<not> prefix ''/'' p" "''..'' \<notin> set (split_on slash p)"
  shows "path_clean p = ''.'' \<or> norm_path (path_clean p)"
proof -
  have "list_all good_elem (path_elems p)"
    using assms(2) path_elems_mem [of _ p] by (auto simp: list_all_iff good_elem_def path_elems_def)
  then have "norm_path (join_with slash (path_elems p)) \<or> path_elems p = []"
    by (auto intro: norm_path_join)
  then show ?thesis
    using assms(1) \<open>list_all good_elem (path_elems p)\<close>
    by (auto simp: path_clean_def Let_def is_rooted_def clean_elems_good)
qed

subsection \<open>Parents\<close>

lemma dir_part_append: "slash \<notin> set b \<Longrightarrow> dir_part (d @ slash # b) = d @ ''/''"
  by (simp add: dir_part_def dropWhile_append)

lemma dir_part_plain: "slash \<notin> set b \<Longrightarrow> dir_part b = []"
  by (simp add: dir_part_def dropWhile_eq_Nil_conv) metis

lemma path_dir_plain [simp]: "slash \<notin> set b \<Longrightarrow> path_dir b = ''.''"
  by (simp add: path_dir_def dir_part_plain path_clean_def is_rooted_def clean_elems_def path_elems_def)

lemma path_dir_norm:
  assumes "norm_path d" "slash \<notin> set b"
  shows "path_dir (d @ slash # b) = d"
proof -
  have "is_rooted (d @ ''/'') = is_rooted d"
    using norm_path_not_Nil [OF assms(1)] by (cases d) (auto simp: is_rooted_def)
  then have "path_clean (d @ ''/'') = path_clean d"
    by (simp add: path_clean_def path_elems_snoc)
  then show ?thesis
    using assms by (simp add: path_dir_def dir_part_append)
qed

lemma norm_path_append:
  "norm_path (d @ slash # b) \<longleftrightarrow> norm_path d \<and> norm_path b"
  by (simp add: norm_path_def split_on_append_sep)

subsection \<open>The chain of parents\<close>

text \<open>
  The directories that the ancestor loops of the code visit from a path on: the path itself,
  its parent and so on, until \<open>.\<close> or a path that is its own parent.
\<close>

function parents :: "string \<Rightarrow> string list" where
  "parents p =
     (if p = ''.'' \<or> p = '''' then []
      else if path_dir p = p then [p] else p # parents (path_dir p))"
  by pat_completeness auto
termination
  using path_dir_progress
  by (relation "measure (\<lambda>p. if p = ''.'' then 0 else Suc (length p))") auto

declare parents.simps [simp del]

lemma parents_stop [simp]: "parents ''.'' = []" "parents '''' = []"
  by (simp_all add: parents.simps)

lemma parents_step:
  "p \<noteq> ''.'' \<Longrightarrow> p \<noteq> '''' \<Longrightarrow> path_dir p \<noteq> p \<Longrightarrow> parents p = p # parents (path_dir p)"
  by (simp add: parents.simps [of p])

lemma parents_not_stop: "a \<in> set (parents p) \<Longrightarrow> a \<noteq> ''.'' \<and> a \<noteq> ''''"
proof (induction p rule: parents.induct)
  case (1 p)
  then show ?case by (auto simp: parents.simps [of p] split: if_splits)
qed

lemma parents_length: "a \<in> set (parents p) \<Longrightarrow> length a \<le> length p"
proof (induction p rule: parents.induct)
  case (1 p)
  show ?case
  proof (cases "p = ''.'' \<or> p = '''' \<or> path_dir p = p \<or> a = p")
    case True
    then show ?thesis using "1.prems" by (auto simp: parents.simps [of p] split: if_splits)
  next
    case False
    then have a: "a \<in> set (parents (path_dir p))"
      using "1.prems" by (simp add: parents.simps [of p])
    then have "length a \<le> length (path_dir p)" using "1.IH" False by blast
    moreover have "path_dir p \<noteq> ''.''" using a by auto
    ultimately show ?thesis using path_dir_progress [of p] False by auto
  qed
qed

lemma parents_trans: "a \<in> set (parents p) \<Longrightarrow> b \<in> set (parents a) \<Longrightarrow> b \<in> set (parents p)"
proof (induction p rule: parents.induct)
  case (1 p)
  show ?case
  proof (cases "p = ''.'' \<or> p = '''' \<or> path_dir p = p \<or> a = p")
    case True
    then show ?thesis using "1.prems" by (auto simp: parents.simps [of p] split: if_splits)
  next
    case False
    then show ?thesis
      using 1 by (auto simp: parents.simps [of p])
  qed
qed

text \<open>Marking directories in a set kept as a map, as the ancestor loops do.\<close>

abbreviation ancestors :: "string \<Rightarrow> string list" where
  "ancestors p \<equiv> parents (path_dir p)"

definition mark_dirs :: "string list \<Rightarrow> (string, bool) fmap \<Rightarrow> (string, bool) fmap" where
  "mark_dirs as ds = fold (\<lambda>a. fmupd a True) as ds"

lemma mark_dirs_lookup [simp]:
  "fmlookup (mark_dirs as ds) k = (if k \<in> set as then Some True else fmlookup ds k)"
  unfolding mark_dirs_def by (induction as arbitrary: ds) auto

text \<open>The parents of a cleaned relative path are the prefixes that end before a slash.\<close>

lemma parents_norm:
  "norm_path p \<Longrightarrow> a \<in> set (parents p) \<longleftrightarrow> a = p \<or> (a \<noteq> [] \<and> prefix (a @ ''/'') p)"
proof (induction p rule: parents.induct)
  case (1 p)
  note np = norm_path_not_dot [OF "1.prems"] norm_path_not_Nil [OF "1.prems"]
  show ?case
  proof (cases "slash \<in> set p")
    case False
    then have "parents p = [p]"
      using np by (simp add: parents.simps [of p])
    moreover have "\<not> prefix (a @ ''/'') p"
      using False by (auto simp: prefix_def)
    ultimately show ?thesis by simp
  next
    case True
    then obtain d b where p: "p = d @ slash # b" "slash \<notin> set b"
      by (meson split_list_last)
    have nd: "norm_path d" and pd: "path_dir p = d"
      using "1.prems" p by (auto simp: norm_path_append path_dir_norm)
    have "path_dir p \<noteq> p" using pd p by auto
    then have step: "parents p = p # parents d"
      using np pd by (simp add: parents_step)
    have IH: "a \<in> set (parents d) \<longleftrightarrow> a = d \<or> (a \<noteq> [] \<and> prefix (a @ ''/'') d)"
      using "1.IH" np pd p nd by auto
    have "prefix (a @ ''/'') p \<longleftrightarrow> a = d \<or> prefix (a @ ''/'') d"
    proof
      assume "prefix (a @ ''/'') p"
      then obtain z where "d @ slash # b = a @ slash # z" using p by (auto simp: prefix_def)
      then show "a = d \<or> prefix (a @ ''/'') d"
        using p(2) by (auto simp: append_eq_append_conv2 Cons_eq_append_conv
            append_eq_Cons_conv prefix_def)
    qed (auto simp: p prefix_def)
    then show ?thesis
      using step IH norm_path_not_Nil [OF nd] by auto
  qed
qed

lemma norm_dir_parents:
  assumes "norm_path p" "a \<in> set (ancestors p)"
  shows "norm_path a"
proof (cases "slash \<in> set p")
  case False
  then show ?thesis using assms(2) by simp
next
  case True
  then obtain d b where p: "p = d @ slash # b" "slash \<notin> set b" by (meson split_list_last)
  then have nd: "norm_path d" "path_dir p = d" using assms(1) by (auto simp: norm_path_append path_dir_norm)
  then have "a = d \<or> prefix (a @ ''/'') d" using parents_norm assms(2) by auto
  then show ?thesis
  proof
    assume "prefix (a @ ''/'') d"
    then obtain z where "d = a @ slash # z" by (auto simp: prefix_def)
    then show ?thesis using nd(1) by (simp add: norm_path_append)
  qed (use nd in simp)
qed

subsection \<open>The environment of the standard packages\<close>

definition is_space :: "char \<Rightarrow> bool" where
  "is_space c \<longleftrightarrow> (of_char c :: nat) \<in> {9, 10, 11, 12, 13, 32}"

definition trim_space :: "string \<Rightarrow> string" where
  "trim_space s = rev (dropWhile is_space (rev (dropWhile is_space s)))"

definition lower_char :: "char \<Rightarrow> char" where
  "lower_char c = (if 65 \<le> (of_char c :: nat) \<and> (of_char c :: nat) \<le> 90
     then char_of (of_char c + (32 :: nat)) else c)"

definition split_str :: "string \<Rightarrow> string \<Rightarrow> string list" where
  "split_str s sep = (case sep of [c] \<Rightarrow> split_on c s | _ \<Rightarrow> [s])"

definition splitN_str :: "string \<Rightarrow> string \<Rightarrow> nat \<Rightarrow> string list" where
  "splitN_str s sep n = (case sep of [c] \<Rightarrow> if n = 2 then split2 c s else split_on c s | _ \<Rightarrow> [s])"

definition replace_str :: "string \<Rightarrow> string \<Rightarrow> string \<Rightarrow> string" where
  "replace_str s a b = (case (a, b) of ([x], [y]) \<Rightarrow> replace_char x y s | _ \<Rightarrow> s)"

fun join_str :: "string \<Rightarrow> string list \<Rightarrow> string" where
  "join_str sep [] = []"
| "join_str sep [s] = s"
| "join_str sep (s # ss) = s @ sep @ join_str sep ss"

definition go_core :: go_env where
  "go_core = \<lparr>HasPrefix = (\<lambda>s p. prefix p s), HasSuffix = (\<lambda>s p. suffix p s),
     TrimPrefix = trim_prefix, TrimSuffix = trim_suffix,
     Contains = (\<lambda>s p. sublist p s), Split = split_str, SplitN = splitN_str,
     Concat = concat, Replace = replace_str, Trim = trim_space, Lower = map lower_char,
     PathDir = path_dir, PathBase = path_base, PathJoin = path_join,
     CleanPath = (\<lambda>p _. path_clean p),
     Path = (\<lambda>ps. path_clean (join_with slash ps)), PathIsAbs = is_rooted, Join = join_str, range_keys = sorted_list_of_fset\<rparr>"

lemma printable_not_space: "printable c \<Longrightarrow> \<not> is_space c"
  by (auto simp: printable_def is_space_def)

lemma trim_space_sublist: "sublist (trim_space s) s"
proof -
  have "suffix (dropWhile is_space (rev (dropWhile is_space s))) (rev (dropWhile is_space s))"
    by (rule suffix_dropWhile)
  then have "prefix (trim_space s) (dropWhile is_space s)"
    by (simp add: suffix_to_prefix trim_space_def)
  then show ?thesis
    by (meson prefix_imp_sublist sublist_order.order_trans suffix_dropWhile suffix_imp_sublist)
qed

lemma trim_space_id:
  assumes "s \<noteq> []" "printable (hd s)" "printable (last s)"
  shows "trim_space s = s"
proof -
  have "dropWhile is_space s = s"
    using assms by (cases s) (auto dest: printable_not_space)
  moreover have "dropWhile is_space (rev s) = rev s"
    using assms by (cases s rule: rev_cases) (auto dest: printable_not_space)
  ultimately show ?thesis by (simp add: trim_space_def)
qed

interpretation core: go_runtime go_core
  by unfold_locales
    (simp_all add: go_core_def split_str_def splitN_str_def replace_str_def
      trim_space_sublist trim_space_id sorted_list_of_fset.rep_eq)

lemmas go_core_ok = core.go_runtime_axioms

text \<open>The environment that ranges over the keys in decreasing order.\<close>

definition backwards :: go_env where
  "backwards = go_core\<lparr>range_keys := \<lambda>A. rev (sorted_list_of_fset A)\<rparr>"

lemma backwards_ok: "go_runtime backwards"
  using go_core_ok by (simp add: go_runtime_def backwards_def sorted_list_of_fset.rep_eq)

end
