(* ===== verification/Medium.thy ===== *)
theory Medium
  imports Paths "HOL-Library.Multiset"
begin

text \<open>
  The shared vocabulary of the mediums (\<open>go/io.go\<close>): file infos and directory entries, the
  sort of \<open>go/internal/fsutil\<close>, the \<open>Medium\<close> interface as a record of its methods, the
  contract a medium keeps between writing and reading (locale \<open>read_write\<close>), and
  \<open>Copy\<close>, which works on any two mediums.
\<close>

subsection \<open>FileInfo and DirEntry\<close>

record file_info =
  fi_name :: string
  fi_size :: int
  fi_mode :: file_mode
  fi_modTime :: gotime
  fi_isDir :: bool

record dir_entry =
  de_name :: string
  de_isDir :: bool
  de_mode :: file_mode
  de_info :: file_info

definition NewFileInfo :: "string \<Rightarrow> int \<Rightarrow> file_mode \<Rightarrow> gotime \<Rightarrow> bool \<Rightarrow> file_info" where
  "NewFileInfo name sz mode modTime isDir =
     \<lparr>fi_name = name, fi_size = sz, fi_mode = mode, fi_modTime = modTime, fi_isDir = isDir\<rparr>"

definition NewDirEntry :: "string \<Rightarrow> bool \<Rightarrow> file_mode \<Rightarrow> file_info \<Rightarrow> dir_entry" where
  "NewDirEntry name isDir mode info =
     \<lparr>de_name = name, de_isDir = isDir, de_mode = mode, de_info = info\<rparr>"

definition DirEntry_Type :: "dir_entry \<Rightarrow> file_mode" where
  "DirEntry_Type e = de_mode e AND ModeType"

lemma NewDirEntry_simps [simp]:
  "de_name (NewDirEntry n d m i) = n" "de_isDir (NewDirEntry n d m i) = d"
  "de_mode (NewDirEntry n d m i) = m" "de_info (NewDirEntry n d m i) = i"
  by (simp_all add: NewDirEntry_def)

lemma NewFileInfo_simps [simp]:
  "fi_name (NewFileInfo n z m t d) = n" "fi_size (NewFileInfo n z m t d) = z"
  "fi_mode (NewFileInfo n z m t d) = m" "fi_modTime (NewFileInfo n z m t d) = t"
  "fi_isDir (NewFileInfo n z m t d) = d"
  by (simp_all add: NewFileInfo_def)

subsection \<open>SortDirEntriesByName\<close>

text \<open>
  The insertion sort of \<open>fsutil\<close>, on the slice it works in.  \<open>nm\<close> is the \<open>Name\<close> method of
  the entries.  The inner loop runs with \<open>j = i - 1\<close> downwards to \<open>-1\<close>; the model counts
  \<open>j + 1\<close>, which stays a natural number, and returns it with the shifted slice.  All
  indices the loops use are in range.
\<close>

fun shift_loop :: "('e \<Rightarrow> string) \<Rightarrow> 'e \<Rightarrow> 'e list \<Rightarrow> nat \<Rightarrow> 'e list \<times> nat" where
  "shift_loop nm entry es 0 = (es, 0)"
| "shift_loop nm entry es (Suc j) =
     (if nm (es ! j) > nm entry then shift_loop nm entry (es[Suc j := es ! j]) j
      else (es, Suc j))"

definition sort_round :: "('e \<Rightarrow> string) \<Rightarrow> nat \<Rightarrow> 'e list \<Rightarrow> 'e list" where
  "sort_round nm i es =
     (let entry = es ! i; (es', k) = shift_loop nm entry es i in es'[k := entry])"

definition SortDirEntriesByName :: "('e \<Rightarrow> string) \<Rightarrow> 'e list \<Rightarrow> 'e list" where
  "SortDirEntriesByName nm es = fold (sort_round nm) [1..<length es] es"

definition insert_after :: "('e \<Rightarrow> string) \<Rightarrow> 'e \<Rightarrow> 'e list \<Rightarrow> 'e list" where
  "insert_after nm x ys =
     takeWhile (\<lambda>y. nm y \<le> nm x) ys @ x # dropWhile (\<lambda>y. nm y \<le> nm x) ys"

lemma shift_loop_eq:
  assumes "sorted (map nm xs)"
  shows "(let (es, k) = shift_loop nm e (xs @ y # zs) (length xs) in es[k := e])
     = insert_after nm e xs @ zs"
  using assms
proof (induction xs arbitrary: y zs rule: rev_induct)
  case Nil
  then show ?case by (simp add: insert_after_def)
next
  case (snoc x xs)
  have srt: "sorted (map nm xs)" and le: "\<forall>u\<in>set xs. nm u \<le> nm x"
    using snoc.prems by (auto simp: sorted_append)
  show ?case
  proof (cases "nm x > nm e")
    case True
    have step: "shift_loop nm e ((xs @ [x]) @ y # zs) (length (xs @ [x]))
        = shift_loop nm e (xs @ x # x # zs) (length xs)"
      using True by (simp add: nth_append list_update_append)
    have "insert_after nm e (xs @ [x]) = insert_after nm e xs @ [x]"
      using True by (simp add: insert_after_def takeWhile_tail dropWhile_append3 not_le)
    then show ?thesis
      unfolding step using snoc.IH [OF srt, of x "x # zs"] by simp
  next
    case False
    have all: "\<forall>u\<in>set (xs @ [x]). nm u \<le> nm e"
      using False le by (auto simp: not_less intro: order_trans)
    then have "takeWhile (\<lambda>y. nm y \<le> nm e) (xs @ [x]) = xs @ [x]"
      by (simp add: takeWhile_eq_all_conv)
    moreover have "dropWhile (\<lambda>y. nm y \<le> nm e) (xs @ [x]) = []"
      using all by (simp add: dropWhile_eq_Nil_conv)
    ultimately have "insert_after nm e (xs @ [x]) = xs @ [x] @ [e]"
      unfolding insert_after_def by (metis append.assoc)
    then show ?thesis
      using False by (simp add: nth_append list_update_append)
  qed
qed

lemma sort_round_eq:
  "sorted (map nm xs) \<Longrightarrow>
   sort_round nm (length xs) (xs @ y # zs) = insert_after nm y xs @ zs"
  using shift_loop_eq [of nm xs y y zs] by (simp add: sort_round_def Let_def)

lemma sorted_insert_after: "sorted (map nm ys) \<Longrightarrow> sorted (map nm (insert_after nm x ys))"
proof (induction ys)
  case (Cons y ys)
  show ?case
  proof (cases "nm y \<le> nm x")
    case True
    have "set (insert_after nm x ys) = insert x (set ys)"
      by (auto simp: insert_after_def dest: set_takeWhileD set_dropWhileD)
         (metis UnE append_eq_conv_conj set_append takeWhile_dropWhile_id)
    moreover have "insert_after nm x (y # ys) = y # insert_after nm x ys"
      using True by (simp add: insert_after_def)
    ultimately show ?thesis using Cons True by auto
  next
    case False
    then show ?thesis using Cons.prems
      by (auto simp: insert_after_def not_le intro: less_imp_le order_trans)
  qed
qed (simp add: insert_after_def)

lemma mset_insert_after: "mset (insert_after nm x ys) = add_mset x (mset ys)"
proof -
  have "mset ys = mset (takeWhile (\<lambda>y. nm y \<le> nm x) ys @ dropWhile (\<lambda>y. nm y \<le> nm x) ys)"
    by simp
  then show ?thesis by (simp add: insert_after_def del: takeWhile_dropWhile_id)
qed

lemma filter_insert_after:
  assumes "sorted (map nm ys)"
  shows "filter (\<lambda>y. nm k = nm y) (insert_after nm x ys) = filter (\<lambda>y. nm k = nm y) (ys @ [x])"
proof -
  have ys: "ys = takeWhile (\<lambda>y. nm y \<le> nm x) ys @ dropWhile (\<lambda>y. nm y \<le> nm x) ys" by simp
  have "nm k = nm x \<Longrightarrow> filter (\<lambda>y. nm k = nm y) (dropWhile (\<lambda>y. nm y \<le> nm x) ys) = []"
    using assms
  proof (induction ys)
    case (Cons y ys)
    then show ?case by (auto simp: filter_empty_conv not_le)
  qed simp
  then show ?thesis
    by (subst (2) ys, unfold insert_after_def) (auto simp del: takeWhile_dropWhile_id)
qed

lemma sort_key_snoc: "sort_key nm (xs @ [x]) = insert_after nm x (sort_key nm xs)"
proof (rule properties_for_sort_key)
  show "mset (insert_after nm x (sort_key nm xs)) = mset (xs @ [x])"
    by (simp add: mset_insert_after)
  show "sorted (map nm (insert_after nm x (sort_key nm xs)))"
    by (rule sorted_insert_after) simp
  show "filter (\<lambda>y. nm k = nm y) (insert_after nm x (sort_key nm xs))
      = filter (\<lambda>y. nm k = nm y) (xs @ [x])" for k
    using sort_key_stable [of nm "nm k" xs]
    by (subst filter_insert_after) (simp_all add: eq_commute [of _ "nm k"])
qed

lemma fold_sort_round:
  "i < length es \<Longrightarrow>
   fold (sort_round nm) [1..<Suc i] es = sort_key nm (take (Suc i) es) @ drop (Suc i) es"
proof (induction i)
  case 0
  then show ?case by (cases es) simp_all
next
  case (Suc i)
  have d: "drop (Suc i) es = es ! Suc i # drop (Suc (Suc i)) es"
    using Suc.prems by (metis Cons_nth_drop_Suc)
  have "length (sort_key nm (take (Suc i) es)) = Suc i" using Suc.prems by simp
  then have "sort_round nm (Suc i) (sort_key nm (take (Suc i) es) @ drop (Suc i) es)
      = insert_after nm (es ! Suc i) (sort_key nm (take (Suc i) es)) @ drop (Suc (Suc i)) es"
    unfolding d by (metis sort_round_eq sorted_sort_key)
  moreover have "take (Suc (Suc i)) es = take (Suc i) es @ [es ! Suc i]"
    using Suc.prems by (rule take_Suc_conv_app_nth)
  moreover have "fold (sort_round nm) [1..<Suc (Suc i)] es
      = sort_round nm (Suc i) (fold (sort_round nm) [1..<Suc i] es)"
    by simp
  ultimately show ?case
    using Suc.IH Suc.prems by (simp only: sort_key_snoc Suc_lessD)
qed

lemma SortDirEntriesByName_sort_key: "SortDirEntriesByName nm es = sort_key nm es"
proof (cases es rule: rev_cases)
  case (snoc ys y)
  then show ?thesis
    using fold_sort_round [of "length ys" es nm] by (simp add: SortDirEntriesByName_def)
qed (simp add: SortDirEntriesByName_def)

subsection \<open>The Medium interface\<close>

text \<open>
  A value of the Go interface \<open>Medium\<close> is the record of its methods over the state \<open>'s\<close> of
  the backend; \<open>'f\<close>, \<open>'r\<close> and \<open>'w\<close> are its files, readers and writers.  A method that
  stamps a time takes what \<open>time.Now()\<close> returns during the call as its first argument.
  Opening a writer may change the state: a file system creates or truncates the file.
\<close>

record ('s, 'f, 'r, 'w) medium =
  m_Read :: "string \<Rightarrow> 's \<Rightarrow> string res"
  m_Write :: "gotime \<Rightarrow> string \<Rightarrow> string \<Rightarrow> 's \<Rightarrow> gerr option \<times> 's"
  m_WriteMode :: "gotime \<Rightarrow> string \<Rightarrow> string \<Rightarrow> file_mode \<Rightarrow> 's \<Rightarrow> gerr option \<times> 's"
  m_EnsureDir :: "string \<Rightarrow> 's \<Rightarrow> gerr option \<times> 's"
  m_IsFile :: "string \<Rightarrow> 's \<Rightarrow> bool"
  m_Delete :: "string \<Rightarrow> 's \<Rightarrow> gerr option \<times> 's"
  m_DeleteAll :: "string \<Rightarrow> 's \<Rightarrow> gerr option \<times> 's"
  m_Rename :: "string \<Rightarrow> string \<Rightarrow> 's \<Rightarrow> gerr option \<times> 's"
  m_List :: "gotime \<Rightarrow> string \<Rightarrow> 's \<Rightarrow> dir_entry list res"
  m_Stat :: "gotime \<Rightarrow> string \<Rightarrow> 's \<Rightarrow> file_info res"
  m_Open :: "gotime \<Rightarrow> string \<Rightarrow> 's \<Rightarrow> 'f res"
  m_Create :: "string \<Rightarrow> 's \<Rightarrow> 'w res \<times> 's"
  m_Append :: "string \<Rightarrow> 's \<Rightarrow> 'w res \<times> 's"
  m_ReadStream :: "gotime \<Rightarrow> string \<Rightarrow> 's \<Rightarrow> 'r res"
  m_WriteStream :: "string \<Rightarrow> 's \<Rightarrow> 'w res \<times> 's"
  m_Exists :: "string \<Rightarrow> 's \<Rightarrow> bool"
  m_IsDir :: "string \<Rightarrow> 's \<Rightarrow> bool"

text \<open>A writer that buffers what it is given until it is closed is opened without an effect.\<close>

definition pure_open :: "(string \<Rightarrow> 's \<Rightarrow> 'w res) \<Rightarrow> string \<Rightarrow> 's \<Rightarrow> 'w res \<times> 's" where
  "pure_open f p s = (f p s, s)"

text \<open>
  \<open>Copy\<close> reads the source, takes its mode from \<open>Stat\<close> (0644 when that fails) and writes the
  destination, whose state it returns.
\<close>

definition Copy ::
  "('s, 'f, 'r, 'w) medium \<Rightarrow> 's \<Rightarrow> string \<Rightarrow> ('t, 'g, 'q, 'v) medium \<Rightarrow> gotime \<Rightarrow> string
     \<Rightarrow> 't \<Rightarrow> gerr option \<times> 't" where
  "Copy src s sourcePath dst now destinationPath d =
     (case m_Read src sourcePath s of
        Inl err \<Rightarrow> (Some (CoreE ''io.Copy'' [''read failed: '', sourcePath] (Some err)), d)
      | Inr content \<Rightarrow>
          (let mode = (case m_Stat src now sourcePath s of Inr info \<Rightarrow> fi_mode info | Inl _ \<Rightarrow> 420)
           in case m_WriteMode dst now destinationPath content mode d of
                (Some err, d') \<Rightarrow>
                  (Some (CoreE ''io.Copy'' [''write failed: '', destinationPath] (Some err)), d')
              | (None, d') \<Rightarrow> (None, d')))"

subsection \<open>The contract between writing and reading\<close>

text \<open>
  What a client may rely on: after a write that succeeded a read of the path returns the
  content, a path with another key reads as before, and a write that failed changes no read.
  \<open>key\<close> is the name a medium stores a path under, \<open>valid\<close> holds for the paths that can be
  written at all.
\<close>

locale read_write =
  fixes M :: "('s, 'f, 'r, 'w) medium"
    and inv :: "'s \<Rightarrow> bool"
    and key :: "string \<Rightarrow> 'k"
    and valid :: "string \<Rightarrow> bool"
  assumes write_inv: "inv s \<Longrightarrow> m_WriteMode M now p c md s = (e, s') \<Longrightarrow> inv s'"
    and read_written: "inv s \<Longrightarrow> valid p \<Longrightarrow> m_WriteMode M now p c md s = (None, s') \<Longrightarrow> m_Read M p s' = Inr c"
    and read_other: "inv s \<Longrightarrow> m_WriteMode M now p c md s = (e, s') \<Longrightarrow>
      key q \<noteq> key p \<or> e \<noteq> None \<Longrightarrow> m_Read M q s' = m_Read M q s"
    and write_default: "m_Write M now p c s = m_WriteMode M now p c 420 s"
begin

text \<open>Reading twice the same path, or its source after a copy within one medium.\<close>

lemma copy_reads_back:
  assumes "inv d" "valid dp" "Copy src s sp M now dp d = (None, d')"
  shows "m_Read M dp d' = m_Read src sp s"
  using assms
  by (auto simp: Copy_def Let_def split: sum.splits prod.splits option.splits dest: read_written)

lemma copy_frame:
  assumes "inv d" "Copy src s sp M now dp d = (e, d')" "key q \<noteq> key dp \<or> e \<noteq> None"
  shows "m_Read M q d' = m_Read M q d"
  using assms
  by (auto simp: Copy_def Let_def split: sum.splits prod.splits option.splits intro: read_other)

lemma copy_inv:
  assumes "inv d" "Copy src s sp M now dp d = (e, d')"
  shows "inv d'"
  using assms
  by (auto simp: Copy_def Let_def split: sum.splits prod.splits option.splits intro: write_inv)

end

context read_write
begin

text \<open>A loop of writes: what it wrote can be read, everything else is as it was.\<close>

lemma each_write:
  assumes "inv t" "\<forall>k\<in>set ks. valid (d k)" "distinct (map (\<lambda>k. key (d k)) ks)"
    "each (\<lambda>k. m_Write M now (d k) (c k)) ks t = (None, t')"
  shows "(\<forall>k\<in>set ks. m_Read M (d k) t' = Inr (c k)) \<and>
    (\<forall>q. key q \<notin> (\<lambda>k. key (d k)) ` set ks \<longrightarrow> m_Read M q t' = m_Read M q t)"
  using assms
proof (induction ks arbitrary: t)
  case (Cons k ks)
  obtain t1 where w: "m_WriteMode M now (d k) (c k) 420 t = (None, t1)"
    and rest: "each (\<lambda>k. m_Write M now (d k) (c k)) ks t1 = (None, t')"
    using Cons.prems(4) by (auto simp: write_default [of now "d k" "c k" t] split: prod.splits option.splits)
  have IH: "(\<forall>k\<in>set ks. m_Read M (d k) t' = Inr (c k)) \<and>
    (\<forall>q. key q \<notin> (\<lambda>k. key (d k)) ` set ks \<longrightarrow> m_Read M q t' = m_Read M q t1)"
    using Cons.prems(2,3) write_inv [OF Cons.prems(1) w] rest by (intro Cons.IH) auto
  have "m_Read M (d k) t' = Inr (c k)"
    using IH Cons.prems(1,2,3) read_written [OF Cons.prems(1) _ w] by auto
  moreover have "m_Read M q t' = m_Read M q t" if "key q \<notin> (\<lambda>k. key (d k)) ` set (k # ks)" for q
    using IH that read_other [OF Cons.prems(1) w, of q] by auto
  ultimately show ?case using IH by auto
qed simp

end

subsection \<open>Buffered files\<close>

text \<open>
  \<open>MemoryFile\<close>: the content a medium hands out, read from an offset.  \<open>Read\<close> with a buffer
  of \<open>n\<close> bytes returns the bytes copied, or \<open>io.EOF\<close> at the end.
\<close>

record memory_file =
  mf_name :: string
  mf_content :: string
  mf_offset :: nat
  mf_mode :: file_mode
  mf_modTime :: gotime

definition MemoryFile_Stat :: "memory_file \<Rightarrow> file_info res" where
  "MemoryFile_Stat file =
     Inr (NewFileInfo (mf_name file) (int (length (mf_content file))) (mf_mode file)
       (mf_modTime file) False)"

definition MemoryFile_Read :: "nat \<Rightarrow> memory_file \<Rightarrow> string res \<times> memory_file" where
  "MemoryFile_Read n file =
     (if mf_offset file \<ge> length (mf_content file) then (Inl ErrEOF, file)
      else let chunk = take n (drop (mf_offset file) (mf_content file))
           in (Inr chunk, file\<lparr>mf_offset := mf_offset file + length chunk\<rparr>))"

definition MemoryFile_Close :: "memory_file \<Rightarrow> gerr option" where
  "MemoryFile_Close file = None"

text \<open>
  \<open>io.ReadAll\<close> reads with buffers of the sizes \<open>ns\<close> until the end of file; \<open>None\<close> when the
  sizes run out first.
\<close>

fun read_all :: "nat list \<Rightarrow> memory_file \<Rightarrow> string option" where
  "read_all [] f = None"
| "read_all (n # ns) f =
     (case MemoryFile_Read n f of
        (Inl _, f') \<Rightarrow> Some []
      | (Inr chunk, f') \<Rightarrow> map_option ((@) chunk) (read_all ns f'))"

lemma read_all_content:
  "list_all (\<lambda>n. 0 < n) ns \<Longrightarrow> length (mf_content f) - mf_offset f < length ns \<Longrightarrow>
   read_all ns f = Some (drop (mf_offset f) (mf_content f))"
proof (induction ns arbitrary: f)
  case (Cons n ns)
  show ?case
  proof (cases "mf_offset f \<ge> length (mf_content f)")
    case False
    let ?f = "f\<lparr>mf_offset := mf_offset f + min (length (mf_content f) - mf_offset f) n\<rparr>"
    have "read_all ns ?f = Some (drop (mf_offset ?f) (mf_content ?f))"
      using Cons False by (intro Cons.IH) auto
    moreover have "take n (drop (mf_offset f) (mf_content f)) @ drop (mf_offset ?f) (mf_content f)
        = drop (mf_offset f) (mf_content f)"
      using append_take_drop_id [of n "drop (mf_offset f) (mf_content f)"]
      by (cases "n \<le> length (mf_content f) - mf_offset f") (simp_all add: min_def add.commute)
    ultimately show ?thesis using False by (simp add: MemoryFile_Read_def Let_def)
  qed (simp add: MemoryFile_Read_def)
qed simp

end
