(* ===== verification/Listing.thy ===== *)
theory Listing
  imports Medium
begin

text \<open>
  The listing loops of the in-memory mediums: each visits the keys of a map in the runtime's
  order, derives at most one directory entry from a key and appends it unless its name was
  \<open>seen\<close>.  When all keys that give a name give the same entry, the collected entries do not
  depend on the order, and neither does their sorted list.
\<close>

text \<open>The \<open>seen\<close> map (the names that are true in it) and the entries collected so far.\<close>

type_synonym listing = "string set \<times> dir_entry list"

definition add_entry :: "string \<Rightarrow> dir_entry \<Rightarrow> listing \<Rightarrow> listing" where
  "add_entry name entry acc =
     (if name \<in> fst acc then acc else (insert name (fst acc), snd acc @ [entry]))"

definition add_cand :: "(string \<times> dir_entry) option \<Rightarrow> listing \<Rightarrow> listing" where
  "add_cand c acc = (case c of None \<Rightarrow> acc | Some (n, e) \<Rightarrow> add_entry n e acc)"

lemma add_cand_simps [simp]:
  "add_cand None acc = acc" "add_cand (Some (n, e)) acc = add_entry n e acc"
  by (simp_all add: add_cand_def)

definition cands :: "('k \<Rightarrow> (string \<times> dir_entry) option) \<Rightarrow> 'k set \<Rightarrow> (string \<times> dir_entry) set" where
  "cands f A = {c. \<exists>k\<in>A. f k = Some c}"

lemma cands_iff: "c \<in> cands f A \<longleftrightarrow> (\<exists>k\<in>A. f k = Some c)"
  by (simp add: cands_def)

definition functional :: "(string \<times> dir_entry) set \<Rightarrow> bool" where
  "functional C \<longleftrightarrow> (\<forall>n e e'. (n, e) \<in> C \<longrightarrow> (n, e') \<in> C \<longrightarrow> e = e')"

definition named :: "(string \<times> dir_entry) set \<Rightarrow> bool" where
  "named C \<longleftrightarrow> (\<forall>n e. (n, e) \<in> C \<longrightarrow> de_name e = n)"

lemma functional_mono: "functional D \<Longrightarrow> C \<subseteq> D \<Longrightarrow> functional C"
  by (auto simp: functional_def)

lemma functionalD: "functional C \<Longrightarrow> (n, e) \<in> C \<Longrightarrow> (n, e') \<in> C \<Longrightarrow> e = e'"
  by (auto simp: functional_def)

text \<open>What the accumulator holds after the candidates \<open>C\<close> were offered.\<close>

definition collected :: "(string \<times> dir_entry) set \<Rightarrow> listing \<Rightarrow> bool" where
  "collected C acc \<longleftrightarrow> fst acc = fst ` C \<and> set (snd acc) = snd ` C \<and>
     distinct (map de_name (snd acc)) \<and> de_name ` set (snd acc) = fst acc"

lemma collectedD:
  assumes "collected C acc"
  shows "fst acc = fst ` C" "set (snd acc) = snd ` C" "distinct (map de_name (snd acc))"
    "de_name ` set (snd acc) = fst acc"
  using assms unfolding collected_def by blast+

lemma collected_empty [simp]: "collected {} ({}, [])"
  by (simp add: collected_def)

lemma collected_insert:
  assumes "collected C acc" "functional (insert (n, e) C)" "de_name e = n"
  shows "collected (insert (n, e) C) (add_entry n e acc)"
proof (cases "n \<in> fst acc")
  case True
  then obtain e' where "(n, e') \<in> C" using assms(1) by (force simp: collected_def)
  then have "e' = e" using functionalD [OF assms(2), of n e' e] by simp
  then show ?thesis
    using assms(1) True \<open>(n, e') \<in> C\<close> by (simp add: add_entry_def insert_absorb)
next
  case False
  have "de_name ` set (snd acc) = fst acc" using assms(1) by (rule collectedD)
  then have "n \<notin> de_name ` set (snd acc)" using False by simp
  moreover have "fst (add_entry n e acc) = fst ` insert (n, e) C"
    using False collectedD(1) [OF assms(1)] by (simp add: add_entry_def)
  moreover have "set (snd (add_entry n e acc)) = snd ` insert (n, e) C"
    using False collectedD(2) [OF assms(1)] by (simp add: add_entry_def)
  moreover have "de_name ` set (snd (add_entry n e acc)) = fst (add_entry n e acc)"
    using False collectedD(4) [OF assms(1)] assms(3) by (simp add: add_entry_def)
  ultimately show ?thesis
    using False collectedD(3) [OF assms(1)] assms(3)
    unfolding collected_def by (simp add: add_entry_def)
qed

lemma collected_fold:
  assumes "collected C acc" "functional (C \<union> cands f (set ks))" "named (cands f (set ks))"
  shows "collected (C \<union> cands f (set ks)) (fold (\<lambda>k. add_cand (f k)) ks acc)"
  using assms
proof (induction ks arbitrary: C acc)
  case (Cons k ks)
  show ?case
  proof (cases "f k")
    case None
    then have "cands f (set (k # ks)) = cands f (set ks)" by (auto simp: cands_def)
    then show ?thesis using Cons None by simp
  next
    case (Some c)
    obtain n e where c: "c = (n, e)" by (cases c)
    have eq: "C \<union> cands f (set (k # ks)) = insert (n, e) C \<union> cands f (set ks)"
      using Some c by (auto simp: cands_def)
    have "functional (insert (n, e) C)"
      using Cons.prems(2) eq by (auto intro: functional_mono)
    moreover have "de_name e = n"
      using Cons.prems(3) Some c by (auto simp: named_def cands_def)
    ultimately have "collected (insert (n, e) C) (add_entry n e acc)"
      using Cons.prems(1) by (intro collected_insert)
    moreover have "named (cands f (set ks))"
      using Cons.prems(3) by (auto simp: named_def cands_def)
    ultimately show ?thesis
      using Cons.IH [of "insert (n, e) C" "add_entry n e acc"] Cons.prems(2) Some c eq by simp
  qed
qed (simp add: cands_def)

lemma collected_sort_unique:
  assumes "collected C acc" "collected C acc'"
  shows "sort_key de_name (snd acc) = sort_key de_name (snd acc')"
proof (rule map_sorted_distinct_set_unique [where f = de_name])
  have "set (snd acc) = set (snd acc')" using assms by (simp add: collected_def)
  then show "set (sort_key de_name (snd acc)) = set (sort_key de_name (snd acc'))" by simp
  have "inj_on de_name (set (snd acc))"
    using collectedD(3) [OF assms(1)] by (simp add: distinct_map)
  then show "inj_on de_name (set (sort_key de_name (snd acc)) \<union> set (sort_key de_name (snd acc')))"
    using \<open>set (snd acc) = set (snd acc')\<close> by simp
  have d: "distinct (map de_name (sort_key de_name xs)) = distinct (map de_name xs)" for xs
    by (simp add: distinct_map)
  show "distinct (map de_name (sort_key de_name (snd acc)))"
    "distinct (map de_name (sort_key de_name (snd acc')))"
    using collectedD(3) [OF assms(1)] collectedD(3) [OF assms(2)] by (simp_all only: d)
qed simp_all

lemma collected_sorted:
  assumes "collected C acc"
  shows "sorted (map de_name (sort_key de_name (snd acc)))"
    "distinct (map de_name (sort_key de_name (snd acc)))"
    "set (sort_key de_name (snd acc)) = snd ` C"
  using collectedD(2,3) [OF assms] by (simp_all add: distinct_map)

text \<open>
  When the keys of a name give different entries, the first one counts: the names collected are still
  those of the candidates, each once, and every entry is a candidate.
\<close>

definition offered :: "(string \<times> dir_entry) set \<Rightarrow> listing \<Rightarrow> bool" where
  "offered C acc \<longleftrightarrow> fst acc = fst ` C \<and> de_name ` set (snd acc) = fst acc \<and>
     distinct (map de_name (snd acc)) \<and> set (snd acc) \<subseteq> snd ` C"

lemma offered_add:
  assumes "offered C acc" "de_name e = n"
  shows "offered (insert (n, e) C) (add_entry n e acc)"
proof (cases "n \<in> fst acc")
  case True
  then show ?thesis using assms by (auto simp: offered_def add_entry_def)
next
  case False
  then have "n \<notin> de_name ` set (snd acc)" using assms(1) by (simp add: offered_def)
  then show ?thesis using False assms by (auto simp: offered_def add_entry_def)
qed

lemma offered_fold:
  assumes "offered C acc" "named (cands f (set ks))"
  shows "offered (C \<union> cands f (set ks)) (fold (\<lambda>k. add_cand (f k)) ks acc)"
  using assms
proof (induction ks arbitrary: C acc)
  case (Cons k ks)
  have named: "named (cands f (set ks))" using Cons.prems(2) by (auto simp: named_def cands_def)
  show ?case
  proof (cases "f k")
    case None
    then have "cands f (set (k # ks)) = cands f (set ks)" by (auto simp: cands_def)
    then show ?thesis using Cons.IH [OF Cons.prems(1) named] None by simp
  next
    case (Some c)
    obtain n e where c: "c = (n, e)" by (cases c)
    have eq: "C \<union> cands f (set (k # ks)) = insert (n, e) C \<union> cands f (set ks)"
      using Some c by (auto simp: cands_def)
    have "de_name e = n" using Cons.prems(2) Some c by (auto simp: named_def cands_def)
    from Cons.IH [OF offered_add [OF Cons.prems(1) this] named] show ?thesis using Some c eq by simp
  qed
qed (simp add: cands_def)

end
