(* ===== verification/Moves.thy ===== *)
theory Moves
  imports Paths
begin

text \<open>
  Moving the keys of a map from one path prefix to another, which every in-memory medium does
  to rename a directory.  \<open>relocate\<close> is the specification; the lemmas turn a loop that moves
  the keys one after the other, in any order, into it.
\<close>

text \<open>The path \<open>p\<close> and the paths below it.\<close>

definition at_or_below :: "string \<Rightarrow> string \<Rightarrow> bool" where
  "at_or_below p q \<longleftrightarrow> q = p \<or> prefix (p @ ''/'') q"

text \<open>
  The map after all keys below \<open>op\<close> moved below \<open>np\<close>: a key below \<open>op\<close> is gone, a key below
  \<open>np\<close> holds what moved onto it, any other key is as before.
\<close>

definition relocate :: "string \<Rightarrow> string \<Rightarrow> (string, 'v) fmap \<Rightarrow> string \<Rightarrow> 'v option" where
  "relocate op np mp q =
     (if prefix op q then None
      else if prefix np q \<and> has_key mp (op @ drop (length np) q)
      then fmlookup mp (op @ drop (length np) q) else fmlookup mp q)"

lemma relocate_key:
  "relocate op np mp q \<noteq> None \<longleftrightarrow>
     \<not> prefix op q \<and> (prefix np q \<and> has_key mp (op @ drop (length np) q) \<or> has_key mp q)"
  by (auto simp: relocate_def has_key_def)

definition new_key :: "string \<Rightarrow> string \<Rightarrow> string \<Rightarrow> string" where
  "new_key op np k = np @ drop (length op) k"

lemma new_key_inj: "inj_on (new_key op np) {k. prefix op k}"
  by (auto simp: inj_on_def new_key_def prefix_def)

lemma new_key_parallel:
  assumes "op \<parallel> np"
  shows "\<not> prefix op (new_key op np k)"
  using assms unfolding new_key_def
  by (meson parallelE prefixI prefix_same_cases)

lemma the_inj: "inj_on g A \<Longrightarrow> i \<in> A \<Longrightarrow> g i = q \<Longrightarrow> (THE j. j \<in> A \<and> g j = q) = i"
  by (rule the_equality) (auto dest: inj_onD)

lemma fold_move:
  assumes "distinct ks" "inj_on g (set ks)" "g ` set ks \<inter> set ks = {}"
  shows "fmlookup (fold (\<lambda>k mp. fmdrop k (fmupd (g k) (w k) mp)) ks mp) q =
    (if q \<in> set ks then None
     else if \<exists>k\<in>set ks. g k = q then Some (w (THE k. k \<in> set ks \<and> g k = q))
     else fmlookup mp q)"
  using assms
proof (induction ks arbitrary: mp)
  case (Cons k ks)
  have IH: "fmlookup (fold (\<lambda>k mp. fmdrop k (fmupd (g k) (w k) mp)) ks mp') q =
    (if q \<in> set ks then None
     else if \<exists>k\<in>set ks. g k = q then Some (w (THE k. k \<in> set ks \<and> g k = q))
     else fmlookup mp' q)" for mp'
    using Cons.prems by (intro Cons.IH) auto
  have the: "(THE j. j \<in> set (k # ks) \<and> g j = q) = i" if "i \<in> set (k # ks)" "g i = q" for i
    using the_inj [OF Cons.prems(2) that] .
  have the': "(THE j. j \<in> set ks \<and> g j = q) = i" if "i \<in> set ks" "g i = q" for i
    using Cons.prems(2) that by (intro the_inj) auto
  consider "q \<in> set (k # ks)" | "q \<notin> set (k # ks)" "g k = q"
    | i where "q \<notin> set (k # ks)" "i \<in> set ks" "g i = q"
    | "q \<notin> set (k # ks)" "\<forall>i\<in>set (k # ks). g i \<noteq> q"
    by (cases "q \<in> set (k # ks)"; cases "\<exists>i\<in>set (k # ks). g i = q") auto
  then show ?case
  proof cases
    case 1
    then show ?thesis using Cons.prems(1,3) by (auto simp: IH)
  next
    case 2
    then have "\<forall>i\<in>set ks. g i \<noteq> q" using Cons.prems(1,2) by auto (metis rev_image_eqI)
    moreover have "q \<noteq> k" using 2 by simp
    ultimately show ?thesis using 2 the [of k] by (simp add: IH)
  next
    case 3
    have "(THE j. j \<in> set (k # ks) \<and> g j = q) = (THE j. j \<in> set ks \<and> g j = q)"
      using the [of i] the' [of i] 3(2,3) by simp
    moreover have "\<exists>i\<in>set ks. g i = q" "\<exists>i\<in>set (k # ks). g i = q" using 3 by auto
    ultimately show ?thesis using 3(1) by (simp only: fold_Cons o_apply IH) simp
  next
    case 4
    then show ?thesis by (auto simp: IH)
  qed
qed simp

text \<open>The loop over all keys below a prefix.\<close>

lemma fold_move_prefix:
  assumes "distinct ks" "set ks = {k. prefix op k \<and> has_key mp k}" "op \<parallel> np"
    "\<And>k. k \<in> set ks \<Longrightarrow> fmlookup mp k = Some (w k)"
  shows "fmlookup (fold (\<lambda>k mp. fmdrop k (fmupd (new_key op np k) (w k) mp)) ks mp) q
    = relocate op np mp q"
proof -
  have inj: "inj_on (new_key op np) (set ks)"
    by (rule inj_on_subset [OF new_key_inj]) (use assms(2) in auto)
  have dis: "new_key op np ` set ks \<inter> set ks = {}"
    using assms(2) new_key_parallel [OF assms(3)] by auto
  note eq = fold_move [OF assms(1) inj dis, of w mp q]
  let ?k = "op @ drop (length np) q"
  have onto: "new_key op np k = q \<longleftrightarrow> prefix np q \<and> k = ?k" if "prefix op k" for k
    using that by (auto simp: new_key_def prefix_def)
  show ?thesis
  proof (cases "prefix op q")
    case True
    then have "\<not> (\<exists>k\<in>set ks. new_key op np k = q)"
      using new_key_parallel [OF assms(3)] by auto
    moreover have "q \<notin> set ks \<Longrightarrow> fmlookup mp q = None"
      using True assms(2) by (auto simp: has_key_def)
    ultimately show ?thesis using eq True by (simp add: relocate_def)
  next
    case False
    then have "q \<notin> set ks" using assms(2) by simp
    show ?thesis
    proof (cases "prefix np q \<and> has_key mp ?k")
      case True
      then have k: "?k \<in> set ks" "new_key op np ?k = q"
        using assms(2) onto [of ?k] by auto
      have "(THE k. k \<in> set ks \<and> new_key op np k = q) = ?k"
        by (rule the_equality) (use k inj in \<open>auto dest: inj_onD\<close>)
      then show ?thesis
        using eq \<open>q \<notin> set ks\<close> k True False assms(4) [OF k(1)] by (auto simp: relocate_def)
    next
      case noFalse: False
      then have "\<not> (\<exists>k\<in>set ks. new_key op np k = q)"
        using assms(2) onto by auto
      then show ?thesis
        using eq \<open>q \<notin> set ks\<close> False noFalse by (auto simp: relocate_def)
    qed
  qed
qed

end
