(* ===== verification/Memory.thy ===== *)
theory Memory
  imports Listing Moves
begin

text \<open>
  \<open>MemoryMedium\<close> of \<open>go/io.go\<close>: four Go maps, keyed by the paths as the caller gives them.
  Every method of the type is one definition; a \<open>range\<close> loop whose result could depend on
  the order of the keys folds over \<open>range_keys\<close>, one that only asks whether a key exists is
  a bounded quantifier over the keys.
\<close>

subsection \<open>State\<close>

record memory_medium =
  fileContents :: "(string, string) fmap"
  fileModes :: "(string, file_mode) fmap"
  directories :: "(string, bool) fmap"
  modificationTimes :: "(string, gotime) fmap"

definition NewMemoryMedium :: memory_medium where
  "NewMemoryMedium = \<lparr>fileContents = fmempty, fileModes = fmempty, directories = fmempty,
     modificationTimes = fmempty\<rparr>"

subsection \<open>Ancestor loops\<close>

text \<open>The loops over the parents of a path; \<open>None\<close> means that the loop does not return.\<close>

partial_function (option) ensure_loop ::
  "go_env \<Rightarrow> string \<Rightarrow> (string, bool) fmap \<Rightarrow> (string, bool) fmap option" where
  "ensure_loop E parentPath dirs =
     (if parentPath = ''.'' \<or> parentPath = '''' then Some dirs
      else let dirs' = fmupd parentPath True dirs;
               nextParentPath = PathDir E parentPath
           in if nextParentPath = parentPath then Some dirs'
              else ensure_loop E nextParentPath dirs')"

definition ensureAncestorDirectories ::
  "go_env \<Rightarrow> string \<Rightarrow> memory_medium \<Rightarrow> memory_medium option" where
  "ensureAncestorDirectories E filePath m =
     map_option (\<lambda>dirs. m\<lparr>directories := dirs\<rparr>)
       (ensure_loop E (PathDir E filePath) (directories m))"

partial_function (option) ancestor_loop ::
  "go_env \<Rightarrow> (string, string) fmap \<Rightarrow> string \<Rightarrow> string option option" where
  "ancestor_loop E files ancestor =
     (if ancestor = ''.'' \<or> ancestor = '''' then Some None
      else if has_key files ancestor then Some (Some ancestor)
      else let next = PathDir E ancestor
           in if next = ancestor then Some None else ancestor_loop E files next)"

declare ensure_loop.simps [code] ancestor_loop.simps [code]

subsection \<open>Operations\<close>

definition directoryExists :: "go_env \<Rightarrow> string \<Rightarrow> memory_medium \<Rightarrow> bool" where
  "directoryExists E path m =
     (if path = '''' then False
      else if has_key (directories m) path then True
      else let pre = (if HasSuffix E path ''/'' then path else path @ ''/'')
           in (\<exists>filePath |\<in>| fmdom (fileContents m). HasPrefix E filePath pre)
            \<or> (\<exists>directoryPath |\<in>| fmdom (directories m).
                 directoryPath \<noteq> path \<and> HasPrefix E directoryPath pre))"

definition MemoryMedium_Read :: "string \<Rightarrow> memory_medium \<Rightarrow> string res" where
  "MemoryMedium_Read path m =
     (case fmlookup (fileContents m) path of
        None \<Rightarrow> Inl (CoreE ''io.MemoryMedium.Read'' [''file not found: '', path] (Some ErrNotExist))
      | Some content \<Rightarrow> Inr content)"

definition MemoryMedium_WriteMode ::
  "go_env \<Rightarrow> gotime \<Rightarrow> string \<Rightarrow> string \<Rightarrow> file_mode \<Rightarrow> memory_medium
     \<Rightarrow> gerr option \<times> memory_medium" where
  "MemoryMedium_WriteMode E now filePath content mode m =
     (case ancestor_loop E (fileContents m) (PathDir E filePath) of
        None \<Rightarrow> (Some Diverges, m)
      | Some (Some ancestor) \<Rightarrow>
          (Some (CoreE ''io.MemoryMedium.WriteMode'' [''ancestor path is a file: '', ancestor]
             (Some ErrExist)), m)
      | Some None \<Rightarrow>
          (if has_key (directories m) filePath then
             (Some (CoreE ''io.MemoryMedium.WriteMode'' [''path is a directory: '', filePath]
                (Some ErrExist)), m)
           else case ensureAncestorDirectories E filePath m of
               None \<Rightarrow> (Some Diverges, m)
             | Some m1 \<Rightarrow>
                 (None, m1\<lparr>fileContents := fmupd filePath content (fileContents m1),
                           fileModes := fmupd filePath mode (fileModes m1),
                           modificationTimes := fmupd filePath now (modificationTimes m1)\<rparr>)))"

definition MemoryMedium_Write ::
  "go_env \<Rightarrow> gotime \<Rightarrow> string \<Rightarrow> string \<Rightarrow> memory_medium \<Rightarrow> gerr option \<times> memory_medium" where
  "MemoryMedium_Write E now path content m = MemoryMedium_WriteMode E now path content 420 m"

definition MemoryMedium_EnsureDir ::
  "go_env \<Rightarrow> string \<Rightarrow> memory_medium \<Rightarrow> gerr option \<times> memory_medium" where
  "MemoryMedium_EnsureDir E path m =
     (if has_key (fileContents m) path then
        (Some (CoreE ''io.MemoryMedium.EnsureDir'' [''path is already a file: '', path]
           (Some ErrExist)), m)
      else case ensureAncestorDirectories E path m of
          None \<Rightarrow> (Some Diverges, m)
        | Some m1 \<Rightarrow> (None, m1\<lparr>directories := fmupd path True (directories m1)\<rparr>))"

definition MemoryMedium_IsFile :: "string \<Rightarrow> memory_medium \<Rightarrow> bool" where
  "MemoryMedium_IsFile path m \<longleftrightarrow> has_key (fileContents m) path"

definition memoryChildPrefix :: "go_env \<Rightarrow> string \<Rightarrow> string" where
  "memoryChildPrefix E path =
     (if path \<noteq> '''' \<and> \<not> HasSuffix E path ''/'' then path @ ''/'' else path)"

definition directoryHasChildren :: "go_env \<Rightarrow> string \<Rightarrow> memory_medium \<Rightarrow> bool" where
  "directoryHasChildren E path m =
     (let pre = memoryChildPrefix E path
      in (\<exists>filePath |\<in>| fmdom (fileContents m). HasPrefix E filePath pre)
       \<or> (\<exists>directoryPath |\<in>| fmdom (directories m).
            directoryPath \<noteq> path \<and> HasPrefix E directoryPath pre))"

text \<open>The three \<open>delete\<close> statements that remove a file together with its metadata.\<close>

definition delete_file :: "string \<Rightarrow> memory_medium \<Rightarrow> memory_medium" where
  "delete_file path m =
     m\<lparr>fileContents := fmdrop path (fileContents m), fileModes := fmdrop path (fileModes m),
       modificationTimes := fmdrop path (modificationTimes m)\<rparr>"

definition MemoryMedium_Delete ::
  "go_env \<Rightarrow> string \<Rightarrow> memory_medium \<Rightarrow> gerr option \<times> memory_medium" where
  "MemoryMedium_Delete E path m =
     (if has_key (fileContents m) path then (None, delete_file path m)
      else if directoryExists E path m then
        (if directoryHasChildren E path m then
           (Some (CoreE ''io.MemoryMedium.Delete'' [''directory not empty: '', path]
              (Some ErrExist)), m)
         else (None, m\<lparr>directories := fmdrop path (directories m)\<rparr>))
      else (Some (CoreE ''io.MemoryMedium.Delete'' [''path not found: '', path]
              (Some ErrNotExist)), m))"

definition MemoryMedium_DeleteAll ::
  "go_env \<Rightarrow> string \<Rightarrow> memory_medium \<Rightarrow> gerr option \<times> memory_medium" where
  "MemoryMedium_DeleteAll E path m =
     (let (m, found) = (if has_key (fileContents m) path then (delete_file path m, True)
                        else (m, False));
          (m, found) = (if has_key (directories m) path
                        then (m\<lparr>directories := fmdrop path (directories m)\<rparr>, True)
                        else (m, found));
          pre = (if HasSuffix E path ''/'' then path else path @ ''/'');
          (m, found) = fold (\<lambda>filePath (m, found).
              if HasPrefix E filePath pre then (delete_file filePath m, True) else (m, found))
            (range_keys E (fmdom (fileContents m))) (m, found);
          (m, found) = fold (\<lambda>directoryPath (m, found).
              if HasPrefix E directoryPath pre
              then (m\<lparr>directories := fmdrop directoryPath (directories m)\<rparr>, True)
              else (m, found))
            (range_keys E (fmdom (directories m))) (m, found)
      in if found then (None, m)
         else (Some (CoreE ''io.MemoryMedium.DeleteAll'' [''path not found: '', path]
                 (Some ErrNotExist)), m))"

subsection \<open>Rename\<close>

definition move_entry :: "string \<Rightarrow> string \<Rightarrow> (string, 'v) fmap \<Rightarrow> (string, 'v) fmap" where
  "move_entry oldPath newPath mp =
     (case fmlookup mp oldPath of
        None \<Rightarrow> mp
      | Some v \<Rightarrow> fmdrop oldPath (fmupd newPath v mp))"

definition renameFile :: "string \<Rightarrow> string \<Rightarrow> memory_medium \<Rightarrow> memory_medium \<times> bool" where
  "renameFile oldPath newPath m =
     (case fmlookup (fileContents m) oldPath of
        None \<Rightarrow> (m, False)
      | Some content \<Rightarrow>
          (m\<lparr>fileContents := fmdrop oldPath (fmupd newPath content (fileContents m)),
             fileModes := move_entry oldPath newPath (fileModes m),
             modificationTimes := move_entry oldPath newPath (modificationTimes m)\<rparr>, True))"

text \<open>
  The map from old to new paths that both directory loops build first, and one step of the
  second loop of \<open>renameFilesWithPrefix\<close>.
\<close>

definition paths_to_move :: "go_env \<Rightarrow> string \<Rightarrow> string \<Rightarrow> string fset \<Rightarrow> (string, string) fmap" where
  "paths_to_move E oldPrefix newPrefix keys =
     fold (\<lambda>path acc.
         if HasPrefix E path oldPrefix
         then fmupd path (Concat E [newPrefix, TrimPrefix E path oldPrefix]) acc else acc)
       (range_keys E keys) fmempty"

definition move_file :: "string \<Rightarrow> string \<Rightarrow> memory_medium \<Rightarrow> memory_medium" where
  "move_file oldFilePath newFilePath m =
     (let content = value_or_empty (fileContents m) oldFilePath
      in m\<lparr>fileContents := fmdrop oldFilePath (fmupd newFilePath content (fileContents m)),
           modificationTimes := move_entry oldFilePath newFilePath (modificationTimes m),
           fileModes := move_entry oldFilePath newFilePath (fileModes m)\<rparr>)"

definition renameFilesWithPrefix ::
  "go_env \<Rightarrow> string \<Rightarrow> string \<Rightarrow> memory_medium \<Rightarrow> memory_medium" where
  "renameFilesWithPrefix E oldPrefix newPrefix m =
     (let filesToMove = paths_to_move E oldPrefix newPrefix (fmdom (fileContents m))
      in fold (\<lambda>oldFilePath m. move_file oldFilePath (value_or_empty filesToMove oldFilePath) m)
           (range_keys E (fmdom filesToMove)) m)"

definition renameDirectoriesWithPrefix ::
  "go_env \<Rightarrow> string \<Rightarrow> string \<Rightarrow> memory_medium \<Rightarrow> memory_medium" where
  "renameDirectoriesWithPrefix E oldPrefix newPrefix m =
     (let dirsToMove = paths_to_move E oldPrefix newPrefix (fmdom (directories m))
      in fold (\<lambda>oldPath m.
             m\<lparr>directories := fmdrop oldPath
                 (fmupd (value_or_empty dirsToMove oldPath) True (directories m))\<rparr>)
           (range_keys E (fmdom dirsToMove)) m)"

definition renameDirectory :: "go_env \<Rightarrow> string \<Rightarrow> string \<Rightarrow> memory_medium \<Rightarrow> memory_medium" where
  "renameDirectory E oldPath newPath m =
     (let m1 = m\<lparr>directories := fmdrop oldPath (fmupd newPath True (directories m))\<rparr>;
          oldPrefix = memoryChildPrefix E oldPath;
          newPrefix = memoryChildPrefix E newPath;
          m2 = renameFilesWithPrefix E oldPrefix newPrefix m1
      in renameDirectoriesWithPrefix E oldPrefix newPrefix m2)"

definition MemoryMedium_Rename ::
  "go_env \<Rightarrow> string \<Rightarrow> string \<Rightarrow> memory_medium \<Rightarrow> gerr option \<times> memory_medium" where
  "MemoryMedium_Rename E oldPath newPath m =
     (case renameFile oldPath newPath m of
        (m1, True) \<Rightarrow> (None, m1)
      | (m1, False) \<Rightarrow>
          (if directoryExists E oldPath m1 then (None, renameDirectory E oldPath newPath m1)
           else (Some (CoreE ''io.MemoryMedium.Rename'' [''path not found: '', oldPath]
                   (Some ErrNotExist)), m1)))"

subsection \<open>Files and writers\<close>

definition modeForPath :: "string \<Rightarrow> memory_medium \<Rightarrow> file_mode" where
  "modeForPath path m = (case fmlookup (fileModes m) path of Some mode \<Rightarrow> mode | None \<Rightarrow> 420)"

definition modificationTimeForPath :: "string \<Rightarrow> memory_medium \<Rightarrow> gotime" where
  "modificationTimeForPath path m =
     (case fmlookup (modificationTimes m) path of Some t \<Rightarrow> t | None \<Rightarrow> zero_time)"

definition MemoryMedium_Open :: "go_env \<Rightarrow> string \<Rightarrow> memory_medium \<Rightarrow> memory_file res" where
  "MemoryMedium_Open E path m =
     (case fmlookup (fileContents m) path of
        None \<Rightarrow> Inl (CoreE ''io.MemoryMedium.Open'' [''file not found: '', path] (Some ErrNotExist))
      | Some content \<Rightarrow>
          Inr \<lparr>mf_name = PathBase E path, mf_content = content, mf_offset = 0,
               mf_mode = modeForPath path m, mf_modTime = modificationTimeForPath path m\<rparr>)"

text \<open>A \<open>MemoryWriteCloser\<close>; its \<open>medium\<close> field is the medium \<open>Close\<close> is applied to.\<close>

record memory_writer =
  mw_path :: string
  mw_data :: string
  mw_mode :: file_mode

definition MemoryMedium_Create :: "string \<Rightarrow> memory_medium \<Rightarrow> memory_writer res" where
  "MemoryMedium_Create path m = Inr \<lparr>mw_path = path, mw_data = '''', mw_mode = 420\<rparr>"

definition MemoryMedium_Append :: "string \<Rightarrow> memory_medium \<Rightarrow> memory_writer res" where
  "MemoryMedium_Append path m =
     (let content = value_or_empty (fileContents m) path
      in Inr \<lparr>mw_path = path, mw_data = content, mw_mode = modeForPath path m\<rparr>)"

definition MemoryMedium_ReadStream :: "go_env \<Rightarrow> string \<Rightarrow> memory_medium \<Rightarrow> memory_file res" where
  "MemoryMedium_ReadStream E path m = MemoryMedium_Open E path m"

definition MemoryMedium_WriteStream :: "string \<Rightarrow> memory_medium \<Rightarrow> memory_writer res" where
  "MemoryMedium_WriteStream path m = MemoryMedium_Create path m"

definition MemoryWriteCloser_Write :: "string \<Rightarrow> memory_writer \<Rightarrow> nat res \<times> memory_writer" where
  "MemoryWriteCloser_Write data w = (Inr (length data), w\<lparr>mw_data := mw_data w @ data\<rparr>)"

definition MemoryWriteCloser_Close ::
  "go_env \<Rightarrow> gotime \<Rightarrow> memory_writer \<Rightarrow> memory_medium \<Rightarrow> gerr option \<times> memory_medium" where
  "MemoryWriteCloser_Close E now w m =
     (if has_key (directories m) (mw_path w) then
        (Some (CoreE ''io.MemoryWriteCloser.Close'' [''path is a directory: '', mw_path w]
           (Some ErrExist)), m)
      else case ensureAncestorDirectories E (mw_path w) m of
          None \<Rightarrow> (Some Diverges, m)
        | Some m1 \<Rightarrow>
            (None, m1\<lparr>fileContents := fmupd (mw_path w) (mw_data w) (fileContents m1),
                      fileModes := fmupd (mw_path w) (mw_mode w) (fileModes m1),
                      modificationTimes := fmupd (mw_path w) now (modificationTimes m1)\<rparr>))"

subsection \<open>List, Stat, Exists\<close>

definition memoryDirEntry :: "string \<Rightarrow> dir_entry" where
  "memoryDirEntry name =
     NewDirEntry name True (ModeDir OR 493)
       (NewFileInfo name 0 (ModeDir OR 493) zero_time True)"

definition maybeAddMemoryDir :: "go_env \<Rightarrow> string \<Rightarrow> listing \<Rightarrow> listing" where
  "maybeAddMemoryDir E rest acc =
     (case SplitN E rest ''/'' 2 of
        [part0, part1] \<Rightarrow> add_entry part0 (memoryDirEntry part0) acc
      | _ \<Rightarrow> acc)"

definition add_file_step ::
  "go_env \<Rightarrow> memory_medium \<Rightarrow> string \<Rightarrow> string \<Rightarrow> listing \<Rightarrow> listing" where
  "add_file_step E m pre filePath acc =
     (if \<not> HasPrefix E filePath pre then acc
      else let rest = TrimPrefix E filePath pre
           in if rest = '''' \<or> Contains E rest ''/'' then maybeAddMemoryDir E rest acc
              else let content = value_or_empty (fileContents m) filePath;
                       entryPath = Concat E [pre, rest]
                   in add_entry rest
                        (NewDirEntry rest False (modeForPath entryPath m)
                           (NewFileInfo rest (int (length content)) (modeForPath entryPath m)
                              (modificationTimeForPath entryPath m) False)) acc)"

definition addFileEntries :: "go_env \<Rightarrow> memory_medium \<Rightarrow> string \<Rightarrow> listing \<Rightarrow> listing" where
  "addFileEntries E m pre acc =
     fold (add_file_step E m pre) (range_keys E (fmdom (fileContents m))) acc"

definition add_dir_step :: "go_env \<Rightarrow> string \<Rightarrow> string \<Rightarrow> listing \<Rightarrow> listing" where
  "add_dir_step E pre directoryPath acc =
     (if \<not> HasPrefix E directoryPath pre then acc
      else let rest = TrimPrefix E directoryPath pre
           in if rest = '''' then acc
              else let name = (case SplitN E rest ''/'' 2 of [part0, part1] \<Rightarrow> part0 | _ \<Rightarrow> rest)
                   in add_entry name (memoryDirEntry name) acc)"

definition addDirectoryEntries :: "go_env \<Rightarrow> memory_medium \<Rightarrow> string \<Rightarrow> listing \<Rightarrow> listing" where
  "addDirectoryEntries E m pre acc =
     fold (add_dir_step E pre) (range_keys E (fmdom (directories m))) acc"

definition hasChildrenAtPath :: "go_env \<Rightarrow> string \<Rightarrow> memory_medium \<Rightarrow> bool" where
  "hasChildrenAtPath E path m =
     (let pre = memoryChildPrefix E path
      in (\<exists>filePath |\<in>| fmdom (fileContents m). HasPrefix E filePath pre)
       \<or> (\<exists>directoryPath |\<in>| fmdom (directories m). HasPrefix E directoryPath pre))"

definition MemoryMedium_List :: "go_env \<Rightarrow> string \<Rightarrow> memory_medium \<Rightarrow> dir_entry list res" where
  "MemoryMedium_List E path m =
     (if \<not> has_key (directories m) path \<and> \<not> hasChildrenAtPath E path m \<and> path \<noteq> '''' then
        Inl (CoreE ''io.MemoryMedium.List'' [''directory not found: '', path] (Some ErrNotExist))
      else let pre = memoryChildPrefix E path;
               (seen, entries) = addDirectoryEntries E m pre (addFileEntries E m pre ({}, []))
           in Inr (SortDirEntriesByName de_name entries))"

definition MemoryMedium_Stat ::
  "go_env \<Rightarrow> gotime \<Rightarrow> string \<Rightarrow> memory_medium \<Rightarrow> file_info res" where
  "MemoryMedium_Stat E now path m =
     (case fmlookup (fileContents m) path of
        Some content \<Rightarrow>
          (let modTime = (case fmlookup (modificationTimes m) path of Some t \<Rightarrow> t | None \<Rightarrow> now)
           in Inr (NewFileInfo (PathBase E path) (int (length content)) (modeForPath path m)
                modTime False))
      | None \<Rightarrow>
          (if directoryExists E path m then
             Inr (NewFileInfo (PathBase E path) 0 (ModeDir OR 493) zero_time True)
           else Inl (CoreE ''io.MemoryMedium.Stat'' [''path not found: '', path]
                  (Some ErrNotExist))))"

definition MemoryMedium_Exists :: "go_env \<Rightarrow> string \<Rightarrow> memory_medium \<Rightarrow> bool" where
  "MemoryMedium_Exists E path m \<longleftrightarrow> has_key (fileContents m) path \<or> directoryExists E path m"

definition MemoryMedium_IsDir :: "go_env \<Rightarrow> string \<Rightarrow> memory_medium \<Rightarrow> bool" where
  "MemoryMedium_IsDir E path m \<longleftrightarrow> directoryExists E path m"

definition MemoryMedium_medium ::
  "go_env \<Rightarrow> (memory_medium, memory_file, memory_file, memory_writer) medium" where
  "MemoryMedium_medium E = \<lparr>m_Read = MemoryMedium_Read, m_Write = MemoryMedium_Write E,
     m_WriteMode = MemoryMedium_WriteMode E, m_EnsureDir = MemoryMedium_EnsureDir E,
     m_IsFile = MemoryMedium_IsFile, m_Delete = MemoryMedium_Delete E,
     m_DeleteAll = MemoryMedium_DeleteAll E, m_Rename = MemoryMedium_Rename E,
     m_List = (\<lambda>_. MemoryMedium_List E), m_Stat = MemoryMedium_Stat E,
     m_Open = (\<lambda>_. MemoryMedium_Open E), m_Create = pure_open MemoryMedium_Create,
     m_Append = pure_open MemoryMedium_Append, m_ReadStream = (\<lambda>_. MemoryMedium_ReadStream E),
     m_WriteStream = pure_open MemoryMedium_WriteStream, m_Exists = MemoryMedium_Exists E,
     m_IsDir = MemoryMedium_IsDir E\<rparr>"

section \<open>Properties\<close>

subsection \<open>The ancestor loops return\<close>

text \<open>Both loops visit \<open>parents\<close>: the first marks each of them, the second finds a file.\<close>

context go_runtime
begin

lemma ensure_loop_returns [returns_simps]:
  "ensure_loop E p ds = Some (fold (\<lambda>a. fmupd a True) (parents p) ds)"
proof (induction p arbitrary: ds rule: parents.induct)
  case (1 p)
  show ?case
  proof (cases "p = ''.'' \<or> p = '''' \<or> path_dir p = p")
    case False
    then show ?thesis
      using "1.IH" by (simp add: ensure_loop.simps [of E p] parents_step Let_def)
  qed (auto simp: ensure_loop.simps [of E p] parents.simps [of p] Let_def)
qed

lemma ancestor_loop_returns [returns_simps]:
  "ancestor_loop E files p = Some (find (has_key files) (parents p))"
proof (induction p rule: parents.induct)
  case (1 p)
  show ?case
  proof (cases "p = ''.'' \<or> p = '''' \<or> path_dir p = p")
    case False
    then show ?thesis
      using "1.IH" by (simp add: ancestor_loop.simps [of E files p] parents_step Let_def)
  qed (auto simp: ancestor_loop.simps [of E files p] parents.simps [of p] Let_def)
qed

end

lemma find_None_has_key: "find (has_key m) as = None \<longleftrightarrow> (\<forall>a\<in>set as. \<not> has_key m a)"
  by (auto simp: find_None_iff)

text \<open>The state after content is stored under a path: the effect \<open>WriteMode\<close> and \<open>Close\<close> share.\<close>

definition store_file ::
  "gotime \<Rightarrow> string \<Rightarrow> string \<Rightarrow> file_mode \<Rightarrow> memory_medium \<Rightarrow> memory_medium" where
  "store_file now p c md m =
     m\<lparr>directories := mark_dirs (ancestors p) (directories m),
       fileContents := fmupd p c (fileContents m), fileModes := fmupd p md (fileModes m),
       modificationTimes := fmupd p now (modificationTimes m)\<rparr>"

lemma store_file_simps [simp]:
  "fileContents (store_file now p c md m) = fmupd p c (fileContents m)"
  "fileModes (store_file now p c md m) = fmupd p md (fileModes m)"
  "modificationTimes (store_file now p c md m) = fmupd p now (modificationTimes m)"
  "directories (store_file now p c md m) = mark_dirs (ancestors p) (directories m)"
  by (simp_all add: store_file_def)

lemma delete_file_simps [simp]:
  "fileContents (delete_file p m) = fmdrop p (fileContents m)"
  "fileModes (delete_file p m) = fmdrop p (fileModes m)"
  "modificationTimes (delete_file p m) = fmdrop p (modificationTimes m)"
  "directories (delete_file p m) = directories m"
  by (simp_all add: delete_file_def)

context go_runtime
begin

lemma ensureAncestorDirectories_eq [returns_simps]:
  "ensureAncestorDirectories E p m
     = Some (m\<lparr>directories := mark_dirs (ancestors p) (directories m)\<rparr>)"
  by (simp add: ensureAncestorDirectories_def ensure_loop_returns mark_dirs_def)

lemma WriteMode_eq:
  "MemoryMedium_WriteMode E now p c md m =
     (case find (has_key (fileContents m)) (ancestors p) of
        Some a \<Rightarrow> (Some (CoreE ''io.MemoryMedium.WriteMode'' [''ancestor path is a file: '', a]
                    (Some ErrExist)), m)
      | None \<Rightarrow>
          (if has_key (directories m) p then
             (Some (CoreE ''io.MemoryMedium.WriteMode'' [''path is a directory: '', p]
                (Some ErrExist)), m)
           else (None, store_file now p c md m)))"
  by (simp add: MemoryMedium_WriteMode_def ancestor_loop_returns ensureAncestorDirectories_eq
      store_file_def split: option.split)

lemma Close_eq:
  "MemoryWriteCloser_Close E now w m =
     (if has_key (directories m) (mw_path w) then
        (Some (CoreE ''io.MemoryWriteCloser.Close'' [''path is a directory: '', mw_path w]
           (Some ErrExist)), m)
      else (None, store_file now (mw_path w) (mw_data w) (mw_mode w) m))"
  by (simp add: MemoryWriteCloser_Close_def ensureAncestorDirectories_eq store_file_def)

lemma EnsureDir_eq:
  "MemoryMedium_EnsureDir E p m =
     (if has_key (fileContents m) p then
        (Some (CoreE ''io.MemoryMedium.EnsureDir'' [''path is already a file: '', p]
           (Some ErrExist)), m)
      else (None, m\<lparr>directories := fmupd p True (mark_dirs (ancestors p) (directories m))\<rparr>))"
  by (simp add: MemoryMedium_EnsureDir_def ensureAncestorDirectories_eq)

lemma WriteMode_cases:
  assumes "MemoryMedium_WriteMode E now p c md m = (e, m')"
  obtains (written) "e = None" "m' = store_file now p c md m" "\<not> has_key (directories m) p"
      "\<forall>a\<in>set (ancestors p). \<not> has_key (fileContents m) a"
    | (refused) "e \<noteq> None" "m' = m"
  using assms unfolding WriteMode_eq
  by (cases "find (has_key (fileContents m)) (ancestors p)")
     (auto simp: find_None_has_key split: if_splits)

text \<open>The medium interface promises what \<open>read_write\<close> asks for.\<close>

lemma memory_read_write:
  "read_write (MemoryMedium_medium E) (\<lambda>_. True) (\<lambda>p. p) (\<lambda>_. True)"
  by unfold_locales
     (auto simp: MemoryMedium_medium_def MemoryMedium_Read_def MemoryMedium_Write_def
        elim!: WriteMode_cases)

end

subsection \<open>Files and their metadata\<close>

text \<open>Every stored file has a mode and a modification time, and nothing else has.\<close>

definition meta_ok :: "memory_medium \<Rightarrow> bool" where
  "meta_ok m \<longleftrightarrow> fmdom (fileModes m) = fmdom (fileContents m) \<and>
     fmdom (modificationTimes m) = fmdom (fileContents m)"

inductive mem_step :: "go_env \<Rightarrow> memory_medium \<Rightarrow> memory_medium \<Rightarrow> bool" for E where
  step_write: "MemoryMedium_WriteMode E now p c md m = (e, m') \<Longrightarrow> mem_step E m m'"
| step_ensure: "MemoryMedium_EnsureDir E p m = (e, m') \<Longrightarrow> mem_step E m m'"
| step_delete: "MemoryMedium_Delete E p m = (e, m') \<Longrightarrow> mem_step E m m'"
| step_delete_all: "MemoryMedium_DeleteAll E p m = (e, m') \<Longrightarrow> mem_step E m m'"
| step_rename: "MemoryMedium_Rename E p q m = (e, m') \<Longrightarrow> mem_step E m m'"
| step_close: "MemoryWriteCloser_Close E now w m = (e, m') \<Longrightarrow> mem_step E m m'"

inductive mem_reachable :: "go_env \<Rightarrow> memory_medium \<Rightarrow> bool" for E where
  reach_new: "mem_reachable E NewMemoryMedium"
| reach_step: "mem_reachable E m \<Longrightarrow> mem_step E m m' \<Longrightarrow> mem_reachable E m'"

lemma meta_ok_new: "meta_ok NewMemoryMedium"
  by (simp add: meta_ok_def NewMemoryMedium_def)

lemma meta_ok_store: "meta_ok m \<Longrightarrow> meta_ok (store_file now p c md m)"
  by (simp add: meta_ok_def)

lemma meta_ok_delete_file: "meta_ok m \<Longrightarrow> meta_ok (delete_file p m)"
  by (simp add: meta_ok_def)

lemma meta_ok_directories [simp]: "meta_ok (m\<lparr>directories := d\<rparr>) = meta_ok m"
  by (simp add: meta_ok_def)

lemma fmdom_move_entry:
  "fmdom (move_entry k k' mp) =
     (if k |\<in>| fmdom mp then finsert k' (fmdom mp) |-| {|k|} else fmdom mp)"
  by (auto simp: move_entry_def fmlookup_dom_iff split: option.splits)

lemma meta_ok_move_file:
  assumes "meta_ok m" "has_key (fileContents m) k"
  shows "meta_ok (move_file k k' m)"
proof -
  have "k |\<in>| fmdom (fileContents m)" using assms(2) by (simp add: has_key_dom)
  then show ?thesis
    using assms(1) by (simp add: meta_ok_def move_file_def Let_def fmdom_move_entry)
qed

lemma meta_ok_move_files:
  "distinct ks \<Longrightarrow> \<forall>k\<in>set ks. has_key (fileContents m) k \<Longrightarrow> meta_ok m \<Longrightarrow>
   meta_ok (fold (\<lambda>k m. move_file k (g k) m) ks m)"
proof (induction ks arbitrary: m)
  case (Cons k ks)
  have "meta_ok (move_file k (g k) m)"
    using Cons.prems by (intro meta_ok_move_file) auto
  moreover have "\<forall>j\<in>set ks. has_key (fileContents (move_file k (g k) m)) j"
    using Cons.prems by (auto simp: move_file_def Let_def)
  ultimately show ?case using Cons by simp
qed simp

subsection \<open>DeleteAll removes a subtree\<close>

definition subtree_prefix :: "string \<Rightarrow> string" where
  "subtree_prefix path = (if suffix ''/'' path then path else path @ ''/'')"

definition in_subtree :: "string \<Rightarrow> string \<Rightarrow> bool" where
  "in_subtree path q \<longleftrightarrow> q = path \<or> prefix (subtree_prefix path) q"

definition restrict_medium :: "(string \<Rightarrow> bool) \<Rightarrow> memory_medium \<Rightarrow> memory_medium" where
  "restrict_medium P m = m\<lparr>fileContents := fmfilter P (fileContents m),
     fileModes := fmfilter P (fileModes m), modificationTimes := fmfilter P (modificationTimes m),
     directories := fmfilter P (directories m)\<rparr>"

lemma restrict_medium_simps [simp]:
  "fileContents (restrict_medium P m) = fmfilter P (fileContents m)"
  "fileModes (restrict_medium P m) = fmfilter P (fileModes m)"
  "directories (restrict_medium P m) = fmfilter P (directories m)"
  "modificationTimes (restrict_medium P m) = fmfilter P (modificationTimes m)"
  by (simp_all add: restrict_medium_def)

lemma meta_ok_restrict: "meta_ok m \<Longrightarrow> meta_ok (restrict_medium P m)"
  by (simp add: meta_ok_def)

lemma record_update_id [simp]:
  "m\<lparr>fileContents := fileContents m, fileModes := fileModes m,
     modificationTimes := modificationTimes m\<rparr> = m"
  "m\<lparr>directories := directories m\<rparr> = (m :: memory_medium)"
  by (cases m; simp)+

text \<open>The two deletion loops, with their flag.\<close>

lemma delete_files_fold:
  "fold (\<lambda>f (m, found). if P f then (delete_file f m, True) else (m, found)) ks (m, b) =
     (m\<lparr>fileContents := drop_keys P ks (fileContents m), fileModes := drop_keys P ks (fileModes m),
        modificationTimes := drop_keys P ks (modificationTimes m)\<rparr>, b \<or> list_ex P ks)"
proof (induction ks arbitrary: m b)
  case (Cons k ks)
  then show ?case by (cases "P k") (simp_all add: drop_keys_def delete_file_def)
qed (simp add: drop_keys_def)

lemma delete_dirs_fold:
  "fold (\<lambda>d (m, found).
        if P d then (m\<lparr>directories := fmdrop d (directories m)\<rparr>, True) else (m, found)) ks (m, b) =
     (m\<lparr>directories := drop_keys P ks (directories m)\<rparr>, b \<or> list_ex P ks)"
proof (induction ks arbitrary: m b)
  case (Cons k ks)
  then show ?case by (cases "P k") (simp_all add: drop_keys_def)
qed (simp add: drop_keys_def)

lemma drop_keys_meta:
  assumes "fmdom n = fmdom m" "fset (fmdom m) \<subseteq> set ks"
  shows "drop_keys P ks n = fmfilter (\<lambda>k. \<not> P k) n"
  by (rule drop_keys_filter) (use assms in simp)

lemma fmfilter_drop: "fmfilter P (fmdrop k m) = fmfilter (\<lambda>j. j \<noteq> k \<and> P j) m"
  by (rule fmap_eqI) auto

lemma fmfilter_idle: "(\<And>k. has_key m k \<Longrightarrow> P k) \<Longrightarrow> fmfilter P m = m"
  by (rule fmap_eqI) (auto simp: has_key_def)

text \<open>The deletion of the path itself, which \<open>DeleteAll\<close> does before the loops.\<close>

definition drop_root :: "string \<Rightarrow> memory_medium \<Rightarrow> memory_medium \<times> bool" where
  "drop_root path m =
     (let (m, found) = (if has_key (fileContents m) path then (delete_file path m, True)
                        else (m, False))
      in if has_key (directories m) path
         then (m\<lparr>directories := fmdrop path (directories m)\<rparr>, True) else (m, found))"

lemma DeleteAll_root:
  "MemoryMedium_DeleteAll E path m =
     (let (m, found) = drop_root path m;
          pre = (if HasSuffix E path ''/'' then path else path @ ''/'');
          (m, found) = fold (\<lambda>filePath (m, found).
              if HasPrefix E filePath pre then (delete_file filePath m, True) else (m, found))
            (range_keys E (fmdom (fileContents m))) (m, found);
          (m, found) = fold (\<lambda>directoryPath (m, found).
              if HasPrefix E directoryPath pre
              then (m\<lparr>directories := fmdrop directoryPath (directories m)\<rparr>, True)
              else (m, found))
            (range_keys E (fmdom (directories m))) (m, found)
      in if found then (None, m)
         else (Some (CoreE ''io.MemoryMedium.DeleteAll'' [''path not found: '', path]
                 (Some ErrNotExist)), m))"
  unfolding MemoryMedium_DeleteAll_def drop_root_def Let_def
  by (cases "has_key (fileContents m) path") simp_all

lemma meta_ok_drop_root: "meta_ok m \<Longrightarrow> meta_ok (fst (drop_root path m))"
  by (simp add: drop_root_def meta_ok_delete_file)

lemma drop_root_lookup:
  assumes "meta_ok m"
  shows "fmlookup (fileContents (fst (drop_root path m))) q
      = (if q = path then None else fmlookup (fileContents m) q)"
    "fmlookup (fileModes (fst (drop_root path m))) q
      = (if q = path then None else fmlookup (fileModes m) q)"
    "fmlookup (modificationTimes (fst (drop_root path m))) q
      = (if q = path then None else fmlookup (modificationTimes m) q)"
    "fmlookup (directories (fst (drop_root path m))) q
      = (if q = path then None else fmlookup (directories m) q)"
  using assms by (auto simp: drop_root_def meta_ok_def has_key_dom)

lemma drop_root_keys:
  "has_key (fileContents (fst (drop_root path m))) q \<longleftrightarrow> q \<noteq> path \<and> has_key (fileContents m) q"
  "has_key (directories (fst (drop_root path m))) q \<longleftrightarrow> q \<noteq> path \<and> has_key (directories m) q"
  by (auto simp: drop_root_def)

lemma fmfilter_subtree:
  assumes "\<And>q. fmlookup n q = (if q = path then None else fmlookup mp q)"
  shows "fmfilter (\<lambda>q. \<not> prefix (subtree_prefix path) q) n = fmfilter (\<lambda>q. \<not> in_subtree path q) mp"
  by (rule fmap_eqI) (use assms in \<open>auto simp: in_subtree_def\<close>)

lemma restrict_drop_root:
  assumes "meta_ok m"
  shows "restrict_medium (\<lambda>q. \<not> prefix (subtree_prefix path) q) (fst (drop_root path m))
    = restrict_medium (\<lambda>q. \<not> in_subtree path q) m"
  by (rule memory_medium.equality)
     (simp_all add: fmfilter_subtree drop_root_lookup [OF assms])

context go_runtime
begin

lemma files_loop:
  assumes "meta_ok m"
  shows "fold (\<lambda>filePath (m, found).
              if prefix pre filePath then (delete_file filePath m, True) else (m, found))
            (range_keys E (fmdom (fileContents m))) (m, b)
    = (m\<lparr>fileContents := fmfilter (\<lambda>q. \<not> prefix pre q) (fileContents m),
         fileModes := fmfilter (\<lambda>q. \<not> prefix pre q) (fileModes m),
         modificationTimes := fmfilter (\<lambda>q. \<not> prefix pre q) (modificationTimes m)\<rparr>,
       b \<or> (\<exists>q. prefix pre q \<and> has_key (fileContents m) q))"
proof -
  let ?ks = "range_keys E (fmdom (fileContents m))"
  have "drop_keys (prefix pre) ?ks (fileModes m) = fmfilter (\<lambda>q. \<not> prefix pre q) (fileModes m)"
    "drop_keys (prefix pre) ?ks (modificationTimes m)
       = fmfilter (\<lambda>q. \<not> prefix pre q) (modificationTimes m)"
    using assms by (auto simp: meta_ok_def intro!: drop_keys_meta [of _ "fileContents m"])
  then show ?thesis
    by (auto simp: delete_files_fold drop_keys_range list_ex_iff has_key_dom)
qed

lemma dirs_loop:
  "fold (\<lambda>directoryPath (m, found).
          if prefix pre directoryPath
          then (m\<lparr>directories := fmdrop directoryPath (directories m)\<rparr>, True) else (m, found))
        (range_keys E (fmdom (directories m))) (m, b)
    = (m\<lparr>directories := fmfilter (\<lambda>q. \<not> prefix pre q) (directories m)\<rparr>,
       b \<or> (\<exists>q. prefix pre q \<and> has_key (directories m) q))"
  by (auto simp: delete_dirs_fold drop_keys_range list_ex_iff has_key_dom)

lemma restrict_nothing:
  assumes "meta_ok m" "\<not> (\<exists>q. \<not> P q \<and> (has_key (fileContents m) q \<or> has_key (directories m) q))"
  shows "restrict_medium P m = m"
proof -
  have "fmfilter P (fileContents m) = fileContents m" "fmfilter P (directories m) = directories m"
    "fmfilter P (fileModes m) = fileModes m"
    "fmfilter P (modificationTimes m) = modificationTimes m"
    using assms by (auto simp: meta_ok_def has_key_dom intro!: fmfilter_idle)
  then show ?thesis by (simp add: restrict_medium_def)
qed

lemma DeleteAll_eq:
  assumes "meta_ok m"
  shows "MemoryMedium_DeleteAll E path m =
    (if \<exists>q. in_subtree path q \<and> (has_key (fileContents m) q \<or> has_key (directories m) q)
     then (None, restrict_medium (\<lambda>q. \<not> in_subtree path q) m)
     else (Some (CoreE ''io.MemoryMedium.DeleteAll'' [''path not found: '', path]
             (Some ErrNotExist)), m))"
proof -
  let ?pre = "subtree_prefix path"
  let ?R = "restrict_medium (\<lambda>q. \<not> in_subtree path q) m"
  define m2 where "m2 = fst (drop_root path m)"
  define b where "b = snd (drop_root path m)"
  have root: "drop_root path m = (m2, b)" by (simp add: m2_def b_def)
  have meta2: "meta_ok m2" using assms by (simp add: m2_def meta_ok_drop_root)
  have "MemoryMedium_DeleteAll E path m =
      (if (b \<or> (\<exists>q. prefix ?pre q \<and> has_key (fileContents m2) q))
          \<or> (\<exists>q. prefix ?pre q \<and> has_key (directories m2) q)
       then (None, ?R)
       else (Some (CoreE ''io.MemoryMedium.DeleteAll'' [''path not found: '', path]
             (Some ErrNotExist)), ?R))"
    unfolding DeleteAll_root root Let_def prod.case HasPrefix_eq HasSuffix_eq
      subtree_prefix_def [symmetric] files_loop [OF meta2]
    using restrict_drop_root [OF assms, of path]
    by (simp add: dirs_loop [of ?pre "m2\<lparr>fileContents := _, fileModes := _,
        modificationTimes := _\<rparr>", simplified] restrict_medium_def m2_def [symmetric])
  moreover have "((b \<or> (\<exists>q. prefix ?pre q \<and> has_key (fileContents m2) q))
      \<or> (\<exists>q. prefix ?pre q \<and> has_key (directories m2) q))
    \<longleftrightarrow> (\<exists>q. in_subtree path q \<and> (has_key (fileContents m) q \<or> has_key (directories m) q))"
    unfolding m2_def b_def drop_root_keys in_subtree_def by (auto simp: drop_root_def)
  ultimately show ?thesis using restrict_nothing [OF assms] by simp
qed

end

subsection \<open>Rename\<close>

lemma renameFile_eq:
  "renameFile old new m =
     (if has_key (fileContents m) old
      then (m\<lparr>fileContents := move_entry old new (fileContents m),
              fileModes := move_entry old new (fileModes m),
              modificationTimes := move_entry old new (modificationTimes m)\<rparr>, True)
      else (m, False))"
  by (auto simp: renameFile_def move_entry_def has_key_def split: option.splits)

lemma move_entry_lookup:
  "fmlookup (move_entry old new mp) q =
     (if \<not> has_key mp old then fmlookup mp q
      else if q = old then None else if q = new then fmlookup mp old else fmlookup mp q)"
  by (auto simp: move_entry_def has_key_def split: option.splits)

lemma move_entry_key: "has_key mp old \<Longrightarrow>
    move_entry old new mp = fmdrop old (fmupd new (the (fmlookup mp old)) mp)"
  by (auto simp: move_entry_def has_key_def)

lemma move_file_eq:
  "has_key (fileContents m) old \<Longrightarrow> move_file old new m =
     m\<lparr>fileContents := move_entry old new (fileContents m),
       modificationTimes := move_entry old new (modificationTimes m),
       fileModes := move_entry old new (fileModes m)\<rparr>"
  by (auto simp: move_file_def value_or_empty_def move_entry_def has_key_def)

text \<open>Moving entries one by one, when no new key is one of the keys still to move.\<close>

lemma fold_move_entry:
  assumes "\<forall>k\<in>set ks. has_key mp k" "distinct ks" "g ` set ks \<inter> set ks = {}"
  shows "fold (\<lambda>k. move_entry k (g k)) ks mp
    = fold (\<lambda>k mp'. fmdrop k (fmupd (g k) (the (fmlookup mp k)) mp')) ks mp"
proof -
  have "fold (\<lambda>k. move_entry k (g k)) ks mp'
      = fold (\<lambda>k mp'. fmdrop k (fmupd (g k) (w k) mp')) ks mp'"
    if "\<forall>k\<in>set ks. fmlookup mp' k = Some (w k)" for w mp'
    using that assms(2,3)
  proof (induction ks arbitrary: mp')
    case (Cons k ks)
    let ?mp = "fmdrop k (fmupd (g k) (w k) mp')"
    have "\<forall>j\<in>set ks. fmlookup ?mp j = Some (w j)" using Cons.prems by auto
    moreover have "move_entry k (g k) mp' = ?mp" using Cons.prems(1) by (simp add: move_entry_def)
    ultimately show ?case using Cons.IH [of ?mp] Cons.prems by auto
  qed simp
  from this [of mp "\<lambda>k. the (fmlookup mp k)"] show ?thesis
    using assms(1) by (auto simp: has_key_def)
qed

lemma fold_move_files:
  assumes "\<forall>k\<in>set ks. has_key (fileContents m) k" "distinct ks"
  shows "fold (\<lambda>k m. move_file k (g k) m) ks m =
    m\<lparr>fileContents := fold (\<lambda>k. move_entry k (g k)) ks (fileContents m),
      modificationTimes := fold (\<lambda>k. move_entry k (g k)) ks (modificationTimes m),
      fileModes := fold (\<lambda>k. move_entry k (g k)) ks (fileModes m)\<rparr>"
  using assms
proof (induction ks arbitrary: m)
  case (Cons k ks)
  have "\<forall>j\<in>set ks. has_key (fileContents (move_file k (g k) m)) j"
    using Cons.prems by (auto simp: move_file_eq move_entry_key)
  then show ?case using Cons by (simp add: move_file_eq)
qed simp

context go_runtime
begin

lemma paths_to_move_lookup:
  "fmlookup (paths_to_move E op np A) k =
     (if k |\<in>| A \<and> prefix op k then Some (new_key op np k) else None)"
proof -
  have "fmlookup (fold (\<lambda>path acc. if HasPrefix E path op
          then fmupd path (Concat E [np, TrimPrefix E path op]) acc else acc) ks acc) k
      = (if k \<in> set ks \<and> prefix op k then Some (new_key op np k) else fmlookup acc k)" for ks acc
    by (induction ks arbitrary: acc) (auto simp: new_key_def trim_prefix_def)
  then show ?thesis by (simp add: paths_to_move_def)
qed

lemma paths_to_move_keys:
  "set (range_keys E (fmdom (paths_to_move E op np (fmdom mp)))) = {k. prefix op k \<and> has_key mp k}"
  by (auto simp: has_key_dom fmlookup_dom_iff paths_to_move_lookup split: if_splits)

lemma paths_to_move_value:
  "k \<in> set (range_keys E (fmdom (paths_to_move E op np A))) \<Longrightarrow>
     value_or_empty (paths_to_move E op np A) k = new_key op np k"
  by (auto simp: fmlookup_dom_iff value_or_empty_def paths_to_move_lookup)

lemma renameFilesWithPrefix_eq:
  "renameFilesWithPrefix E op np m =
     (let ks = range_keys E (fmdom (paths_to_move E op np (fmdom (fileContents m))))
      in fold (\<lambda>k m. move_file k (new_key op np k) m) ks m)"
  unfolding renameFilesWithPrefix_def Let_def
  by (rule fold_cong) (simp_all only: paths_to_move_value)

lemma renameDirectoriesWithPrefix_eq:
  "renameDirectoriesWithPrefix E op np m =
     (let ks = range_keys E (fmdom (paths_to_move E op np (fmdom (directories m))))
      in m\<lparr>directories :=
             fold (\<lambda>k. \<lambda>mp. fmdrop k (fmupd (new_key op np k) True mp)) ks (directories m)\<rparr>)"
proof -
  have "fold (\<lambda>k m. m\<lparr>directories := fmdrop k (fmupd (g k) True (directories m))\<rparr>) ks m
      = m\<lparr>directories := fold (\<lambda>k. \<lambda>mp. fmdrop k (fmupd (g k) True mp)) ks (directories m)\<rparr>" for g ks
    by (induction ks arbitrary: m) simp_all
  then show ?thesis
    unfolding renameDirectoriesWithPrefix_def Let_def
    by (simp only: paths_to_move_value cong: fold_cong)
qed

end

text \<open>The directory rename as one relocation of the four maps.\<close>

lemma relocate_entries:
  assumes "distinct ks" "set ks = {k. prefix op k \<and> has_key mp k}" "op \<parallel> np"
  shows "fmlookup (fold (\<lambda>k. move_entry k (new_key op np k)) ks mp) q = relocate op np mp q"
proof -
  have dis: "new_key op np ` set ks \<inter> set ks = {}"
    using assms(2) new_key_parallel [OF assms(3)] by auto
  have all: "\<forall>k\<in>set ks. has_key mp k" using assms(2) by simp
  have "fmlookup mp k = Some (the (fmlookup mp k))" if "k \<in> set ks" for k
    using that all by (auto simp: has_key_def)
  from fold_move_prefix [OF assms this] show ?thesis
    unfolding fold_move_entry [OF all assms(1) dis] .
qed

definition with_slash :: "string \<Rightarrow> string" where
  "with_slash p = (if p \<noteq> [] \<and> \<not> suffix ''/'' p then p @ ''/'' else p)"

context go_runtime
begin

lemma memoryChildPrefix_eq [simp]: "memoryChildPrefix E p = with_slash p"
  by (simp add: memoryChildPrefix_def with_slash_def)

end

lemma fold_move_dirs_keys:
  assumes "distinct ks" "set ks = {k. prefix op k \<and> has_key mp k}" "op \<parallel> np"
  shows "has_key (fold (\<lambda>k mp. fmdrop k (fmupd (new_key op np k) True mp)) ks mp) q
     \<longleftrightarrow> relocate op np mp q \<noteq> None"
proof -
  have inj: "inj_on (new_key op np) (set ks)"
    by (rule inj_on_subset [OF new_key_inj]) (use assms(2) in auto)
  have dis: "new_key op np ` set ks \<inter> set ks = {}"
    using assms(2) new_key_parallel [OF assms(3)] by auto
  have all: "fmlookup mp k = Some (the (fmlookup mp k))" if "k \<in> set ks" for k
    using that assms(2) by (auto simp: has_key_def)
  have "fmlookup (fold (\<lambda>k mp. fmdrop k (fmupd (new_key op np k) True mp)) ks mp) q \<noteq> None
    \<longleftrightarrow> fmlookup (fold (\<lambda>k mp'. fmdrop k (fmupd (new_key op np k) (the (fmlookup mp k)) mp')) ks mp) q \<noteq> None"
    unfolding fold_move [OF assms(1) inj dis] by auto
  moreover have "fmlookup (fold (\<lambda>k mp'. fmdrop k (fmupd (new_key op np k) (the (fmlookup mp k)) mp'))
      ks mp) q = relocate op np mp q"
    by (rule fold_move_prefix [OF assms all])
  ultimately show ?thesis unfolding has_key_def by simp
qed

context go_runtime
begin

lemma renameDirectory_eq:
  assumes "meta_ok m" "with_slash old \<parallel> with_slash new" "\<not> suffix ''/'' old" "old \<noteq> []" "new \<noteq> []"
  defines "m' \<equiv> renameDirectory E old new m"
  shows "fmlookup (fileContents m') q = relocate (with_slash old) (with_slash new) (fileContents m) q"
    and "fmlookup (fileModes m') q = relocate (with_slash old) (with_slash new) (fileModes m) q"
    and "fmlookup (modificationTimes m') q
      = relocate (with_slash old) (with_slash new) (modificationTimes m) q"
    and "has_key (directories m') q \<longleftrightarrow> q = new \<or>
      q \<noteq> old \<and> relocate (with_slash old) (with_slash new) (directories m) q \<noteq> None"
proof -
  let ?op = "with_slash old" and ?np = "with_slash new"
  let ?d = "fmdrop old (fmupd new True (directories m))"
  let ?m1 = "m\<lparr>directories := ?d\<rparr>"
  let ?ks = "range_keys E (fmdom (paths_to_move E ?op ?np (fmdom (fileContents m))))"
  let ?ds = "range_keys E (fmdom (paths_to_move E ?op ?np (fmdom ?d)))"
  have keys: "set ?ks = {k. prefix ?op k \<and> has_key (fileContents m) k}"
    by (rule paths_to_move_keys)
  have meta: "has_key (fileModes m) = has_key (fileContents m)"
    "has_key (modificationTimes m) = has_key (fileContents m)"
    using assms(1) by (auto simp: meta_ok_def has_key_dom)
  have all: "\<forall>k\<in>set ?ks. has_key (fileContents ?m1) k" using keys by simp
  have m2: "renameFilesWithPrefix E ?op ?np ?m1 =
    ?m1\<lparr>fileContents := fold (\<lambda>k. move_entry k (new_key ?op ?np k)) ?ks (fileContents m),
       modificationTimes := fold (\<lambda>k. move_entry k (new_key ?op ?np k)) ?ks (modificationTimes m),
       fileModes := fold (\<lambda>k. move_entry k (new_key ?op ?np k)) ?ks (fileModes m)\<rparr>"
    unfolding renameFilesWithPrefix_eq Let_def
    using fold_move_files [OF all range_distinct, of "new_key ?op ?np"] by simp
  note m' = m'_def renameDirectory_def Let_def memoryChildPrefix_eq renameDirectoriesWithPrefix_eq m2
  note rel = relocate_entries [OF range_distinct, of _ ?op _ ?np q, OF _ assms(2)]
  show "fmlookup (fileContents m') q = relocate ?op ?np (fileContents m) q"
    unfolding m' using rel [of _ "fileContents m"] keys by simp
  show "fmlookup (fileModes m') q = relocate ?op ?np (fileModes m) q"
    unfolding m' using rel [of _ "fileModes m"] keys meta by simp
  show "fmlookup (modificationTimes m') q = relocate ?op ?np (modificationTimes m) q"
    unfolding m' using rel [of _ "modificationTimes m"] keys meta by simp
  have new: "\<not> prefix ?op new" and ne: "new \<noteq> old"
    using assms(2) by (auto simp: with_slash_def split: if_splits)
  have old: "\<not> prefix ?op old" "\<not> prefix ?np old"
    using assms(2-4) by (auto simp: with_slash_def split: if_splits dest: prefix_length_le)
  have k: "?op @ r \<noteq> new \<and> ?op @ r \<noteq> old" for r
    using new old(1) by (metis prefixI)
  have "has_key (directories m') q \<longleftrightarrow> relocate ?op ?np ?d q \<noteq> None"
    unfolding m' using fold_move_dirs_keys [OF range_distinct paths_to_move_keys [of _ ?np ?d] assms(2)]
    by simp
  also have "\<dots> \<longleftrightarrow> q = new \<or> q \<noteq> old \<and> relocate ?op ?np (directories m) q \<noteq> None"
    unfolding relocate_key using new k old ne by auto
  finally show "has_key (directories m') q \<longleftrightarrow> q = new \<or>
      q \<noteq> old \<and> relocate ?op ?np (directories m) q \<noteq> None" .
qed

end

subsection \<open>Reachable states\<close>

context go_runtime
begin

lemma meta_ok_renameFile: "meta_ok m \<Longrightarrow> meta_ok (fst (renameFile old new m))"
  by (auto simp: renameFile_eq meta_ok_def fmdom_move_entry)

lemma meta_ok_renameDirectory: "meta_ok m \<Longrightarrow> meta_ok (renameDirectory E old new m)"
proof -
  assume "meta_ok m"
  let ?m1 = "m\<lparr>directories := fmdrop old (fmupd new True (directories m))\<rparr>"
  let ?op = "with_slash old" and ?np = "with_slash new"
  let ?ks = "range_keys E (fmdom (paths_to_move E ?op ?np (fmdom (fileContents ?m1))))"
  have keys: "set ?ks = {k. prefix ?op k \<and> has_key (fileContents ?m1) k}"
    by (rule paths_to_move_keys)
  have "meta_ok (fold (\<lambda>k m. move_file k (new_key ?op ?np k) m) ?ks ?m1)"
    by (rule meta_ok_move_files) (use \<open>meta_ok m\<close> keys in auto)
  then show ?thesis
    by (simp add: renameDirectory_def renameFilesWithPrefix_eq renameDirectoriesWithPrefix_eq Let_def)
qed

lemma meta_ok_step:
  assumes "mem_step E m m'" "meta_ok m"
  shows "meta_ok m'"
  using assms(1)
proof cases
  case (step_write now p c md e)
  then show ?thesis using assms(2) by (auto elim!: WriteMode_cases simp: meta_ok_store)
next
  case (step_ensure p e)
  then show ?thesis using assms(2) by (auto simp: EnsureDir_eq split: if_splits)
next
  case (step_delete p e)
  then show ?thesis using assms(2)
    by (auto simp: MemoryMedium_Delete_def meta_ok_delete_file split: if_splits)
next
  case (step_delete_all p e)
  then show ?thesis using assms(2)
    by (auto simp: DeleteAll_eq meta_ok_restrict split: if_splits)
next
  case (step_rename p q e)
  then show ?thesis using assms(2) meta_ok_renameFile [of m p q]
    by (auto simp: MemoryMedium_Rename_def intro: meta_ok_renameDirectory
        split: prod.splits bool.splits if_splits)
next
  case (step_close now w e)
  then show ?thesis using assms(2) by (auto simp: Close_eq meta_ok_store split: if_splits)
qed

lemma meta_ok_reachable: "mem_reachable E m \<Longrightarrow> meta_ok m"
  by (induction rule: mem_reachable.induct) (auto intro: meta_ok_new meta_ok_step)

end

text \<open>The contract at the concrete environment.\<close>

interpretation memory: read_write "MemoryMedium_medium go_core" "\<lambda>_. True" "\<lambda>p. p" "\<lambda>_. True"
  by (rule core.memory_read_write)

end
