(* ===== verification/MemoryProps.thy ===== *)
theory MemoryProps
  imports Memory
begin

text \<open>
  The properties of \<open>MemoryMedium\<close>: what its listing returns, in any range order, and the
  behaviour of writing, deleting, renaming and buffered writers that the lemmas of
  \<open>Memory\<close> add up to.
\<close>

subsection \<open>The listing\<close>

definition child_name :: "string \<Rightarrow> string \<Rightarrow> string" where
  "child_name pre q = takeWhile (\<lambda>c. c \<noteq> slash) (drop (length pre) q)"

definition file_entry :: "memory_medium \<Rightarrow> string \<Rightarrow> string \<Rightarrow> dir_entry" where
  "file_entry m pre name =
     NewDirEntry name False (modeForPath (pre @ name) m)
       (NewFileInfo name (int (length (value_or_empty (fileContents m) (pre @ name))))
         (modeForPath (pre @ name) m) (modificationTimeForPath (pre @ name) m) False)"

definition file_cand :: "memory_medium \<Rightarrow> string \<Rightarrow> string \<Rightarrow> (string \<times> dir_entry) option" where
  "file_cand m pre q =
     (if \<not> prefix pre q then None
      else let rest = drop (length pre) q
           in if slash \<in> set rest then Some (child_name pre q, memoryDirEntry (child_name pre q))
              else if rest = [] then None else Some (rest, file_entry m pre rest))"

definition dir_cand :: "string \<Rightarrow> string \<Rightarrow> (string \<times> dir_entry) option" where
  "dir_cand pre q =
     (if prefix pre q \<and> q \<noteq> pre then Some (child_name pre q, memoryDirEntry (child_name pre q))
      else None)"

lemma memoryDirEntry_simps [simp]:
  "de_name (memoryDirEntry n) = n" "de_isDir (memoryDirEntry n)"
  by (simp_all add: memoryDirEntry_def)

lemma file_entry_simps [simp]:
  "de_name (file_entry m pre n) = n" "\<not> de_isDir (file_entry m pre n)"
  "fi_size (de_info (file_entry m pre n))
     = int (length (value_or_empty (fileContents m) (pre @ n)))"
  by (simp_all add: file_entry_def)

lemma child_name_plain: "slash \<notin> set (drop (length pre) q) \<Longrightarrow> child_name pre q = drop (length pre) q"
  by (simp add: child_name_def)

context go_runtime
begin

lemma add_file_step_cand: "add_file_step E m pre q = add_cand (file_cand m pre q)"
proof
  fix acc
  show "add_file_step E m pre q acc = add_cand (file_cand m pre q) acc"
    by (auto simp: add_file_step_def file_cand_def Let_def trim_prefix_def maybeAddMemoryDir_def
        split2_def sublist_single file_entry_def child_name_def value_or_empty_def prefix_def)
qed

lemma add_dir_step_cand: "add_dir_step E pre q = add_cand (dir_cand pre q)"
proof
  fix acc
  have [simp]: "split2 slash s = [s]" if "slash \<notin> set s" for s
    using that by (auto simp: split2_def)
  show "add_dir_step E pre q acc = add_cand (dir_cand pre q) acc"
    by (cases "slash \<in> set (drop (length pre) q)")
      (auto simp: add_dir_step_def dir_cand_def Let_def trim_prefix_def split2_def child_name_def
        prefix_def)
qed

end

text \<open>No file is also a directory, neither explicitly nor by having something below it.\<close>

definition tree_ok :: "memory_medium \<Rightarrow> bool" where
  "tree_ok m \<longleftrightarrow> (\<forall>f. has_key (fileContents m) f \<longrightarrow> \<not> has_key (directories m) f \<and>
     (\<forall>q. prefix (f @ ''/'') q \<longrightarrow> \<not> has_key (fileContents m) q \<and> \<not> has_key (directories m) q))"

definition list_cands :: "memory_medium \<Rightarrow> string \<Rightarrow> (string \<times> dir_entry) set" where
  "list_cands m pre = cands (file_cand m pre) {q. has_key (fileContents m) q}
     \<union> cands (dir_cand pre) {q. has_key (directories m) q}"

lemma list_cands_cases:
  assumes "(n, e) \<in> list_cands m pre"
  obtains (leaf) "e = file_entry m pre n" "has_key (fileContents m) (pre @ n)" "n \<noteq> []" "slash \<notin> set n"
    | (inner) q where "e = memoryDirEntry n" "prefix (pre @ n @ ''/'') q"
        "has_key (fileContents m) q \<or> has_key (directories m) q" "slash \<notin> set n"
    | (node) "e = memoryDirEntry n" "has_key (directories m) (pre @ n)" "n \<noteq> []" "slash \<notin> set n"
proof -
  have split: "\<exists>t. s = takeWhile (\<lambda>c. c \<noteq> slash) s @ slash # t" if "slash \<in> set s" for s
    using that by (induction s) auto
  have no: "slash \<notin> set (takeWhile (\<lambda>c. c \<noteq> slash) s)" for s
    by (auto dest: set_takeWhileD)
  from assms consider
      q where "has_key (fileContents m) q" "file_cand m pre q = Some (n, e)"
    | q where "has_key (directories m) q" "dir_cand pre q = Some (n, e)"
    by (auto simp: list_cands_def cands_iff)
  then show ?thesis
  proof cases
    case (1 q)
    then obtain r where q: "q = pre @ r" by (auto simp: file_cand_def prefix_def split: if_splits)
    show ?thesis
    proof (cases "slash \<in> set r")
      case True
      obtain t where "r = takeWhile (\<lambda>c. c \<noteq> slash) r @ slash # t" using split [OF True] by blast
      then have "prefix (pre @ n @ ''/'') q" "e = memoryDirEntry n" "slash \<notin> set n"
        using 1 q True no [of r] by (auto simp: file_cand_def child_name_def prefix_def)
      then show ?thesis using 1 inner by blast
    next
      case False
      then show ?thesis using 1 q by (intro leaf) (auto simp: file_cand_def split: if_splits)
    qed
  next
    case (2 q)
    then obtain r where q: "q = pre @ r" "r \<noteq> []"
      by (auto simp: dir_cand_def prefix_def split: if_splits)
    have n: "n = takeWhile (\<lambda>c. c \<noteq> slash) r" "e = memoryDirEntry n"
      using 2 q by (auto simp: dir_cand_def child_name_def)
    show ?thesis
    proof (cases "slash \<in> set r")
      case True
      obtain t where "r = takeWhile (\<lambda>c. c \<noteq> slash) r @ slash # t" using split [OF True] by blast
      then have "prefix (pre @ n @ ''/'') q" using q n by (auto simp: prefix_def)
      then show ?thesis using 2 n no [of r] inner by blast
    next
      case False
      then have "n = r" using n by simp
      then show ?thesis using 2 q n False by (intro node) auto
    qed
  qed
qed

lemma list_cands_leaf:
  "has_key (fileContents m) (pre @ n) \<Longrightarrow> n \<noteq> [] \<Longrightarrow> slash \<notin> set n \<Longrightarrow>
   (n, file_entry m pre n) \<in> list_cands m pre"
  by (auto simp: list_cands_def cands_iff file_cand_def intro!: exI [of _ "pre @ n"])

lemma list_cands_node:
  "has_key (directories m) (pre @ n) \<Longrightarrow> n \<noteq> [] \<Longrightarrow> slash \<notin> set n \<Longrightarrow>
   (n, memoryDirEntry n) \<in> list_cands m pre"
  by (auto simp: list_cands_def cands_iff dir_cand_def child_name_def intro!: exI [of _ "pre @ n"])

lemma list_cands_inner:
  assumes "has_key (fileContents m) q \<or> has_key (directories m) q" "prefix (pre @ n @ ''/'') q"
    "slash \<notin> set n"
  shows "(n, memoryDirEntry n) \<in> list_cands m pre"
proof -
  obtain r where q: "q = pre @ n @ slash # r" using assms(2) by (auto simp: prefix_def)
  have "child_name pre q = n" using q assms(3) by (simp add: child_name_def)
  then have "file_cand m pre q = Some (n, memoryDirEntry n)"
    "dir_cand pre q = Some (n, memoryDirEntry n)"
    using q by (simp_all add: file_cand_def dir_cand_def)
  then show ?thesis using assms(1) unfolding list_cands_def cands_iff Un_iff by blast
qed

lemma list_cands_iff:
  "(n, e) \<in> list_cands m pre \<longleftrightarrow> slash \<notin> set n \<and>
     (n \<noteq> [] \<and> has_key (fileContents m) (pre @ n) \<and> e = file_entry m pre n \<or>
      e = memoryDirEntry n \<and>
        (n \<noteq> [] \<and> has_key (directories m) (pre @ n) \<or>
         (\<exists>q. prefix (pre @ n @ ''/'') q \<and> (has_key (fileContents m) q \<or> has_key (directories m) q))))"
  by (auto elim!: list_cands_cases intro: list_cands_leaf list_cands_node list_cands_inner)

lemma functional_list_cands: "tree_ok m \<Longrightarrow> functional (list_cands m pre)"
  unfolding functional_def list_cands_iff tree_ok_def
  by (metis append.assoc)

lemma named_list_cands: "named (list_cands m pre)"
  unfolding named_def list_cands_iff by auto

context go_runtime
begin

lemma List_collected:
  assumes "tree_ok m"
  shows "collected (list_cands m pre) (addDirectoryEntries E m pre (addFileEntries E m pre ({}, [])))"
proof -
  let ?F = "cands (file_cand m pre) {q. has_key (fileContents m) q}"
  let ?D = "cands (dir_cand pre) {q. has_key (directories m) q}"
  let ?fs = "range_keys E (fmdom (fileContents m))" and ?ds = "range_keys E (fmdom (directories m))"
  have sets: "set ?fs = {q. has_key (fileContents m) q}" "set ?ds = {q. has_key (directories m) q}"
    by (auto simp: has_key_dom)
  have fn: "functional (?F \<union> ?D)" and nm: "named (?F \<union> ?D)"
    using functional_list_cands [OF assms] named_list_cands by (simp_all add: list_cands_def)
  have "collected ({} \<union> cands (file_cand m pre) (set ?fs)) (addFileEntries E m pre ({}, []))"
    unfolding addFileEntries_def add_file_step_cand sets(1)
    using collected_fold [of "{}" "({}, [])" "file_cand m pre" ?fs] fn nm sets(1)
    by (auto simp: named_def intro: functional_mono)
  then show ?thesis
    unfolding addDirectoryEntries_def add_dir_step_cand list_cands_def
    using collected_fold [of ?F _ "dir_cand pre" ?ds] fn nm sets
    by (auto simp: named_def)
qed

lemma List_eq:
  "MemoryMedium_List E path m =
     (if path \<noteq> [] \<and> \<not> has_key (directories m) path \<and>
         \<not> (\<exists>q. prefix (with_slash path) q \<and> (has_key (fileContents m) q \<or> has_key (directories m) q))
      then Inl (CoreE ''io.MemoryMedium.List'' [''directory not found: '', path] (Some ErrNotExist))
      else Inr (sort_key de_name (snd (addDirectoryEntries E m (with_slash path)
             (addFileEntries E m (with_slash path) ({}, []))))))"
  by (auto simp: MemoryMedium_List_def hasChildrenAtPath_def Let_def has_key_dom
      SortDirEntriesByName_sort_key split: prod.splits)

lemma List_set:
  assumes "tree_ok m" "MemoryMedium_List E path m = Inr es"
  shows "sorted (map de_name es)" "distinct (map de_name es)"
    "set es = snd ` list_cands m (with_slash path)"
proof -
  have es: "es = sort_key de_name (snd (addDirectoryEntries E m (with_slash path)
      (addFileEntries E m (with_slash path) ({}, []))))"
    using assms(2) by (simp add: List_eq split: if_splits)
  show "sorted (map de_name es)" "distinct (map de_name es)"
    "set es = snd ` list_cands m (with_slash path)"
    unfolding es by (rule collected_sorted [OF List_collected [OF assms(1)]])+
qed

end

subsection \<open>The tree invariant\<close>

text \<open>
  Operations on normal paths that keep files and directories apart: writes, deletions, and
  directories ensured below no file.
\<close>

inductive tree_step :: "go_env \<Rightarrow> memory_medium \<Rightarrow> memory_medium \<Rightarrow> bool" for E where
  tree_write: "norm_path p \<Longrightarrow> MemoryMedium_WriteMode E now p c md m = (e, m') \<Longrightarrow> tree_step E m m'"
| tree_ensure: "norm_path p \<Longrightarrow> \<forall>a\<in>set (ancestors p). \<not> has_key (fileContents m) a \<Longrightarrow>
    MemoryMedium_EnsureDir E p m = (e, m') \<Longrightarrow> tree_step E m m'"
| tree_delete: "MemoryMedium_Delete E p m = (e, m') \<Longrightarrow> tree_step E m m'"
| tree_delete_all: "MemoryMedium_DeleteAll E p m = (e, m') \<Longrightarrow> tree_step E m m'"

inductive tree_reachable :: "go_env \<Rightarrow> memory_medium \<Rightarrow> bool" for E where
  tree_new: "tree_reachable E NewMemoryMedium"
| tree_next: "tree_reachable E m \<Longrightarrow> tree_step E m m' \<Longrightarrow> tree_reachable E m'"

definition any_key :: "memory_medium \<Rightarrow> string \<Rightarrow> bool" where
  "any_key m q \<longleftrightarrow> has_key (fileContents m) q \<or> has_key (directories m) q"

definition tree_inv :: "memory_medium \<Rightarrow> bool" where
  "tree_inv m \<longleftrightarrow> meta_ok m \<and>
     (\<forall>q. any_key m q \<longrightarrow> norm_path q \<and> (\<forall>a\<in>set (ancestors q). has_key (directories m) a)) \<and>
     (\<forall>q. has_key (fileContents m) q \<longrightarrow> \<not> has_key (directories m) q)"

lemma path_dir_neq:
  assumes "norm_path p"
  shows "path_dir p \<noteq> p"
proof (cases "slash \<in> set p")
  case True
  then obtain d b where p: "p = d @ slash # b" "slash \<notin> set b" by (meson split_list_last)
  then have "path_dir p = d" using assms by (simp add: norm_path_append path_dir_norm)
  then show ?thesis using p by simp
next
  case False
  then show ?thesis using norm_path_not_dot [OF assms] by auto
qed

lemma ancestors_norm:
  assumes "norm_path p"
  shows "a \<in> set (ancestors p) \<longleftrightarrow> a \<noteq> [] \<and> prefix (a @ ''/'') p"
proof -
  have "set (parents p) = insert p (set (ancestors p))"
    using norm_path_not_dot [OF assms] norm_path_not_Nil [OF assms] path_dir_neq [OF assms]
    by (simp add: parents_step)
  moreover have "p \<notin> set (ancestors p)"
  proof
    assume "p \<in> set (ancestors p)"
    then have "length p \<le> length (path_dir p)" "path_dir p \<noteq> ''.''"
      by (auto dest: parents_length)
    then show False using path_dir_progress [of p] path_dir_neq [OF assms] by simp
  qed
  moreover have "\<not> prefix (p @ ''/'') p" by (auto dest: prefix_length_le)
  ultimately show ?thesis using parents_norm [OF assms, of a] by (metis insert_iff)
qed

lemma tree_inv_ok:
  assumes "tree_inv m"
  shows "tree_ok m"
  unfolding tree_ok_def
proof (intro allI impI conjI)
  fix f q assume f: "has_key (fileContents m) f"
  then show "\<not> has_key (directories m) f" using assms by (simp add: tree_inv_def)
  assume pre: "prefix (f @ ''/'') q"
  have "\<not> any_key m q"
  proof
    assume "any_key m q"
    then have "norm_path q" "\<forall>a\<in>set (ancestors q). has_key (directories m) a" "f \<noteq> []"
      using assms f by (auto simp: tree_inv_def any_key_def dest: norm_path_not_Nil)
    then have "has_key (directories m) f" using ancestors_norm [of q f] pre by blast
    then show False using f assms by (simp add: tree_inv_def)
  qed
  then show "\<not> has_key (fileContents m) q" "\<not> has_key (directories m) q"
    by (simp_all add: any_key_def)
qed

lemma ancestors_closed:
  assumes "norm_path p" "a \<in> set (ancestors p)"
  shows "norm_path a" "set (ancestors a) \<subseteq> set (ancestors p)" "p \<notin> set (ancestors p)"
proof -
  obtain r where p: "p = a @ slash # r"
    using assms ancestors_norm by (auto simp: prefix_def)
  then show a: "norm_path a" using assms(1) by (simp add: norm_path_append)
  show "set (ancestors a) \<subseteq> set (ancestors p)"
    unfolding subset_iff ancestors_norm [OF a] ancestors_norm [OF assms(1)]
    using p by (metis prefix_append)
  show "p \<notin> set (ancestors p)"
    using ancestors_norm [OF assms(1)] by (auto dest: prefix_length_le)
qed

lemma not_own_ancestor: "norm_path p \<Longrightarrow> p \<notin> set (ancestors p)"
  using ancestors_norm by (auto dest: prefix_length_le)

lemma tree_inv_add:
  assumes "tree_inv m" "norm_path p" "\<forall>a\<in>set (ancestors p). \<not> has_key (fileContents m) a"
    and keys: "\<And>q. any_key m' q \<longleftrightarrow> q = p \<or> q \<in> set (ancestors p) \<or> any_key m q"
    and files: "\<And>q. has_key (fileContents m') q \<Longrightarrow> \<not> has_key (directories m') q"
    and dirs: "\<And>q. has_key (directories m) q \<or> q \<in> set (ancestors p) \<Longrightarrow> has_key (directories m') q"
    and "meta_ok m'"
  shows "tree_inv m'"
  unfolding tree_inv_def
proof (intro conjI allI impI ballI)
  fix q assume "any_key m' q"
  then consider "q = p" | "q \<in> set (ancestors p)" | "any_key m q" using keys by blast
  then have "norm_path q \<and> (\<forall>a\<in>set (ancestors q). has_key (directories m') a)"
  proof cases
    case 1
    then show ?thesis using assms(2) dirs by blast
  next
    case 2
    then show ?thesis using ancestors_closed [OF assms(2)] dirs by blast
  next
    case 3
    then show ?thesis using assms(1) dirs by (auto simp: tree_inv_def)
  qed
  then show "norm_path q" "\<And>a. a \<in> set (ancestors q) \<Longrightarrow> has_key (directories m') a" by blast+
qed (use files assms(7) in auto)

lemma tree_inv_store:
  assumes "tree_inv m" "norm_path p" "\<forall>a\<in>set (ancestors p). \<not> has_key (fileContents m) a"
    "\<not> has_key (directories m) p"
  shows "tree_inv (store_file now p c md m)"
proof (rule tree_inv_add [OF assms(1-3)])
  have dirs: "has_key (directories (store_file now p c md m)) q
      \<longleftrightarrow> q \<in> set (ancestors p) \<or> has_key (directories m) q" for q
    by (auto simp: has_key_def)
  show "any_key (store_file now p c md m) q
      \<longleftrightarrow> q = p \<or> q \<in> set (ancestors p) \<or> any_key m q" for q
    unfolding any_key_def dirs by auto
  show "has_key (directories m) q \<or> q \<in> set (ancestors p) \<Longrightarrow>
      has_key (directories (store_file now p c md m)) q" for q
    unfolding dirs by blast
  show "\<not> has_key (directories (store_file now p c md m)) q"
    if "has_key (fileContents (store_file now p c md m)) q" for q
    using that assms not_own_ancestor [OF assms(2)] unfolding dirs by (auto simp: tree_inv_def)
  show "meta_ok (store_file now p c md m)" using assms(1) by (simp add: tree_inv_def meta_ok_store)
qed

lemma tree_inv_sub:
  assumes "tree_inv m" "meta_ok m'" "\<And>q. has_key (fileContents m') q \<Longrightarrow> has_key (fileContents m) q"
    "\<And>q. has_key (directories m') q \<Longrightarrow> has_key (directories m) q"
    "\<And>q a. any_key m' q \<Longrightarrow> a \<in> set (ancestors q) \<Longrightarrow> has_key (directories m) a \<Longrightarrow> has_key (directories m') a"
  shows "tree_inv m'"
  using assms unfolding tree_inv_def any_key_def by metis

context go_runtime
begin

lemma tree_inv_step:
  assumes "tree_step E m m'" "tree_inv m"
  shows "tree_inv m'"
  using assms(1)
proof cases
  case (tree_write p now c md e)
  then show ?thesis using assms(2) by (auto elim!: WriteMode_cases intro: tree_inv_store)
next
  case (tree_ensure p e)
  let ?m = "m\<lparr>directories := fmupd p True (mark_dirs (ancestors p) (directories m))\<rparr>"
  have dirs: "has_key (directories ?m) q \<longleftrightarrow> q = p \<or> q \<in> set (ancestors p) \<or> has_key (directories m) q" for q
    by (auto simp: has_key_def)
  have "tree_inv ?m" if "\<not> has_key (fileContents m) p"
  proof (rule tree_inv_add [OF assms(2) tree_ensure(1,2)])
    show "any_key ?m q \<longleftrightarrow> q = p \<or> q \<in> set (ancestors p) \<or> any_key m q" for q
      unfolding any_key_def dirs by auto
    show "has_key (directories m) q \<or> q \<in> set (ancestors p) \<Longrightarrow> has_key (directories ?m) q" for q
      unfolding dirs by blast
    show "\<not> has_key (directories ?m) q" if "has_key (fileContents ?m) q" for q
      using that \<open>\<not> has_key (fileContents m) p\<close> tree_ensure(2) assms(2)
      unfolding dirs by (auto simp: tree_inv_def)
    show "meta_ok ?m" using assms(2) by (simp add: tree_inv_def)
  qed
  then show ?thesis using tree_ensure(3) assms(2) by (auto simp: EnsureDir_eq split: if_splits)
next
  case (tree_delete p e)
  have meta: "meta_ok m" using assms(2) by (simp add: tree_inv_def)
  have "tree_inv (delete_file p m)"
    by (rule tree_inv_sub [OF assms(2)]) (use meta in \<open>auto simp: meta_ok_delete_file\<close>)
  moreover have "tree_inv (m\<lparr>directories := fmdrop p (directories m)\<rparr>)" (is "tree_inv ?m")
    if none: "\<not> directoryHasChildren E p m" and "directoryExists E p m"
  proof (rule tree_inv_sub [OF assms(2)])
    fix q a assume q: "any_key ?m q" "a \<in> set (ancestors q)" "has_key (directories m) a"
    then have qm: "any_key m q" "norm_path q" using assms(2) by (auto simp: any_key_def tree_inv_def)
    have "a \<noteq> p"
    proof
      assume "a = p"
      then have "norm_path p" using ancestors_closed [OF qm(2) q(2)] by simp
      then have "with_slash p = p @ ''/''"
        using norm_path_append [of "butlast p" "[]"]
        by (auto simp: with_slash_def suffix_def norm_path_def split_on_snoc good_elem_def)
      then have "prefix (with_slash p) q" "q \<noteq> p"
        using ancestors_norm [OF qm(2), of p] q(2) \<open>a = p\<close> by (auto dest: prefix_length_le)
      then show False
        using none qm(1) by (auto simp: directoryHasChildren_def Let_def any_key_def has_key_dom)
    qed
    then show "has_key (directories ?m) a" using q(3) by simp
  qed (use meta in auto)
  ultimately show ?thesis using tree_delete assms(2)
    by (auto simp: MemoryMedium_Delete_def split: if_splits)
next
  case (tree_delete_all p e)
  have meta: "meta_ok m" using assms(2) by (simp add: tree_inv_def)
  let ?m = "restrict_medium (\<lambda>q. \<not> in_subtree p q) m"
  have "tree_inv ?m"
  proof (rule tree_inv_sub [OF assms(2)])
    fix q a assume q: "any_key ?m q" "a \<in> set (ancestors q)" "has_key (directories m) a"
    then have "norm_path q" "\<not> in_subtree p q" using assms(2) by (auto simp: any_key_def tree_inv_def)
    then have "prefix (a @ ''/'') q" "norm_path a"
      using ancestors_norm [of q a] q(2) ancestors_closed by auto
    then have "\<not> in_subtree p a" using \<open>\<not> in_subtree p q\<close> norm_path_append [of "butlast a" "[]"]
      by (auto simp: in_subtree_def subtree_prefix_def prefix_def suffix_def norm_path_def
          split_on_snoc good_elem_def)
    then show "has_key (directories ?m) a" using q(3) by simp
  qed (use meta in \<open>auto simp: meta_ok_restrict\<close>)
  then show ?thesis using tree_delete_all assms(2) by (auto simp: DeleteAll_eq [OF meta] split: if_splits)
qed

lemma tree_inv_reachable: "tree_reachable E m \<Longrightarrow> tree_inv m"
proof (induction rule: tree_reachable.induct)
  case tree_new
  then show ?case by (simp add: tree_inv_def any_key_def meta_ok_new) (simp add: NewMemoryMedium_def)
qed (rule tree_inv_step)

end

subsection \<open>Properties of the medium\<close>

text \<open>A small medium the examples evaluate: two files in two directories.\<close>

definition sample_medium :: memory_medium where
  "sample_medium = snd (MemoryMedium_WriteMode go_core 7 ''a/c/d'' ''z'' 384
     (snd (MemoryMedium_WriteMode go_core 5 ''a/b'' ''xy'' 420 NewMemoryMedium)))"

lemma sample_tree: "tree_reachable go_core sample_medium"
proof -
  have n: "norm_path ''a/b''" "norm_path ''a/c/d''" by code_simp+
  have step: "tree_reachable go_core m \<Longrightarrow> norm_path p \<Longrightarrow>
      tree_reachable go_core (snd (MemoryMedium_WriteMode go_core now p c md m))" for m p now c md
    by (rule tree_next, assumption, rule tree_write, assumption) (rule prod.collapse [symmetric])
  show ?thesis unfolding sample_medium_def by (intro step tree_new n)
qed

lemma tree_reachable_mem: "tree_reachable E m \<Longrightarrow> mem_reachable E m"
proof (induction rule: tree_reachable.induct)
  case (tree_next m m')
  from tree_next(2) have "mem_step E m m'" by cases (blast intro: mem_step.intros)+
  then show ?case using tree_next by (blast intro: reach_step)
qed (rule reach_new)

lemma sample_reachable: "mem_reachable go_core sample_medium"
  by (rule tree_reachable_mem [OF sample_tree])

text \<open>
  C2: \<open>WriteMode\<close> on a normal path fails, leaving the medium unchanged and with an error that
  wraps \<open>ErrExist\<close>, exactly when the path is a recorded directory or a proper ancestor of it is a
  file; otherwise the content, the mode and the time are stored, the proper ancestors become
  directories, and every other file and directory stays as it was.
\<close>

theorem memory_WriteMode:
  assumes "go_runtime E" "norm_path p" "MemoryMedium_WriteMode E now p c md m = (e, m')"
  shows "if has_key (directories m) p \<or>
      (\<exists>a. a \<noteq> [] \<and> prefix (a @ ''/'') p \<and> has_key (fileContents m) a)
    then m' = m \<and> (\<exists>err. e = Some err \<and> err_is err ErrExist)
    else e = None \<and> fileContents m' = fmupd p c (fileContents m) \<and>
      fileModes m' = fmupd p md (fileModes m) \<and>
      modificationTimes m' = fmupd p now (modificationTimes m) \<and>
      (\<forall>d. has_key (directories m') d \<longleftrightarrow>
         d \<noteq> [] \<and> prefix (d @ ''/'') p \<or> has_key (directories m) d)"
proof -
  note eq = go_runtime.WriteMode_eq [OF assms(1), of now p c md m, unfolded assms(3)]
  have anc: "a \<in> set (ancestors p) \<longleftrightarrow> a \<noteq> [] \<and> prefix (a @ ''/'') p" for a
    by (rule ancestors_norm [OF assms(2)])
  show ?thesis
  proof (cases "find (has_key (fileContents m)) (ancestors p)")
    case None
    then have none: "\<not> (\<exists>a. a \<noteq> [] \<and> prefix (a @ ''/'') p \<and> has_key (fileContents m) a)"
      using anc by (auto simp: find_None_has_key)
    show ?thesis
    proof (cases "has_key (directories m) p")
      case False
      have "has_key (mark_dirs (ancestors p) (directories m)) d
          \<longleftrightarrow> d \<in> set (ancestors p) \<or> has_key (directories m) d" for d
        by (auto simp: has_key_def)
      then show ?thesis using eq None none False anc by simp
    qed (use eq None in simp)
  next
    case (Some a)
    then have "a \<in> set (ancestors p)" "has_key (fileContents m) a"
      by (auto simp: find_Some_iff)
    then show ?thesis using eq Some anc by auto
  qed
qed

theorem memory_WriteMode_witness:
  "snd (MemoryMedium_WriteMode go_core 9 ''a/b/x'' ''q'' 420 sample_medium) = sample_medium"
proof -
  let ?r = "MemoryMedium_WriteMode go_core 9 ''a/b/x'' ''q'' 420 sample_medium"
  have n: "norm_path ''a/b/x''" by code_simp
  have "\<exists>a. a \<noteq> [] \<and> prefix (a @ ''/'') ''a/b/x'' \<and> has_key (fileContents sample_medium) a"
    by (rule exI [of _ "''a/b''"]) code_simp
  then show ?thesis
    using memory_WriteMode [OF go_core_ok n prod.collapse [of ?r, symmetric]] by (simp only: simp_thms if_True)
qed

text \<open>
  Whatever the path, the loops over its ancestors end: \<open>WriteMode\<close>, \<open>EnsureDir\<close> and the
  \<open>Close\<close> of a writer return.
\<close>

theorem memory_loops_return:
  assumes "go_runtime E"
  shows "fst (MemoryMedium_WriteMode E now p c md m) \<noteq> Some Diverges \<and>
    fst (MemoryMedium_EnsureDir E p m) \<noteq> Some Diverges \<and>
    fst (MemoryWriteCloser_Close E now w m) \<noteq> Some Diverges"
  by (simp add: go_runtime.WriteMode_eq [OF assms] go_runtime.EnsureDir_eq [OF assms]
      go_runtime.Close_eq [OF assms] split: option.split)

theorem memory_loops_return_witness:
  "fst (MemoryMedium_WriteMode go_core 1 ''/a//../b'' ''c'' 420 NewMemoryMedium) \<noteq> Some Diverges"
  using memory_loops_return [OF go_core_ok] by simp

text \<open>
  In every state the operations lead to, exactly the stored files have a mode and a
  modification time: no operation, rename and recursive deletion included, leaves metadata
  behind or loses it.
\<close>

theorem memory_metadata:
  assumes "go_runtime E" "mem_reachable E m"
  shows "fmdom (fileModes m) = fmdom (fileContents m) \<and>
    fmdom (modificationTimes m) = fmdom (fileContents m)"
  using go_runtime.meta_ok_reachable [OF assms] by (simp add: meta_ok_def)

theorem memory_metadata_witness:
  "fmdom (fileModes sample_medium) = fmdom (fileContents sample_medium)"
  using memory_metadata [OF go_core_ok sample_reachable] by simp

text \<open>
  C5: \<open>DeleteAll\<close> removes the path and everything below it, in all four maps, and nothing else;
  it fails with \<open>ErrNotExist\<close>, changing nothing, exactly when there is nothing to remove.
\<close>

theorem memory_DeleteAll:
  assumes "go_runtime E" "mem_reachable E m"
  shows "MemoryMedium_DeleteAll E path m =
    (if \<exists>q. in_subtree path q \<and> (has_key (fileContents m) q \<or> has_key (directories m) q)
     then (None, m\<lparr>fileContents := fmfilter (\<lambda>q. \<not> in_subtree path q) (fileContents m),
        fileModes := fmfilter (\<lambda>q. \<not> in_subtree path q) (fileModes m),
        modificationTimes := fmfilter (\<lambda>q. \<not> in_subtree path q) (modificationTimes m),
        directories := fmfilter (\<lambda>q. \<not> in_subtree path q) (directories m)\<rparr>)
     else (Some (CoreE ''io.MemoryMedium.DeleteAll'' [''path not found: '', path]
             (Some ErrNotExist)), m))"
  using go_runtime.DeleteAll_eq [OF assms(1) go_runtime.meta_ok_reachable [OF assms], of path]
  by (simp add: restrict_medium_def)

theorem memory_DeleteAll_witness:
  "\<not> has_key (fileContents (snd (MemoryMedium_DeleteAll go_core ''a'' sample_medium))) ''a/b''"
proof -
  have "has_key (fileContents sample_medium) ''a/b''" "in_subtree ''a'' ''a/b''" by code_simp+
  then show ?thesis
    unfolding memory_DeleteAll [OF go_core_ok sample_reachable] by auto
qed

text \<open>
  \<open>Delete\<close> removes a file with its metadata, removes a directory entry only when nothing is
  below it, refuses a directory that has children with \<open>ErrExist\<close>, and reports \<open>ErrNotExist\<close>
  for anything else; a refusal changes nothing.
\<close>

theorem memory_Delete:
  assumes "go_runtime E" "norm_path p"
    and del: "MemoryMedium_Delete E p m = (e, m')"
  shows "if has_key (fileContents m) p then e = None \<and> m' = delete_file p m
    else if \<exists>q. prefix (p @ ''/'') q \<and> (has_key (fileContents m) q \<or> has_key (directories m) q)
    then m' = m \<and> (\<exists>err. e = Some err \<and> err_is err ErrExist)
    else if has_key (directories m) p
    then e = None \<and> m' = m\<lparr>directories := fmdrop p (directories m)\<rparr>
    else m' = m \<and> (\<exists>err. e = Some err \<and> err_is err ErrNotExist)"
proof -
  note core = go_runtime.core_eqs [OF assms(1)] go_runtime.memoryChildPrefix_eq [OF assms(1)]
  have p: "p \<noteq> []" "\<not> suffix ''/'' p"
    using assms(2) norm_path_append [of "butlast p" "[]"]
    by (auto simp: suffix_def norm_path_def split_on_snoc good_elem_def)
  then have ws: "with_slash p = p @ ''/''" by (simp add: with_slash_def)
  have ne: "\<And>q. prefix (p @ ''/'') q \<Longrightarrow> q \<noteq> p" by (auto dest: prefix_length_le)
  show ?thesis
    using del p ne unfolding MemoryMedium_Delete_def directoryExists_def directoryHasChildren_def core ws Let_def
    by (auto simp: has_key_dom split: if_splits)
qed

theorem memory_Delete_witness:
  "snd (MemoryMedium_Delete go_core ''a'' sample_medium) = sample_medium"
proof -
  let ?r = "MemoryMedium_Delete go_core ''a'' sample_medium"
  have n: "norm_path ''a''" and f: "\<not> has_key (fileContents sample_medium) ''a''" by code_simp+
  have "\<exists>q. prefix (''a'' @ ''/'') q \<and>
      (has_key (fileContents sample_medium) q \<or> has_key (directories sample_medium) q)"
    by (rule exI [of _ "''a/b''"]) code_simp
  then show ?thesis
    using memory_Delete [OF go_core_ok n prod.collapse [of ?r, symmetric]] f
    by (simp only: simp_thms if_True if_False)
qed

text \<open>
  C1: writes, deletions and directories ensured below no file, on normal paths, keep the medium a
  tree: no file is a directory or has anything below it, and every proper ancestor of a stored
  path is a directory.
\<close>

theorem memory_tree:
  assumes "go_runtime E" "tree_reachable E m"
    and "has_key (fileContents m) q \<or> has_key (directories m) q"
  shows "norm_path q \<and> \<not> (has_key (fileContents m) q \<and> has_key (directories m) q) \<and>
    (\<forall>a. a \<noteq> [] \<and> prefix (a @ ''/'') q \<longrightarrow>
       has_key (directories m) a \<and> \<not> has_key (fileContents m) a)"
proof -
  have inv: "tree_inv m" by (rule go_runtime.tree_inv_reachable [OF assms(1,2)])
  then have "norm_path q" and "\<forall>a\<in>set (ancestors q). has_key (directories m) a"
    using assms(3) by (auto simp: tree_inv_def any_key_def)
  then show ?thesis using inv ancestors_norm [of q] by (auto simp: tree_inv_def)
qed

theorem memory_tree_witness: "has_key (directories sample_medium) ''a/c''"
proof -
  have "has_key (fileContents sample_medium) ''a/c/d'' \<or> has_key (directories sample_medium) ''a/c/d''"
    by code_simp
  from memory_tree [OF go_core_ok sample_tree this] show ?thesis
    by (auto dest!: spec [of _ "''a/c''"])
qed

text \<open>
  C4: when no file is also a directory, \<open>List\<close> returns each name once, in increasing order, and
  exactly the children: a file directly below the path gives an entry with its size and mode, a
  recorded directory or anything deeper gives a directory entry.  The result does not depend on
  the order in which the runtime ranges over the maps.
\<close>

theorem memory_List:
  assumes "go_runtime E" "go_runtime E'" "tree_ok m" "MemoryMedium_List E path m = Inr es"
  shows "sorted (map de_name es) \<and> distinct (map de_name es) \<and> MemoryMedium_List E' path m = Inr es \<and>
    (\<forall>e. e \<in> set es \<longleftrightarrow> (\<exists>n. slash \<notin> set n \<and>
       (n \<noteq> [] \<and> has_key (fileContents m) (with_slash path @ n) \<and> e = file_entry m (with_slash path) n \<or>
        e = memoryDirEntry n \<and>
          (n \<noteq> [] \<and> has_key (directories m) (with_slash path @ n) \<or>
           (\<exists>q. prefix (with_slash path @ n @ ''/'') q \<and>
              (has_key (fileContents m) q \<or> has_key (directories m) q))))))"
proof -
  note L = go_runtime.List_set [OF assms(1,3,4)]
  have "e \<in> set es \<longleftrightarrow> (\<exists>n. (n, e) \<in> list_cands m (with_slash path))" for e
    unfolding L(3) by force
  moreover have "MemoryMedium_List E path m = MemoryMedium_List E' path m"
    unfolding go_runtime.List_eq [OF assms(1)] go_runtime.List_eq [OF assms(2)]
    by (simp only: collected_sort_unique [OF go_runtime.List_collected [OF assms(1,3)]
          go_runtime.List_collected [OF assms(2,3)]])
  ultimately show ?thesis using L(1,2) assms(4) unfolding list_cands_iff by simp
qed

lemma sample_tree_ok: "tree_ok sample_medium"
  by (rule tree_inv_ok [OF core.tree_inv_reachable [OF sample_tree]])

theorem memory_List_witness:
  "\<exists>es. MemoryMedium_List go_core ''a'' sample_medium = Inr es \<and> map de_name es = [''b'', ''c''] \<and>
     MemoryMedium_List backwards ''a'' sample_medium = Inr es"
proof -
  have names: "map_sum id (map de_name) (MemoryMedium_List go_core ''a'' sample_medium) = Inr [''b'', ''c'']"
    by code_simp
  then obtain es where es: "MemoryMedium_List go_core ''a'' sample_medium = Inr es"
    by (cases "MemoryMedium_List go_core ''a'' sample_medium") auto
  then show ?thesis using memory_List [OF go_core_ok backwards_ok sample_tree_ok es] es names by simp
qed

text \<open>
  C3: renaming a path that is a directory and not a file moves exactly what is below it, content,
  mode and time included, onto the corresponding paths below the new name, overwriting what is
  there and leaving everything else, when neither path lies below the other, the old one does not end in a slash and
  the new one is not empty.
\<close>

theorem memory_Rename_directory:
  assumes "go_runtime E" "mem_reachable E m" "\<not> has_key (fileContents m) old"
    "directoryExists E old m" "\<not> suffix ''/'' old" "new \<noteq> []"
    "with_slash old \<parallel> with_slash new"
  shows "\<exists>m'. MemoryMedium_Rename E old new m = (None, m') \<and>
    fmlookup (fileContents m') = relocate (old @ ''/'') (with_slash new) (fileContents m) \<and>
    fmlookup (fileModes m') = relocate (old @ ''/'') (with_slash new) (fileModes m) \<and>
    fmlookup (modificationTimes m') = relocate (old @ ''/'') (with_slash new) (modificationTimes m) \<and>
    (\<forall>q. has_key (directories m') q \<longleftrightarrow> q = new \<or>
       q \<noteq> old \<and> relocate (old @ ''/'') (with_slash new) (directories m) q \<noteq> None)"
proof -
  have old: "old \<noteq> []" using assms(4) by (auto simp: directoryExists_def)
  then have ws: "with_slash old = old @ ''/''" using assms(5) by (simp add: with_slash_def)
  note R = go_runtime.renameDirectory_eq [OF assms(1) go_runtime.meta_ok_reachable [OF assms(1,2)]
      assms(7,5) old assms(6), unfolded ws]
  have "MemoryMedium_Rename E old new m = (None, renameDirectory E old new m)"
    using assms(3,4) by (simp add: MemoryMedium_Rename_def renameFile_eq)
  then show ?thesis using R by (intro exI [of _ "renameDirectory E old new m"]) (auto simp: fun_eq_iff)
qed

theorem memory_Rename_directory_witness:
  "\<exists>m'. MemoryMedium_Rename go_core ''a'' ''b'' sample_medium = (None, m') \<and>
     MemoryMedium_Read ''b/c/d'' m' = Inr ''z'' \<and> \<not> MemoryMedium_IsFile ''a/c/d'' m'"
proof -
  have h: "\<not> has_key (fileContents sample_medium) ''a''" "directoryExists go_core ''a'' sample_medium"
    "\<not> suffix ''/'' ''a''" "''b'' \<noteq> ''''"
    by code_simp+
  have "with_slash ''a'' \<parallel> with_slash ''b''" by (rule parallelI) code_simp+
  from memory_Rename_directory [OF go_core_ok sample_reachable h this]
  obtain m' where "MemoryMedium_Rename go_core ''a'' ''b'' sample_medium = (None, m')"
    and files: "fmlookup (fileContents m')
      = relocate (''a'' @ ''/'') (with_slash ''b'') (fileContents sample_medium)"
    by blast
  moreover have "fmlookup (fileContents m') ''b/c/d'' = Some ''z''"
    "fmlookup (fileContents m') ''a/c/d'' = None"
    unfolding files by code_simp+
  ultimately show ?thesis by (auto simp: MemoryMedium_Read_def MemoryMedium_IsFile_def has_key_def)
qed

text \<open>
  Renaming a file moves its content, mode and time to the new path and touches no other key of
  the four maps; but renaming a file to its own path deletes it, because the new entry is written
  before the old one is removed, and the call reports success.
\<close>

theorem memory_Rename_file:
  assumes "fmlookup (fileContents m) old = Some c"
  shows "\<exists>m'. MemoryMedium_Rename E old new m = (None, m') \<and> directories m' = directories m \<and>
    (\<forall>q. fmlookup (fileContents m') q = (if q = old then None else if q = new then Some c
        else fmlookup (fileContents m) q) \<and>
      fmlookup (fileModes m') q = (if \<not> has_key (fileModes m) old then fmlookup (fileModes m) q
        else if q = old then None else if q = new then fmlookup (fileModes m) old
        else fmlookup (fileModes m) q) \<and>
      fmlookup (modificationTimes m') q =
       (if \<not> has_key (modificationTimes m) old then fmlookup (modificationTimes m) q
        else if q = old then None else if q = new then fmlookup (modificationTimes m) old
        else fmlookup (modificationTimes m) q))"
  using assms has_key_Some [OF assms]
  by (simp add: MemoryMedium_Rename_def renameFile_eq move_entry_lookup)

theorem memory_Rename_file_witness:
  "\<exists>m'. MemoryMedium_Rename go_core ''a/b'' ''a/b'' sample_medium = (None, m') \<and>
     \<not> MemoryMedium_IsFile ''a/b'' m'"
proof -
  have "fmlookup (fileContents sample_medium) ''a/b'' = Some ''xy''" by code_simp
  from memory_Rename_file [OF this, of go_core "''a/b''"] show ?thesis
    by (auto simp: MemoryMedium_IsFile_def has_key_def)
qed

text \<open>
  \<open>EnsureDir\<close> does not check the ancestors the way \<open>WriteMode\<close> does: below a file it succeeds
  and leaves the ancestor both a file and a directory, where a write of the same path is refused.
\<close>

theorem memory_EnsureDir_below_file:
  assumes "go_runtime E" "norm_path p" "a \<noteq> []" "prefix (a @ ''/'') p"
    "has_key (fileContents m) a" "\<not> has_key (fileContents m) p"
  shows "fst (MemoryMedium_EnsureDir E p m) = None \<and>
    MemoryMedium_IsFile a (snd (MemoryMedium_EnsureDir E p m)) \<and>
    MemoryMedium_IsDir E a (snd (MemoryMedium_EnsureDir E p m)) \<and>
    fst (MemoryMedium_WriteMode E now p c md m) \<noteq> None"
proof -
  have anc: "a \<in> set (ancestors p)" using ancestors_norm [OF assms(2)] assms(3,4) by simp
  then have "find (has_key (fileContents m)) (ancestors p) \<noteq> None"
    using assms(5) by (auto simp: find_None_has_key)
  moreover have "has_key (mark_dirs (ancestors p) (directories m)) a"
    using anc by (simp add: has_key_def)
  ultimately show ?thesis
    using assms(3,5,6) by (auto simp: go_runtime.EnsureDir_eq [OF assms(1)]
        go_runtime.WriteMode_eq [OF assms(1)] MemoryMedium_IsFile_def MemoryMedium_IsDir_def
        directoryExists_def)
qed

theorem memory_EnsureDir_below_file_witness:
  "MemoryMedium_IsFile ''a/b'' (snd (MemoryMedium_EnsureDir go_core ''a/b/x'' sample_medium))"
proof -
  have h: "norm_path ''a/b/x''" "''a/b'' \<noteq> ''''" "prefix (''a/b'' @ ''/'') ''a/b/x''"
    "has_key (fileContents sample_medium) ''a/b''" "\<not> has_key (fileContents sample_medium) ''a/b/x''"
    by code_simp+
  show ?thesis using memory_EnsureDir_below_file [OF go_core_ok h, of 0 "''c''" 0] by simp
qed

text \<open>
  The \<open>Close\<close> of a writer does not check the ancestors either, so it can store a file below a
  file; then the kind of the entry \<open>List\<close> returns depends on the order of the range loop.
\<close>

theorem memory_Close_below_file:
  "let m = snd (MemoryMedium_WriteMode go_core 1 ''a'' ''x'' 420 NewMemoryMedium);
       (e, m') = MemoryWriteCloser_Close go_core 2 \<lparr>mw_path = ''a/b'', mw_data = ''y'', mw_mode = 420\<rparr> m
   in e = None \<and>
      map_sum id (map de_isDir) (MemoryMedium_List go_core '''' m') = Inr [False] \<and>
      map_sum id (map de_isDir) (MemoryMedium_List backwards '''' m') = Inr [True]"
  by code_simp

text \<open>
  A writer made by \<open>Append\<close> and written any number of times stores, when it is closed, the old
  content (empty when there was no file) followed by the data in order, keeps the mode, and
  reading the file back through a stream, with buffers of any positive sizes, gives exactly that
  content; no other file changes.
\<close>

definition write_all :: "string list \<Rightarrow> memory_writer \<Rightarrow> memory_writer" where
  "write_all chunks w = fold (\<lambda>d w. snd (MemoryWriteCloser_Write d w)) chunks w"

lemma write_all_simps [simp]:
  "mw_path (write_all chunks w) = mw_path w" "mw_mode (write_all chunks w) = mw_mode w"
  "mw_data (write_all chunks w) = mw_data w @ concat chunks"
  unfolding write_all_def
  by (induction chunks arbitrary: w) (simp_all add: MemoryWriteCloser_Write_def)

theorem memory_Append_roundtrip:
  assumes "go_runtime E" "\<not> has_key (directories m) p" "MemoryMedium_Append p m = Inr w"
    "MemoryWriteCloser_Close E now (write_all chunks w) m = (e, m')"
    "MemoryMedium_ReadStream E p m' = Inr f"
    "list_all (\<lambda>n. 0 < n) sizes" "length (mf_content f) < length sizes"
  shows "e = None \<and> read_all sizes f = Some (value_or_empty (fileContents m) p @ concat chunks) \<and>
    mf_mode f = modeForPath p m \<and>
    (\<forall>q. q \<noteq> p \<longrightarrow> MemoryMedium_Read q m' = MemoryMedium_Read q m)"
proof -
  have w: "mw_path w = p" "mw_data w = value_or_empty (fileContents m) p" "mw_mode w = modeForPath p m"
    using assms(3) by (auto simp: MemoryMedium_Append_def)
  have m': "e = None" "m' = store_file now p (mw_data w @ concat chunks) (mw_mode w) m"
    using assms(2,4) w(1) by (simp_all add: go_runtime.Close_eq [OF assms(1)])
  then have "mf_content f = mw_data w @ concat chunks" "mf_offset f = 0" "mf_mode f = mw_mode w"
    using assms(5) by (auto simp: MemoryMedium_ReadStream_def MemoryMedium_Open_def modeForPath_def)
  then show ?thesis
    using read_all_content [OF assms(6), of f] assms(7) w m' by (simp add: MemoryMedium_Read_def)
qed

theorem memory_Append_roundtrip_witness:
  "\<exists>w m' f. MemoryMedium_Append ''a/b'' sample_medium = Inr w \<and>
     MemoryWriteCloser_Close go_core 9 (write_all [''1'', ''23''] w) sample_medium = (None, m') \<and>
     MemoryMedium_ReadStream go_core ''a/b'' m' = Inr f \<and>
     read_all [2, 1, 1, 4, 4, 4] f = Some ''xy123''"
proof -
  let ?w = "\<lparr>mw_path = ''a/b'', mw_data = ''xy'', mw_mode = 420\<rparr>"
  let ?r = "MemoryWriteCloser_Close go_core 9 (write_all [''1'', ''23''] ?w) sample_medium"
  let ?f = "\<lparr>mf_name = ''b'', mf_content = ''xy123'', mf_offset = 0, mf_mode = 420, mf_modTime = 9\<rparr>"
  have h: "\<not> has_key (directories sample_medium) ''a/b''"
    "MemoryMedium_Append ''a/b'' sample_medium = Inr ?w"
    "MemoryMedium_ReadStream go_core ''a/b'' (snd ?r) = Inr ?f"
    "list_all (\<lambda>n. 0 < n) [2, 1, 1, 4, 4, 4 :: nat]" "length (mf_content ?f) < length [2, 1, 1, 4, 4, 4 :: nat]"
    "value_or_empty (fileContents sample_medium) ''a/b'' = ''xy''"
    by code_simp+
  have "fst ?r = None \<and> read_all [2, 1, 1, 4, 4, 4] ?f = Some ''xy123''"
    using memory_Append_roundtrip [OF go_core_ok h(1,2) prod.collapse [of ?r, symmetric] h(3-5)] h(6)
    by simp
  then show ?thesis using h(2,3) prod.collapse [of ?r] by metis
qed

text \<open>
  After a \<open>Copy\<close> from any medium into the in-memory medium that reports success, reading the
  destination gives what reading the source gave, and every other path reads as before; a copy
  that fails changes no file.
\<close>

theorem memory_Copy:
  assumes "go_runtime E" "Copy src s sp (MemoryMedium_medium E) now dp m = (e, m')"
  shows "(e = None \<longrightarrow> MemoryMedium_Read dp m' = m_Read src sp s) \<and>
    (\<forall>q. q \<noteq> dp \<or> e \<noteq> None \<longrightarrow> MemoryMedium_Read q m' = MemoryMedium_Read q m)"
proof -
  note rw = go_runtime.memory_read_write [OF assms(1)]
  have rd: "m_Read (MemoryMedium_medium E) = MemoryMedium_Read" by (simp add: MemoryMedium_medium_def)
  have "e = None \<Longrightarrow> MemoryMedium_Read dp m' = m_Read src sp s"
    using read_write.copy_reads_back [OF rw TrueI TrueI, of src s sp now dp m m'] assms(2)
    unfolding rd by blast
  moreover have "q \<noteq> dp \<or> e \<noteq> None \<Longrightarrow> MemoryMedium_Read q m' = MemoryMedium_Read q m" for q
    using read_write.copy_frame [OF rw TrueI assms(2), of q] unfolding rd .
  ultimately show ?thesis by blast
qed

theorem memory_Copy_witness:
  "MemoryMedium_Read ''k'' (snd (Copy (MemoryMedium_medium go_core) sample_medium ''a/b''
     (MemoryMedium_medium go_core) 3 ''k'' NewMemoryMedium)) = Inr ''xy''"
proof -
  let ?r = "Copy (MemoryMedium_medium go_core) sample_medium ''a/b''
     (MemoryMedium_medium go_core) 3 ''k'' NewMemoryMedium"
  have "fst ?r = None" "m_Read (MemoryMedium_medium go_core) ''a/b'' sample_medium = Inr ''xy''"
    by code_simp+
  then show ?thesis
    using memory_Copy [OF go_core_ok prod.collapse [of ?r, symmetric]] by simp
qed

end
