(* ===== verification/Tar.thy ===== *)
theory Tar
  imports Prelude
begin

text \<open>
  The package \<open>archive/tar\<close>, as far as the code uses it: a writer that accepts headers and
  contents and, once closed, has produced the archive, and a reader that returns the entries
  one after the other.  The byte format is not modelled: the record \<open>tar_codec\<close> is a parameter
  of the definitions that use it, and the locale \<open>tar_library\<close> states the documented round
  trip for plain files.
\<close>

record tar_header =
  th_name :: string
  th_typeflag :: char
  th_mode :: int
  th_size :: int
  th_modTime :: gotime

definition TypeReg :: char where "TypeReg = CHR ''0''"

text \<open>
  \<open>tar_WriteHeader\<close> and \<open>tar_Write\<close> are the errors of the two calls for an entry after those
  already written, \<open>tar_Close\<close> and \<open>tar_bytes\<close> the error of closing the writer and the archive
  it leaves.  \<open>tar_entries\<close> lists what \<open>Next\<close> and \<open>ReadAll\<close> return until \<open>Next\<close> fails, with the
  error it fails with when that is not the end of file.  A header without a time format is
  written with its time rounded by \<open>tar_round\<close>.
\<close>

record tar_codec =
  tar_WriteHeader :: "tar_header \<Rightarrow> (tar_header \<times> string) list \<Rightarrow> gerr option"
  tar_Write :: "tar_header \<Rightarrow> string \<Rightarrow> (tar_header \<times> string) list \<Rightarrow> gerr option"
  tar_Close :: "(tar_header \<times> string) list \<Rightarrow> gerr option"
  tar_bytes :: "(tar_header \<times> string) list \<Rightarrow> string"
  tar_entries :: "string \<Rightarrow> (tar_header \<times> string res) list \<times> gerr option"
  tar_round :: "gotime \<Rightarrow> gotime"

text \<open>What the writer can store as a regular file: a name without zero byte that does not end
  in a slash, the right size, and a time not before the Unix epoch.\<close>

definition unix_epoch :: gotime where "unix_epoch = 62135596800 * 10 ^ 9"

definition tar_plain :: "tar_header \<times> string \<Rightarrow> bool" where
  "tar_plain e \<longleftrightarrow> (case e of (h, c) \<Rightarrow>
     th_name h \<noteq> [] \<and> \<not> suffix ''/'' (th_name h) \<and> CHR 0x00 \<notin> set (th_name h) \<and>
     th_size h = int (length c) \<and> th_typeflag h \<in> {CHR 0x00, TypeReg} \<and>
     0 \<le> th_mode h \<and> th_mode h < 4096 \<and> unix_epoch \<le> th_modTime h)"

definition tar_view :: "tar_header \<times> 'c \<Rightarrow> string \<times> char \<times> gotime \<times> 'c" where
  "tar_view e = (th_name (fst e), th_typeflag (fst e), th_modTime (fst e), snd e)"

locale tar_library =
  fixes T :: tar_codec
  assumes WriteHeader_ok: "list_all tar_plain es \<Longrightarrow> tar_plain (h, c) \<Longrightarrow> tar_WriteHeader T h es = None"
    and Write_ok: "list_all tar_plain es \<Longrightarrow> tar_plain (h, c) \<Longrightarrow> tar_Write T h c es = None"
    and Close_ok: "list_all tar_plain es \<Longrightarrow> tar_Close T es = None"
    and entries_bytes: "list_all tar_plain es \<Longrightarrow>
      map tar_view (fst (tar_entries T (tar_bytes T es)))
        = map (\<lambda>(h, c). (th_name h, TypeReg, tar_round T (th_modTime h), Inr c)) es"
    and entries_end: "list_all tar_plain es \<Longrightarrow> snd (tar_entries T (tar_bytes T es)) = None"

subsection \<open>A small archive format\<close>

text \<open>
  A concrete codec, to run the examples with: names and contents prefixed by their length in
  unary, all times rounded to the epoch.
\<close>

definition put_string :: "string \<Rightarrow> string" where
  "put_string s = replicate (length s) CHR ''1'' @ CHR ''0'' # s"

fun put_entries :: "(tar_header \<times> string) list \<Rightarrow> string" where
  "put_entries [] = ''0''"
| "put_entries ((h, c) # es) = CHR ''1'' # put_string (th_name h) @ put_string c @ put_entries es"

fun get_string :: "nat \<Rightarrow> string \<Rightarrow> string \<times> string" where
  "get_string n [] = ([], [])"
| "get_string n (c # cs) =
     (if c = CHR ''1'' then get_string (Suc n) cs else (take n cs, drop n cs))"

text \<open>The number of entries is bounded by the length of the archive, which is the fuel.\<close>

fun get_entries :: "nat \<Rightarrow> string \<Rightarrow> (tar_header \<times> string res) list \<times> gerr option" where
  "get_entries 0 s = ([], Some ErrUnexpectedEOF)"
| "get_entries (Suc k) s =
     (case s of
        [] \<Rightarrow> ([], Some ErrUnexpectedEOF)
      | c # s1 \<Rightarrow>
          (if c = CHR ''0'' then ([], None)
           else let (nm, s2) = get_string 0 s1; (content, s3) = get_string 0 s2;
                    (es, e) = get_entries k s3
                in (((\<lparr>th_name = nm, th_typeflag = TypeReg, th_mode = 384,
                      th_size = int (length content), th_modTime = unix_epoch\<rparr>, Inr content) # es), e)))"

definition plain_tar :: tar_codec where
  "plain_tar = \<lparr>tar_WriteHeader = (\<lambda>h es. if suffix ''/'' (th_name h) then Some ErrInvalid else None),
     tar_Write = (\<lambda>h c es. if th_size h = int (length c) then None else Some ErrInvalid),
     tar_Close = (\<lambda>es. None), tar_bytes = put_entries,
     tar_entries = (\<lambda>s. get_entries (length s) s), tar_round = (\<lambda>_. unix_epoch)\<rparr>"

lemma get_put_string: "get_string n (replicate k CHR ''1'' @ CHR ''0'' # s)
    = (take (n + k) s, drop (n + k) s)"
  by (induction k arbitrary: n) simp_all

lemma get_put [simp]: "get_string 0 (put_string s @ t) = (s, t)"
  by (simp add: put_string_def get_put_string)

lemma length_put_entries: "length es < length (put_entries es)"
  by (induction es) (auto simp: put_string_def)

lemma get_put_entries:
  "length es < k \<Longrightarrow> map tar_view (fst (get_entries k (put_entries es)))
      = map (\<lambda>(h, c). (th_name h, TypeReg, unix_epoch, Inr c)) es
    \<and> snd (get_entries k (put_entries es)) = None"
proof (induction es arbitrary: k)
  case Nil
  then show ?case by (cases k) simp_all
next
  case (Cons e es)
  obtain h c where e: "e = (h, c)" by (cases e)
  obtain j where k: "k = Suc j" "length es < j" using Cons.prems by (cases k) auto
  then show ?case using Cons.IH [of j] e
    by (auto simp: tar_view_def split: prod.split)
qed

interpretation plain_tar: tar_library plain_tar
  by unfold_locales
    (use get_put_entries length_put_entries in \<open>auto simp: plain_tar_def tar_plain_def\<close>)

lemmas plain_tar_ok = plain_tar.tar_library_axioms

end
