(* ===== verification/Node.thy ===== *)
theory Node
  imports Listing Moves Tar
begin

text \<open>
  \<open>go/node/node.go\<close>: a tree kept as one map from slash-separated keys to files, without its own
  directories.  A \<open>*dataFile\<close> is never changed through an alias but for its name, which a
  rename sets together with the key, so files are values of the map.  The methods first strip
  one leading slash (\<open>TrimPrefix\<close>); \<open>now\<close> is what \<open>time.Now()\<close> returns during a call.
\<close>

subsection \<open>State\<close>

record data_file =
  df_name :: string
  df_content :: string
  df_modTime :: gotime

type_synonym node = "(string, data_file) fmap"

definition Node_New :: node where "Node_New = fmempty"

definition Node_AddData :: "go_env \<Rightarrow> gotime \<Rightarrow> string \<Rightarrow> string \<Rightarrow> node \<Rightarrow> node" where
  "Node_AddData E now name content node =
     (let name = TrimPrefix E name ''/''
      in if name = '''' then node
         else if HasSuffix E name ''/'' then node
         else fmupd name \<lparr>df_name = name, df_content = content, df_modTime = now\<rparr> node)"

subsection \<open>File infos\<close>

text \<open>\<open>dataFileInfo\<close> and \<open>dirInfo\<close>, read through their methods.\<close>

definition dataFile_Stat :: "go_env \<Rightarrow> data_file \<Rightarrow> file_info" where
  "dataFile_Stat E file =
     NewFileInfo (PathBase E (df_name file)) (int (length (df_content file))) 292 (df_modTime file) False"

definition dirInfo :: "string \<Rightarrow> gotime \<Rightarrow> file_info" where
  "dirInfo name modTime = NewFileInfo name 0 (ModeDir OR 365) modTime True"

definition FileInfoToDirEntry :: "file_info \<Rightarrow> dir_entry" where
  "FileInfoToDirEntry info = NewDirEntry (fi_name info) (fi_isDir info) (fi_mode info) info"

subsection \<open>Archives\<close>

definition tar_header_of :: "data_file \<Rightarrow> tar_header" where
  "tar_header_of file = \<lparr>th_name = df_name file, th_typeflag = CHR 0x00, th_mode = 384,
     th_size = int (length (df_content file)), th_modTime = df_modTime file\<rparr>"

definition write_entry ::
  "tar_codec \<Rightarrow> node \<Rightarrow> string \<Rightarrow> (tar_header \<times> string) list \<Rightarrow> gerr option \<times> (tar_header \<times> string) list" where
  "write_entry T node key es =
     (case fmlookup node key of
        None \<Rightarrow> (None, es)
      | Some file \<Rightarrow>
          (let hdr = tar_header_of file
           in case tar_WriteHeader T hdr es of
                Some err \<Rightarrow> (Some err, es)
              | None \<Rightarrow> (case tar_Write T hdr (df_content file) es of
                    Some err \<Rightarrow> (Some err, es)
                  | None \<Rightarrow> (None, es @ [(hdr, df_content file)]))))"

definition Node_ToTar :: "go_env \<Rightarrow> tar_codec \<Rightarrow> node \<Rightarrow> string res" where
  "Node_ToTar E T node =
     (case each (write_entry T node) (range_keys E (fmdom node)) [] of
        (Some err, es) \<Rightarrow> Inl err
      | (None, es) \<Rightarrow> (case tar_Close T es of Some err \<Rightarrow> Inl err | None \<Rightarrow> Inr (tar_bytes T es)))"

definition dataFileFromTarEntry ::
  "go_env \<Rightarrow> tar_header \<Rightarrow> string res \<Rightarrow> data_file option res" where
  "dataFileFromTarEntry E header content =
     (case content of
        Inl err \<Rightarrow> Inl (CoreE ''node.LoadTar'' [''read tar entry''] (Some err))
      | Inr data \<Rightarrow>
          (let name = TrimPrefix E (th_name header) ''/''
           in if name = '''' \<or> HasSuffix E name ''/'' then Inr None
              else Inr (Some \<lparr>df_name = name, df_content = data, df_modTime = th_modTime header\<rparr>)))"

definition load_entry :: "go_env \<Rightarrow> tar_header \<times> string res \<Rightarrow> node \<Rightarrow> gerr option \<times> node" where
  "load_entry E entry newFiles =
     (case entry of (header, content) \<Rightarrow>
        if th_typeflag header \<noteq> TypeReg then (None, newFiles)
        else case dataFileFromTarEntry E header content of
            Inl err \<Rightarrow> (Some err, newFiles)
          | Inr None \<Rightarrow> (None, newFiles)
          | Inr (Some file) \<Rightarrow> (None, fmupd (df_name file) file newFiles))"

definition Node_LoadTar :: "go_env \<Rightarrow> tar_codec \<Rightarrow> string \<Rightarrow> node \<Rightarrow> gerr option \<times> node" where
  "Node_LoadTar E T data node =
     (case tar_entries T data of (entries, end_err) \<Rightarrow>
        (case each (load_entry E) entries fmempty of
           (Some err, newFiles) \<Rightarrow> (Some err, node)
         | (None, newFiles) \<Rightarrow>
             (case end_err of Some err \<Rightarrow> (Some err, node) | None \<Rightarrow> (None, newFiles))))"

definition Node_FromTar :: "go_env \<Rightarrow> tar_codec \<Rightarrow> string \<Rightarrow> node res" where
  "Node_FromTar E T data =
     (case Node_LoadTar E T data Node_New of (Some err, n) \<Rightarrow> Inl err | (None, n) \<Rightarrow> Inr n)"

subsection \<open>Reading\<close>

definition node_key :: "go_env \<Rightarrow> string \<Rightarrow> string" where
  "node_key E name = TrimPrefix E name ''/''"

definition root_name :: "go_env \<Rightarrow> string \<Rightarrow> string" where
  "root_name E name =
     (let name = TrimPrefix E name ''/'' in if name = ''.'' then '''' else name)"

definition Node_ReadFile :: "go_env \<Rightarrow> string \<Rightarrow> node \<Rightarrow> string res" where
  "Node_ReadFile E name node =
     (let name = node_key E name
      in case fmlookup node name of
           None \<Rightarrow> Inl (CoreE ''node.ReadFile'' [''path not found: '', name] (Some ErrNotExist))
         | Some file \<Rightarrow> Inr (df_content file))"

text \<open>The files and directories that \<open>Open\<close> returns.\<close>

datatype node_file =
    DataReader (dr_file: data_file) (dr_offset: nat)
  | DirFile (dir_path: string) (dir_modTime: gotime)

definition Node_Open :: "go_env \<Rightarrow> gotime \<Rightarrow> string \<Rightarrow> node \<Rightarrow> node_file res" where
  "Node_Open E now name node =
     (let name = root_name E name
      in case fmlookup node name of
           Some file \<Rightarrow> Inr (DataReader file 0)
         | None \<Rightarrow>
             (if name = '''' then Inr (DirFile ''.'' now)
              else if (\<exists>filePath |\<in>| fmdom node. HasPrefix E filePath (name @ ''/''))
              then Inr (DirFile name now)
              else Inl (CoreE ''node.Open'' [''path not found: '', name] (Some ErrNotExist))))"

definition Node_Stat :: "go_env \<Rightarrow> gotime \<Rightarrow> string \<Rightarrow> node \<Rightarrow> file_info res" where
  "Node_Stat E now name node =
     (let name = root_name E name
      in case fmlookup node name of
           Some file \<Rightarrow> Inr (dataFile_Stat E file)
         | None \<Rightarrow>
             (if name = '''' then Inr (dirInfo ''.'' now)
              else if (\<exists>filePath |\<in>| fmdom node. HasPrefix E filePath (name @ ''/''))
              then Inr (dirInfo (PathBase E name) now)
              else Inl (CoreE ''node.Stat'' [''path not found: '', name] (Some ErrNotExist))))"

definition node_entry :: "go_env \<Rightarrow> gotime \<Rightarrow> node \<Rightarrow> string \<Rightarrow> string \<Rightarrow> listing \<Rightarrow> listing" where
  "node_entry E now node pre filePath acc =
     (if \<not> HasPrefix E filePath pre then acc
      else let relPath = TrimPrefix E filePath pre;
               firstComponent = hd (SplitN E relPath ''/'' 2)
           in if firstComponent \<in> fst acc then acc
              else let entry = (if Contains E relPath ''/'' then FileInfoToDirEntry (dirInfo firstComponent now)
                      else case fmlookup node filePath of
                             Some file \<Rightarrow> FileInfoToDirEntry (dataFile_Stat E file)
                           | None \<Rightarrow> FileInfoToDirEntry (dirInfo firstComponent now))
                   in (insert firstComponent (fst acc), snd acc @ [entry]))"

definition Node_ReadDir :: "go_env \<Rightarrow> gotime \<Rightarrow> string \<Rightarrow> node \<Rightarrow> dir_entry list res" where
  "Node_ReadDir E now name node =
     (let name = root_name E name
      in case Node_Stat E now name node of
           Inl _ \<Rightarrow> Inl (PathError ''readdir'' name ErrNotExist)
         | Inr info \<Rightarrow>
             (if \<not> fi_isDir info then Inl (PathError ''readdir'' name ErrInvalid)
              else let pre = (if name \<noteq> '''' then name @ ''/'' else '''')
                   in Inr (SortDirEntriesByName de_name
                        (snd (fold (node_entry E now node pre) (range_keys E (fmdom node)) ({}, []))))))"

definition Node_Read :: "go_env \<Rightarrow> string \<Rightarrow> node \<Rightarrow> string res" where
  "Node_Read E filePath node =
     (let filePath = node_key E filePath
      in case fmlookup node filePath of
           None \<Rightarrow> Inl (CoreE ''node.Read'' [''path not found: '', filePath] (Some ErrNotExist))
         | Some file \<Rightarrow> Inr (df_content file))"

definition Node_Exists :: "go_env \<Rightarrow> gotime \<Rightarrow> string \<Rightarrow> node \<Rightarrow> bool" where
  "Node_Exists E now filePath node = is_ok (Node_Stat E now filePath node)"

definition Node_IsFile :: "go_env \<Rightarrow> string \<Rightarrow> node \<Rightarrow> bool" where
  "Node_IsFile E filePath node = has_key node (node_key E filePath)"

definition Node_IsDir :: "go_env \<Rightarrow> gotime \<Rightarrow> string \<Rightarrow> node \<Rightarrow> bool" where
  "Node_IsDir E now filePath node =
     (case Node_Stat E now filePath node of Inl _ \<Rightarrow> False | Inr info \<Rightarrow> fi_isDir info)"

definition Node_List :: "go_env \<Rightarrow> gotime \<Rightarrow> string \<Rightarrow> node \<Rightarrow> dir_entry list res" where
  "Node_List E now filePath node =
     (let filePath = node_key E filePath
      in if filePath = '''' \<or> filePath = ''.'' then Node_ReadDir E now ''.'' node
         else Node_ReadDir E now filePath node)"

subsection \<open>Files\<close>

definition dataFileReader_Read :: "nat \<Rightarrow> node_file \<Rightarrow> string res \<times> node_file" where
  "dataFileReader_Read n reader =
     (case reader of
        DataReader file offset \<Rightarrow>
          (if offset \<ge> length (df_content file) then (Inl ErrEOF, reader)
           else let chunk = take n (drop offset (df_content file))
                in (Inr chunk, DataReader file (offset + length chunk)))
      | DirFile path modTime \<Rightarrow>
          (Inl (CoreE ''node.dirFile.Read'' [''cannot read directory: '', path]
             (Some (PathError ''read'' path ErrInvalid))), reader))"

definition node_file_Stat :: "go_env \<Rightarrow> node_file \<Rightarrow> file_info res" where
  "node_file_Stat E f =
     (case f of DataReader file offset \<Rightarrow> Inr (dataFile_Stat E file)
      | DirFile path modTime \<Rightarrow> Inr (dirInfo (PathBase E path) modTime))"

subsection \<open>Writing\<close>

definition Node_Write :: "go_env \<Rightarrow> gotime \<Rightarrow> string \<Rightarrow> string \<Rightarrow> node \<Rightarrow> gerr option \<times> node" where
  "Node_Write E now filePath content node =
     (let filePath = node_key E filePath
      in if filePath = '''' \<or> filePath = ''.''
         then (Some (CoreE ''node.Write'' [''empty path''] (Some ErrInvalid)), node)
         else (None, Node_AddData E now filePath content node))"

definition Node_WriteMode ::
  "go_env \<Rightarrow> gotime \<Rightarrow> string \<Rightarrow> string \<Rightarrow> file_mode \<Rightarrow> node \<Rightarrow> gerr option \<times> node" where
  "Node_WriteMode E now filePath content mode node = Node_Write E now filePath content node"

definition Node_EnsureDir :: "string \<Rightarrow> node \<Rightarrow> gerr option \<times> node" where
  "Node_EnsureDir directoryPath node = (None, node)"

definition Node_Delete :: "go_env \<Rightarrow> string \<Rightarrow> node \<Rightarrow> gerr option \<times> node" where
  "Node_Delete E filePath node =
     (let filePath = node_key E filePath
      in if has_key node filePath then (None, fmdrop filePath node)
         else (Some (CoreE ''node.Delete'' [''path not found: '', filePath] (Some ErrNotExist)), node))"

definition Node_DeleteAll :: "go_env \<Rightarrow> string \<Rightarrow> node \<Rightarrow> gerr option \<times> node" where
  "Node_DeleteAll E filePath node =
     (let filePath = node_key E filePath;
          (node1, found) = (if has_key node filePath then (fmdrop filePath node, True) else (node, False));
          pre = filePath @ ''/'';
          (node2, found) = fold (\<lambda>entryPath (n, found).
              if HasPrefix E entryPath pre then (fmdrop entryPath n, True) else (n, found))
            (range_keys E (fmdom node1)) (node1, found)
      in if found then (None, node2)
         else (Some (CoreE ''node.DeleteAll'' [''path not found: '', filePath] (Some ErrNotExist)), node2))"

text \<open>
  \<open>Rename\<close> of a directory: \<open>toAdd\<close>, \<open>toDelete\<close> and the counter \<open>renamed\<close> are collected in one
  pass, then the old keys are deleted and the new ones added.
\<close>

definition collect_moves ::
  "go_env \<Rightarrow> node \<Rightarrow> string \<Rightarrow> string \<Rightarrow> string \<Rightarrow> node \<times> string list \<times> nat \<Rightarrow> node \<times> string list \<times> nat" where
  "collect_moves E node oldPrefix newPrefix filePath acc =
     (case acc of (toAdd, toDelete, renamed) \<Rightarrow>
        (case fmlookup node filePath of
           None \<Rightarrow> acc
         | Some file \<Rightarrow>
             (if HasPrefix E filePath oldPrefix then
                let updatedPath = Concat E [newPrefix, TrimPrefix E filePath oldPrefix]
                in (fmupd updatedPath (file\<lparr>df_name := updatedPath\<rparr>) toAdd, toDelete @ [filePath], renamed + 1)
              else acc)))"

definition add_moved :: "node \<Rightarrow> string \<Rightarrow> node \<Rightarrow> node" where
  "add_moved toAdd p node = (case fmlookup toAdd p of Some f \<Rightarrow> fmupd p f node | None \<Rightarrow> node)"

definition Node_Rename :: "go_env \<Rightarrow> string \<Rightarrow> string \<Rightarrow> node \<Rightarrow> gerr option \<times> node" where
  "Node_Rename E oldPath newPath node =
     (let oldPath = node_key E oldPath; newPath = node_key E newPath
      in case fmlookup node oldPath of
           Some file \<Rightarrow> (None, fmdrop oldPath (fmupd newPath (file\<lparr>df_name := newPath\<rparr>) node))
         | None \<Rightarrow>
             (let oldPrefix = oldPath @ ''/''; newPrefix = newPath @ ''/'';
                  (toAdd, toDelete, renamed) =
                    fold (collect_moves E node oldPrefix newPrefix) (range_keys E (fmdom node))
                      (fmempty, [], 0);
                  node1 = fold fmdrop toDelete node;
                  node2 = fold (add_moved toAdd) (range_keys E (fmdom toAdd)) node1
              in if renamed = 0
                 then (Some (CoreE ''node.Rename'' [''path not found: '', oldPath] (Some ErrNotExist)), node2)
                 else (None, node2)))"

record node_writer =
  nw_path :: string
  nw_buffer :: string

definition Node_Create :: "go_env \<Rightarrow> string \<Rightarrow> node \<Rightarrow> node_writer res" where
  "Node_Create E filePath node = Inr \<lparr>nw_path = node_key E filePath, nw_buffer = ''''\<rparr>"

definition Node_Append :: "go_env \<Rightarrow> string \<Rightarrow> node \<Rightarrow> node_writer res" where
  "Node_Append E filePath node =
     (let filePath = node_key E filePath;
          existing = (case fmlookup node filePath of Some file \<Rightarrow> df_content file | None \<Rightarrow> '''')
      in Inr \<lparr>nw_path = filePath, nw_buffer = existing\<rparr>)"

definition nodeWriter_Write :: "string \<Rightarrow> node_writer \<Rightarrow> nat res \<times> node_writer" where
  "nodeWriter_Write data writer = (Inr (length data), writer\<lparr>nw_buffer := nw_buffer writer @ data\<rparr>)"

definition nodeWriter_Close :: "gotime \<Rightarrow> node_writer \<Rightarrow> node \<Rightarrow> gerr option \<times> node" where
  "nodeWriter_Close now writer node =
     (if nw_path writer = '''' \<or> nw_path writer = ''.''
      then (Some (CoreE ''node.nodeWriter.Close'' [''empty path''] (Some ErrInvalid)), node)
      else (None, fmupd (nw_path writer)
              \<lparr>df_name = nw_path writer, df_content = nw_buffer writer, df_modTime = now\<rparr> node))"

definition Node_ReadStream :: "go_env \<Rightarrow> gotime \<Rightarrow> string \<Rightarrow> node \<Rightarrow> node_file res" where
  "Node_ReadStream E now filePath node =
     (case Node_Open E now filePath node of Inl err \<Rightarrow> Inl err | Inr file \<Rightarrow> Inr file)"

definition Node_WriteStream :: "go_env \<Rightarrow> string \<Rightarrow> node \<Rightarrow> node_writer res" where
  "Node_WriteStream E filePath node = Node_Create E filePath node"

definition Node_medium :: "go_env \<Rightarrow> (node, node_file, node_file, node_writer) medium" where
  "Node_medium E = \<lparr>m_Read = Node_Read E, m_Write = Node_Write E,
     m_WriteMode = Node_WriteMode E, m_EnsureDir = Node_EnsureDir,
     m_IsFile = Node_IsFile E, m_Delete = Node_Delete E,
     m_DeleteAll = Node_DeleteAll E, m_Rename = Node_Rename E,
     m_List = Node_List E, m_Stat = Node_Stat E,
     m_Open = Node_Open E, m_Create = pure_open (Node_Create E),
     m_Append = pure_open (Node_Append E), m_ReadStream = Node_ReadStream E,
     m_WriteStream = pure_open (Node_WriteStream E), m_Exists = Node_Exists E zero_time,
     m_IsDir = Node_IsDir E zero_time\<rparr>"

subsection \<open>Copying out\<close>

text \<open>\<open>ExportFile\<close> writes to the package variable \<open>coreio.Local\<close>, here the medium \<open>L\<close> in state \<open>l\<close>.\<close>

definition ExportFile ::
  "go_env \<Rightarrow> ('s, 'f, 'r, 'w) medium \<Rightarrow> gotime \<Rightarrow> string \<Rightarrow> string \<Rightarrow> file_mode \<Rightarrow> node \<Rightarrow> 's
     \<Rightarrow> gerr option \<times> 's" where
  "ExportFile E L now sourcePath destinationPath permissions node l =
     (let sourcePath = node_key E sourcePath; op = ''node.ExportFile''
      in case fmlookup node sourcePath of
           None \<Rightarrow>
             (case Node_Stat E now sourcePath node of
                Inl _ \<Rightarrow> (Some (CoreE op [''source not found: '', sourcePath] (Some ErrNotExist)), l)
              | Inr info \<Rightarrow>
                  (if fi_isDir info
                   then (Some (CoreE op [''source is a directory: '', sourcePath] (Some ErrInvalid)), l)
                   else (Some (CoreE op [''source not found: '', sourcePath] (Some ErrNotExist)), l)))
         | Some file \<Rightarrow>
             (let parent = PathDir E destinationPath
              in if parent \<noteq> ''.'' \<and> parent \<noteq> '''' \<and> parent \<noteq> destinationPath \<and> \<not> m_IsDir L parent l
                 then (Some (CoreE op [''parent directory not found: '', destinationPath]
                         (Some ErrNotExist)), l)
                 else m_WriteMode L now destinationPath (df_content file) permissions l))"

definition copy_file ::
  "go_env \<Rightarrow> ('s, 'f, 'r, 'w) medium \<Rightarrow> gotime \<Rightarrow> node \<Rightarrow> string \<Rightarrow> string \<Rightarrow> string \<Rightarrow> string \<Rightarrow> 's
     \<Rightarrow> gerr option \<times> 's" where
  "copy_file E target now node sourcePath pre destinationPath filePath t =
     (case fmlookup node filePath of
        None \<Rightarrow> (None, t)
      | Some file \<Rightarrow>
          (if \<not> HasPrefix E filePath pre \<and> filePath \<noteq> sourcePath then (None, t)
           else let relativePath = TrimPrefix E filePath pre;
                    copyDestinationPath = (if relativePath \<noteq> ''''
                      then Concat E [destinationPath, ''/'', relativePath] else destinationPath)
                in m_Write target now copyDestinationPath (df_content file) t))"

definition CopyTo ::
  "go_env \<Rightarrow> ('s, 'f, 'r, 'w) medium \<Rightarrow> gotime \<Rightarrow> string \<Rightarrow> string \<Rightarrow> node \<Rightarrow> 's \<Rightarrow> gerr option \<times> 's" where
  "CopyTo E target now sourcePath destinationPath node t =
     (let sourcePath = root_name E sourcePath
      in case Node_Stat E now sourcePath node of
           Inl err \<Rightarrow> (Some err, t)
         | Inr info \<Rightarrow>
             (if \<not> fi_isDir info then
                (case fmlookup node sourcePath of
                   None \<Rightarrow> (Some (CoreE ''node.CopyTo'' [''path not found: '', sourcePath]
                             (Some ErrNotExist)), t)
                 | Some file \<Rightarrow> m_Write target now destinationPath (df_content file) t)
              else let pre = (if sourcePath \<noteq> '''' \<and> \<not> HasSuffix E sourcePath ''/''
                              then sourcePath @ ''/'' else sourcePath)
                   in each (copy_file E target now node sourcePath pre destinationPath)
                        (range_keys E (fmdom node)) t))"

subsection \<open>Walking\<close>

text \<open>
  \<open>fs.WalkDir\<close> of the standard library on a node.  \<open>fn\<close> is the callback, with a state of its
  own; \<open>walk_dir\<close> recurses at most \<open>fuel\<close> levels deep, and yields \<open>Diverges\<close> below that.
\<close>

type_synonym 's walk_fn =
  "string \<Rightarrow> dir_entry option \<Rightarrow> gerr option \<Rightarrow> 's \<Rightarrow> gerr option \<times> 's"

fun walk_list :: "(dir_entry \<Rightarrow> 's \<Rightarrow> gerr option \<times> 's) \<Rightarrow> dir_entry list \<Rightarrow> 's \<Rightarrow> gerr option \<times> 's" where
  "walk_list f [] s = (None, s)"
| "walk_list f (d # ds) s =
     (case f d s of
        (None, s') \<Rightarrow> walk_list f ds s'
      | (Some err, s') \<Rightarrow> if err = SkipDir then (None, s') else (Some err, s'))"

fun walk_dir ::
  "nat \<Rightarrow> go_env \<Rightarrow> gotime \<Rightarrow> node \<Rightarrow> 's walk_fn \<Rightarrow> string \<Rightarrow> dir_entry \<Rightarrow> 's \<Rightarrow> gerr option \<times> 's" where
  "walk_dir 0 E now node fn name d s = (Some Diverges, s)"
| "walk_dir (Suc fuel) E now node fn name d s =
     (case fn name (Some d) None s of
        (Some err, s') \<Rightarrow> if err = SkipDir \<and> de_isDir d then (None, s') else (Some err, s')
      | (None, s') \<Rightarrow>
          (if \<not> de_isDir d then (None, s')
           else let entries = (\<lambda>dirs. walk_list (\<lambda>d1.
                      walk_dir fuel E now node fn (path_join [name, de_name d1]) d1) dirs)
                in case Node_ReadDir E now name node of
                     Inr dirs \<Rightarrow> entries dirs s'
                   | Inl err \<Rightarrow>
                       (case fn name (Some d) (Some err) s' of
                          (Some err', s'') \<Rightarrow>
                            if err' = SkipDir \<and> de_isDir d then (None, s'') else (Some err', s'')
                        | (None, s'') \<Rightarrow> (None, s''))))"

definition WalkDir ::
  "nat \<Rightarrow> go_env \<Rightarrow> gotime \<Rightarrow> node \<Rightarrow> string \<Rightarrow> 's walk_fn \<Rightarrow> 's \<Rightarrow> gerr option \<times> 's" where
  "WalkDir fuel E now node root fn s =
     (let r = (case Node_Stat E now root node of
           Inl err \<Rightarrow> fn root None (Some err) s
         | Inr info \<Rightarrow> walk_dir fuel E now node fn root (FileInfoToDirEntry info) s)
      in case r of (Some err, s') \<Rightarrow> if err = SkipDir \<or> err = SkipAll then (None, s') else (Some err, s')
         | (None, s') \<Rightarrow> (None, s'))"

record walk_options =
  MaxDepth :: int
  wo_Filter :: "(string \<Rightarrow> dir_entry option \<Rightarrow> bool) option"
  SkipErrors :: bool

definition walkFilterDecision ::
  "string \<Rightarrow> dir_entry option \<Rightarrow> gerr option \<Rightarrow> (string \<Rightarrow> dir_entry option \<Rightarrow> bool) option
     \<Rightarrow> bool \<times> gerr option" where
  "walkFilterDecision entryPath entry err flt =
     (if flt = None \<or> err \<noteq> None \<or> the flt entryPath entry then (False, None)
      else if entry \<noteq> None \<and> de_isDir (the entry) then (True, Some SkipDir)
      else (True, None))"

definition pathDepth :: "go_env \<Rightarrow> string \<Rightarrow> nat" where
  "pathDepth E path = fold (\<lambda>part depth. if part \<noteq> '''' then depth + 1 else depth) (Split E path ''/'') 0"

definition maxDepthReached :: "go_env \<Rightarrow> string \<Rightarrow> string \<Rightarrow> dir_entry option \<Rightarrow> int \<Rightarrow> bool" where
  "maxDepthReached E root entryPath entry maxDepth =
     (if maxDepth \<le> 0 \<or> entry = None \<or> \<not> de_isDir (the entry) \<or> entryPath = root then False
      else let relativePath = TrimPrefix E entryPath root;
               relativePath = TrimPrefix E relativePath ''/''
           in int (pathDepth E relativePath) \<ge> maxDepth)"

definition walk_callback ::
  "go_env \<Rightarrow> string \<Rightarrow> walk_options \<Rightarrow> 's walk_fn \<Rightarrow> 's walk_fn" where
  "walk_callback E root options walkFunc entryPath entry err s =
     (case walkFilterDecision entryPath entry err (wo_Filter options) of
        (True, skipErr) \<Rightarrow> (skipErr, s)
      | (False, _) \<Rightarrow>
          (case walkFunc entryPath entry err s of
             (walkResult, s') \<Rightarrow>
               (if walkResult = None \<and> maxDepthReached E root entryPath entry (MaxDepth options)
                then (Some SkipDir, s') else (walkResult, s'))))"

definition Walk ::
  "nat \<Rightarrow> go_env \<Rightarrow> gotime \<Rightarrow> string \<Rightarrow> 's walk_fn \<Rightarrow> walk_options \<Rightarrow> node \<Rightarrow> 's \<Rightarrow> gerr option \<times> 's" where
  "Walk fuel E now root walkFunc options node s =
     (if SkipErrors options \<and> \<not> is_ok (Node_Stat E now root node) then (None, s)
      else WalkDir fuel E now node root (walk_callback E root options walkFunc) s)"

end
