(* ===== verification/NodeProps.thy ===== *)
theory NodeProps
  imports Node MemoryProps
begin

text \<open>
  The properties of \<open>node.Node\<close>: its write and read contract, recursive deletion and rename,
  the listing, and the round trip through a tar archive.
\<close>

subsection \<open>Keys\<close>

definition node_path :: "string \<Rightarrow> string" where
  "node_path p = dropWhile (\<lambda>c. c = slash) p"

text \<open>Paths with at most one leading slash and no slash at the end.\<close>

definition node_valid :: "string \<Rightarrow> bool" where
  "node_valid p \<longleftrightarrow> \<not> prefix ''//'' p \<and> \<not> suffix ''/'' p"

lemma trim_slash: "trim_prefix p ''/'' = (case p of c # cs \<Rightarrow> if c = slash then cs else p | [] \<Rightarrow> [])"
  by (cases p) (auto simp: trim_prefix_def)

lemma node_path_trim [simp]: "node_path (trim_prefix p ''/'') = node_path p"
  by (cases p) (auto simp: trim_slash node_path_def)

lemma node_valid_key:
  assumes "node_valid p"
  shows "\<not> prefix ''/'' (trim_prefix p ''/'')" "\<not> suffix ''/'' (trim_prefix p ''/'')"
    "trim_prefix (trim_prefix p ''/'') ''/'' = trim_prefix p ''/''"
proof -
  show a: "\<not> prefix ''/'' (trim_prefix p ''/'')"
    using assms by (cases p) (auto simp: trim_slash node_valid_def)
  then show "trim_prefix (trim_prefix p ''/'') ''/'' = trim_prefix p ''/''"
    by (simp add: trim_prefix_def)
  show "\<not> suffix ''/'' (trim_prefix p ''/'')"
    using assms by (cases p) (auto simp: trim_slash node_valid_def suffix_Cons)
qed

context go_runtime
begin

lemma node_key_eq [simp]: "node_key E p = trim_prefix p ''/''"
  by (simp add: node_key_def)

lemma AddData_eq:
  "Node_AddData E now p c n =
     (let k = trim_prefix p ''/'' in if k = [] \<or> suffix ''/'' k then n
      else fmupd k \<lparr>df_name = k, df_content = c, df_modTime = now\<rparr> n)"
  by (simp add: Node_AddData_def Let_def)

lemma Node_Write_eq:
  "Node_Write E now p c n =
     (let k = trim_prefix p ''/'' in
      if k = '''' \<or> k = ''.'' then (Some (CoreE ''node.Write'' [''empty path''] (Some ErrInvalid)), n)
      else (None, Node_AddData E now k c n))"
  by (simp add: Node_Write_def Let_def)

lemma Node_Read_eq:
  "Node_Read E p n =
     (case fmlookup n (trim_prefix p ''/'') of
        None \<Rightarrow> Inl (CoreE ''node.Read'' [''path not found: '', trim_prefix p ''/''] (Some ErrNotExist))
      | Some f \<Rightarrow> Inr (df_content f))"
  by (simp add: Node_Read_def Let_def)

lemma node_read_write: "read_write (Node_medium E) (\<lambda>_. True) node_path node_valid"
proof unfold_locales
  fix now p c md s s'
  assume "node_valid p" "m_WriteMode (Node_medium E) now p c md s = (None, s')"
  then show "m_Read (Node_medium E) p s' = Inr c"
    using node_valid_key [of p]
    by (auto simp: Node_medium_def Node_WriteMode_def Node_Write_eq Node_Read_eq AddData_eq Let_def
        split: if_splits)
next
  fix now p c md s e s' q
  assume w: "m_WriteMode (Node_medium E) now p c md s = (e, s')" and
    q: "node_path q \<noteq> node_path p \<or> e \<noteq> None"
  have "trim_prefix q ''/'' \<noteq> trim_prefix (trim_prefix p ''/'') ''/''" if "node_path q \<noteq> node_path p"
    using that by (metis node_path_trim)
  then show "m_Read (Node_medium E) q s' = m_Read (Node_medium E) q s"
    using w q by (auto simp: Node_medium_def Node_WriteMode_def Node_Write_eq Node_Read_eq AddData_eq Let_def
        split: if_splits)
qed (simp_all add: Node_medium_def Node_WriteMode_def)

end

interpretation node: read_write "Node_medium go_core" "\<lambda>_. True" node_path node_valid
  by (rule core.node_read_write)

subsection \<open>Deleting and renaming\<close>

context go_runtime
begin

lemma drop_keys_found:
  "fold (\<lambda>k (n, found). if P k then (fmdrop k n, True) else (n, found)) ks (n, b)
    = (drop_keys P ks n, b \<or> list_ex P ks)"
  by (induction ks arbitrary: n b) (auto simp: drop_keys_def)

lemma Node_DeleteAll_eq:
  "Node_DeleteAll E p n =
     (let k = trim_prefix p ''/'' in
      if \<exists>q. (q = k \<or> prefix (k @ ''/'') q) \<and> has_key n q
      then (None, fmfilter (\<lambda>q. q \<noteq> k \<and> \<not> prefix (k @ ''/'') q) n)
      else (Some (CoreE ''node.DeleteAll'' [''path not found: '', k] (Some ErrNotExist)), n))"
proof -
  let ?k = "trim_prefix p ''/''"
  have fil: "fmfilter (\<lambda>q. \<not> prefix (?k @ ''/'') q) (fmdrop ?k n)
      = fmfilter (\<lambda>q. q \<noteq> ?k \<and> \<not> prefix (?k @ ''/'') q) n"
    "\<not> has_key n ?k \<Longrightarrow> fmfilter (\<lambda>q. \<not> prefix (?k @ ''/'') q) n
      = fmfilter (\<lambda>q. q \<noteq> ?k \<and> \<not> prefix (?k @ ''/'') q) n"
    by (rule fmap_eqI, auto simp: has_key_def)+
  have idle: "fmfilter (\<lambda>q. q \<noteq> ?k \<and> \<not> prefix (?k @ ''/'') q) n = n"
    if "\<not> (\<exists>q. (q = ?k \<or> prefix (?k @ ''/'') q) \<and> has_key n q)"
    using that by (intro fmap_eqI) (auto simp: has_key_def)
  show ?thesis
  proof (cases "has_key n ?k")
    case True
    then show ?thesis
      by (auto simp: Node_DeleteAll_def Let_def drop_keys_found drop_keys_range fil(1))
  next
    case False
    then show ?thesis using idle fil(2)
      by (auto simp: Node_DeleteAll_def Let_def drop_keys_found drop_keys_range list_ex_iff has_key_dom)
  qed
qed

end

definition renamed_file :: "node \<Rightarrow> string \<Rightarrow> string \<Rightarrow> string \<Rightarrow> data_file option" where
  "renamed_file n op np q =
     (if prefix np q then map_option (\<lambda>f. f\<lparr>df_name := q\<rparr>) (fmlookup n (op @ drop (length np) q))
      else None)"

lemma new_key_back:
  "prefix op k \<Longrightarrow> new_key op np k = q \<longleftrightarrow> prefix np q \<and> k = op @ drop (length np) q"
  by (auto simp: new_key_def prefix_def)

lemma fold_fmdrop_lookup: "fmlookup (fold fmdrop ks n) q = (if q \<in> set ks then None else fmlookup n q)"
  by (induction ks arbitrary: n) auto

lemma fold_add_moved_lookup:
  "fmlookup (fold (add_moved a) ks n) q =
     (if q \<in> set ks \<and> has_key a q then fmlookup a q else fmlookup n q)"
  by (induction ks arbitrary: n) (auto simp: add_moved_def has_key_def split: option.splits)

context go_runtime
begin

lemma collect_moves_fold:
  assumes "set ks \<subseteq> {k. has_key n k}"
  shows "fold (collect_moves E n op np) ks (a, d, c) = (a', d', c') \<Longrightarrow>
    d' = d @ filter (prefix op) ks \<and> c' = c + length (filter (prefix op) ks) \<and>
    (\<forall>q. fmlookup a' q =
      (if prefix np q \<and> op @ drop (length np) q \<in> set ks then renamed_file n op np q else fmlookup a q))"
  using assms
proof (induction ks arbitrary: a d c)
  case (Cons k ks)
  obtain f where f: "fmlookup n k = Some f" using Cons.prems(2) by (auto simp: has_key_def)
  show ?case
  proof (cases "prefix op k")
    case True
    let ?u = "new_key op np k"
    have step: "collect_moves E n op np k (a, d, c) = (fmupd ?u (f\<lparr>df_name := ?u\<rparr>) a, d @ [k], c + 1)"
      using f True by (simp add: collect_moves_def trim_prefix_def new_key_def Let_def)
    have "renamed_file n op np ?u = Some (f\<lparr>df_name := ?u\<rparr>)"
      using f True by (auto simp: renamed_file_def new_key_def prefix_def)
    moreover have "?u = q \<longleftrightarrow> prefix np q \<and> k = op @ drop (length np) q" for q
      by (rule new_key_back [OF True])
    ultimately have upd: "fmlookup (fmupd ?u (f\<lparr>df_name := ?u\<rparr>) a) q =
        (if prefix np q \<and> k = op @ drop (length np) q then renamed_file n op np q else fmlookup a q)" for q
      by (cases "?u = q") auto
    have "set ks \<subseteq> {k. has_key n k}" "fold (collect_moves E n op np) ks
        (fmupd ?u (f\<lparr>df_name := ?u\<rparr>) a, d @ [k], c + 1) = (a', d', c')"
      using Cons.prems step by auto
    from Cons.IH [OF this(2,1)] show ?thesis
      unfolding upd using True by auto
  next
    case False
    then have "collect_moves E n op np k (a, d, c) = (a, d, c)"
      using f by (simp add: collect_moves_def)
    moreover have "op @ r \<noteq> k" for r using False by (metis prefixI)
    ultimately show ?thesis using Cons.IH [of a d c] Cons.prems False by auto
  qed
qed simp

lemma Node_Rename_dir:
  fixes n :: node and old new :: string
  assumes "\<not> has_key n (trim_prefix old ''/'')"
  defines "op \<equiv> trim_prefix old ''/'' @ ''/''" and "np \<equiv> trim_prefix new ''/'' @ ''/''"
  shows "fst (Node_Rename E old new n) = None \<longleftrightarrow> (\<exists>q. prefix op q \<and> has_key n q)"
    and "fmlookup (snd (Node_Rename E old new n)) q =
      (if renamed_file n op np q \<noteq> None then renamed_file n op np q
       else if prefix op q then None else fmlookup n q)"
proof -
  let ?ks = "range_keys E (fmdom n)"
  obtain a d c where fold: "fold (collect_moves E n op np) ?ks (fmempty, [], 0) = (a, d, c)"
    by (metis prod_cases3)
  have "set ?ks \<subseteq> {k. has_key n k}" by (auto simp: has_key_dom)
  from collect_moves_fold [OF this fold]
  have d: "d = filter (prefix op) ?ks" and c: "c = length (filter (prefix op) ?ks)"
    and a: "\<And>q. fmlookup a q = (if prefix np q \<and> op @ drop (length np) q \<in> set ?ks
      then renamed_file n op np q else None)"
    by simp_all
  have a': "fmlookup a q = renamed_file n op np q" for q
    unfolding a by (auto simp: renamed_file_def fmdom_notD)
  have ren: "Node_Rename E old new n =
      (if c = 0 then Some (CoreE ''node.Rename'' [''path not found: '', trim_prefix old ''/''] (Some ErrNotExist))
       else None, fold (add_moved a) (range_keys E (fmdom a)) (fold fmdrop d n))"
    using assms(1) fold unfolding op_def np_def
    by (auto simp: Node_Rename_def Let_def has_key_def)
  show "fst (Node_Rename E old new n) = None \<longleftrightarrow> (\<exists>q. prefix op q \<and> has_key n q)"
    unfolding ren c by (auto simp: filter_empty_conv has_key_dom)
  show "fmlookup (snd (Node_Rename E old new n)) q =
      (if renamed_file n op np q \<noteq> None then renamed_file n op np q
       else if prefix op q then None else fmlookup n q)"
    unfolding ren snd_conv fold_add_moved_lookup fold_fmdrop_lookup
    unfolding range_mem_iff has_key_def a' d by (auto simp: fmdom_notD)
qed

end

subsection \<open>Listing\<close>

text \<open>Every file carries its key as its name, and no key is empty or ends in a slash.\<close>

definition node_keys_ok :: "node \<Rightarrow> bool" where
  "node_keys_ok n \<longleftrightarrow> (\<forall>k f. fmlookup n k = Some f \<longrightarrow> df_name f = k \<and> k \<noteq> [] \<and> \<not> suffix ''/'' k)"

definition node_tree_ok :: "node \<Rightarrow> bool" where
  "node_tree_ok n \<longleftrightarrow> (\<forall>f q. has_key n f \<longrightarrow> prefix (f @ ''/'') q \<longrightarrow> \<not> has_key n q)"

definition dir_entry_of :: "string \<Rightarrow> gotime \<Rightarrow> dir_entry" where
  "dir_entry_of name now = FileInfoToDirEntry (dirInfo name now)"

definition file_entry_of :: "node \<Rightarrow> string \<Rightarrow> string \<Rightarrow> dir_entry" where
  "file_entry_of n pre name = (case fmlookup n (pre @ name) of
     Some f \<Rightarrow> FileInfoToDirEntry (NewFileInfo name (int (length (df_content f))) 292 (df_modTime f) False)
   | None \<Rightarrow> FileInfoToDirEntry (NewFileInfo name 0 0 0 False))"

lemma node_entries_simps [simp]:
  "de_name (dir_entry_of m now) = m" "de_isDir (dir_entry_of m now)"
  "de_name (file_entry_of n pre m) = m" "\<not> de_isDir (file_entry_of n pre m)"
  by (simp_all add: dir_entry_of_def file_entry_of_def FileInfoToDirEntry_def dirInfo_def split: option.split)

definition node_cand :: "gotime \<Rightarrow> node \<Rightarrow> string \<Rightarrow> string \<Rightarrow> (string \<times> dir_entry) option" where
  "node_cand now n pre q =
     (if \<not> prefix pre q then None
      else let rest = drop (length pre) q; c = takeWhile (\<lambda>c. c \<noteq> slash) rest
           in if slash \<in> set rest then Some (c, dir_entry_of c now) else Some (rest, file_entry_of n pre rest))"

lemma path_base_last:
  assumes "b \<noteq> []" "slash \<notin> set b" "d = [] \<or> suffix ''/'' d"
  shows "path_base (d @ b) = b"
proof -
  obtain x xs where x: "rev b = x # xs" using assms(1) by (cases "rev b") auto
  then have "x \<noteq> slash" using assms(2) by (metis list.set_intros(1) set_rev)
  have t: "takeWhile (\<lambda>c. c \<noteq> slash) (rev b @ rev d) = rev b"
  proof (cases d rule: rev_cases)
    case (snoc e z)
    then show ?thesis using assms(2,3) takeWhile_sep [of slash "rev b" "rev e"] by (auto simp: suffix_def)
  qed (use assms(2) in simp)
  have "dropWhile (\<lambda>c. c = slash) (rev (d @ b)) = rev b @ rev d"
    using x \<open>x \<noteq> slash\<close> by simp
  then show ?thesis using assms(1) t unfolding path_base_def Let_def rev_append by simp
qed

definition node_cands :: "gotime \<Rightarrow> node \<Rightarrow> string \<Rightarrow> (string \<times> dir_entry) set" where
  "node_cands now n pre = cands (node_cand now n pre) {q. has_key n q}"

lemma node_cands_iff:
  assumes "node_keys_ok n" "pre = [] \<or> suffix ''/'' pre"
  shows "(c, e) \<in> node_cands now n pre \<longleftrightarrow> slash \<notin> set c \<and>
     (c \<noteq> [] \<and> has_key n (pre @ c) \<and> e = file_entry_of n pre c \<or>
      e = dir_entry_of c now \<and> (\<exists>q. prefix (pre @ c @ ''/'') q \<and> has_key n q))" (is "?l \<longleftrightarrow> ?r")
proof
  have ex: "\<exists>t. s = takeWhile (\<lambda>c. c \<noteq> slash) s @ slash # t" if "slash \<in> set s" for s
    using that by (induction s) auto
  have no: "slash \<notin> set (takeWhile (\<lambda>c. c \<noteq> slash) s)" for s
    by (auto dest: set_takeWhileD)
  assume ?l
  then obtain r where r: "has_key n (pre @ r)" "node_cand now n pre (pre @ r) = Some (c, e)"
    by (auto simp: node_cands_def cands_iff node_cand_def prefix_def split: if_splits)
  show ?r
  proof (cases "slash \<in> set r")
    case True
    then have c: "c = takeWhile (\<lambda>c. c \<noteq> slash) r" "e = dir_entry_of c now"
      using r(2) by (auto simp: node_cand_def Let_def)
    obtain t where "r = c @ slash # t" using ex [OF True] c(1) by auto
    then have "prefix (pre @ c @ ''/'') (pre @ r)" by simp
    then show ?thesis using c r(1) no [of r] by blast
  next
    case False
    then have "c = r" "e = file_entry_of n pre r" using r(2) by (auto simp: node_cand_def Let_def)
    moreover have "r \<noteq> []"
      using assms r(1) by (cases "r = []") (auto simp: node_keys_ok_def has_key_def)
    ultimately show ?thesis using False r(1) by simp
  qed
next
  assume r: ?r
  then consider (leaf) "c \<noteq> []" "has_key n (pre @ c)" "e = file_entry_of n pre c"
    | (inner) q where "e = dir_entry_of c now" "prefix (pre @ c @ ''/'') q" "has_key n q"
    by blast
  then show ?l
  proof cases
    case leaf
    then have "node_cand now n pre (pre @ c) = Some (c, e)" using r by (simp add: node_cand_def)
    then show ?thesis using leaf(2) unfolding node_cands_def cands_iff by blast
  next
    case (inner q)
    then obtain t where "q = pre @ c @ slash # t" by (auto simp: prefix_def)
    then have "node_cand now n pre q = Some (c, e)" using r inner(1) by (simp add: node_cand_def)
    then show ?thesis using inner(3) unfolding node_cands_def cands_iff by blast
  qed
qed

lemma functional_node_cands:
  "node_keys_ok n \<Longrightarrow> node_tree_ok n \<Longrightarrow> pre = [] \<or> suffix ''/'' pre \<Longrightarrow> functional (node_cands now n pre)"
  unfolding functional_def node_cands_iff node_tree_ok_def by (metis append.assoc)

context go_runtime
begin

lemma node_entry_cand:
  assumes "node_keys_ok n" "has_key n q" "pre = [] \<or> suffix ''/'' pre"
  shows "node_entry E now n pre q = add_cand (node_cand now n pre q)"
proof
  fix acc
  obtain f where f: "fmlookup n q = Some f" using assms(2) by (auto simp: has_key_def)
  have hd2: "hd (split2 slash s) = takeWhile (\<lambda>c. c \<noteq> slash) s" for s
    by (auto simp: split2_def)
  show "node_entry E now n pre q acc = add_cand (node_cand now n pre q) acc"
  proof (cases "prefix pre q")
    case True
    then obtain r where q: "q = pre @ r" by (auto simp: prefix_def)
    have r: "r \<noteq> []" using assms(1,3) f q by (cases "r = []") (auto simp: node_keys_ok_def)
    have "df_name f = pre @ r" using assms(1) f q by (simp add: node_keys_ok_def)
    then have "slash \<notin> set r \<Longrightarrow> dataFile_Stat E f = NewFileInfo r (int (length (df_content f))) 292 (df_modTime f) False"
      using path_base_last [OF r _ assms(3)] by (simp add: dataFile_Stat_def)
    then show ?thesis using f q
      by (auto simp: node_entry_def node_cand_def add_entry_def trim_prefix_def hd2 Let_def
          sublist_single dir_entry_of_def file_entry_of_def)
  qed (simp add: node_entry_def node_cand_def)
qed

lemma node_collected:
  assumes "node_keys_ok n" "node_tree_ok n" "pre = [] \<or> suffix ''/'' pre"
  shows "collected (node_cands now n pre)
    (fold (node_entry E now n pre) (range_keys E (fmdom n)) ({}, []))"
proof -
  let ?ks = "range_keys E (fmdom n)"
  have ks: "set ?ks = {q. has_key n q}" by (auto simp: has_key_dom)
  have "named (node_cands now n pre)"
    unfolding named_def node_cands_iff [OF assms(1,3)] by auto
  then have "collected ({} \<union> cands (node_cand now n pre) (set ?ks))
      (fold (\<lambda>k. add_cand (node_cand now n pre k)) ?ks ({}, []))"
    using functional_node_cands [OF assms, of now]
    by (intro collected_fold) (simp_all only: ks node_cands_def Un_empty_left collected_empty)
  moreover have "fold (node_entry E now n pre) ?ks ({}, [])
      = fold (\<lambda>k. add_cand (node_cand now n pre k)) ?ks ({}, [])"
    by (rule fold_cong) (use ks node_entry_cand [OF assms(1) _ assms(3)] in auto)
  ultimately show ?thesis by (simp only: ks node_cands_def Un_empty_left)
qed

end

text \<open>The directory a valid path names: the root is the empty key.\<close>

definition node_dir :: "string \<Rightarrow> string" where
  "node_dir p = (if trim_prefix p ''/'' = ''.'' then [] else trim_prefix p ''/'')"

definition node_below :: "node \<Rightarrow> string \<Rightarrow> bool" where
  "node_below n k \<longleftrightarrow> (\<exists>q. prefix (k @ ''/'') q \<and> has_key n q)"

definition node_prefix :: "string \<Rightarrow> string" where
  "node_prefix p = (if node_dir p = [] then [] else node_dir p @ ''/'')"

lemma node_prefix_ends: "node_prefix p = [] \<or> suffix ''/'' (node_prefix p)"
  by (simp add: node_prefix_def suffix_def)

context go_runtime
begin

lemma root_name_eq [simp]: "root_name E p = node_dir p"
  by (simp add: root_name_def node_dir_def Let_def)

lemma node_dir_idem: "node_valid p \<Longrightarrow> node_dir (trim_prefix p ''/'') = node_dir p"
  by (simp add: node_dir_def node_valid_key)

lemma node_dir_twice: "node_valid p \<Longrightarrow> node_dir (node_dir p) = node_dir p"
  by (auto simp: node_dir_def node_valid_key(3)) (simp add: trim_prefix_def)

lemma Node_ReadDir_cong: "node_dir a = node_dir b \<Longrightarrow> Node_ReadDir E now a n = Node_ReadDir E now b n"
  by (simp add: Node_ReadDir_def)

lemma Node_List_dir:
  assumes "node_valid p"
  shows "Node_List E now p n = Node_ReadDir E now (node_dir p) n"
proof (cases "trim_prefix p ''/'' = '''' \<or> trim_prefix p ''/'' = ''.''")
  case True
  moreover have "node_dir ''.'' = []" "node_dir [] = []" by (simp_all add: node_dir_def trim_prefix_def)
  ultimately show ?thesis
    by (auto simp: Node_List_def node_dir_def [of p] intro!: Node_ReadDir_cong)
next
  case False
  then show ?thesis by (simp add: Node_List_def node_dir_def)
qed

lemma node_below_dom: "(\<exists>x |\<in>| fmdom n. prefix (k @ ''/'') x) \<longleftrightarrow> node_below n k"
  by (auto simp: has_key_dom node_below_def)

lemma Node_Stat_eq:
  "Node_Stat E now d n =
    (let k = node_dir d in
     if has_key n k then Inr (dataFile_Stat E (the (fmlookup n k)))
     else if k = [] then Inr (dirInfo ''.'' now)
     else if node_below n k then Inr (dirInfo (path_base k) now)
     else Inl (CoreE ''node.Stat'' [''path not found: '', k] (Some ErrNotExist)))"
  by (cases "fmlookup n (node_dir d)") (simp_all add: Node_Stat_def Let_def has_key_def node_below_dom)

lemma stat_isDir [simp]: "\<not> fi_isDir (dataFile_Stat E f)" "fi_isDir (dirInfo m t)"
  by (simp_all add: dataFile_Stat_def dirInfo_def)

lemma Node_ReadDir_eq:
  assumes "node_dir d = d"
  shows "Node_ReadDir E now d n =
    (if has_key n d then Inl (PathError ''readdir'' d ErrInvalid)
     else if d \<noteq> [] \<and> \<not> node_below n d
     then Inl (PathError ''readdir'' d ErrNotExist)
     else Inr (sort_key de_name (snd (fold (node_entry E now n (if d = [] then [] else d @ ''/''))
       (range_keys E (fmdom n)) ({}, [])))))"
  unfolding Node_ReadDir_def Node_Stat_eq root_name_eq assms Let_def SortDirEntriesByName_sort_key
  by (cases "d = []") simp_all

lemma Node_List_eq:
  assumes "node_valid p"
  shows "Node_List E now p n =
    (if has_key n (node_dir p) then Inl (PathError ''readdir'' (node_dir p) ErrInvalid)
     else if node_dir p \<noteq> [] \<and> \<not> node_below n (node_dir p)
     then Inl (PathError ''readdir'' (node_dir p) ErrNotExist)
     else Inr (sort_key de_name (snd (fold (node_entry E now n (node_prefix p))
       (range_keys E (fmdom n)) ({}, [])))))"
  unfolding Node_List_dir [OF assms] Node_ReadDir_eq [OF node_dir_twice [OF assms]] node_prefix_def
  by (cases "node_dir p = []") auto

end

subsection \<open>Archives\<close>

text \<open>A node whose files a tar archive can hold as they are.\<close>

definition node_plain :: "node \<Rightarrow> bool" where
  "node_plain n \<longleftrightarrow> node_keys_ok n \<and> (\<forall>k f. fmlookup n k = Some f \<longrightarrow>
     \<not> prefix ''/'' k \<and> CHR 0x00 \<notin> set k \<and> unix_epoch \<le> df_modTime f)"

definition entry_of :: "node \<Rightarrow> string \<Rightarrow> tar_header \<times> string" where
  "entry_of n k = (tar_header_of (the (fmlookup n k)), df_content (the (fmlookup n k)))"

lemma entry_of_plain:
  assumes "node_plain n" "has_key n k"
  shows "tar_plain (entry_of n k)"
  using assms by (auto simp: node_plain_def node_keys_ok_def entry_of_def tar_plain_def tar_header_of_def
      has_key_def)

lemma write_entries:
  assumes "tar_library T" "node_plain n"
  shows "list_all tar_plain es \<Longrightarrow> \<forall>k\<in>set ks. has_key n k \<Longrightarrow>
    each (write_entry T n) ks es = (None, es @ map (entry_of n) ks)
    \<and> list_all tar_plain (es @ map (entry_of n) ks)"
proof (induction ks arbitrary: es)
  case (Cons k ks)
  obtain f where f: "fmlookup n k = Some f" using Cons.prems(2) by (auto simp: has_key_def)
  have p: "tar_plain (entry_of n k)" using entry_of_plain [OF assms(2)] Cons.prems(2) by simp
  then have "tar_plain (tar_header_of f, df_content f)" using f by (simp add: entry_of_def)
  then have "write_entry T n k es = (None, es @ [entry_of n k])"
    using tar_library.WriteHeader_ok [OF assms(1) Cons.prems(1)]
      tar_library.Write_ok [OF assms(1) Cons.prems(1)] f
    by (simp add: write_entry_def entry_of_def Let_def)
  then show ?case using Cons.IH [of "es @ [entry_of n k]"] Cons.prems p by simp
qed simp

text \<open>Loading plain entries adds them one after the other.\<close>

definition load_view :: "string \<times> char \<times> gotime \<times> string res \<Rightarrow> node \<Rightarrow> node" where
  "load_view v n = (case v of (nm, _, t, Inr c) \<Rightarrow> fmupd nm \<lparr>df_name = nm, df_content = c, df_modTime = t\<rparr> n
     | _ \<Rightarrow> n)"

context go_runtime
begin

lemma load_entries:
  assumes "\<forall>v\<in>set (map tar_view es). case v of (nm, tf, t, r) \<Rightarrow>
      nm \<noteq> [] \<and> \<not> prefix ''/'' nm \<and> \<not> suffix ''/'' nm \<and> tf = TypeReg \<and> is_ok r"
  shows "each (load_entry E) es n = (None, fold load_view (map tar_view es) n)"
proof -
  have "load_entry E e m = (None, load_view (tar_view e) m)" if "e \<in> set es" for e m
  proof -
    obtain h r where e: "e = (h, r)" by (cases e)
    have "th_name h \<noteq> [] \<and> \<not> prefix ''/'' (th_name h) \<and> \<not> suffix ''/'' (th_name h) \<and>
        th_typeflag h = TypeReg \<and> is_ok r"
      using assms that e by (auto simp: tar_view_def)
    then show ?thesis using e
      by (auto simp: load_entry_def dataFileFromTarEntry_def load_view_def tar_view_def Let_def
          trim_prefix_def is_ok_iff)
  qed
  then have "each (load_entry E) es n = (None, fold (\<lambda>e. load_view (tar_view e)) es n)"
    by (rule each_pure)
  then show ?thesis by (simp add: fold_map comp_def)
qed

lemma tar_roundtrip:
  assumes T: "tar_library T" and n: "node_plain n"
  shows "\<exists>data. Node_ToTar E T n = Inr data \<and>
    Node_LoadTar E T data n0 = (None, fmmap (\<lambda>f. f\<lparr>df_modTime := tar_round T (df_modTime f)\<rparr>) n)"
proof -
  let ?ks = "range_keys E (fmdom n)"
  let ?es = "map (entry_of n) ?ks"
  let ?view = "\<lambda>k. (k, TypeReg, tar_round T (df_modTime (the (fmlookup n k))),
      Inr (df_content (the (fmlookup n k))) :: string res)"
  have keys: "\<forall>k\<in>set ?ks. has_key n k" by (auto simp: has_key_dom)
  have w: "each (write_entry T n) ?ks [] = (None, ?es)" and plain: "list_all tar_plain ?es"
    using write_entries [OF T n, of "[]" ?ks] keys by auto
  have to: "Node_ToTar E T n = Inr (tar_bytes T ?es)"
    using w tar_library.Close_ok [OF T plain] by (simp add: Node_ToTar_def)
  obtain les err where l: "tar_entries T (tar_bytes T ?es) = (les, err)" by force
  have "map tar_view les = map (\<lambda>(h, c). (th_name h, TypeReg, tar_round T (th_modTime h), Inr c)) ?es"
    using tar_library.entries_bytes [OF T plain] l by simp
  also have "\<dots> = map ?view ?ks"
    using n keys by (auto simp: entry_of_def tar_header_of_def node_plain_def node_keys_ok_def has_key_def)
  finally have view: "map tar_view les = map ?view ?ks" .
  have "each (load_entry E) les fmempty = (None, fold load_view (map tar_view les) fmempty)"
    by (rule load_entries) (use n keys in \<open>auto simp: view node_plain_def node_keys_ok_def has_key_def\<close>)
  moreover have "fmlookup (fold load_view (map ?view ks) m) q
      = (if q \<in> set ks then Some \<lparr>df_name = q, df_content = df_content (the (fmlookup n q)),
            df_modTime = tar_round T (df_modTime (the (fmlookup n q)))\<rparr>
         else fmlookup m q)" for ks m q
    by (induction ks arbitrary: m) (auto simp: load_view_def)
  then have "fold load_view (map ?view ?ks) fmempty
      = fmmap (\<lambda>f. f\<lparr>df_modTime := tar_round T (df_modTime f)\<rparr>) n"
    using n by (intro fmap_eqI)
      (auto simp: node_plain_def node_keys_ok_def fmlookup_dom_iff split: option.split)
  ultimately show ?thesis
    using to l view tar_library.entries_end [OF T plain] by (simp add: Node_LoadTar_def)
qed

end

subsection \<open>Copying out\<close>

text \<open>Where the file \<open>k\<close> goes when the directory with prefix \<open>pre\<close> is copied to \<open>dp\<close>.\<close>

definition copy_dest :: "string \<Rightarrow> string \<Rightarrow> string \<Rightarrow> string" where
  "copy_dest pre dp k = (if drop (length pre) k = [] then dp else dp @ ''/'' @ drop (length pre) k)"

lemma each_filter:
  "(\<And>k s. k \<in> set ks \<Longrightarrow> \<not> P k \<Longrightarrow> f k s = (None, s)) \<Longrightarrow>
   (\<And>k. k \<in> set ks \<Longrightarrow> P k \<Longrightarrow> f k = g k) \<Longrightarrow> each f ks s = each g (filter P ks) s"
  by (induction ks arbitrary: s) (auto split: prod.splits option.splits)

context go_runtime
begin

lemma CopyTo_dir:
  fixes M :: "('s, 'f, 'r, 'w) medium" and n :: node and p dp :: string
  assumes "node_valid p" "\<not> has_key n (node_dir p)" "node_dir p = [] \<or> node_below n (node_dir p)"
  shows "CopyTo E M now p dp n t =
    each (\<lambda>k. m_Write M now (copy_dest (node_prefix p) dp k) (df_content (the (fmlookup n k))))
      (filter (prefix (node_prefix p)) (range_keys E (fmdom n))) t"
proof -
  let ?d = "node_dir p" and ?pre = "node_prefix p"
  have "\<not> suffix ''/'' ?d" using node_valid_key(2) [OF assms(1)] by (simp add: node_dir_def)
  then have pre: "(if ?d \<noteq> '''' \<and> \<not> suffix ''/'' ?d then ?d @ ''/'' else ?d) = ?pre"
    by (simp add: node_prefix_def)
  have stat: "\<exists>info. Node_Stat E now ?d n = Inr info \<and> fi_isDir info"
    unfolding Node_Stat_eq Let_def node_dir_twice [OF assms(1)] using assms(2,3) by auto
  then obtain info where info: "Node_Stat E now ?d n = Inr info" "fi_isDir info" by blast
  have eq: "CopyTo E M now p dp n t = each (copy_file E M now n ?d ?pre dp) (range_keys E (fmdom n)) t"
    using info pre by (simp add: CopyTo_def Let_def)
  show ?thesis unfolding eq
  proof (rule each_filter)
    fix k assume "k \<in> set (range_keys E (fmdom n))"
    then have "has_key n k" by (simp add: has_key_dom)
    then obtain f where f: "fmlookup n k = Some f" by (auto simp: has_key_def)
    have "k \<noteq> ?d" using \<open>has_key n k\<close> assms(2) by auto
    then show "\<not> prefix ?pre k \<Longrightarrow> copy_file E M now n ?d ?pre dp k s = (None, s)" for s
      using f by (simp add: copy_file_def)
    show "prefix ?pre k \<Longrightarrow> copy_file E M now n ?d ?pre dp k =
        m_Write M now (copy_dest ?pre dp k) (df_content (the (fmlookup n k)))"
      using f by (auto simp: copy_file_def copy_dest_def trim_prefix_def Let_def)
  qed
qed

end

subsection \<open>Properties of the node\<close>

definition sample_node :: node where
  "sample_node = snd (Node_Write go_core unix_epoch ''a/c/d'' ''z''
     (snd (Node_Write go_core unix_epoch ''/a/b'' ''xy'' Node_New)))"

lemma sample_node_eq: "sample_node =
    fmupd ''a/c/d'' \<lparr>df_name = ''a/c/d'', df_content = ''z'', df_modTime = unix_epoch\<rparr>
      (fmupd ''a/b'' \<lparr>df_name = ''a/b'', df_content = ''xy'', df_modTime = unix_epoch\<rparr> fmempty)"
proof -
  have "trim_prefix ''/a/b'' ''/'' = ''a/b''" "trim_prefix ''a/b'' ''/'' = ''a/b''"
    "trim_prefix ''a/c/d'' ''/'' = ''a/c/d''" "\<not> suffix ''/'' ''a/b''" "\<not> suffix ''/'' ''a/c/d''"
    by code_simp+
  then show ?thesis
    by (simp add: sample_node_def core.Node_Write_eq core.AddData_eq Node_New_def Let_def)
qed

lemma sample_node_plain: "node_plain sample_node"
proof -
  have "\<not> suffix ''/'' ''a/b''" "\<not> suffix ''/'' ''a/c/d''" by code_simp+
  then show ?thesis by (auto simp: sample_node_eq node_plain_def node_keys_ok_def split: if_splits)
qed

lemma sample_node_tree: "node_tree_ok sample_node"
  by (auto simp: node_tree_ok_def sample_node_eq prefix_def)

text \<open>
  A write to a path with at most one leading slash and none at the end is refused only for the
  root; otherwise a read of the path gives the content back, and no path but the ones that differ
  from it in leading slashes reads differently.
\<close>

theorem node_Write_Read:
  assumes "go_runtime E" "node_valid p" "Node_Write E now p c n = (e, n')"
  shows "(e \<noteq> None \<longleftrightarrow> node_dir p = []) \<and>
    (e = None \<longrightarrow> Node_Read E p n' = Inr c) \<and>
    (\<forall>q. e \<noteq> None \<or> node_path q \<noteq> node_path p \<longrightarrow> Node_Read E q n' = Node_Read E q n)"
proof -
  note rw = go_runtime.node_read_write [OF assms(1)]
  have M: "m_Read (Node_medium E) = Node_Read E" "m_WriteMode (Node_medium E) now p c 420 n = (e, n')"
    using assms(3) by (simp_all add: Node_medium_def Node_WriteMode_def)
  have "e = None \<Longrightarrow> Node_Read E p n' = Inr c"
    using read_write.read_written [OF rw TrueI assms(2)] M by metis
  moreover have "e \<noteq> None \<or> node_path q \<noteq> node_path p \<Longrightarrow> Node_Read E q n' = Node_Read E q n" for q
    using read_write.read_other [OF rw TrueI M(2), of q] M(1) by auto
  moreover have "e \<noteq> None \<longleftrightarrow> node_dir p = []"
    using assms(3) by (auto simp: go_runtime.Node_Write_eq [OF assms(1)] node_dir_def Let_def split: if_splits)
  ultimately show ?thesis by blast
qed

theorem node_Write_Read_witness:
  "Node_Read go_core ''/k'' (snd (Node_Write go_core 3 ''/k'' ''v'' sample_node)) = Inr ''v''"
proof -
  have h: "node_valid ''/k''" "node_dir ''/k'' \<noteq> []" by code_simp+
  show ?thesis
    using node_Write_Read [OF go_core_ok h(1) prod.collapse [symmetric], of 3 "''v''" sample_node] h(2)
    by blast
qed

text \<open>
  A write to any path that ends in a slash, but for the root itself, reports success and stores
  nothing, so the content is lost without an error.
\<close>

theorem node_Write_slash:
  assumes "go_runtime E" "p = q @ ''/''" "trim_prefix p ''/'' \<noteq> []"
  shows "Node_Write E now p c n = (None, n)"
proof -
  let ?k = "trim_prefix p ''/''"
  have "suffix ''/'' ?k" using assms(2,3) by (cases q) (auto simp: trim_slash suffix_def)
  moreover from this have "suffix ''/'' (trim_prefix ?k ''/'') \<or> trim_prefix ?k ''/'' = []"
    by (cases ?k) (auto simp: trim_slash suffix_Cons)
  ultimately show ?thesis
    using assms(3) by (auto simp: go_runtime.Node_Write_eq [OF assms(1)] go_runtime.AddData_eq [OF assms(1)]
        Let_def suffix_def)
qed

theorem node_Write_slash_witness:
  "Node_Write go_core 3 ''logs/'' ''v'' sample_node = (None, sample_node)"
proof (rule node_Write_slash [OF go_core_ok])
  show "''logs/'' = ''logs'' @ ''/''" by simp
  show "trim_prefix ''logs/'' ''/'' \<noteq> []" by code_simp
qed

text \<open>
  \<open>DeleteAll\<close> removes exactly the files at or below the path, and fails with \<open>ErrNotExist\<close>,
  changing nothing, when there is none; this holds in any range order.
\<close>

theorem node_DeleteAll:
  assumes "go_runtime E"
  shows "Node_DeleteAll E p n =
     (let k = trim_prefix p ''/'' in
      if \<exists>q. (q = k \<or> prefix (k @ ''/'') q) \<and> has_key n q
      then (None, fmfilter (\<lambda>q. q \<noteq> k \<and> \<not> prefix (k @ ''/'') q) n)
      else (Some (CoreE ''node.DeleteAll'' [''path not found: '', k] (Some ErrNotExist)), n))"
  by (rule go_runtime.Node_DeleteAll_eq [OF assms])

theorem node_DeleteAll_witness:
  "fst (Node_DeleteAll go_core ''/x'' sample_node) \<noteq> None"
proof -
  have "trim_prefix ''/x'' ''/'' = ''x''" by code_simp
  then show ?thesis
    unfolding node_DeleteAll [OF go_core_ok] by (auto simp: Let_def sample_node_eq prefix_def)
qed

text \<open>
  Renaming a path that is no file moves every file below it onto the same path below the new
  name, its own name included, overwriting what was there, and leaves every other file alone,
  also when one path lies below the other; it fails only when nothing is below the path.
\<close>

theorem node_Rename_directory:
  assumes "go_runtime E" "\<not> has_key n (trim_prefix old ''/'')"
  shows "(fst (Node_Rename E old new n) = None \<longleftrightarrow> node_below n (trim_prefix old ''/'')) \<and>
    (\<forall>q. fmlookup (snd (Node_Rename E old new n)) q =
      (let op = trim_prefix old ''/'' @ ''/''; np = trim_prefix new ''/'' @ ''/''
       in if prefix np q \<and> has_key n (op @ drop (length np) q)
          then map_option (\<lambda>f. f\<lparr>df_name := q\<rparr>) (fmlookup n (op @ drop (length np) q))
          else if prefix op q then None else fmlookup n q))"
  using go_runtime.Node_Rename_dir [OF assms, of new]
  by (auto simp: node_below_def renamed_file_def has_key_def Let_def)

theorem node_Rename_directory_witness:
  "Node_Read go_core ''a/s/c/d'' (snd (Node_Rename go_core ''a'' ''a/s'' sample_node)) = Inr ''z''"
proof -
  have h: "\<not> has_key sample_node (trim_prefix ''a'' ''/'')" "trim_prefix ''a'' ''/'' = ''a''"
    "trim_prefix ''a/s'' ''/'' = ''a/s''" "trim_prefix ''a/s/c/d'' ''/'' = ''a/s/c/d''"
    by code_simp+
  have "fmlookup (snd (Node_Rename go_core ''a'' ''a/s'' sample_node)) ''a/s/c/d''
    = map_option (\<lambda>f. f\<lparr>df_name := ''a/s/c/d''\<rparr>) (fmlookup sample_node ''a/c/d'')"
    using node_Rename_directory [OF go_core_ok h(1), of "''a/s''"] h(2,3)
    by (simp add: Let_def sample_node_eq)
  then show ?thesis by (simp add: core.Node_Read_eq h sample_node_eq)
qed

text \<open>
  Renaming a file moves it with its name; renaming a file to its own path deletes it and
  reports success, because the old key is deleted after the new one was stored.
\<close>

theorem node_Rename_file:
  assumes "go_runtime E" "fmlookup n (trim_prefix old ''/'') = Some f"
  shows "Node_Rename E old new n = (None, fmdrop (trim_prefix old ''/'')
      (fmupd (trim_prefix new ''/'') (f\<lparr>df_name := trim_prefix new ''/''\<rparr>) n)) \<and>
    \<not> Node_IsFile E old (snd (Node_Rename E old old n))"
  using assms(2) by (simp add: Node_Rename_def Node_IsFile_def Let_def
      go_runtime.node_key_eq [OF assms(1)])

theorem node_Rename_file_witness:
  "\<not> Node_IsFile go_core ''a/b'' (snd (Node_Rename go_core ''a/b'' ''a/b'' sample_node))"
proof -
  have "trim_prefix ''a/b'' ''/'' = ''a/b''" by code_simp
  then have "fmlookup sample_node (trim_prefix ''a/b'' ''/'')
      = Some \<lparr>df_name = ''a/b'', df_content = ''xy'', df_modTime = unix_epoch\<rparr>"
    by (simp add: sample_node_eq)
  from node_Rename_file [OF go_core_ok this] show ?thesis by blast
qed

text \<open>
  When no file lies below a file, a listing that succeeds has each name once, in increasing
  order, and exactly the children of the directory: the files directly below it and a directory
  entry for everything deeper; it does not depend on the range order.
\<close>

theorem node_List:
  assumes "go_runtime E" "go_runtime E'" "node_keys_ok n" "node_tree_ok n" "node_valid p"
    "Node_List E now p n = Inr es"
  shows "sorted (map de_name es) \<and> distinct (map de_name es) \<and> Node_List E' now p n = Inr es \<and>
    (\<forall>e. e \<in> set es \<longleftrightarrow> (\<exists>c. slash \<notin> set c \<and>
       (c \<noteq> [] \<and> has_key n (node_prefix p @ c) \<and> e = file_entry_of n (node_prefix p) c \<or>
        e = dir_entry_of c now \<and> (\<exists>q. prefix (node_prefix p @ c @ ''/'') q \<and> has_key n q))))"
proof -
  let ?pre = "node_prefix p"
  let ?l = "\<lambda>E. fold (node_entry E now n ?pre) (range_keys E (fmdom n)) ({}, [])"
  note col = go_runtime.node_collected [OF assms(1,3,4) node_prefix_ends, of now p]
  note col' = go_runtime.node_collected [OF assms(2,3,4) node_prefix_ends, of now p]
  have es: "es = sort_key de_name (snd (?l E))" and E': "Node_List E' now p n = Inr (sort_key de_name (snd (?l E')))"
    using assms(6) by (auto simp: go_runtime.Node_List_eq [OF assms(1,5)]
        go_runtime.Node_List_eq [OF assms(2,5)] split: if_splits)
  have "e \<in> set es \<longleftrightarrow> (\<exists>c. (c, e) \<in> node_cands now n ?pre)" for e
    unfolding es collected_sorted(3) [OF col] by force
  moreover have "Node_List E' now p n = Inr es"
    unfolding es E' collected_sort_unique [OF col col'] ..
  ultimately show ?thesis
    unfolding node_cands_iff [OF assms(3) node_prefix_ends]
    using collected_sorted(1,2) [OF col, folded es] by blast
qed

theorem node_List_witness:
  "\<exists>es. Node_List go_core 9 ''/a'' sample_node = Inr es \<and> map de_name es = [''b'', ''c''] \<and>
     Node_List backwards 9 ''/a'' sample_node = Inr es"
proof -
  have names: "map_sum id (map de_name) (Node_List go_core 9 ''/a'' sample_node) = Inr [''b'', ''c'']"
    by code_simp
  then obtain es where es: "Node_List go_core 9 ''/a'' sample_node = Inr es"
    by (cases "Node_List go_core 9 ''/a'' sample_node") auto
  have v: "node_valid ''/a''" by code_simp
  have k: "node_keys_ok sample_node" using sample_node_plain by (simp add: node_plain_def)
  show ?thesis
    using node_List [OF go_core_ok backwards_ok k sample_node_tree v es] es names by simp
qed

text \<open>
  C7: writing a node whose names, and times not before 1970, fit a tar archive and loading the
  archive gives back the same files, with their times rounded the way the archive rounds them,
  whatever the range order and the node it is loaded into.
\<close>

theorem node_tar_roundtrip:
  assumes "go_runtime E" "tar_library T" "node_plain n"
  shows "\<exists>data. Node_ToTar E T n = Inr data \<and>
    Node_FromTar E T data = Inr (fmmap (\<lambda>f. f\<lparr>df_modTime := tar_round T (df_modTime f)\<rparr>) n) \<and>
    (\<forall>n0. Node_LoadTar E T data n0
       = (None, fmmap (\<lambda>f. f\<lparr>df_modTime := tar_round T (df_modTime f)\<rparr>) n))"
proof -
  from go_runtime.tar_roundtrip [OF assms] obtain data where "Node_ToTar E T n = Inr data" by blast
  moreover have "Node_LoadTar E T data n0
      = (None, fmmap (\<lambda>f. f\<lparr>df_modTime := tar_round T (df_modTime f)\<rparr>) n)" for n0
    using go_runtime.tar_roundtrip [OF assms, of n0] calculation by auto
  ultimately show ?thesis by (simp add: Node_FromTar_def)
qed

theorem node_tar_roundtrip_witness:
  "\<exists>data. Node_ToTar go_core plain_tar sample_node = Inr data \<and>
     (\<exists>n. Node_FromTar go_core plain_tar data = Inr n \<and> Node_Read go_core ''a/b'' n = Inr ''xy'')"
proof -
  have k: "trim_prefix ''a/b'' ''/'' = ''a/b''" by code_simp
  show ?thesis
    using node_tar_roundtrip [OF go_core_ok plain_tar_ok sample_node_plain]
    by (rule ex_forward) (auto simp: core.Node_Read_eq k sample_node_eq)
qed

text \<open>
  C8: a \<open>CopyTo\<close> of a directory (a valid path that is not itself a file and has a file below it, or the
  root) that reports success has written every file below it under the destination, with its content,
  and every path of the target that is not a destination reads as before.  The target may be any medium
  that keeps the contract between writing and reading, when the destinations are valid paths of
  it and those of different files are different files of it (the keys \<open>a//b\<close> and \<open>a/b\<close> of a
  node would be copied onto one file of a medium that cleans paths).
\<close>

theorem node_CopyTo:
  assumes "go_runtime E" "read_write M ok key valid" "ok t" "node_valid p"
    "\<not> has_key n (node_dir p)" "node_dir p = [] \<or> node_below n (node_dir p)"
    "\<And>k. prefix (node_prefix p) k \<Longrightarrow> has_key n k \<Longrightarrow> valid (copy_dest (node_prefix p) dp k)"
    "inj_on (\<lambda>k. key (copy_dest (node_prefix p) dp k)) {k. prefix (node_prefix p) k \<and> has_key n k}"
    "CopyTo E M now p dp n t = (None, t')"
  shows "(\<forall>k f. prefix (node_prefix p) k \<and> fmlookup n k = Some f \<longrightarrow>
      m_Read M (copy_dest (node_prefix p) dp k) t' = Inr (df_content f)) \<and>
    (\<forall>q. (\<forall>k. prefix (node_prefix p) k \<and> has_key n k \<longrightarrow> key q \<noteq> key (copy_dest (node_prefix p) dp k))
      \<longrightarrow> m_Read M q t' = m_Read M q t)"
proof -
  let ?ks = "filter (prefix (node_prefix p)) (range_keys E (fmdom n))"
  let ?d = "copy_dest (node_prefix p) dp"
  have ks: "set ?ks = {k. prefix (node_prefix p) k \<and> has_key n k}"
    using go_runtime.range_set [OF assms(1)] by (auto simp: has_key_dom)
  have "distinct (map (\<lambda>k. key (?d k)) ?ks)"
    using assms(8) go_runtime.range_distinct [OF assms(1)] by (simp only: distinct_map ks) simp
  moreover have "each (\<lambda>k. m_Write M now (?d k) (df_content (the (fmlookup n k)))) ?ks t = (None, t')"
    using assms(9) unfolding go_runtime.CopyTo_dir [OF assms(1,4-6)] .
  moreover have "\<forall>k\<in>set ?ks. valid (?d k)" unfolding ks using assms(7) by blast
  ultimately have "(\<forall>k\<in>set ?ks. m_Read M (?d k) t' = Inr (df_content (the (fmlookup n k)))) \<and>
      (\<forall>q. key q \<notin> (\<lambda>k. key (?d k)) ` set ?ks \<longrightarrow> m_Read M q t' = m_Read M q t)"
    by (intro read_write.each_write [OF assms(2,3)])
  then show ?thesis unfolding ks image_iff by (force simp: has_key_def)
qed

theorem node_CopyTo_witness:
  "MemoryMedium_Read ''bk/c/d'' (snd (CopyTo go_core (MemoryMedium_medium go_core) 4 ''a'' ''bk''
     sample_node NewMemoryMedium)) = Inr ''z''"
proof -
  let ?r = "CopyTo go_core (MemoryMedium_medium go_core) 4 ''a'' ''bk'' sample_node NewMemoryMedium"
  have h: "node_valid ''a''" "\<not> has_key sample_node (node_dir ''a'')" "fst ?r = None"
    "node_prefix ''a'' = ''a/''" "copy_dest ''a/'' ''bk'' ''a/c/d'' = ''bk/c/d''"
    "node_dir ''a'' = ''a''"
    by code_simp+
  have b: "node_dir ''a'' = [] \<or> node_below sample_node (node_dir ''a'')"
    by (auto simp: h(6) node_below_def sample_node_eq intro!: exI [of _ "''a/b''"])
  have keys: "{k. prefix ''a/'' k \<and> has_key sample_node k} = {''a/b'', ''a/c/d''}"
    by (auto simp: sample_node_eq)
  have inj: "inj_on (\<lambda>k. copy_dest (node_prefix ''a'') ''bk'' k)
      {k. prefix (node_prefix ''a'') k \<and> has_key sample_node k}"
    unfolding h(4) keys by (auto simp: copy_dest_def)
  have "m_Read (MemoryMedium_medium go_core) (copy_dest (node_prefix ''a'') ''bk'' ''a/c/d'') (snd ?r)
      = Inr (df_content \<lparr>df_name = ''a/c/d'', df_content = ''z'', df_modTime = unix_epoch\<rparr>)"
    using node_CopyTo [OF go_core_ok core.memory_read_write TrueI h(1,2) b TrueI inj, of 4 NewMemoryMedium "snd ?r"]
      prod.collapse [of ?r, unfolded h(3)]
    by (auto simp: h(4) sample_node_eq)
  then show ?thesis by (simp add: h(4,5) MemoryMedium_medium_def)
qed

end
