(* ===== verification/Mock.thy ===== *)
theory Mock
  imports Listing
begin

text \<open>
  \<open>MockMedium\<close> of \<open>go/mock.go\<close>, the medium for tests: the exported map \<open>Files\<close>, a map of modes
  and times and a map of directories.  \<open>now\<close> is what \<open>time.Now()\<close> returns during a call.
\<close>

subsection \<open>State\<close>

record mock_meta =
  mm_mode :: file_mode
  mm_modTime :: gotime

record mock_medium =
  Files :: "(string, string) fmap"
  mock_metadata :: "(string, mock_meta) fmap"
  mock_dirs :: "(string, bool) fmap"

definition NewMockMedium :: mock_medium where
  "NewMockMedium = \<lparr>Files = fmempty, mock_metadata = fmempty, mock_dirs = fmempty\<rparr>"

text \<open>A missing key reads as the zero value of the map's type.\<close>

definition meta_at :: "string \<Rightarrow> mock_medium \<Rightarrow> mock_meta" where
  "meta_at path m = (case fmlookup (mock_metadata m) path of
     Some mt \<Rightarrow> mt | None \<Rightarrow> \<lparr>mm_mode = 0, mm_modTime = zero_time\<rparr>)"

definition dir_at :: "string \<Rightarrow> mock_medium \<Rightarrow> bool" where
  "dir_at path m = (case fmlookup (mock_dirs m) path of Some b \<Rightarrow> b | None \<Rightarrow> False)"

subsection \<open>Operations\<close>

definition MockMedium_Read :: "string \<Rightarrow> mock_medium \<Rightarrow> string res" where
  "MockMedium_Read path m =
     (case fmlookup (Files m) path of None \<Rightarrow> Inl ErrNotExist | Some content \<Rightarrow> Inr content)"

definition MockMedium_WriteMode ::
  "gotime \<Rightarrow> string \<Rightarrow> string \<Rightarrow> file_mode \<Rightarrow> mock_medium \<Rightarrow> gerr option \<times> mock_medium" where
  "MockMedium_WriteMode now path content mode m =
     (None, m\<lparr>Files := fmupd path content (Files m),
              mock_metadata := fmupd path \<lparr>mm_mode = mode, mm_modTime = now\<rparr> (mock_metadata m)\<rparr>)"

definition MockMedium_Write ::
  "gotime \<Rightarrow> string \<Rightarrow> string \<Rightarrow> mock_medium \<Rightarrow> gerr option \<times> mock_medium" where
  "MockMedium_Write now path content m = MockMedium_WriteMode now path content 420 m"

definition MockMedium_EnsureDir :: "string \<Rightarrow> mock_medium \<Rightarrow> gerr option \<times> mock_medium" where
  "MockMedium_EnsureDir path m = (None, m\<lparr>mock_dirs := fmupd path True (mock_dirs m)\<rparr>)"

definition MockMedium_IsFile :: "string \<Rightarrow> mock_medium \<Rightarrow> bool" where
  "MockMedium_IsFile path m \<longleftrightarrow> has_key (Files m) path"

definition mock_drop_file :: "string \<Rightarrow> mock_medium \<Rightarrow> mock_medium" where
  "mock_drop_file path m = m\<lparr>Files := fmdrop path (Files m), mock_metadata := fmdrop path (mock_metadata m)\<rparr>"

definition MockMedium_Delete :: "string \<Rightarrow> mock_medium \<Rightarrow> gerr option \<times> mock_medium" where
  "MockMedium_Delete path m =
     (if has_key (Files m) path then (None, mock_drop_file path m)
      else if has_key (mock_dirs m) path then (None, m\<lparr>mock_dirs := fmdrop path (mock_dirs m)\<rparr>)
      else (Some ErrNotExist, m))"

definition pathMatchesPrefix :: "string \<Rightarrow> string \<Rightarrow> bool" where
  "pathMatchesPrefix candidate pre \<longleftrightarrow>
     candidate = pre \<or> length candidate > length pre \<and> take (length pre + 1) candidate = pre @ ''/''"

definition MockMedium_DeleteAll ::
  "go_env \<Rightarrow> string \<Rightarrow> mock_medium \<Rightarrow> gerr option \<times> mock_medium" where
  "MockMedium_DeleteAll E path m =
     (let (m, found) = fold (\<lambda>k (m, found).
            if pathMatchesPrefix k path then (mock_drop_file k m, True) else (m, found))
          (range_keys E (fmdom (Files m))) (m, False);
          (m, found) = fold (\<lambda>d (m, found).
            if pathMatchesPrefix d path then (m\<lparr>mock_dirs := fmdrop d (mock_dirs m)\<rparr>, True) else (m, found))
          (range_keys E (fmdom (mock_dirs m))) (m, found)
      in if \<not> found then (Some ErrNotExist, m) else (None, m))"

definition MockMedium_Rename ::
  "string \<Rightarrow> string \<Rightarrow> mock_medium \<Rightarrow> gerr option \<times> mock_medium" where
  "MockMedium_Rename oldPath newPath m =
     (case fmlookup (Files m) oldPath of
        None \<Rightarrow> (Some ErrNotExist, m)
      | Some f \<Rightarrow>
          (let m1 = m\<lparr>Files := fmdrop oldPath (fmupd newPath f (Files m))\<rparr>
           in (None, case fmlookup (mock_metadata m1) oldPath of
                None \<Rightarrow> m1
              | Some metadata \<Rightarrow>
                  m1\<lparr>mock_metadata := fmdrop oldPath (fmupd newPath metadata (mock_metadata m1))\<rparr>)))"

definition mockListPrefix :: "string \<Rightarrow> string" where
  "mockListPrefix filePath = (if filePath = '''' \<or> filePath = ''.'' then '''' else filePath @ ''/'')"

text \<open>The index of the first slash; the loop ranges over the runes, and no other rune has its byte.\<close>

definition firstPathComponent :: "string \<Rightarrow> string \<times> bool" where
  "firstPathComponent rest =
     (if slash \<in> set rest then (takeWhile (\<lambda>c. c \<noteq> slash) rest, True) else ('''', False))"

definition appendMockDirectoryEntry :: "gotime \<Rightarrow> string \<Rightarrow> listing \<Rightarrow> listing" where
  "appendMockDirectoryEntry now name acc =
     (if name = '''' \<or> name \<in> fst acc then acc
      else (insert name (fst acc),
            snd acc @ [NewDirEntry name True 493 (NewFileInfo name 0 493 now True)]))"

definition mock_file_entry :: "gotime \<Rightarrow> mock_medium \<Rightarrow> string \<Rightarrow> string \<Rightarrow> listing \<Rightarrow> listing" where
  "mock_file_entry now m pre k acc =
     (if length k \<le> length pre \<or> take (length pre) k \<noteq> pre then acc
      else let rest = drop (length pre) k
           in case firstPathComponent rest of
                (dirName, True) \<Rightarrow> appendMockDirectoryEntry now dirName acc
              | (_, False) \<Rightarrow>
                  (if rest \<in> fst acc then acc
                   else let mt = meta_at k m; content = value_or_empty (Files m) k
                        in (insert rest (fst acc), snd acc @ [NewDirEntry rest False (mm_mode mt)
                              (NewFileInfo rest (int (length content)) (mm_mode mt) (mm_modTime mt) False)])))"

definition mock_dir_entry :: "gotime \<Rightarrow> string \<Rightarrow> string \<Rightarrow> listing \<Rightarrow> listing" where
  "mock_dir_entry now pre d acc =
     (if length d \<le> length pre \<or> take (length pre) d \<noteq> pre then acc
      else let rest = drop (length pre) d
           in case firstPathComponent rest of
                (dirName, True) \<Rightarrow> appendMockDirectoryEntry now dirName acc
              | (_, False) \<Rightarrow> appendMockDirectoryEntry now rest acc)"

text \<open>
  \<open>List\<close> never fails.  The names of the entries are distinct, so the sort of package
  \<open>slices\<close>, which is not stable, has one result only, the one of \<open>sort_key\<close>.
\<close>

definition MockMedium_List :: "go_env \<Rightarrow> gotime \<Rightarrow> string \<Rightarrow> mock_medium \<Rightarrow> dir_entry list res" where
  "MockMedium_List E now path m =
     (let pre = mockListPrefix path;
          acc = fold (mock_file_entry now m pre) (range_keys E (fmdom (Files m))) ({}, []);
          acc = fold (mock_dir_entry now pre) (range_keys E (fmdom (mock_dirs m))) acc
      in Inr (sort_key de_name (snd acc)))"

definition MockMedium_Stat :: "go_env \<Rightarrow> gotime \<Rightarrow> string \<Rightarrow> mock_medium \<Rightarrow> file_info res" where
  "MockMedium_Stat E now path m =
     (case fmlookup (Files m) path of
        Some content \<Rightarrow> (let mt = meta_at path m
          in Inr (NewFileInfo (PathBase E path) (int (length content)) (mm_mode mt) (mm_modTime mt) False))
      | None \<Rightarrow>
          (if dir_at path m then Inr (NewFileInfo (PathBase E path) 0 493 now True)
           else Inl ErrNotExist))"

record mock_file =
  mk_unread :: string
  mk_info :: file_info

definition MockMedium_Open :: "go_env \<Rightarrow> string \<Rightarrow> mock_medium \<Rightarrow> mock_file res" where
  "MockMedium_Open E path m =
     (case fmlookup (Files m) path of
        None \<Rightarrow> Inl ErrNotExist
      | Some content \<Rightarrow> (let mt = meta_at path m
          in Inr \<lparr>mk_unread = content, mk_info = NewFileInfo (PathBase E path) (int (length content))
                (mm_mode mt) (mm_modTime mt) False\<rparr>))"

definition MockFile_Read :: "nat \<Rightarrow> mock_file \<Rightarrow> string res \<times> mock_file" where
  "MockFile_Read n f =
     (if mk_unread f = '''' then (Inl ErrEOF, f)
      else (Inr (take n (mk_unread f)), f\<lparr>mk_unread := drop n (mk_unread f)\<rparr>))"

definition MockFile_Stat :: "mock_file \<Rightarrow> file_info res" where
  "MockFile_Stat f = Inr (mk_info f)"

record mock_writer =
  kw_path :: string
  kw_data :: string

definition MockMedium_Create :: "string \<Rightarrow> mock_medium \<Rightarrow> mock_writer res" where
  "MockMedium_Create path m = Inr \<lparr>kw_path = path, kw_data = ''''\<rparr>"

definition MockMedium_Append :: "string \<Rightarrow> mock_medium \<Rightarrow> mock_writer res" where
  "MockMedium_Append path m = Inr \<lparr>kw_path = path, kw_data = value_or_empty (Files m) path\<rparr>"

definition MockMedium_ReadStream :: "string \<Rightarrow> mock_medium \<Rightarrow> string res" where
  "MockMedium_ReadStream path m =
     (case fmlookup (Files m) path of None \<Rightarrow> Inl ErrNotExist | Some f \<Rightarrow> Inr f)"

definition MockMedium_WriteStream :: "string \<Rightarrow> mock_medium \<Rightarrow> mock_writer res" where
  "MockMedium_WriteStream path m = MockMedium_Create path m"

definition MockMedium_Exists :: "string \<Rightarrow> mock_medium \<Rightarrow> bool" where
  "MockMedium_Exists path m \<longleftrightarrow> has_key (Files m) path \<or> dir_at path m"

definition MockMedium_IsDir :: "string \<Rightarrow> mock_medium \<Rightarrow> bool" where
  "MockMedium_IsDir path m \<longleftrightarrow> dir_at path m"

definition MockWriteCloser_Write :: "string \<Rightarrow> mock_writer \<Rightarrow> nat res \<times> mock_writer" where
  "MockWriteCloser_Write p w = (Inr (length p), w\<lparr>kw_data := kw_data w @ p\<rparr>)"

definition MockWriteCloser_Close :: "gotime \<Rightarrow> mock_writer \<Rightarrow> mock_medium \<Rightarrow> gerr option \<times> mock_medium" where
  "MockWriteCloser_Close now w m = MockMedium_Write now (kw_path w) (kw_data w) m"

definition MockMedium_medium :: "go_env \<Rightarrow> (mock_medium, mock_file, string, mock_writer) medium" where
  "MockMedium_medium E = \<lparr>m_Read = MockMedium_Read, m_Write = MockMedium_Write,
     m_WriteMode = MockMedium_WriteMode, m_EnsureDir = MockMedium_EnsureDir,
     m_IsFile = MockMedium_IsFile, m_Delete = MockMedium_Delete,
     m_DeleteAll = MockMedium_DeleteAll E, m_Rename = MockMedium_Rename,
     m_List = MockMedium_List E, m_Stat = MockMedium_Stat E,
     m_Open = (\<lambda>_. MockMedium_Open E), m_Create = pure_open MockMedium_Create,
     m_Append = pure_open MockMedium_Append, m_ReadStream = (\<lambda>_. MockMedium_ReadStream),
     m_WriteStream = pure_open MockMedium_WriteStream, m_Exists = MockMedium_Exists,
     m_IsDir = MockMedium_IsDir\<rparr>"

subsection \<open>Contract\<close>

lemma mock_read_write: "read_write (MockMedium_medium E) (\<lambda>_. True) (\<lambda>p. p) (\<lambda>_. True)"
  by unfold_locales
    (auto simp: MockMedium_medium_def MockMedium_Read_def MockMedium_WriteMode_def MockMedium_Write_def)

interpretation mock: read_write "MockMedium_medium go_core" "\<lambda>_. True" "\<lambda>p. p" "\<lambda>_. True"
  by (rule mock_read_write)

subsection \<open>Deleting\<close>

lemma pathMatchesPrefix_iff: "pathMatchesPrefix q p \<longleftrightarrow> q = p \<or> prefix (p @ ''/'') q"
proof -
  have "length q > length p \<and> take (length p + 1) q = p @ ''/'' \<longleftrightarrow> prefix (p @ ''/'') q"
    by (metis append_eq_conv_conj append_take_drop_id length_append_singleton not_less_eq_eq
        not_less prefix_def prefix_length_le Suc_eq_plus1)
  then show ?thesis by (simp add: pathMatchesPrefix_def)
qed

lemma mock_files_fold:
  "fold (\<lambda>k (m, found). if P k then (mock_drop_file k m, True) else (m, found)) ks (m, b) =
     (m\<lparr>Files := drop_keys P ks (Files m), mock_metadata := drop_keys P ks (mock_metadata m)\<rparr>,
      b \<or> list_ex P ks)"
proof (induction ks arbitrary: m b)
  case (Cons k ks)
  then show ?case by (cases "P k") (simp_all add: drop_keys_def mock_drop_file_def)
qed (simp add: drop_keys_def)

lemma mock_dirs_fold:
  "fold (\<lambda>d (m, found). if P d then (m\<lparr>mock_dirs := fmdrop d (mock_dirs m)\<rparr>, True) else (m, found)) ks (m, b)
    = (m\<lparr>mock_dirs := drop_keys P ks (mock_dirs m)\<rparr>, b \<or> list_ex P ks)"
proof (induction ks arbitrary: m b)
  case (Cons k ks)
  then show ?case by (cases "P k") (simp_all add: drop_keys_def)
qed (simp add: drop_keys_def)


text \<open>
  \<open>DeleteAll\<close> of the test medium removes exactly the files and directories at or below the
  path, the metadata of the removed files with them, in any range order, and reports
  \<open>ErrNotExist\<close> when there was none.
\<close>

theorem mock_DeleteAll:
  assumes "go_runtime E"
  shows "MockMedium_DeleteAll E path m =
    (if \<exists>q. (q = path \<or> prefix (path @ ''/'') q) \<and> (has_key (Files m) q \<or> has_key (mock_dirs m) q)
     then None else Some ErrNotExist,
     m\<lparr>Files := fmfilter (\<lambda>q. \<not> (q = path \<or> prefix (path @ ''/'') q)) (Files m),
       mock_metadata := fmfilter (\<lambda>q. \<not> ((q = path \<or> prefix (path @ ''/'') q) \<and> has_key (Files m) q))
         (mock_metadata m),
       mock_dirs := fmfilter (\<lambda>q. \<not> (q = path \<or> prefix (path @ ''/'') q)) (mock_dirs m)\<rparr>)"
proof -
  let ?P = "\<lambda>q. q = path \<or> prefix (path @ ''/'') q" and ?ks = "range_keys E (fmdom (Files m))"
  have meta: "drop_keys ?P ?ks (mock_metadata m)
      = fmfilter (\<lambda>q. \<not> (?P q \<and> has_key (Files m) q)) (mock_metadata m)"
    by (rule fmap_eqI) (auto simp: fmlookup_drop_keys has_key_dom go_runtime.range_set [OF assms])
  have ex: "(\<exists>q. ?P q \<and> (has_key (Files m) q \<or> has_key (mock_dirs m) q)) \<longleftrightarrow>
      list_ex ?P ?ks \<or> list_ex ?P (range_keys E (fmdom (mock_dirs m)))"
    unfolding list_ex_iff go_runtime.range_mem_iff [OF assms] Bex_def by blast
  show ?thesis
    unfolding MockMedium_DeleteAll_def pathMatchesPrefix_iff Let_def mock_files_fold prod.case mock_dirs_fold ex
    by (simp add: go_runtime.drop_keys_range [OF assms] meta)
qed

theorem mock_DeleteAll_witness:
  "\<not> has_key (Files (snd (MockMedium_DeleteAll go_core ''a''
     (snd (MockMedium_Write 1 ''a/b'' ''x'' NewMockMedium))))) ''a/b''"
  unfolding mock_DeleteAll [OF go_core_ok] by simp

end
