(* ===== verification/Sigil.thy ===== *)
theory Sigil
  imports Prelude
begin

text \<open>
  \<open>go/sigil/sigil.go\<close> and \<open>go/sigil/sigils.go\<close>: reversible transformations of byte slices and
  the pipelines made of them.  A \<open>[]byte\<close> is \<open>None\<close> when it is nil, which the sigils pass
  through.  A sigil may read randomness or write to a writer, so its methods thread a state.
  The formats of \<open>compress/gzip\<close>, the hash functions and the JSON functions of \<open>core\<close> are
  parameters; \<open>encoding/hex\<close> and \<open>encoding/base64\<close> are modelled.
\<close>

type_synonym byte = char
type_synonym bytes = string
type_synonym go_bytes = "bytes option"

text \<open>A byte as a number below 256, and back.\<close>

abbreviation val :: "byte \<Rightarrow> nat" where "val b \<equiv> of_char b"
abbreviation byte :: "nat \<Rightarrow> byte" where "byte n \<equiv> char_of n"

subsection \<open>The interface and the pipelines\<close>

record 's sigil =
  sig_In :: "go_bytes \<Rightarrow> 's \<Rightarrow> go_bytes res \<times> 's"
  sig_Out :: "go_bytes \<Rightarrow> 's \<Rightarrow> go_bytes res \<times> 's"

fun transmute_loop :: "'s sigil list \<Rightarrow> go_bytes \<Rightarrow> 's \<Rightarrow> go_bytes res \<times> 's" where
  "transmute_loop [] data s = (Inr data, s)"
| "transmute_loop (g # gs) data s =
     (case sig_In g data s of
        (Inl err, s') \<Rightarrow> (Inl (CoreE ''sigil.Transmute'' [''sigil in failed''] (Some err)), s')
      | (Inr data', s') \<Rightarrow> transmute_loop gs data' s')"

definition Transmute :: "go_bytes \<Rightarrow> 's sigil list \<Rightarrow> 's \<Rightarrow> go_bytes res \<times> 's" where
  "Transmute data sigils s = transmute_loop sigils data s"

text \<open>The loop runs from the last index down to 0; the model counts the sigils still to apply.\<close>

fun untransmute_loop :: "'s sigil list \<Rightarrow> nat \<Rightarrow> go_bytes \<Rightarrow> 's \<Rightarrow> go_bytes res \<times> 's" where
  "untransmute_loop gs 0 data s = (Inr data, s)"
| "untransmute_loop gs (Suc i) data s =
     (case sig_Out (gs ! i) data s of
        (Inl err, s') \<Rightarrow> (Inl (CoreE ''sigil.Untransmute'' [''sigil out failed''] (Some err)), s')
      | (Inr data', s') \<Rightarrow> untransmute_loop gs i data' s')"

definition Untransmute :: "go_bytes \<Rightarrow> 's sigil list \<Rightarrow> 's \<Rightarrow> go_bytes res \<times> 's" where
  "Untransmute data sigils s = untransmute_loop sigils (length sigils) data s"

text \<open>What a pipeline needs of a sigil: \<open>Out\<close> undoes \<open>In\<close>, in whatever state it is called.\<close>

locale reversible =
  fixes S :: "'s sigil"
  assumes out_in: "sig_In S data s = (Inr e, s') \<Longrightarrow> fst (sig_Out S e t) = Inr data"

subsection \<open>ReverseSigil\<close>

text \<open>The loop copies \<open>data[j]\<close> to \<open>reversed[i]\<close> while \<open>i\<close> goes up and \<open>j\<close> down.\<close>

definition reverse_bytes :: "bytes \<Rightarrow> bytes" where
  "reverse_bytes data =
     fold (\<lambda>i out. out[i := data ! (length data - 1 - i)]) [0..<length data] (replicate (length data) CHR 0x00)"

definition ReverseSigil_In :: "go_bytes \<Rightarrow> go_bytes res" where
  "ReverseSigil_In data = (case data of None \<Rightarrow> Inr None | Some d \<Rightarrow> Inr (Some (reverse_bytes d)))"

definition ReverseSigil_Out :: "go_bytes \<Rightarrow> go_bytes res" where
  "ReverseSigil_Out data = ReverseSigil_In data"

subsection \<open>HexSigil\<close>

definition hex_digit :: "nat \<Rightarrow> byte" where
  "hex_digit n = byte (if n < 10 then 48 + n else 87 + n)"

definition hex_encode :: "bytes \<Rightarrow> bytes" where
  "hex_encode bs = concat (map (\<lambda>b. [hex_digit (val b div 16), hex_digit (val b mod 16)]) bs)"

definition hex_value :: "byte \<Rightarrow> nat option" where
  "hex_value c = (let n = val c in
     if 48 \<le> n \<and> n \<le> 57 then Some (n - 48)
     else if 97 \<le> n \<and> n \<le> 102 then Some (n - 87)
     else if 65 \<le> n \<and> n \<le> 70 then Some (n - 55) else None)"

fun hex_decode :: "bytes \<Rightarrow> bytes res" where
  "hex_decode [] = Inr []"
| "hex_decode [x] = Inl (if hex_value x = None then ErrNew ''encoding/hex: invalid byte''
     else ErrNew ''encoding/hex: odd length hex string'')"
| "hex_decode (x # y # zs) =
     (case (hex_value x, hex_value y) of
        (Some a, Some b) \<Rightarrow> map_sum id (\<lambda>r. byte (16 * a + b) # r) (hex_decode zs)
      | _ \<Rightarrow> Inl (ErrNew ''encoding/hex: invalid byte''))"

definition HexSigil_In :: "go_bytes \<Rightarrow> go_bytes res" where
  "HexSigil_In data = (case data of None \<Rightarrow> Inr None | Some d \<Rightarrow> Inr (Some (hex_encode d)))"

definition HexSigil_Out :: "go_bytes \<Rightarrow> go_bytes res" where
  "HexSigil_Out data = (case data of None \<Rightarrow> Inr None | Some d \<Rightarrow> map_sum id Some (hex_decode d))"

subsection \<open>Base64Sigil\<close>

text \<open>
  Three bytes make four digits of six bits: the shifts and masks of the package on the 24-bit
  value of the group, written out per digit.
\<close>

definition b64_digit :: "nat \<Rightarrow> byte" where
  "b64_digit n = byte (if n < 26 then 65 + n else if n < 52 then 71 + n
     else if n < 62 then n - 4 else if n = 62 then 43 else 47)"

definition b64_value :: "byte \<Rightarrow> nat option" where
  "b64_value c = (let n = val c in
     if 65 \<le> n \<and> n \<le> 90 then Some (n - 65) else if 97 \<le> n \<and> n \<le> 122 then Some (n - 71)
     else if 48 \<le> n \<and> n \<le> 57 then Some (n + 4) else if n = 43 then Some 62
     else if n = 47 then Some 63 else None)"

definition pad :: byte where "pad = CHR 0x3D"

fun b64_encode :: "bytes \<Rightarrow> bytes" where
  "b64_encode [] = []"
| "b64_encode [a] = [b64_digit (val a div 4), b64_digit (val a mod 4 * 16), pad, pad]"
| "b64_encode [a, b] = [b64_digit (val a div 4), b64_digit (val a mod 4 * 16 + val b div 16),
     b64_digit (val b mod 16 * 4), pad]"
| "b64_encode (a # b # c # rest) =
     b64_digit (val a div 4) # b64_digit (val a mod 4 * 16 + val b div 16)
     # b64_digit (val b mod 16 * 4 + val c div 64) # b64_digit (val c mod 64) # b64_encode rest"

definition b64_error :: gerr where "b64_error = ErrNew ''illegal base64 data''"

text \<open>The decoder skips line breaks; padding ends the data.\<close>

fun b64_quanta :: "bytes \<Rightarrow> bytes res" where
  "b64_quanta [] = Inr []"
| "b64_quanta (p # q # r # s # rest) =
     (case (b64_value p, b64_value q) of
        (Some i, Some j) \<Rightarrow>
          (case b64_value r of
             Some k \<Rightarrow>
               (case b64_value s of
                  Some l \<Rightarrow>
                    map_sum id (\<lambda>t. byte (i * 4 + j div 16) # byte (j mod 16 * 16 + k div 4)
                        # byte (k mod 4 * 64 + l) # t) (b64_quanta rest)
                | None \<Rightarrow>
                    (if s = pad \<and> rest = [] then Inr [byte (i * 4 + j div 16), byte (j mod 16 * 16 + k div 4)]
                     else Inl b64_error))
           | None \<Rightarrow>
               (if r = pad \<and> s = pad \<and> rest = [] then Inr [byte (i * 4 + j div 16)] else Inl b64_error))
      | _ \<Rightarrow> Inl b64_error)"
| "b64_quanta _ = Inl b64_error"

definition b64_decode :: "bytes \<Rightarrow> bytes res" where
  "b64_decode bs = b64_quanta (filter (\<lambda>b. b \<noteq> CHR 0x0A \<and> b \<noteq> CHR 0x0D) bs)"

definition Base64Sigil_In :: "go_bytes \<Rightarrow> go_bytes res" where
  "Base64Sigil_In data = (case data of None \<Rightarrow> Inr None | Some d \<Rightarrow> Inr (Some (b64_encode d)))"

definition Base64Sigil_Out :: "go_bytes \<Rightarrow> go_bytes res" where
  "Base64Sigil_Out data = (case data of None \<Rightarrow> Inr None | Some d \<Rightarrow> map_sum id Some (b64_decode d))"

lemma sigil_examples:
  "hex_encode ''Go!'' = ''476f21''" "b64_encode ''Go'' = ''R28=''"
  "b64_decode (''R2'' @ CHR 0x0A # ''8='') = Inr ''Go''"
  by code_simp+

subsection \<open>GzipSigil\<close>

text \<open>
  \<open>compress/gzip\<close>: for the data of one \<open>Write\<close>, the chunks the gzip writer hands to its output
  during \<open>Write\<close> and during \<open>Close\<close>, and what a reader makes of a compressed payload:
  the error of \<open>NewReader\<close>, and the result of reading everything.
\<close>

record gzip_codec =
  gz_write :: "bytes \<Rightarrow> bytes list"
  gz_close :: "bytes \<Rightarrow> bytes list"
  gz_open :: "bytes \<Rightarrow> gerr option"
  gz_read :: "bytes \<Rightarrow> bytes res"

definition gz_payload :: "gzip_codec \<Rightarrow> bytes \<Rightarrow> bytes" where
  "gz_payload Z d = concat (gz_write Z d) @ concat (gz_close Z d)"

locale gzip_library =
  fixes Z :: gzip_codec
  assumes open_payload: "gz_open Z (gz_payload Z d) = None"
    and read_payload: "gz_read Z (gz_payload Z d) = Inr d"

text \<open>
  \<open>outputWriter\<close> is nil or a writer with a state of its own.  The error paths of a custom writer
  are those of the calls \<open>Write\<close> and \<open>Close\<close>; the writer's own buffer never fails.
\<close>

type_synonym 's writer = "bytes \<Rightarrow> 's \<Rightarrow> gerr option \<times> 's"

definition GzipSigil_In ::
  "gzip_codec \<Rightarrow> 's writer option \<Rightarrow> go_bytes \<Rightarrow> 's \<Rightarrow> go_bytes res \<times> 's" where
  "GzipSigil_In Z outputWriter data s =
     (case data of
        None \<Rightarrow> (Inr None, s)
      | Some d \<Rightarrow>
          (case outputWriter of
             None \<Rightarrow> (Inr (Some (gz_payload Z d)), s)
           | Some w \<Rightarrow>
               (case each w (gz_write Z d) s of
                  (Some err, s1) \<Rightarrow> (Inl (CoreE ''sigil.GzipSigil.In'' [''write gzip payload''] (Some err)), s1)
                | (None, s1) \<Rightarrow>
                    (case each w (gz_close Z d) s1 of
                       (Some err, s2) \<Rightarrow> (Inl (CoreE ''sigil.GzipSigil.In'' [''close gzip writer''] (Some err)), s2)
                     | (None, s2) \<Rightarrow> (Inr None, s2)))))"

definition GzipSigil_Out :: "gzip_codec \<Rightarrow> go_bytes \<Rightarrow> go_bytes res" where
  "GzipSigil_Out Z data =
     (case data of
        None \<Rightarrow> Inr None
      | Some d \<Rightarrow>
          (case gz_open Z d of
             Some err \<Rightarrow> Inl (CoreE ''sigil.GzipSigil.Out'' [''open gzip reader''] (Some err))
           | None \<Rightarrow>
               (case gz_read Z d of
                  Inl err \<Rightarrow> Inl (CoreE ''sigil.GzipSigil.Out'' [''read gzip payload''] (Some err))
                | Inr out \<Rightarrow> Inr (Some out))))"

subsection \<open>JSONSigil\<close>

text \<open>
  The builder is the text written so far; its writes do not fail.  \<open>indent\<close> may become negative
  on text that is no JSON, and then indents by nothing.
\<close>

definition writeJSONIndent :: "string \<Rightarrow> int \<Rightarrow> string" where
  "writeJSONIndent builder level = fold (\<lambda>_ b. b @ ''  '') [0..<nat level] builder"

definition writeJSONStringByte :: "string \<Rightarrow> char \<Rightarrow> bool \<Rightarrow> string \<times> bool \<times> bool" where
  "writeJSONStringByte builder ch escaped =
     (let builder = builder @ [ch]
      in if escaped then (builder, True, False)
         else if ch = CHR 0x5C then (builder, True, True)
         else (builder, ch \<noteq> CHR 0x22, False))"

definition writeJSONOpenContainer :: "string \<Rightarrow> string \<Rightarrow> nat \<Rightarrow> int \<Rightarrow> string \<times> int" where
  "writeJSONOpenContainer builder compact index indent =
     (if index + 1 \<ge> length compact \<or> compact ! (index + 1) = CHR ''}'' \<or> compact ! (index + 1) = CHR '']''
      then (builder, indent)
      else let indent = indent + 1
           in (writeJSONIndent (builder @ [CHR 0x0A]) indent, indent))"

definition writeJSONCloseContainer :: "string \<Rightarrow> string \<Rightarrow> nat \<Rightarrow> int \<Rightarrow> string \<times> int" where
  "writeJSONCloseContainer builder compact index indent =
     (if index = 0 \<or> compact ! (index - 1) = CHR ''{'' \<or> compact ! (index - 1) = CHR ''[''
      then (builder, indent)
      else let indent = indent - 1
           in (writeJSONIndent (builder @ [CHR 0x0A]) indent, indent))"

definition writeJSONStructuralByte :: "string \<Rightarrow> string \<Rightarrow> nat \<Rightarrow> int \<Rightarrow> string \<times> int \<times> bool" where
  "writeJSONStructuralByte builder compact index indent =
     (let ch = compact ! index
      in if ch = CHR 0x22 then (builder @ [ch], indent, True)
         else if ch = CHR ''{'' \<or> ch = CHR ''['' then
           (let (builder, indent) = writeJSONOpenContainer (builder @ [ch]) compact index indent
            in (builder, indent, False))
         else if ch = CHR ''}'' \<or> ch = CHR '']'' then
           (let (builder, indent) = writeJSONCloseContainer builder compact index indent
            in (builder @ [ch], indent, False))
         else if ch = CHR '','' then (writeJSONIndent (builder @ [ch, CHR 0x0A]) indent, indent, False)
         else if ch = CHR '':'' then (builder @ '': '', indent, False)
         else (builder @ [ch], indent, False))"

definition indent_step :: "string \<Rightarrow> nat \<Rightarrow> string \<times> int \<times> bool \<times> bool \<Rightarrow> string \<times> int \<times> bool \<times> bool" where
  "indent_step compact i st =
     (case st of (builder, indent, inString, escaped) \<Rightarrow>
        if inString then
          (let (builder, inString, escaped) = writeJSONStringByte builder (compact ! i) escaped
           in (builder, indent, inString, escaped))
        else
          (let (builder, indent, inString) = writeJSONStructuralByte builder compact i indent
           in (builder, indent, inString, escaped)))"

definition indentJSON :: "string \<Rightarrow> string" where
  "indentJSON compact =
     (if compact = '''' then ''''
      else fst (fold (indent_step compact) [0..<length compact] ('''', 0, False, False)))"

text \<open>\<open>core.JSONUnmarshal\<close> and \<open>core.JSONMarshalString\<close> work on decoded values of type \<open>'j\<close>.\<close>

definition JSONSigil_In ::
  "(bytes \<Rightarrow> 'j res) \<Rightarrow> ('j \<Rightarrow> string) \<Rightarrow> bool \<Rightarrow> go_bytes \<Rightarrow> go_bytes res" where
  "JSONSigil_In unmarshal marshal Indent data =
     (case data of
        None \<Rightarrow> Inr None
      | Some d \<Rightarrow>
          (case unmarshal d of
             Inl err \<Rightarrow> Inl (CoreE ''sigil.JSONSigil.In'' [''decode json''] (Some err))
           | Inr decoded \<Rightarrow>
               (let compact = marshal decoded
                in Inr (Some (if Indent then indentJSON compact else compact)))))"

definition JSONSigil_Out :: "go_bytes \<Rightarrow> go_bytes res" where
  "JSONSigil_Out data = Inr data"

subsection \<open>HashSigil\<close>

text \<open>The values of \<open>crypto.Hash\<close>; any other number is \<open>OtherHash\<close>.\<close>

datatype crypto_hash =
    MD4 | MD5 | SHA1 | SHA224 | SHA256 | SHA384 | SHA512 | RIPEMD160
  | SHA3_224 | SHA3_256 | SHA3_384 | SHA3_512 | SHA512_224 | SHA512_256
  | BLAKE2s_256 | BLAKE2b_256 | BLAKE2b_384 | BLAKE2b_512 | OtherHash nat

text \<open>
  \<open>hash_new\<close> is the error of the constructors that have one, \<open>hash_sum\<close> the digest of what was
  written; the \<open>Write\<close> of a hash never returns an error.
\<close>

record hash_library =
  hash_new :: "crypto_hash \<Rightarrow> gerr option"
  hash_sum :: "crypto_hash \<Rightarrow> bytes \<Rightarrow> bytes"

definition data_of :: "go_bytes \<Rightarrow> bytes" where
  "data_of data = (case data of None \<Rightarrow> [] | Some d \<Rightarrow> d)"

definition HashSigil_In :: "hash_library \<Rightarrow> crypto_hash \<Rightarrow> go_bytes \<Rightarrow> go_bytes res" where
  "HashSigil_In H hash data =
     (case hash of
        OtherHash n \<Rightarrow> Inl (CoreE ''sigil.HashSigil.In'' [''hash algorithm not available''] (Some ErrInvalid))
      | _ \<Rightarrow>
          (case (if hash \<in> {BLAKE2s_256, BLAKE2b_256, BLAKE2b_384, BLAKE2b_512} then hash_new H hash else None) of
             Some err \<Rightarrow> Inl (CoreE ''sigil.HashSigil.In'' [''create hash''] (Some err))
           | None \<Rightarrow> Inr (Some (hash_sum H hash (data_of data)))))"

definition HashSigil_Out :: "go_bytes \<Rightarrow> go_bytes res" where
  "HashSigil_Out data = Inr data"

subsection \<open>NewSigil\<close>

datatype sigil_kind = Reverse | Hex | Base64 | Gzip | JSON bool | Hash crypto_hash

definition NewHashSigil :: "crypto_hash \<Rightarrow> sigil_kind" where
  "NewHashSigil hashAlgorithm = Hash hashAlgorithm"

definition sigil_table :: "(string \<times> sigil_kind) list" where
  "sigil_table =
    [(''reverse'', Reverse), (''hex'', Hex), (''base64'', Base64), (''gzip'', Gzip),
     (''json'', JSON False), (''json-indent'', JSON True),
     (''md4'', NewHashSigil MD4), (''md5'', NewHashSigil MD5), (''sha1'', NewHashSigil SHA1),
     (''sha224'', NewHashSigil SHA224), (''sha256'', NewHashSigil SHA256),
     (''sha384'', NewHashSigil SHA384), (''sha512'', NewHashSigil SHA512),
     (''ripemd160'', NewHashSigil RIPEMD160), (''sha3-224'', NewHashSigil SHA3_224),
     (''sha3-256'', NewHashSigil SHA3_256), (''sha3-384'', NewHashSigil SHA3_384),
     (''sha3-512'', NewHashSigil SHA3_512), (''sha512-224'', NewHashSigil SHA512_224),
     (''sha512-256'', NewHashSigil SHA512_256), (''blake2s-256'', NewHashSigil BLAKE2s_256),
     (''blake2b-256'', NewHashSigil BLAKE2b_256), (''blake2b-384'', NewHashSigil BLAKE2b_384),
     (''blake2b-512'', NewHashSigil BLAKE2b_512)]"

text \<open>The cases of the switch are distinct, so a lookup in the table selects as they do.\<close>

definition NewSigil :: "string \<Rightarrow> sigil_kind res" where
  "NewSigil sigilName =
     (if sigilName = ''chacha20poly1305'' then
        Inl (CoreE ''sigil.NewSigil''
          [''chacha20poly1305 scheme requires key material; use NewChaChaPolySigil''] (Some ErrInvalid))
      else case map_of sigil_table sigilName of
          Some kind \<Rightarrow> Inr kind
        | None \<Rightarrow> Inl (CoreE ''sigil.NewSigil'' [''unknown sigil name: '', sigilName] (Some ErrInvalid)))"

text \<open>The methods of a sigil that keeps no state, and those of the sigil of a kind.\<close>

definition pure_sigil :: "(go_bytes \<Rightarrow> go_bytes res) \<Rightarrow> (go_bytes \<Rightarrow> go_bytes res) \<Rightarrow> 's sigil" where
  "pure_sigil i out = \<lparr>sig_In = (\<lambda>data s. (i data, s)), sig_Out = (\<lambda>data s. (out data, s))\<rparr>"

record 'j sigil_env =
  se_gzip :: gzip_codec
  se_hash :: hash_library
  se_unmarshal :: "bytes \<Rightarrow> 'j res"
  se_marshal :: "'j \<Rightarrow> string"

definition sigil_of :: "'j sigil_env \<Rightarrow> sigil_kind \<Rightarrow> 's sigil" where
  "sigil_of L kind =
     (case kind of
        Reverse \<Rightarrow> pure_sigil ReverseSigil_In ReverseSigil_Out
      | Hex \<Rightarrow> pure_sigil HexSigil_In HexSigil_Out
      | Base64 \<Rightarrow> pure_sigil Base64Sigil_In Base64Sigil_Out
      | Gzip \<Rightarrow> \<lparr>sig_In = GzipSigil_In (se_gzip L) None,
                  sig_Out = (\<lambda>data s. (GzipSigil_Out (se_gzip L) data, s))\<rparr>
      | JSON b \<Rightarrow> pure_sigil (JSONSigil_In (se_unmarshal L) (se_marshal L) b) JSONSigil_Out
      | Hash h \<Rightarrow> pure_sigil (HashSigil_In (se_hash L) h) HashSigil_Out)"

end
