(* ===== verification/CryptoSigil.thy ===== *)
theory CryptoSigil
  imports Sigil
begin

text \<open>
  \<open>go/sigil/crypto_sigil.go\<close>: the obfuscators that scramble data before encryption, and the
  ChaCha20-Poly1305 sigil.  The hash \<open>crypto/sha256\<close> and the cipher of
  \<open>golang.org/x/crypto\<close> are parameters; the locales state their documented laws.
\<close>

subsection \<open>Bytes\<close>

text \<open>The exclusive or of two bytes, bit by bit.\<close>

fun byte_xor :: "byte \<Rightarrow> byte \<Rightarrow> byte" where
  "byte_xor (Char a0 a1 a2 a3 a4 a5 a6 a7) (Char b0 b1 b2 b3 b4 b5 b6 b7) =
     Char (a0 \<noteq> b0) (a1 \<noteq> b1) (a2 \<noteq> b2) (a3 \<noteq> b3) (a4 \<noteq> b4) (a5 \<noteq> b5) (a6 \<noteq> b6) (a7 \<noteq> b7)"

text \<open>\<open>binary.BigEndian.PutUint64\<close> and \<open>Uint64\<close>; the numbers put are indices, below \<open>2\<^sup>6\<^sup>4\<close>.\<close>

fun be_bytes :: "nat \<Rightarrow> nat \<Rightarrow> bytes" where
  "be_bytes 0 n = []"
| "be_bytes (Suc k) n = be_bytes k (n div 256) @ [byte (n mod 256)]"

definition be_value :: "bytes \<Rightarrow> int" where
  "be_value bs = foldl (\<lambda>acc b. acc * 256 + of_char b) 0 bs"

text \<open>\<open>copy(dst[offset:], src)\<close> when the source fits.\<close>

definition copy_at :: "bytes \<Rightarrow> nat \<Rightarrow> bytes \<Rightarrow> bytes" where
  "copy_at dst offset src = take offset dst @ src @ drop (offset + length src) dst"

subsection \<open>Key streams\<close>

text \<open>
  The loop of \<open>deriveKeyStream\<close> and \<open>deriveMask\<close>, which differ in what they hash before the
  block number; \<open>None\<close> means that the loop does not end.
\<close>

partial_function (option) stream_loop ::
  "(bytes \<Rightarrow> bytes) \<Rightarrow> bytes \<Rightarrow> nat \<Rightarrow> nat \<Rightarrow> nat \<Rightarrow> bytes \<Rightarrow> bytes option" where
  "stream_loop sha seed len offset blockNum stream =
     (if offset < len then
        let block = sha (seed @ be_bytes 8 blockNum);
            copyLen = min (length block) (len - offset)
        in stream_loop sha seed len (offset + copyLen) (blockNum + 1)
             (copy_at stream offset (take copyLen block))
      else Some stream)"

declare stream_loop.simps [code]

definition deriveKeyStream :: "(bytes \<Rightarrow> bytes) \<Rightarrow> bytes \<Rightarrow> nat \<Rightarrow> bytes option" where
  "deriveKeyStream sha entropy len = stream_loop sha entropy len 0 0 (replicate len CHR 0x00)"

definition deriveMask :: "(bytes \<Rightarrow> bytes) \<Rightarrow> bytes \<Rightarrow> nat \<Rightarrow> bytes option" where
  "deriveMask sha entropy len = stream_loop sha (entropy @ ''mask'') len 0 0 (replicate len CHR 0x00)"

subsection \<open>XORObfuscator\<close>

record obfuscator =
  ob_Obfuscate :: "bytes \<Rightarrow> bytes \<Rightarrow> bytes option"
  ob_Deobfuscate :: "bytes \<Rightarrow> bytes \<Rightarrow> bytes option"

definition xor_at :: "bytes \<Rightarrow> nat \<Rightarrow> bytes \<Rightarrow> bytes" where
  "xor_at ks i result = result[i := byte_xor (result ! i) (ks ! i)]"

definition XOR_transform :: "(bytes \<Rightarrow> bytes) \<Rightarrow> bytes \<Rightarrow> bytes \<Rightarrow> bytes option" where
  "XOR_transform sha data entropy =
     map_option (\<lambda>keyStream.
         fold (\<lambda>i result. result[i := byte_xor (data ! i) (keyStream ! i)]) [0..<length data]
           (replicate (length data) CHR 0x00))
       (deriveKeyStream sha entropy (length data))"

definition XOR_Obfuscate :: "(bytes \<Rightarrow> bytes) \<Rightarrow> bytes \<Rightarrow> bytes \<Rightarrow> bytes option" where
  "XOR_Obfuscate sha data entropy =
     (if data = [] then Some data else XOR_transform sha data entropy)"

definition XOR_Deobfuscate :: "(bytes \<Rightarrow> bytes) \<Rightarrow> bytes \<Rightarrow> bytes \<Rightarrow> bytes option" where
  "XOR_Deobfuscate sha data entropy = XOR_Obfuscate sha data entropy"

definition XORObfuscator :: "(bytes \<Rightarrow> bytes) \<Rightarrow> obfuscator" where
  "XORObfuscator sha = \<lparr>ob_Obfuscate = XOR_Obfuscate sha, ob_Deobfuscate = XOR_Deobfuscate sha\<rparr>"

subsection \<open>ShuffleMaskObfuscator\<close>

definition swap :: "nat list \<Rightarrow> nat \<Rightarrow> nat \<Rightarrow> nat list" where
  "swap p i j = p[i := p ! j, j := p ! i]"

definition swap_index :: "(bytes \<Rightarrow> bytes) \<Rightarrow> bytes \<Rightarrow> nat \<Rightarrow> nat" where
  "swap_index sha seed i =
     nat (be_value (take 8 (sha (seed @ be_bytes 8 i))) mod int (i + 1))"

definition generatePermutation :: "(bytes \<Rightarrow> bytes) \<Rightarrow> bytes \<Rightarrow> nat \<Rightarrow> nat list" where
  "generatePermutation sha entropy len =
     (let seed = sha (entropy @ ''permutation'')
      in fold (\<lambda>i p. swap p i (swap_index sha seed i)) (rev [1..<len]) [0..<len])"

definition Shuffle_Obfuscate :: "(bytes \<Rightarrow> bytes) \<Rightarrow> bytes \<Rightarrow> bytes \<Rightarrow> bytes option" where
  "Shuffle_Obfuscate sha data entropy =
     (if data = [] then Some data
      else let permutation = generatePermutation sha entropy (length data)
           in map_option (\<lambda>mask.
                let result = fold (xor_at mask) [0..<length data] data
                in fold (\<lambda>d shuffled. shuffled[d := result ! (permutation ! d)])
                     [0..<length permutation] (replicate (length data) CHR 0x00))
              (deriveMask sha entropy (length data)))"

definition Shuffle_Deobfuscate :: "(bytes \<Rightarrow> bytes) \<Rightarrow> bytes \<Rightarrow> bytes \<Rightarrow> bytes option" where
  "Shuffle_Deobfuscate sha data entropy =
     (if data = [] then Some data
      else let permutation = generatePermutation sha entropy (length data)
           in map_option (\<lambda>mask.
                let result = fold (\<lambda>d r. r[permutation ! d := data ! d])
                      [0..<length permutation] (replicate (length data) CHR 0x00)
                in fold (xor_at mask) [0..<length result] result)
              (deriveMask sha entropy (length data)))"

definition ShuffleMaskObfuscator :: "(bytes \<Rightarrow> bytes) \<Rightarrow> obfuscator" where
  "ShuffleMaskObfuscator sha =
     \<lparr>ob_Obfuscate = Shuffle_Obfuscate sha, ob_Deobfuscate = Shuffle_Deobfuscate sha\<rparr>"

subsection \<open>Readers\<close>

text \<open>
  An \<open>io.Reader\<close>: \<open>Read\<close> with a buffer of \<open>n\<close> bytes returns the bytes read and an error.
  \<open>ReadFull\<close> reads until the buffer is full; \<open>None\<close> when the reader goes on returning nothing.
\<close>

type_synonym 's reader = "nat \<Rightarrow> 's \<Rightarrow> bytes \<times> gerr option \<times> 's"

partial_function (option) read_full_loop ::
  "'s reader \<Rightarrow> nat \<Rightarrow> bytes \<Rightarrow> gerr option \<Rightarrow> 's \<Rightarrow> (bytes \<times> gerr option \<times> 's) option" where
  "read_full_loop rd n got err s =
     (if length got < n \<and> err = None then
        (case rd (n - length got) s of (bs, err', s') \<Rightarrow> read_full_loop rd n (got @ bs) err' s')
      else Some (got, err, s))"

declare read_full_loop.simps [code]

definition ReadFull :: "'s reader \<Rightarrow> nat \<Rightarrow> 's \<Rightarrow> bytes res \<times> 's" where
  "ReadFull rd n s =
     (case read_full_loop rd n [] None s of
        None \<Rightarrow> (Inl Diverges, s)
      | Some (got, err, s') \<Rightarrow>
          (if length got \<ge> n then (Inr got, s')
           else if got \<noteq> [] \<and> err = Some ErrEOF then (Inl ErrUnexpectedEOF, s')
           else (Inl (the err), s')))"

subsection \<open>ChaChaPolySigil\<close>

definition InvalidKeyError :: gerr where
  "InvalidKeyError = CoreE ''sigil.InvalidKeyError'' [''invalid key size, must be 32 bytes''] None"

definition InvalidNonceError :: gerr where
  "InvalidNonceError =
     CoreE ''sigil.InvalidNonceError'' [''invalid nonce argument; use PreObfuscator or nil''] None"

definition CiphertextTooShortError :: gerr where
  "CiphertextTooShortError = CoreE ''sigil.CiphertextTooShortError'' [''ciphertext too short''] None"

definition DecryptionFailedError :: gerr where
  "DecryptionFailedError = CoreE ''sigil.DecryptionFailedError'' [''decryption failed''] None"

definition NoKeyConfiguredError :: gerr where
  "NoKeyConfiguredError = CoreE ''sigil.NoKeyConfiguredError'' [''no encryption key configured''] None"

text \<open>
  The package \<open>chacha20poly1305\<close>: \<open>New\<close> (nonces of 12 bytes) and \<open>NewX\<close> (24 bytes) with the
  error of the constructor, \<open>Seal\<close> and \<open>Open\<close> without additional data.
\<close>

definition NonceSize :: nat where "NonceSize = 12"
definition NonceSizeX :: nat where "NonceSizeX = 24"
definition Overhead :: nat where "Overhead = 16"

record aead =
  ad_nonce :: nat
  ad_seal :: "bytes \<Rightarrow> bytes \<Rightarrow> bytes"
  ad_open :: "bytes \<Rightarrow> bytes \<Rightarrow> bytes option"

record chacha =
  cc_New :: "bytes \<Rightarrow> gerr option"
  cc_seal :: "nat \<Rightarrow> bytes \<Rightarrow> bytes \<Rightarrow> bytes \<Rightarrow> bytes"
  cc_open :: "nat \<Rightarrow> bytes \<Rightarrow> bytes \<Rightarrow> bytes \<Rightarrow> bytes option"

record 's chacha_sigil =
  cs_key :: go_bytes
  cs_nonceSize :: nat
  cs_obfuscator :: "obfuscator option"
  cs_randomReader :: "'s reader option"

definition Key :: "'s chacha_sigil \<Rightarrow> bytes" where "Key s = data_of (cs_key s)"

definition Nonce :: "'s chacha_sigil \<Rightarrow> go_bytes" where "Nonce s = None"

definition Obfuscator :: "'s chacha_sigil \<Rightarrow> obfuscator option" where "Obfuscator s = cs_obfuscator s"

definition SetObfuscator :: "obfuscator option \<Rightarrow> 's chacha_sigil \<Rightarrow> 's chacha_sigil" where
  "SetObfuscator ob s = s\<lparr>cs_obfuscator := ob\<rparr>"

text \<open>The dynamic type of the argument \<open>nonce any\<close>.\<close>

datatype nonce_arg = NilArg | BytesArg bytes | ObfuscatorArg obfuscator | OtherArg

definition NewChaChaPolySigil ::
  "(bytes \<Rightarrow> bytes) \<Rightarrow> 's reader \<Rightarrow> go_bytes \<Rightarrow> nonce_arg \<Rightarrow> 's chacha_sigil res" where
  "NewChaChaPolySigil sha randReader key nonce =
     (if length (data_of key) \<noteq> 32 then Inl InvalidKeyError
      else let sigil = \<lparr>cs_key = Some (data_of key), cs_nonceSize = NonceSizeX,
                 cs_obfuscator = None, cs_randomReader = Some randReader\<rparr>;
               op = ''sigil.NewChaChaPolySigil''
           in case nonce of
                NilArg \<Rightarrow> Inr (sigil\<lparr>cs_obfuscator := Some (XORObfuscator sha)\<rparr>)
              | BytesArg _ \<Rightarrow> Inl (CoreE op
                  [''fixed-nonce []byte path removed; use PreObfuscator or nil''] (Some InvalidNonceError))
              | ObfuscatorArg value \<Rightarrow> Inr (sigil\<lparr>cs_obfuscator := Some value\<rparr>)
              | OtherArg \<Rightarrow> Inl (CoreE op [''nonce must be PreObfuscator or nil''] (Some InvalidNonceError)))"

definition activeNonceSize :: "'s chacha_sigil \<Rightarrow> nat" where
  "activeNonceSize s = (if cs_nonceSize s \<noteq> 0 then cs_nonceSize s else NonceSizeX)"

definition newAEAD :: "chacha \<Rightarrow> 's chacha_sigil \<Rightarrow> aead res" where
  "newAEAD C s =
     (let n = activeNonceSize s; key = data_of (cs_key s)
      in if n = NonceSize \<or> n = NonceSizeX then
           (case cc_New C key of Some err \<Rightarrow> Inl err
            | None \<Rightarrow> Inr \<lparr>ad_nonce = n, ad_seal = cc_seal C n key, ad_open = cc_open C n key\<rparr>)
         else Inl InvalidNonceError)"

text \<open>\<open>randReader\<close> is \<open>crypto/rand.Reader\<close>, used when the sigil has no reader of its own.\<close>

definition ChaCha_In :: "chacha \<Rightarrow> 's reader \<Rightarrow> 's chacha_sigil \<Rightarrow> go_bytes \<Rightarrow> 's \<Rightarrow> go_bytes res \<times> 's" where
  "ChaCha_In C randReader sg data s =
     (if cs_key sg = None then (Inl NoKeyConfiguredError, s)
      else case data of
          None \<Rightarrow> (Inr None, s)
        | Some d \<Rightarrow>
            (case newAEAD C sg of
               Inl err \<Rightarrow> (Inl (CoreE ''sigil.ChaChaPolySigil.In'' [''create cipher''] (Some err)), s)
             | Inr aead \<Rightarrow>
                 (let reader = (case cs_randomReader sg of Some r \<Rightarrow> r | None \<Rightarrow> randReader)
                  in case ReadFull reader (ad_nonce aead) s of
                       (Inl err, s') \<Rightarrow> (Inl (CoreE ''sigil.ChaChaPolySigil.In'' [''read nonce''] (Some err)), s')
                     | (Inr nonce, s') \<Rightarrow>
                         (case (case cs_obfuscator sg of None \<Rightarrow> Some d | Some ob \<Rightarrow> ob_Obfuscate ob d nonce) of
                            None \<Rightarrow> (Inl Diverges, s')
                          | Some obfuscated \<Rightarrow> (Inr (Some (nonce @ ad_seal aead nonce obfuscated)), s')))))"

definition ChaCha_Out :: "chacha \<Rightarrow> 's chacha_sigil \<Rightarrow> go_bytes \<Rightarrow> go_bytes res" where
  "ChaCha_Out C sg data =
     (if cs_key sg = None then Inl NoKeyConfiguredError
      else case data of
          None \<Rightarrow> Inr None
        | Some d \<Rightarrow>
            (case newAEAD C sg of
               Inl err \<Rightarrow> Inl (CoreE ''sigil.ChaChaPolySigil.Out'' [''create cipher''] (Some err))
             | Inr aead \<Rightarrow>
                 (if length d < ad_nonce aead + Overhead then Inl CiphertextTooShortError
                  else let nonce = take (ad_nonce aead) d; ciphertext = drop (ad_nonce aead) d
                       in case ad_open aead nonce ciphertext of
                            None \<Rightarrow> Inl (CoreE ''sigil.ChaChaPolySigil.Out'' [''decrypt ciphertext'']
                                      (Some DecryptionFailedError))
                          | Some obfuscated \<Rightarrow>
                              (case (case cs_obfuscator sg of None \<Rightarrow> Some obfuscated
                                     | Some ob \<Rightarrow> ob_Deobfuscate ob obfuscated nonce) of
                                 None \<Rightarrow> Inl Diverges
                               | Some plaintext \<Rightarrow> Inr (Some plaintext)))))"

definition ChaChaPolySigil :: "chacha \<Rightarrow> 's reader \<Rightarrow> 's chacha_sigil \<Rightarrow> 's sigil" where
  "ChaChaPolySigil C randReader sg = \<lparr>sig_In = ChaCha_In C randReader sg,
     sig_Out = (\<lambda>data s. (ChaCha_Out C sg data, s))\<rparr>"

definition NonceFromCiphertext :: "bytes \<Rightarrow> bytes res" where
  "NonceFromCiphertext ciphertext =
     (if length ciphertext < NonceSizeX then Inl CiphertextTooShortError
      else Inr (take NonceSizeX ciphertext))"

end
