(* ===== verification/SigilProps.thy ===== *)
theory SigilProps
  imports Sigil
begin

text \<open>
  The properties of the sigils: pipelines of reversible sigils come back to their input, the
  encodings are reversible, and the JSON indentation changes only white space.
\<close>

subsection \<open>Pipelines\<close>

lemma transmute_loop_append:
  "transmute_loop (gs @ hs) d s =
     (case transmute_loop gs d s of (Inl err, s') \<Rightarrow> (Inl err, s') | (Inr d', s') \<Rightarrow> transmute_loop hs d' s')"
  by (induction gs arbitrary: d s) (auto split: prod.splits sum.splits)

lemma transmute_loop_snoc:
  assumes "transmute_loop (gs @ [g]) d s = (Inr e, s')"
  obtains d1 s1 where "transmute_loop gs d s = (Inr d1, s1)" "sig_In g d1 s1 = (Inr e, s')"
  using assms by (auto simp: transmute_loop_append split: prod.splits sum.splits)

lemma untransmute_transmute:
  assumes "\<forall>g\<in>set gs. reversible g" "transmute_loop gs d s = (Inr e, s')"
  shows "fst (untransmute_loop (gs @ hs) (length gs) e t) = Inr d"
  using assms
proof (induction gs arbitrary: e s' t hs rule: rev_induct)
  case (snoc g gs)
  obtain d1 s1 where 1: "transmute_loop gs d s = (Inr d1, s1)" "sig_In g d1 s1 = (Inr e, s')"
    using transmute_loop_snoc [OF snoc.prems(2)] by blast
  have "fst (sig_Out g e t) = Inr d1"
    using reversible.out_in [OF _ 1(2)] snoc.prems(1) by simp
  then obtain t1 where "sig_Out g e t = (Inr d1, t1)" by (cases "sig_Out g e t") simp
  then show ?case using snoc.IH [OF _ 1(1), of "g # hs" t1] snoc.prems(1) by simp
qed simp

subsection \<open>Reversing\<close>

lemma fold_update:
  "n \<le> length xs \<Longrightarrow> fold (\<lambda>i out. out[i := f i]) [0..<n] xs = map f [0..<n] @ drop n xs"
proof (induction n)
  case (Suc n)
  then show ?case
    by (simp add: list_update_append Cons_nth_drop_Suc [symmetric])
qed simp

lemma reverse_bytes_rev: "reverse_bytes d = rev d"
proof -
  have "reverse_bytes d = map (\<lambda>i. d ! (length d - 1 - i)) [0..<length d]"
    using fold_update [of "length d" "replicate (length d) CHR 0x00" "\<lambda>i. d ! (length d - 1 - i)"]
    by (simp add: reverse_bytes_def)
  also have "\<dots> = rev d" by (rule nth_equalityI) (simp_all add: rev_nth)
  finally show ?thesis .
qed

subsection \<open>Hexadecimal\<close>

lemma val_less: "val b < 256"
  by (rule nat_of_char_less_256)

lemma byte_val [simp]: "byte (val b) = b"
  by simp

lemma hex_value_digit: "n < 16 \<Longrightarrow> hex_value (hex_digit n) = Some n"
  by (auto simp: hex_value_def hex_digit_def Let_def)

lemma hex_roundtrip: "hex_decode (hex_encode bs) = Inr bs"
proof (induction bs)
  case (Cons b bs)
  have "val b div 16 < 16" using val_less [of b] by (simp add: less_mult_imp_div_less)
  then show ?case
    using Cons by (simp add: hex_encode_def hex_value_digit)
qed (simp add: hex_encode_def)

subsection \<open>Base 64\<close>

lemma b64_value_digit: "n < 64 \<Longrightarrow> b64_value (b64_digit n) = Some n"
  by (auto simp: b64_value_def b64_digit_def Let_def)

lemma b64_value_pad: "b64_value pad = None"
  by (simp add: b64_value_def pad_def)

lemma b64_clean: "n < 64 \<Longrightarrow> b64_digit n \<noteq> CHR 0x0A \<and> b64_digit n \<noteq> CHR 0x0D"
  using b64_value_digit [of n] by (auto simp: b64_value_def)

lemma b64_parts:
  "val a div 4 < 64" "val a mod 4 * 16 + val b div 16 < 64" "val a mod 16 * 4 + val b div 64 < 64"
  "val a mod 4 * 16 < 64" "val a mod 16 * 4 < 64" "val a mod 64 < 64"
proof -
  have a: "val a div 4 < 64" and b: "val b div 16 < 16" "val b div 64 < 4"
    using val_less [of a] val_less [of b] by (simp_all add: less_mult_imp_div_less)
  moreover have "val a mod 4 < 4" "val a mod 16 < 16" by simp_all
  ultimately show "val a div 4 < 64" "val a mod 4 * 16 + val b div 16 < 64"
    "val a mod 16 * 4 + val b div 64 < 64" "val a mod 4 * 16 < 64" "val a mod 16 * 4 < 64"
    "val a mod 64 < 64"
    by linarith+
qed

lemma b64_quanta_roundtrip:
  "b64_quanta (b64_encode bs) = Inr bs \<and> filter (\<lambda>b. b \<noteq> CHR 0x0A \<and> b \<noteq> CHR 0x0D) (b64_encode bs) = b64_encode bs"
proof (induction bs rule: b64_encode.induct)
  case (2 a)
  then show ?case by (simp add: b64_parts b64_value_digit b64_value_pad b64_clean) (simp add: pad_def)
next
  case (3 a b)
  have "val b div 16 < 16" using val_less [of b] by (simp add: less_mult_imp_div_less)
  then have "val b div 16 div 16 = 0" "val b div 16 mod 16 * 16 + val b mod 16 = val b" by simp_all
  then show ?case by (simp add: b64_parts b64_value_digit b64_value_pad b64_clean) (simp add: pad_def)
next
  case (4 a b c rest)
  have "val b div 16 < 16" "val c div 64 < 4"
    using val_less [of b] val_less [of c] by (simp_all add: less_mult_imp_div_less)
  then have "val a div 4 * 4 + (val a mod 4 * 16 + val b div 16) div 16 = val a"
    "(val a mod 4 * 16 + val b div 16) mod 16 * 16 + (val b mod 16 * 4 + val c div 64) div 4 = val b"
    "(val b mod 16 * 4 + val c div 64) mod 4 * 64 + val c mod 64 = val c"
    by simp_all
  then show ?case using 4 by (simp add: b64_parts b64_value_digit b64_clean)
qed simp

lemma b64_roundtrip: "b64_decode (b64_encode bs) = Inr bs"
  using b64_quanta_roundtrip [of bs] by (simp add: b64_decode_def)

subsection \<open>The reversible sigils\<close>

lemma reverse_reversible: "reversible (pure_sigil ReverseSigil_In ReverseSigil_Out)"
  by unfold_locales
    (auto simp: pure_sigil_def ReverseSigil_In_def ReverseSigil_Out_def reverse_bytes_rev
      split: option.splits)

lemma hex_reversible: "reversible (pure_sigil HexSigil_In HexSigil_Out)"
  by unfold_locales
    (auto simp: pure_sigil_def HexSigil_In_def HexSigil_Out_def hex_roundtrip split: option.splits)

lemma base64_reversible: "reversible (pure_sigil Base64Sigil_In Base64Sigil_Out)"
  by unfold_locales
    (auto simp: pure_sigil_def Base64Sigil_In_def Base64Sigil_Out_def b64_roundtrip split: option.splits)

interpretation reverse_sigil: reversible "pure_sigil ReverseSigil_In ReverseSigil_Out"
  by (rule reverse_reversible)

interpretation hex_sigil: reversible "pure_sigil HexSigil_In HexSigil_Out"
  by (rule hex_reversible)

interpretation base64_sigil: reversible "pure_sigil Base64Sigil_In Base64Sigil_Out"
  by (rule base64_reversible)

context gzip_library
begin

lemma gzip_reversible: "reversible \<lparr>sig_In = GzipSigil_In Z None, sig_Out = (\<lambda>d s. (GzipSigil_Out Z d, s))\<rparr>"
  by unfold_locales
    (auto simp: GzipSigil_In_def GzipSigil_Out_def open_payload read_payload split: option.splits)

end

text \<open>A compression that does not compress, to run the examples with.\<close>

definition stored_gzip :: gzip_codec where
  "stored_gzip = \<lparr>gz_write = (\<lambda>d. [''gz'', d]), gz_close = (\<lambda>d. []),
     gz_open = (\<lambda>p. if prefix ''gz'' p then None else Some ErrEOF), gz_read = (\<lambda>p. Inr (drop 2 p))\<rparr>"

interpretation stored_gzip: gzip_library stored_gzip
  by unfold_locales (simp_all add: stored_gzip_def gz_payload_def)

lemmas stored_gzip_ok = stored_gzip.gzip_library_axioms

subsection \<open>Indentation\<close>

text \<open>
  The text without the blanks and line breaks outside of string literals, and the state of the
  scanner (inside a literal, after a backslash) at its end.
\<close>

definition strip_step :: "char \<Rightarrow> string \<times> bool \<times> bool \<Rightarrow> string \<times> bool \<times> bool" where
  "strip_step c st =
     (case st of (out, ins, esc) \<Rightarrow>
        if ins then (out @ [c], esc \<or> c \<noteq> CHR 0x22, \<not> esc \<and> c = CHR 0x5C)
        else if c = CHR '' '' \<or> c = CHR 0x0A then (out, False, esc)
        else (out @ [c], c = CHR 0x22, esc))"

definition strip_state :: "string \<Rightarrow> string \<times> bool \<times> bool" where
  "strip_state s = fold strip_step s ([], False, False)"

definition strip_blanks :: "string \<Rightarrow> string" where
  "strip_blanks s = fst (strip_state s)"

lemma strip_state_append: "strip_state (s @ t) = fold strip_step t (strip_state s)"
  by (simp add: strip_state_def)

lemma strip_outside:
  "\<forall>c\<in>set t. c = CHR '' '' \<or> c = CHR 0x0A \<Longrightarrow> fold strip_step t (out, False, esc) = (out, False, esc)"
  by (induction t) (auto simp: strip_step_def)

lemma writeJSONIndent_eq: "writeJSONIndent b n = b @ concat (replicate (nat n) ''  '')"
proof -
  have "fold (\<lambda>_ b. b @ ''  '') [0..<k] b = b @ concat (replicate k ''  '')" for k
    by (induction k) (simp_all add: replicate_append_same [symmetric] flip: append_assoc)
  then show ?thesis by (simp add: writeJSONIndent_def)
qed

lemma strip_writeJSONIndent:
  assumes "strip_state b = (out, False, esc)"
  shows "strip_state (writeJSONIndent b n) = (out, False, esc)"
  unfolding writeJSONIndent_eq strip_state_append assms by (rule strip_outside) auto

text \<open>The scanner state of what is written follows the scanner state of what is read.\<close>

definition indent_inv :: "string \<Rightarrow> nat \<Rightarrow> string \<times> int \<times> bool \<times> bool \<Rightarrow> bool" where
  "indent_inv compact i st \<longleftrightarrow> (case st of (builder, indent, ins, esc) \<Rightarrow>
     strip_state builder = strip_state (take i compact) \<and> snd (strip_state builder) = (ins, esc) \<and>
     (\<not> ins \<longrightarrow> \<not> esc))"

lemma strip_snoc: "strip_state (s @ [c]) = strip_step c (strip_state s)"
  by (simp add: strip_state_append)

lemma strip_writeJSONIndent':
  assumes "snd (strip_state b) = (False, esc)"
  shows "strip_state (writeJSONIndent b n) = strip_state b"
  using strip_writeJSONIndent [of b "fst (strip_state b)" esc] assms by (cases "strip_state b") simp

lemma indent_in_string:
  assumes "indent_inv compact i (b, n, True, esc)" "i < length compact"
  shows "indent_inv compact (Suc i) (indent_step compact i (b, n, True, esc))"
  using assms
  by (cases "strip_state (take i compact)")
    (auto simp: indent_inv_def indent_step_def writeJSONStringByte_def Let_def strip_snoc
      take_Suc_conv_app_nth strip_step_def)

lemma indent_structural:
  assumes "indent_inv compact i (b, n, False, esc)" "i < length compact"
  shows "indent_inv compact (Suc i) (indent_step compact i (b, n, False, esc))"
proof -
  obtain out where st: "strip_state (take i compact) = (out, False, False)"
    "strip_state b = (out, False, False)" and esc: "\<not> esc"
    using assms(1) by (cases "strip_state b") (auto simp: indent_inv_def)
  let ?c = "compact ! i"
  have blank: "strip_state (writeJSONIndent (d @ [CHR 0x0A]) k) = strip_state d"
    if "strip_state d = (out', False, False)" for d k out'
    using that by (subst strip_writeJSONIndent' [where esc = False]) (simp_all add: strip_snoc strip_step_def)
  have spaces: "strip_state (d @ '': '') = strip_state (d @ '':'')"
    if "strip_state d = (out', False, False)" for d out'
    using that by (simp add: strip_state_append strip_step_def)

  consider "?c = CHR 0x22" | "?c = CHR ''{'' \<or> ?c = CHR ''[''" | "?c = CHR ''}'' \<or> ?c = CHR '']''"
    | "?c = CHR '',''" | "?c = CHR '':''"
    | "?c \<notin> {CHR 0x22, CHR ''{'', CHR ''['', CHR ''}'', CHR '']'', CHR '','', CHR '':''}" by blast
  then show ?thesis
  proof cases
    case 2
    then have "strip_state (b @ [?c]) = (out @ [?c], False, False)"
      using st by (auto simp: strip_snoc strip_step_def)
    then show ?thesis using 2 st esc assms(2) blank [of "b @ [?c]"]
      by (auto simp: indent_inv_def indent_step_def writeJSONStructuralByte_def Let_def
          writeJSONOpenContainer_def take_Suc_conv_app_nth strip_snoc strip_step_def)
  next
    case 3
    then show ?thesis using st esc assms(2) blank [OF st(2)]
      by (auto simp: indent_inv_def indent_step_def writeJSONStructuralByte_def Let_def
          writeJSONCloseContainer_def take_Suc_conv_app_nth strip_snoc strip_step_def)
  next
    case 4
    then have "strip_state (b @ [CHR '','']) = (out @ [CHR '',''], False, False)"
      using st by (auto simp: strip_snoc strip_step_def)
    moreover from blank [OF this]
    have "strip_state (writeJSONIndent (b @ [CHR '','', CHR 0x0A]) n) = strip_state (b @ [CHR '',''])"
      by simp
    ultimately show ?thesis using 4 st esc assms(2)
      by (simp add: indent_inv_def indent_step_def writeJSONStructuralByte_def Let_def
          take_Suc_conv_app_nth strip_snoc strip_step_def)
  next
    case 5
    then show ?thesis using st esc assms(2) spaces [OF st(2)]
      by (simp add: indent_inv_def indent_step_def writeJSONStructuralByte_def Let_def
          take_Suc_conv_app_nth strip_snoc strip_step_def)
  qed (use st esc assms(2) in \<open>simp_all add: indent_inv_def indent_step_def
      writeJSONStructuralByte_def Let_def take_Suc_conv_app_nth strip_snoc strip_step_def\<close>)
qed

lemma indent_loop:
  "i \<le> length compact \<Longrightarrow> indent_inv compact i (fold (indent_step compact) [0..<i] ([], 0, False, False))"
proof (induction i)
  case (Suc i)
  obtain b n ins esc where st: "fold (indent_step compact) [0..<i] ([], 0, False, False) = (b, n, ins, esc)"
    by (metis prod_cases4)
  then have "indent_inv compact i (b, n, ins, esc)" using Suc by simp
  then have "indent_inv compact (Suc i) (indent_step compact i (b, n, ins, esc))"
    using Suc.prems indent_in_string indent_structural by (cases ins) auto
  then show ?case by (simp add: st)
qed (simp add: indent_inv_def strip_state_def)

subsection \<open>Properties\<close>

text \<open>
  C10: a pipeline of reversible sigils comes back: when transmuting data through the sigils
  succeeds, untransmuting the result through the same sigils gives the data, nil included,
  whatever state the sigils are called in.
\<close>

theorem sigil_pipeline:
  assumes "\<forall>g\<in>set sigils. reversible g" "Transmute data sigils s = (Inr e, s')"
  shows "fst (Untransmute e sigils t) = Inr data"
  using untransmute_transmute [OF assms(1), of data s e s' "[]" t] assms(2)
  by (simp add: Transmute_def Untransmute_def)

definition hex_reverse :: "unit sigil list" where
  "hex_reverse = [pure_sigil HexSigil_In HexSigil_Out, pure_sigil ReverseSigil_In ReverseSigil_Out]"

theorem sigil_pipeline_witness:
  "fst (Untransmute (Some ''12f674'') hex_reverse ()) = Inr (Some ''Go!'')"
proof -
  have "Transmute (Some ''Go!'') hex_reverse () = (Inr (Some ''12f674''), ())" by code_simp
  moreover have "\<forall>g\<in>set hex_reverse. reversible g"
    using hex_reversible reverse_reversible by (simp add: hex_reverse_def)
  ultimately show ?thesis by (rule sigil_pipeline [rotated])
qed

definition reversible_name :: "string \<Rightarrow> bool" where
  "reversible_name name \<longleftrightarrow> name \<in> {''reverse'', ''hex'', ''base64'', ''gzip''}"

definition reversible_kind :: "sigil_kind \<Rightarrow> bool" where
  "reversible_kind kind \<longleftrightarrow> kind \<in> {Reverse, Hex, Base64, Gzip}"

lemma NewSigil_known:
  assumes "reversible_name name"
  obtains kind where "reversible_kind kind" "NewSigil name = Inr kind"
proof -
  have "list_all (\<lambda>name. case NewSigil name of Inr k \<Rightarrow> reversible_kind k | Inl _ \<Rightarrow> False)
      [''reverse'', ''hex'', ''base64'', ''gzip'']"
    by code_simp
  then have "case NewSigil name of Inr k \<Rightarrow> reversible_kind k | Inl _ \<Rightarrow> False"
    using assms by (auto simp: reversible_name_def)
  then show thesis by (cases "NewSigil name") (auto intro: that)
qed

lemma NewSigil_kinds:
  "list_all reversible_name names \<Longrightarrow>
   \<exists>kinds. list_all2 (\<lambda>name kind. NewSigil name = Inr kind) names kinds \<and> list_all reversible_kind kinds"
proof (induction names)
  case (Cons name names)
  then obtain kinds where "list_all2 (\<lambda>name kind. NewSigil name = Inr kind) names kinds"
    "list_all reversible_kind kinds" by auto
  moreover obtain kind where "reversible_kind kind" "NewSigil name = Inr kind"
    using NewSigil_known Cons.prems by auto
  ultimately show ?case by (intro exI [of _ "kind # kinds"]) simp
qed simp

lemma known_sigil:
  assumes "gzip_library (se_gzip L)" "reversible_kind kind"
  shows "reversible (sigil_of L kind)" "\<exists>e. sig_In (sigil_of L kind) d s = (Inr e, s)"
  using assms(2) reverse_reversible hex_reversible base64_reversible
    gzip_library.gzip_reversible [OF assms(1)]
  by (auto simp: sigil_of_def pure_sigil_def ReverseSigil_In_def HexSigil_In_def
      Base64Sigil_In_def GzipSigil_In_def reversible_kind_def split: option.splits)

lemma known_pipeline:
  assumes "gzip_library (se_gzip L)"
  shows "list_all reversible_kind kinds \<Longrightarrow>
    \<exists>e. transmute_loop (map (sigil_of L) kinds) d s = (Inr e, s)"
proof (induction kinds arbitrary: d)
  case (Cons k ks)
  then obtain e where "sig_In (sigil_of L k) d s = (Inr e, s)"
    using known_sigil(2) [OF assms, of k d s] by auto
  then show ?case using Cons by simp
qed simp

text \<open>
  \<open>NewSigil\<close> knows the names of the reversible sigils; a pipeline made of sigils it returns for
  them, in any number and order, never fails on the way in, and comes back to its input.  It
  refuses the name of the cipher, which needs a key, with an error that wraps \<open>ErrInvalid\<close>.
\<close>

theorem sigil_by_name:
  fixes s t :: 's
  assumes "gzip_library (se_gzip L)" "list_all reversible_name names"
  shows "(\<exists>kinds. list_all2 (\<lambda>name kind. NewSigil name = Inr kind) names kinds \<and>
      (\<exists>e. Transmute data (map (sigil_of L) kinds) s = (Inr e, s) \<and>
        fst (Untransmute e (map (sigil_of L) kinds) t) = Inr data)) \<and>
    (\<exists>err. NewSigil ''chacha20poly1305'' = Inl err \<and> err_is err ErrInvalid)"
proof
  from NewSigil_kinds [OF assms(2)]
  obtain kinds where kinds: "list_all2 (\<lambda>name kind. NewSigil name = Inr kind) names kinds"
    "list_all reversible_kind kinds" by blast
  let ?gs = "map (sigil_of L) kinds :: 's sigil list"
  obtain e where e: "transmute_loop ?gs data s = (Inr e, s)"
    using known_pipeline [OF assms(1) kinds(2), of data s] by blast
  have "\<forall>g\<in>set ?gs. reversible g"
    using known_sigil(1) [OF assms(1)] kinds(2) by (auto simp: list_all_iff)
  then have "fst (Untransmute e ?gs t) = Inr data"
    using untransmute_transmute [OF _ e, of "[]" t] by (simp add: Untransmute_def)
  then show "\<exists>kinds. list_all2 (\<lambda>name kind. NewSigil name = Inr kind) names kinds \<and>
      (\<exists>e. Transmute data (map (sigil_of L) kinds) s = (Inr e, s) \<and>
        fst (Untransmute e (map (sigil_of L) kinds) t) = Inr data)"
    using kinds(1) e unfolding Transmute_def by blast
qed (simp add: NewSigil_def)

definition sample_sigils :: "unit sigil_env" where
  "sample_sigils = \<lparr>se_gzip = stored_gzip, se_hash = \<lparr>hash_new = (\<lambda>_. None), hash_sum = (\<lambda>_ d. d)\<rparr>,
     se_unmarshal = (\<lambda>_. Inr ()), se_marshal = (\<lambda>_. ''null'')\<rparr>"

theorem sigil_by_name_witness:
  "\<exists>kinds. list_all2 (\<lambda>name kind. NewSigil name = Inr kind) [''hex'', ''gzip'', ''base64''] kinds \<and>
     (\<exists>e. Transmute (Some ''x'') (map (sigil_of sample_sigils) kinds) () = (Inr e, ()) \<and>
       fst (Untransmute e (map (sigil_of sample_sigils) kinds) ()) = Inr (Some ''x''))"
proof -
  have "gzip_library (se_gzip sample_sigils)" by (simp add: sample_sigils_def stored_gzip_ok)
  moreover have "list_all reversible_name [''hex'', ''gzip'', ''base64'']" by code_simp
  ultimately show ?thesis by (rule sigil_by_name [THEN conjunct1])
qed

text \<open>
  \<open>indentJSON\<close> only adds blanks and line breaks outside of string literals: with those removed,
  its result is the compact text with those removed, for any text, JSON or not.
\<close>

theorem indentJSON_blanks: "strip_blanks (indentJSON compact) = strip_blanks compact"
proof (cases "compact = []")
  case False
  have "indent_inv compact (length compact)
      (fold (indent_step compact) [0..<length compact] ([], 0, False, False))"
    by (rule indent_loop) simp
  then show ?thesis
    using False by (auto simp: indentJSON_def indent_inv_def strip_blanks_def split: prod.splits)
qed (simp add: indentJSON_def)

lemma indentJSON_example:
  "indentJSON ''{\"a\":[1,\" 2\"],\"b\":{}}'' = ''{\<newline>  \"a\": [\<newline>    1,\<newline>    \" 2\"\<newline>  ],\<newline>  \"b\": {}\<newline>}''"
  by code_simp

end
