(* ===== verification/CryptoProps.thy ===== *)
theory CryptoProps
  imports CryptoSigil SigilProps "HOL-Library.Multiset"
begin

text \<open>
  The properties of the cipher sigil: both obfuscators can be undone, the shuffle is a
  permutation, and decryption gives back what was encrypted.
\<close>

subsection \<open>Streams\<close>

lemma byte_xor_twice [simp]: "byte_xor (byte_xor a k) k = a"
  by (cases a; cases k) auto

locale sha256_library =
  fixes sha :: "bytes \<Rightarrow> bytes"
  assumes sha_length: "length (sha x) = 32"
begin

lemma stream_loop_returns:
  "length stream = len \<Longrightarrow>
   \<exists>r. stream_loop sha seed len offset blockNum stream = Some r \<and> length r = len"
proof (induction "len - offset" arbitrary: offset blockNum stream rule: less_induct)
  case less
  show ?case
  proof (cases "offset < len")
    case True
    let ?c = "min 32 (len - offset)"
    let ?b = "take ?c (sha (seed @ be_bytes 8 blockNum))"
    have "len - (offset + ?c) < len - offset" using True by simp
    moreover have "length (copy_at stream offset ?b) = len"
      using True less.prems by (simp add: copy_at_def sha_length)
    ultimately obtain r where
      "stream_loop sha seed len (offset + ?c) (blockNum + 1) (copy_at stream offset ?b) = Some r"
      "length r = len"
      using less.hyps by blast
    then show ?thesis
      using True by (subst stream_loop.simps) (simp add: sha_length Let_def)
  qed (use less.prems in \<open>simp add: stream_loop.simps\<close>)
qed

lemma deriveKeyStream_returns: "\<exists>r. deriveKeyStream sha e n = Some r \<and> length r = n"
  unfolding deriveKeyStream_def by (rule stream_loop_returns) simp

lemma deriveMask_returns: "\<exists>r. deriveMask sha e n = Some r \<and> length r = n"
  unfolding deriveMask_def by (rule stream_loop_returns) simp

end

subsection \<open>Permutations\<close>

lemma length_swap [simp]: "length (swap p i j) = length p"
  by (simp add: swap_def)

lemma mset_swap': "i < length p \<Longrightarrow> j < length p \<Longrightarrow> mset (swap p i j) = mset p"
  unfolding swap_def by (rule mset_swap)

lemma swap_index_le: "swap_index sha seed i \<le> i"
proof -
  let ?v = "be_value (take 8 (sha (seed @ be_bytes 8 i))) mod int (i + 1)"
  have "?v < int (i + 1)" by (rule pos_mod_bound) simp
  then show ?thesis unfolding swap_index_def by linarith
qed

lemma generatePermutation_mset: "mset (generatePermutation sha e n) = mset [0..<n]"
proof -
  have "mset (fold (\<lambda>i p. swap p i (swap_index sha seed i)) is p) = mset p"
    if "\<forall>i\<in>set is. i < length p" for seed "is" p
    using that
  proof (induction "is" arbitrary: p)
    case (Cons i "is")
    have "swap_index sha seed i < length p"
      using Cons.prems swap_index_le [of sha seed i] by auto
    then show ?case using Cons by (simp add: mset_swap')
  qed simp
  then show ?thesis by (simp add: generatePermutation_def)
qed

lemma permutation_facts:
  assumes "mset p = mset [0..<n]"
  shows "length p = n" "distinct p" "set p = {0..<n}"
  using mset_eq_length [OF assms] mset_eq_imp_distinct_iff [OF assms] mset_eq_setD [OF assms] by auto

lemma fold_xor_at:
  "n \<le> length xs \<Longrightarrow>
   fold (xor_at mk) [0..<n] xs = map (\<lambda>i. byte_xor (xs ! i) (mk ! i)) [0..<n] @ drop n xs"
proof (induction n)
  case (Suc n)
  then show ?case
    by (simp add: xor_at_def list_update_append nth_append Cons_nth_drop_Suc [symmetric])
qed simp

lemma fold_scatter:
  assumes "distinct p" "\<forall>x\<in>set p. x < length z" "k \<le> length p"
  shows "length (fold (\<lambda>d r. r[p ! d := data ! d]) [0..<k] z) = length z \<and>
    (\<forall>d<k. fold (\<lambda>d r. r[p ! d := data ! d]) [0..<k] z ! (p ! d) = data ! d)"
  using assms(3)
proof (induction k)
  case (Suc k)
  then show ?case
    using assms(1,2) by (auto simp: less_Suc_eq nth_list_update nth_eq_iff_index_eq)
qed simp

subsection \<open>The obfuscators\<close>

text \<open>What the sigil needs of an obfuscator: it returns, and can be undone with the same entropy.\<close>

locale pre_obfuscator =
  fixes ob :: obfuscator
  assumes returns: "ob_Obfuscate ob d e \<noteq> None"
    and undone: "ob_Obfuscate ob d e = Some c \<Longrightarrow> ob_Deobfuscate ob c e = Some d"

context sha256_library
begin

lemma XOR_transform_eq:
  assumes "deriveKeyStream sha e (length d) = Some ks"
  shows "XOR_transform sha d e = Some (map (\<lambda>i. byte_xor (d ! i) (ks ! i)) [0..<length d])"
  using assms by (simp add: XOR_transform_def fold_update)

lemma xor_obfuscator: "pre_obfuscator (XORObfuscator sha)"
proof
  fix d e c :: bytes
  obtain ks where ks: "deriveKeyStream sha e (length d) = Some ks"
    using deriveKeyStream_returns by blast
  then show "ob_Obfuscate (XORObfuscator sha) d e \<noteq> None"
    by (simp add: XORObfuscator_def XOR_Obfuscate_def XOR_transform_eq)
  assume "ob_Obfuscate (XORObfuscator sha) d e = Some c"
  then have c: "c = (if d = [] then [] else map (\<lambda>i. byte_xor (d ! i) (ks ! i)) [0..<length d])"
    using XOR_transform_eq [OF ks]
    by (auto simp: XORObfuscator_def XOR_Obfuscate_def split: if_splits)
  then have "length c = length d" by simp
  then have "XOR_transform sha c e = Some (map (\<lambda>i. byte_xor (c ! i) (ks ! i)) [0..<length d])"
    using XOR_transform_eq [of e c ks] ks by simp
  moreover have "map (\<lambda>i. byte_xor (c ! i) (ks ! i)) [0..<length d] = d"
    by (rule nth_equalityI) (auto simp: c)
  ultimately show "ob_Deobfuscate (XORObfuscator sha) c e = Some d"
    using c by (auto simp: XORObfuscator_def XOR_Obfuscate_def XOR_Deobfuscate_def)
qed

lemma Shuffle_Obfuscate_eq:
  assumes "deriveMask sha e (length d) = Some mk" "d \<noteq> []"
  defines "p \<equiv> generatePermutation sha e (length d)"
  shows "Shuffle_Obfuscate sha d e
    = Some (map (\<lambda>i. byte_xor (d ! (p ! i)) (mk ! (p ! i))) [0..<length d])"
proof -
  have p: "length p = length d" "\<forall>i<length d. p ! i < length d"
    using permutation_facts [OF generatePermutation_mset, of sha e "length d", folded p_def]
    by (auto dest: nth_mem)
  let ?r = "map (\<lambda>i. byte_xor (d ! i) (mk ! i)) [0..<length d]"
  have "Shuffle_Obfuscate sha d e = Some (map (\<lambda>i. ?r ! (p ! i)) [0..<length d])"
    using assms(1,2) p
    by (simp add: Shuffle_Obfuscate_def Let_def fold_xor_at p_def [symmetric] fold_update)
  also have "map (\<lambda>i. ?r ! (p ! i)) [0..<length d]
      = map (\<lambda>i. byte_xor (d ! (p ! i)) (mk ! (p ! i))) [0..<length d]"
    using p(2) by simp
  finally show ?thesis .
qed

lemma Shuffle_Deobfuscate_eq:
  assumes "deriveMask sha e n = Some mk" "length d = n" "length c = n" "n \<noteq> 0"
    "\<forall>i<n. c ! i = byte_xor (d ! (generatePermutation sha e n ! i)) (mk ! (generatePermutation sha e n ! i))"
  shows "Shuffle_Deobfuscate sha c e = Some d"
proof -
  let ?p = "generatePermutation sha e n"
  note p = permutation_facts [OF generatePermutation_mset, of sha e n]
  let ?r = "fold (\<lambda>d r. r[?p ! d := c ! d]) [0..<n] (replicate n CHR 0x00)"
  have r: "length ?r = n" "\<forall>i<n. ?r ! (?p ! i) = c ! i"
    using fold_scatter [of ?p "replicate n CHR 0x00" n c] p by auto
  have "?r = map (\<lambda>j. byte_xor (d ! j) (mk ! j)) [0..<n]"
  proof (rule nth_equalityI)
    fix j assume "j < length ?r"
    then have "j \<in> set ?p" using r(1) p(3) by simp
    then obtain i where "i < n" "?p ! i = j" using p(1) by (auto simp: in_set_conv_nth)
    then show "?r ! j = map (\<lambda>j. byte_xor (d ! j) (mk ! j)) [0..<n] ! j"
      using r assms(5) \<open>j < length ?r\<close> by auto
  qed (simp add: r(1))
  then have "fold (xor_at mk) [0..<length ?r] ?r = d"
    using r(1) assms(2) by (simp add: fold_xor_at) (rule nth_equalityI, simp_all)
  then show ?thesis
    using assms(1,3,4) p(1) by (auto simp: Shuffle_Deobfuscate_def Let_def)
qed

lemma shuffle_obfuscator: "pre_obfuscator (ShuffleMaskObfuscator sha)"
proof
  fix d e c :: bytes
  obtain mk where m: "deriveMask sha e (length d) = Some mk"
    using deriveMask_returns by blast
  then show "ob_Obfuscate (ShuffleMaskObfuscator sha) d e \<noteq> None"
    by (cases "d = []") (simp_all add: ShuffleMaskObfuscator_def Shuffle_Obfuscate_eq,
        simp add: Shuffle_Obfuscate_def)
  assume c: "ob_Obfuscate (ShuffleMaskObfuscator sha) d e = Some c"
  show "ob_Deobfuscate (ShuffleMaskObfuscator sha) c e = Some d"
  proof (cases "d = []")
    case True
    then show ?thesis using c
      by (simp add: ShuffleMaskObfuscator_def Shuffle_Obfuscate_def Shuffle_Deobfuscate_def)
  next
    case False
    then show ?thesis
      using c Shuffle_Obfuscate_eq [OF m False]
      by (simp add: ShuffleMaskObfuscator_def) (rule Shuffle_Deobfuscate_eq [OF m], auto)
  qed
qed

end

subsection \<open>Reading a nonce\<close>

text \<open>The contract of \<open>io.Reader\<close> that \<open>ReadFull\<close> relies on: no more bytes than asked for.\<close>

definition reader_ok :: "'s reader \<Rightarrow> bool" where
  "reader_ok rd \<longleftrightarrow> (\<forall>n s. length (fst (rd n s)) \<le> n)"

lemma read_full_loop_bound:
  assumes "read_full_loop rd n got err s = Some y"
  shows "reader_ok rd \<longrightarrow> length got \<le> n \<longrightarrow> length (fst y) \<le> n"
proof (rule read_full_loop.raw_induct [OF _ assms])
  fix loop and rd :: "'a reader" and n got err s y
  assume IH: "\<And>rd n got err s y. loop rd n got err s = Some y \<Longrightarrow>
      reader_ok rd \<longrightarrow> length got \<le> n \<longrightarrow> length (fst y) \<le> n"
    and step: "(if length got < n \<and> err = None
        then case rd (n - length got) s of (bs, err', s') \<Rightarrow> loop rd n (got @ bs) err' s'
        else Some (got, err, s)) = Some y"
  show "reader_ok rd \<longrightarrow> length got \<le> n \<longrightarrow> length (fst y) \<le> n"
  proof (intro impI)
    assume ok: "reader_ok rd" and got: "length got \<le> n"
    show "length (fst y) \<le> n"
    proof (cases "length got < n \<and> err = None")
      case True
      obtain bs err' s' where r: "rd (n - length got) s = (bs, err', s')" by (metis prod_cases3)
      then have "length bs \<le> n - length got" using ok unfolding reader_ok_def by (metis fst_conv)
      then have "length (got @ bs) \<le> n" using True unfolding length_append by linarith
      then show ?thesis using IH [of rd n "got @ bs" err' s' y] step True r ok by simp
    qed (use step got in auto)
  qed
qed

lemma ReadFull_length:
  assumes "reader_ok rd" "ReadFull rd n s = (Inr bs, s')"
  shows "length bs = n"
  using assms(2) read_full_loop_bound [of rd n "[]" None s] assms(1)
  by (auto simp: ReadFull_def split: option.splits if_splits)

subsection \<open>The cipher\<close>

locale aead_library =
  fixes C :: chacha
  assumes new_ok: "length key = 32 \<Longrightarrow> cc_New C key = None"
    and open_seal: "length key = 32 \<Longrightarrow> length nonce = n \<Longrightarrow> n = NonceSize \<or> n = NonceSizeX \<Longrightarrow>
      cc_open C n key nonce (cc_seal C n key nonce p) = Some p"
    and seal_length: "length key = 32 \<Longrightarrow> length nonce = n \<Longrightarrow> n = NonceSize \<or> n = NonceSizeX \<Longrightarrow>
      length (cc_seal C n key nonce p) = length p + Overhead"

text \<open>A sigil in the shape its constructor gives it: a key of 32 bytes, a nonce of 12 or 24.\<close>

definition sigil_ok :: "'s reader \<Rightarrow> 's chacha_sigil \<Rightarrow> bool" where
  "sigil_ok randReader sg \<longleftrightarrow> length (data_of (cs_key sg)) = 32 \<and>
     (activeNonceSize sg = NonceSize \<or> activeNonceSize sg = NonceSizeX) \<and>
     reader_ok (case cs_randomReader sg of Some r \<Rightarrow> r | None \<Rightarrow> randReader) \<and>
     (\<forall>ob. cs_obfuscator sg = Some ob \<longrightarrow> pre_obfuscator ob)"

lemma sigil_ok_key: "sigil_ok randReader sg \<Longrightarrow> cs_key sg \<noteq> None"
  by (cases "cs_key sg") (simp_all add: data_of_def sigil_ok_def)

definition obfuscate :: "obfuscator option \<Rightarrow> bytes \<Rightarrow> bytes \<Rightarrow> bytes option" where
  "obfuscate ob d nonce = (case ob of None \<Rightarrow> Some d | Some ob \<Rightarrow> ob_Obfuscate ob d nonce)"

context aead_library
begin

lemma newAEAD_ok:
  assumes "sigil_ok randReader sg"
  shows "newAEAD C sg = Inr \<lparr>ad_nonce = activeNonceSize sg,
    ad_seal = cc_seal C (activeNonceSize sg) (data_of (cs_key sg)),
    ad_open = cc_open C (activeNonceSize sg) (data_of (cs_key sg))\<rparr>"
  using assms new_ok by (simp add: newAEAD_def sigil_ok_def Let_def)

lemma ChaCha_In_cases:
  assumes "sigil_ok randReader sg" "ChaCha_In C randReader sg (Some d) s = (Inr e, s')"
  obtains nonce o' where "ReadFull (case cs_randomReader sg of Some r \<Rightarrow> r | None \<Rightarrow> randReader)
      (activeNonceSize sg) s = (Inr nonce, s')" "length nonce = activeNonceSize sg"
    "obfuscate (cs_obfuscator sg) d nonce = Some o'"
    "e = Some (nonce @ cc_seal C (activeNonceSize sg) (data_of (cs_key sg)) nonce o')"
proof -
  let ?rd = "case cs_randomReader sg of Some r \<Rightarrow> r | None \<Rightarrow> randReader"
  have key: "cs_key sg \<noteq> None" by (rule sigil_ok_key [OF assms(1)])
  have rd: "reader_ok ?rd" using assms(1) by (simp add: sigil_ok_def)
  obtain r s1 where r: "ReadFull ?rd (activeNonceSize sg) s = (r, s1)" by force
  with key assms(2) obtain nonce where nonce: "r = Inr nonce"
    by (cases r) (auto simp: ChaCha_In_def newAEAD_ok [OF assms(1)])
  with key r assms(2) obtain o' where "obfuscate (cs_obfuscator sg) d nonce = Some o'"
    "e = Some (nonce @ cc_seal C (activeNonceSize sg) (data_of (cs_key sg)) nonce o')" "s1 = s'"
    by (auto simp: ChaCha_In_def newAEAD_ok [OF assms(1)] obfuscate_def split: option.splits)
  then show thesis using that r nonce ReadFull_length [OF rd] by blast
qed

lemma ChaCha_Out_In:
  assumes ok: "sigil_ok randReader sg" and nonce: "length nonce = activeNonceSize sg"
    and ob: "obfuscate (cs_obfuscator sg) d nonce = Some o'"
  shows "ChaCha_Out C sg (Some (nonce @ cc_seal C (activeNonceSize sg) (data_of (cs_key sg)) nonce o'))
    = Inr (Some d)"
proof -
  let ?k = "data_of (cs_key sg)" and ?n = "activeNonceSize sg"
  have k: "length ?k = 32" and n: "?n = NonceSize \<or> ?n = NonceSizeX"
    using ok by (simp_all add: sigil_ok_def)
  have key: "cs_key sg \<noteq> None" by (rule sigil_ok_key [OF ok])
  have "(case cs_obfuscator sg of None \<Rightarrow> Some o' | Some ob \<Rightarrow> ob_Deobfuscate ob o' nonce) = Some d"
    using ob ok by (auto simp: obfuscate_def sigil_ok_def pre_obfuscator.undone split: option.splits)
  then show ?thesis
    using key nonce seal_length [OF k nonce n] open_seal [OF k nonce n]
    by (simp add: ChaCha_Out_def newAEAD_ok [OF ok] Let_def)
qed

lemma chacha_reversible:
  assumes "sigil_ok randReader sg"
  shows "reversible (ChaChaPolySigil C randReader sg)"
proof
  fix data s e s' t
  assume a: "sig_In (ChaChaPolySigil C randReader sg) data s = (Inr e, s')"
  show "fst (sig_Out (ChaChaPolySigil C randReader sg) e t) = Inr data"
  proof (cases data)
    case None
    then show ?thesis using a assms
      by (auto simp: ChaChaPolySigil_def ChaCha_In_def ChaCha_Out_def split: if_splits)
  next
    case (Some d)
    then have "ChaCha_In C randReader sg (Some d) s = (Inr e, s')"
      using a by (simp add: ChaChaPolySigil_def)
    then show ?thesis
      using ChaCha_In_cases [OF assms] ChaCha_Out_In [OF assms] Some
      by (metis ChaChaPolySigil_def fst_conv sigil.select_convs(2))
  qed
qed

end

subsection \<open>Concrete libraries\<close>

text \<open>A hash that pads or cuts to 32 bytes and a cipher that appends a tag, for the examples.\<close>

definition pad_hash :: "bytes \<Rightarrow> bytes" where
  "pad_hash x = take 32 (x @ replicate 32 CHR 0x07)"

definition tag_cipher :: chacha where
  "tag_cipher = \<lparr>cc_New = (\<lambda>k. if length k = 32 then None else Some (ErrNew ''bad key length'')),
     cc_seal = (\<lambda>n k nonce p. p @ take 16 (k @ replicate 16 CHR 0x00)),
     cc_open = (\<lambda>n k nonce c. if drop (length c - 16) c = take 16 (k @ replicate 16 CHR 0x00)
        then Some (take (length c - 16) c) else None)\<rparr>"

text \<open>A reader over a list of random bytes.\<close>

definition list_reader :: "bytes reader" where
  "list_reader n s = (if s = [] then ([], Some ErrEOF, s) else (take n s, None, drop n s))"

interpretation pad_hash: sha256_library pad_hash
  by unfold_locales (simp add: pad_hash_def)

interpretation tag_cipher: aead_library tag_cipher
  by unfold_locales (auto simp: tag_cipher_def Overhead_def)

lemmas pad_hash_ok = pad_hash.sha256_library_axioms

lemmas tag_cipher_ok = tag_cipher.aead_library_axioms

interpretation xor_pre: pre_obfuscator "XORObfuscator pad_hash"
  by (rule pad_hash.xor_obfuscator)

interpretation shuffle_pre: pre_obfuscator "ShuffleMaskObfuscator pad_hash"
  by (rule pad_hash.shuffle_obfuscator)

lemma list_reader_ok: "reader_ok list_reader"
  by (simp add: reader_ok_def list_reader_def)

subsection \<open>Properties\<close>

text \<open>
  C9: with a hash of 32 bytes, both obfuscators return for every data and entropy, and deobfuscating
  with the same entropy gives the data back.
\<close>

theorem obfuscators_undone:
  assumes "sha256_library sha"
  shows "(\<exists>c. XOR_Obfuscate sha d e = Some c \<and> XOR_Deobfuscate sha c e = Some d) \<and>
    (\<exists>c. Shuffle_Obfuscate sha d e = Some c \<and> Shuffle_Deobfuscate sha c e = Some d)"
proof -
  note x = sha256_library.xor_obfuscator [OF assms] and s = sha256_library.shuffle_obfuscator [OF assms]
  obtain c1 c2 where "ob_Obfuscate (XORObfuscator sha) d e = Some c1"
    "ob_Obfuscate (ShuffleMaskObfuscator sha) d e = Some c2"
    using pre_obfuscator.returns [OF x, of d e] pre_obfuscator.returns [OF s, of d e] by auto
  then show ?thesis
    using pre_obfuscator.undone [OF x] pre_obfuscator.undone [OF s]
    by (simp add: XORObfuscator_def ShuffleMaskObfuscator_def)
qed

theorem obfuscators_undone_witness:
  "\<exists>c. Shuffle_Obfuscate pad_hash ''payload'' ''nonce'' = Some c \<and>
     Shuffle_Deobfuscate pad_hash c ''nonce'' = Some ''payload''"
  using obfuscators_undone [OF pad_hash_ok, of "''payload''" "''nonce''"] by blast

text \<open>
  Whatever the hash function and the entropy, the index that step \<open>i\<close> of the loop of
  \<open>generatePermutation\<close> swaps with \<open>i\<close> is at most \<open>i\<close>, so both are in range, and the result is a
  permutation of the indices.
\<close>

lemma generatePermutation_permutation:
  "(\<forall>i. swap_index sha (sha (entropy @ ''permutation'')) i \<le> i) \<and>
   length (generatePermutation sha entropy n) = n \<and> distinct (generatePermutation sha entropy n) \<and>
   set (generatePermutation sha entropy n) = {0..<n}"
  using permutation_facts [OF generatePermutation_mset] swap_index_le by blast

text \<open>
  C6: a sigil made by \<open>NewChaChaPolySigil\<close>, without an obfuscator or with one whose \<open>Deobfuscate\<close> undoes
  its \<open>Obfuscate\<close> (as both of the package do), decrypts what it encrypted when \<open>In\<close> was given data that
  is not nil; the ciphertext begins with the 24 bytes of nonce that \<open>In\<close> took from the reader, and is
  longer than the obfuscated data by exactly these and the tag of 16 bytes.
\<close>

theorem chacha_roundtrip:
  assumes "aead_library C" "sha256_library sha" "reader_ok rd"
    "NewChaChaPolySigil sha rd key arg = Inr sg" "\<forall>ob. arg = ObfuscatorArg ob \<longrightarrow> pre_obfuscator ob"
    "ChaCha_In C rd sg (Some d) s = (Inr e, s')"
  shows "ChaCha_Out C sg e = Inr (Some d) \<and>
    (\<exists>ct nonce o'. e = Some ct \<and> NonceFromCiphertext ct = Inr nonce \<and> ReadFull rd 24 s = (Inr nonce, s') \<and>
      obfuscate (cs_obfuscator sg) d nonce = Some o' \<and> length ct = 24 + length o' + 16)"
proof -
  have ok: "sigil_ok rd sg" and n: "activeNonceSize sg = 24" and "cs_randomReader sg = Some rd"
    using assms(3-5) sha256_library.xor_obfuscator [OF assms(2)]
    by (auto simp: NewChaChaPolySigil_def sigil_ok_def data_of_def activeNonceSize_def NonceSizeX_def
        Let_def split: if_splits nonce_arg.splits)
  obtain nonce o' where o': "ReadFull rd 24 s = (Inr nonce, s')" "length nonce = 24"
    "obfuscate (cs_obfuscator sg) d nonce = Some o'"
    "e = Some (nonce @ cc_seal C 24 (data_of (cs_key sg)) nonce o')"
    using aead_library.ChaCha_In_cases [OF assms(1) ok assms(6)] n \<open>cs_randomReader sg = Some rd\<close>
    by (metis option.simps(5))
  then have "ChaCha_Out C sg e = Inr (Some d)"
    using aead_library.ChaCha_Out_In [OF assms(1) ok, of nonce d o'] n by simp
  moreover have "length (data_of (cs_key sg)) = 32" using ok by (simp add: sigil_ok_def)
  from aead_library.seal_length [OF assms(1) this o'(2), of o']
  have "length (cc_seal C 24 (data_of (cs_key sg)) nonce o') = length o' + 16"
    by (simp add: NonceSizeX_def Overhead_def)
  ultimately show ?thesis using o' by (simp add: NonceFromCiphertext_def NonceSizeX_def)
qed

definition sample_key :: bytes where "sample_key = ''0123456789abcdef0123456789abcdef''"

definition sample_cipher :: "bytes chacha_sigil" where
  "sample_cipher = \<lparr>cs_key = Some sample_key, cs_nonceSize = 24,
     cs_obfuscator = Some (XORObfuscator pad_hash), cs_randomReader = Some list_reader\<rparr>"

theorem chacha_roundtrip_witness:
  "\<exists>ct. fst (ChaCha_In tag_cipher list_reader sample_cipher (Some ''hi'') (replicate 30 CHR ''n'')) = Inr (Some ct) \<and>
     ChaCha_Out tag_cipher sample_cipher (Some ct) = Inr (Some ''hi'')"
proof -
  let ?r = "ChaCha_In tag_cipher list_reader sample_cipher (Some ''hi'') (replicate 30 CHR ''n'')"
  have new: "NewChaChaPolySigil pad_hash list_reader (Some sample_key) NilArg = Inr sample_cipher"
    by (simp add: NewChaChaPolySigil_def data_of_def sample_key_def sample_cipher_def NonceSizeX_def Let_def)
  have "case fst ?r of Inr (Some ct) \<Rightarrow> True | _ \<Rightarrow> False" by code_simp
  then obtain ct where ct: "fst ?r = Inr (Some ct)" by (auto split: sum.splits option.splits)
  then have r: "?r = (Inr (Some ct), snd ?r)" by (metis prod.collapse)
  show ?thesis
    using chacha_roundtrip [OF tag_cipher_ok pad_hash_ok list_reader_ok new _ r] ct by simp
qed

text \<open>
  The constructor refuses keys that are not 32 bytes long and fixed nonces; a sigil without a key
  refuses both directions; and a payload shorter than nonce and tag, or one the cipher does not
  authenticate, is refused with the sentinel errors and never yields data.
\<close>

theorem chacha_refusals:
  assumes "aead_library C" "sigil_ok rd sg"
  shows "(length (data_of key) \<noteq> 32 \<longrightarrow> NewChaChaPolySigil sha rd key arg = Inl InvalidKeyError) \<and>
    (length (data_of key) = 32 \<longrightarrow>
      (\<exists>err. NewChaChaPolySigil sha rd key (BytesArg bs) = Inl err \<and> err_is err InvalidNonceError)) \<and>
    ChaCha_Out C (sg\<lparr>cs_key := None\<rparr>) data = Inl NoKeyConfiguredError \<and>
    (length ct < activeNonceSize sg + 16 \<longrightarrow> ChaCha_Out C sg (Some ct) = Inl CiphertextTooShortError) \<and>
    (activeNonceSize sg + 16 \<le> length ct \<and>
      cc_open C (activeNonceSize sg) (data_of (cs_key sg)) (take (activeNonceSize sg) ct)
        (drop (activeNonceSize sg) ct) = None \<longrightarrow>
      (\<exists>err. ChaCha_Out C sg (Some ct) = Inl err \<and> err_is err DecryptionFailedError))"
  using sigil_ok_key [OF assms(2)]
  by (auto simp: NewChaChaPolySigil_def ChaCha_Out_def aead_library.newAEAD_ok [OF assms]
      Overhead_def InvalidNonceError_def DecryptionFailedError_def Let_def)

lemma sample_cipher_ok: "sigil_ok list_reader sample_cipher"
  using list_reader_ok pad_hash.xor_obfuscator
  by (simp add: sigil_ok_def sample_cipher_def sample_key_def data_of_def activeNonceSize_def NonceSizeX_def)

theorem chacha_refusals_witness:
  "ChaCha_Out tag_cipher sample_cipher (Some ''short'') = Inl CiphertextTooShortError"
proof -
  have "length ''short'' < activeNonceSize sample_cipher + 16"
    by (simp add: activeNonceSize_def sample_cipher_def)
  then show ?thesis using chacha_refusals [OF tag_cipher_ok sample_cipher_ok, of _ _ _ _ _ "''short''"] by blast
qed

end
