(* ===== verification/Store.thy ===== *)
theory Store
  imports Medium
begin

text \<open>
  Package \<open>store\<close>: the key-value store of \<open>go/store/store.go\<close> and the medium over it of
  \<open>go/store/medium.go\<close>.  The SQL database is not part of the repository: the record
  \<open>store_db\<close> holds one function per statement the code runs, on a state \<open>'d\<close> of the database,
  and the locale \<open>sql_store\<close> says what the statements do to the table \<open>entries\<close>.
\<close>

subsection \<open>The database\<close>

text \<open>
  The rows of a query: what \<open>Scan\<close> gives for each row that \<open>Next\<close> reaches, and \<open>rows.Err\<close>
  after the loop.
\<close>

type_synonym 'r rows = "('r res list \<times> gerr option) res"

record 'd store_db =
  db_open :: "string \<Rightarrow> 'd res"
  db_schema :: "'d \<Rightarrow> gerr option \<times> 'd"
  db_close :: "'d \<Rightarrow> gerr option \<times> 'd"
  db_get :: "string \<Rightarrow> string \<Rightarrow> 'd \<Rightarrow> string res"
  db_upsert :: "string \<Rightarrow> string \<Rightarrow> string \<Rightarrow> 'd \<Rightarrow> gerr option \<times> 'd"
  db_delete :: "string \<Rightarrow> string \<Rightarrow> 'd \<Rightarrow> gerr option \<times> 'd"
  db_count :: "string \<Rightarrow> 'd \<Rightarrow> nat res"
  db_delete_group :: "string \<Rightarrow> 'd \<Rightarrow> gerr option \<times> 'd"
  db_groups :: "'d \<Rightarrow> string rows"
  db_entries :: "string \<Rightarrow> 'd \<Rightarrow> (string \<times> string) rows"

definition ErrNoRows :: gerr where "ErrNoRows = ErrNew ''sql: no rows in result set''"

text \<open>The wrapping of the error of a statement.\<close>

definition wrap_err :: "string \<Rightarrow> string \<Rightarrow> gerr option \<times> 'd \<Rightarrow> gerr option \<times> 'd" where
  "wrap_err op msg r = (case r of (Some err, d) \<Rightarrow> (Some (CoreE op [msg] (Some err)), d) | (None, d) \<Rightarrow> (None, d))"

subsection \<open>KeyValueStore\<close>

definition NotFoundError :: gerr where
  "NotFoundError = ErrNew ''store: key not found''"

definition Store_New :: "'d store_db \<Rightarrow> string \<Rightarrow> 'd res" where
  "Store_New D path =
     (if path = '''' then Inl (CoreE ''store.New'' [''database path is required''] (Some ErrInvalid))
      else case db_open D path of
          Inl err \<Rightarrow> Inl (CoreE ''store.New'' [''open db''] (Some err))
        | Inr d \<Rightarrow>
            (case db_schema D d of
               (Some err, d') \<Rightarrow> Inl (CoreE ''store.New'' [''create schema''] (Some err))
             | (None, d') \<Rightarrow> Inr d'))"

definition Store_Close :: "'d store_db \<Rightarrow> 'd \<Rightarrow> gerr option \<times> 'd" where
  "Store_Close D d = db_close D d"

definition Store_Get :: "'d store_db \<Rightarrow> string \<Rightarrow> string \<Rightarrow> 'd \<Rightarrow> string res" where
  "Store_Get D grp key d =
     (case db_get D grp key d of
        Inl err \<Rightarrow>
          (if err = ErrNoRows
           then Inl (CoreE ''store.Get'' [''not found: '', grp, ''/'', key] (Some NotFoundError))
           else Inl (CoreE ''store.Get'' [''query''] (Some err)))
      | Inr value \<Rightarrow> Inr value)"

definition Store_Set :: "'d store_db \<Rightarrow> string \<Rightarrow> string \<Rightarrow> string \<Rightarrow> 'd \<Rightarrow> gerr option \<times> 'd" where
  "Store_Set D grp key value d = wrap_err ''store.Set'' ''exec'' (db_upsert D grp key value d)"

definition Store_Delete :: "'d store_db \<Rightarrow> string \<Rightarrow> string \<Rightarrow> 'd \<Rightarrow> gerr option \<times> 'd" where
  "Store_Delete D grp key d = wrap_err ''store.Delete'' ''exec'' (db_delete D grp key d)"

definition Store_Count :: "'d store_db \<Rightarrow> string \<Rightarrow> 'd \<Rightarrow> nat res" where
  "Store_Count D grp d =
     (case db_count D grp d of
        Inl err \<Rightarrow> Inl (CoreE ''store.Count'' [''query''] (Some err)) | Inr n \<Rightarrow> Inr n)"

definition Store_DeleteGroup :: "'d store_db \<Rightarrow> string \<Rightarrow> 'd \<Rightarrow> gerr option \<times> 'd" where
  "Store_DeleteGroup D grp d = wrap_err ''store.DeleteGroup'' ''exec'' (db_delete_group D grp d)"

text \<open>The loop \<open>for rows.Next()\<close>, with the error checks around it.\<close>

fun scan_loop :: "string \<Rightarrow> ('r \<Rightarrow> 'b \<Rightarrow> 'b) \<Rightarrow> 'r res list \<Rightarrow> 'b \<Rightarrow> 'b res" where
  "scan_loop op f [] acc = Inr acc"
| "scan_loop op f (Inl err # rs) acc = Inl (CoreE op [''scan''] (Some err))"
| "scan_loop op f (Inr r # rs) acc = scan_loop op f rs (f r acc)"

definition scan_rows :: "string \<Rightarrow> string \<Rightarrow> ('r \<Rightarrow> 'b \<Rightarrow> 'b) \<Rightarrow> 'r rows \<Rightarrow> 'b \<Rightarrow> 'b res" where
  "scan_rows op msg f q acc =
     (case q of
        Inl err \<Rightarrow> Inl (CoreE op [msg] (Some err))
      | Inr (rows, rows_err) \<Rightarrow>
          (case scan_loop op f rows acc of
             Inl err \<Rightarrow> Inl err
           | Inr result \<Rightarrow>
               (case rows_err of Some err \<Rightarrow> Inl (CoreE op [''rows''] (Some err)) | None \<Rightarrow> Inr result)))"

definition Store_ListGroups :: "'d store_db \<Rightarrow> 'd \<Rightarrow> string list res" where
  "Store_ListGroups D d =
     scan_rows ''store.ListGroups'' ''query groups'' (\<lambda>groupName groups. groups @ [groupName]) (db_groups D d) []"

definition Store_GetAll :: "'d store_db \<Rightarrow> string \<Rightarrow> 'd \<Rightarrow> (string, string) fmap res" where
  "Store_GetAll D grp d =
     scan_rows ''store.GetAll'' ''query'' (\<lambda>(key, value) result. fmupd key value result) (db_entries D grp d) fmempty"

text \<open>\<open>parse\<close> and \<open>execute\<close> are \<open>template.Parse\<close> and \<open>template.Execute\<close> of \<open>text/template\<close>.\<close>

definition Store_Render ::
  "'d store_db \<Rightarrow> (string \<Rightarrow> 't res) \<Rightarrow> ('t \<Rightarrow> (string, string) fmap \<Rightarrow> string res) \<Rightarrow> string \<Rightarrow> string \<Rightarrow> 'd
     \<Rightarrow> string res" where
  "Store_Render D parse execute templateText grp d =
     (case scan_rows ''store.Render'' ''query'' (\<lambda>(key, value) result. fmupd key value result)
             (db_entries D grp d) fmempty of
        Inl err \<Rightarrow> Inl err
      | Inr templateValues \<Rightarrow>
          (case parse templateText of
             Inl err \<Rightarrow> Inl (CoreE ''store.Render'' [''parse template''] (Some err))
           | Inr renderTemplate \<Rightarrow>
               (case execute renderTemplate templateValues of
                  Inl err \<Rightarrow> Inl (CoreE ''store.Render'' [''execute template''] (Some err))
                | Inr text \<Rightarrow> Inr text)))"

subsection \<open>The medium\<close>

definition ErrNotDirectory :: gerr where
  "ErrNotDirectory = CoreE ''store'' [''path is a key, not a directory''] (Some ErrInvalid)"

definition msgStoreGroupKeyRequired :: string where
  "msgStoreGroupKeyRequired = ''path must include group/key''"

definition msgStorePathRequired :: string where
  "msgStorePathRequired = ''path is required''"

definition splitGroupKeyPath :: "go_env \<Rightarrow> string \<Rightarrow> string \<times> string" where
  "splitGroupKeyPath E entryPath =
     (let clean = TrimPrefix E (CleanPath E entryPath ''/'') ''/''
      in if clean = '''' \<or> clean = ''.'' then ('''', '''')
         else case SplitN E clean ''/'' 2 of
             [part0] \<Rightarrow> (part0, '''')
           | part0 # part1 # _ \<Rightarrow> (part0, part1)
           | [] \<Rightarrow> ('''', ''''))"

definition StoreMedium_Read :: "go_env \<Rightarrow> 'd store_db \<Rightarrow> string \<Rightarrow> 'd \<Rightarrow> string res" where
  "StoreMedium_Read E D entryPath d =
     (case splitGroupKeyPath E entryPath of (grp, key) \<Rightarrow>
        if key = '''' then Inl (CoreE ''store.Read'' [msgStoreGroupKeyRequired] (Some ErrInvalid))
        else Store_Get D grp key d)"

definition StoreMedium_Write ::
  "go_env \<Rightarrow> 'd store_db \<Rightarrow> string \<Rightarrow> string \<Rightarrow> 'd \<Rightarrow> gerr option \<times> 'd" where
  "StoreMedium_Write E D entryPath content d =
     (case splitGroupKeyPath E entryPath of (grp, key) \<Rightarrow>
        if key = '''' then (Some (CoreE ''store.Write'' [msgStoreGroupKeyRequired] (Some ErrInvalid)), d)
        else Store_Set D grp key content d)"

definition StoreMedium_WriteMode ::
  "go_env \<Rightarrow> 'd store_db \<Rightarrow> string \<Rightarrow> string \<Rightarrow> file_mode \<Rightarrow> 'd \<Rightarrow> gerr option \<times> 'd" where
  "StoreMedium_WriteMode E D entryPath content mode d = StoreMedium_Write E D entryPath content d"

definition StoreMedium_EnsureDir :: "string \<Rightarrow> 'd \<Rightarrow> gerr option \<times> 'd" where
  "StoreMedium_EnsureDir entryPath d = (None, d)"

definition StoreMedium_IsFile :: "go_env \<Rightarrow> 'd store_db \<Rightarrow> string \<Rightarrow> 'd \<Rightarrow> bool" where
  "StoreMedium_IsFile E D entryPath d =
     (case splitGroupKeyPath E entryPath of (grp, key) \<Rightarrow>
        if key = '''' then False else is_ok (Store_Get D grp key d))"

definition StoreMedium_Delete :: "go_env \<Rightarrow> 'd store_db \<Rightarrow> string \<Rightarrow> 'd \<Rightarrow> gerr option \<times> 'd" where
  "StoreMedium_Delete E D entryPath d =
     (case splitGroupKeyPath E entryPath of (grp, key) \<Rightarrow>
        if grp = '''' then (Some (CoreE ''store.Delete'' [msgStorePathRequired] (Some ErrInvalid)), d)
        else if key = '''' then
          (case Store_Count D grp d of
             Inl err \<Rightarrow> (Some err, d)
           | Inr entryCount \<Rightarrow>
               (if entryCount > 0
                then (Some (CoreE ''store.Delete'' [''group not empty: '', grp] (Some ErrExist)), d)
                else (None, d)))
        else Store_Delete D grp key d)"

definition StoreMedium_DeleteAll :: "go_env \<Rightarrow> 'd store_db \<Rightarrow> string \<Rightarrow> 'd \<Rightarrow> gerr option \<times> 'd" where
  "StoreMedium_DeleteAll E D entryPath d =
     (case splitGroupKeyPath E entryPath of (grp, key) \<Rightarrow>
        if grp = '''' then (Some (CoreE ''store.DeleteAll'' [msgStorePathRequired] (Some ErrInvalid)), d)
        else if key = '''' then Store_DeleteGroup D grp d
        else Store_Delete D grp key d)"

definition StoreMedium_Rename ::
  "go_env \<Rightarrow> 'd store_db \<Rightarrow> string \<Rightarrow> string \<Rightarrow> 'd \<Rightarrow> gerr option \<times> 'd" where
  "StoreMedium_Rename E D oldPath newPath d =
     (case (splitGroupKeyPath E oldPath, splitGroupKeyPath E newPath) of
        ((oldGroup, oldKey), (newGroup, newKey)) \<Rightarrow>
          if oldKey = '''' \<or> newKey = '''' then
            (Some (CoreE ''store.Rename'' [''both paths must include group/key''] (Some ErrInvalid)), d)
          else if oldGroup = newGroup \<and> oldKey = newKey then (None, d)
          else case Store_Get D oldGroup oldKey d of
              Inl err \<Rightarrow> (Some err, d)
            | Inr value \<Rightarrow>
                (case Store_Set D newGroup newKey value d of
                   (Some err, d') \<Rightarrow> (Some err, d')
                 | (None, d') \<Rightarrow> Store_Delete D oldGroup oldKey d'))"

text \<open>The methods of \<open>keyValueFileInfo\<close> and \<open>keyValueDirEntry\<close>.\<close>

definition keyValueFileInfo :: "string \<Rightarrow> int \<Rightarrow> bool \<Rightarrow> file_info" where
  "keyValueFileInfo name sz isDir =
     NewFileInfo name sz (if isDir then ModeDir OR 493 else 420) zero_time isDir"

definition keyValueDirEntry :: "string \<Rightarrow> bool \<Rightarrow> int \<Rightarrow> dir_entry" where
  "keyValueDirEntry name isDir sz =
     NewDirEntry name isDir (if isDir then ModeDir else 0) (keyValueFileInfo name sz isDir)"

definition StoreMedium_List :: "go_env \<Rightarrow> 'd store_db \<Rightarrow> string \<Rightarrow> 'd \<Rightarrow> dir_entry list res" where
  "StoreMedium_List E D entryPath d =
     (case splitGroupKeyPath E entryPath of (grp, key) \<Rightarrow>
        if grp = '''' then
          (case Store_ListGroups D d of
             Inl err \<Rightarrow> Inl err
           | Inr groups \<Rightarrow> Inr (map (\<lambda>groupName. keyValueDirEntry groupName True 0) groups))
        else if key \<noteq> '''' then Inl ErrNotDirectory
        else case Store_GetAll D grp d of
            Inl err \<Rightarrow> Inl err
          | Inr all \<Rightarrow>
              (let keys = sort (range_keys E (fmdom all))
               in Inr (map (\<lambda>k. keyValueDirEntry k False (int (length (value_or_empty all k)))) keys)))"

definition StoreMedium_Stat :: "go_env \<Rightarrow> 'd store_db \<Rightarrow> string \<Rightarrow> 'd \<Rightarrow> file_info res" where
  "StoreMedium_Stat E D entryPath d =
     (case splitGroupKeyPath E entryPath of (grp, key) \<Rightarrow>
        if grp = '''' then Inl (CoreE ''store.Stat'' [msgStorePathRequired] (Some ErrInvalid))
        else if key = '''' then
          (case Store_Count D grp d of
             Inl err \<Rightarrow> Inl err
           | Inr entryCount \<Rightarrow>
               (if entryCount = 0
                then Inl (CoreE ''store.Stat'' [''group not found: '', grp] (Some ErrNotExist))
                else Inr (keyValueFileInfo grp 0 True)))
        else case Store_Get D grp key d of
            Inl err \<Rightarrow> Inl err
          | Inr value \<Rightarrow> Inr (keyValueFileInfo key (int (length value)) False))"

record kv_file =
  kf_name :: string
  kf_content :: string
  kf_offset :: nat

definition StoreMedium_Open :: "go_env \<Rightarrow> 'd store_db \<Rightarrow> string \<Rightarrow> 'd \<Rightarrow> kv_file res" where
  "StoreMedium_Open E D entryPath d =
     (case splitGroupKeyPath E entryPath of (grp, key) \<Rightarrow>
        if key = '''' then Inl (CoreE ''store.Open'' [msgStoreGroupKeyRequired] (Some ErrInvalid))
        else case Store_Get D grp key d of
            Inl err \<Rightarrow> Inl err
          | Inr value \<Rightarrow> Inr \<lparr>kf_name = key, kf_content = value, kf_offset = 0\<rparr>)"

record kv_writer =
  sw_group :: string
  sw_key :: string
  sw_data :: string

definition StoreMedium_Create :: "go_env \<Rightarrow> string \<Rightarrow> 'd \<Rightarrow> kv_writer res" where
  "StoreMedium_Create E entryPath d =
     (case splitGroupKeyPath E entryPath of (grp, key) \<Rightarrow>
        if key = '''' then Inl (CoreE ''store.Create'' [msgStoreGroupKeyRequired] (Some ErrInvalid))
        else Inr \<lparr>sw_group = grp, sw_key = key, sw_data = ''''\<rparr>)"

text \<open>On an error \<open>Get\<close> returns the empty string beside it.\<close>

definition StoreMedium_Append :: "go_env \<Rightarrow> 'd store_db \<Rightarrow> string \<Rightarrow> 'd \<Rightarrow> kv_writer res" where
  "StoreMedium_Append E D entryPath d =
     (case splitGroupKeyPath E entryPath of (grp, key) \<Rightarrow>
        if key = '''' then Inl (CoreE ''store.Append'' [msgStoreGroupKeyRequired] (Some ErrInvalid))
        else case Store_Get D grp key d of
            Inl err \<Rightarrow>
              (if \<not> err_is err NotFoundError
               then Inl (CoreE ''store.Append'' [''failed to read existing content: '', entryPath] (Some err))
               else Inr \<lparr>sw_group = grp, sw_key = key, sw_data = ''''\<rparr>)
          | Inr existingValue \<Rightarrow> Inr \<lparr>sw_group = grp, sw_key = key, sw_data = existingValue\<rparr>)"

text \<open>The reader of \<open>ReadStream\<close> is modelled by the string it reads.\<close>

definition StoreMedium_ReadStream :: "go_env \<Rightarrow> 'd store_db \<Rightarrow> string \<Rightarrow> 'd \<Rightarrow> string res" where
  "StoreMedium_ReadStream E D entryPath d =
     (case splitGroupKeyPath E entryPath of (grp, key) \<Rightarrow>
        if key = '''' then Inl (CoreE ''store.ReadStream'' [msgStoreGroupKeyRequired] (Some ErrInvalid))
        else Store_Get D grp key d)"

definition StoreMedium_WriteStream :: "go_env \<Rightarrow> string \<Rightarrow> 'd \<Rightarrow> kv_writer res" where
  "StoreMedium_WriteStream E entryPath d = StoreMedium_Create E entryPath d"

definition StoreMedium_Exists :: "go_env \<Rightarrow> 'd store_db \<Rightarrow> string \<Rightarrow> 'd \<Rightarrow> bool" where
  "StoreMedium_Exists E D entryPath d =
     (case splitGroupKeyPath E entryPath of (grp, key) \<Rightarrow>
        if grp = '''' then False
        else if key = '''' then (case Store_Count D grp d of Inl _ \<Rightarrow> False | Inr n \<Rightarrow> n > 0)
        else is_ok (Store_Get D grp key d))"

definition StoreMedium_IsDir :: "go_env \<Rightarrow> 'd store_db \<Rightarrow> string \<Rightarrow> 'd \<Rightarrow> bool" where
  "StoreMedium_IsDir E D entryPath d =
     (case splitGroupKeyPath E entryPath of (grp, key) \<Rightarrow>
        if key \<noteq> '''' \<or> grp = '''' then False
        else case Store_Count D grp d of Inl _ \<Rightarrow> False | Inr n \<Rightarrow> n > 0)"

definition keyValueFile_Stat :: "kv_file \<Rightarrow> file_info res" where
  "keyValueFile_Stat f = Inr (keyValueFileInfo (kf_name f) (int (length (kf_content f))) False)"

definition keyValueFile_Read :: "nat \<Rightarrow> kv_file \<Rightarrow> string res \<times> kv_file" where
  "keyValueFile_Read n f =
     (if kf_offset f \<ge> length (kf_content f) then (Inl ErrEOF, f)
      else let chunk = take n (drop (kf_offset f) (kf_content f))
           in (Inr chunk, f\<lparr>kf_offset := kf_offset f + length chunk\<rparr>))"

definition keyValueWriteCloser_Write :: "string \<Rightarrow> kv_writer \<Rightarrow> nat res \<times> kv_writer" where
  "keyValueWriteCloser_Write data w = (Inr (length data), w\<lparr>sw_data := sw_data w @ data\<rparr>)"

definition keyValueWriteCloser_Close :: "'d store_db \<Rightarrow> kv_writer \<Rightarrow> 'd \<Rightarrow> gerr option \<times> 'd" where
  "keyValueWriteCloser_Close D w d = Store_Set D (sw_group w) (sw_key w) (sw_data w) d"

definition Store_medium :: "go_env \<Rightarrow> 'd store_db \<Rightarrow> ('d, kv_file, string, kv_writer) medium" where
  "Store_medium E D =
     \<lparr>m_Read = StoreMedium_Read E D, m_Write = (\<lambda>_. StoreMedium_Write E D),
      m_WriteMode = (\<lambda>_. StoreMedium_WriteMode E D), m_EnsureDir = StoreMedium_EnsureDir,
      m_IsFile = StoreMedium_IsFile E D, m_Delete = StoreMedium_Delete E D,
      m_DeleteAll = StoreMedium_DeleteAll E D, m_Rename = StoreMedium_Rename E D,
      m_List = (\<lambda>_. StoreMedium_List E D), m_Stat = (\<lambda>_. StoreMedium_Stat E D),
      m_Open = (\<lambda>_. StoreMedium_Open E D), m_Create = pure_open (StoreMedium_Create E),
      m_Append = pure_open (StoreMedium_Append E D), m_ReadStream = (\<lambda>_. StoreMedium_ReadStream E D),
      m_WriteStream = pure_open (StoreMedium_WriteStream E), m_Exists = StoreMedium_Exists E D,
      m_IsDir = StoreMedium_IsDir E D\<rparr>"

end
