(* ===== verification/StoreProps.thy ===== *)
theory StoreProps
  imports Store
begin

text \<open>
  Properties of the key-value store and its medium: the contract of the statements as the
  locale \<open>sql_store\<close>, the medium as an instance of \<open>read_write\<close>, renaming, deleting and
  listing.
\<close>

subsection \<open>What the statements do\<close>

text \<open>
  \<open>table\<close> is the content of the table \<open>entries\<close>, whose primary key is the pair of group and
  key; \<open>live\<close> holds while the connection works.  Queries then answer from the table, and a
  statement that changes it either fails and leaves it alone or does what it says.
\<close>

locale sql_store =
  fixes D :: "'d store_db"
    and table :: "'d \<Rightarrow> (string \<times> string, string) fmap"
    and live :: "'d \<Rightarrow> bool"
  assumes get_eq: "live d \<Longrightarrow> db_get D g k d =
      (case fmlookup (table d) (g, k) of Some v \<Rightarrow> Inr v | None \<Rightarrow> Inl ErrNoRows)"
    and upsert: "live d \<Longrightarrow> db_upsert D g k v d = (e, d') \<Longrightarrow>
      live d' \<and> table d' = (if e = None then fmupd (g, k) v (table d) else table d)"
    and delete: "live d \<Longrightarrow> db_delete D g k d = (e, d') \<Longrightarrow>
      live d' \<and> table d' = (if e = None then fmdrop (g, k) (table d) else table d)"
    and delete_group: "live d \<Longrightarrow> db_delete_group D g d = (e, d') \<Longrightarrow>
      live d' \<and> table d' = (if e = None then fmfilter (\<lambda>(h, _). h \<noteq> g) (table d) else table d)"
    and count: "live d \<Longrightarrow> db_count D g d = Inr (fcard (ffilter (\<lambda>(h, _). h = g) (fmdom (table d))))"
    and groups: "live d \<Longrightarrow> db_groups D d = Inr (map Inr (sorted_list_of_fset (fst |`| fmdom (table d))), None)"
    and entries: "live d \<Longrightarrow> \<exists>rs. db_entries D g d = Inr (map Inr rs, None) \<and>
      set rs = {(k, v). fmlookup (table d) (g, k) = Some v}"

lemma wrap_err_iff:
  "wrap_err op msg r = (e, d') \<Longrightarrow> \<exists>e0. r = (e0, d') \<and> (e = None \<longleftrightarrow> e0 = None)"
  by (auto simp: wrap_err_def split: prod.splits option.splits)

lemma scan_loop_ok: "scan_loop op f (map Inr rs) acc = Inr (fold f rs acc)"
  by (induction rs arbitrary: acc) simp_all

lemma fold_fmupd_lookup:
  assumes "\<And>k v w. (k, v) \<in> set rs \<Longrightarrow> (k, w) \<in> set rs \<Longrightarrow> v = w"
  shows "fmlookup (fold (\<lambda>(k, v). fmupd k v) rs m) k =
    (if \<exists>v. (k, v) \<in> set rs then Some (THE v. (k, v) \<in> set rs) else fmlookup m k)"
  using assms
proof (induction rs arbitrary: m)
  case (Cons r rs)
  obtain a b where r: "r = (a, b)" by force
  have IH: "fmlookup (fold (\<lambda>(k, v). fmupd k v) rs (fmupd a b m)) k =
    (if \<exists>v. (k, v) \<in> set rs then Some (THE v. (k, v) \<in> set rs) else fmlookup (fmupd a b m) k)"
    using Cons.prems by (intro Cons.IH) auto
  show ?case
  proof (cases "\<exists>v. (k, v) \<in> set rs")
    case True
    then obtain v where v: "(k, v) \<in> set rs" by blast
    have "(THE v. (k, v) \<in> set rs) = v" "(THE v. (k, v) \<in> set (r # rs)) = v"
      using v Cons.prems by (auto intro!: the_equality)
    then show ?thesis using IH True r by auto
  next
    case False
    then show ?thesis using IH r by (auto intro!: the_equality [symmetric])
  qed
qed simp

lemma fold_fmupd_rel:
  assumes "set rs = {(k, v). fmlookup t (g, k) = Some v}"
  shows "fmlookup (fold (\<lambda>(k, v). fmupd k v) rs fmempty) k = fmlookup t (g, k)"
proof -
  have "fmlookup (fold (\<lambda>(k, v). fmupd k v) rs fmempty) k =
    (if \<exists>v. (k, v) \<in> set rs then Some (THE v. (k, v) \<in> set rs) else fmlookup fmempty k)"
    by (rule fold_fmupd_lookup) (simp add: assms)
  then show ?thesis by (cases "fmlookup t (g, k)") (simp_all add: assms)
qed

context sql_store
begin

lemma Get_eq:
  "live d \<Longrightarrow> Store_Get D g k d = (case fmlookup (table d) (g, k) of Some v \<Rightarrow> Inr v
     | None \<Rightarrow> Inl (CoreE ''store.Get'' [''not found: '', g, ''/'', k] (Some NotFoundError)))"
  by (simp add: Store_Get_def get_eq split: option.splits)

lemma Set_step:
  "live d \<Longrightarrow> Store_Set D g k v d = (e, d') \<Longrightarrow>
   live d' \<and> table d' = (if e = None then fmupd (g, k) v (table d) else table d)"
  unfolding Store_Set_def by (auto dest!: wrap_err_iff dest: upsert split: if_splits)

lemma Delete_step:
  "live d \<Longrightarrow> Store_Delete D g k d = (e, d') \<Longrightarrow>
   live d' \<and> table d' = (if e = None then fmdrop (g, k) (table d) else table d)"
  unfolding Store_Delete_def by (auto dest!: wrap_err_iff dest: delete split: if_splits)

lemma DeleteGroup_step:
  "live d \<Longrightarrow> Store_DeleteGroup D g d = (e, d') \<Longrightarrow>
   live d' \<and> table d' = (if e = None then fmfilter (\<lambda>(h, _). h \<noteq> g) (table d) else table d)"
  unfolding Store_DeleteGroup_def by (auto dest!: wrap_err_iff dest: delete_group split: if_splits)

lemma Count_pos:
  assumes "live d"
  obtains n where "Store_Count D g d = Inr n" "0 < n \<longleftrightarrow> (\<exists>k. has_key (table d) (g, k))"
proof
  let ?A = "ffilter (\<lambda>(h, _). h = g) (fmdom (table d))"
  show "Store_Count D g d = Inr (fcard ?A)" using assms by (simp add: Store_Count_def count)
  have "0 < fcard ?A \<longleftrightarrow> ?A \<noteq> {||}" by (metis fcard_0_eq neq0_conv)
  moreover have "?A = {||} \<longleftrightarrow> \<not> (\<exists>k. has_key (table d) (g, k))" by (auto simp: has_key_dom fset_eq_iff)
  ultimately show "0 < fcard ?A \<longleftrightarrow> (\<exists>k. has_key (table d) (g, k))" by simp
qed

lemma ListGroups_eq:
  "live d \<Longrightarrow> Store_ListGroups D d = Inr (sorted_list_of_fset (fst |`| fmdom (table d)))"
  by (simp add: Store_ListGroups_def scan_rows_def groups scan_loop_ok fold_snoc)

lemma GetAll_lookup:
  assumes "live d"
  obtains all where "Store_GetAll D g d = Inr all" "\<And>k. fmlookup all k = fmlookup (table d) (g, k)"
proof -
  obtain rs where rs: "db_entries D g d = Inr (map Inr rs, None)"
    "set rs = {(k, v). fmlookup (table d) (g, k) = Some v}"
    using entries [OF assms] by blast
  show thesis
    by (rule that [of "fold (\<lambda>(k, v). fmupd k v) rs fmempty"])
      (simp_all add: Store_GetAll_def scan_rows_def rs(1) scan_loop_ok fold_fmupd_rel [OF rs(2)])
qed

end

subsection \<open>Paths\<close>

context go_runtime
begin

text \<open>The group and the key of a path, read off the cleaned path without its leading slash.\<close>

lemma splitGroupKeyPath_eq:
  "splitGroupKeyPath E p =
     (let c = trim_prefix (path_clean p) ''/''
      in if c = ''.'' then ('''', '''')
         else if slash \<in> set c then (takeWhile (\<lambda>x. x \<noteq> slash) c, tl (dropWhile (\<lambda>x. x \<noteq> slash) c))
         else (c, ''''))"
  by (simp add: splitGroupKeyPath_def split2_def Let_def)

lemma split_norm:
  assumes "norm_path (g @ slash # k)" "slash \<notin> set g"
  shows "splitGroupKeyPath E (g @ slash # k) = (g, k)"
proof -
  have "trim_prefix (g @ slash # k) ''/'' = g @ slash # k"
    using norm_path_hd [OF assms(1)] by (simp add: trim_prefix_def)
  moreover have "dropWhile (\<lambda>x. x \<noteq> slash) (g @ slash # k) = slash # k"
    using assms(2) by (induction g) auto
  moreover have "g @ slash # k \<noteq> ''.''" by (cases g) auto
  ultimately show ?thesis using assms by (simp add: splitGroupKeyPath_eq Let_def)
qed

lemma split_group:
  assumes "norm_path g" "slash \<notin> set g"
  shows "splitGroupKeyPath E g = (g, '''')"
  using assms norm_path_hd [OF assms(1)] norm_path_not_dot [OF assms(1)]
  by (simp add: splitGroupKeyPath_eq Let_def trim_prefix_def)

lemma split_root: "splitGroupKeyPath E '''' = ('''', '''')" "splitGroupKeyPath E ''/'' = ('''', '''')"
proof -
  have "path_clean '''' = ''.''" "path_clean ''/'' = ''/''" by code_simp+
  then show "splitGroupKeyPath E '''' = ('''', '''')" "splitGroupKeyPath E ''/'' = ('''', '''')"
    by (simp_all add: splitGroupKeyPath_eq Let_def trim_prefix_def)
qed

end

subsection \<open>The medium keeps the contract of writing and reading\<close>

lemma Store_medium_simps [simp]:
  "m_Read (Store_medium E D) = StoreMedium_Read E D"
  "m_Write (Store_medium E D) t = StoreMedium_Write E D"
  "m_WriteMode (Store_medium E D) t = StoreMedium_WriteMode E D"
  by (simp_all add: Store_medium_def)

context sql_store
begin

lemma Write_cases:
  assumes "live d" "StoreMedium_Write E D p c d = (e, d')"
  obtains (bad) "snd (splitGroupKeyPath E p) = ''''" "d' = d"
      "e = Some (CoreE ''store.Write'' [msgStoreGroupKeyRequired] (Some ErrInvalid))"
    | (failed) "snd (splitGroupKeyPath E p) \<noteq> ''''" "e \<noteq> None" "live d'" "table d' = table d"
    | (stored) "snd (splitGroupKeyPath E p) \<noteq> ''''" "e = None" "live d'"
        "table d' = fmupd (splitGroupKeyPath E p) c (table d)"
proof -
  obtain g k where gk: "splitGroupKeyPath E p = (g, k)" by force
  show thesis
  proof (cases "k = ''''")
    case True
    then show thesis using assms(2) gk by (intro bad) (auto simp: StoreMedium_Write_def)
  next
    case False
    then have "Store_Set D g k c d = (e, d')" using assms(2) gk by (simp add: StoreMedium_Write_def)
    from Set_step [OF assms(1) this] show thesis
      using False gk failed stored by (cases "e = None") auto
  qed
qed

lemma Read_eq:
  "live d \<Longrightarrow> StoreMedium_Read E D p d =
     (case splitGroupKeyPath E p of (g, k) \<Rightarrow>
        if k = '''' then Inl (CoreE ''store.Read'' [msgStoreGroupKeyRequired] (Some ErrInvalid))
        else case fmlookup (table d) (g, k) of Some v \<Rightarrow> Inr v
          | None \<Rightarrow> Inl (CoreE ''store.Get'' [''not found: '', g, ''/'', k] (Some NotFoundError)))"
  by (auto simp: StoreMedium_Read_def Get_eq split: prod.splits)

lemma store_read_write:
  "read_write (Store_medium E D) live (splitGroupKeyPath E) (\<lambda>_. True)"
proof (unfold_locales, goal_cases)
  case (1 d t p c md e d')
  then show ?case by (auto simp: StoreMedium_WriteMode_def elim: Write_cases)
next
  case (2 d p t c md d')
  then have "StoreMedium_Write E D p c d = (None, d')" by (simp add: StoreMedium_WriteMode_def)
  from \<open>live d\<close> this show ?case by (cases rule: Write_cases) (auto simp: Read_eq split: prod.splits)
next
  case (3 d t p c md e d' q)
  then have "StoreMedium_Write E D p c d = (e, d')" by (simp add: StoreMedium_WriteMode_def)
  from \<open>live d\<close> this show ?case
    using 3 by (cases rule: Write_cases) (auto simp: Read_eq split: prod.splits)
next
  case (4 t p c d)
  then show ?case by (simp add: StoreMedium_WriteMode_def)
qed

end

subsection \<open>A database in memory\<close>

text \<open>The table itself as the state, with statements that never fail.\<close>

definition table_rows :: "string \<Rightarrow> (string \<times> string, string) fmap \<Rightarrow> (string \<times> string) list" where
  "table_rows g d = map (\<lambda>k. (k, the (fmlookup d (g, k))))
     (sorted_list_of_fset (snd |`| ffilter (\<lambda>(h, _). h = g) (fmdom d)))"

definition table_db :: "(string \<times> string, string) fmap store_db" where
  "table_db = \<lparr>db_open = (\<lambda>_. Inr fmempty), db_schema = (\<lambda>d. (None, d)), db_close = (\<lambda>d. (None, d)),
     db_get = (\<lambda>g k d. case fmlookup d (g, k) of Some v \<Rightarrow> Inr v | None \<Rightarrow> Inl ErrNoRows),
     db_upsert = (\<lambda>g k v d. (None, fmupd (g, k) v d)),
     db_delete = (\<lambda>g k d. (None, fmdrop (g, k) d)),
     db_count = (\<lambda>g d. Inr (fcard (ffilter (\<lambda>(h, _). h = g) (fmdom d)))),
     db_delete_group = (\<lambda>g d. (None, fmfilter (\<lambda>(h, _). h \<noteq> g) d)),
     db_groups = (\<lambda>d. Inr (map Inr (sorted_list_of_fset (fst |`| fmdom d)), None)),
     db_entries = (\<lambda>g d. Inr (map Inr (table_rows g d), None))\<rparr>"

lemma set_table_rows: "set (table_rows g d) = {(k, v). fmlookup d (g, k) = Some v}"
  by (force simp: table_rows_def sorted_list_of_fset.rep_eq fmlookup_dom_iff image_iff)

interpretation table_db: sql_store table_db id "\<lambda>_. True"
proof (unfold_locales, goal_cases)
  case (7 d g)
  show ?case
    by (rule exI [of _ "table_rows g d"]) (simp add: table_db_def set_table_rows)
qed (auto simp: table_db_def)

lemmas table_db_ok = table_db.sql_store_axioms

interpretation store: read_write "Store_medium go_core table_db" "\<lambda>_. True"
  "splitGroupKeyPath go_core" "\<lambda>_. True"
  by (rule table_db.store_read_write)

subsection \<open>Properties\<close>

text \<open>
  A write to the store is refused for a path without a group and a key; a write that reports
  success can be read back and makes the path a file, every other path reads as before, and a
  write that fails changes no read.
\<close>

theorem store_Write_Read:
  assumes "go_runtime E" "sql_store D table live" "live d" "StoreMedium_Write E D p c d = (e, d')"
  shows "(snd (splitGroupKeyPath E p) = '''' \<longrightarrow> (\<exists>err. e = Some err \<and> err_is err ErrInvalid)) \<and>
    (e = None \<longrightarrow> StoreMedium_Read E D p d' = Inr c \<and> StoreMedium_IsFile E D p d') \<and>
    (splitGroupKeyPath E q \<noteq> splitGroupKeyPath E p \<or> e \<noteq> None \<longrightarrow>
      StoreMedium_Read E D q d' = StoreMedium_Read E D q d) \<and> live d'"
proof -
  note S = sql_store.store_read_write [OF assms(2), of E]
  have w: "m_WriteMode (Store_medium E D) 0 p c 0 d = (e, d')"
    using assms(4) by (simp add: StoreMedium_WriteMode_def)
  have isf: "StoreMedium_Read E D p d' = Inr c \<Longrightarrow> StoreMedium_IsFile E D p d'"
    by (auto simp: StoreMedium_Read_def StoreMedium_IsFile_def split: prod.splits if_splits)
  have bad: "snd (splitGroupKeyPath E p) = '''' \<Longrightarrow> \<exists>err. e = Some err \<and> err_is err ErrInvalid"
    using assms(4) by (auto simp: StoreMedium_Write_def split: prod.splits)
  show ?thesis
    using read_write.read_written [OF S assms(3) TrueI, of 0 p c 0 d'] read_write.write_inv [OF S assms(3) w]
      read_write.read_other [OF S assms(3) w, of q] w isf bad by auto
qed

theorem store_Write_Read_witness:
  "StoreMedium_Read go_core table_db ''/app/../app/theme'' (snd (StoreMedium_Write go_core table_db ''app/theme'' ''dark'' fmempty))
     = Inr ''dark''"
proof -
  let ?w = "StoreMedium_Write go_core table_db ''app/theme'' ''dark'' fmempty"
  have w: "?w = (None, snd ?w)" by code_simp
  have k: "splitGroupKeyPath go_core ''/app/../app/theme'' = splitGroupKeyPath go_core ''app/theme''" by code_simp
  have "StoreMedium_Read go_core table_db ''app/theme'' (snd ?w) = Inr ''dark''"
    using store_Write_Read [OF go_core_ok table_db_ok TrueI w] by simp
  then show ?thesis by (simp add: StoreMedium_Read_def k)
qed

text \<open>
  Renaming a key within the store moves its value: a rename that reports success leaves the value
  under the new path and, unless both paths name the same key, nothing under the old one; renaming
  a missing key fails with \<open>NotFoundError\<close>.  Whatever fails in between, the value is never lost: it
  can still be read under the old path or already under the new one.
\<close>

theorem store_Rename:
  assumes "go_runtime E" "sql_store D table live" "live d"
    "splitGroupKeyPath E p = (g, k)" "k \<noteq> ''''" "splitGroupKeyPath E q = (h, l)" "l \<noteq> ''''"
    "StoreMedium_Rename E D p q d = (e, d')"
  shows "case fmlookup (table d) (g, k) of
      None \<Rightarrow> table d' = table d \<and>
        ((g, k) \<noteq> (h, l) \<longrightarrow> (\<exists>err. e = Some err \<and> err_is err NotFoundError))
    | Some v \<Rightarrow>
        (if (g, k) = (h, l) then e = None \<and> d' = d
         else if e = None then table d' = fmdrop (g, k) (fmupd (h, l) v (table d))
         else StoreMedium_Read E D p d' = Inr v \<and>
           (\<forall>x. x \<noteq> (h, l) \<longrightarrow> fmlookup (table d') x = fmlookup (table d) x))"
proof (cases "(g, k) = (h, l)")
  case True
  then show ?thesis using assms by (auto simp: StoreMedium_Rename_def split: option.splits)
next
  case False
  note Get = sql_store.Get_eq [OF assms(2,3), of g k]
  show ?thesis
  proof (cases "fmlookup (table d) (g, k)")
    case None
    then show ?thesis using assms False Get
      by (auto simp: StoreMedium_Rename_def NotFoundError_def split: if_splits)
  next
    case (Some v)
    obtain e1 d1 where s: "Store_Set D h l v d = (e1, d1)" by force
    have s1: "live d1" "table d1 = (if e1 = None then fmupd (h, l) v (table d) else table d)"
      using sql_store.Set_step [OF assms(2,3) s] by auto
    show ?thesis
    proof (cases e1)
      case None
      then have "Store_Delete D g k d1 = (e, d')"
        using assms False Get Some s by (simp add: StoreMedium_Rename_def split: if_splits)
      from sql_store.Delete_step [OF assms(2) s1(1) this] show ?thesis
        using Some None s1 False assms(4,5) by (auto simp: sql_store.Read_eq [OF assms(2)])
    next
      case (Some err)
      then have "e = Some err" "d' = d1"
        using assms False Get \<open>fmlookup _ _ = Some v\<close> s by (auto simp: StoreMedium_Rename_def split: if_splits)
      then show ?thesis
        using Some s1 False assms(4,5) \<open>fmlookup _ _ = Some v\<close> by (auto simp: sql_store.Read_eq [OF assms(2)])
    qed
  qed
qed

theorem store_Rename_witness:
  "fmlookup (snd (StoreMedium_Rename go_core table_db ''a/x'' ''b/y'' (fmap_of_list [((''a'', ''x''), ''1'')]))) (''b'', ''y'')
     = Some ''1''"
proof -
  let ?d = "fmap_of_list [((''a'', ''x''), ''1'')]"
  let ?r = "StoreMedium_Rename go_core table_db ''a/x'' ''b/y'' ?d"
  have k: "splitGroupKeyPath go_core ''a/x'' = (''a'', ''x'')" "splitGroupKeyPath go_core ''b/y'' = (''b'', ''y'')"
    by code_simp+
  have r: "?r = (None, snd ?r)" by code_simp
  show ?thesis
    using store_Rename [OF go_core_ok table_db_ok TrueI k(1) _ k(2) _ r] by simp
qed

text \<open>
  The root of the store lists the groups, in increasing order and each once, as directories; a
  group lists its keys in increasing order with the sizes of their values, a group without keys
  lists as empty without an error; the path of a key is refused with \<open>ErrNotDirectory\<close>.
\<close>

theorem store_List:
  assumes "go_runtime E" "sql_store D table live" "live d"
  shows "case splitGroupKeyPath E p of (g, k) \<Rightarrow>
    (if g = '''' then \<exists>es. StoreMedium_List E D p d = Inr es \<and> sorted (map de_name es) \<and>
        distinct (map de_name es) \<and> set (map de_name es) = {g. \<exists>k. has_key (table d) (g, k)} \<and>
        list_all de_isDir es
     else if k \<noteq> '''' then StoreMedium_List E D p d = Inl ErrNotDirectory
     else \<exists>es. StoreMedium_List E D p d = Inr es \<and> sorted (map de_name es) \<and> distinct (map de_name es) \<and>
        (\<lambda>e. (de_name e, de_isDir e, fi_size (de_info e))) ` set es
          = {(k, False, int (length v)) |k v. fmlookup (table d) (g, k) = Some v})"
proof -
  obtain g k where gk: "splitGroupKeyPath E p = (g, k)" by force
  obtain all where all: "Store_GetAll D g d = Inr all"
    and look: "\<And>k. fmlookup all k = fmlookup (table d) (g, k)"
    using sql_store.GetAll_lookup [OF assms(2,3), of g thesis] by blast
  let ?gs = "sorted_list_of_fset (fst |`| fmdom (table d))"
  have "set ?gs = {g. \<exists>k. has_key (table d) (g, k)}"
    by (force simp: sorted_list_of_fset.rep_eq has_key_dom)
  moreover have "sorted ?gs \<and> distinct ?gs" by (simp add: sorted_list_of_fset.rep_eq)
  ultimately have groups: "sorted ?gs \<and> distinct ?gs \<and> set ?gs = {g. \<exists>k. has_key (table d) (g, k)}"
    by blast
  have keys: "set (range_keys E (fmdom all)) = {k. fmlookup (table d) (g, k) \<noteq> None}"
    "distinct (range_keys E (fmdom all))"
    using go_runtime.range_set [OF assms(1)] go_runtime.range_distinct [OF assms(1)]
    by (auto simp: fmlookup_dom_iff look)
  show ?thesis
    using gk all groups keys sql_store.ListGroups_eq [OF assms(2,3)]
    by (auto simp: StoreMedium_List_def Let_def keyValueDirEntry_def keyValueFileInfo_def comp_def
        list_all_iff value_or_empty_def look image_iff)
qed

theorem store_List_witness:
  "\<exists>es. StoreMedium_List go_core table_db '''' (fmap_of_list [((''b'', ''x''), ''1''), ((''a'', ''y''), ''2'')]) = Inr es \<and>
     set (map de_name es) = {''a'', ''b''}"
proof -
  let ?d = "fmap_of_list [((''b'', ''x''), ''1''), ((''a'', ''y''), ''2'')]"
  have k: "splitGroupKeyPath go_core '''' = ('''', '''')" by (rule core.split_root)
  have "{g. \<exists>k. has_key ?d (g, k)} = {''a'', ''b''}" by (auto simp: fmlookup_of_list)
  then show ?thesis using store_List [OF go_core_ok table_db_ok TrueI, of "''''" ?d] k by auto
qed

end
