(* ===== verification/AbsPaths.thy ===== *)
theory AbsPaths
  imports Paths
begin

text \<open>
  Absolute paths as lists of elements: the paths \<open>core.Path\<close> returns are \<open>abs_path cs\<close> for a
  list of elements that are neither empty nor dots.
\<close>

definition abs_path :: "string list \<Rightarrow> string" where
  "abs_path cs = slash # join_with slash cs"

abbreviation good :: "string list \<Rightarrow> bool" where
  "good cs \<equiv> list_all good_elem cs"

lemma abs_path_Nil [simp]: "abs_path [] = ''/''"
  by (simp add: abs_path_def)

lemma rooted_abs [simp]: "is_rooted (abs_path cs)"
  by (simp add: is_rooted_def abs_path_def)

lemma split_join_good: "good cs \<Longrightarrow> cs \<noteq> [] \<Longrightarrow> split_on slash (join_with slash cs) = cs"
  by (rule split_join) (auto simp: list_all_iff good_elem_def)

lemma path_elems_join: "good cs \<Longrightarrow> path_elems (join_with slash cs) = cs"
proof (cases "cs = []")
  case True
  then show ?thesis by (simp add: path_elems_def)
next
  case False
  assume "good cs"
  then show ?thesis
    using False by (auto simp: path_elems_def split_join_good filter_id_conv list_all_iff good_elem_def)
qed

lemma path_elems_abs [simp]: "good cs \<Longrightarrow> path_elems (abs_path cs) = cs"
  by (simp add: abs_path_def path_elems_Cons path_elems_join)

lemma path_elems_append: "path_elems (s @ slash # t) = path_elems s @ path_elems t"
  by (simp add: path_elems_def split_on_append_sep)

lemma abs_path_inject: "good cs \<Longrightarrow> good ds \<Longrightarrow> abs_path cs = abs_path ds \<longleftrightarrow> cs = ds"
  by (metis path_elems_abs)

lemma path_elems_part [simp]: "good_elem part \<Longrightarrow> path_elems part = [part]"
  using path_elems_join [of "[part]"] by simp

text \<open>A rooted path cleans to an absolute path, whatever it holds.\<close>

lemma clean_abs: "is_rooted p \<Longrightarrow> \<exists>cs. good cs \<and> path_clean p = abs_path cs"
  using clean_elems_rooted [of "path_elems p"] path_elems_mem [of _ p]
  by (auto simp: path_clean_def abs_path_def)

lemma clean_of_elems: "is_rooted p \<Longrightarrow> good (path_elems p) \<Longrightarrow> path_clean p = abs_path (path_elems p)"
  by (simp add: path_clean_def abs_path_def clean_elems_good)

lemma clean_abs_path [simp]: "good cs \<Longrightarrow> path_clean (abs_path cs) = abs_path cs"
  by (simp add: clean_of_elems)

lemma clean_append:
  assumes "good cs" "good (path_elems s)"
  shows "path_clean (abs_path cs @ slash # s) = abs_path (cs @ path_elems s)"
proof -
  have "path_elems (abs_path cs @ slash # s) = cs @ path_elems s"
    using assms by (simp add: path_elems_append)
  then show ?thesis using assms clean_of_elems [of "abs_path cs @ slash # s"]
    by (simp add: is_rooted_def abs_path_def)
qed

lemma strict_below:
  assumes "good rs" "good ps" "rs \<noteq> []"
  shows "prefix (abs_path rs @ ''/'') (abs_path ps) \<longleftrightarrow> (\<exists>qs. qs \<noteq> [] \<and> ps = rs @ qs)"
proof
  assume "prefix (abs_path rs @ ''/'') (abs_path ps)"
  then obtain t where t: "join_with slash ps = join_with slash rs @ slash # t"
    by (auto simp: abs_path_def prefix_def)
  then have "ps \<noteq> []" by auto
  have "ps = split_on slash (join_with slash ps)"
    using split_join_good [OF assms(2) \<open>ps \<noteq> []\<close>] by simp
  also have "\<dots> = rs @ split_on slash t"
    unfolding t by (simp only: split_on_append_sep split_join_good [OF assms(1,3)])
  finally show "\<exists>qs. qs \<noteq> [] \<and> ps = rs @ qs" by auto
next
  assume "\<exists>qs. qs \<noteq> [] \<and> ps = rs @ qs"
  then show "prefix (abs_path rs @ ''/'') (abs_path ps)"
    using assms(3) by (auto simp: abs_path_def join_with_append)
qed

lemma split_abs: "good cs \<Longrightarrow> filter (\<lambda>p. p \<noteq> []) (split_on slash (join_with slash cs)) = cs"
  by (cases "cs = []") (auto simp: split_join_good filter_id_conv list_all_iff good_elem_def)

lemma set_join_elem: "e \<in> set cs \<Longrightarrow> set e \<subseteq> set (join_with c cs)"
  by (induction c cs rule: join_with.induct) auto

lemma set_join_with: "set (join_with c cs) \<subseteq> insert c (\<Union>e\<in>set cs. set e)"
  by (induction c cs rule: join_with.induct) auto

lemma set_clean_elems: "set (clean_elems r cs) \<subseteq> insert ''..'' (set cs)"
proof -
  have "set (foldl (clean_step r) st cs) \<subseteq> insert ''..'' (set st \<union> set cs)" for st
  proof (induction cs arbitrary: st)
    case (Cons c cs)
    have "set (clean_step r st c) \<subseteq> insert ''..'' (insert c (set st))"
      by (auto simp: clean_step_def split: list.splits if_splits)
    then show ?case using Cons [of "clean_step r st c"] by auto
  qed auto
  from this [of "[]"] show ?thesis by (simp add: clean_elems_def)
qed

lemma join_good_Nil: "good cs \<Longrightarrow> cs \<noteq> [] \<Longrightarrow> join_with slash cs \<noteq> []"
  using split_join_good [of cs] by (cases cs) (auto simp: good_elem_def)

context go_runtime
begin

lemma Path_abs [simp]: "good cs \<Longrightarrow> Path E [abs_path cs] = abs_path cs"
  by (simp add: Path_eq)

lemma Path_rooted: "is_rooted p \<Longrightarrow> \<exists>cs. good cs \<and> Path E [p] = abs_path cs"
  using clean_abs [of p] by (simp add: Path_eq)

lemma Path_append: "good cs \<Longrightarrow> good (path_elems s) \<Longrightarrow> Path E [abs_path cs, s] = abs_path (cs @ path_elems s)"
  by (simp add: Path_eq clean_append)

lemma Path_any: "\<exists>ds. good ds \<and> Path E [abs_path cs, s] = abs_path ds"
  using clean_abs [of "abs_path cs @ slash # s"] by (simp add: Path_eq is_rooted_def abs_path_def)

lemma Path_part [simp]: "good cs \<Longrightarrow> good_elem part \<Longrightarrow> Path E [abs_path cs, part] = abs_path (cs @ [part])"
  by (simp add: Path_append)

end

end
