(* ===== verification/Local.thy ===== *)
theory Local
  imports Medium AbsPaths
begin

text \<open>
  Package \<open>local\<close>: the medium over the operating system's files (\<open>go/local/medium.go\<close> and
  \<open>medium_link.go\<close>), confined to a root directory.  What lies outside the repository is the
  record \<open>os_api\<close> over a state \<open>'o\<close> of the file system: the environment variables, \<open>core.Lstat\<close>,
  \<open>syscall.Readlink\<close> and the methods of \<open>core.Fs\<close>.  The model is sequential: no one changes
  the file system between the check of a path and its use.
\<close>

subsection \<open>The operating system\<close>

record ('o, 'f, 'w) os_api =
  os_Env :: "string \<Rightarrow> string"
  os_Lstat :: "string \<Rightarrow> 'o \<Rightarrow> file_info core_result"
  os_Readlink :: "string \<Rightarrow> nat \<Rightarrow> 'o \<Rightarrow> string res"
  fs_Read :: "string \<Rightarrow> 'o \<Rightarrow> string core_result"
  fs_WriteMode :: "string \<Rightarrow> string \<Rightarrow> file_mode \<Rightarrow> 'o \<Rightarrow> unit core_result \<times> 'o"
  fs_EnsureDir :: "string \<Rightarrow> 'o \<Rightarrow> unit core_result \<times> 'o"
  fs_IsDir :: "string \<Rightarrow> 'o \<Rightarrow> bool"
  fs_IsFile :: "string \<Rightarrow> 'o \<Rightarrow> bool"
  fs_Exists :: "string \<Rightarrow> 'o \<Rightarrow> bool"
  fs_List :: "string \<Rightarrow> 'o \<Rightarrow> dir_entry list core_result"
  fs_Stat :: "string \<Rightarrow> 'o \<Rightarrow> file_info core_result"
  fs_Open :: "string \<Rightarrow> 'o \<Rightarrow> 'f core_result"
  fs_Create :: "string \<Rightarrow> 'o \<Rightarrow> 'w core_result \<times> 'o"
  fs_Append :: "string \<Rightarrow> 'o \<Rightarrow> 'w core_result \<times> 'o"
  fs_Delete :: "string \<Rightarrow> 'o \<Rightarrow> unit core_result \<times> 'o"
  fs_DeleteAll :: "string \<Rightarrow> 'o \<Rightarrow> unit core_result \<times> 'o"
  fs_Rename :: "string \<Rightarrow> string \<Rightarrow> 'o \<Rightarrow> unit core_result \<times> 'o"

definition ENOENT :: gerr where "ENOENT = ErrNew ''no such file or directory''"

definition ModeSymlink :: file_mode where "ModeSymlink = push_bit 27 1"

abbreviation backslash :: string where "backslash \<equiv> [CHR 0x5C]"

definition msgUnexpectedResultType :: string where
  "msgUnexpectedResultType = ''unexpected result type''"

subsection \<open>Links\<close>

record link_info =
  li_IsSymlink :: bool
  li_Mode :: file_mode
  li_Size :: int
  li_ModTime :: gotime

definition lstat :: "('o, 'f, 'w) os_api \<Rightarrow> string \<Rightarrow> 'o \<Rightarrow> link_info res" where
  "lstat S path fs =
     (case os_Lstat S path fs of
        RFail err \<Rightarrow> Inl err
      | RFailOther \<Rightarrow> Inl (CoreE ''local.lstat'' [msgUnexpectedResultType] None)
      | ROkOther \<Rightarrow> Inl (CoreE ''local.lstat'' [msgUnexpectedResultType] None)
      | ROk info \<Rightarrow> Inr \<lparr>li_IsSymlink = fi_mode info AND ModeSymlink \<noteq> 0, li_Mode = fi_mode info,
          li_Size = fi_size info, li_ModTime = fi_modTime info\<rparr>)"

text \<open>
  \<open>Readlink\<close> fills a buffer of the given size; the loop doubles it until it is not full.
\<close>

partial_function (option) readlink_loop ::
  "('o, 'f, 'w) os_api \<Rightarrow> string \<Rightarrow> nat \<Rightarrow> 'o \<Rightarrow> string res option" where
  "readlink_loop S path bufsize fs =
     (case os_Readlink S path bufsize fs of
        Inl err \<Rightarrow> Some (Inl err)
      | Inr bytes_read \<Rightarrow>
          (if length bytes_read < bufsize then Some (Inr bytes_read) else readlink_loop S path (bufsize * 2) fs))"

definition readlink :: "('o, 'f, 'w) os_api \<Rightarrow> string \<Rightarrow> 'o \<Rightarrow> string res option" where
  "readlink S path fs = readlink_loop S path 256 fs"

declare readlink_loop.simps [code]

subsection \<open>Paths\<close>

definition dirSeparator :: "('o, 'f, 'w) os_api \<Rightarrow> string" where
  "dirSeparator S =
     (if os_Env S ''CORE_PATH_SEPARATOR'' \<noteq> '''' then os_Env S ''CORE_PATH_SEPARATOR''
      else if os_Env S ''DS'' \<noteq> '''' then os_Env S ''DS'' else ''/'')"

definition normalisePath :: "go_env \<Rightarrow> ('o, 'f, 'w) os_api \<Rightarrow> string \<Rightarrow> string" where
  "normalisePath E S path =
     (let separator = dirSeparator S
      in if separator = ''/'' then Replace E path backslash separator
         else Replace E path ''/'' separator)"

definition currentWorkingDir :: "('o, 'f, 'w) os_api \<Rightarrow> string" where
  "currentWorkingDir S =
     (if os_Env S ''CORE_WORKING_DIRECTORY'' \<noteq> '''' then os_Env S ''CORE_WORKING_DIRECTORY''
      else if os_Env S ''DIR_CWD'' \<noteq> '''' then os_Env S ''DIR_CWD'' else ''.'')"

definition absolutePath :: "go_env \<Rightarrow> ('o, 'f, 'w) os_api \<Rightarrow> string \<Rightarrow> string" where
  "absolutePath E S path =
     (let path = normalisePath E S path
      in if PathIsAbs E path then Path E [path] else Path E [currentWorkingDir S, path])"

definition cleanSandboxPath :: "go_env \<Rightarrow> ('o, 'f, 'w) os_api \<Rightarrow> string \<Rightarrow> string" where
  "cleanSandboxPath E S path = Path E [dirSeparator S @ normalisePath E S path]"

definition splitPathParts :: "go_env \<Rightarrow> ('o, 'f, 'w) os_api \<Rightarrow> string \<Rightarrow> string list" where
  "splitPathParts E S path =
     (let trimmed = TrimPrefix E path (dirSeparator S)
      in if trimmed = '''' then [] else filter (\<lambda>part. part \<noteq> '''') (Split E trimmed (dirSeparator S)))"

subsection \<open>Resolving links\<close>

text \<open>
  The loop of \<open>resolveSymlinksRecursive\<close> over the parts of a path, with the call of
  \<open>resolveSymlinkTarget\<close> for a link written out.  \<open>seen\<close> holds the targets being resolved: the
  code adds a target before the recursive call and deletes it after, so the loop can pass it on
  as a value.  \<open>None\<close> means that the code does not return.
\<close>

definition start_parts :: "go_env \<Rightarrow> ('o, 'f, 'w) os_api \<Rightarrow> string \<Rightarrow> string list" where
  "start_parts E S path =
     (let path = Path E [path] in if path = dirSeparator S then [] else splitPathParts E S path)"

definition link_target :: "go_env \<Rightarrow> ('o, 'f, 'w) os_api \<Rightarrow> string \<Rightarrow> string \<Rightarrow> string" where
  "link_target E S current target =
     (let target = normalisePath E S target
      in if \<not> PathIsAbs E target then Path E [current, target] else Path E [target])"

partial_function (option) resolve_parts ::
  "go_env \<Rightarrow> ('o, 'f, 'w) os_api \<Rightarrow> 'o \<Rightarrow> string list \<Rightarrow> string \<Rightarrow> string list \<Rightarrow> string res option" where
  "resolve_parts E S fs seen current parts =
     (case parts of
        [] \<Rightarrow> Some (Inr current)
      | part # rest \<Rightarrow>
          (let next_path = Path E [current, part]
           in case lstat S next_path fs of
                Inl err \<Rightarrow>
                  (if err_is err ENOENT then resolve_parts E S fs seen next_path rest else Some (Inl err))
              | Inr info \<Rightarrow>
                  (if \<not> li_IsSymlink info then resolve_parts E S fs seen next_path rest
                   else case readlink S next_path fs of
                       None \<Rightarrow> None
                     | Some (Inl err) \<Rightarrow> Some (Inl err)
                     | Some (Inr target) \<Rightarrow>
                         (let target = link_target E S current target
                          in if target \<in> set seen
                             then Some (Inl (CoreE ''local.resolveSymlinksPath'' [''symlink cycle: '', target]
                                    (Some ErrInvalid)))
                             else Option.bind
                                 (resolve_parts E S fs (target # seen) (dirSeparator S) (start_parts E S target))
                                 (\<lambda>r. case r of
                                    Inl err \<Rightarrow> Some (Inl err)
                                  | Inr resolved \<Rightarrow> resolve_parts E S fs seen resolved rest)))))"

declare resolve_parts.simps [code]

definition resolveSymlinksRecursive ::
  "go_env \<Rightarrow> ('o, 'f, 'w) os_api \<Rightarrow> string \<Rightarrow> string list \<Rightarrow> 'o \<Rightarrow> string res option" where
  "resolveSymlinksRecursive E S path seen fs =
     resolve_parts E S fs seen (dirSeparator S) (start_parts E S path)"

definition resolveSymlinksPath ::
  "go_env \<Rightarrow> ('o, 'f, 'w) os_api \<Rightarrow> string \<Rightarrow> 'o \<Rightarrow> string res option" where
  "resolveSymlinksPath E S path fs = resolveSymlinksRecursive E S (absolutePath E S path) [] fs"

definition isWithinRoot :: "go_env \<Rightarrow> ('o, 'f, 'w) os_api \<Rightarrow> string \<Rightarrow> string \<Rightarrow> bool" where
  "isWithinRoot E S root target =
     (let root = Path E [root]; target = Path E [target]
      in root = dirSeparator S \<or> target = root \<or> HasPrefix E target (root @ dirSeparator S))"

definition canonicalPath :: "go_env \<Rightarrow> ('o, 'f, 'w) os_api \<Rightarrow> string \<Rightarrow> 'o \<Rightarrow> string option" where
  "canonicalPath E S path fs =
     (if path = '''' then Some ''''
      else case resolveSymlinksPath E S path fs of
          None \<Rightarrow> None
        | Some (Inr resolved) \<Rightarrow> Some resolved
        | Some (Inl err) \<Rightarrow> Some (absolutePath E S path))"

text \<open>The set of protected paths: the root directory and the home directories that are set.\<close>

fun canonical_paths :: "go_env \<Rightarrow> ('o, 'f, 'w) os_api \<Rightarrow> string list \<Rightarrow> 'o \<Rightarrow> string list option" where
  "canonical_paths E S [] fs = Some []"
| "canonical_paths E S (home # homes) fs =
     (if home = '''' then canonical_paths E S homes fs
      else case canonicalPath E S home fs of
          None \<Rightarrow> None
        | Some p \<Rightarrow> map_option ((#) p) (canonical_paths E S homes fs))"

definition isProtectedPath :: "go_env \<Rightarrow> ('o, 'f, 'w) os_api \<Rightarrow> string \<Rightarrow> 'o \<Rightarrow> bool option" where
  "isProtectedPath E S fullPath fs =
     (case canonicalPath E S fullPath fs of
        None \<Rightarrow> None
      | Some fullPath \<Rightarrow>
          (case canonicalPath E S (dirSeparator S) fs of
             None \<Rightarrow> None
           | Some root \<Rightarrow>
               map_option (\<lambda>ps. fullPath \<in> set (root # ps))
                 (canonical_paths E S [os_Env S ''HOME'', os_Env S ''DIR_HOME''] fs)))"

subsection \<open>The medium\<close>

record local_medium =
  filesystemRoot :: string

definition Local_New :: "go_env \<Rightarrow> ('o, 'f, 'w) os_api \<Rightarrow> string \<Rightarrow> 'o \<Rightarrow> local_medium res" where
  "Local_New E S root fs =
     (let absoluteRoot = absolutePath E S root
      in case resolveSymlinksPath E S absoluteRoot fs of
           None \<Rightarrow> Inl Diverges
         | Some (Inr resolvedRoot) \<Rightarrow> Inr \<lparr>filesystemRoot = resolvedRoot\<rparr>
         | Some (Inl err) \<Rightarrow> Inr \<lparr>filesystemRoot = absoluteRoot\<rparr>)"

definition sandboxedPath :: "go_env \<Rightarrow> ('o, 'f, 'w) os_api \<Rightarrow> local_medium \<Rightarrow> string \<Rightarrow> string" where
  "sandboxedPath E S M path =
     (if path = '''' then filesystemRoot M
      else if filesystemRoot M = dirSeparator S \<and> \<not> PathIsAbs E (normalisePath E S path)
      then Path E [currentWorkingDir S, normalisePath E S path]
      else let clean = cleanSandboxPath E S path
           in if filesystemRoot M = dirSeparator S then clean
              else Path E [filesystemRoot M, TrimPrefix E clean (dirSeparator S)])"

fun validate_loop ::
  "go_env \<Rightarrow> ('o, 'f, 'w) os_api \<Rightarrow> 'o \<Rightarrow> string \<Rightarrow> string list \<Rightarrow> string \<Rightarrow> string res" where
  "validate_loop E S fs root [] current = Inr current"
| "validate_loop E S fs root (part # parts) current =
     (let next_path = Path E [current, part]
      in case resolveSymlinksPath E S next_path fs of
           None \<Rightarrow> Inl Diverges
         | Some (Inl err) \<Rightarrow>
             (if err_is err ENOENT then validate_loop E S fs root parts next_path else Inl err)
         | Some (Inr realNext) \<Rightarrow>
             (if \<not> isWithinRoot E S root realNext then Inl ErrPermission
              else validate_loop E S fs root parts realNext))"

definition validatePath ::
  "go_env \<Rightarrow> ('o, 'f, 'w) os_api \<Rightarrow> local_medium \<Rightarrow> string \<Rightarrow> 'o \<Rightarrow> string res" where
  "validatePath E S M path fs =
     (if filesystemRoot M = dirSeparator S then Inr (sandboxedPath E S M path)
      else validate_loop E S fs (filesystemRoot M) (splitPathParts E S (cleanSandboxPath E S path))
        (filesystemRoot M))"

text \<open>The conversions of a \<open>core.Result\<close>.\<close>

definition result_failure :: "string \<Rightarrow> string list \<Rightarrow> 'a core_result \<Rightarrow> gerr option" where
  "result_failure operation message r =
     (case r of
        ROk _ \<Rightarrow> None | ROkOther \<Rightarrow> None
      | RFail err \<Rightarrow> Some (CoreE operation message (Some err))
      | RFailOther \<Rightarrow> Some (CoreE operation message None))"

definition resultError :: "string \<Rightarrow> string list \<Rightarrow> unit core_result \<Rightarrow> gerr option" where
  "resultError operation message r = result_failure operation message r"

definition resultValue :: "string \<Rightarrow> string list \<Rightarrow> 'a core_result \<Rightarrow> 'a res" where
  "resultValue operation message r =
     (case result_failure operation message r of
        Some err \<Rightarrow> Inl err
      | None \<Rightarrow> (case r of ROk v \<Rightarrow> Inr v | _ \<Rightarrow> Inl (CoreE operation [msgUnexpectedResultType] None)))"

definition LocalMedium_Read :: "go_env \<Rightarrow> ('o, 'f, 'w) os_api \<Rightarrow> local_medium \<Rightarrow> string \<Rightarrow> 'o \<Rightarrow> string res" where
  "LocalMedium_Read E S M path fs =
     (case validatePath E S M path fs of
        Inl err \<Rightarrow> Inl err
      | Inr resolvedPath \<Rightarrow> resultValue ''local.Read'' [''read failed: '', path] (fs_Read S resolvedPath fs))"

definition LocalMedium_WriteMode ::
  "go_env \<Rightarrow> ('o, 'f, 'w) os_api \<Rightarrow> local_medium \<Rightarrow> string \<Rightarrow> string \<Rightarrow> file_mode \<Rightarrow> 'o \<Rightarrow> gerr option \<times> 'o" where
  "LocalMedium_WriteMode E S M path content mode fs =
     (case validatePath E S M path fs of
        Inl err \<Rightarrow> (Some err, fs)
      | Inr resolvedPath \<Rightarrow>
          (case fs_WriteMode S resolvedPath content mode fs of
             (r, fs') \<Rightarrow> (resultError ''local.WriteMode'' [''write failed: '', path] r, fs')))"

definition LocalMedium_Write ::
  "go_env \<Rightarrow> ('o, 'f, 'w) os_api \<Rightarrow> local_medium \<Rightarrow> string \<Rightarrow> string \<Rightarrow> 'o \<Rightarrow> gerr option \<times> 'o" where
  "LocalMedium_Write E S M path content fs = LocalMedium_WriteMode E S M path content 420 fs"

definition LocalMedium_EnsureDir ::
  "go_env \<Rightarrow> ('o, 'f, 'w) os_api \<Rightarrow> local_medium \<Rightarrow> string \<Rightarrow> 'o \<Rightarrow> gerr option \<times> 'o" where
  "LocalMedium_EnsureDir E S M path fs =
     (case validatePath E S M path fs of
        Inl err \<Rightarrow> (Some err, fs)
      | Inr resolvedPath \<Rightarrow>
          (case fs_EnsureDir S resolvedPath fs of
             (r, fs') \<Rightarrow> (resultError ''local.EnsureDir'' [''ensure dir failed: '', path] r, fs')))"

definition LocalMedium_IsDir :: "go_env \<Rightarrow> ('o, 'f, 'w) os_api \<Rightarrow> local_medium \<Rightarrow> string \<Rightarrow> 'o \<Rightarrow> bool" where
  "LocalMedium_IsDir E S M path fs =
     (if path = '''' then False
      else case validatePath E S M path fs of Inl err \<Rightarrow> False | Inr resolvedPath \<Rightarrow> fs_IsDir S resolvedPath fs)"

definition LocalMedium_IsFile :: "go_env \<Rightarrow> ('o, 'f, 'w) os_api \<Rightarrow> local_medium \<Rightarrow> string \<Rightarrow> 'o \<Rightarrow> bool" where
  "LocalMedium_IsFile E S M path fs =
     (if path = '''' then False
      else case validatePath E S M path fs of Inl err \<Rightarrow> False | Inr resolvedPath \<Rightarrow> fs_IsFile S resolvedPath fs)"

definition LocalMedium_Exists :: "go_env \<Rightarrow> ('o, 'f, 'w) os_api \<Rightarrow> local_medium \<Rightarrow> string \<Rightarrow> 'o \<Rightarrow> bool" where
  "LocalMedium_Exists E S M path fs =
     (case validatePath E S M path fs of Inl err \<Rightarrow> False | Inr resolvedPath \<Rightarrow> fs_Exists S resolvedPath fs)"

text \<open>\<open>slices.SortFunc\<close> by name; it orders entries with distinct names, as a directory has.\<close>

definition LocalMedium_List :: "go_env \<Rightarrow> ('o, 'f, 'w) os_api \<Rightarrow> local_medium \<Rightarrow> string \<Rightarrow> 'o \<Rightarrow> dir_entry list res" where
  "LocalMedium_List E S M path fs =
     (case validatePath E S M path fs of
        Inl err \<Rightarrow> Inl err
      | Inr resolvedPath \<Rightarrow>
          (case resultValue ''local.List'' [''list failed: '', path] (fs_List S resolvedPath fs) of
             Inl err \<Rightarrow> Inl err
           | Inr entries \<Rightarrow> Inr (sort_key de_name entries)))"

definition LocalMedium_Stat :: "go_env \<Rightarrow> ('o, 'f, 'w) os_api \<Rightarrow> local_medium \<Rightarrow> string \<Rightarrow> 'o \<Rightarrow> file_info res" where
  "LocalMedium_Stat E S M path fs =
     (case validatePath E S M path fs of
        Inl err \<Rightarrow> Inl err
      | Inr resolvedPath \<Rightarrow> resultValue ''local.Stat'' [''stat failed: '', path] (fs_Stat S resolvedPath fs))"

definition LocalMedium_Open :: "go_env \<Rightarrow> ('o, 'f, 'w) os_api \<Rightarrow> local_medium \<Rightarrow> string \<Rightarrow> 'o \<Rightarrow> 'f res" where
  "LocalMedium_Open E S M path fs =
     (case validatePath E S M path fs of
        Inl err \<Rightarrow> Inl err
      | Inr resolvedPath \<Rightarrow> resultValue ''local.Open'' [''open failed: '', path] (fs_Open S resolvedPath fs))"

definition LocalMedium_Create :: "go_env \<Rightarrow> ('o, 'f, 'w) os_api \<Rightarrow> local_medium \<Rightarrow> string \<Rightarrow> 'o \<Rightarrow> 'w res \<times> 'o" where
  "LocalMedium_Create E S M path fs =
     (case validatePath E S M path fs of
        Inl err \<Rightarrow> (Inl err, fs)
      | Inr resolvedPath \<Rightarrow>
          (case fs_Create S resolvedPath fs of
             (r, fs') \<Rightarrow> (resultValue ''local.Create'' [''create failed: '', path] r, fs')))"

definition LocalMedium_Append :: "go_env \<Rightarrow> ('o, 'f, 'w) os_api \<Rightarrow> local_medium \<Rightarrow> string \<Rightarrow> 'o \<Rightarrow> 'w res \<times> 'o" where
  "LocalMedium_Append E S M path fs =
     (case validatePath E S M path fs of
        Inl err \<Rightarrow> (Inl err, fs)
      | Inr resolvedPath \<Rightarrow>
          (case fs_Append S resolvedPath fs of
             (r, fs') \<Rightarrow> (resultValue ''local.Append'' [''append failed: '', path] r, fs')))"

definition LocalMedium_ReadStream :: "go_env \<Rightarrow> ('o, 'f, 'w) os_api \<Rightarrow> local_medium \<Rightarrow> string \<Rightarrow> 'o \<Rightarrow> 'f res" where
  "LocalMedium_ReadStream E S M path fs = LocalMedium_Open E S M path fs"

definition LocalMedium_WriteStream :: "go_env \<Rightarrow> ('o, 'f, 'w) os_api \<Rightarrow> local_medium \<Rightarrow> string \<Rightarrow> 'o \<Rightarrow> 'w res \<times> 'o" where
  "LocalMedium_WriteStream E S M path fs = LocalMedium_Create E S M path fs"

definition LocalMedium_Delete :: "go_env \<Rightarrow> ('o, 'f, 'w) os_api \<Rightarrow> local_medium \<Rightarrow> string \<Rightarrow> 'o \<Rightarrow> gerr option \<times> 'o" where
  "LocalMedium_Delete E S M path fs =
     (case validatePath E S M path fs of
        Inl err \<Rightarrow> (Some err, fs)
      | Inr resolvedPath \<Rightarrow>
          (if resolvedPath = filesystemRoot M then
             (Some (CoreE ''local.Delete'' [''refusing to delete sandbox root''] None), fs)
           else case isProtectedPath E S resolvedPath fs of
               None \<Rightarrow> (Some Diverges, fs)
             | Some True \<Rightarrow>
                 (Some (CoreE ''local.Delete'' [''refusing to delete protected path: '', resolvedPath] None), fs)
             | Some False \<Rightarrow>
                 (case fs_Delete S resolvedPath fs of
                    (r, fs') \<Rightarrow> (resultError ''local.Delete'' [''delete failed: '', path] r, fs'))))"

definition LocalMedium_DeleteAll :: "go_env \<Rightarrow> ('o, 'f, 'w) os_api \<Rightarrow> local_medium \<Rightarrow> string \<Rightarrow> 'o \<Rightarrow> gerr option \<times> 'o" where
  "LocalMedium_DeleteAll E S M path fs =
     (case validatePath E S M path fs of
        Inl err \<Rightarrow> (Some err, fs)
      | Inr resolvedPath \<Rightarrow>
          (if resolvedPath = filesystemRoot M then
             (Some (CoreE ''local.DeleteAll'' [''refusing to delete sandbox root''] None), fs)
           else case isProtectedPath E S resolvedPath fs of
               None \<Rightarrow> (Some Diverges, fs)
             | Some True \<Rightarrow>
                 (Some (CoreE ''local.DeleteAll'' [''refusing to delete protected path: '', resolvedPath] None), fs)
             | Some False \<Rightarrow>
                 (case fs_DeleteAll S resolvedPath fs of
                    (r, fs') \<Rightarrow> (resultError ''local.DeleteAll'' [''delete all failed: '', path] r, fs'))))"

definition LocalMedium_Rename ::
  "go_env \<Rightarrow> ('o, 'f, 'w) os_api \<Rightarrow> local_medium \<Rightarrow> string \<Rightarrow> string \<Rightarrow> 'o \<Rightarrow> gerr option \<times> 'o" where
  "LocalMedium_Rename E S M oldPath newPath fs =
     (case validatePath E S M oldPath fs of
        Inl err \<Rightarrow> (Some err, fs)
      | Inr oldResolvedPath \<Rightarrow>
          (case validatePath E S M newPath fs of
             Inl err \<Rightarrow> (Some err, fs)
           | Inr newResolvedPath \<Rightarrow>
               (case fs_Rename S oldResolvedPath newResolvedPath fs of
                  (r, fs') \<Rightarrow> (resultError ''local.Rename'' [''rename failed: '', oldPath] r, fs'))))"

definition Local_medium ::
  "go_env \<Rightarrow> ('o, 'f, 'w) os_api \<Rightarrow> local_medium \<Rightarrow> ('o, 'f, 'f, 'w) medium" where
  "Local_medium E S M =
     \<lparr>m_Read = LocalMedium_Read E S M, m_Write = (\<lambda>_. LocalMedium_Write E S M),
      m_WriteMode = (\<lambda>_. LocalMedium_WriteMode E S M), m_EnsureDir = LocalMedium_EnsureDir E S M,
      m_IsFile = LocalMedium_IsFile E S M, m_Delete = LocalMedium_Delete E S M,
      m_DeleteAll = LocalMedium_DeleteAll E S M, m_Rename = LocalMedium_Rename E S M,
      m_List = (\<lambda>_. LocalMedium_List E S M), m_Stat = (\<lambda>_. LocalMedium_Stat E S M),
      m_Open = (\<lambda>_. LocalMedium_Open E S M), m_Create = LocalMedium_Create E S M,
      m_Append = LocalMedium_Append E S M, m_ReadStream = (\<lambda>_. LocalMedium_ReadStream E S M),
      m_WriteStream = LocalMedium_WriteStream E S M, m_Exists = LocalMedium_Exists E S M,
      m_IsDir = LocalMedium_IsDir E S M\<rparr>"

definition NewSandboxed ::
  "go_env \<Rightarrow> ('o, 'f, 'w) os_api \<Rightarrow> string \<Rightarrow> 'o \<Rightarrow> ('o, 'f, 'f, 'w) medium res" where
  "NewSandboxed E S root fs =
     (case Local_New E S root fs of Inl err \<Rightarrow> Inl err | Inr M \<Rightarrow> Inr (Local_medium E S M))"

end
