(* ===== verification/LocalProps.thy ===== *)
theory LocalProps
  imports Local
begin

text \<open>
  The sandbox of the local medium: every path it hands to the file system lies below its root
  and has no symbolic link on the way.
\<close>

subsection \<open>Paths without links\<close>

definition no_link :: "('o, 'f, 'w) os_api \<Rightarrow> 'o \<Rightarrow> string \<Rightarrow> bool" where
  "no_link S fs p \<longleftrightarrow>
     (case lstat S p fs of Inr info \<Rightarrow> \<not> li_IsSymlink info | Inl err \<Rightarrow> err_is err ENOENT)"

text \<open>No path from the root directory down to the given one is a link.\<close>

definition link_free :: "('o, 'f, 'w) os_api \<Rightarrow> 'o \<Rightarrow> string list \<Rightarrow> bool" where
  "link_free S fs cs \<longleftrightarrow> (\<forall>n\<in>{1..length cs}. no_link S fs (abs_path (take n cs)))"

lemma link_free_Nil [simp]: "link_free S fs []"
  by (simp add: link_free_def)

lemma link_free_snoc: "link_free S fs (cs @ [c]) \<longleftrightarrow> link_free S fs cs \<and> no_link S fs (abs_path (cs @ [c]))"
proof -
  have "{1..length (cs @ [c])} = insert (Suc (length cs)) {1..length cs}" by auto
  moreover have "take n (cs @ [c]) = take n cs" if "n \<in> {1..length cs}" for n using that by simp
  ultimately show ?thesis unfolding link_free_def by auto
qed

text \<open>What \<open>Readlink\<close> is for: a path that \<open>Lstat\<close> reports as a link can be read as one.\<close>

definition links_readable :: "('o, 'f, 'w) os_api \<Rightarrow> 'o \<Rightarrow> bool" where
  "links_readable S fs \<longleftrightarrow>
     (\<forall>p info err. lstat S p fs = Inr info \<and> li_IsSymlink info \<and> readlink S p fs = Some (Inl err)
        \<longrightarrow> \<not> err_is err ENOENT)"

context go_runtime
begin

lemma start_parts_abs:
  "dirSeparator S = ''/'' \<Longrightarrow> good cs \<Longrightarrow> start_parts E S (abs_path cs) = cs"
  using Path_abs [of cs] join_good_Nil [of cs] split_abs [of cs]
  by (cases "cs = []") (simp_all add: start_parts_def splitPathParts_def Let_def trim_prefix_def,
    simp add: abs_path_def)

lemma good_start_parts:
  assumes "dirSeparator S = ''/''" "is_rooted p"
  shows "good (start_parts E S p)"
proof -
  obtain cs where "good cs" "Path E [p] = abs_path cs" using Path_rooted [OF assms(2)] by blast
  moreover from this have "start_parts E S p = start_parts E S (abs_path cs)"
    by (simp add: start_parts_def)
  ultimately show ?thesis using start_parts_abs [OF assms(1)] by simp
qed

lemma link_target_abs:
  assumes "dirSeparator S = ''/''"
  shows "\<exists>ds. good ds \<and> link_target E S (abs_path cs) t = abs_path ds"
  using Path_any [of cs "normalisePath E S t"] Path_rooted [of "normalisePath E S t"]
  by (auto simp: link_target_def Let_def)

lemma resolve_parts_sound:
  assumes "resolve_parts E S fs seen current parts = Some res"
  shows "dirSeparator S = ''/'' \<longrightarrow> good parts \<longrightarrow>
    (\<forall>cs. good cs \<longrightarrow> link_free S fs cs \<longrightarrow> current = abs_path cs \<longrightarrow>
      (case res of Inr r \<Rightarrow> \<exists>rs. good rs \<and> link_free S fs rs \<and> r = abs_path rs
       | Inl err \<Rightarrow> links_readable S fs \<longrightarrow> \<not> err_is err ENOENT))"
proof -
  define P where "P = (\<lambda>(E' :: go_env) (S :: ('a, 'b, 'c) os_api) fs (seen :: string list) current parts (res :: string res).
    E' = E \<longrightarrow> dirSeparator S = ''/'' \<longrightarrow> good parts \<longrightarrow>
    (\<forall>cs. good cs \<longrightarrow> link_free S fs cs \<longrightarrow> current = abs_path cs \<longrightarrow>
      (case res of Inr r \<Rightarrow> \<exists>rs. good rs \<and> link_free S fs rs \<and> r = abs_path rs
       | Inl err \<Rightarrow> links_readable S fs \<longrightarrow> \<not> err_is err ENOENT)))"
  have "P E S fs seen current parts res"
  proof (rule resolve_parts.raw_induct [OF _ assms])
    fix loop and E' :: go_env and S :: "('a, 'b, 'c) os_api" and fs seen current parts res
    assume IH: "\<And>E S fs seen current parts res. loop E S fs seen current parts = Some res \<Longrightarrow>
        P E S fs seen current parts res"
      and step: "(case parts of
        [] \<Rightarrow> Some (Inr current)
      | part # rest \<Rightarrow>
          (let next_path = Path E' [current, part]
           in case lstat S next_path fs of
                Inl err \<Rightarrow> (if err_is err ENOENT then loop E' S fs seen next_path rest else Some (Inl err))
              | Inr info \<Rightarrow>
                  (if \<not> li_IsSymlink info then loop E' S fs seen next_path rest
                   else case readlink S next_path fs of
                       None \<Rightarrow> None
                     | Some (Inl err) \<Rightarrow> Some (Inl err)
                     | Some (Inr target) \<Rightarrow>
                         (let target = link_target E' S current target
                          in if target \<in> set seen
                             then Some (Inl (CoreE ''local.resolveSymlinksPath'' [''symlink cycle: '', target]
                                    (Some ErrInvalid)))
                             else Option.bind
                                 (loop E' S fs (target # seen) (dirSeparator S) (start_parts E' S target))
                                 (\<lambda>r. case r of
                                    Inl err \<Rightarrow> Some (Inl err)
                                  | Inr resolved \<Rightarrow> loop E' S fs seen resolved rest))))) = Some res"
    show "P E' S fs seen current parts res"
      unfolding P_def
    proof (intro impI allI)
      fix cs
      assume E': "E' = E" and sep: "dirSeparator S = ''/''" and gp: "good parts"
        and gc: "good cs" and lf: "link_free S fs cs" and cur: "current = abs_path cs"
      let ?Q = "\<lambda>res. case res of Inr r \<Rightarrow> \<exists>rs. good rs \<and> link_free S fs rs \<and> r = abs_path rs
       | Inl err \<Rightarrow> links_readable S fs \<longrightarrow> \<not> err_is err ENOENT"
      show "?Q res"
      proof (cases parts)
        case Nil
        then show ?thesis using step gc lf cur by auto
      next
        case (Cons part rest)
        have gr: "good rest" "good_elem part" using gp Cons by auto
        have nxt: "Path E' [current, part] = abs_path (cs @ [part])"
          using E' gc gr cur by simp
        have walk: "?Q res" if "loop E' S fs seen (abs_path ds) rest = Some res" "good ds" "link_free S fs ds" for ds
          using IH [OF that(1)] that(2,3) E' sep gr unfolding P_def by blast
        have deeper: "?Q res" if "loop E' S fs seen (abs_path (cs @ [part])) rest = Some res"
          "no_link S fs (abs_path (cs @ [part]))"
          using walk [OF that(1)] that(2) gc gr lf by (simp add: link_free_snoc)
        show ?thesis
        proof (cases "lstat S (abs_path (cs @ [part])) fs")
          case (Inl err)
          then show ?thesis
            using step Cons nxt deeper by (auto simp: no_link_def split: if_splits)
        next
          case (Inr info)
          show ?thesis
          proof (cases "li_IsSymlink info")
            case False
            then show ?thesis using step Cons nxt deeper Inr by (auto simp: no_link_def)
          next
            case link: True
            obtain rl where rl: "readlink S (abs_path (cs @ [part])) fs = Some rl"
              using step Cons nxt Inr link by (cases "readlink S (abs_path (cs @ [part])) fs") auto
            show ?thesis
            proof (cases rl)
              case (Inl err)
              then have "res = Inl err" using step Cons nxt Inr link rl \<open>lstat _ _ _ = Inr info\<close> by auto
              then show ?thesis
                using rl Inl link \<open>lstat _ _ _ = Inr info\<close> by (auto simp: links_readable_def)
            next
              case target: (Inr t)
              let ?t = "link_target E' S current t"
              obtain ds where ds: "good ds" "?t = abs_path ds"
                using link_target_abs [OF sep, of cs t] E' cur by auto
              show ?thesis
              proof (cases "?t \<in> set seen")
                case True
                then have "res = Inl (CoreE ''local.resolveSymlinksPath'' [''symlink cycle: '', ?t] (Some ErrInvalid))"
                  using step Cons nxt Inr link rl target by simp
                then show ?thesis by (simp add: ENOENT_def)
              next
                case False
                let ?inner = "loop E' S fs (?t # seen) (dirSeparator S) (start_parts E' S ?t)"
                have b: "Option.bind ?inner (\<lambda>r. case r of Inl err \<Rightarrow> Some (Inl err)
                    | Inr resolved \<Rightarrow> loop E' S fs seen resolved rest) = Some res"
                  using step Cons nxt Inr link rl target False by (simp add: Let_def)
                then obtain r where r: "?inner = Some r" by (auto simp: bind_eq_Some_conv)
                have "start_parts E' S ?t = ds" using ds E' sep by (simp add: start_parts_abs)
                then have "?Q r"
                  using IH [OF r] E' sep ds unfolding P_def by (metis abs_path_Nil link_free_Nil list.pred_inject(1))
                then show ?thesis
                  using b r walk by (cases r) auto
              qed
            qed
          qed
        qed
      qed
    qed
  qed
  then show ?thesis unfolding P_def by simp
qed

end

subsection \<open>The sandbox\<close>

text \<open>The root of a sandbox: below the root directory, and without links itself.\<close>

definition root_ok :: "('o, 'f, 'w) os_api \<Rightarrow> 'o \<Rightarrow> local_medium \<Rightarrow> string list \<Rightarrow> bool" where
  "root_ok S fs M rs \<longleftrightarrow> filesystemRoot M = abs_path rs \<and> rs \<noteq> [] \<and> good rs \<and> link_free S fs rs"

text \<open>A path below the root, reached without links.\<close>

definition inside :: "('o, 'f, 'w) os_api \<Rightarrow> 'o \<Rightarrow> string list \<Rightarrow> string \<Rightarrow> bool" where
  "inside S fs rs p \<longleftrightarrow> (\<exists>ps. p = abs_path ps \<and> prefix rs ps \<and> good ps \<and> link_free S fs ps)"

context go_runtime
begin

lemma isWithinRoot_abs:
  assumes "dirSeparator S = ''/''" "good rs" "good ps" "rs \<noteq> []"
  shows "isWithinRoot E S (abs_path rs) (abs_path ps) \<longleftrightarrow> prefix rs ps"
proof -
  have "abs_path rs \<noteq> ''/''" using join_good_Nil [OF assms(2,4)] by (simp add: abs_path_def)
  then show ?thesis
    using assms abs_path_inject [OF assms(3,2)] strict_below [OF assms(2,3,4)]
    by (auto simp: isWithinRoot_def Let_def prefix_def)
qed

lemma resolveSymlinksPath_sound:
  assumes "dirSeparator S = ''/''" "good cs" "resolveSymlinksPath E S (abs_path cs) fs = Some res"
  shows "case res of Inr r \<Rightarrow> \<exists>rs. good rs \<and> link_free S fs rs \<and> r = abs_path rs
       | Inl err \<Rightarrow> links_readable S fs \<longrightarrow> \<not> err_is err ENOENT"
proof -
  have "is_rooted (normalisePath E S (abs_path cs))"
    using assms(1) by (simp add: normalisePath_def Let_def is_rooted_def abs_path_def replace_char_def)
  then obtain ds where ds: "good ds" "absolutePath E S (abs_path cs) = abs_path ds"
    using Path_rooted [of "normalisePath E S (abs_path cs)"] by (auto simp: absolutePath_def Let_def)
  then have "resolve_parts E S fs [] (abs_path []) ds = Some res"
    using assms(3) start_parts_abs [OF assms(1) ds(1)]
    by (simp add: resolveSymlinksPath_def resolveSymlinksRecursive_def assms(1))
  from resolve_parts_sound [OF this] show ?thesis
    using assms(1) ds(1) by (auto dest: spec [of _ "[]"])
qed

lemma validate_loop_sound:
  assumes "dirSeparator S = ''/''" "links_readable S fs" "good rs" "rs \<noteq> []"
  shows "good parts \<Longrightarrow> good cs \<Longrightarrow> prefix rs cs \<Longrightarrow> link_free S fs cs \<Longrightarrow>
    validate_loop E S fs (abs_path rs) parts (abs_path cs) = Inr p \<Longrightarrow> inside S fs rs p"
proof (induction parts arbitrary: cs)
  case Nil
  then show ?case by (auto simp: inside_def)
next
  case (Cons part parts)
  then have g: "good (cs @ [part])" by simp
  obtain res where res: "resolveSymlinksPath E S (abs_path (cs @ [part])) fs = Some res"
    using Cons.prems by (cases "resolveSymlinksPath E S (abs_path (cs @ [part])) fs") auto
  show ?case
  proof (cases res)
    case (Inl err)
    then have "\<not> err_is err ENOENT" using resolveSymlinksPath_sound [OF assms(1) g res] assms(2) by simp
    then show ?thesis using Cons.prems res Inl by simp
  next
    case (Inr r)
    then obtain ps where ps: "good ps" "link_free S fs ps" "r = abs_path ps"
      using resolveSymlinksPath_sound [OF assms(1) g res] by auto
    then have "prefix rs ps"
      using Cons.prems res Inr isWithinRoot_abs [OF assms(1,3) ps(1) assms(4)] by (auto split: if_splits)
    then show ?thesis
      using Cons.prems res Inr ps isWithinRoot_abs [OF assms(1,3) ps(1) assms(4)] by (intro Cons.IH) auto
  qed
qed

lemma validatePath_inside:
  assumes "dirSeparator S = ''/''" "links_readable S fs" "root_ok S fs M rs"
    "validatePath E S M path fs = Inr p"
  shows "inside S fs rs p"
proof -
  have root: "filesystemRoot M = abs_path rs" "good rs" "rs \<noteq> []" "link_free S fs rs"
    using assms(3) by (auto simp: root_ok_def)
  have "is_rooted (dirSeparator S @ normalisePath E S path)"
    using assms(1) by (simp add: is_rooted_def)
  then obtain cs where cs: "good cs" "cleanSandboxPath E S path = abs_path cs"
    using Path_rooted by (auto simp: cleanSandboxPath_def)
  have "splitPathParts E S (abs_path cs) = cs"
    using start_parts_abs [OF assms(1) cs(1)] Path_abs [OF cs(1)] assms(1)
    by (cases "cs = []") (auto simp: start_parts_def splitPathParts_def Let_def trim_prefix_def split: if_splits)
  then have "validate_loop E S fs (abs_path rs) cs (abs_path rs) = Inr p"
    using assms(1,4) root cs join_good_Nil [OF root(2,3)] by (simp add: validatePath_def abs_path_def)
  from validate_loop_sound [OF assms(1,2) root(2,3) cs(1) root(2) _ root(4) this] show ?thesis
    by simp
qed

end

subsection \<open>A disk with links\<close>

text \<open>Files by their absolute paths and a fixed list of links, for the examples.\<close>

definition disk_update :: "(string, string) fmap \<Rightarrow> unit core_result \<times> (string, string) fmap" where
  "disk_update d = (ROk (), d)"

definition link_disk :: "(string \<times> string) list \<Rightarrow> ((string, string) fmap, unit, unit) os_api" where
  "link_disk links = \<lparr>os_Env = (\<lambda>_. ''''),
     os_Lstat = (\<lambda>p d. case map_of links p of
         Some t \<Rightarrow> ROk (NewFileInfo p 0 ModeSymlink zero_time False)
       | None \<Rightarrow> (if has_key d p then ROk (NewFileInfo p 0 420 zero_time False) else RFail ENOENT)),
     os_Readlink = (\<lambda>p n d. case map_of links p of Some t \<Rightarrow> Inr (take n t) | None \<Rightarrow> Inl ErrInvalid),
     fs_Read = (\<lambda>p d. case fmlookup d p of Some c \<Rightarrow> ROk c | None \<Rightarrow> RFail ENOENT),
     fs_WriteMode = (\<lambda>p c md d. disk_update (fmupd p c d)), fs_EnsureDir = (\<lambda>p d. disk_update d),
     fs_IsDir = (\<lambda>p d. True), fs_IsFile = (\<lambda>p d. has_key d p), fs_Exists = (\<lambda>p d. has_key d p),
     fs_List = (\<lambda>p d. ROk []), fs_Stat = (\<lambda>p d. RFail ENOENT), fs_Open = (\<lambda>p d. RFail ENOENT),
     fs_Create = (\<lambda>p d. (RFail ENOENT, d)), fs_Append = (\<lambda>p d. (RFail ENOENT, d)),
     fs_Delete = (\<lambda>p d. disk_update (fmdrop p d)),
     fs_DeleteAll = (\<lambda>p d. disk_update (fmfilter (\<lambda>q. q \<noteq> p \<and> \<not> prefix (p @ ''/'') q) d)),
     fs_Rename = (\<lambda>p q d. disk_update d)\<rparr>"

lemma readlink_loop_error:
  assumes "readlink_loop S p n fs = Some r"
  shows "case r of Inl err \<Rightarrow> \<exists>n. os_Readlink S p n fs = Inl err | Inr _ \<Rightarrow> True"
proof (rule readlink_loop.raw_induct [OF _ assms])
  fix loop and S :: "('a, 'b, 'c) os_api" and p n fs r
  assume IH: "\<And>S p n fs r. loop S p n fs = Some r \<Longrightarrow>
      (case r of Inl err \<Rightarrow> \<exists>n. os_Readlink S p n fs = Inl err | Inr _ \<Rightarrow> True)"
    and step: "(case os_Readlink S p n fs of
        Inl err \<Rightarrow> Some (Inl err)
      | Inr bytes_read \<Rightarrow>
          (if length bytes_read < n then Some (Inr bytes_read) else loop S p (n * 2) fs)) = Some r"
  show "case r of Inl err \<Rightarrow> \<exists>n. os_Readlink S p n fs = Inl err | Inr _ \<Rightarrow> True"
    using step IH [of S p "n * 2" fs r] by (auto split: sum.splits if_splits)
qed

lemma readlink_error:
  "readlink S p fs = Some (Inl err) \<Longrightarrow> \<exists>n. os_Readlink S p n fs = Inl err"
  using readlink_loop_error [of S p 256 fs "Inl err"] by (simp add: readlink_def)

lemma link_disk_readable: "links_readable (link_disk links) d"
proof -
  have "\<not> err_is err ENOENT" if "os_Readlink (link_disk links) p n d = Inl err" for p n err
    using that by (auto simp: link_disk_def ENOENT_def split: option.splits)
  then show ?thesis by (auto simp: links_readable_def dest!: readlink_error)
qed

definition sample_links :: "(string \<times> string) list" where
  "sample_links = [(''/srv/in'', ''data''), (''/srv/out'', ''/etc''), (''/srv/loop'', ''loop'')]"

definition sample_root :: local_medium where "sample_root = \<lparr>filesystemRoot = ''/srv''\<rparr>"

lemma sample_root_ok: "root_ok (link_disk sample_links) fmempty sample_root [''srv'']"
proof -
  have "no_link (link_disk sample_links) fmempty ''/srv''" unfolding no_link_def by code_simp
  then have "link_free (link_disk sample_links) fmempty [''srv'']"
    using link_free_snoc [of "link_disk sample_links" fmempty "[]" "''srv''"] by (simp add: abs_path_def)
  moreover have "good [''srv'']" "abs_path [''srv''] = ''/srv''" by code_simp+
  ultimately show ?thesis by (simp add: root_ok_def sample_root_def)
qed

text \<open>A link that leads out of the root, a cycle of links, and climbing with two dots.\<close>

lemma validatePath_examples:
  "validatePath go_core (link_disk sample_links) sample_root ''out/passwd'' fmempty = Inl ErrPermission"
  "\<not> is_ok (validatePath go_core (link_disk sample_links) sample_root ''loop/x'' fmempty)"
  "validatePath go_core (link_disk sample_links) sample_root ''../../x'' fmempty = Inr ''/srv/x''"
  by code_simp+

subsection \<open>Properties\<close>

text \<open>
  C11: a local medium whose root is a directory reached without links never leaves it: whatever path it
  is given, with dots or links in it, what \<open>Read\<close>, \<open>WriteMode\<close>, \<open>DeleteAll\<close> and \<open>Rename\<close> hand to the
  file system are paths below the root that no link leads away from, or they fail without touching
  it; and \<open>DeleteAll\<close> never deletes the root itself.
\<close>

theorem local_confined:
  assumes "go_runtime E" "dirSeparator S = ''/''" "links_readable S fs" "root_ok S fs M rs"
  shows "(is_ok (LocalMedium_Read E S M path fs) \<longrightarrow>
      (\<exists>p. inside S fs rs p \<and> (\<exists>c. fs_Read S p fs = ROk c \<and> LocalMedium_Read E S M path fs = Inr c))) \<and>
    (snd (LocalMedium_WriteMode E S M path content mode fs) = fs \<or>
      (\<exists>p. inside S fs rs p \<and>
        snd (LocalMedium_WriteMode E S M path content mode fs) = snd (fs_WriteMode S p content mode fs))) \<and>
    (snd (LocalMedium_DeleteAll E S M path fs) = fs \<or>
      (\<exists>p. inside S fs rs p \<and> p \<noteq> filesystemRoot M \<and>
        snd (LocalMedium_DeleteAll E S M path fs) = snd (fs_DeleteAll S p fs))) \<and>
    (snd (LocalMedium_Rename E S M path newPath fs) = fs \<or>
      (\<exists>p q. inside S fs rs p \<and> inside S fs rs q \<and>
        snd (LocalMedium_Rename E S M path newPath fs) = snd (fs_Rename S p q fs)))"
proof -
  have V: "validatePath E S M x fs = Inr p \<Longrightarrow> inside S fs rs p" for x p
    by (rule go_runtime.validatePath_inside [OF assms])
  have "is_ok (LocalMedium_Read E S M path fs) \<longrightarrow>
      (\<exists>p. inside S fs rs p \<and> (\<exists>c. fs_Read S p fs = ROk c \<and> LocalMedium_Read E S M path fs = Inr c))"
    using V [of path] by (auto simp: LocalMedium_Read_def resultValue_def result_failure_def
        split: sum.splits core_result.splits)
  moreover have "snd (LocalMedium_WriteMode E S M path content mode fs) = fs \<or>
      (\<exists>p. inside S fs rs p \<and>
        snd (LocalMedium_WriteMode E S M path content mode fs) = snd (fs_WriteMode S p content mode fs))"
    using V [of path] by (auto simp: LocalMedium_WriteMode_def split: sum.splits prod.splits)
  moreover have "snd (LocalMedium_DeleteAll E S M path fs) = fs \<or>
      (\<exists>p. inside S fs rs p \<and> p \<noteq> filesystemRoot M \<and>
        snd (LocalMedium_DeleteAll E S M path fs) = snd (fs_DeleteAll S p fs))"
    using V [of path] by (cases "validatePath E S M path fs")
      (auto simp: LocalMedium_DeleteAll_def split: prod.splits option.splits bool.splits)
  moreover have "snd (LocalMedium_Rename E S M path newPath fs) = fs \<or>
      (\<exists>p q. inside S fs rs p \<and> inside S fs rs q \<and>
        snd (LocalMedium_Rename E S M path newPath fs) = snd (fs_Rename S p q fs))"
    using V [of path] V [of newPath] by (cases "validatePath E S M path fs"; cases "validatePath E S M newPath fs")
      (auto simp: LocalMedium_Rename_def case_prod_beta)
  ultimately show ?thesis by blast
qed

theorem local_confined_witness:
  "\<exists>p. inside (link_disk sample_links) fmempty [''srv''] p \<and>
     fmlookup (snd (LocalMedium_WriteMode go_core (link_disk sample_links) sample_root ''x/../in/new'' ''c'' 420 fmempty)) p
       = Some ''c''"
proof -
  let ?w = "LocalMedium_WriteMode go_core (link_disk sample_links) sample_root ''x/../in/new'' ''c'' 420 fmempty"
  have sep: "dirSeparator (link_disk sample_links) = ''/''" by code_simp
  have "snd ?w \<noteq> fmempty" by code_simp
  then obtain p where "inside (link_disk sample_links) fmempty [''srv''] p"
    "snd ?w = snd (fs_WriteMode (link_disk sample_links) p ''c'' 420 fmempty)"
    using local_confined [OF go_core_ok sep link_disk_readable sample_root_ok, of "''x/../in/new''" "''c''" 420] by blast
  then show ?thesis by (auto simp: link_disk_def disk_update_def)
qed

end
