(* ===== verification/Datanode.thy ===== *)
theory Datanode
  imports AbsPaths Medium
begin

text \<open>
  The DataNode medium of \<open>go/datanode/medium.go\<close>: a file system of the external package Borg with
  a set of directories beside it.  The lock makes each method one atomic step.
\<close>

subsection \<open>What the medium calls\<close>

text \<open>
  The functions of Borg's \<open>DataNode\<close> and the three function variables of the package:
  \<open>dn_calls\<close> is the list of calls that \<open>dataNodeWalkDir\<close> makes to its callback as long as the
  callback returns nil (a path, its entry and an error), \<open>dataNodeOpen\<close> and \<open>dataNodeReadAll\<close> are
  the variables of the same name, which read a file by default as the methods do.
\<close>

record ('n, 'f) datanode_api =
  dn_New :: 'n
  dn_FromTar :: "string \<Rightarrow> 'n res"
  dn_ToTar :: "'n \<Rightarrow> string res"
  dn_AddData :: "string \<Rightarrow> string \<Rightarrow> 'n \<Rightarrow> 'n"
  dn_Open :: "string \<Rightarrow> 'n \<Rightarrow> 'f res"
  dn_Stat :: "string \<Rightarrow> 'n \<Rightarrow> file_info res"
  dn_ReadDir :: "string \<Rightarrow> 'n \<Rightarrow> dir_entry list res"
  dn_calls :: "string \<Rightarrow> 'n \<Rightarrow> (string \<times> dir_entry \<times> gerr option) list"
  dataNodeOpen :: "'n \<Rightarrow> string \<Rightarrow> 'f res"
  dataNodeReadAll :: "'f \<Rightarrow> string res"
  df_Stat :: "'f \<Rightarrow> file_info res"
  df_ReadAll :: "'f \<Rightarrow> string res"
  df_Close :: "'f \<Rightarrow> gerr option"

subsection \<open>The state\<close>

record 'n datanode_medium =
  dm_dataNode :: 'n
  directorySet :: "(string, bool) fmap"

definition Datanode_New :: "('n, 'f) datanode_api \<Rightarrow> 'n datanode_medium" where
  "Datanode_New B = \<lparr>dm_dataNode = dn_New B, directorySet = fmempty\<rparr>"

definition DataNode :: "'n datanode_medium \<Rightarrow> 'n" where
  "DataNode m = dm_dataNode m"

text \<open>The value of \<open>directorySet[path]\<close>.\<close>

definition in_directorySet :: "string \<Rightarrow> 'n datanode_medium \<Rightarrow> bool" where
  "in_directorySet path m \<longleftrightarrow> fmlookup (directorySet m) path = Some True"

definition normaliseEntryPath :: "go_env \<Rightarrow> string \<Rightarrow> string" where
  "normaliseEntryPath E filePath =
     (let filePath = CleanPath E (TrimPrefix E filePath ''/'') ''/''
      in if filePath = ''.'' then '''' else filePath)"

text \<open>The loop over the parents; \<open>None\<close> means that it does not return.\<close>

partial_function (option) ensureDirsLocked ::
  "go_env \<Rightarrow> string \<Rightarrow> (string, bool) fmap \<Rightarrow> (string, bool) fmap option" where
  "ensureDirsLocked E directoryPath dirs =
     (if directoryPath \<noteq> '''' \<and> directoryPath \<noteq> ''.'' then
        (let dirs' = fmupd directoryPath True dirs; directoryPath' = PathDir E directoryPath
         in if directoryPath' = ''.'' then Some dirs' else ensureDirsLocked E directoryPath' dirs')
      else Some dirs)"

declare ensureDirsLocked.simps [code]

subsection \<open>Walking and rebuilding\<close>

fun collect_loop :: "(string \<times> dir_entry \<times> gerr option) list \<Rightarrow> string list \<Rightarrow> string list res" where
  "collect_loop [] names = Inr names"
| "collect_loop ((filePath, entry, Some err) # calls) names = Inl err"
| "collect_loop ((filePath, entry, None) # calls) names =
     collect_loop calls (if de_isDir entry then names else names @ [filePath])"

definition collectAllLocked :: "('n, 'f) datanode_api \<Rightarrow> 'n \<Rightarrow> string list res" where
  "collectAllLocked B n = collect_loop (dn_calls B ''.'' n) []"

definition readFileLocked :: "('n, 'f) datanode_api \<Rightarrow> 'n \<Rightarrow> string \<Rightarrow> string res" where
  "readFileLocked B n filePath =
     (case dataNodeOpen B n filePath of
        Inl err \<Rightarrow> Inl err
      | Inr file \<Rightarrow>
          (case dataNodeReadAll B file of
             Inl readErr \<Rightarrow> Inl readErr
           | Inr data \<Rightarrow> (case df_Close B file of Some closeErr \<Rightarrow> Inl closeErr | None \<Rightarrow> Inr data)))"

fun remove_loop :: "('n, 'f) datanode_api \<Rightarrow> 'n \<Rightarrow> string \<Rightarrow> string list \<Rightarrow> 'n \<Rightarrow> 'n res" where
  "remove_loop B n target [] new = Inr new"
| "remove_loop B n target (name # names) new =
     (if name = target then remove_loop B n target names new
      else case readFileLocked B n name of
          Inl err \<Rightarrow> Inl err
        | Inr data \<Rightarrow> remove_loop B n target names (dn_AddData B name data new))"

definition removeFileLocked ::
  "('n, 'f) datanode_api \<Rightarrow> string \<Rightarrow> 'n datanode_medium \<Rightarrow> gerr option \<times> 'n datanode_medium" where
  "removeFileLocked B target m =
     (case collectAllLocked B (dm_dataNode m) of
        Inl err \<Rightarrow> (Some err, m)
      | Inr entries \<Rightarrow>
          (case remove_loop B (dm_dataNode m) target entries (dn_New B) of
             Inl err \<Rightarrow> (Some err, m)
           | Inr newDataNode \<Rightarrow> (None, m\<lparr>dm_dataNode := newDataNode\<rparr>)))"

fun rebuild_loop :: "go_env \<Rightarrow> string list \<Rightarrow> (string, bool) fmap \<Rightarrow> (string, bool) fmap option" where
  "rebuild_loop E [] dirs = Some dirs"
| "rebuild_loop E (name # names) dirs =
     Option.bind (ensureDirsLocked E (PathDir E name) dirs) (rebuild_loop E names)"

definition rebuildDirectorySetLocked ::
  "go_env \<Rightarrow> ('n, 'f) datanode_api \<Rightarrow> 'n datanode_medium \<Rightarrow> 'n datanode_medium option" where
  "rebuildDirectorySetLocked E B m =
     (case collectAllLocked B (dm_dataNode m) of
        Inl err \<Rightarrow> Some m
      | Inr entries \<Rightarrow>
          map_option (\<lambda>dirs. m\<lparr>directorySet := dirs\<rparr>) (rebuild_loop E entries (directorySet m)))"

definition Datanode_FromTar :: "go_env \<Rightarrow> ('n, 'f) datanode_api \<Rightarrow> string \<Rightarrow> 'n datanode_medium res" where
  "Datanode_FromTar E B data =
     (case dn_FromTar B data of
        Inl err \<Rightarrow> Inl (CoreE ''datanode.FromTar'' [''failed to restore''] (Some err))
      | Inr dataNode \<Rightarrow>
          (case rebuildDirectorySetLocked E B \<lparr>dm_dataNode = dataNode, directorySet = fmempty\<rparr> of
             None \<Rightarrow> Inl Diverges | Some m \<Rightarrow> Inr m))"

definition Snapshot :: "('n, 'f) datanode_api \<Rightarrow> 'n datanode_medium \<Rightarrow> string res" where
  "Snapshot B m =
     (case dn_ToTar B (dm_dataNode m) of
        Inl err \<Rightarrow> Inl (CoreE ''datanode.Snapshot'' [''tar failed''] (Some err))
      | Inr data \<Rightarrow> Inr data)"

definition Restore ::
  "go_env \<Rightarrow> ('n, 'f) datanode_api \<Rightarrow> string \<Rightarrow> 'n datanode_medium \<Rightarrow> gerr option \<times> 'n datanode_medium" where
  "Restore E B data m =
     (case dn_FromTar B data of
        Inl err \<Rightarrow> (Some (CoreE ''datanode.Restore'' [''tar failed''] (Some err)), m)
      | Inr dataNode \<Rightarrow>
          (case rebuildDirectorySetLocked E B (m\<lparr>dm_dataNode := dataNode, directorySet := fmempty\<rparr>) of
             None \<Rightarrow> (Some Diverges, m) | Some m' \<Rightarrow> (None, m')))"

subsection \<open>Reading and writing\<close>

definition Datanode_Read ::
  "go_env \<Rightarrow> ('n, 'f) datanode_api \<Rightarrow> string \<Rightarrow> 'n datanode_medium \<Rightarrow> string res" where
  "Datanode_Read E B filePath m =
     (let filePath = normaliseEntryPath E filePath; op = ''datanode.Read''
      in case dn_Open B filePath (dm_dataNode m) of
           Inl err \<Rightarrow> Inl (CoreE op [''not found: '', filePath] (Some ErrNotExist))
         | Inr file \<Rightarrow>
             (case df_Stat B file of
                Inl err \<Rightarrow> Inl (CoreE op [''stat failed: '', filePath] (Some err))
              | Inr info \<Rightarrow>
                  (if fi_isDir info then Inl (CoreE op [''is a directory: '', filePath] (Some ErrInvalid))
                   else case df_ReadAll B file of
                       Inl err \<Rightarrow> Inl (CoreE op [''read failed: '', filePath] (Some err))
                     | Inr data \<Rightarrow> Inr data)))"

text \<open>What \<open>Write\<close>, \<open>Close\<close> and the rename of a file share: store the content, then the parents.\<close>

definition add_file ::
  "go_env \<Rightarrow> ('n, 'f) datanode_api \<Rightarrow> string \<Rightarrow> string \<Rightarrow> 'n datanode_medium \<Rightarrow> 'n datanode_medium option" where
  "add_file E B filePath data m =
     map_option (\<lambda>dirs. \<lparr>dm_dataNode = dn_AddData B filePath data (dm_dataNode m), directorySet = dirs\<rparr>)
       (ensureDirsLocked E (PathDir E filePath) (directorySet m))"

definition Datanode_Write ::
  "go_env \<Rightarrow> ('n, 'f) datanode_api \<Rightarrow> string \<Rightarrow> string \<Rightarrow> 'n datanode_medium \<Rightarrow> gerr option \<times> 'n datanode_medium" where
  "Datanode_Write E B filePath content m =
     (let filePath = normaliseEntryPath E filePath
      in if filePath = '''' then (Some (CoreE ''datanode.Write'' [''empty path''] (Some ErrInvalid)), m)
         else case add_file E B filePath content m of None \<Rightarrow> (Some Diverges, m) | Some m' \<Rightarrow> (None, m'))"

definition Datanode_WriteMode ::
  "go_env \<Rightarrow> ('n, 'f) datanode_api \<Rightarrow> string \<Rightarrow> string \<Rightarrow> file_mode \<Rightarrow> 'n datanode_medium
     \<Rightarrow> gerr option \<times> 'n datanode_medium" where
  "Datanode_WriteMode E B filePath content mode m = Datanode_Write E B filePath content m"

definition Datanode_EnsureDir :: "go_env \<Rightarrow> string \<Rightarrow> 'n datanode_medium \<Rightarrow> gerr option \<times> 'n datanode_medium" where
  "Datanode_EnsureDir E filePath m =
     (let filePath = normaliseEntryPath E filePath
      in if filePath = '''' then (None, m)
         else case ensureDirsLocked E filePath (directorySet m) of
             None \<Rightarrow> (Some Diverges, m)
           | Some dirs \<Rightarrow> (None, m\<lparr>directorySet := dirs\<rparr>))"

definition isFileLocked :: "('n, 'f) datanode_api \<Rightarrow> string \<Rightarrow> 'n datanode_medium \<Rightarrow> bool" where
  "isFileLocked B filePath m =
     (case dn_Stat B filePath (dm_dataNode m) of Inl err \<Rightarrow> False | Inr info \<Rightarrow> \<not> fi_isDir info)"

definition Datanode_IsFile :: "go_env \<Rightarrow> ('n, 'f) datanode_api \<Rightarrow> string \<Rightarrow> 'n datanode_medium \<Rightarrow> bool" where
  "Datanode_IsFile E B filePath m = isFileLocked B (normaliseEntryPath E filePath) m"

subsection \<open>Deleting\<close>

definition hasPrefixLocked ::
  "go_env \<Rightarrow> ('n, 'f) datanode_api \<Rightarrow> string \<Rightarrow> 'n datanode_medium \<Rightarrow> bool res" where
  "hasPrefixLocked E B pre m =
     (case collectAllLocked B (dm_dataNode m) of
        Inl err \<Rightarrow> Inl err
      | Inr entries \<Rightarrow>
          Inr (list_ex (\<lambda>name. HasPrefix E name pre) entries \<or>
               list_ex (\<lambda>directoryPath. HasPrefix E directoryPath pre) (range_keys E (fmdom (directorySet m)))))"

definition deleteDirectoryLocked ::
  "go_env \<Rightarrow> ('n, 'f) datanode_api \<Rightarrow> string \<Rightarrow> 'n datanode_medium \<Rightarrow> gerr option \<times> 'n datanode_medium" where
  "deleteDirectoryLocked E B filePath m =
     (case hasPrefixLocked E B (filePath @ ''/'') m of
        Inl err \<Rightarrow> (Some (CoreE ''datanode.Delete'' [''failed to inspect directory: '', filePath] (Some err)), m)
      | Inr hasChildren \<Rightarrow>
          (if hasChildren
           then (Some (CoreE ''datanode.Delete'' [''directory not empty: '', filePath] (Some ErrExist)), m)
           else (None, m\<lparr>directorySet := fmdrop filePath (directorySet m)\<rparr>)))"

definition deleteDirectoryFallbackLocked ::
  "go_env \<Rightarrow> ('n, 'f) datanode_api \<Rightarrow> string \<Rightarrow> 'n datanode_medium \<Rightarrow> gerr option \<times> 'n datanode_medium" where
  "deleteDirectoryFallbackLocked E B filePath m =
     (if in_directorySet filePath m then deleteDirectoryLocked E B filePath m
      else (Some (CoreE ''datanode.Delete'' [''not found: '', filePath] (Some ErrNotExist)), m))"

definition Datanode_Delete ::
  "go_env \<Rightarrow> ('n, 'f) datanode_api \<Rightarrow> string \<Rightarrow> 'n datanode_medium \<Rightarrow> gerr option \<times> 'n datanode_medium" where
  "Datanode_Delete E B filePath m =
     (let filePath = normaliseEntryPath E filePath
      in if filePath = '''' then (Some (CoreE ''datanode.Delete'' [''cannot delete root''] (Some ErrPermission)), m)
         else case dn_Stat B filePath (dm_dataNode m) of
             Inl err \<Rightarrow> deleteDirectoryFallbackLocked E B filePath m
           | Inr info \<Rightarrow>
               (if fi_isDir info then deleteDirectoryLocked E B filePath m
                else case removeFileLocked B filePath m of
                    (Some err, m') \<Rightarrow>
                      (Some (CoreE ''datanode.Delete'' [''failed to delete file: '', filePath] (Some err)), m')
                  | (None, m') \<Rightarrow> (None, m')))"

definition deleteFileIfPresentLocked ::
  "('n, 'f) datanode_api \<Rightarrow> string \<Rightarrow> 'n datanode_medium \<Rightarrow> bool res \<times> 'n datanode_medium" where
  "deleteFileIfPresentLocked B filePath m =
     (case dn_Stat B filePath (dm_dataNode m) of
        Inl err \<Rightarrow> (Inr False, m)
      | Inr info \<Rightarrow>
          (if fi_isDir info then (Inr False, m)
           else case removeFileLocked B filePath m of
               (Some err, m') \<Rightarrow>
                 (Inl (CoreE ''datanode.DeleteAll'' [''failed to delete file: '', filePath] (Some err)), m')
             | (None, m') \<Rightarrow> (Inr True, m')))"

fun deleteEntriesMatchingLocked ::
  "go_env \<Rightarrow> ('n, 'f) datanode_api \<Rightarrow> string list \<Rightarrow> string \<Rightarrow> string \<Rightarrow> bool \<Rightarrow> 'n datanode_medium
     \<Rightarrow> bool res \<times> 'n datanode_medium" where
  "deleteEntriesMatchingLocked E B [] filePath pre found m = (Inr found, m)"
| "deleteEntriesMatchingLocked E B (name # entries) filePath pre found m =
     (if name \<noteq> filePath \<and> \<not> HasPrefix E name pre
      then deleteEntriesMatchingLocked E B entries filePath pre found m
      else case removeFileLocked B name m of
          (Some err, m') \<Rightarrow>
            (Inl (CoreE ''datanode.DeleteAll'' [''failed to delete file: '', name] (Some err)), m')
        | (None, m') \<Rightarrow> deleteEntriesMatchingLocked E B entries filePath pre True m')"

definition deleteDirectoriesMatchingLocked ::
  "go_env \<Rightarrow> string \<Rightarrow> string \<Rightarrow> 'n datanode_medium \<Rightarrow> bool \<times> 'n datanode_medium" where
  "deleteDirectoriesMatchingLocked E filePath pre m =
     fold (\<lambda>directoryPath (found, m).
         if directoryPath = filePath \<or> HasPrefix E directoryPath pre
         then (True, m\<lparr>directorySet := fmdrop directoryPath (directorySet m)\<rparr>) else (found, m))
       (range_keys E (fmdom (directorySet m))) (False, m)"

definition Datanode_DeleteAll ::
  "go_env \<Rightarrow> ('n, 'f) datanode_api \<Rightarrow> string \<Rightarrow> 'n datanode_medium \<Rightarrow> gerr option \<times> 'n datanode_medium" where
  "Datanode_DeleteAll E B filePath m =
     (let filePath = normaliseEntryPath E filePath; op = ''datanode.DeleteAll''
      in if filePath = '''' then (Some (CoreE op [''cannot delete root''] (Some ErrPermission)), m)
         else let pre = filePath @ ''/''
              in case deleteFileIfPresentLocked B filePath m of
                   (Inl err, m1) \<Rightarrow> (Some err, m1)
                 | (Inr found1, m1) \<Rightarrow>
                     (case collectAllLocked B (dm_dataNode m1) of
                        Inl err \<Rightarrow> (Some (CoreE op [''failed to inspect tree: '', filePath] (Some err)), m1)
                      | Inr entries \<Rightarrow>
                          (case deleteEntriesMatchingLocked E B entries filePath pre False m1 of
                             (Inl err, m2) \<Rightarrow> (Some err, m2)
                           | (Inr found2, m2) \<Rightarrow>
                               (case deleteDirectoriesMatchingLocked E filePath pre m2 of
                                  (found3, m3) \<Rightarrow>
                                    (if \<not> (found3 \<or> found1 \<or> found2)
                                     then (Some (CoreE op [''not found: '', filePath] (Some ErrNotExist)), m3)
                                     else (None, m3))))))"

subsection \<open>Renaming\<close>

definition datanode_renameFileLocked ::
  "go_env \<Rightarrow> ('n, 'f) datanode_api \<Rightarrow> string \<Rightarrow> string \<Rightarrow> 'n datanode_medium \<Rightarrow> gerr option \<times> 'n datanode_medium" where
  "datanode_renameFileLocked E B oldPath newPath m =
     (let op = ''datanode.Rename''
      in case readFileLocked B (dm_dataNode m) oldPath of
           Inl err \<Rightarrow> (Some (CoreE op [''failed to read source file: '', oldPath] (Some err)), m)
         | Inr data \<Rightarrow>
             (case add_file E B newPath data m of
                None \<Rightarrow> (Some Diverges, m)
              | Some m1 \<Rightarrow>
                  (case removeFileLocked B oldPath m1 of
                     (Some err, m2) \<Rightarrow>
                       (Some (CoreE op [''failed to remove source file: '', oldPath] (Some err)), m2)
                   | (None, m2) \<Rightarrow> (None, m2))))"

text \<open>The body of the loop over the files below the old path.\<close>

definition move_file_below ::
  "go_env \<Rightarrow> ('n, 'f) datanode_api \<Rightarrow> string \<Rightarrow> string \<Rightarrow> string \<Rightarrow> 'n datanode_medium \<Rightarrow> gerr option \<times> 'n datanode_medium" where
  "move_file_below E B oldPrefix newPrefix name m =
     (let op = ''datanode.Rename''
      in if HasPrefix E name oldPrefix then
           (let newName = Concat E [newPrefix, TrimPrefix E name oldPrefix]
            in case readFileLocked B (dm_dataNode m) name of
                 Inl err \<Rightarrow> (Some (CoreE op [''failed to read source file: '', name] (Some err)), m)
               | Inr data \<Rightarrow>
                   (case removeFileLocked B name (m\<lparr>dm_dataNode := dn_AddData B newName data (dm_dataNode m)\<rparr>) of
                      (Some err, m') \<Rightarrow>
                        (Some (CoreE op [''failed to remove source file: '', name] (Some err)), m')
                    | (None, m') \<Rightarrow> (None, m')))
         else (None, m))"

definition dirs_to_move :: "go_env \<Rightarrow> string \<Rightarrow> string \<Rightarrow> (string, bool) fmap \<Rightarrow> (string, string) fmap" where
  "dirs_to_move E oldPath newPath dirs =
     fold (\<lambda>directoryPath dirsToMove.
         if directoryPath = oldPath \<or> HasPrefix E directoryPath (oldPath @ ''/'')
         then fmupd directoryPath (Concat E [newPath, TrimPrefix E directoryPath oldPath]) dirsToMove
         else dirsToMove)
       (range_keys E (fmdom dirs)) fmempty"

definition move_dirs :: "go_env \<Rightarrow> (string, string) fmap \<Rightarrow> (string, bool) fmap \<Rightarrow> (string, bool) fmap" where
  "move_dirs E dirsToMove dirs =
     fold (\<lambda>oldDirectoryPath dirs.
         case fmlookup dirsToMove oldDirectoryPath of
           None \<Rightarrow> dirs
         | Some newDirectoryPath \<Rightarrow> fmupd newDirectoryPath True (fmdrop oldDirectoryPath dirs))
       (range_keys E (fmdom dirsToMove)) dirs"

definition datanode_renameDirectoryLocked ::
  "go_env \<Rightarrow> ('n, 'f) datanode_api \<Rightarrow> string \<Rightarrow> string \<Rightarrow> 'n datanode_medium \<Rightarrow> gerr option \<times> 'n datanode_medium" where
  "datanode_renameDirectoryLocked E B oldPath newPath m =
     (let oldPrefix = oldPath @ ''/''; newPrefix = newPath @ ''/''
      in case collectAllLocked B (dm_dataNode m) of
           Inl err \<Rightarrow> (Some (CoreE ''datanode.Rename'' [''failed to inspect tree: '', oldPath] (Some err)), m)
         | Inr entries \<Rightarrow>
             (case each (move_file_below E B oldPrefix newPrefix) entries m of
                (Some err, m1) \<Rightarrow> (Some err, m1)
              | (None, m1) \<Rightarrow>
                  (None, m1\<lparr>directorySet := move_dirs E (dirs_to_move E oldPath newPath (directorySet m1))
                      (directorySet m1)\<rparr>)))"

definition Datanode_Rename ::
  "go_env \<Rightarrow> ('n, 'f) datanode_api \<Rightarrow> string \<Rightarrow> string \<Rightarrow> 'n datanode_medium \<Rightarrow> gerr option \<times> 'n datanode_medium" where
  "Datanode_Rename E B oldPath newPath m =
     (let oldPath = normaliseEntryPath E oldPath; newPath = normaliseEntryPath E newPath
      in case dn_Stat B oldPath (dm_dataNode m) of
           Inl err \<Rightarrow> (Some (CoreE ''datanode.Rename'' [''not found: '', oldPath] (Some ErrNotExist)), m)
         | Inr info \<Rightarrow>
             (if \<not> fi_isDir info then datanode_renameFileLocked E B oldPath newPath m
              else datanode_renameDirectoryLocked E B oldPath newPath m))"

subsection \<open>Listing\<close>

text \<open>The methods of \<open>fileInfo\<close> and \<open>dirEntry\<close>, as the medium builds them.\<close>

definition datanode_dirInfo :: "string \<Rightarrow> file_info" where
  "datanode_dirInfo name = NewFileInfo name 0 (ModeDir OR 493) zero_time True"

definition datanode_dirEntry :: "string \<Rightarrow> dir_entry" where
  "datanode_dirEntry name = NewDirEntry name True ModeDir (datanode_dirInfo name)"

text \<open>The body of the loop over the directories, with the set of names \<open>seen\<close> and the entries so far.\<close>

definition list_directory ::
  "go_env \<Rightarrow> string \<Rightarrow> string \<Rightarrow> string set \<times> dir_entry list \<Rightarrow> string set \<times> dir_entry list" where
  "list_directory E pre directoryPath acc =
     (if \<not> HasPrefix E directoryPath pre then acc
      else let rest = TrimPrefix E directoryPath pre
           in if rest = '''' then acc
              else let first = SplitN E rest ''/'' 2 ! 0
                   in if first \<in> fst acc then acc
                      else (insert first (fst acc), snd acc @ [datanode_dirEntry first]))"

text \<open>\<open>slices.SortFunc\<close> sorts by name; the names are distinct, so there is one result.\<close>

definition Datanode_List ::
  "go_env \<Rightarrow> ('n, 'f) datanode_api \<Rightarrow> string \<Rightarrow> 'n datanode_medium \<Rightarrow> dir_entry list res" where
  "Datanode_List E B filePath m =
     (let filePath = normaliseEntryPath E filePath
      in case dn_ReadDir B filePath (dm_dataNode m) of
           Inl err \<Rightarrow>
             (if filePath = '''' \<or> in_directorySet filePath m then Inr []
              else Inl (CoreE ''datanode.List'' [''not found: '', filePath] (Some ErrNotExist)))
         | Inr entries \<Rightarrow>
             (let pre = (if filePath \<noteq> '''' then filePath @ ''/'' else filePath)
              in Inr (sort_key de_name (snd (fold (list_directory E pre) (range_keys E (fmdom (directorySet m)))
                   (de_name ` set entries, entries))))))"

definition Datanode_Stat ::
  "go_env \<Rightarrow> ('n, 'f) datanode_api \<Rightarrow> string \<Rightarrow> 'n datanode_medium \<Rightarrow> file_info res" where
  "Datanode_Stat E B filePath m =
     (let filePath = normaliseEntryPath E filePath
      in if filePath = '''' then Inr (datanode_dirInfo ''.'')
         else case dn_Stat B filePath (dm_dataNode m) of
             Inr info \<Rightarrow> Inr info
           | Inl err \<Rightarrow>
               (if in_directorySet filePath m then Inr (datanode_dirInfo (PathBase E filePath))
                else Inl (CoreE ''datanode.Stat'' [''not found: '', filePath] (Some ErrNotExist))))"

definition Datanode_Open :: "go_env \<Rightarrow> ('n, 'f) datanode_api \<Rightarrow> string \<Rightarrow> 'n datanode_medium \<Rightarrow> 'f res" where
  "Datanode_Open E B filePath m = dn_Open B (normaliseEntryPath E filePath) (dm_dataNode m)"

definition Datanode_Exists :: "go_env \<Rightarrow> ('n, 'f) datanode_api \<Rightarrow> string \<Rightarrow> 'n datanode_medium \<Rightarrow> bool" where
  "Datanode_Exists E B filePath m \<longleftrightarrow>
     (let filePath = normaliseEntryPath E filePath
      in filePath = '''' \<or> is_ok (dn_Stat B filePath (dm_dataNode m)) \<or> in_directorySet filePath m)"

definition Datanode_IsDir :: "go_env \<Rightarrow> ('n, 'f) datanode_api \<Rightarrow> string \<Rightarrow> 'n datanode_medium \<Rightarrow> bool" where
  "Datanode_IsDir E B filePath m \<longleftrightarrow>
     (let filePath = normaliseEntryPath E filePath
      in filePath = '''' \<or> (case dn_Stat B filePath (dm_dataNode m) of
           Inr info \<Rightarrow> fi_isDir info | Inl err \<Rightarrow> in_directorySet filePath m))"

subsection \<open>Streams\<close>

record datanode_writer =
  dw_path :: string
  dw_buffer :: string

definition Datanode_Create :: "go_env \<Rightarrow> string \<Rightarrow> datanode_writer res" where
  "Datanode_Create E filePath =
     (let filePath = normaliseEntryPath E filePath
      in if filePath = '''' then Inl (CoreE ''datanode.Create'' [''empty path''] (Some ErrInvalid))
         else Inr \<lparr>dw_path = filePath, dw_buffer = ''''\<rparr>)"

definition Datanode_Append ::
  "go_env \<Rightarrow> ('n, 'f) datanode_api \<Rightarrow> string \<Rightarrow> 'n datanode_medium \<Rightarrow> datanode_writer res" where
  "Datanode_Append E B filePath m =
     (let filePath = normaliseEntryPath E filePath; op = ''datanode.Append''
      in if filePath = '''' then Inl (CoreE op [''empty path''] (Some ErrInvalid))
         else if isFileLocked B filePath m then
           (case readFileLocked B (dm_dataNode m) filePath of
              Inl err \<Rightarrow> Inl (CoreE op [''failed to read existing content: '', filePath] (Some err))
            | Inr data \<Rightarrow> Inr \<lparr>dw_path = filePath, dw_buffer = data\<rparr>)
         else Inr \<lparr>dw_path = filePath, dw_buffer = ''''\<rparr>)"

definition Datanode_ReadStream ::
  "go_env \<Rightarrow> ('n, 'f) datanode_api \<Rightarrow> string \<Rightarrow> 'n datanode_medium \<Rightarrow> 'f res" where
  "Datanode_ReadStream E B filePath m =
     (let filePath = normaliseEntryPath E filePath
      in case dn_Open B filePath (dm_dataNode m) of
           Inl err \<Rightarrow> Inl (CoreE ''datanode.ReadStream'' [''not found: '', filePath] (Some ErrNotExist))
         | Inr file \<Rightarrow> Inr file)"

definition Datanode_WriteStream :: "go_env \<Rightarrow> string \<Rightarrow> datanode_writer res" where
  "Datanode_WriteStream E filePath = Datanode_Create E filePath"

definition writeCloser_Write :: "string \<Rightarrow> datanode_writer \<Rightarrow> nat res \<times> datanode_writer" where
  "writeCloser_Write data w = (Inr (length data), w\<lparr>dw_buffer := dw_buffer w @ data\<rparr>)"

definition writeCloser_Close ::
  "go_env \<Rightarrow> ('n, 'f) datanode_api \<Rightarrow> datanode_writer \<Rightarrow> 'n datanode_medium \<Rightarrow> gerr option \<times> 'n datanode_medium" where
  "writeCloser_Close E B w m =
     (case add_file E B (dw_path w) (dw_buffer w) m of None \<Rightarrow> (Some Diverges, m) | Some m' \<Rightarrow> (None, m'))"

definition Datanode_medium ::
  "go_env \<Rightarrow> ('n, 'f) datanode_api \<Rightarrow> ('n datanode_medium, 'f, 'f, datanode_writer) medium" where
  "Datanode_medium E B =
     \<lparr>m_Read = Datanode_Read E B, m_Write = (\<lambda>_. Datanode_Write E B),
      m_WriteMode = (\<lambda>_. Datanode_WriteMode E B), m_EnsureDir = Datanode_EnsureDir E,
      m_IsFile = Datanode_IsFile E B, m_Delete = Datanode_Delete E B, m_DeleteAll = Datanode_DeleteAll E B,
      m_Rename = Datanode_Rename E B, m_List = (\<lambda>_. Datanode_List E B), m_Stat = (\<lambda>_. Datanode_Stat E B),
      m_Open = (\<lambda>_. Datanode_Open E B), m_Create = pure_open (\<lambda>p s. Datanode_Create E p),
      m_Append = pure_open (Datanode_Append E B), m_ReadStream = (\<lambda>_. Datanode_ReadStream E B),
      m_WriteStream = pure_open (\<lambda>p s. Datanode_WriteStream E p), m_Exists = Datanode_Exists E B,
      m_IsDir = Datanode_IsDir E B\<rparr>"

end
