(* ===== verification/Cube.thy ===== *)
theory Cube
  imports CryptoSigil Local Datanode
begin

text \<open>
  Package \<open>cube\<close>: the encrypting medium and the archives of \<open>go/cube/cube.go\<close>.  The medium wraps
  an inner medium; its state is the inner state beside that of the random reader.  The Borg
  DataNode and the Trix container are not part of the repository: the record \<open>borg\<close> holds the
  functions the code calls.
\<close>

subsection \<open>The encrypting medium\<close>

record ('s, 'f, 'r, 'w, 'e) cube_medium =
  cm_inner :: "('s, 'f, 'r, 'w) medium"
  cm_sigil :: "'e chacha_sigil"

text \<open>What the medium needs to run: the cipher and the default random reader.\<close>

record 'e cube_env =
  ce_cipher :: chacha
  ce_sha :: "bytes \<Rightarrow> bytes"
  ce_rand :: "'e reader"

definition cube_sigils :: "'e cube_env \<Rightarrow> ('s, 'f, 'r, 'w, 'e) cube_medium \<Rightarrow> 'e sigil list" where
  "cube_sigils K M = [ChaChaPolySigil (ce_cipher K) (ce_rand K) (cm_sigil M)]"

definition Cube_New ::
  "'e cube_env \<Rightarrow> ('s, 'f, 'r, 'w) medium option \<Rightarrow> go_bytes \<Rightarrow> ('s, 'f, 'r, 'w, 'e) cube_medium res" where
  "Cube_New K inner key =
     (case inner of
        None \<Rightarrow> Inl (CoreE ''cube.New'' [''inner medium is required''] (Some ErrInvalid))
      | Some inner \<Rightarrow>
          (case NewChaChaPolySigil (ce_sha K) (ce_rand K) key NilArg of
             Inl err \<Rightarrow> Inl (CoreE ''cube.New'' [''failed to create cipher sigil''] (Some err))
           | Inr cipherSigil \<Rightarrow> Inr \<lparr>cm_inner = inner, cm_sigil = cipherSigil\<rparr>))"

definition Cube_Inner :: "('s, 'f, 'r, 'w, 'e) cube_medium \<Rightarrow> ('s, 'f, 'r, 'w) medium" where
  "Cube_Inner M = cm_inner M"

definition Cube_Read ::
  "'e cube_env \<Rightarrow> ('s, 'f, 'r, 'w, 'e) cube_medium \<Rightarrow> string \<Rightarrow> 's \<times> 'e \<Rightarrow> string res" where
  "Cube_Read K M path st =
     (case st of (s, e) \<Rightarrow>
        (case m_Read (cm_inner M) path s of
           Inl err \<Rightarrow> Inl err
         | Inr ciphertext \<Rightarrow>
             (case fst (Untransmute (Some ciphertext) (cube_sigils K M) e) of
                Inl err \<Rightarrow> Inl (CoreE ''cube.Read'' [''failed to decrypt: '', path] (Some err))
              | Inr plaintext \<Rightarrow> Inr (data_of plaintext))))"

definition Cube_WriteMode ::
  "'e cube_env \<Rightarrow> ('s, 'f, 'r, 'w, 'e) cube_medium \<Rightarrow> gotime \<Rightarrow> string \<Rightarrow> string \<Rightarrow> file_mode \<Rightarrow> 's \<times> 'e
     \<Rightarrow> gerr option \<times> 's \<times> 'e" where
  "Cube_WriteMode K M now path content mode st =
     (case st of (s, e) \<Rightarrow>
        (case Transmute (Some content) (cube_sigils K M) e of
           (Inl err, e') \<Rightarrow> (Some (CoreE ''cube.WriteMode'' [''failed to encrypt: '', path] (Some err)), s, e')
         | (Inr ciphertext, e') \<Rightarrow>
             (case m_WriteMode (cm_inner M) now path (data_of ciphertext) mode s of
                (r, s') \<Rightarrow> (r, s', e'))))"

definition Cube_Write ::
  "'e cube_env \<Rightarrow> ('s, 'f, 'r, 'w, 'e) cube_medium \<Rightarrow> gotime \<Rightarrow> string \<Rightarrow> string \<Rightarrow> 's \<times> 'e
     \<Rightarrow> gerr option \<times> 's \<times> 'e" where
  "Cube_Write K M now path content st = Cube_WriteMode K M now path content 420 st"

text \<open>The methods that only call the inner medium.\<close>

definition on_inner :: "('s \<Rightarrow> 'a \<times> 's) \<Rightarrow> 's \<times> 'e \<Rightarrow> 'a \<times> 's \<times> 'e" where
  "on_inner f st = (case st of (s, e) \<Rightarrow> case f s of (r, s') \<Rightarrow> (r, s', e))"

definition Cube_EnsureDir :: "('s, 'f, 'r, 'w, 'e) cube_medium \<Rightarrow> string \<Rightarrow> 's \<times> 'e \<Rightarrow> gerr option \<times> 's \<times> 'e" where
  "Cube_EnsureDir M path = on_inner (m_EnsureDir (cm_inner M) path)"

definition Cube_IsFile :: "('s, 'f, 'r, 'w, 'e) cube_medium \<Rightarrow> string \<Rightarrow> 's \<times> 'e \<Rightarrow> bool" where
  "Cube_IsFile M path st = m_IsFile (cm_inner M) path (fst st)"

definition Cube_Delete :: "('s, 'f, 'r, 'w, 'e) cube_medium \<Rightarrow> string \<Rightarrow> 's \<times> 'e \<Rightarrow> gerr option \<times> 's \<times> 'e" where
  "Cube_Delete M path = on_inner (m_Delete (cm_inner M) path)"

definition Cube_DeleteAll :: "('s, 'f, 'r, 'w, 'e) cube_medium \<Rightarrow> string \<Rightarrow> 's \<times> 'e \<Rightarrow> gerr option \<times> 's \<times> 'e" where
  "Cube_DeleteAll M path = on_inner (m_DeleteAll (cm_inner M) path)"

definition Cube_Rename ::
  "('s, 'f, 'r, 'w, 'e) cube_medium \<Rightarrow> string \<Rightarrow> string \<Rightarrow> 's \<times> 'e \<Rightarrow> gerr option \<times> 's \<times> 'e" where
  "Cube_Rename M oldPath newPath = on_inner (m_Rename (cm_inner M) oldPath newPath)"

definition Cube_List :: "('s, 'f, 'r, 'w, 'e) cube_medium \<Rightarrow> gotime \<Rightarrow> string \<Rightarrow> 's \<times> 'e \<Rightarrow> dir_entry list res" where
  "Cube_List M now path st = m_List (cm_inner M) now path (fst st)"

definition Cube_Stat :: "('s, 'f, 'r, 'w, 'e) cube_medium \<Rightarrow> gotime \<Rightarrow> string \<Rightarrow> 's \<times> 'e \<Rightarrow> file_info res" where
  "Cube_Stat M now path st = m_Stat (cm_inner M) now path (fst st)"

definition Cube_Exists :: "('s, 'f, 'r, 'w, 'e) cube_medium \<Rightarrow> string \<Rightarrow> 's \<times> 'e \<Rightarrow> bool" where
  "Cube_Exists M path st = m_Exists (cm_inner M) path (fst st)"

definition Cube_IsDir :: "('s, 'f, 'r, 'w, 'e) cube_medium \<Rightarrow> string \<Rightarrow> 's \<times> 'e \<Rightarrow> bool" where
  "Cube_IsDir M path st = m_IsDir (cm_inner M) path (fst st)"

record cube_file =
  cf_name :: string
  cf_content :: string
  cf_offset :: nat
  cf_mode :: file_mode
  cf_modTime :: gotime

definition Cube_Open ::
  "go_env \<Rightarrow> 'e cube_env \<Rightarrow> ('s, 'f, 'r, 'w, 'e) cube_medium \<Rightarrow> gotime \<Rightarrow> string \<Rightarrow> 's \<times> 'e \<Rightarrow> cube_file res" where
  "Cube_Open E K M now path st =
     (case st of (s, e) \<Rightarrow>
        (case m_Read (cm_inner M) path s of
           Inl err \<Rightarrow> Inl err
         | Inr ciphertext \<Rightarrow>
             (case fst (Untransmute (Some ciphertext) (cube_sigils K M) e) of
                Inl err \<Rightarrow> Inl (CoreE ''cube.Open'' [''failed to decrypt: '', path] (Some err))
              | Inr plaintext \<Rightarrow>
                  (let info = (case m_Stat (cm_inner M) now path s of
                       Inr info \<Rightarrow> info
                     | Inl _ \<Rightarrow> NewFileInfo (PathBase E path) (int (length (data_of plaintext))) 420 now False)
                   in Inr \<lparr>cf_name = PathBase E path, cf_content = data_of plaintext, cf_offset = 0,
                        cf_mode = fi_mode info, cf_modTime = fi_modTime info\<rparr>))))"

record cube_writer =
  cw_path :: string
  cw_data :: string
  cw_mode :: file_mode

definition Cube_Create :: "string \<Rightarrow> 's \<times> 'e \<Rightarrow> cube_writer res" where
  "Cube_Create path st = Inr \<lparr>cw_path = path, cw_data = '''', cw_mode = 420\<rparr>"

definition Cube_Append ::
  "'e cube_env \<Rightarrow> ('s, 'f, 'r, 'w, 'e) cube_medium \<Rightarrow> string \<Rightarrow> 's \<times> 'e \<Rightarrow> cube_writer res" where
  "Cube_Append K M path st =
     (if m_Exists (cm_inner M) path (fst st) then
        (case Cube_Read K M path st of
           Inl err \<Rightarrow> Inl err
         | Inr plain \<Rightarrow> Inr \<lparr>cw_path = path, cw_data = plain, cw_mode = 420\<rparr>)
      else Inr \<lparr>cw_path = path, cw_data = '''', cw_mode = 420\<rparr>)"

definition Cube_ReadStream ::
  "go_env \<Rightarrow> 'e cube_env \<Rightarrow> ('s, 'f, 'r, 'w, 'e) cube_medium \<Rightarrow> gotime \<Rightarrow> string \<Rightarrow> 's \<times> 'e \<Rightarrow> cube_file res" where
  "Cube_ReadStream E K M now path st =
     (case Cube_Open E K M now path st of Inl err \<Rightarrow> Inl err | Inr f \<Rightarrow> Inr f)"

definition Cube_WriteStream :: "string \<Rightarrow> 's \<times> 'e \<Rightarrow> cube_writer res" where
  "Cube_WriteStream path st = Cube_Create path st"

definition cubeFile_Stat :: "cube_file \<Rightarrow> file_info res" where
  "cubeFile_Stat f =
     Inr (NewFileInfo (cf_name f) (int (length (cf_content f))) (cf_mode f) (cf_modTime f) False)"

definition cubeFile_Read :: "nat \<Rightarrow> cube_file \<Rightarrow> string res \<times> cube_file" where
  "cubeFile_Read n f =
     (if cf_offset f \<ge> length (cf_content f) then (Inl ErrEOF, f)
      else let chunk = take n (drop (cf_offset f) (cf_content f))
           in (Inr chunk, f\<lparr>cf_offset := cf_offset f + length chunk\<rparr>))"

definition cubeWriteCloser_Write :: "string \<Rightarrow> cube_writer \<Rightarrow> nat res \<times> cube_writer" where
  "cubeWriteCloser_Write data w = (Inr (length data), w\<lparr>cw_data := cw_data w @ data\<rparr>)"

definition cubeWriteCloser_Close ::
  "'e cube_env \<Rightarrow> ('s, 'f, 'r, 'w, 'e) cube_medium \<Rightarrow> gotime \<Rightarrow> cube_writer \<Rightarrow> 's \<times> 'e \<Rightarrow> gerr option \<times> 's \<times> 'e" where
  "cubeWriteCloser_Close K M now w st =
     (let mode = (if cw_mode w = 0 then 420 else cw_mode w)
      in Cube_WriteMode K M now (cw_path w) (cw_data w) mode st)"

definition Cube_medium ::
  "go_env \<Rightarrow> 'e cube_env \<Rightarrow> ('s, 'f, 'r, 'w, 'e) cube_medium \<Rightarrow> ('s \<times> 'e, cube_file, cube_file, cube_writer) medium" where
  "Cube_medium E K M =
     \<lparr>m_Read = Cube_Read K M, m_Write = Cube_Write K M, m_WriteMode = Cube_WriteMode K M,
      m_EnsureDir = Cube_EnsureDir M, m_IsFile = Cube_IsFile M, m_Delete = Cube_Delete M,
      m_DeleteAll = Cube_DeleteAll M, m_Rename = Cube_Rename M, m_List = Cube_List M,
      m_Stat = Cube_Stat M, m_Open = Cube_Open E K M, m_Create = pure_open Cube_Create,
      m_Append = pure_open (Cube_Append K M), m_ReadStream = Cube_ReadStream E K M,
      m_WriteStream = pure_open Cube_WriteStream, m_Exists = Cube_Exists M, m_IsDir = Cube_IsDir M\<rparr>"

subsection \<open>Paths of archives\<close>

definition archiveChildPath :: "go_env \<Rightarrow> string \<Rightarrow> string \<Rightarrow> string" where
  "archiveChildPath E parent name =
     (let name = TrimPrefix E (CleanPath E name ''/'') ''/''
      in if name = ''.'' then parent
         else if parent = '''' then name
         else if name = parent \<or> HasPrefix E name (parent @ ''/'') then name
         else PathJoin E [parent, name])"

definition hasParentPathSegment :: "go_env \<Rightarrow> string \<Rightarrow> bool" where
  "hasParentPathSegment E name \<longleftrightarrow> list_ex (\<lambda>part. part = ''..'') (Split E name ''/'')"

text \<open>The result is the cleaned name, or \<open>None\<close> for an entry to be skipped.\<close>

definition validatedTarEntryName :: "go_env \<Rightarrow> string \<Rightarrow> string option res" where
  "validatedTarEntryName E rawName =
     (let invalid = (\<lambda>name. Inl (CoreE ''cube.extract'' [''invalid tar entry path: '', name] (Some ErrInvalid)))
      in if rawName = '''' then Inr None
         else if HasPrefix E rawName ''/'' \<or> Contains E rawName backslash then invalid rawName
         else let name = TrimPrefix E rawName ''/''
              in if name = '''' \<or> HasSuffix E name ''/'' then Inr None
                 else if hasParentPathSegment E name then invalid name
                 else let clean = CleanPath E name ''/''
                      in if clean = ''.'' \<or> clean = '''' \<or> clean = ''..'' \<or> HasPrefix E clean ''../''
                         then invalid name else Inr (Some clean))"

definition validateCubeKey :: "'e cube_env \<Rightarrow> string \<Rightarrow> go_bytes \<Rightarrow> gerr option" where
  "validateCubeKey K operation key =
     (case NewChaChaPolySigil (ce_sha K) (ce_rand K) key NilArg of
        Inl err \<Rightarrow> Some (CoreE operation [''failed to create cipher''] (Some err))
      | Inr _ \<Rightarrow> None)"

definition sandboxedLocalForPath ::
  "go_env \<Rightarrow> ('o, 'f, 'w) os_api \<Rightarrow> string \<Rightarrow> string \<Rightarrow> 'o \<Rightarrow> (('o, 'f, 'f, 'w) medium \<times> string) res" where
  "sandboxedLocalForPath E S operation filePath fs =
     (if filePath = '''' then Inl (CoreE operation [''path is required''] (Some ErrInvalid))
      else if \<not> PathIsAbs E filePath then
        (case NewSandboxed E S ''.'' fs of
           Inl err \<Rightarrow> Inl (CoreE operation [''failed to access local filesystem''] (Some err))
         | Inr medium \<Rightarrow> Inr (medium, filePath))
      else let root = PathDir E filePath; relativePath = PathBase E filePath
           in if root = ''/'' \<or> relativePath = '''' \<or> relativePath = ''.'' \<or> relativePath = ''/''
              then Inl (CoreE operation [''invalid local path: '', filePath] (Some ErrInvalid))
              else case NewSandboxed E S root fs of
                  Inl err \<Rightarrow> Inl (CoreE operation [''failed to access local filesystem''] (Some err))
                | Inr medium \<Rightarrow> Inr (medium, relativePath))"

subsection \<open>Archives\<close>

text \<open>
  Borg's DataNode and Trix container.  \<open>bd_Open\<close> gives the error of \<open>Open\<close> or what reading the
  file to its end gives.
\<close>

record 'n borg =
  bd_New :: 'n
  bd_AddData :: "string \<Rightarrow> bytes \<Rightarrow> 'n \<Rightarrow> 'n"
  bd_ReadDir :: "string \<Rightarrow> 'n \<Rightarrow> dir_entry list res"
  bd_Open :: "string \<Rightarrow> 'n \<Rightarrow> bytes res res"
  trix_To :: "'n \<Rightarrow> bytes \<Rightarrow> bytes res"
  trix_From :: "bytes \<Rightarrow> bytes \<Rightarrow> 'n res"

text \<open>
  \<open>addMediumPathToBorgDataNode\<close> lists a directory and loops over its entries, calling itself for
  the directories among them; \<open>archive_loop\<close> is the loop, with the listing of the recursive call
  written out.  \<open>None\<close> means that the code does not return.
\<close>

definition archive_list :: "('s, 'f, 'r, 'w) medium \<Rightarrow> gotime \<Rightarrow> 's \<Rightarrow> string \<Rightarrow> dir_entry list res" where
  "archive_list source now s directoryPath =
     (case m_List source now directoryPath s of
        Inl err \<Rightarrow> Inl (CoreE ''cube.archive'' [''failed to list: '', directoryPath] (Some err))
      | Inr entries \<Rightarrow> Inr entries)"

partial_function (option) archive_loop ::
  "go_env \<Rightarrow> ('s, 'f, 'r, 'w) medium \<Rightarrow> gotime \<Rightarrow> 's \<Rightarrow> 'n borg \<Rightarrow> string \<Rightarrow> dir_entry list \<Rightarrow> 'n
     \<Rightarrow> (gerr option \<times> 'n) option" where
  "archive_loop E source now s B directoryPath entries dataNode =
     (case entries of
        [] \<Rightarrow> Some (None, dataNode)
      | entry # rest \<Rightarrow>
          (let childPath = archiveChildPath E directoryPath (de_name entry)
           in if de_isDir entry then
                (case archive_list source now s childPath of
                   Inl err \<Rightarrow> Some (Some err, dataNode)
                 | Inr children \<Rightarrow>
                     Option.bind (archive_loop E source now s B childPath children dataNode)
                       (\<lambda>r. case fst r of
                          Some err \<Rightarrow> Some (Some err, snd r)
                        | None \<Rightarrow> archive_loop E source now s B directoryPath rest (snd r)))
              else (case m_Read source childPath s of
                   Inl err \<Rightarrow>
                     Some (Some (CoreE ''cube.archive'' [''failed to read: '', childPath] (Some err)), dataNode)
                 | Inr content \<Rightarrow>
                     archive_loop E source now s B directoryPath rest (bd_AddData B childPath content dataNode))))"

declare archive_loop.simps [code]

definition addMediumPathToBorgDataNode ::
  "go_env \<Rightarrow> ('s, 'f, 'r, 'w) medium \<Rightarrow> gotime \<Rightarrow> 's \<Rightarrow> 'n borg \<Rightarrow> string \<Rightarrow> 'n \<Rightarrow> (gerr option \<times> 'n) option" where
  "addMediumPathToBorgDataNode E source now s B directoryPath dataNode =
     (case archive_list source now s directoryPath of
        Inl err \<Rightarrow> Some (Some err, dataNode)
      | Inr entries \<Rightarrow> archive_loop E source now s B directoryPath entries dataNode)"

definition archiveMediumToBorgDataNode ::
  "go_env \<Rightarrow> ('s, 'f, 'r, 'w) medium \<Rightarrow> gotime \<Rightarrow> 's \<Rightarrow> 'n borg \<Rightarrow> 'n res option" where
  "archiveMediumToBorgDataNode E source now s B =
     map_option (\<lambda>(e, dataNode). case e of Some err \<Rightarrow> Inl err | None \<Rightarrow> Inr dataNode)
       (addMediumPathToBorgDataNode E source now s B '''' (bd_New B))"

definition Cube_Pack ::
  "go_env \<Rightarrow> ('o, 'f, 'w) os_api \<Rightarrow> 'e cube_env \<Rightarrow> 'n borg \<Rightarrow> gotime \<Rightarrow> string
     \<Rightarrow> ('s, 'g, 'q, 'v) medium option \<Rightarrow> 's \<Rightarrow> go_bytes \<Rightarrow> 'o \<Rightarrow> gerr option \<times> 'o" where
  "Cube_Pack E S K B now outputPath source s key fs =
     (case source of
        None \<Rightarrow> (Some (CoreE ''cube.Pack'' [''source medium is required''] (Some ErrInvalid)), fs)
      | Some source \<Rightarrow>
          (if outputPath = '''' then (Some (CoreE ''cube.Pack'' [''output path is required''] (Some ErrInvalid)), fs)
           else case validateCubeKey K ''cube.Pack'' key of
               Some err \<Rightarrow> (Some err, fs)
             | None \<Rightarrow>
                 (case archiveMediumToBorgDataNode E source now s B of
                    None \<Rightarrow> (Some Diverges, fs)
                  | Some (Inl err) \<Rightarrow>
                      (Some (CoreE ''cube.Pack'' [''failed to build Borg DataNode''] (Some err)), fs)
                  | Some (Inr dataNode) \<Rightarrow>
                      (case trix_To B dataNode (data_of key) of
                         Inl err \<Rightarrow>
                           (Some (CoreE ''cube.Pack'' [''failed to encode Borg Trix container''] (Some err)), fs)
                       | Inr ciphertext \<Rightarrow>
                           (case sandboxedLocalForPath E S ''cube.Pack'' outputPath fs of
                              Inl err \<Rightarrow> (Some err, fs)
                            | Inr (localMedium, relativePath) \<Rightarrow>
                                m_WriteMode localMedium now relativePath ciphertext 384 fs)))))"

definition writeBorgDataNodeFile ::
  "go_env \<Rightarrow> 'n borg \<Rightarrow> ('s, 'f, 'r, 'w) medium \<Rightarrow> gotime \<Rightarrow> 'n \<Rightarrow> string \<Rightarrow> 's \<Rightarrow> gerr option \<times> 's" where
  "writeBorgDataNodeFile E B destination now dataNode filePath s =
     (case validatedTarEntryName E filePath of
        Inl err \<Rightarrow> (Some err, s)
      | Inr None \<Rightarrow> (None, s)
      | Inr (Some name) \<Rightarrow>
          (case bd_Open B filePath dataNode of
             Inl err \<Rightarrow> (Some (CoreE ''cube.extract'' [''failed to open Borg DataNode file: '', filePath] (Some err)), s)
           | Inr (Inl err) \<Rightarrow>
               (Some (CoreE ''cube.extract'' [''failed to read Borg DataNode file: '', filePath] (Some err)), s)
           | Inr (Inr content) \<Rightarrow>
               (case m_WriteMode destination now name content 420 s of
                  (Some err, s') \<Rightarrow> (Some (CoreE ''cube.extract'' [''failed to write entry: '', name] (Some err)), s')
                | (None, s') \<Rightarrow> (None, s'))))"

definition extract_list :: "'n borg \<Rightarrow> 'n \<Rightarrow> string \<Rightarrow> dir_entry list res" where
  "extract_list B dataNode directoryPath =
     (case bd_ReadDir B directoryPath dataNode of
        Inl err \<Rightarrow> Inl (CoreE ''cube.extract'' [''failed to list Borg DataNode: '', directoryPath] (Some err))
      | Inr entries \<Rightarrow> Inr entries)"

partial_function (option) extract_loop ::
  "go_env \<Rightarrow> 'n borg \<Rightarrow> ('s, 'f, 'r, 'w) medium \<Rightarrow> gotime \<Rightarrow> 'n \<Rightarrow> string \<Rightarrow> dir_entry list \<Rightarrow> 's
     \<Rightarrow> (gerr option \<times> 's) option" where
  "extract_loop E B destination now dataNode directoryPath entries s =
     (case entries of
        [] \<Rightarrow> Some (None, s)
      | entry # rest \<Rightarrow>
          (let childPath = archiveChildPath E directoryPath (de_name entry)
           in if de_isDir entry then
                (case extract_list B dataNode childPath of
                   Inl err \<Rightarrow> Some (Some err, s)
                 | Inr children \<Rightarrow>
                     Option.bind (extract_loop E B destination now dataNode childPath children s)
                       (\<lambda>r. case fst r of
                          Some err \<Rightarrow> Some (Some err, snd r)
                        | None \<Rightarrow> extract_loop E B destination now dataNode directoryPath rest (snd r)))
              else (case writeBorgDataNodeFile E B destination now dataNode childPath s of
                   (Some err, s') \<Rightarrow> Some (Some err, s')
                 | (None, s') \<Rightarrow> extract_loop E B destination now dataNode directoryPath rest s')))"

declare extract_loop.simps [code]

definition writeBorgDataNodeDir ::
  "go_env \<Rightarrow> 'n borg \<Rightarrow> ('s, 'f, 'r, 'w) medium \<Rightarrow> gotime \<Rightarrow> 'n \<Rightarrow> string \<Rightarrow> 's \<Rightarrow> (gerr option \<times> 's) option" where
  "writeBorgDataNodeDir E B destination now dataNode directoryPath s =
     (case extract_list B dataNode directoryPath of
        Inl err \<Rightarrow> Some (Some err, s)
      | Inr entries \<Rightarrow> extract_loop E B destination now dataNode directoryPath entries s)"

definition writeBorgDataNodeToMedium ::
  "go_env \<Rightarrow> 'n borg \<Rightarrow> ('s, 'f, 'r, 'w) medium \<Rightarrow> gotime \<Rightarrow> 'n option \<Rightarrow> 's \<Rightarrow> (gerr option \<times> 's) option" where
  "writeBorgDataNodeToMedium E B destination now dataNode s =
     (case dataNode of
        None \<Rightarrow> Some (Some (CoreE ''cube.extract'' [''Borg DataNode is required''] (Some ErrInvalid)), s)
      | Some dataNode \<Rightarrow> writeBorgDataNodeDir E B destination now dataNode '''' s)"

text \<open>What \<open>Unpack\<close> and \<open>Open\<close> share: reading the cube, checking the key, decoding the container.\<close>

definition decode_cube ::
  "go_env \<Rightarrow> ('o, 'f, 'w) os_api \<Rightarrow> 'e cube_env \<Rightarrow> 'n borg \<Rightarrow> string \<Rightarrow> string \<Rightarrow> go_bytes \<Rightarrow> 'o \<Rightarrow> 'n res" where
  "decode_cube E S K B operation cubePath key fs =
     (case sandboxedLocalForPath E S operation cubePath fs of
        Inl err \<Rightarrow> Inl err
      | Inr (localMedium, relativePath) \<Rightarrow>
          (case m_Read localMedium relativePath fs of
             Inl err \<Rightarrow> Inl (CoreE operation [''failed to read cube: '', cubePath] (Some err))
           | Inr ciphertext \<Rightarrow>
               (case validateCubeKey K operation key of
                  Some err \<Rightarrow> Inl err
                | None \<Rightarrow>
                    (case trix_From B ciphertext (data_of key) of
                       Inl err \<Rightarrow> Inl (CoreE operation [''failed to decode Borg Trix container''] (Some err))
                     | Inr dataNode \<Rightarrow> Inr dataNode))))"

definition Cube_Unpack ::
  "go_env \<Rightarrow> ('o, 'f, 'w) os_api \<Rightarrow> 'e cube_env \<Rightarrow> 'n borg \<Rightarrow> gotime \<Rightarrow> string
     \<Rightarrow> ('s, 'g, 'q, 'v) medium option \<Rightarrow> go_bytes \<Rightarrow> 'o \<Rightarrow> 's \<Rightarrow> gerr option \<times> 's" where
  "Cube_Unpack E S K B now cubePath destination key fs s =
     (case destination of
        None \<Rightarrow> (Some (CoreE ''cube.Unpack'' [''destination medium is required''] (Some ErrInvalid)), s)
      | Some destination \<Rightarrow>
          (if cubePath = '''' then (Some (CoreE ''cube.Unpack'' [''cube path is required''] (Some ErrInvalid)), s)
           else case decode_cube E S K B ''cube.Unpack'' cubePath key fs of
               Inl err \<Rightarrow> (Some err, s)
             | Inr dataNode \<Rightarrow>
                 (case writeBorgDataNodeToMedium E B destination now (Some dataNode) s of
                    None \<Rightarrow> (Some Diverges, s)
                  | Some r \<Rightarrow> r)))"

text \<open>\<open>Open\<close> goes through an archive to the DataNode medium, whose functions are the parameter \<open>D\<close>.\<close>

definition Cube_OpenArchive ::
  "go_env \<Rightarrow> ('o, 'f, 'w) os_api \<Rightarrow> 'e cube_env \<Rightarrow> 'n borg \<Rightarrow> ('n, 'g) datanode_api \<Rightarrow> string \<Rightarrow> go_bytes \<Rightarrow> 'o
     \<Rightarrow> 'n datanode_medium res" where
  "Cube_OpenArchive E S K B D cubePath key fs =
     (let op = ''cube.Open''
      in if cubePath = '''' then Inl (CoreE op [''cube path is required''] (Some ErrInvalid))
         else case decode_cube E S K B op cubePath key fs of
             Inl err \<Rightarrow> Inl err
           | Inr dataNode \<Rightarrow>
               (case dn_ToTar D dataNode of
                  Inl err \<Rightarrow> Inl (CoreE op [''failed to serialize Borg DataNode''] (Some err))
                | Inr tarball \<Rightarrow>
                    (case Datanode_FromTar E D tarball of
                       Inl err \<Rightarrow> Inl (if err = Diverges then Diverges
                           else CoreE op [''failed to load Borg DataNode''] (Some err))
                     | Inr medium \<Rightarrow> Inr medium)))"

subsection \<open>Actions\<close>

text \<open>
  The handlers of \<open>go/cube/actions.go\<close>.  The result is the error given to \<open>core.Fail\<close> or the value
  given to \<open>core.Ok\<close>.
\<close>

definition keyFromOptions :: "'m options \<Rightarrow> string \<Rightarrow> bytes res" where
  "keyFromOptions opts operation =
     (case opts ''key'' of OptBytes key \<Rightarrow> Inr key
      | _ \<Rightarrow> Inl (CoreE operation [''key must be []byte''] (Some ErrInvalid)))"

definition readAction ::
  "'e cube_env \<Rightarrow> ('s, 'f, 'r, 'w) medium options \<Rightarrow> 's \<times> 'e \<Rightarrow> string res" where
  "readAction K opts st =
     (case opt_medium opts ''medium'' of
        Some medium \<Rightarrow> (case m_Read medium (opt_string opts ''path'') (fst st) of
            Inl err \<Rightarrow> Inl err | Inr content \<Rightarrow> Inr content)
      | None \<Rightarrow>
          (case opt_medium opts ''inner'' of
             None \<Rightarrow> Inl (CoreE ''cube.readAction'' [''inner medium is required''] (Some ErrInvalid))
           | Some inner \<Rightarrow>
               (case keyFromOptions opts ''cube.readAction'' of
                  Inl err \<Rightarrow> Inl err
                | Inr key \<Rightarrow>
                    (case Cube_New K (Some inner) (Some key) of
                       Inl err \<Rightarrow> Inl err
                     | Inr medium \<Rightarrow>
                         (case Cube_Read K medium (opt_string opts ''path'') st of
                            Inl err \<Rightarrow> Inl err | Inr content \<Rightarrow> Inr content)))))"

definition writeAction ::
  "'e cube_env \<Rightarrow> gotime \<Rightarrow> ('s, 'f, 'r, 'w) medium options \<Rightarrow> 's \<times> 'e \<Rightarrow> gerr option \<times> 's \<times> 'e" where
  "writeAction K now opts st =
     (case opt_medium opts ''medium'' of
        Some medium \<Rightarrow>
          on_inner (m_Write medium now (opt_string opts ''path'') (opt_string opts ''content'')) st
      | None \<Rightarrow>
          (case opt_medium opts ''inner'' of
             None \<Rightarrow> (Some (CoreE ''cube.writeAction'' [''inner medium is required''] (Some ErrInvalid)), st)
           | Some inner \<Rightarrow>
               (case keyFromOptions opts ''cube.writeAction'' of
                  Inl err \<Rightarrow> (Some err, st)
                | Inr key \<Rightarrow>
                    (case Cube_New K (Some inner) (Some key) of
                       Inl err \<Rightarrow> (Some err, st)
                     | Inr medium \<Rightarrow>
                         Cube_Write K medium now (opt_string opts ''path'') (opt_string opts ''content'') st))))"

definition packAction ::
  "go_env \<Rightarrow> ('o, 'g, 'v) os_api \<Rightarrow> 'e cube_env \<Rightarrow> 'n borg \<Rightarrow> gotime \<Rightarrow> ('s, 'f, 'r, 'w) medium options
     \<Rightarrow> 's \<Rightarrow> 'o \<Rightarrow> gerr option \<times> 'o" where
  "packAction E S K B now opts s fs =
     (case opt_medium opts ''source'' of
        None \<Rightarrow> (Some (CoreE ''cube.packAction'' [''source medium is required''] (Some ErrInvalid)), fs)
      | Some source \<Rightarrow>
          (case keyFromOptions opts ''cube.packAction'' of
             Inl err \<Rightarrow> (Some err, fs)
           | Inr key \<Rightarrow> Cube_Pack E S K B now (opt_string opts ''output'') (Some source) s (Some key) fs))"

definition unpackAction ::
  "go_env \<Rightarrow> ('o, 'g, 'v) os_api \<Rightarrow> 'e cube_env \<Rightarrow> 'n borg \<Rightarrow> gotime \<Rightarrow> ('s, 'f, 'r, 'w) medium options
     \<Rightarrow> 'o \<Rightarrow> 's \<Rightarrow> gerr option \<times> 's" where
  "unpackAction E S K B now opts fs s =
     (case opt_medium opts ''destination'' of
        None \<Rightarrow> (Some (CoreE ''cube.unpackAction'' [''destination medium is required''] (Some ErrInvalid)), s)
      | Some destination \<Rightarrow>
          (case keyFromOptions opts ''cube.unpackAction'' of
             Inl err \<Rightarrow> (Some err, s)
           | Inr key \<Rightarrow> Cube_Unpack E S K B now (opt_string opts ''cube'') (Some destination) (Some key) fs s))"

end
