(* ===== verification/CubeProps.thy ===== *)
theory CubeProps
  imports Cube CryptoProps MemoryProps LocalProps
begin

text \<open>
  The encrypting medium keeps the contract between writing and reading of the medium it wraps;
  extracting an archive writes inside the destination only; and packing a directory that
  contains an entry of its own name goes wrong.
\<close>

subsection \<open>Encryption over any medium\<close>

lemma Transmute_one: "Transmute d [S] e = (case sig_In S d e of
    (Inl err, e') \<Rightarrow> (Inl (CoreE ''sigil.Transmute'' [''sigil in failed''] (Some err)), e') | (Inr c, e') \<Rightarrow> (Inr c, e'))"
  by (simp add: Transmute_def split: prod.splits sum.splits)

lemma Untransmute_one: "fst (Untransmute d [S] e) = (case fst (sig_Out S d e) of
    Inl err \<Rightarrow> Inl (CoreE ''sigil.Untransmute'' [''sigil out failed''] (Some err)) | Inr p \<Rightarrow> Inr p)"
  by (simp add: Untransmute_def split: prod.splits sum.splits)

lemma cube_stored:
  assumes "aead_library (ce_cipher K)" "sigil_ok (ce_rand K) (cm_sigil M)"
    "Cube_WriteMode K M now p c md (s, e) = (None, s', e')"
  obtains ct where "m_WriteMode (cm_inner M) now p ct md s = (None, s')"
    "ChaCha_Out (ce_cipher K) (cm_sigil M) (Some ct) = Inr (Some c)"
    "fst (ChaCha_In (ce_cipher K) (ce_rand K) (cm_sigil M) (Some c) e) = Inr (Some ct)"
proof -
  let ?S = "ChaChaPolySigil (ce_cipher K) (ce_rand K) (cm_sigil M)"
  obtain r e1 where i: "ChaCha_In (ce_cipher K) (ce_rand K) (cm_sigil M) (Some c) e = (r, e1)" by force
  then obtain d where r: "r = Inr d"
    using assms(3) by (cases r) (auto simp: Cube_WriteMode_def cube_sigils_def Transmute_one ChaChaPolySigil_def)
  obtain ct where ct: "d = Some ct"
    using aead_library.ChaCha_In_cases [OF assms(1,2)] i r by metis
  have "fst (sig_Out ?S (Some ct) e) = Inr (Some c)"
    using reversible.out_in [OF aead_library.chacha_reversible [OF assms(1,2)], of "Some c" e "Some ct" e1 e] i r ct
    by (simp add: ChaChaPolySigil_def)
  then show thesis
    using assms(3) i r ct that
    by (auto simp: Cube_WriteMode_def cube_sigils_def Transmute_one ChaChaPolySigil_def data_of_def split: prod.splits)
qed

lemma Cube_Read_out:
  "m_Read (cm_inner M) p s = Inr ct \<Longrightarrow> ChaCha_Out (ce_cipher K) (cm_sigil M) (Some ct) = Inr (Some c) \<Longrightarrow>
   Cube_Read K M p (s, e) = Inr c"
  by (simp add: Cube_Read_def cube_sigils_def Untransmute_one ChaChaPolySigil_def data_of_def)

lemma Cube_Read_cong:
  "m_Read (cm_inner M) q s' = m_Read (cm_inner M) q s \<Longrightarrow> Cube_Read K M q (s', e') = Cube_Read K M q (s, e)"
  by (simp add: Cube_Read_def cube_sigils_def Untransmute_one ChaChaPolySigil_def split: sum.splits)

lemma Cube_WriteMode_inner:
  "Cube_WriteMode K M now p c md (s, e) = (r, s', e') \<Longrightarrow>
   (s' = s \<and> r \<noteq> None) \<or> (\<exists>ct. m_WriteMode (cm_inner M) now p ct md s = (r, s'))"
  by (auto simp: Cube_WriteMode_def split: prod.splits sum.splits)

lemma Cube_medium_simps [simp]:
  "m_Read (Cube_medium E K M) = Cube_Read K M" "m_Write (Cube_medium E K M) = Cube_Write K M"
  "m_WriteMode (Cube_medium E K M) = Cube_WriteMode K M"
  by (simp_all add: Cube_medium_def)

lemma cube_read_write:
  assumes I: "read_write (cm_inner M) iv key valid"
    and K: "aead_library (ce_cipher K)" "sigil_ok (ce_rand K) (cm_sigil M)"
  shows "read_write (Cube_medium E K M) (\<lambda>st. iv (fst st)) key valid"
proof
  fix st now p c md e st'
  assume iv: "iv (fst st)" and w: "m_WriteMode (Cube_medium E K M) now p c md st = (e, st')"
  obtain s x s' x' where st: "st = (s, x)" "st' = (s', x')" by (metis prod.collapse)
  have alt: "(s' = s \<and> e \<noteq> None) \<or> (\<exists>ct. m_WriteMode (cm_inner M) now p ct md s = (e, s'))"
    using w st Cube_WriteMode_inner by (metis Cube_medium_simps(3))
  then show "iv (fst st')" using iv st read_write.write_inv [OF I] by auto
  fix q assume "key q \<noteq> key p \<or> e \<noteq> None"
  then have "m_Read (cm_inner M) q s' = m_Read (cm_inner M) q s"
    using alt iv st read_write.read_other [OF I, of s now p _ md e s' q] by auto
  then show "m_Read (Cube_medium E K M) q st' = m_Read (Cube_medium E K M) q st"
    using st Cube_Read_cong by simp
next
  fix st now p c md st'
  assume iv: "iv (fst st)" "valid p" and w: "m_WriteMode (Cube_medium E K M) now p c md st = (None, st')"
  obtain s x s' x' where st: "st = (s, x)" "st' = (s', x')" by (metis prod.collapse)
  then obtain ct where "m_WriteMode (cm_inner M) now p ct md s = (None, s')"
    "ChaCha_Out (ce_cipher K) (cm_sigil M) (Some ct) = Inr (Some c)"
    using w cube_stored [OF K] by (metis Cube_medium_simps(3))
  then show "m_Read (Cube_medium E K M) p st' = Inr c"
    using read_write.read_written [OF I, of s p now ct md s'] iv st Cube_Read_out by simp
qed (simp add: Cube_Write_def)

definition sample_env :: "bytes cube_env" where
  "sample_env = \<lparr>ce_cipher = tag_cipher, ce_sha = pad_hash, ce_rand = list_reader\<rparr>"

definition sample_cube :: "(memory_medium, memory_file, memory_file, memory_writer, bytes) cube_medium" where
  "sample_cube = \<lparr>cm_inner = MemoryMedium_medium go_core, cm_sigil = sample_cipher\<rparr>"

interpretation cube: read_write "Cube_medium go_core sample_env sample_cube" "\<lambda>st. True" "\<lambda>p. p" "\<lambda>_. True"
proof -
  have "read_write (cm_inner sample_cube) (\<lambda>_. True) (\<lambda>p. p) (\<lambda>_. True)"
    using memory.read_write_axioms by (simp add: sample_cube_def)
  from cube_read_write [OF this] show "read_write (Cube_medium go_core sample_env sample_cube) (\<lambda>st. True) (\<lambda>p. p) (\<lambda>_. True)"
    using tag_cipher_ok sample_cipher_ok by (simp add: sample_env_def sample_cube_def)
qed

subsection \<open>Extraction\<close>

text \<open>What extraction may do to its destination: writes at cleaned relative paths.\<close>

definition safe_writes :: "('s, 'f, 'r, 'w) medium \<Rightarrow> gotime \<Rightarrow> ('s \<times> 's) set" where
  "safe_writes dst now = {(s, snd (m_WriteMode dst now p c 420 s)) |s p c. norm_path p \<and> CHR 0x5C \<notin> set p}"

context go_runtime
begin

lemma validated_norm:
  assumes "validatedTarEntryName E raw = Inr (Some name)"
  shows "norm_path name \<and> CHR 0x5C \<notin> set name \<and> name = path_clean raw"
proof -
  have raw: "\<not> prefix ''/'' raw" "CHR 0x5C \<notin> set raw"
    using assms by (auto simp: validatedTarEntryName_def Let_def sublist_single split: if_splits)
  then have trim: "trim_prefix raw ''/'' = raw" by (simp add: trim_prefix_def)
  have dots: "''..'' \<notin> set (split_on slash raw)" and name: "name = path_clean raw" "name \<noteq> ''.''"
    using assms trim by (auto simp: validatedTarEntryName_def Let_def hasParentPathSegment_def list_ex_iff split: if_splits)
  then have n: "norm_path name" using clean_no_dotdot [OF raw(1) dots] by auto
  have "set (path_clean raw) \<subseteq> insert slash (set raw) \<union> set ''..''"
  proof -
    have el: "set e \<subseteq> set raw" if "e \<in> set (path_elems raw)" for e
    proof -
      have "e \<in> set (split_on slash raw)" using that by (simp add: path_elems_def)
      then have "set e \<subseteq> set (join_with slash (split_on slash raw))" by (rule set_join_elem)
      then show ?thesis by simp
    qed
    have "set (clean_elems (is_rooted raw) (path_elems raw)) \<subseteq> insert ''..'' (set (path_elems raw))"
      by (rule set_clean_elems)
    then have "set (join_with slash (clean_elems (is_rooted raw) (path_elems raw))) \<subseteq> insert slash (set raw) \<union> set ''..''"
      using el set_join_with [of slash "clean_elems (is_rooted raw) (path_elems raw)"] by fastforce
    then show ?thesis by (auto simp: path_clean_def Let_def)
  qed
  then show ?thesis using n name raw(2) by auto
qed

end

context go_runtime
begin

lemma extract_file_safe:
  assumes "writeBorgDataNodeFile E B dst now dn filePath s = (e, s')"
  shows "s' = s \<or> (s, s') \<in> safe_writes dst now"
proof (cases "\<exists>name c. validatedTarEntryName E filePath = Inr (Some name) \<and> bd_Open B filePath dn = Inr (Inr c)")
  case True
  then obtain name c where n: "validatedTarEntryName E filePath = Inr (Some name)"
    "bd_Open B filePath dn = Inr (Inr c)" by blast
  then have "s' = snd (m_WriteMode dst now name c 420 s)"
    using assms by (auto simp: writeBorgDataNodeFile_def split: prod.splits option.splits)
  then show ?thesis using validated_norm [OF n(1)] by (auto simp: safe_writes_def)
next
  case False
  then show ?thesis
    using assms by (auto simp: writeBorgDataNodeFile_def split: sum.splits option.splits)
qed

lemma extract_loop_safe:
  fixes B :: "'n borg" and dst :: "('s, 'f, 'r, 'w) medium"
  assumes "extract_loop E B dst now dn dir entries s = Some r"
  shows "(s, snd r) \<in> (safe_writes dst now)\<^sup>*"
proof -
  define P where "P = (\<lambda>(E' :: go_env) (B :: 'n borg) (dst :: ('s, 'f, 'r, 'w) medium) now (dn :: 'n)
    (dir :: string) (entries :: dir_entry list) s (r :: gerr option \<times> 's).
    E' = E \<longrightarrow> (s, snd r) \<in> (safe_writes dst now)\<^sup>*)"
  have "P E B dst now dn dir entries s r"
  proof (rule extract_loop.raw_induct [OF _ assms])
    fix loop and E' :: go_env and B :: "'n borg" and dst :: "('s, 'f, 'r, 'w) medium"
      and now and dn :: 'n and dir and entries :: "dir_entry list" and s r
    assume IH: "\<And>E B dst now dn dir entries s r. loop E B dst now dn dir entries s = Some r \<Longrightarrow>
        P E B dst now dn dir entries s r"
      and step: "(case entries of
        [] \<Rightarrow> Some (None, s)
      | entry # rest \<Rightarrow>
          (let childPath = archiveChildPath E' dir (de_name entry)
           in if de_isDir entry then
                (case extract_list B dn childPath of
                   Inl err \<Rightarrow> Some (Some err, s)
                 | Inr children \<Rightarrow>
                     Option.bind (loop E' B dst now dn childPath children s)
                       (\<lambda>r. case fst r of
                          Some err \<Rightarrow> Some (Some err, snd r)
                        | None \<Rightarrow> loop E' B dst now dn dir rest (snd r)))
              else (case writeBorgDataNodeFile E' B dst now dn childPath s of
                   (Some err, s') \<Rightarrow> Some (Some err, s')
                 | (None, s') \<Rightarrow> loop E' B dst now dn dir rest s'))) = Some r"
    show "P E' B dst now dn dir entries s r"
      unfolding P_def
    proof
      assume E': "E' = E"
      have go: "(s1, snd r1) \<in> (safe_writes dst now)\<^sup>*" if "loop E' B dst now dn d es s1 = Some r1" for d es s1 r1
        using IH [OF that] E' by (simp add: P_def)
      show "(s, snd r) \<in> (safe_writes dst now)\<^sup>*"
      proof (cases entries)
        case (Cons entry rest)
        let ?c = "archiveChildPath E' dir (de_name entry)"
        show ?thesis
        proof (cases "de_isDir entry")
          case True
          show ?thesis
          proof (cases "extract_list B dn ?c")
            case (Inl err)
            then show ?thesis using step Cons True by (auto simp: Let_def)
          next
            case (Inr children)
            then obtain r1 where r1: "loop E' B dst now dn ?c children s = Some r1"
              "(case fst r1 of Some err \<Rightarrow> Some (Some err, snd r1) | None \<Rightarrow> loop E' B dst now dn dir rest (snd r1)) = Some r"
              using step Cons True by (auto simp: Let_def bind_eq_Some_conv)
            then show ?thesis
              using go [OF r1(1)] go [of dir rest "snd r1" r] by (cases "fst r1") (auto intro: rtrancl_trans)
          qed
        next
          case False
          obtain e1 s1 where w: "writeBorgDataNodeFile E' B dst now dn ?c s = (e1, s1)" by force
          then have "(s, s1) \<in> (safe_writes dst now)\<^sup>*"
            using extract_file_safe [of B dst now dn ?c s e1 s1] E' by auto
          then show ?thesis
            using step Cons False w go [of dir rest s1 r] by (cases e1) (auto intro: rtrancl_trans)
        qed
      qed (use step in auto)
    qed
  qed
  then show ?thesis by (simp add: P_def)
qed

text \<open>An entry with the name of its directory gets the path of the directory.\<close>

lemma archiveChildPath_same:
  assumes "norm_path d"
  shows "archiveChildPath E '''' d = d" "archiveChildPath E d d = d"
proof -
  have "trim_prefix d ''/'' = d" using norm_path_hd [OF assms] by (simp add: trim_prefix_def)
  then show "archiveChildPath E '''' d = d" "archiveChildPath E d d = d"
    using assms norm_path_not_dot [OF assms] by (simp_all add: archiveChildPath_def)
qed

lemma archive_loop_stuck:
  fixes B :: "'n borg" and src :: "('s, 'f, 'r, 'w) medium"
  assumes d: "norm_path d" and ls: "m_List src now d s = Inr (e # es)" and e: "de_isDir e" "de_name e = d"
  shows "archive_loop E src now s B d (e # es) dn = None"
proof (rule ccontr)
  assume "archive_loop E src now s B d (e # es) dn \<noteq> None"
  then obtain r where r: "archive_loop E src now s B d (e # es) dn = Some r" by blast
  define P where "P = (\<lambda>(E' :: go_env) (src' :: ('s, 'f, 'r, 'w) medium) now' s' (B :: 'n borg) dir entries (dn :: 'n)
    (r :: gerr option \<times> 'n). \<not> (E' = E \<and> src' = src \<and> now' = now \<and> s' = s \<and> dir = d \<and> entries = e # es))"
  have "P E src now s B d (e # es) dn r"
  proof (rule archive_loop.raw_induct [OF _ r])
    fix loop and E' :: go_env and src' :: "('s, 'f, 'r, 'w) medium" and now' s' and B :: "'n borg"
      and dir and entries :: "dir_entry list" and dn :: 'n and r
    assume IH: "\<And>E src now s B dir entries dn r. loop E src now s B dir entries dn = Some r \<Longrightarrow>
        P E src now s B dir entries dn r"
      and step: "(case entries of
        [] \<Rightarrow> Some (None, dn)
      | entry # rest \<Rightarrow>
          (let childPath = archiveChildPath E' dir (de_name entry)
           in if de_isDir entry then
                (case archive_list src' now' s' childPath of
                   Inl err \<Rightarrow> Some (Some err, dn)
                 | Inr children \<Rightarrow>
                     Option.bind (loop E' src' now' s' B childPath children dn)
                       (\<lambda>r. case fst r of
                          Some err \<Rightarrow> Some (Some err, snd r)
                        | None \<Rightarrow> loop E' src' now' s' B dir rest (snd r)))
              else (case m_Read src' childPath s' of
                   Inl err \<Rightarrow> Some (Some (CoreE ''cube.archive'' [''failed to read: '', childPath] (Some err)), dn)
                 | Inr content \<Rightarrow> loop E' src' now' s' B dir rest (bd_AddData B childPath content dn)))) = Some r"
    show "P E' src' now' s' B dir entries dn r"
      unfolding P_def
    proof
      assume eq: "E' = E \<and> src' = src \<and> now' = now \<and> s' = s \<and> dir = d \<and> entries = e # es"
      then have "archive_list src' now' s' (archiveChildPath E' dir (de_name e)) = Inr (e # es)"
        using archiveChildPath_same(2) [OF d] ls e by (simp add: archive_list_def)
      then obtain r' where "loop E' src' now' s' B (archiveChildPath E' dir (de_name e)) (e # es) dn = Some r'"
        using step eq e by (auto simp: bind_eq_Some_conv)
      from IH [OF this] show False using eq archiveChildPath_same(2) [OF d] e by (simp add: P_def)
    qed
  qed
  then show False by (simp add: P_def)
qed

lemma archiveChildPath_root:
  assumes "norm_path d"
  shows "archiveChildPath E '''' d = d"
proof -
  have "trim_prefix d ''/'' = d" using norm_path_hd [OF assms] by (simp add: trim_prefix_def)
  then show ?thesis using assms norm_path_not_dot [OF assms] by (simp add: archiveChildPath_def)
qed

text \<open>A directory that cannot be read as a file and whose first entry has its name.\<close>

lemma archive_loop_same:
  assumes "norm_path d" "m_List src now d s = Inr (e # es)" "de_name e = d" "m_Read src d s = Inl err"
  shows "archive_loop E src now s B d (e # es) dn = (if de_isDir e then None
    else Some (Some (CoreE ''cube.archive'' [''failed to read: '', d] (Some err)), dn))"
proof (cases "de_isDir e")
  case True
  then show ?thesis using archive_loop_stuck [OF assms(1,2) _ assms(3)] by simp
next
  case False
  then show ?thesis
    using archiveChildPath_same(2) [OF assms(1)] assms(3,4) by (subst archive_loop.simps) (simp add: Let_def)
qed

end

text \<open>Entries that can be archived are archived before the rest.\<close>

lemma archive_loop_append:
  "archive_loop E src now s B d pre dn = Some (None, dn') \<Longrightarrow>
    archive_loop E src now s B d (pre @ rest) dn = archive_loop E src now s B d rest dn'"
proof (induction pre arbitrary: dn)
  case Nil
  then show ?case by (simp add: archive_loop.simps [of _ _ _ _ _ _ "[]"])
next
  case (Cons e pre)
  from Cons.prems show ?case
    unfolding append_Cons
    by (subst archive_loop.simps, subst (asm) archive_loop.simps)
      (auto simp: Let_def bind_eq_Some_conv Cons.IH split: if_splits sum.splits option.splits)
qed

subsection \<open>A DataNode\<close>

text \<open>A DataNode as a list of files, all in its root, and a container that keeps the key in front.\<close>

definition flat_borg :: "(string \<times> bytes) list borg" where
  "flat_borg = \<lparr>bd_New = [], bd_AddData = (\<lambda>p c n. n @ [(p, c)]),
     bd_ReadDir = (\<lambda>dir n. Inr (map (\<lambda>(p, c). NewDirEntry p False 0 (NewFileInfo p 0 0 zero_time False)) n)),
     bd_Open = (\<lambda>p n. case map_of n p of Some c \<Rightarrow> Inr (Inr c) | None \<Rightarrow> Inl ErrNotExist),
     trix_To = (\<lambda>n key. Inr key), trix_From = (\<lambda>c key. Inl ErrInvalid)\<rparr>"

subsection \<open>Properties\<close>

text \<open>
  C12: over any inner medium that keeps the contract of writing and reading, a write through the
  encrypting medium that reports success stores a ciphertext in the inner medium, which decrypts
  to the content; reading the path through the cube gives the content back, and every path with
  another key reads as before.
\<close>

theorem cube_Write_Read:
  assumes "read_write (cm_inner M) iv key valid" "aead_library (ce_cipher K)"
    "sigil_ok (ce_rand K) (cm_sigil M)" "iv s" "valid p"
    "Cube_WriteMode K M now p c md (s, x) = (None, s', x')"
  shows "Cube_Read K M p (s', x') = Inr c \<and>
    (\<exists>ct. m_Read (cm_inner M) p s' = Inr ct \<and>
      fst (ChaCha_In (ce_cipher K) (ce_rand K) (cm_sigil M) (Some c) x) = Inr (Some ct) \<and>
      ChaCha_Out (ce_cipher K) (cm_sigil M) (Some ct) = Inr (Some c)) \<and>
    (key q \<noteq> key p \<longrightarrow> Cube_Read K M q (s', x') = Cube_Read K M q (s, x))"
proof -
  obtain ct where ct: "m_WriteMode (cm_inner M) now p ct md s = (None, s')"
    "ChaCha_Out (ce_cipher K) (cm_sigil M) (Some ct) = Inr (Some c)"
    "fst (ChaCha_In (ce_cipher K) (ce_rand K) (cm_sigil M) (Some c) x) = Inr (Some ct)"
    using cube_stored [OF assms(2,3,6)] .
  have "m_Read (cm_inner M) p s' = Inr ct"
    by (rule read_write.read_written [OF assms(1,4,5) ct(1)])
  moreover have "key q \<noteq> key p \<Longrightarrow> m_Read (cm_inner M) q s' = m_Read (cm_inner M) q s"
    using read_write.read_other [OF assms(1,4) ct(1)] by simp
  ultimately show ?thesis
    using ct Cube_Read_out [of M p s' ct K c x'] Cube_Read_cong [of M q s' s K x' x] by auto
qed

theorem cube_Write_Read_witness:
  "\<exists>st. Cube_WriteMode sample_env sample_cube 0 ''a/b'' ''hi'' 384 (NewMemoryMedium, replicate 30 CHR ''n'') = (None, st) \<and>
     Cube_Read sample_env sample_cube ''a/b'' st = Inr ''hi''"
proof -
  let ?w = "Cube_WriteMode sample_env sample_cube 0 ''a/b'' ''hi'' 384 (NewMemoryMedium, replicate 30 CHR ''n'')"
  have "fst ?w = None" by code_simp
  then obtain s' x' where w: "?w = (None, s', x')" by (metis prod.collapse)
  have rw: "read_write (cm_inner sample_cube) (\<lambda>_. True) (\<lambda>p. p) (\<lambda>_. True)"
    using memory.read_write_axioms by (simp add: sample_cube_def)
  have c: "aead_library (ce_cipher sample_env)" "sigil_ok (ce_rand sample_env) (cm_sigil sample_cube)"
    using tag_cipher_ok sample_cipher_ok by (simp_all add: sample_env_def sample_cube_def)
  show ?thesis using cube_Write_Read [OF rw c TrueI TrueI w] w by blast
qed

text \<open>
  C13: whatever an archive holds, unpacking it changes the destination only by writes of mode 0644 at
  cleaned relative paths: no path is absolute, climbs with two dots or holds a backslash.
\<close>

theorem cube_Unpack_safe:
  assumes "go_runtime E" "Cube_Unpack E S K B now cubePath (Some dst) key fs s = (e, s')"
  shows "(s, s') \<in> (safe_writes dst now)\<^sup>*"
proof -
  have dir: "(s, snd r) \<in> (safe_writes dst now)\<^sup>*"
    if "writeBorgDataNodeDir E B dst now dn '''' s = Some r" for dn r
    using that go_runtime.extract_loop_safe [OF assms(1), of B dst now dn "''''" _ s r]
    by (auto simp: writeBorgDataNodeDir_def split: sum.splits)
  show ?thesis
  proof (cases "cubePath = ''''")
    case True
    then show ?thesis using assms(2) by (simp add: Cube_Unpack_def)
  next
    case False
    show ?thesis
    proof (cases "decode_cube E S K B ''cube.Unpack'' cubePath key fs")
      case (Inl err)
      then show ?thesis using assms(2) False by (simp add: Cube_Unpack_def)
    next
      case (Inr dn)
      then show ?thesis
        using assms(2) False dir [of dn]
        by (cases "writeBorgDataNodeDir E B dst now dn '''' s")
          (auto simp: Cube_Unpack_def writeBorgDataNodeToMedium_def)
    qed
  qed
qed

definition sample_node :: "(string \<times> bytes) list" where
  "sample_node = [(''a/b'', ''1''), (''../etc/passwd'', ''2''), (''c'', ''3'')]"

definition open_borg :: "(string \<times> bytes) list borg" where
  "open_borg = flat_borg\<lparr>trix_From := (\<lambda>c key. Inr sample_node)\<rparr>"

definition sample_disk :: "(string, string) fmap" where
  "sample_disk = fmap_of_list [(''/srv/app.cube'', ''data'')]"

lemma sample_unpack_root: "Local_New go_core (link_disk []) ''/srv'' sample_disk = Inr \<lparr>filesystemRoot = ''/srv''\<rparr>"
  by code_simp

lemma sample_unpack_path:
  "validatePath go_core (link_disk []) \<lparr>filesystemRoot = ''/srv''\<rparr> ''app.cube'' sample_disk = Inr ''/srv/app.cube''"
  by code_simp

lemma sample_decode:
  "decode_cube go_core (link_disk []) sample_env open_borg op ''/srv/app.cube'' (Some sample_key) sample_disk = Inr sample_node"
proof -
  have p: "path_dir ''/srv/app.cube'' = ''/srv''" "path_base ''/srv/app.cube'' = ''app.cube''"
    "is_rooted ''/srv/app.cube''"
    by code_simp+
  have "fs_Read (link_disk []) ''/srv/app.cube'' sample_disk = ROk ''data''"
    by (simp add: link_disk_def sample_disk_def)
  then have "m_Read (Local_medium go_core (link_disk []) \<lparr>filesystemRoot = ''/srv''\<rparr>) ''app.cube'' sample_disk = Inr ''data''"
    by (simp add: Local_medium_def LocalMedium_Read_def sample_unpack_path resultValue_def result_failure_def)
  moreover have "validateCubeKey sample_env op (Some sample_key) = None"
    by (simp add: validateCubeKey_def NewChaChaPolySigil_def data_of_def sample_key_def Let_def)
  ultimately show ?thesis
    by (simp add: decode_cube_def sandboxedLocalForPath_def Let_def p NewSandboxed_def sample_unpack_root open_borg_def)
qed

theorem cube_Unpack_safe_witness:
  "\<exists>m. Cube_Unpack go_core (link_disk []) sample_env open_borg 0 ''/srv/app.cube'' (Some (MemoryMedium_medium go_core))
       (Some sample_key) sample_disk NewMemoryMedium = (Some (CoreE ''cube.extract''
         [''invalid tar entry path: '', ''../etc/passwd''] (Some ErrInvalid)), m) \<and>
     (NewMemoryMedium, m) \<in> (safe_writes (MemoryMedium_medium go_core) 0)\<^sup>*"
proof -
  let ?u = "Cube_Unpack go_core (link_disk []) sample_env open_borg 0 ''/srv/app.cube'' (Some (MemoryMedium_medium go_core))
       (Some sample_key) sample_disk NewMemoryMedium"
  let ?x = "writeBorgDataNodeToMedium go_core open_borg (MemoryMedium_medium go_core) 0 (Some sample_node) NewMemoryMedium"
  have "map_option fst ?x = Some (Some (CoreE ''cube.extract'' [''invalid tar entry path: '', ''../etc/passwd''] (Some ErrInvalid)))"
    by code_simp
  then have e: "fst ?u = Some (CoreE ''cube.extract'' [''invalid tar entry path: '', ''../etc/passwd''] (Some ErrInvalid))"
    by (auto simp: Cube_Unpack_def sample_decode)
  have u: "?u = (fst ?u, snd ?u)" by simp
  show ?thesis using cube_Unpack_safe [OF go_core_ok u] u e by metis
qed

text \<open>
  C14: \<open>archiveChildPath\<close> takes an entry with the name of its directory for the directory itself.  Let the root of
  the source list a directory \<open>d\<close>, the entries before which can be archived, and let the first entry of \<open>d\<close>
  be named \<open>d\<close> too, where \<open>d\<close> cannot be read as a file.  If that entry is a directory, then archiving the source, and with a
  valid key and an output path \<open>Pack\<close>, does not return; if it is a file, both fail, because they read \<open>d\<close> instead of it.
\<close>

theorem cube_pack_same_name:
  assumes "go_runtime E" "norm_path d" "m_List src now '''' s = Inr (pre @ sub # post)" "de_name sub = d" "de_isDir sub"
    "archive_loop E src now s B '''' pre (bd_New B) = Some (None, dn)"
    "m_List src now d s = Inr (e # es)" "de_name e = d" "m_Read src d s = Inl err"
    "validateCubeKey K ''cube.Pack'' key = None" "out \<noteq> ''''"
  shows "let unread = CoreE ''cube.archive'' [''failed to read: '', d] (Some err)
    in archiveMediumToBorgDataNode E src now s B = (if de_isDir e then None else Some (Inl unread)) \<and>
      Cube_Pack E S K B now out (Some src) s key fs = (Some (if de_isDir e then Diverges
        else CoreE ''cube.Pack'' [''failed to build Borg DataNode''] (Some unread)), fs)"
proof -
  note child = go_runtime.archiveChildPath_root [OF assms(1,2)]
  have "addMediumPathToBorgDataNode E src now s B '''' (bd_New B) = archive_loop E src now s B '''' (sub # post) dn"
    using assms(3) archive_loop_append [OF assms(6), of "sub # post"]
    by (simp add: addMediumPathToBorgDataNode_def archive_list_def)
  also have "\<dots> = Option.bind (archive_loop E src now s B d (e # es) dn)
      (\<lambda>r. case fst r of Some err \<Rightarrow> Some (Some err, snd r) | None \<Rightarrow> archive_loop E src now s B '''' post (snd r))"
    using assms(4,5,7) child by (subst archive_loop.simps) (simp add: Let_def archive_list_def)
  finally have "archiveMediumToBorgDataNode E src now s B = (if de_isDir e then None
      else Some (Inl (CoreE ''cube.archive'' [''failed to read: '', d] (Some err))))"
    using go_runtime.archive_loop_same [OF assms(1,2,7,8,9), of B dn]
    by (simp add: archiveMediumToBorgDataNode_def)
  then show ?thesis using assms(10,11) by (simp add: Cube_Pack_def Let_def)
qed

theorem cube_pack_same_name_witness:
  "\<exists>m. MemoryMedium_Write go_core 0 ''a/a/f'' ''x'' NewMemoryMedium = (None, m) \<and>
     Cube_Pack go_core (link_disk []) sample_env flat_borg 0 ''/srv/app.cube'' (Some (MemoryMedium_medium go_core)) m
       (Some sample_key) sample_disk = (Some Diverges, sample_disk)"
proof -
  let ?w = "MemoryMedium_Write go_core 0 ''a/a/f'' ''x'' NewMemoryMedium"
  let ?M = "MemoryMedium_medium go_core"
  have w: "?w = (None, snd ?w)" by code_simp
  have root: "m_List ?M 0 '''' (snd ?w) = Inr ([] @ memoryDirEntry ''a'' # [])" by code_simp
  have l: "m_List ?M 0 ''a'' (snd ?w) = Inr [memoryDirEntry ''a'']" by code_simp
  have n: "norm_path ''a''" by code_simp
  have dir: "de_name (memoryDirEntry ''a'') = ''a''" "de_isDir (memoryDirEntry ''a'')" by code_simp+
  have pre: "archive_loop go_core ?M 0 (snd ?w) flat_borg '''' [] (bd_New flat_borg) = Some (None, bd_New flat_borg)"
    by (simp add: archive_loop.simps)
  have r: "case m_Read ?M ''a'' (snd ?w) of Inl _ \<Rightarrow> True | Inr _ \<Rightarrow> False" by code_simp
  then obtain err where r: "m_Read ?M ''a'' (snd ?w) = Inl err" by (auto split: sum.splits)
  have key: "validateCubeKey sample_env ''cube.Pack'' (Some sample_key) = None"
    by (simp add: validateCubeKey_def NewChaChaPolySigil_def data_of_def sample_key_def Let_def)
  show ?thesis
    using cube_pack_same_name [OF go_core_ok n root dir pre l dir(1) r key, of "''/srv/app.cube''" "link_disk []" sample_disk] w dir
    by (auto simp: Let_def)
qed

end
