(* ===== verification/Workspace.thy ===== *)
theory Workspace
  imports Local
begin

text \<open>
  The workspaces of \<open>go/workspace/workspace.go\<close> and \<open>command.go\<close>: named directories below a base
  path of a medium, the medium scoped to one of them, and the dispatch of commands.  A nil
  receiver is \<open>None\<close>; the mutex of a workspace makes its methods atomic, which they are here.
\<close>

subsection \<open>Names and paths\<close>

definition cleanWorkspaceName :: "go_env \<Rightarrow> string \<Rightarrow> string \<Rightarrow> string res" where
  "cleanWorkspaceName E operation name =
     (let name = Trim E name
      in if name = '''' \<or> name = ''.'' \<or> name = ''..''
         then Inl (CoreE operation [''workspace name is required''] (Some ErrInvalid))
         else if Contains E name ''/'' \<or> Contains E name backslash
         then Inl (CoreE operation [''workspace name contains path separator: '', name] (Some ErrPermission))
         else Inr name)"

definition cleanMediumSubpath :: "go_env \<Rightarrow> string \<Rightarrow> string \<Rightarrow> bool \<Rightarrow> string res" where
  "cleanMediumSubpath E operation subpath allowEmpty =
     (let subpath = Trim E (Replace E subpath backslash ''/'');
          required = (if allowEmpty then Inr '''' else Inl (CoreE operation [''path is required''] (Some ErrInvalid)))
      in if subpath = '''' \<or> subpath = ''.'' then required
         else if HasPrefix E subpath ''/''
         then Inl (CoreE operation [''absolute path rejected: '', subpath] (Some ErrPermission))
         else if list_ex (\<lambda>part. part = ''..'') (Split E subpath ''/'')
         then Inl (CoreE operation [''path traversal rejected: '', subpath] (Some ErrPermission))
         else let cleaned = CleanPath E subpath ''/''
              in if cleaned = ''.'' then required else Inr cleaned)"

definition joinMediumSubpaths :: "go_env \<Rightarrow> string list \<Rightarrow> string" where
  "joinMediumSubpaths E parts =
     (let filtered = filter (\<lambda>part. part \<noteq> '''') parts
      in if filtered = [] then '''' else PathJoin E filtered)"

subsection \<open>The scoped medium\<close>

record ('s, 'f, 'r, 'w) scoped_medium =
  sm_medium :: "('s, 'f, 'r, 'w) medium"
  sm_root :: string

definition scopedPath :: "go_env \<Rightarrow> ('s, 'f, 'r, 'w) scoped_medium \<Rightarrow> string \<Rightarrow> string \<Rightarrow> bool \<Rightarrow> string res" where
  "scopedPath E M operation entryPath allowRoot =
     (case cleanMediumSubpath E operation entryPath allowRoot of
        Inl err \<Rightarrow> Inl err
      | Inr cleanPath \<Rightarrow> Inr (joinMediumSubpaths E [sm_root M, cleanPath]))"

text \<open>The shapes of the methods: a query, and an operation on the state of the inner medium.\<close>

definition scoped_query ::
  "go_env \<Rightarrow> ('s, 'f, 'r, 'w) scoped_medium \<Rightarrow> string \<Rightarrow> bool \<Rightarrow> (string \<Rightarrow> 's \<Rightarrow> 'a res) \<Rightarrow> string \<Rightarrow> 's \<Rightarrow> 'a res" where
  "scoped_query E M operation allowRoot f entryPath s =
     (case scopedPath E M operation entryPath allowRoot of Inl err \<Rightarrow> Inl err | Inr scoped \<Rightarrow> f scoped s)"

definition scoped_test ::
  "go_env \<Rightarrow> ('s, 'f, 'r, 'w) scoped_medium \<Rightarrow> string \<Rightarrow> bool \<Rightarrow> (string \<Rightarrow> 's \<Rightarrow> bool) \<Rightarrow> string \<Rightarrow> 's \<Rightarrow> bool" where
  "scoped_test E M operation allowRoot f entryPath s =
     (case scopedPath E M operation entryPath allowRoot of Inl err \<Rightarrow> False | Inr scoped \<Rightarrow> f scoped s)"

definition scoped_change ::
  "go_env \<Rightarrow> ('s, 'f, 'r, 'w) scoped_medium \<Rightarrow> string \<Rightarrow> bool \<Rightarrow> (string \<Rightarrow> 's \<Rightarrow> gerr option \<times> 's) \<Rightarrow> string \<Rightarrow> 's
     \<Rightarrow> gerr option \<times> 's" where
  "scoped_change E M operation allowRoot f entryPath s =
     (case scopedPath E M operation entryPath allowRoot of Inl err \<Rightarrow> (Some err, s) | Inr scoped \<Rightarrow> f scoped s)"

definition scoped_writer ::
  "go_env \<Rightarrow> ('s, 'f, 'r, 'w) scoped_medium \<Rightarrow> string \<Rightarrow> bool \<Rightarrow> (string \<Rightarrow> 's \<Rightarrow> 'w res \<times> 's) \<Rightarrow> string \<Rightarrow> 's
     \<Rightarrow> 'w res \<times> 's" where
  "scoped_writer E M operation allowRoot f entryPath s =
     (case scopedPath E M operation entryPath allowRoot of Inl err \<Rightarrow> (Inl err, s) | Inr scoped \<Rightarrow> f scoped s)"

definition scopedMedium_Read where
  "scopedMedium_Read E M = scoped_query E M ''workspace.scopedMedium.Read'' False (m_Read (sm_medium M))"

definition scopedMedium_WriteMode where
  "scopedMedium_WriteMode E M now entryPath content mode =
     scoped_change E M ''workspace.scopedMedium.WriteMode'' False
       (\<lambda>p. m_WriteMode (sm_medium M) now p content mode) entryPath"

definition scopedMedium_Write where
  "scopedMedium_Write E M now entryPath content = scopedMedium_WriteMode E M now entryPath content 420"

definition scopedMedium_EnsureDir where
  "scopedMedium_EnsureDir E M = scoped_change E M ''workspace.scopedMedium.EnsureDir'' True (m_EnsureDir (sm_medium M))"

definition scopedMedium_IsFile where
  "scopedMedium_IsFile E M = scoped_test E M ''workspace.scopedMedium.IsFile'' False (m_IsFile (sm_medium M))"

definition scopedMedium_Delete where
  "scopedMedium_Delete E M = scoped_change E M ''workspace.scopedMedium.Delete'' False (m_Delete (sm_medium M))"

definition scopedMedium_DeleteAll where
  "scopedMedium_DeleteAll E M = scoped_change E M ''workspace.scopedMedium.DeleteAll'' False (m_DeleteAll (sm_medium M))"

definition scopedMedium_Rename where
  "scopedMedium_Rename E M oldPath newPath s =
     (case scopedPath E M ''workspace.scopedMedium.Rename'' oldPath False of
        Inl err \<Rightarrow> (Some err, s)
      | Inr scopedOldPath \<Rightarrow>
          (case scopedPath E M ''workspace.scopedMedium.Rename'' newPath False of
             Inl err \<Rightarrow> (Some err, s)
           | Inr scopedNewPath \<Rightarrow> m_Rename (sm_medium M) scopedOldPath scopedNewPath s))"

definition scopedMedium_List where
  "scopedMedium_List E M now = scoped_query E M ''workspace.scopedMedium.List'' True (m_List (sm_medium M) now)"

definition scopedMedium_Stat where
  "scopedMedium_Stat E M now = scoped_query E M ''workspace.scopedMedium.Stat'' True (m_Stat (sm_medium M) now)"

definition scopedMedium_Open where
  "scopedMedium_Open E M now = scoped_query E M ''workspace.scopedMedium.Open'' False (m_Open (sm_medium M) now)"

definition scopedMedium_Create where
  "scopedMedium_Create E M = scoped_writer E M ''workspace.scopedMedium.Create'' False (m_Create (sm_medium M))"

definition scopedMedium_Append where
  "scopedMedium_Append E M = scoped_writer E M ''workspace.scopedMedium.Append'' False (m_Append (sm_medium M))"

definition scopedMedium_ReadStream where
  "scopedMedium_ReadStream E M now =
     scoped_query E M ''workspace.scopedMedium.ReadStream'' False (m_ReadStream (sm_medium M) now)"

definition scopedMedium_WriteStream where
  "scopedMedium_WriteStream E M =
     scoped_writer E M ''workspace.scopedMedium.WriteStream'' False (m_WriteStream (sm_medium M))"

definition scopedMedium_Exists where
  "scopedMedium_Exists E M = scoped_test E M ''workspace.scopedMedium.Exists'' True (m_Exists (sm_medium M))"

definition scopedMedium_IsDir where
  "scopedMedium_IsDir E M = scoped_test E M ''workspace.scopedMedium.IsDir'' True (m_IsDir (sm_medium M))"

definition Scoped_medium :: "go_env \<Rightarrow> ('s, 'f, 'r, 'w) scoped_medium \<Rightarrow> ('s, 'f, 'r, 'w) medium" where
  "Scoped_medium E M =
     \<lparr>m_Read = scopedMedium_Read E M, m_Write = scopedMedium_Write E M,
      m_WriteMode = scopedMedium_WriteMode E M, m_EnsureDir = scopedMedium_EnsureDir E M,
      m_IsFile = scopedMedium_IsFile E M, m_Delete = scopedMedium_Delete E M,
      m_DeleteAll = scopedMedium_DeleteAll E M, m_Rename = scopedMedium_Rename E M,
      m_List = scopedMedium_List E M, m_Stat = scopedMedium_Stat E M,
      m_Open = scopedMedium_Open E M, m_Create = scopedMedium_Create E M,
      m_Append = scopedMedium_Append E M, m_ReadStream = scopedMedium_ReadStream E M,
      m_WriteStream = scopedMedium_WriteStream E M, m_Exists = scopedMedium_Exists E M,
      m_IsDir = scopedMedium_IsDir E M\<rparr>"

subsection \<open>Workspaces\<close>

record ('s, 'f, 'r, 'w) workspace =
  ws_medium :: "('s, 'f, 'r, 'w) medium option"
  ws_base :: string
  ws_current :: string

definition NewWorkspace ::
  "go_env \<Rightarrow> ('s, 'f, 'r, 'w) medium option \<Rightarrow> string \<Rightarrow> 's \<Rightarrow> ('s, 'f, 'r, 'w) workspace res \<times> 's" where
  "NewWorkspace E medium baseSubpath s =
     (case medium of
        None \<Rightarrow> (Inl (CoreE ''workspace.NewWorkspace'' [''storage medium is required''] (Some ErrInvalid)), s)
      | Some M \<Rightarrow>
          (case cleanMediumSubpath E ''workspace.NewWorkspace'' baseSubpath True of
             Inl err \<Rightarrow> (Inl err, s)
           | Inr base \<Rightarrow>
               (if base \<noteq> '''' then
                  (case m_EnsureDir M base s of
                     (Some err, s') \<Rightarrow> (Inl (CoreE ''workspace.NewWorkspace''
                         [''failed to ensure base workspace directory''] (Some err)), s')
                   | (None, s') \<Rightarrow> (Inr \<lparr>ws_medium = medium, ws_base = base, ws_current = ''''\<rparr>, s'))
                else (Inr \<lparr>ws_medium = medium, ws_base = base, ws_current = ''''\<rparr>, s))))"

definition not_configured :: "string \<Rightarrow> gerr" where
  "not_configured operation = CoreE operation [''workspace service is not configured''] (Some ErrInvalid)"

text \<open>The medium of the workspace, the cleaned name and the path of the workspace.\<close>

definition workspaceNameAndPath ::
  "go_env \<Rightarrow> ('s, 'f, 'r, 'w) workspace option \<Rightarrow> string \<Rightarrow> string \<Rightarrow> (('s, 'f, 'r, 'w) medium \<times> string \<times> string) res" where
  "workspaceNameAndPath E ws operation name =
     (case ws of
        None \<Rightarrow> Inl (not_configured operation)
      | Some w \<Rightarrow>
          (case ws_medium w of
             None \<Rightarrow> Inl (not_configured operation)
           | Some M \<Rightarrow>
               (case cleanWorkspaceName E operation name of
                  Inl err \<Rightarrow> Inl err
                | Inr workspaceName \<Rightarrow>
                    Inr (M, workspaceName, joinMediumSubpaths E [ws_base w, workspaceName]))))"

definition CreateWorkspace ::
  "go_env \<Rightarrow> ('s, 'f, 'r, 'w) workspace option \<Rightarrow> string \<Rightarrow> 's \<Rightarrow> ('s, 'f, 'r, 'w) scoped_medium res \<times> 's" where
  "CreateWorkspace E ws name s =
     (let op = ''workspace.CreateWorkspace''
      in case workspaceNameAndPath E ws op name of
           Inl err \<Rightarrow> (Inl err, s)
         | Inr (M, _, workspacePath) \<Rightarrow>
             (if m_IsDir M workspacePath s
              then (Inl (CoreE op [''workspace already exists: '', name] (Some ErrExist)), s)
              else if m_Exists M workspacePath s
              then (Inl (CoreE op [''workspace path is not a directory: '', name] (Some ErrExist)), s)
              else case m_EnsureDir M workspacePath s of
                  (Some err, s') \<Rightarrow> (Inl (CoreE op [''failed to create workspace directory''] (Some err)), s')
                | (None, s') \<Rightarrow> (Inr \<lparr>sm_medium = M, sm_root = workspacePath\<rparr>, s')))"

definition SwitchWorkspace ::
  "go_env \<Rightarrow> ('s, 'f, 'r, 'w) workspace option \<Rightarrow> string \<Rightarrow> 's \<Rightarrow> gerr option \<times> ('s, 'f, 'r, 'w) workspace option" where
  "SwitchWorkspace E ws name s =
     (let op = ''workspace.SwitchWorkspace''
      in case workspaceNameAndPath E ws op name of
           Inl err \<Rightarrow> (Some err, ws)
         | Inr (M, workspaceName, workspacePath) \<Rightarrow>
             (if \<not> m_IsDir M workspacePath s
              then (Some (CoreE op [''workspace not found: '', workspaceName] (Some ErrNotExist)), ws)
              else (None, map_option (\<lambda>w. w\<lparr>ws_current := workspaceName\<rparr>) ws)))"

definition CurrentWorkspace :: "('s, 'f, 'r, 'w) workspace option \<Rightarrow> string" where
  "CurrentWorkspace ws = (case ws of None \<Rightarrow> '''' | Some w \<Rightarrow> ws_current w)"

definition workspaceFilePath ::
  "go_env \<Rightarrow> ('s, 'f, 'r, 'w) workspace option \<Rightarrow> string \<Rightarrow> string \<Rightarrow> string \<Rightarrow> bool \<Rightarrow> 's
     \<Rightarrow> (('s, 'f, 'r, 'w) medium \<times> string) res" where
  "workspaceFilePath E ws operation name filePath allowEmptyPath s =
     (case workspaceNameAndPath E ws operation name of
        Inl err \<Rightarrow> Inl err
      | Inr (M, _, workspacePath) \<Rightarrow>
          (if \<not> m_IsDir M workspacePath s
           then Inl (CoreE operation [''workspace not found: '', name] (Some ErrNotExist))
           else case cleanMediumSubpath E operation filePath allowEmptyPath of
               Inl err \<Rightarrow> Inl err
             | Inr cleanFilePath \<Rightarrow> Inr (M, joinMediumSubpaths E [workspacePath, cleanFilePath])))"

definition ReadWorkspaceFile ::
  "go_env \<Rightarrow> ('s, 'f, 'r, 'w) workspace option \<Rightarrow> string \<Rightarrow> string \<Rightarrow> 's \<Rightarrow> string res" where
  "ReadWorkspaceFile E ws name filePath s =
     (case workspaceFilePath E ws ''workspace.ReadWorkspaceFile'' name filePath False s of
        Inl err \<Rightarrow> Inl err | Inr (M, mediumPath) \<Rightarrow> m_Read M mediumPath s)"

definition WriteWorkspaceFile ::
  "go_env \<Rightarrow> ('s, 'f, 'r, 'w) workspace option \<Rightarrow> gotime \<Rightarrow> string \<Rightarrow> string \<Rightarrow> string \<Rightarrow> 's \<Rightarrow> gerr option \<times> 's" where
  "WriteWorkspaceFile E ws now name filePath content s =
     (case workspaceFilePath E ws ''workspace.WriteWorkspaceFile'' name filePath False s of
        Inl err \<Rightarrow> (Some err, s) | Inr (M, mediumPath) \<Rightarrow> m_Write M now mediumPath content s)"

definition ListWorkspaceFiles ::
  "go_env \<Rightarrow> ('s, 'f, 'r, 'w) workspace option \<Rightarrow> gotime \<Rightarrow> string \<Rightarrow> string \<Rightarrow> 's \<Rightarrow> dir_entry list res" where
  "ListWorkspaceFiles E ws now name directoryPath s =
     (case workspaceFilePath E ws ''workspace.ListWorkspaceFiles'' name directoryPath True s of
        Inl err \<Rightarrow> Inl err | Inr (M, mediumPath) \<Rightarrow> m_List M now mediumPath s)"

subsection \<open>Commands\<close>

record workspace_command =
  wc_Action :: string
  wc_Workspace :: string
  wc_Path :: string
  wc_Content :: string
  wc_Identifier :: string
  wc_Password :: string
  wc_WorkspaceID :: string

definition workspaceName :: "workspace_command \<Rightarrow> string" where
  "workspaceName c =
     (if wc_Workspace c \<noteq> '''' then wc_Workspace c
      else if wc_WorkspaceID c \<noteq> '''' then wc_WorkspaceID c else wc_Identifier c)"

text \<open>What a command hands to \<open>core.Fail\<close> or \<open>core.Ok\<close>.\<close>

datatype ('s, 'f, 'r, 'w) command_result =
    Failed gerr | OkNil | OkMedium "('s, 'f, 'r, 'w) scoped_medium" | OkContent string
  | OkEntries "dir_entry list" | OkID string

definition fail_or_nil :: "gerr option \<Rightarrow> ('s, 'f, 'r, 'w) command_result" where
  "fail_or_nil e = (case e of Some err \<Rightarrow> Failed err | None \<Rightarrow> OkNil)"

definition HandleWorkspaceCommand ::
  "go_env \<Rightarrow> gotime \<Rightarrow> workspace_command \<Rightarrow> ('s, 'f, 'r, 'w) workspace option \<Rightarrow> 's
     \<Rightarrow> ('s, 'f, 'r, 'w) command_result \<times> ('s, 'f, 'r, 'w) workspace option \<times> 's" where
  "HandleWorkspaceCommand E now command ws s =
     (let action = Lower E (Trim E (wc_Action command)); name = workspaceName command
      in if action \<in> {''create'', ''workspace.create''} then
           (case CreateWorkspace E ws name s of
              (Inl err, s') \<Rightarrow> (Failed err, ws, s') | (Inr medium, s') \<Rightarrow> (OkMedium medium, ws, s'))
         else if action \<in> {''switch'', ''workspace.switch''} then
           (case SwitchWorkspace E ws name s of (e, ws') \<Rightarrow> (fail_or_nil e, ws', s))
         else if action = ''read'' then
           (case ReadWorkspaceFile E ws name (wc_Path command) s of
              Inl err \<Rightarrow> (Failed err, ws, s) | Inr content \<Rightarrow> (OkContent content, ws, s))
         else if action = ''write'' then
           (case WriteWorkspaceFile E ws now name (wc_Path command) (wc_Content command) s of
              (e, s') \<Rightarrow> (fail_or_nil e, ws, s'))
         else if action = ''list'' then
           (case ListWorkspaceFiles E ws now name (wc_Path command) s of
              Inl err \<Rightarrow> (Failed err, ws, s) | Inr entries \<Rightarrow> (OkEntries entries, ws, s))
         else (Failed (CoreE ''workspace.HandleWorkspaceCommand''
             [''unsupported action: '', wc_Action command] (Some ErrInvalid)), ws, s))"

end
