(* ===== verification/WorkspaceProps.thy ===== *)
theory WorkspaceProps
  imports Workspace MemoryProps NodeProps StoreProps
begin

text \<open>
  A scoped medium stays below its root; a workspace works over every medium that keeps
  directories, and over one that does not (the node tree and the key-value store) it
  cannot be used by its name.
\<close>

subsection \<open>Paths\<close>

text \<open>A base path: empty, or a cleaned relative path.\<close>

definition base_ok :: "string \<Rightarrow> bool" where
  "base_ok b \<longleftrightarrow> b = '''' \<or> norm_path b"

definition below :: "string \<Rightarrow> string \<Rightarrow> string" where
  "below b p = (if b = '''' then p else if p = '''' then b else b @ slash # p)"

lemma norm_single: "norm_path n \<longleftrightarrow> good_elem n" if "slash \<notin> set n"
  using that by (simp add: norm_path_def split_on_no_sep)

lemma norm_below: "base_ok b \<Longrightarrow> norm_path p \<Longrightarrow> norm_path (below b p)"
  by (auto simp: base_ok_def below_def norm_path_append dest: norm_path_not_Nil)

context go_runtime
begin

lemma join_below:
  assumes "base_ok b" "base_ok p"
  shows "joinMediumSubpaths E [b, p] = below b p"
proof -
  have "norm_path b \<Longrightarrow> norm_path p \<Longrightarrow> path_clean (b @ slash # p) = b @ slash # p"
    by (simp add: norm_path_append)
  then show ?thesis
    using assms norm_path_not_Nil
    by (auto simp: joinMediumSubpaths_def below_def base_ok_def path_join_def Let_def)
qed

lemma cleanMediumSubpath_norm:
  assumes "cleanMediumSubpath E op p allow = Inr q"
  shows "(allow \<and> q = '''') \<or> norm_path q"
proof (cases "q = ''''")
  case True
  have "path_clean s \<noteq> ''''" for s
    by (auto simp: path_clean_def Let_def)
  then show ?thesis using assms True
    by (auto simp: cleanMediumSubpath_def Let_def split: if_splits)
next
  case False
  let ?s = "Trim E (replace_char (CHR 0x5C) slash p)"
  have "\<not> prefix ''/'' ?s" "''..'' \<notin> set (split_on slash ?s)" "q = path_clean ?s" "q \<noteq> ''.''"
    using assms False by (auto simp: cleanMediumSubpath_def Let_def list_ex_iff split: if_splits)
  then show ?thesis using clean_no_dotdot by metis
qed

lemma cleanWorkspaceName_good:
  assumes "cleanWorkspaceName E op name = Inr n"
  shows "n = Trim E name \<and> good_elem n"
  using assms by (auto simp: cleanWorkspaceName_def Let_def good_elem_def sublist_single split: if_splits)

lemma scopedPath_below:
  assumes "base_ok (sm_root A)" "scopedPath E A op p allow = Inr q"
  obtains r where "q = below (sm_root A) r" "(allow \<and> r = '''') \<or> norm_path r"
    "cleanMediumSubpath E op p allow = Inr r"
proof -
  obtain r where r: "cleanMediumSubpath E op p allow = Inr r"
    using assms(2) by (auto simp: scopedPath_def split: sum.splits)
  then have "(allow \<and> r = '''') \<or> norm_path r" by (rule cleanMediumSubpath_norm)
  moreover from this have "joinMediumSubpaths E [sm_root A, r] = below (sm_root A) r"
    using assms(1) by (intro join_below) (auto simp: base_ok_def)
  moreover have "q = joinMediumSubpaths E [sm_root A, r]" using r assms(2) by (simp add: scopedPath_def)
  ultimately show thesis using that [OF _ _ r] by simp
qed

text \<open>The operation name only shows in errors.\<close>

lemma cleanMediumSubpath_op:
  "cleanMediumSubpath E op p allow = Inr q \<Longrightarrow> cleanMediumSubpath E op' p allow = Inr q"
  by (auto simp: cleanMediumSubpath_def Let_def split: if_splits)

lemma scopedPath_op: "scopedPath E A op p allow = Inr q \<Longrightarrow> scopedPath E A op' p allow = Inr q"
  by (cases "cleanMediumSubpath E op p allow") (auto simp: scopedPath_def cleanMediumSubpath_op [of op p allow _ op'])

lemma cleanWorkspaceName_op:
  "cleanWorkspaceName E op p = Inr q \<Longrightarrow> cleanWorkspaceName E op' p = Inr q"
  by (auto simp: cleanWorkspaceName_def Let_def split: if_splits)

lemma workspaceNameAndPath_cases:
  assumes "workspaceNameAndPath E ws op name = Inr (M, n, p)" "\<forall>w. ws = Some w \<longrightarrow> base_ok (ws_base w)"
  obtains w where "ws = Some w" "ws_medium w = Some M" "n = Trim E name" "good_elem n"
    "p = below (ws_base w) n" "norm_path p"
proof -
  obtain w where w: "ws = Some w" "ws_medium w = Some M" "cleanWorkspaceName E op name = Inr n"
    "p = joinMediumSubpaths E [ws_base w, n]"
    using assms(1) by (auto simp: workspaceNameAndPath_def split: option.splits sum.splits)
  then have n: "n = Trim E name" "good_elem n" using cleanWorkspaceName_good by auto
  then have np: "norm_path n" using norm_single [of n] by (auto simp: good_elem_def)
  have "p = below (ws_base w) n" "norm_path p"
    using w assms(2) join_below [of "ws_base w" n] norm_below [of "ws_base w" n] np by (auto simp: base_ok_def)
  then show thesis using that w n by blast
qed

lemma workspaceNameAndPath_op:
  "workspaceNameAndPath E ws op name = Inr x \<Longrightarrow> workspaceNameAndPath E ws op' name = Inr x"
  by (cases "cleanWorkspaceName E op name")
    (auto simp: workspaceNameAndPath_def cleanWorkspaceName_op [of op name _ op'] split: option.splits)

end

lemma below_inj: "below b p = below b q \<Longrightarrow> norm_path p \<Longrightarrow> norm_path q \<Longrightarrow> p = q"
  by (auto simp: below_def dest: norm_path_not_Nil split: if_splits)

lemma below_outside:
  assumes "norm_path r" "b \<noteq> ''''" "\<not> prefix (b @ ''/'') q"
  shows "q \<noteq> below b r"
  using assms norm_path_not_Nil [OF assms(1)] by (auto simp: below_def)

text \<open>Two names below one base never lie in each other.\<close>

lemma names_apart:
  assumes "good_elem a" "good_elem b" "a \<noteq> b" "norm_path r"
  shows "\<not> prefix (below base a @ ''/'') (below (below base b) r)"
proof
  assume p: "prefix (below base a @ ''/'') (below (below base b) r)"
  have ne: "a \<noteq> ''''" "b \<noteq> ''''" "r \<noteq> ''''" using assms norm_path_not_Nil by (auto simp: good_elem_def)
  have "prefix (a @ ''/'') (b @ slash # r)"
    using p ne by (auto simp: below_def prefix_def split: if_splits)
  then obtain t where "b @ slash # r = a @ slash # t" by (auto simp: prefix_def)
  then have "split_on slash (b @ slash # r) = split_on slash (a @ slash # t)" by simp
  then have "[b] @ split_on slash r = [a] @ split_on slash t"
    using assms(1,2) by (simp add: split_on_append_sep split_on_no_sep good_elem_def)
  then show False using assms(3) by simp
qed

subsection \<open>Mediums with directories\<close>

text \<open>
  What a workspace relies on beyond reading and writing: a directory that has been ensured is one,
  and writing a file leaves it one.
\<close>

locale dir_medium = read_write M iv key valid
  for M :: "('s, 'f, 'r, 'w) medium" and iv :: "'s \<Rightarrow> bool" and key :: "string \<Rightarrow> 'k" and valid :: "string \<Rightarrow> bool" +
  assumes norm_valid: "norm_path p \<Longrightarrow> valid p"
    and key_inj: "norm_path p \<Longrightarrow> norm_path q \<Longrightarrow> key p = key q \<Longrightarrow> p = q"
    and ensured: "iv s \<Longrightarrow> norm_path p \<Longrightarrow> m_EnsureDir M p s = (None, s') \<Longrightarrow> iv s' \<and> m_IsDir M p s'"
    and write_dir: "iv s \<Longrightarrow> m_IsDir M d s \<Longrightarrow> m_WriteMode M now p c md s = (e, s') \<Longrightarrow> m_IsDir M d s'"

context go_runtime
begin

lemma memory_dir_medium: "dir_medium (MemoryMedium_medium E) (\<lambda>_. True) (\<lambda>p. p) (\<lambda>_. True)"
proof (intro dir_medium.intro dir_medium_axioms.intro memory_read_write)
  fix s p s'
  assume "norm_path p" "m_EnsureDir (MemoryMedium_medium E) p s = (None, s')"
  then show "True \<and> m_IsDir (MemoryMedium_medium E) p s'"
    using norm_path_not_Nil [of p]
    by (auto simp: MemoryMedium_medium_def EnsureDir_eq MemoryMedium_IsDir_def directoryExists_def split: if_splits)
next
  fix s d now p c md e s'
  assume "m_IsDir (MemoryMedium_medium E) d s" "m_WriteMode (MemoryMedium_medium E) now p c md s = (e, s')"
  then show "m_IsDir (MemoryMedium_medium E) d s'"
    by (fastforce simp: MemoryMedium_medium_def WriteMode_eq MemoryMedium_IsDir_def directoryExists_def
        has_key_dom [symmetric] has_key_def Let_def split: if_splits option.splits)
qed simp_all

end

interpretation memory_dirs: dir_medium "MemoryMedium_medium go_core" "\<lambda>_. True" "\<lambda>p. p" "\<lambda>_. True"
  by (rule core.memory_dir_medium)

subsection \<open>Scoped mediums\<close>

context go_runtime
begin

lemma scoped_write_cases:
  assumes "base_ok (sm_root A)" "scopedMedium_WriteMode E A now p c md s = (e, s')"
  obtains (refused) "s' = s" "e \<noteq> None"
    | (written) r where "norm_path r" "cleanMediumSubpath E ''workspace.scopedMedium.Read'' p False = Inr r"
      "m_WriteMode (sm_medium A) now (below (sm_root A) r) c md s = (e, s')"
proof (cases "scopedPath E A ''workspace.scopedMedium.WriteMode'' p False")
  case (Inl err)
  then show thesis using assms(2) by (intro refused) (auto simp: scopedMedium_WriteMode_def scoped_change_def)
next
  case (Inr q)
  obtain r where r: "q = below (sm_root A) r" "norm_path r"
    "cleanMediumSubpath E ''workspace.scopedMedium.WriteMode'' p False = Inr r"
    using scopedPath_below [OF assms(1) Inr] by auto
  show thesis
    by (rule written [OF r(2) cleanMediumSubpath_op [OF r(3)]])
      (use assms(2) Inr r in \<open>simp add: scopedMedium_WriteMode_def scoped_change_def\<close>)
qed

lemma scoped_read:
  assumes "base_ok (sm_root A)" "cleanMediumSubpath E ''workspace.scopedMedium.Read'' p False = Inr r" "norm_path r"
  shows "scopedMedium_Read E A p s = m_Read (sm_medium A) (below (sm_root A) r) s"
proof -
  have "joinMediumSubpaths E [sm_root A, r] = below (sm_root A) r"
    using assms by (intro join_below) (auto simp: base_ok_def)
  then show ?thesis using assms by (simp add: scopedMedium_Read_def scoped_query_def scopedPath_def)
qed

end

subsection \<open>Properties\<close>

text \<open>
  C15: the medium scoped to a workspace reads back what it writes, and nothing it writes can be seen
  outside its root: a clean path of the inner medium that is not below the root, and every path of
  the medium scoped to a workspace of another name, reads as before.  The inner medium keeps the contract of
  writing, reading and directories.
\<close>

theorem scoped_isolated:
  assumes "go_runtime E" "dir_medium M iv key valid" "iv s" "base_ok base"
    "good_elem a" "good_elem b" "a \<noteq> b"
    "scopedMedium_WriteMode E \<lparr>sm_medium = M, sm_root = below base a\<rparr> now p c md s = (e, s')"
  shows "iv s' \<and>
    (e = None \<longrightarrow> scopedMedium_Read E \<lparr>sm_medium = M, sm_root = below base a\<rparr> p s' = Inr c) \<and>
    (norm_path q \<and> \<not> prefix (below base a @ ''/'') q \<longrightarrow> m_Read M q s' = m_Read M q s) \<and>
    scopedMedium_Read E \<lparr>sm_medium = M, sm_root = below base b\<rparr> q s' =
      scopedMedium_Read E \<lparr>sm_medium = M, sm_root = below base b\<rparr> q s"
proof -
  let ?A = "\<lparr>sm_medium = M, sm_root = below base a\<rparr>" and ?B = "\<lparr>sm_medium = M, sm_root = below base b\<rparr>"
  have "slash \<notin> set a" "slash \<notin> set b" using assms(5,6) by (simp_all add: good_elem_def)
  then have na: "norm_path (below base a)" and nb: "norm_path (below base b)"
    using norm_below [OF assms(4)] norm_single assms(5,6) by auto
  have bA: "base_ok (sm_root ?A)" and bB: "base_ok (sm_root ?B)" using na nb by (simp_all add: base_ok_def)
  have rw: "read_write M iv key valid" using assms(2) by (simp add: dir_medium_def)
  have alt: "(s' = s \<and> e \<noteq> None) \<or> (\<exists>r. norm_path r \<and>
      cleanMediumSubpath E ''workspace.scopedMedium.Read'' p False = Inr r \<and>
      m_WriteMode M now (below (below base a) r) c md s = (e, s'))"
    by (rule go_runtime.scoped_write_cases [OF assms(1) bA assms(8)]) auto
  have frame: "m_Read M x s' = m_Read M x s" if "norm_path x" "\<not> prefix (below base a @ ''/'') x" for x
    using alt
  proof (elim disjE exE conjE)
    fix r assume written: "norm_path r" "m_WriteMode M now (below (below base a) r) c md s = (e, s')"
    then have nr: "norm_path (below (below base a) r)" using norm_below bA by simp
    have "below base a \<noteq> ''''" using na norm_path_not_Nil by blast
    then have "key x \<noteq> key (below (below base a) r)"
      using dir_medium.key_inj [OF assms(2) that(1) nr] below_outside [OF written(1) _ that(2)] by auto
    then show ?thesis using read_write.read_other [OF rw assms(3) written(2)] by simp
  qed simp
  have "scopedMedium_Read E ?B q s' = scopedMedium_Read E ?B q s"
  proof (cases "scopedPath E ?B ''workspace.scopedMedium.Read'' q False")
    case (Inr y)
    obtain r where r: "y = below (below base b) r" "norm_path r"
      using go_runtime.scopedPath_below [OF assms(1) bB Inr] by auto
    then have "norm_path y" "\<not> prefix (below base a @ ''/'') y"
      using norm_below bB names_apart [OF assms(5-7)] by auto
    then show ?thesis using frame Inr by (simp add: scopedMedium_Read_def scoped_query_def)
  qed (simp add: scopedMedium_Read_def scoped_query_def)
  moreover have "iv s' \<and> (e = None \<longrightarrow> scopedMedium_Read E ?A p s' = Inr c)"
    using alt
  proof (elim disjE exE conjE)
    fix r assume written: "norm_path r" "cleanMediumSubpath E ''workspace.scopedMedium.Read'' p False = Inr r"
      "m_WriteMode M now (below (below base a) r) c md s = (e, s')"
    then have "valid (below (below base a) r)"
      using dir_medium.norm_valid [OF assms(2)] norm_below bA by simp
    then show ?thesis
      using written read_write.write_inv [OF rw assms(3)] read_write.read_written [OF rw assms(3)]
        go_runtime.scoped_read [OF assms(1) bA] by auto
  qed (use assms(3) in auto)
  ultimately show ?thesis using frame by blast
qed

theorem scoped_isolated_witness:
  "scopedMedium_Read go_core \<lparr>sm_medium = MemoryMedium_medium go_core, sm_root = ''ws/a''\<rparr> ''x//f''
     (snd (scopedMedium_WriteMode go_core \<lparr>sm_medium = MemoryMedium_medium go_core, sm_root = ''ws/a''\<rparr> 0 ''x/f'' ''c'' 420
       NewMemoryMedium)) = Inr ''c''"
proof -
  let ?A = "\<lparr>sm_medium = MemoryMedium_medium go_core, sm_root = below ''ws'' ''a''\<rparr>"
  let ?w = "scopedMedium_WriteMode go_core ?A 0 ''x/f'' ''c'' 420 NewMemoryMedium"
  have g: "base_ok ''ws''" "good_elem ''a''" "good_elem ''b''" "''a'' \<noteq> ''b''"
    unfolding base_ok_def by code_simp+
  have b: "below ''ws'' ''a'' = ''ws/a''" by code_simp
  have "fst ?w = None" by code_simp
  then have w: "?w = (None, snd ?w)" by (metis prod.collapse)
  have "cleanMediumSubpath go_core op ''x//f'' False = cleanMediumSubpath go_core op ''x/f'' False" for op
  proof -
    have "cleanMediumSubpath go_core '''' ''x//f'' False = Inr ''x/f''" "cleanMediumSubpath go_core '''' ''x/f'' False = Inr ''x/f''"
      by code_simp+
    then show ?thesis using core.cleanMediumSubpath_op by metis
  qed
  then have "scopedMedium_Read go_core ?A ''x//f'' = scopedMedium_Read go_core ?A ''x/f''"
    by (intro ext) (simp add: scopedMedium_Read_def scoped_query_def scopedPath_def)
  moreover have "scopedMedium_Read go_core ?A ''x/f'' (snd ?w) = Inr ''c''"
    using scoped_isolated [OF go_core_ok core.memory_dir_medium TrueI g w] by blast
  ultimately show ?thesis using b by simp
qed

text \<open>
  C16: over a medium that keeps directories, a workspace that was created can be switched to, and is
  the current one then; what is written to it under its name can be read under its name and
  through the medium that its creation returned.
\<close>

theorem workspace_lifecycle:
  assumes "go_runtime E" "dir_medium M iv key valid" "iv s" "base_ok base"
    "ws = Some \<lparr>ws_medium = Some M, ws_base = base, ws_current = cur\<rparr>"
    "CreateWorkspace E ws name s = (Inr A, s1)"
    "WriteWorkspaceFile E ws now name f c s1 = (None, s2)"
  shows "fst (SwitchWorkspace E ws name s1) = None \<and>
    CurrentWorkspace (snd (SwitchWorkspace E ws name s1)) = Trim E name \<and>
    ReadWorkspaceFile E ws name f s2 = Inr c \<and> scopedMedium_Read E A f s2 = Inr c"
proof -
  have rw: "read_write M iv key valid" using assms(2) by (simp add: dir_medium_def)
  obtain n p where np: "workspaceNameAndPath E ws ''workspace.CreateWorkspace'' name = Inr (M, n, p)"
    "m_EnsureDir M p s = (None, s1)" "A = \<lparr>sm_medium = M, sm_root = p\<rparr>"
    using assms(5,6) by (auto simp: CreateWorkspace_def Let_def workspaceNameAndPath_def
        split: sum.splits prod.splits if_splits option.splits)
  have n: "n = Trim E name" "norm_path p"
    using go_runtime.workspaceNameAndPath_cases [OF assms(1) np(1)] assms(4,5) by auto
  have op: "workspaceNameAndPath E ws op name = Inr (M, n, p)" for op
    by (rule go_runtime.workspaceNameAndPath_op [OF assms(1) np(1)])
  have d1: "iv s1" "m_IsDir M p s1" using dir_medium.ensured [OF assms(2,3) n(2) np(2)] by auto
  have bA: "base_ok (sm_root A)" using n np(3) by (simp add: base_ok_def)
  obtain r where r: "cleanMediumSubpath E ''workspace.WriteWorkspaceFile'' f False = Inr r"
    "m_Write M now (joinMediumSubpaths E [p, r]) c s1 = (None, s2)"
    using assms(7) by (auto simp: WriteWorkspaceFile_def workspaceFilePath_def op d1 split: sum.splits)
  have nr: "norm_path r" using go_runtime.cleanMediumSubpath_norm [OF assms(1) r(1)] by simp
  have rop: "cleanMediumSubpath E op f False = Inr r" for op
    by (rule go_runtime.cleanMediumSubpath_op [OF assms(1) r(1)])
  have j: "joinMediumSubpaths E [p, r] = below p r"
    using go_runtime.join_below [OF assms(1)] n(2) nr by (simp add: base_ok_def)
  have w: "m_WriteMode M now (below p r) c 420 s1 = (None, s2)"
    using r(2) j read_write.write_default [OF rw] by simp
  have "valid (below p r)" using dir_medium.norm_valid [OF assms(2)] norm_below n(2) nr by (simp add: base_ok_def)
  then have rd: "m_Read M (below p r) s2 = Inr c" by (rule read_write.read_written [OF rw d1(1) _ w])
  have d2: "m_IsDir M p s2" by (rule dir_medium.write_dir [OF assms(2) d1 w])
  have "ReadWorkspaceFile E ws name f s2 = Inr c"
    using d2 rd by (simp add: ReadWorkspaceFile_def workspaceFilePath_def op rop j)
  moreover have "scopedMedium_Read E A f s2 = Inr c"
    using go_runtime.scoped_read [OF assms(1) bA rop nr] rd np(3) by simp
  moreover have "SwitchWorkspace E ws name s1 = (None, map_option (\<lambda>w. w\<lparr>ws_current := n\<rparr>) ws)"
    using d1 by (simp add: SwitchWorkspace_def op Let_def)
  ultimately show ?thesis using assms(5) n by (simp add: CurrentWorkspace_def)
qed

theorem workspace_lifecycle_witness:
  "\<exists>ws s. fst (CreateWorkspace go_core ws '' alice '' NewMemoryMedium) = Inr \<lparr>sm_medium = MemoryMedium_medium go_core, sm_root = ''ws/alice''\<rparr> \<and>
     WriteWorkspaceFile go_core ws 0 '' alice '' ''a/f'' ''c'' (snd (CreateWorkspace go_core ws '' alice '' NewMemoryMedium)) = (None, s) \<and>
     ReadWorkspaceFile go_core ws '' alice '' ''a/f'' s = Inr ''c''"
proof -
  let ?M = "MemoryMedium_medium go_core"
  let ?ws = "Some \<lparr>ws_medium = Some ?M, ws_base = ''ws'', ws_current = ''''\<rparr>"
  let ?c = "CreateWorkspace go_core ?ws '' alice '' NewMemoryMedium"
  let ?w = "WriteWorkspaceFile go_core ?ws 0 '' alice '' ''a/f'' ''c'' (snd ?c)"
  have b: "base_ok ''ws''" unfolding base_ok_def by code_simp
  have n: "workspaceNameAndPath go_core ?ws ''workspace.CreateWorkspace'' '' alice '' = Inr (?M, ''alice'', ''ws/alice'')"
  proof -
    have "cleanWorkspaceName go_core ''workspace.CreateWorkspace'' '' alice '' = Inr ''alice''"
      "joinMediumSubpaths go_core [''ws'', ''alice''] = ''ws/alice''" by code_simp+
    then show ?thesis by (simp add: workspaceNameAndPath_def)
  qed
  have "\<not> m_IsDir ?M ''ws/alice'' NewMemoryMedium" "\<not> m_Exists ?M ''ws/alice'' NewMemoryMedium"
    "fst (m_EnsureDir ?M ''ws/alice'' NewMemoryMedium) = None"
    by code_simp+
  then have c: "fst ?c = Inr \<lparr>sm_medium = ?M, sm_root = ''ws/alice''\<rparr>"
    by (auto simp: CreateWorkspace_def n Let_def case_prod_beta)
  then have c': "?c = (Inr \<lparr>sm_medium = ?M, sm_root = ''ws/alice''\<rparr>, snd ?c)" by (metis prod.collapse)
  have "fst ?w = None" by code_simp
  then have w: "?w = (None, snd ?w)" by (metis prod.collapse)
  have "ReadWorkspaceFile go_core ?ws '' alice '' ''a/f'' (snd ?w) = Inr ''c''"
    using workspace_lifecycle [OF go_core_ok core.memory_dir_medium TrueI b refl c' w] by blast
  then show ?thesis using c w by blast
qed

text \<open>
  Over a medium whose \<open>EnsureDir\<close> does nothing, as that of the node tree and that of the key-value
  store, a workspace is reported as created but does not exist: switching to it, writing to it and
  reading from it by its name fail with \<open>ErrNotExist\<close>, and it can be created again.
\<close>

theorem workspace_without_directories:
  assumes "ws = Some \<lparr>ws_medium = Some M, ws_base = base, ws_current = cur\<rparr>"
    "\<forall>p s. m_EnsureDir M p s = (None, s)"
    "go_runtime E" "CreateWorkspace E ws name s = (Inr A, s1)"
  shows "s1 = s \<and> CreateWorkspace E ws name s1 = (Inr A, s1) \<and>
    (\<exists>err. SwitchWorkspace E ws name s1 = (Some err, ws) \<and> err_is err ErrNotExist) \<and>
    (\<exists>err. WriteWorkspaceFile E ws now name f c s1 = (Some err, s1) \<and> err_is err ErrNotExist) \<and>
    (\<exists>err. ReadWorkspaceFile E ws name f s1 = Inl err \<and> err_is err ErrNotExist)"
proof -
  note ens = assms(2)
  obtain n p where np: "workspaceNameAndPath E ws ''workspace.CreateWorkspace'' name = Inr (M, n, p)"
    "s1 = s" "\<not> m_IsDir M p s"
    using assms(1,4) ens by (auto simp: CreateWorkspace_def Let_def workspaceNameAndPath_def
        split: sum.splits prod.splits if_splits option.splits)
  have op: "workspaceNameAndPath E ws op name = Inr (M, n, p)" for op
    by (rule go_runtime.workspaceNameAndPath_op [OF assms(3) np(1)])
  show ?thesis
    using np(2,3) assms(4)
    by (simp add: SwitchWorkspace_def WriteWorkspaceFile_def ReadWorkspaceFile_def workspaceFilePath_def op Let_def)
qed

lemma node_EnsureDir_nothing: "\<forall>p s. m_EnsureDir (Node_medium E) p s = (None, s)"
  by (simp add: Node_medium_def Node_EnsureDir_def)

lemma store_EnsureDir_nothing: "\<forall>p s. m_EnsureDir (Store_medium E D) p s = (None, s)"
  by (simp add: Store_medium_def StoreMedium_EnsureDir_def)

theorem workspace_without_directories_witness:
  "\<exists>A s1 err. CreateWorkspace go_core (Some \<lparr>ws_medium = Some (Node_medium go_core), ws_base = ''ws'', ws_current = ''''\<rparr>)
       ''alice'' Node_New = (Inr A, s1) \<and>
     SwitchWorkspace go_core (Some \<lparr>ws_medium = Some (Node_medium go_core), ws_base = ''ws'', ws_current = ''''\<rparr>)
       ''alice'' s1 = (Some err, Some \<lparr>ws_medium = Some (Node_medium go_core), ws_base = ''ws'', ws_current = ''''\<rparr>)"
proof -
  let ?ws = "Some \<lparr>ws_medium = Some (Node_medium go_core), ws_base = ''ws'', ws_current = ''''\<rparr>"
  let ?c = "CreateWorkspace go_core ?ws ''alice'' Node_New"
  have "case fst ?c of Inr _ \<Rightarrow> True | Inl _ \<Rightarrow> False" by code_simp
  then obtain A where "fst ?c = Inr A" by (auto split: sum.splits)
  then have c: "?c = (Inr A, snd ?c)" by (metis prod.collapse)
  show ?thesis
    using workspace_without_directories [OF refl node_EnsureDir_nothing go_core_ok c] c by blast
qed

end
