(* ===== verification/Service.thy ===== *)
theory Service
  imports Workspace CryptoSigil
begin

text \<open>
  The encrypted workspaces of \<open>go/workspace/service.go\<close>: a directory per identifier below an
  absolute root, a private key in it, and files encrypted under a key derived from it.
\<close>

subsection \<open>The hash adapter\<close>

text \<open>\<open>workspaceSHA256Hash\<close> collects what is written and hashes it when asked for the sum.\<close>

definition newWorkspaceSHA256Hash :: bytes where "newWorkspaceSHA256Hash = []"

definition workspaceSHA256Hash_Write :: "bytes \<Rightarrow> bytes \<Rightarrow> nat res \<times> bytes" where
  "workspaceSHA256Hash_Write data h = (Inr (length data), h @ data)"

definition workspaceSHA256Hash_Sum :: "(bytes \<Rightarrow> bytes) \<Rightarrow> bytes \<Rightarrow> bytes \<Rightarrow> bytes" where
  "workspaceSHA256Hash_Sum sha pre h = pre @ sha h"

definition workspaceSHA256Hash_Reset :: "bytes \<Rightarrow> bytes" where "workspaceSHA256Hash_Reset h = []"

definition workspaceSHA256Hash_Size :: nat where "workspaceSHA256Hash_Size = 32"

definition workspaceSHA256Hash_BlockSize :: nat where "workspaceSHA256Hash_BlockSize = 64"

definition workspaceSHA256Hex :: "(bytes \<Rightarrow> bytes) \<Rightarrow> bytes \<Rightarrow> string" where
  "workspaceSHA256Hex sha data = hex_encode (sha data)"

subsection \<open>The service\<close>

text \<open>
  What the service calls outside of the repository: SHA-256, the cipher with the random reader it
  uses, reading 32 bytes from \<open>hkdf.New\<close>, and the environment variables.  \<open>hkdf.New\<close> gets a hash
  function, the secret and the info string.
\<close>

record 'e service_env =
  se_sha :: "bytes \<Rightarrow> bytes"
  se_cipher :: chacha
  se_rand :: "'e reader"
  se_hkdf :: "(bytes \<Rightarrow> bytes) \<Rightarrow> bytes \<Rightarrow> bytes \<Rightarrow> nat \<Rightarrow> bytes res"
  se_Env :: "string \<Rightarrow> string"

type_synonym 'e key_provider = "string \<Rightarrow> string \<Rightarrow> 'e \<Rightarrow> string res \<times> 'e"

record ('s, 'f, 'r, 'w, 'e) service =
  sv_keyPairProvider :: "'e key_provider option"
  sv_activeWorkspaceID :: string
  sv_rootPath :: string
  sv_medium :: "('s, 'f, 'r, 'w) medium"

definition resolveWorkspaceHomeDirectory :: "'e service_env \<Rightarrow> string" where
  "resolveWorkspaceHomeDirectory V =
     (if se_Env V ''CORE_HOME'' \<noteq> '''' then se_Env V ''CORE_HOME''
      else if se_Env V ''HOME'' \<noteq> '''' then se_Env V ''HOME'' else se_Env V ''DIR_HOME'')"

definition joinPathWithinRoot :: "go_env \<Rightarrow> 'e service_env \<Rightarrow> string \<Rightarrow> string list \<Rightarrow> string res" where
  "joinPathWithinRoot E V root parts =
     (let candidate = Path E (root # parts);
          separator = (if se_Env V ''CORE_PATH_SEPARATOR'' \<noteq> '''' then se_Env V ''CORE_PATH_SEPARATOR''
            else if se_Env V ''DS'' \<noteq> '''' then se_Env V ''DS'' else ''/'')
      in if candidate = root \<or> HasPrefix E candidate (root @ separator) then Inr candidate
         else Inl ErrPermission)"

text \<open>\<open>io.Local\<close> stands in when no medium is given; both may be nil.\<close>

definition Service_New ::
  "go_env \<Rightarrow> 'e service_env \<Rightarrow> 'e key_provider option \<Rightarrow> string \<Rightarrow> ('s, 'f, 'r, 'w) medium option
     \<Rightarrow> ('s, 'f, 'r, 'w) medium option \<Rightarrow> 's \<Rightarrow> ('s, 'f, 'r, 'w, 'e) service res \<times> 's" where
  "Service_New E V keyPairProvider root optMedium ioLocal s =
     (let op = ''workspace.New''; home = resolveWorkspaceHomeDirectory V
      in if root = '''' \<and> home = ''''
         then (Inl (CoreE op [''failed to determine home directory''] (Some ErrNotExist)), s)
         else let rootPath = (if root = '''' then Path E [home, ''.core'', ''workspaces''] else root)
              in case keyPairProvider of
                   None \<Rightarrow> (Inl (CoreE op [''key pair provider is required''] (Some ErrInvalid)), s)
                 | Some provider \<Rightarrow>
                     (case (case optMedium of Some m \<Rightarrow> Some m | None \<Rightarrow> ioLocal) of
                        None \<Rightarrow> (Inl (CoreE op [''storage medium is required''] (Some ErrInvalid)), s)
                      | Some M \<Rightarrow>
                          (case m_EnsureDir M rootPath s of
                             (Some err, s') \<Rightarrow> (Inl (CoreE op [''failed to ensure root directory''] (Some err)), s')
                           | (None, s') \<Rightarrow>
                               (Inr \<lparr>sv_keyPairProvider = Some provider, sv_activeWorkspaceID = '''',
                                  sv_rootPath = rootPath, sv_medium = M\<rparr>, s'))))"

definition resolveWorkspaceDirectory ::
  "go_env \<Rightarrow> 'e service_env \<Rightarrow> ('s, 'f, 'r, 'w, 'e) service \<Rightarrow> string \<Rightarrow> string \<Rightarrow> string res" where
  "resolveWorkspaceDirectory E V sv operation workspaceID =
     (if workspaceID = '''' then Inl (CoreE operation [''workspace id is required''] (Some ErrInvalid))
      else case joinPathWithinRoot E V (sv_rootPath sv) [workspaceID] of
          Inl err \<Rightarrow> Inl (CoreE operation [''workspace path escapes root''] (Some err))
        | Inr workspaceDirectory \<Rightarrow>
            (if PathDir E workspaceDirectory \<noteq> sv_rootPath sv
             then Inl (CoreE operation [''invalid workspace id: '', workspaceID] (Some ErrPermission))
             else Inr workspaceDirectory))"

definition workspace_directories :: "string list" where
  "workspace_directories = [''config'', ''log'', ''data'', ''files'', ''keys'']"

definition ensure_directory ::
  "go_env \<Rightarrow> ('s, 'f, 'r, 'w) medium \<Rightarrow> string \<Rightarrow> string \<Rightarrow> 's \<Rightarrow> gerr option \<times> 's" where
  "ensure_directory E M workspaceDirectory directoryName s =
     (case m_EnsureDir M (Path E [workspaceDirectory, directoryName]) s of
        (Some err, s') \<Rightarrow>
          (Some (CoreE ''workspace.CreateWorkspace'' [''failed to create directory: '', directoryName] (Some err)), s')
      | (None, s') \<Rightarrow> (None, s'))"

definition Service_CreateWorkspace ::
  "go_env \<Rightarrow> 'e service_env \<Rightarrow> gotime \<Rightarrow> ('s, 'f, 'r, 'w, 'e) service \<Rightarrow> string \<Rightarrow> string \<Rightarrow> 's \<times> 'e
     \<Rightarrow> string res \<times> 's \<times> 'e" where
  "Service_CreateWorkspace E V now sv identifier passphrase st =
     (case st of (s, e) \<Rightarrow>
        (let op = ''workspace.CreateWorkspace''; M = sv_medium sv
         in case sv_keyPairProvider sv of
              None \<Rightarrow> (Inl (CoreE op [''key pair provider not available''] (Some ErrInvalid)), s, e)
            | Some provider \<Rightarrow>
                (let workspaceID = workspaceSHA256Hex (se_sha V) identifier
                 in case resolveWorkspaceDirectory E V sv op workspaceID of
                      Inl err \<Rightarrow> (Inl err, s, e)
                    | Inr workspaceDirectory \<Rightarrow>
                        (if m_Exists M workspaceDirectory s
                         then (Inl (CoreE op [''workspace already exists''] (Some ErrExist)), s, e)
                         else case each (ensure_directory E M workspaceDirectory) workspace_directories s of
                             (Some err, s') \<Rightarrow> (Inl err, s', e)
                           | (None, s') \<Rightarrow>
                               (case provider identifier passphrase e of
                                  (Inl err, e') \<Rightarrow> (Inl (CoreE op [''failed to generate keys''] (Some err)), s', e')
                                | (Inr privateKey, e') \<Rightarrow>
                                    (case m_WriteMode M now (Path E [workspaceDirectory, ''keys'', ''private.key''])
                                            privateKey 384 s' of
                                       (Some err, s'') \<Rightarrow>
                                         (Inl (CoreE op [''failed to save private key''] (Some err)), s'', e')
                                     | (None, s'') \<Rightarrow> (Inr workspaceID, s'', e')))))))"

definition Service_SwitchWorkspace ::
  "go_env \<Rightarrow> 'e service_env \<Rightarrow> string \<Rightarrow> 's \<Rightarrow> ('s, 'f, 'r, 'w, 'e) service
     \<Rightarrow> gerr option \<times> ('s, 'f, 'r, 'w, 'e) service" where
  "Service_SwitchWorkspace E V workspaceID s sv =
     (case resolveWorkspaceDirectory E V sv ''workspace.SwitchWorkspace'' workspaceID of
        Inl err \<Rightarrow> (Some err, sv)
      | Inr workspaceDirectory \<Rightarrow>
          (if \<not> m_IsDir (sv_medium sv) workspaceDirectory s
           then (Some (CoreE ''workspace.SwitchWorkspace'' [''workspace not found: '', workspaceID]
                   (Some ErrNotExist)), sv)
           else (None, sv\<lparr>sv_activeWorkspaceID := PathBase E workspaceDirectory\<rparr>)))"

definition resolveActiveWorkspaceFilePath ::
  "go_env \<Rightarrow> 'e service_env \<Rightarrow> ('s, 'f, 'r, 'w, 'e) service \<Rightarrow> string \<Rightarrow> string \<Rightarrow> string res" where
  "resolveActiveWorkspaceFilePath E V sv operation path =
     (if sv_activeWorkspaceID sv = '''' then Inl (CoreE operation [''no active workspace''] (Some ErrNotExist))
      else let filesRoot = Path E [sv_rootPath sv, sv_activeWorkspaceID sv, ''files'']
           in case joinPathWithinRoot E V filesRoot [path] of
                Inl err \<Rightarrow> Inl (CoreE operation [''file path escapes workspace files''] (Some ErrPermission))
              | Inr filePath \<Rightarrow>
                  (if filePath = filesRoot
                   then Inl (CoreE operation [''workspace file path is required''] (Some ErrInvalid))
                   else Inr filePath))"

definition workspaceCipherSigil ::
  "go_env \<Rightarrow> 'e service_env \<Rightarrow> ('s, 'f, 'r, 'w, 'e) service \<Rightarrow> string \<Rightarrow> 's \<Rightarrow> 'e chacha_sigil res" where
  "workspaceCipherSigil E V sv operation s =
     (if sv_activeWorkspaceID sv = '''' then Inl (CoreE operation [''no active workspace''] (Some ErrNotExist))
      else let keyPath = Path E [sv_rootPath sv, sv_activeWorkspaceID sv, ''keys'', ''private.key'']
           in case m_Read (sv_medium sv) keyPath s of
                Inl err \<Rightarrow> Inl (CoreE operation [''failed to read workspace key''] (Some err))
              | Inr rawKey \<Rightarrow>
                  (case se_hkdf V (\<lambda>d. workspaceSHA256Hash_Sum (se_sha V) [] d) rawKey ''workspace-cipher-key'' 32 of
                     Inl err \<Rightarrow> Inl (CoreE operation [''failed to derive workspace key''] (Some err))
                   | Inr derived \<Rightarrow>
                       (case NewChaChaPolySigil (se_sha V) (se_rand V) (Some derived) NilArg of
                          Inl err \<Rightarrow> Inl (CoreE operation [''failed to create cipher sigil''] (Some err))
                        | Inr cipherSigil \<Rightarrow> Inr cipherSigil)))"

definition Service_ReadWorkspaceFile ::
  "go_env \<Rightarrow> 'e service_env \<Rightarrow> ('s, 'f, 'r, 'w, 'e) service \<Rightarrow> string \<Rightarrow> 's \<times> 'e \<Rightarrow> string res" where
  "Service_ReadWorkspaceFile E V sv path st =
     (case st of (s, e) \<Rightarrow>
        (let op = ''workspace.ReadWorkspaceFile''
         in case resolveActiveWorkspaceFilePath E V sv op path of
              Inl err \<Rightarrow> Inl err
            | Inr filePath \<Rightarrow>
                (case workspaceCipherSigil E V sv op s of
                   Inl err \<Rightarrow> Inl err
                 | Inr cipherSigil \<Rightarrow>
                     (case m_Read (sv_medium sv) filePath s of
                        Inl err \<Rightarrow> Inl err
                      | Inr encoded \<Rightarrow>
                          (case fst (Untransmute (Some encoded)
                                   [ChaChaPolySigil (se_cipher V) (se_rand V) cipherSigil] e) of
                             Inl err \<Rightarrow> Inl (CoreE op [''failed to decrypt file content''] (Some err))
                           | Inr plaintext \<Rightarrow> Inr (data_of plaintext))))))"

definition Service_WriteWorkspaceFile ::
  "go_env \<Rightarrow> 'e service_env \<Rightarrow> gotime \<Rightarrow> ('s, 'f, 'r, 'w, 'e) service \<Rightarrow> string \<Rightarrow> string \<Rightarrow> 's \<times> 'e
     \<Rightarrow> gerr option \<times> 's \<times> 'e" where
  "Service_WriteWorkspaceFile E V now sv path content st =
     (case st of (s, e) \<Rightarrow>
        (let op = ''workspace.WriteWorkspaceFile''
         in case resolveActiveWorkspaceFilePath E V sv op path of
              Inl err \<Rightarrow> (Some err, s, e)
            | Inr filePath \<Rightarrow>
                (case workspaceCipherSigil E V sv op s of
                   Inl err \<Rightarrow> (Some err, s, e)
                 | Inr cipherSigil \<Rightarrow>
                     (case Transmute (Some content) [ChaChaPolySigil (se_cipher V) (se_rand V) cipherSigil] e of
                        (Inl err, e') \<Rightarrow> (Some (CoreE op [''failed to encrypt file content''] (Some err)), s, e')
                      | (Inr ciphertext, e') \<Rightarrow>
                          (case m_Write (sv_medium sv) now filePath (data_of ciphertext) s of
                             (r, s') \<Rightarrow> (r, s', e'))))))"

definition Service_HandleWorkspaceCommand ::
  "go_env \<Rightarrow> 'e service_env \<Rightarrow> gotime \<Rightarrow> workspace_command \<Rightarrow> ('s, 'f, 'r, 'w, 'e) service \<Rightarrow> 's \<times> 'e
     \<Rightarrow> ('s, 'f, 'r, 'w) command_result \<times> ('s, 'f, 'r, 'w, 'e) service \<times> 's \<times> 'e" where
  "Service_HandleWorkspaceCommand E V now command sv st =
     (let op = ''workspace.HandleWorkspaceCommand''; name = workspaceName command
      in if wc_Action command \<in> {''create'', ''workspace.create''} then
           (if name = '''' then (Failed (CoreE op [''workspace identifier is required''] (Some ErrInvalid)), sv, st)
            else case Service_CreateWorkspace E V now sv name (wc_Password command) st of
                (Inl err, st') \<Rightarrow> (Failed err, sv, st') | (Inr workspaceID, st') \<Rightarrow> (OkID workspaceID, sv, st'))
         else if wc_Action command \<in> {''switch'', ''workspace.switch''} then
           (if name = '''' then (Failed (CoreE op [''workspace id is required''] (Some ErrInvalid)), sv, st)
            else case Service_SwitchWorkspace E V name (fst st) sv of (e, sv') \<Rightarrow> (fail_or_nil e, sv', st))
         else (Failed (CoreE op [''unsupported action: '', wc_Action command] (Some ErrInvalid)), sv, st))"

datatype workspace_message = CommandMessage workspace_command | OtherMessage

definition Service_HandleWorkspaceMessage ::
  "go_env \<Rightarrow> 'e service_env \<Rightarrow> gotime \<Rightarrow> workspace_message \<Rightarrow> ('s, 'f, 'r, 'w, 'e) service \<Rightarrow> 's \<times> 'e
     \<Rightarrow> ('s, 'f, 'r, 'w) command_result \<times> ('s, 'f, 'r, 'w, 'e) service \<times> 's \<times> 'e" where
  "Service_HandleWorkspaceMessage E V now message sv st =
     (case message of
        CommandMessage command \<Rightarrow> Service_HandleWorkspaceCommand E V now command sv st
      | OtherMessage \<Rightarrow> (Failed (CoreE ''workspace.HandleWorkspaceMessage'' [''unsupported message type'']
          (Some ErrInvalid)), sv, st))"

end
