(* ===== verification/ServiceProps.thy ===== *)
theory ServiceProps
  imports Service WorkspaceProps CryptoProps
begin

text \<open>
  The encrypted workspace service: the active workspace and its files stay below the root, a
  workspace is created once and can then be switched to, and what a file is written with is what
  is read from it, whatever the cipher is.
\<close>

subsection \<open>Absolute paths\<close>

lemma path_dir_abs [simp]: "good (xs @ [x]) \<Longrightarrow> path_dir (abs_path (xs @ [x])) = abs_path xs"
proof -
  assume g: "good (xs @ [x])"
  then have e: "good_elem x" by simp
  have "dir_part (abs_path (xs @ [x])) = (if xs = [] then ''/'' else abs_path xs @ ''/'')"
    using e by (auto simp: abs_path_def join_with_append dir_part_append [of x "[]", simplified]
        dir_part_append [of x "slash # join_with slash xs", simplified] good_elem_def)
  then show ?thesis
    using g clean_append [of xs "''''"] clean_abs_path [of "[]"]
    by (simp add: path_dir_def path_elems_def)
qed

lemma path_base_abs [simp]: "good_elem x \<Longrightarrow> path_base (abs_path (xs @ [x])) = x"
proof -
  assume e: "good_elem x"
  then obtain y z where x: "x = y @ [z]" "z \<noteq> slash" by (cases x rule: rev_cases) (auto simp: good_elem_def)
  obtain d where d: "abs_path (xs @ [x]) = d @ slash # x"
    by (cases "xs = []") (auto simp: abs_path_def join_with_append)
  have "\<forall>c\<in>set (rev x). c \<noteq> slash" using e by (auto simp: good_elem_def)
  then have "takeWhile (\<lambda>c. c \<noteq> slash) (rev x @ slash # rev d) = rev x"
    by (subst takeWhile_append2) auto
  then show ?thesis using x d by (simp add: path_base_def Let_def)
qed

lemma path_elems_joined: "path_elems (join_with slash ps) = concat (map path_elems ps)"
  proof (induction slash ps rule: join_with.induct)
  case 1
  then show ?case by (simp add: path_elems_def)
qed (simp_all add: path_elems_append)

context go_runtime
begin

lemma Path_parts: "good cs \<Longrightarrow> good ds \<Longrightarrow> Path E (abs_path cs # ds) = abs_path (cs @ ds)"
proof -
  assume g: "good cs" "good ds"
  let ?j = "join_with slash (abs_path cs # ds)"
  have r: "is_rooted ?j" by (cases ds) (simp_all add: abs_path_def is_rooted_def)
  have "concat (map path_elems ds) = ds"
    using g(2) by (induction ds) auto
  then have "path_elems ?j = cs @ ds" using g(1) by (simp add: path_elems_joined)
  then show ?thesis using g clean_of_elems [OF r] by (simp add: Path_eq)
qed

end

subsection \<open>Confinement\<close>

text \<open>The separators of a Unix system: not configured, or the slash.\<close>

definition unix_separators :: "'e service_env \<Rightarrow> bool" where
  "unix_separators V \<longleftrightarrow> se_Env V ''CORE_PATH_SEPARATOR'' \<in> {'''', ''/''} \<and> se_Env V ''DS'' \<in> {'''', ''/''}"

context go_runtime
begin

lemma joinPathWithinRoot_below:
  assumes "unix_separators V" "good rs" "rs \<noteq> []" "joinPathWithinRoot E V (abs_path rs) [p] = Inr q"
  obtains ps where "good ps" "q = abs_path (rs @ ps)"
proof -
  obtain ds where ds: "good ds" "Path E [abs_path rs, p] = abs_path ds" using Path_any by blast
  have sep: "(if se_Env V ''CORE_PATH_SEPARATOR'' \<noteq> '''' then se_Env V ''CORE_PATH_SEPARATOR''
      else if se_Env V ''DS'' \<noteq> '''' then se_Env V ''DS'' else ''/'') = ''/''"
    using assms(1) by (auto simp: unix_separators_def)
  have q: "q = abs_path ds" "abs_path ds = abs_path rs \<or> prefix (abs_path rs @ ''/'') (abs_path ds)"
    using assms(4) ds(2) unfolding joinPathWithinRoot_def sep by (auto simp: Let_def split: if_splits)
  then have "\<exists>ps. ds = rs @ ps"
    using strict_below [OF assms(2) ds(1) assms(3)] abs_path_inject [OF ds(1) assms(2)] by auto
  then show thesis using that ds(1) q(1) by auto
qed

lemma joinPathWithinRoot_part:
  assumes "unix_separators V" "good rs" "rs \<noteq> []" "good_elem x"
  shows "joinPathWithinRoot E V (abs_path rs) [x] = Inr (abs_path (rs @ [x]))"
proof -
  have "prefix (abs_path rs @ ''/'') (abs_path (rs @ [x]))"
    using strict_below [of rs "rs @ [x]"] assms by auto
  then show ?thesis using assms
    by (auto simp: joinPathWithinRoot_def Let_def unix_separators_def)
qed

lemma resolveWorkspaceDirectory_below:
  assumes "unix_separators V" "sv_rootPath sv = abs_path rs" "good rs" "rs \<noteq> []"
    "resolveWorkspaceDirectory E V sv op wid = Inr q"
  obtains x where "good_elem x" "q = abs_path (rs @ [x])"
proof -
  have j: "joinPathWithinRoot E V (abs_path rs) [wid] = Inr q" "path_dir q = abs_path rs"
    using assms(2,5) by (auto simp: resolveWorkspaceDirectory_def split: if_splits sum.splits)
  obtain ps where ps: "good ps" "q = abs_path (rs @ ps)"
    using joinPathWithinRoot_below [OF assms(1,3,4) j(1)] .
  obtain ys y where y: "rs @ ps = ys @ [y]" using assms(4) by (cases "rs @ ps" rule: rev_cases) auto
  then have g: "good (ys @ [y])" using assms(3) ps(1) by (metis list_all_append)
  then have "abs_path ys = abs_path rs" using j(2) ps(2) y by simp
  then have "ys = rs" using g assms(3) abs_path_inject by simp
  then show thesis using that [of y] g ps(2) y by simp
qed

lemma resolveWorkspaceDirectory_part:
  assumes "unix_separators V" "sv_rootPath sv = abs_path rs" "good rs" "rs \<noteq> []" "good_elem x"
  shows "resolveWorkspaceDirectory E V sv op x = Inr (abs_path (rs @ [x]))"
proof -
  have "x \<noteq> ''''" using assms(5) by (simp add: good_elem_def)
  then show ?thesis
    using assms joinPathWithinRoot_part [OF assms(1,3,4,5)] by (simp add: resolveWorkspaceDirectory_def)
qed

lemma resolveActive_below:
  assumes "unix_separators V" "sv_rootPath sv = abs_path rs" "good rs" "rs \<noteq> []"
    "sv_activeWorkspaceID sv = '''' \<or> good_elem (sv_activeWorkspaceID sv)"
    "resolveActiveWorkspaceFilePath E V sv op p = Inr q"
  obtains ps where "good_elem (sv_activeWorkspaceID sv)" "good ps" "ps \<noteq> []"
    "q = abs_path (rs @ [sv_activeWorkspaceID sv, ''files''] @ ps)"
proof -
  let ?id = "sv_activeWorkspaceID sv"
  have id: "good_elem ?id" using assms(5,6) by (auto simp: resolveActiveWorkspaceFilePath_def)
  have fs: "good [?id, ''files'']" using id by (simp add: good_elem_def)
  let ?f = "rs @ [?id, ''files'']"
  have root: "Path E [sv_rootPath sv, ?id, ''files''] = abs_path ?f"
    using Path_parts [OF assms(3) fs] assms(2) by simp
  then have j: "joinPathWithinRoot E V (abs_path ?f) [p] = Inr q" "q \<noteq> abs_path ?f"
    using assms(6) by (auto simp: resolveActiveWorkspaceFilePath_def Let_def split: if_splits sum.splits)
  have gf: "good ?f" using fs assms(3) by simp
  obtain ps where "good ps" "q = abs_path (?f @ ps)"
    using joinPathWithinRoot_below [OF assms(1) gf _ j(1)] by auto
  then show thesis using that id j(2) by auto
qed

lemma resolveActive_op:
  "resolveActiveWorkspaceFilePath E V sv op p = Inr q \<Longrightarrow> resolveActiveWorkspaceFilePath E V sv op' p = Inr q"
  by (auto simp: resolveActiveWorkspaceFilePath_def Let_def split: if_splits sum.splits)

lemma SwitchWorkspace_cases:
  assumes "unix_separators V" "sv_rootPath sv = abs_path rs" "good rs" "rs \<noteq> []"
    "Service_SwitchWorkspace E V wid s sv = (None, sv')"
  obtains x where "good_elem x" "m_IsDir (sv_medium sv) (abs_path (rs @ [x])) s"
    "sv' = sv\<lparr>sv_activeWorkspaceID := x\<rparr>"
proof -
  obtain q where q: "resolveWorkspaceDirectory E V sv ''workspace.SwitchWorkspace'' wid = Inr q"
    "m_IsDir (sv_medium sv) q s" "sv' = sv\<lparr>sv_activeWorkspaceID := path_base q\<rparr>"
    using assms(5) by (auto simp: Service_SwitchWorkspace_def split: sum.splits if_splits)
  obtain x where "good_elem x" "q = abs_path (rs @ [x])"
    using resolveWorkspaceDirectory_below [OF assms(1-4) q(1)] .
  then show thesis using that q by simp
qed

end

subsection \<open>The medium below\<close>

text \<open>
  What the service relies on over absolute paths: they can be written and are kept apart, ensuring
  a directory makes the one above it a directory, and writing leaves directories alone.
\<close>

locale abs_medium = read_write M iv key valid
  for M :: "('s, 'f, 'r, 'w) medium" and iv :: "'s \<Rightarrow> bool" and key :: "string \<Rightarrow> 'k" and valid :: "string \<Rightarrow> bool" +
  assumes abs_valid: "good ps \<Longrightarrow> valid (abs_path ps)"
    and abs_key: "good ps \<Longrightarrow> good qs \<Longrightarrow> key (abs_path ps) = key (abs_path qs) \<Longrightarrow> ps = qs"
    and ensure_inv: "iv s \<Longrightarrow> m_EnsureDir M p s = (e, s') \<Longrightarrow> iv s'"
    and ensure_above: "iv s \<Longrightarrow> good (ds @ [x]) \<Longrightarrow> ds \<noteq> [] \<Longrightarrow> m_EnsureDir M (abs_path (ds @ [x])) s = (None, s') \<Longrightarrow>
      m_IsDir M (abs_path ds) s'"
    and write_keeps: "iv s \<Longrightarrow> m_IsDir M d s \<Longrightarrow> m_WriteMode M now p c md s = (e, s') \<Longrightarrow> m_IsDir M d s'"
    and dir_exists: "m_IsDir M d s \<Longrightarrow> m_Exists M d s"
begin

lemma read_apart:
  assumes "iv s" "m_WriteMode M now (abs_path ps) c md s = (e, s')" "good ps" "good qs" "ps \<noteq> qs"
  shows "m_Read M (abs_path qs) s' = m_Read M (abs_path qs) s"
  using read_other [OF assms(1,2)] abs_key [OF assms(4,3)] assms(5) by blast

lemma ensures_inv: "iv s \<Longrightarrow> each (ensure_directory E M d) ns s = (e, s') \<Longrightarrow> iv s'"
proof (induction ns arbitrary: s)
  case (Cons n ns)
  obtain e1 s1 where s1: "m_EnsureDir M (Path E [d, n]) s = (e1, s1)" by force
  then have "iv s1" using ensure_inv Cons.prems(1) by blast
  then show ?case using Cons s1 by (cases e1) (auto simp: ensure_directory_def)
qed simp

end

lemma each_snoc:
  "each f (xs @ [x]) s = (None, s') \<Longrightarrow> \<exists>s1. each f xs s = (None, s1) \<and> f x s1 = (None, s')"
  by (induction xs arbitrary: s) (auto split: prod.splits option.splits)

context go_runtime
begin

lemma memory_abs_medium: "abs_medium (MemoryMedium_medium E) (\<lambda>_. True) (\<lambda>p. p) (\<lambda>_. True)"
proof (intro abs_medium.intro abs_medium_axioms.intro memory_read_write)
  fix s ds x s'
  assume a: "good (ds @ [x])" "ds \<noteq> []" "m_EnsureDir (MemoryMedium_medium E) (abs_path (ds @ [x])) s = (None, s')"
  obtain ys y where y: "ds = ys @ [y]" using a(2) by (cases ds rule: rev_cases) auto
  have g: "good (ys @ [y])" "good ys" using a(1) y by auto
  have "path_dir (abs_path ds) \<noteq> abs_path ds"
    using path_dir_abs [OF g(1)] abs_path_inject [OF g(2,1)] y by auto
  moreover have "path_dir (abs_path (ds @ [x])) = abs_path ds" by (rule path_dir_abs [OF a(1)])
  moreover have "abs_path ds \<noteq> ''.''" "abs_path ds \<noteq> ''''" by (simp_all add: abs_path_def)
  ultimately have "abs_path ds \<in> set (parents (path_dir (abs_path (ds @ [x]))))"
    using parents_step [of "abs_path ds"] by simp
  then have "has_key (mark_dirs (parents (path_dir (abs_path (ds @ [x])))) (directories s)) (abs_path ds)"
    by (simp add: has_key_def)
  then show "m_IsDir (MemoryMedium_medium E) (abs_path ds) s'"
    using a(3) \<open>abs_path ds \<noteq> ''''\<close>
    by (auto simp: MemoryMedium_medium_def EnsureDir_eq MemoryMedium_IsDir_def directoryExists_def split: if_splits)
next
  fix s d now p c md e s'
  assume "m_IsDir (MemoryMedium_medium E) d s" "m_WriteMode (MemoryMedium_medium E) now p c md s = (e, s')"
  then show "m_IsDir (MemoryMedium_medium E) d s'" by (rule dir_medium.write_dir [OF memory_dir_medium TrueI])
qed (auto simp: abs_path_inject MemoryMedium_medium_def MemoryMedium_IsDir_def MemoryMedium_Exists_def)

end

interpretation memory_abs: abs_medium "MemoryMedium_medium go_core" "\<lambda>_. True" "\<lambda>p. p" "\<lambda>_. True"
  by (rule core.memory_abs_medium)

subsection \<open>The cipher of a workspace\<close>

lemma new_sigil_ok:
  assumes "sha256_library sha" "reader_ok rd" "NewChaChaPolySigil sha rd key NilArg = Inr sg"
  shows "sigil_ok rd sg"
  using assms(2,3) sha256_library.xor_obfuscator [OF assms(1)]
  by (auto simp: NewChaChaPolySigil_def sigil_ok_def data_of_def activeNonceSize_def NonceSizeX_def Let_def
      split: if_splits)

lemma workspaceCipherSigil_ok:
  assumes "sha256_library (se_sha V)" "reader_ok (se_rand V)" "workspaceCipherSigil E V sv op s = Inr sg"
  shows "sigil_ok (se_rand V) sg"
  using assms(3) new_sigil_ok [OF assms(1,2)]
  by (auto simp: workspaceCipherSigil_def Let_def split: if_splits sum.splits)

context aead_library
begin

lemma ChaCha_returns:
  assumes "sigil_ok rd sg" "ChaCha_In C rd sg (Some d) s = (Inr e, s')"
  shows "Some (data_of e) = e" "ChaCha_Out C sg e = Inr (Some d)"
  using ChaCha_In_cases [OF assms] ChaCha_Out_In [OF assms(1)] by (metis data_of_def option.simps(5))+

end

lemma workspaceCipherSigil_frame:
  assumes "m_Read (sv_medium sv) (Path E [sv_rootPath sv, sv_activeWorkspaceID sv, ''keys'', ''private.key'']) s' =
      m_Read (sv_medium sv) (Path E [sv_rootPath sv, sv_activeWorkspaceID sv, ''keys'', ''private.key'']) s"
  shows "workspaceCipherSigil E V sv op s' = workspaceCipherSigil E V sv op s"
  using assms by (simp add: workspaceCipherSigil_def Let_def)

lemma workspaceCipherSigil_op:
  "workspaceCipherSigil E V sv op s = Inr sg \<Longrightarrow> workspaceCipherSigil E V sv op' s = Inr sg"
  by (auto simp: workspaceCipherSigil_def Let_def split: if_splits sum.splits)

lemma service_Write_cases:
  assumes "Service_WriteWorkspaceFile E V now sv p content (s, e) = (None, s', e')"
  obtains q sg ct where "resolveActiveWorkspaceFilePath E V sv ''workspace.WriteWorkspaceFile'' p = Inr q"
    "workspaceCipherSigil E V sv ''workspace.WriteWorkspaceFile'' s = Inr sg"
    "ChaCha_In (se_cipher V) (se_rand V) sg (Some content) e = (Inr ct, e')"
    "m_Write (sv_medium sv) now q (data_of ct) s = (None, s')"
  using assms
  by (auto simp: Service_WriteWorkspaceFile_def Let_def Transmute_def ChaChaPolySigil_def
      split: sum.splits prod.splits)

lemma hex_good_elem: "length bs = 32 \<Longrightarrow> good_elem (hex_encode bs)"
proof -
  assume "length bs = 32"
  moreover have "length (hex_encode bs) = 2 * length bs" by (induction bs) (simp_all add: hex_encode_def)
  ultimately have "length (hex_encode bs) = 64" by simp
  then have "hex_encode bs \<notin> {'''', ''.'', ''..''}" by auto
  moreover have digit: "hex_digit n \<noteq> slash" if "n < 16" for n
  proof -
    have "hex_value slash = None" by code_simp
    then show ?thesis using hex_value_digit [OF that] by auto
  qed
  have "hex_digit (val b div 16) \<noteq> slash" "hex_digit (val b mod 16) \<noteq> slash" for b
    using val_less [of b] by (auto intro!: digit simp: less_mult_imp_div_less)
  then have "slash \<notin> set (hex_encode bs)" by (auto simp: hex_encode_def) metis+
  ultimately show ?thesis by (auto simp: good_elem_def)
qed

text \<open>The private key of the active workspace.\<close>

abbreviation key_file :: "string list \<Rightarrow> string \<Rightarrow> string" where
  "key_file rs x \<equiv> abs_path (rs @ [x, ''keys'', ''private.key''])"

context go_runtime
begin

lemma key_path: "good rs \<Longrightarrow> good_elem x \<Longrightarrow> Path E [abs_path rs, x, ''keys'', ''private.key''] = key_file rs x"
  using Path_parts [of rs "[x, ''keys'', ''private.key'']"] by (simp add: good_elem_def)

lemma CreateWorkspace_cases:
  assumes "unix_separators V" "sv_rootPath sv = abs_path rs" "good rs" "rs \<noteq> []" "sha256_library (se_sha V)"
    "Service_CreateWorkspace E V now sv ident pw (s, e) = (Inr wid, s', e')"
  obtains provider k s1 where "wid = workspaceSHA256Hex (se_sha V) ident" "good_elem wid"
    "\<not> m_Exists (sv_medium sv) (abs_path (rs @ [wid])) s" "sv_keyPairProvider sv = Some provider"
    "provider ident pw e = (Inr k, e')"
    "each (ensure_directory E (sv_medium sv) (abs_path (rs @ [wid]))) workspace_directories s = (None, s1)"
    "m_WriteMode (sv_medium sv) now (key_file rs wid) k 384 s1 = (None, s')"
proof -
  let ?x = "workspaceSHA256Hex (se_sha V) ident" and ?M = "sv_medium sv"
  have x: "good_elem ?x"
    using sha256_library.sha_length [OF assms(5)] by (simp add: workspaceSHA256Hex_def hex_good_elem)
  have r: "resolveWorkspaceDirectory E V sv op ?x = Inr (abs_path (rs @ [?x]))" for op
    by (rule resolveWorkspaceDirectory_part [OF assms(1-4) x])
  have k: "Path E [abs_path (rs @ [?x]), ''keys'', ''private.key''] = key_file rs ?x"
    using Path_parts [of "rs @ [?x]" "[''keys'', ''private.key'']"] assms(3) x by (simp add: good_elem_def)
  show thesis
    using assms(6) x
    by (auto simp: Service_CreateWorkspace_def r k Let_def intro: that
        split: option.splits sum.splits prod.splits if_splits)
qed

end

subsection \<open>Properties\<close>

text \<open>
  C17: a workspace that \<open>SwitchWorkspace\<close> accepts is a directory directly below the root, and every
  path that the service then accepts for a file is strictly below the \<open>files\<close> directory of
  that workspace; it never is the private key, the root or anything of another workspace.
\<close>

theorem service_confined:
  assumes "go_runtime E" "unix_separators V" "sv_rootPath sv = abs_path rs" "good rs" "rs \<noteq> []"
    "Service_SwitchWorkspace E V wid s sv = (None, sv')"
    "resolveActiveWorkspaceFilePath E V sv' op p = Inr q"
  shows "\<exists>x ps. sv_activeWorkspaceID sv' = x \<and> good_elem x \<and> m_IsDir (sv_medium sv) (abs_path (rs @ [x])) s \<and>
    good ps \<and> ps \<noteq> [] \<and> q = abs_path (rs @ [x, ''files''] @ ps) \<and> q \<noteq> key_file rs x"
proof -
  obtain x where x: "good_elem x" "m_IsDir (sv_medium sv) (abs_path (rs @ [x])) s"
    "sv' = sv\<lparr>sv_activeWorkspaceID := x\<rparr>"
    using go_runtime.SwitchWorkspace_cases [OF assms(1-6)] .
  obtain ps where ps: "good ps" "ps \<noteq> []" "q = abs_path (rs @ [x, ''files''] @ ps)"
    using go_runtime.resolveActive_below [OF assms(1,2) _ assms(4,5) _ assms(7)] x assms(3) by auto
  have "good (rs @ [x, ''files''] @ ps)" "good (rs @ [x, ''keys'', ''private.key''])"
    using assms(4) x ps by (simp_all add: good_elem_def)
  then have "q \<noteq> key_file rs x" using ps(3) abs_path_inject by auto
  then show ?thesis using x ps by auto
qed

text \<open>
  Over a medium with absolute paths, a workspace that was created exists: its private key holds
  what the key pair provider gave, switching to its identifier succeeds, and creating it a
  second time fails with \<open>ErrExist\<close> before anything changes.
\<close>

theorem service_lifecycle:
  assumes "go_runtime E" "unix_separators V" "sv_rootPath sv = abs_path rs" "good rs" "rs \<noteq> []"
    "sha256_library (se_sha V)" "abs_medium (sv_medium sv) iv key valid" "iv s"
    "Service_CreateWorkspace E V now sv ident pw (s, e) = (Inr wid, s', e')"
  shows "(\<exists>provider k. sv_keyPairProvider sv = Some provider \<and> provider ident pw e = (Inr k, e') \<and>
      m_Read (sv_medium sv) (key_file rs wid) s' = Inr k) \<and>
    Service_SwitchWorkspace E V wid s' sv = (None, sv\<lparr>sv_activeWorkspaceID := wid\<rparr>) \<and>
    (\<exists>err. Service_CreateWorkspace E V now' sv ident pw' (s', e2) = (Inl err, s', e2) \<and> err_is err ErrExist)"
proof -
  let ?M = "sv_medium sv" and ?d = "abs_path (rs @ [wid])"
  obtain provider k s1 where c: "wid = workspaceSHA256Hex (se_sha V) ident" "good_elem wid"
    "sv_keyPairProvider sv = Some provider" "provider ident pw e = (Inr k, e')"
    "each (ensure_directory E ?M ?d) workspace_directories s = (None, s1)"
    "m_WriteMode ?M now (key_file rs wid) k 384 s1 = (None, s')"
    using go_runtime.CreateWorkspace_cases [OF assms(1-6,9)] by metis
  have rw: "read_write ?M iv key valid" using assms(7) by (simp add: abs_medium_def)
  obtain s0 where s0: "each (ensure_directory E ?M ?d) [''config'', ''log'', ''data'', ''files''] s = (None, s0)"
    "ensure_directory E ?M ?d ''keys'' s0 = (None, s1)"
    using each_snoc [of "ensure_directory E ?M ?d" "[''config'', ''log'', ''data'', ''files'']" "''keys''" s s1] c(5)
    unfolding workspace_directories_def append.simps by metis
  have iv0: "iv s0" by (rule abs_medium.ensures_inv [OF assms(7,8) s0(1)])
  have g: "good (rs @ [wid])" using assms(4) c(2) by simp
  have "m_EnsureDir ?M (abs_path ((rs @ [wid]) @ [''keys''])) s0 = (None, s1)"
    using s0(2) go_runtime.Path_part [OF assms(1) g, of "''keys''"]
    by (auto simp: ensure_directory_def good_elem_def split: prod.splits option.splits)
  then have d1: "iv s1" "m_IsDir ?M ?d s1"
    using abs_medium.ensure_inv [OF assms(7) iv0] abs_medium.ensure_above [OF assms(7) iv0, of "rs @ [wid]" "''keys''"] g
    by (auto simp: good_elem_def)
  then have d2: "m_IsDir ?M ?d s'" by (rule abs_medium.write_keeps [OF assms(7) _ _ c(6)])
  have "good (rs @ [wid, ''keys'', ''private.key''])" using g by (simp add: good_elem_def)
  then have "m_Read ?M (key_file rs wid) s' = Inr k"
    by (intro read_write.read_written [OF rw d1(1) _ c(6)] abs_medium.abs_valid [OF assms(7)])
  moreover have r: "resolveWorkspaceDirectory E V sv op wid = Inr ?d" for op
    by (rule go_runtime.resolveWorkspaceDirectory_part [OF assms(1-5) c(2)])
  then have "Service_SwitchWorkspace E V wid s' sv = (None, sv\<lparr>sv_activeWorkspaceID := wid\<rparr>)"
    using d2 c(2) assms(1) by (simp add: Service_SwitchWorkspace_def go_runtime.PathBase_eq)
  moreover have "\<exists>err. Service_CreateWorkspace E V now' sv ident pw' (s', e2) = (Inl err, s', e2) \<and> err_is err ErrExist"
    using c(3) r abs_medium.dir_exists [OF assms(7) d2] by (simp add: Service_CreateWorkspace_def c(1) [symmetric])
  ultimately show ?thesis using c by blast
qed

text \<open>
  C18: what \<open>WriteWorkspaceFile\<close> wrote is what \<open>ReadWorkspaceFile\<close> returns, for every cipher, hash and
  reader of the right shape and over every medium that keeps the contract of writing and reading; the keys of all workspaces and every file with another path are
  read as before.
\<close>

theorem service_roundtrip:
  assumes "go_runtime E" "unix_separators V" "sv_rootPath sv = abs_path rs" "good rs" "rs \<noteq> []"
    "sv_activeWorkspaceID sv = '''' \<or> good_elem (sv_activeWorkspaceID sv)"
    "sha256_library (se_sha V)" "aead_library (se_cipher V)" "reader_ok (se_rand V)"
    "abs_medium (sv_medium sv) iv key valid" "iv s"
    "Service_WriteWorkspaceFile E V now sv p content (s, e) = (None, s', e')"
  shows "iv s' \<and> Service_ReadWorkspaceFile E V sv p (s', e2) = Inr content \<and>
    (\<forall>x. good_elem x \<longrightarrow> m_Read (sv_medium sv) (key_file rs x) s' = m_Read (sv_medium sv) (key_file rs x) s) \<and>
    (\<forall>p'. resolveActiveWorkspaceFilePath E V sv ''workspace.ReadWorkspaceFile'' p' \<noteq>
          resolveActiveWorkspaceFilePath E V sv ''workspace.ReadWorkspaceFile'' p \<longrightarrow>
       Service_ReadWorkspaceFile E V sv p' (s', e2) = Service_ReadWorkspaceFile E V sv p' (s, e2))"
proof -
  let ?M = "sv_medium sv" and ?id = "sv_activeWorkspaceID sv" and ?op = "''workspace.ReadWorkspaceFile''"
  have rw: "read_write ?M iv key valid" using assms(10) by (simp add: abs_medium_def)
  obtain q sg ct where w: "resolveActiveWorkspaceFilePath E V sv ''workspace.WriteWorkspaceFile'' p = Inr q"
    "workspaceCipherSigil E V sv ''workspace.WriteWorkspaceFile'' s = Inr sg"
    "ChaCha_In (se_cipher V) (se_rand V) sg (Some content) e = (Inr ct, e')"
    "m_Write ?M now q (data_of ct) s = (None, s')"
    using service_Write_cases [OF assms(12)] .
  note below = go_runtime.resolveActive_below [OF assms(1-6)]
  obtain ps where ps: "good_elem ?id" "good ps" "ps \<noteq> []" "q = abs_path (rs @ [?id, ''files''] @ ps)"
    using below [OF w(1)] .
  let ?ps = "rs @ [?id, ''files''] @ ps"
  have gq: "good ?ps" using assms(4) ps by (simp add: good_elem_def)
  have wm: "m_WriteMode ?M now (abs_path ?ps) (data_of ct) 420 s = (None, s')"
    using w(4) ps(4) read_write.write_default [OF rw] by simp
  note apart = abs_medium.read_apart [OF assms(10,11) wm gq]
  have keys: "m_Read ?M (key_file rs x) s' = m_Read ?M (key_file rs x) s" if "good_elem x" for x
    using assms(4) that by (intro apart) (auto simp: good_elem_def)
  have cipher: "workspaceCipherSigil E V sv op s' = workspaceCipherSigil E V sv op s" for op
    using keys [OF ps(1)] go_runtime.key_path [OF assms(1,4) ps(1)] assms(3)
    by (intro workspaceCipherSigil_frame) simp
  have sg: "workspaceCipherSigil E V sv op s = Inr sg" for op
    by (rule workspaceCipherSigil_op [OF w(2)])
  have ok: "sigil_ok (se_rand V) sg" by (rule workspaceCipherSigil_ok [OF assms(7,9) w(2)])
  note out = aead_library.ChaCha_returns [OF assms(8) ok w(3)]
  have rd: "m_Read ?M q s' = Inr (data_of ct)"
    unfolding ps(4) by (rule read_write.read_written [OF rw assms(11) abs_medium.abs_valid [OF assms(10) gq] wm])

  have q: "resolveActiveWorkspaceFilePath E V sv ?op p = Inr q" by (rule go_runtime.resolveActive_op [OF assms(1) w(1)])
  have "Service_ReadWorkspaceFile E V sv p (s', e2) = Inr content"
    by (simp add: Service_ReadWorkspaceFile_def q cipher sg rd Untransmute_def ChaChaPolySigil_def out Let_def)
      (simp add: data_of_def)
  moreover have "Service_ReadWorkspaceFile E V sv p' (s', e2) = Service_ReadWorkspaceFile E V sv p' (s, e2)"
    if "resolveActiveWorkspaceFilePath E V sv ?op p' \<noteq> resolveActiveWorkspaceFilePath E V sv ?op p" for p'
  proof (cases "resolveActiveWorkspaceFilePath E V sv ?op p'")
    case (Inr q')
    obtain qs where qs: "good qs" "q' = abs_path (rs @ [?id, ''files''] @ qs)" using below [OF Inr] by metis
    have "m_Read ?M q' s' = m_Read ?M q' s"
      unfolding qs(2) using that Inr q qs ps assms(4) by (intro apart) (auto simp: good_elem_def)
    then show ?thesis using Inr by (simp add: Service_ReadWorkspaceFile_def cipher sg Let_def)
  qed (simp add: Service_ReadWorkspaceFile_def)
  ultimately show ?thesis using keys read_write.write_inv [OF rw assms(11) wm] by blast
qed

text \<open>A root that ends in a slash is accepted by \<open>New\<close>, but then no workspace is below it.\<close>

lemma service_root_slash:
  assumes "go_runtime E" "unix_separators V" "good rs" "sv_rootPath sv = abs_path rs @ ''/''" "rs \<noteq> []"
  shows "\<exists>err. resolveWorkspaceDirectory E V sv op wid = Inl err"
proof -
  let ?root = "abs_path rs @ ''/''" and ?p = "Path E [abs_path rs @ ''/'', wid]"
  have "is_rooted ?root" "is_rooted (join_with slash [?root, wid])" by (simp_all add: is_rooted_def abs_path_def)
  then obtain ds where ds: "good ds" "?p = abs_path ds"
    using clean_abs go_runtime.Path_eq [OF assms(1), of ?root "[wid]"] by metis
  have "[] \<notin> set ds" using ds(1) by (auto simp: list_all_iff good_elem_def)
  moreover have "[] \<in> set ds" if "join_with slash ds = join_with slash rs @ slash # t" "t = [] \<or> hd t = slash" for t
  proof -
    have "ds \<noteq> []" using that by auto
    then have "ds = split_on slash (join_with slash rs @ slash # t)" using split_join_good [OF ds(1)] that(1) by metis
    then show ?thesis using that(2) by (cases t) (auto simp: split_on_append_sep)
  qed
  ultimately have "abs_path ds \<noteq> ?root" "\<not> prefix (?root @ ''/'') (abs_path ds)"
    by (auto simp: abs_path_def prefix_def)
  moreover have "(if se_Env V ''CORE_PATH_SEPARATOR'' \<noteq> '''' then se_Env V ''CORE_PATH_SEPARATOR''
      else if se_Env V ''DS'' \<noteq> '''' then se_Env V ''DS'' else ''/'') = ''/''"
    using assms(2) by (auto simp: unix_separators_def)
  ultimately have "joinPathWithinRoot E V ?root [wid] = Inl ErrPermission"
    using ds(2) go_runtime.HasPrefix_eq [OF assms(1)] unfolding joinPathWithinRoot_def Let_def by simp
  then show ?thesis using assms(4) by (simp add: resolveWorkspaceDirectory_def)
qed

subsection \<open>A service in memory\<close>

text \<open>In an empty memory medium a workspace can be created whenever the provider gives a key.\<close>

context go_runtime
begin

definition short_tree :: "nat \<Rightarrow> memory_medium \<Rightarrow> bool" where
  "short_tree L m \<longleftrightarrow> fileContents m = fmempty \<and> (\<forall>d. has_key (directories m) d \<longrightarrow> length d < L)"

lemma short_tree_ensure:
  assumes "short_tree L m" "length p < L" "length (path_dir p) < L"
  shows "\<exists>m'. MemoryMedium_EnsureDir E p m = (None, m') \<and> short_tree L m'"
proof -
  have "\<And>a. a \<in> set (parents (path_dir p)) \<Longrightarrow> length a < L" using parents_length assms(3) by fastforce
  then show ?thesis using assms(1,2) by (auto simp: EnsureDir_eq short_tree_def has_key_def split: if_splits)
qed

lemma short_tree_each:
  assumes "good ds" "ds \<noteq> []" "\<forall>n\<in>set ns. good_elem n \<and> length n < 7" "short_tree (length (abs_path ds) + 8) m"
  shows "\<exists>m'. each (ensure_directory E (MemoryMedium_medium E) (abs_path ds)) ns m = (None, m') \<and>
    short_tree (length (abs_path ds) + 8) m'"
  using assms(3,4)
proof (induction ns arbitrary: m)
  case (Cons n ns)
  have g: "good (ds @ [n])" "good_elem n" using Cons.prems(1) assms(1) by auto
  have "length (abs_path (ds @ [n])) < length (abs_path ds) + 8"
    using Cons.prems(1) assms(2) by (auto simp: abs_path_def join_with_append)
  then obtain m1 where "MemoryMedium_EnsureDir E (abs_path (ds @ [n])) m = (None, m1)"
    "short_tree (length (abs_path ds) + 8) m1"
    using short_tree_ensure [OF Cons.prems(2), of "abs_path (ds @ [n])"] path_dir_abs [OF g(1)] by auto
  then show ?case using Cons g assms(1)
    by (simp add: ensure_directory_def MemoryMedium_medium_def)
qed simp

lemma memory_creates:
  assumes "unix_separators V" "sv_rootPath sv = abs_path rs" "good rs" "rs \<noteq> []" "sha256_library (se_sha V)"
    "sv_medium sv = MemoryMedium_medium E" "sv_keyPairProvider sv = Some provider" "provider ident pw e = (Inr k, e')"
  shows "\<exists>s'. Service_CreateWorkspace E V now sv ident pw (NewMemoryMedium, e) =
    (Inr (workspaceSHA256Hex (se_sha V) ident), s', e')"
proof -
  let ?x = "workspaceSHA256Hex (se_sha V) ident" and ?M = "MemoryMedium_medium E"
  let ?d = "abs_path (rs @ [?x])"
  have x: "good_elem ?x"
    using sha256_library.sha_length [OF assms(5)] by (simp add: workspaceSHA256Hex_def hex_good_elem)
  have r: "resolveWorkspaceDirectory E V sv op ?x = Inr ?d" for op
    by (rule resolveWorkspaceDirectory_part [OF assms(1-4) x])
  have k: "Path E [?d, ''keys'', ''private.key''] = key_file rs ?x"
    using Path_parts [of "rs @ [?x]" "[''keys'', ''private.key'']"] assms(3) x by (simp add: good_elem_def)
  have no: "\<not> m_Exists ?M ?d NewMemoryMedium"
    by (simp add: MemoryMedium_medium_def MemoryMedium_Exists_def directoryExists_def NewMemoryMedium_def
        has_key_def Let_def)
  have "\<forall>n\<in>set workspace_directories. good_elem n \<and> length n < 7"
    by (simp add: workspace_directories_def good_elem_def)
  moreover have "short_tree (length ?d + 8) NewMemoryMedium"
    by (simp add: short_tree_def NewMemoryMedium_def has_key_def)
  ultimately obtain m where m: "each (ensure_directory E ?M ?d) workspace_directories NewMemoryMedium = (None, m)"
    "short_tree (length ?d + 8) m"
    using short_tree_each [of "rs @ [?x]" workspace_directories NewMemoryMedium] assms(3) x by auto
  have "length ?d + 8 \<le> length (key_file rs ?x)"
    using assms(4) by (simp add: abs_path_def join_with_append)
  then have "m_WriteMode ?M now (key_file rs ?x) k 384 m = (None, store_file now (key_file rs ?x) k 384 m)"
  proof -
    assume l: "length ?d + 8 \<le> length (key_file rs ?x)"
    have "find (has_key (fileContents m)) as = None" for as
      using m(2) by (induction as) (simp_all add: short_tree_def has_key_def)
    moreover have "\<not> has_key (directories m) (key_file rs ?x)"
      using m(2) l by (fastforce simp: short_tree_def)
    ultimately show ?thesis by (simp add: MemoryMedium_medium_def WriteMode_eq)
  qed
  then show ?thesis
    using no m(1) assms(6-8) by (simp add: Service_CreateWorkspace_def r k Let_def)
qed

end

definition sample_env :: "bytes service_env" where
  "sample_env = \<lparr>se_sha = pad_hash, se_cipher = tag_cipher, se_rand = list_reader,
     se_hkdf = (\<lambda>h k info n. Inr (take n (k @ replicate n CHR ''k''))), se_Env = (\<lambda>_. '''')\<rparr>"

definition sample_service ::
  "string \<Rightarrow> (memory_medium, memory_file, memory_file, memory_writer, bytes) service" where
  "sample_service x = \<lparr>sv_keyPairProvider = Some (\<lambda>i p e. (Inr ''secret'', e)), sv_activeWorkspaceID = x,
     sv_rootPath = ''/w'', sv_medium = MemoryMedium_medium go_core\<rparr>"

lemma sample_service_ok:
  "unix_separators sample_env" "sv_rootPath (sample_service x) = abs_path [''w'']" "good [''w'']" "[''w''] \<noteq> []"
  "sha256_library (se_sha sample_env)" "aead_library (se_cipher sample_env)" "reader_ok (se_rand sample_env)"
  "abs_medium (sv_medium (sample_service x)) (\<lambda>_. True) (\<lambda>p. p) (\<lambda>_. True)"
  using pad_hash_ok tag_cipher_ok list_reader_ok core.memory_abs_medium
  by (simp_all add: unix_separators_def sample_env_def sample_service_def abs_path_def good_elem_def)

theorem service_confined_witness:
  "resolveActiveWorkspaceFilePath go_core sample_env (sample_service ''a'') ''w'' ''../keys/private.key''
     = Inl (CoreE ''w'' [''file path escapes workspace files''] (Some ErrPermission)) \<and>
   resolveActiveWorkspaceFilePath go_core sample_env (sample_service ''a'') ''w'' ''n/../t'' = Inr ''/w/a/files/t''
     \<and> ''/w/a/files/t'' \<noteq> key_file [''w''] ''a''"
proof -
  let ?s = "snd (MemoryMedium_EnsureDir go_core ''/w/a/keys'' NewMemoryMedium)"
  have "fst (Service_SwitchWorkspace go_core sample_env ''x/../a'' ?s (sample_service '''')) = None"
    "sv_activeWorkspaceID (snd (Service_SwitchWorkspace go_core sample_env ''x/../a'' ?s (sample_service ''''))) = ''a''"
    by code_simp+
  then have sw: "Service_SwitchWorkspace go_core sample_env ''x/../a'' ?s (sample_service '''') = (None, sample_service ''a'')"
    by (auto simp: Service_SwitchWorkspace_def sample_service_def split: sum.splits if_splits)
  have "resolveActiveWorkspaceFilePath go_core sample_env (sample_service ''a'') '''' ''n/../t'' = Inr ''/w/a/files/t''"
    by code_simp
  then have t: "resolveActiveWorkspaceFilePath go_core sample_env (sample_service ''a'') ''w'' ''n/../t'' = Inr ''/w/a/files/t''"
    by (rule core.resolveActive_op)
  have "''/w/a/files/t'' \<noteq> key_file [''w''] ''a''"
    using service_confined [OF go_core_ok sample_service_ok(1-4) sw t] by (auto simp: sample_service_def)
  moreover have "joinPathWithinRoot go_core sample_env ''/w/a/files'' [''../keys/private.key''] = Inl ErrPermission"
    "Path go_core [''/w'', ''a'', ''files''] = ''/w/a/files''" by code_simp+
  ultimately show ?thesis using t by (simp add: resolveActiveWorkspaceFilePath_def sample_service_def)
qed

theorem service_lifecycle_witness:
  "\<exists>wid s. Service_CreateWorkspace go_core sample_env 0 (sample_service '''') ''alice'' ''pw'' (NewMemoryMedium, [])
     = (Inr wid, s, []) \<and>
   Service_SwitchWorkspace go_core sample_env wid s (sample_service '''') = (None, sample_service wid) \<and>
   MemoryMedium_Read (key_file [''w''] wid) s = Inr ''secret''"
proof -
  let ?wid = "workspaceSHA256Hex (se_sha sample_env) ''alice''"
  have "sv_medium (sample_service '''') = MemoryMedium_medium go_core"
    "sv_keyPairProvider (sample_service '''') = Some (\<lambda>i p e. (Inr ''secret'', e))"
    by (simp_all add: sample_service_def)
  then obtain s where s: "Service_CreateWorkspace go_core sample_env 0 (sample_service '''') ''alice'' ''pw'' (NewMemoryMedium, [])
      = (Inr ?wid, s, [])"
    using core.memory_creates [OF sample_service_ok(1-5), of "''''"] by metis
  have "Service_SwitchWorkspace go_core sample_env ?wid s (sample_service '''')
      = (None, sample_service ''''\<lparr>sv_activeWorkspaceID := ?wid\<rparr>)"
    "m_Read (sv_medium (sample_service '''')) (key_file [''w''] ?wid) s = Inr ''secret''"
    using service_lifecycle [OF go_core_ok sample_service_ok(1-5,8) TrueI s]
    by (auto simp: sample_service_def)
  then show ?thesis using s by (auto simp: sample_service_def MemoryMedium_medium_def)
qed

theorem service_roundtrip_witness:
  "\<exists>s s' e. Service_WriteWorkspaceFile go_core sample_env 0 (sample_service ''a'') ''n/../t'' ''hi''
       (s, replicate 30 CHR ''n'') = (None, s', e) \<and>
     Service_ReadWorkspaceFile go_core sample_env (sample_service ''a'') ''n/../t'' (s', []) = Inr ''hi''"
proof -
  let ?s = "snd (MemoryMedium_WriteMode go_core 0 ''/w/a/keys/private.key'' ''secret'' 384 NewMemoryMedium)"
  let ?w = "Service_WriteWorkspaceFile go_core sample_env 0 (sample_service ''a'') ''n/../t'' ''hi'' (?s, replicate 30 CHR ''n'')"
  have "fst ?w = None" by code_simp
  then have w: "?w = (None, fst (snd ?w), snd (snd ?w))" by (metis prod.collapse)
  have "sv_activeWorkspaceID (sample_service ''a'') = '''' \<or> good_elem (sv_activeWorkspaceID (sample_service ''a''))"
    by (simp add: sample_service_def good_elem_def)
  then have "Service_ReadWorkspaceFile go_core sample_env (sample_service ''a'') ''n/../t'' (fst (snd ?w), []) = Inr ''hi''"
    using service_roundtrip [OF go_core_ok sample_service_ok(1-4) _ sample_service_ok(5-8) TrueI w] by blast
  then show ?thesis using w by blast
qed

end
