(* ===== verification/DatanodeProps.thy ===== *)
theory DatanodeProps
  imports Datanode Moves Tar "HOL-Library.AList"
begin

text \<open>
  The DataNode medium over every Borg DataNode that is a finite map of files: which paths its
  loop returns for, what writing, deleting and renaming do to the files and directories, and
  the round trip through a snapshot.
\<close>

subsection \<open>The loop over the parents\<close>

lemma rooted_dir: "is_rooted p \<Longrightarrow> is_rooted (path_dir p)"
proof -
  assume r: "is_rooted p"
  have "is_rooted (dir_part p)"
  proof -
    obtain q where p: "p = slash # q" using r by (auto simp: is_rooted_def prefix_def)
    have "dir_part p = slash # rev (dropWhile (\<lambda>c. c \<noteq> slash) (rev q)) \<or> dir_part p = ''/''"
      by (cases "slash \<in> set q") (auto simp: p dir_part_def dropWhile_append dropWhile_eq_Nil_conv)
    then show ?thesis by (auto simp: is_rooted_def)
  qed
  then show ?thesis using clean_abs [of "dir_part p"] by (auto simp: path_dir_def)
qed

lemma unrooted_clean: "\<not> is_rooted q \<Longrightarrow> \<not> is_rooted (path_clean q)"
proof -
  assume u: "\<not> is_rooted q"
  let ?cs = "clean_elems False (path_elems q)"
  have "set (path_elems q) \<subseteq> {c. c \<noteq> [] \<and> slash \<notin> set c}" using path_elems_mem [of _ q] by auto
  then have "set ?cs \<subseteq> {c. c \<noteq> [] \<and> slash \<notin> set c}"
    using set_clean_elems [of False "path_elems q"] by auto
  then have "?cs = [] \<or> (\<exists>c cs. ?cs = c # cs \<and> c \<noteq> [] \<and> slash \<notin> set c)" by (cases ?cs) auto
  then show ?thesis
  proof (elim disjE exE conjE)
    fix c cs assume c: "?cs = c # cs" "c \<noteq> []" "slash \<notin> set c"
    then obtain x y where x: "c = x # y" "x \<noteq> slash" by (cases c) auto
    have "hd (join_with slash (c # cs)) = x" by (cases cs) (simp_all add: x)
    then show ?thesis using u c x by (auto simp: path_clean_def Let_def is_rooted_def prefix_def)
  qed (use u in \<open>simp add: path_clean_def is_rooted_def\<close>)
qed

lemma path_dir_fixed: "path_dir p = p \<Longrightarrow> \<not> is_rooted p \<Longrightarrow> p = ''.''"
proof -
  assume same: "path_dir p = p" and u: "\<not> is_rooted p"
  consider "dir_part p = []" | s where "dir_part p = s @ ''/''" "prefix (s @ ''/'') p"
    using dir_part_cases by blast
  then show ?thesis
  proof cases
    case 1
    then show ?thesis using same
      by (simp add: path_dir_def path_clean_def is_rooted_def clean_elems_def path_elems_def)
  next
    case 2
    have "s \<noteq> []" using 2(2) u by (auto simp: is_rooted_def)
    then have "length (path_dir p) \<le> length s"
      using 2 by (simp add: path_dir_def length_clean_dir)
    then show ?thesis using same prefix_length_le [OF 2(2)] by simp
  qed
qed

context go_runtime
begin

lemma ensureDirsLocked_rooted:
  assumes "is_rooted p"
  shows "ensureDirsLocked E p dirs = None"
proof (rule ccontr)
  assume "ensureDirsLocked E p dirs \<noteq> None"
  then obtain r where r: "ensureDirsLocked E p dirs = Some r" by auto
  define P where "P = (\<lambda>(E' :: go_env) p (ds :: (string, bool) fmap) (r :: (string, bool) fmap).
    E' = E \<longrightarrow> is_rooted p \<longrightarrow> False)"
  have "P E p dirs r"
  proof (rule ensureDirsLocked.raw_induct [OF _ r])
    fix loop :: "go_env \<Rightarrow> string \<Rightarrow> (string, bool) fmap \<Rightarrow> (string, bool) fmap option"
      and E' p ds r
    assume IH: "\<And>E p ds r. loop E p ds = Some r \<Longrightarrow> P E p ds r"
      and step: "(if p \<noteq> '''' \<and> p \<noteq> ''.'' then
        (let dirs' = fmupd p True ds; directoryPath' = PathDir E' p
         in if directoryPath' = ''.'' then Some dirs' else loop E' directoryPath' dirs')
      else Some ds) = Some r"
    show "P E' p ds r"
      unfolding P_def
    proof (intro impI)
      assume eq: "E' = E" and rt: "is_rooted p"
      have "p \<noteq> ''''" "p \<noteq> ''.''" "path_dir p \<noteq> ''.''" using rt rooted_dir [OF rt] by (auto simp: is_rooted_def)
      then have "loop E (path_dir p) (fmupd p True ds) = Some r" using step eq by (simp add: Let_def)
      then have "P E (path_dir p) (fmupd p True ds) r" by (rule IH)
      then show False using rooted_dir [OF rt] by (simp add: P_def)
    qed
  qed
  then show False using assms by (simp add: P_def)
qed

lemma unrooted_dir: "\<not> is_rooted p \<Longrightarrow> \<not> is_rooted (path_dir p)"
proof -
  assume u: "\<not> is_rooted p"
  have "prefix (dir_part p) p"
    using dir_part_cases [of p] by (auto simp: prefix_def)
  then have "\<not> is_rooted (dir_part p)"
    using u by (auto simp: is_rooted_def elim: prefix_order.trans)

  then show ?thesis using unrooted_clean [of "dir_part p"] using \<open>\<not> is_rooted (dir_part p)\<close> by (simp add: path_dir_def)
qed

lemma ensureDirsLocked_returns:
  "\<not> is_rooted p \<Longrightarrow> ensureDirsLocked E p dirs = Some (mark_dirs (parents p) dirs)"
proof (induction p arbitrary: dirs rule: parents.induct)
  case (1 p)
  show ?case
  proof (cases "p = ''.'' \<or> p = ''''")
    case False
    have u: "\<not> is_rooted (path_dir p)" by (rule unrooted_dir [OF "1.prems"])
    show ?thesis
    proof (cases "path_dir p = ''.''")
      case True
      then show ?thesis using False
        by (simp add: ensureDirsLocked.simps [of E p] parents.simps [of p] mark_dirs_def Let_def)
    next
      case ne: False
      then have "path_dir p \<noteq> p"
        using False "1.prems" path_dir_fixed [of p] by auto
      then show ?thesis using False ne u "1.IH"
        by (simp add: ensureDirsLocked.simps [of E p] parents_step mark_dirs_def Let_def)
    qed
  qed (auto simp: ensureDirsLocked.simps [of E p] mark_dirs_def)
qed

end

context go_runtime
begin

lemma normaliseEntryPath_rooted: "is_rooted (normaliseEntryPath E p) \<longleftrightarrow> prefix ''//'' p"
proof -
  let ?q = "trim_prefix p ''/''"
  have "is_rooted ?q \<longleftrightarrow> prefix ''//'' p"
    by (cases p; cases "tl p") (auto simp: trim_prefix_def is_rooted_def)
  moreover have "is_rooted (path_clean ?q) \<longleftrightarrow> is_rooted ?q"
    using clean_abs [of ?q] unrooted_clean [of ?q] by (cases "is_rooted ?q") auto
  ultimately show ?thesis by (auto simp: normaliseEntryPath_def Let_def is_rooted_def)
qed

lemma normaliseEntryPath_norm: "norm_path p \<Longrightarrow> normaliseEntryPath E p = p"
  using norm_path_hd [of p] norm_path_not_dot [of p]
  by (simp add: normaliseEntryPath_def Let_def trim_prefix_def)

end

subsection \<open>The Borg DataNode\<close>

text \<open>
  What the medium relies on: a DataNode is a finite map of files.  \<open>AddData\<close> stores a file under its
  name and touches no other; opening, stating and reading tell files from what is not one; \<open>Stat\<close>
  answers for a directory exactly when there is a file below it; the walk visits every file
  once and meets no error; an archive holds the files.  What \<open>Open\<close> gives for a name with a slash in front that
  is not one of a file is left open.
\<close>

definition below_some :: "(string, 'v) fmap \<Rightarrow> string \<Rightarrow> bool" where
  "below_some F p \<longleftrightarrow> (\<exists>q. has_key F q \<and> prefix (p @ ''/'') q)"

text \<open>All names are clean relative paths.\<close>

definition names_ok :: "(string, 'v) fmap \<Rightarrow> bool" where
  "names_ok F \<longleftrightarrow> (\<forall>q. has_key F q \<longrightarrow> norm_path q)"

locale datanode_library =
  fixes B :: "('n, 'f) datanode_api" and files :: "'n \<Rightarrow> (string, string) fmap"
  assumes files_New: "files (dn_New B) = fmempty"
    and files_Add: "norm_path p \<Longrightarrow> files (dn_AddData B p c n) = fmupd p c (files n)"
    and files_Add_other: "\<not> is_rooted p \<Longrightarrow> q \<noteq> p \<Longrightarrow> fmlookup (files (dn_AddData B p c n)) q = fmlookup (files n) q"
    and open_file: "fmlookup (files n) p = Some c \<Longrightarrow>
      \<exists>f info. dn_Open B p n = Inr f \<and> df_Stat B f = Inr info \<and> \<not> fi_isDir info \<and> df_ReadAll B f = Inr c"
    and open_other: "\<not> has_key (files n) p \<Longrightarrow> \<not> is_rooted p \<Longrightarrow> dn_Open B p n = Inr f \<Longrightarrow> \<exists>info. df_Stat B f = Inr info \<and> fi_isDir info"
    and stat_file: "has_key (files n) p \<Longrightarrow> \<exists>info. dn_Stat B p n = Inr info \<and> \<not> fi_isDir info"
    and stat_dir: "\<not> has_key (files n) p \<Longrightarrow> below_some (files n) p \<Longrightarrow> \<exists>info. dn_Stat B p n = Inr info \<and> fi_isDir info"
    and stat_none: "\<not> has_key (files n) p \<Longrightarrow> \<not> below_some (files n) p \<Longrightarrow> norm_path p \<Longrightarrow> \<exists>err. dn_Stat B p n = Inl err"
    and read_file: "fmlookup (files n) p = Some c \<Longrightarrow>
      \<exists>f. dataNodeOpen B n p = Inr f \<and> dataNodeReadAll B f = Inr c \<and> df_Close B f = None"
    and walk_calls: "names_ok (files n) \<Longrightarrow>
      (\<forall>v\<in>set (dn_calls B ''.'' n). snd (snd v) = None) \<and>
      distinct (map fst (dn_calls B ''.'' n)) \<and>
      {p. \<exists>e. (p, e, None) \<in> set (dn_calls B ''.'' n) \<and> \<not> de_isDir e} = {q. has_key (files n) q}"
    and tar_files: "dn_ToTar B n = Inr t \<Longrightarrow> \<exists>n'. dn_FromTar B t = Inr n' \<and> files n' = files n"
begin

lemma readFileLocked_file: "fmlookup (files n) p = Some c \<Longrightarrow> readFileLocked B n p = Inr c"
  using read_file [of n p c] by (auto simp: readFileLocked_def)

text \<open>The names of the files, in the order of the walk.\<close>

lemma collect_loop_ok:
  assumes "\<forall>v\<in>set calls. snd (snd v) = None"
  shows "collect_loop calls names = Inr (names @ map fst (filter (\<lambda>v. \<not> de_isDir (fst (snd v))) calls))"
  using assms
proof (induction calls arbitrary: names)
  case (Cons v calls)
  then show ?case by (cases v) auto
qed simp

lemma collectAll:
  assumes "names_ok (files n)"
  obtains names where "collectAllLocked B n = Inr names" "distinct names" "set names = {q. has_key (files n) q}"
proof -
  let ?calls = "dn_calls B ''.'' n"
  let ?names = "map fst (filter (\<lambda>v. \<not> de_isDir (fst (snd v))) ?calls)"
  have w: "\<forall>v\<in>set ?calls. snd (snd v) = None" "distinct (map fst ?calls)"
    "{p. \<exists>e. (p, e, None) \<in> set ?calls \<and> \<not> de_isDir e} = {q. has_key (files n) q}"
    using walk_calls [OF assms] by blast+
  have "set ?names = {p. \<exists>e. (p, e, None) \<in> set ?calls \<and> \<not> de_isDir e}"
  proof -
    have "v \<in> set ?calls \<Longrightarrow> v = (fst v, fst (snd v), None)" for v using w(1) by (cases v) auto
    then show ?thesis by (auto simp: image_iff) (metis fst_conv snd_conv)+
  qed
  then have "set ?names = {q. has_key (files n) q}" using w(3) by simp
  moreover have "distinct ?names" using w(2) by (simp add: distinct_map_filter)
  moreover have "collectAllLocked B n = Inr ?names" using collect_loop_ok [OF w(1)] by (simp add: collectAllLocked_def)
  ultimately show thesis using that by blast
qed

lemma remove_loop_files:
  assumes "\<forall>q\<in>set names. norm_path q \<and> has_key (files n) q"
  shows "\<exists>n'. remove_loop B n t names new = Inr n' \<and>
    (\<forall>q. fmlookup (files n') q = (if q \<in> set names \<and> q \<noteq> t then fmlookup (files n) q else fmlookup (files new) q))"
  using assms
proof (induction names arbitrary: new)
  case (Cons p names)
  show ?case
  proof (cases "p = t")
    case True
    then show ?thesis using Cons by fastforce
  next
    case False
    obtain c where c: "fmlookup (files n) p = Some c" using Cons.prems by (auto elim: has_keyE)
    have "files (dn_AddData B p c new) = fmupd p c (files new)" using Cons.prems by (simp add: files_Add)
    then show ?thesis
      using Cons.IH [of "dn_AddData B p c new"] Cons.prems False c
      by (auto simp: readFileLocked_file [OF c])
  qed
qed simp

text \<open>Removing a file keeps all others, though the DataNode is built anew.\<close>

lemma removeFile:
  assumes "names_ok (files (dm_dataNode m))"
  obtains n' where "removeFileLocked B t m = (None, m\<lparr>dm_dataNode := n'\<rparr>)"
    "files n' = fmdrop t (files (dm_dataNode m))"
proof -
  let ?n = "dm_dataNode m"
  obtain names where names: "collectAllLocked B ?n = Inr names" "set names = {q. has_key (files ?n) q}"
    using collectAll [OF assms] by metis
  then have "\<forall>q\<in>set names. norm_path q \<and> has_key (files ?n) q" using assms by (simp add: names_ok_def)
  from remove_loop_files [OF this, of t "dn_New B"]
  obtain n' where n': "remove_loop B ?n t names (dn_New B) = Inr n'"
    "\<forall>q. fmlookup (files n') q = (if q \<in> set names \<and> q \<noteq> t then fmlookup (files ?n) q else None)"
    by (auto simp: files_New)
  have "files n' = fmdrop t (files ?n)"
    using n'(2) names(2) by (intro fmap_eqI) (auto simp: has_key_def)
  then show thesis using that names n'(1) by (simp add: removeFileLocked_def)
qed

lemma names_ok_drop: "files n' = fmdrop t (files n) \<Longrightarrow> names_ok (files n) \<Longrightarrow> names_ok (files n')"
  by (simp add: names_ok_def)

end

subsection \<open>Deleting\<close>

context datanode_library
begin

lemma deleteFileIfPresent:
  assumes "names_ok (files (dm_dataNode m))" "norm_path p"
  obtains n' where "deleteFileIfPresentLocked B p m = (Inr (has_key (files (dm_dataNode m)) p), m\<lparr>dm_dataNode := n'\<rparr>)"
    "files n' = fmdrop p (files (dm_dataNode m))"
proof (cases "has_key (files (dm_dataNode m)) p")
  case True
  obtain info where i: "dn_Stat B p (dm_dataNode m) = Inr info" "\<not> fi_isDir info" using stat_file [OF True] by auto
  obtain n' where n': "removeFileLocked B p m = (None, m\<lparr>dm_dataNode := n'\<rparr>)" "files n' = fmdrop p (files (dm_dataNode m))"
    using removeFile [OF assms(1)] .
  show thesis by (rule that [OF _ n'(2)]) (simp add: deleteFileIfPresentLocked_def i n'(1) True)
next
  case False
  then have "deleteFileIfPresentLocked B p m = (Inr False, m)"
    using stat_dir [OF False] stat_none [OF False _ assms(2)]
    by (cases "below_some (files (dm_dataNode m)) p") (auto simp: deleteFileIfPresentLocked_def)
  moreover have "fmdrop p (files (dm_dataNode m)) = files (dm_dataNode m)"
    using False by (intro fmap_eqI) (auto simp: has_key_def)
  ultimately show thesis using that [of "dm_dataNode m"] False by simp
qed

lemma deleteEntries:
  assumes "names_ok (files (dm_dataNode m))" "go_runtime E"
  shows "\<exists>n'. deleteEntriesMatchingLocked E B names p (p @ ''/'') found m =
      (Inr (found \<or> (\<exists>q\<in>set names. at_or_below p q)), m\<lparr>dm_dataNode := n'\<rparr>) \<and>
    files n' = fmfilter (\<lambda>q. \<not> (q \<in> set names \<and> at_or_below p q)) (files (dm_dataNode m))"
  using assms(1)
proof (induction names arbitrary: found m)
  case Nil
  have "m = m\<lparr>dm_dataNode := dm_dataNode m\<rparr>" by simp
  then show ?case by (intro exI [of _ "dm_dataNode m"]) (simp add: fmap_eqI)
next
  case (Cons q names)
  note hp = go_runtime.HasPrefix_eq [OF assms(2)]
  show ?case
  proof (cases "at_or_below p q")
    case True
    obtain n1 where n1: "removeFileLocked B q m = (None, m\<lparr>dm_dataNode := n1\<rparr>)"
      "files n1 = fmdrop q (files (dm_dataNode m))"
      using removeFile [OF Cons.prems] .
    have ok: "names_ok (files (dm_dataNode (m\<lparr>dm_dataNode := n1\<rparr>)))" using names_ok_drop [OF n1(2) Cons.prems] by simp
    have "fmfilter (\<lambda>x. \<not> (x \<in> set names \<and> at_or_below p x)) (fmdrop q (files (dm_dataNode m)))
      = fmfilter (\<lambda>x. \<not> (x \<in> set (q # names) \<and> at_or_below p x)) (files (dm_dataNode m))"
      using True by (intro fmap_eqI) auto
    then show ?thesis using Cons.IH [OF ok, of True] True n1 hp by (auto simp: at_or_below_def)
  next
    case False
    have "fmfilter (\<lambda>x. \<not> (x \<in> set names \<and> at_or_below p x)) (files (dm_dataNode m))
      = fmfilter (\<lambda>x. \<not> (x \<in> set (q # names) \<and> at_or_below p x)) (files (dm_dataNode m))"
      using False by (intro fmap_eqI) auto
    then show ?thesis using Cons.IH [OF Cons.prems, of found] False hp by (auto simp: at_or_below_def)
  qed
qed

end

context go_runtime
begin

lemma deleteDirectories:
  fixes m :: "'n datanode_medium"
  shows "deleteDirectoriesMatchingLocked E p (p @ ''/'') m =
     (\<exists>d. has_key (directorySet m) d \<and> at_or_below p d,
      m\<lparr>directorySet := fmfilter (\<lambda>d. \<not> at_or_below p d) (directorySet m)\<rparr>)"
proof -
  let ?step = "\<lambda>d (found, m :: 'n datanode_medium). if d = p \<or> HasPrefix E d (p @ ''/'')
    then (True, m\<lparr>directorySet := fmdrop d (directorySet m)\<rparr>) else (found, m)"
  have "fold ?step ds (found, m) =
      (found \<or> (\<exists>d\<in>set ds. at_or_below p d), m\<lparr>directorySet := drop_keys (at_or_below p) ds (directorySet m)\<rparr>)" for ds found m
    by (induction ds arbitrary: found m) (auto simp: at_or_below_def drop_keys_def)
  from this [of "range_keys E (fmdom (directorySet m))" False m]
  have "fold ?step (range_keys E (fmdom (directorySet m))) (False, m) =
      (\<exists>d\<in>set (range_keys E (fmdom (directorySet m))). at_or_below p d,
       m\<lparr>directorySet := drop_keys (at_or_below p) (range_keys E (fmdom (directorySet m))) (directorySet m)\<rparr>)"
    by simp
  moreover have "(\<exists>d\<in>set (range_keys E (fmdom (directorySet m))). at_or_below p d) \<longleftrightarrow>
      (\<exists>d. has_key (directorySet m) d \<and> at_or_below p d)"
    by (auto simp: has_key_dom)
  ultimately show ?thesis unfolding deleteDirectoriesMatchingLocked_def drop_keys_range by simp
qed

end

subsection \<open>Properties\<close>

text \<open>
  C19: the loop that records the parent directories of a path returns exactly when the path does not
  start with two slashes; for such a path \<open>Write\<close> and \<open>EnsureDir\<close> never return, while they
  hold the lock of the medium.
\<close>

theorem datanode_returns:
  assumes "go_runtime E"
  shows "(fst (Datanode_EnsureDir E p m) = Some Diverges \<longleftrightarrow> prefix ''//'' p) \<and>
    (fst (Datanode_Write E B p c m) = Some Diverges \<longleftrightarrow> prefix ''//'' p) \<and>
    (ensureDirsLocked E d dirs = None \<longleftrightarrow> is_rooted d)"
proof -
  let ?k = "normaliseEntryPath E p"
  note rooted = go_runtime.normaliseEntryPath_rooted [OF assms, of p]
  note none = go_runtime.ensureDirsLocked_rooted [OF assms] and some = go_runtime.ensureDirsLocked_returns [OF assms]
  have iff: "ensureDirsLocked E d dirs = None \<longleftrightarrow> is_rooted d" for d dirs
    using none some by (cases "is_rooted d") auto
  have dir: "is_rooted (PathDir E ?k) \<longleftrightarrow> is_rooted ?k"
    using rooted_dir go_runtime.unrooted_dir [OF assms] go_runtime.PathDir_eq [OF assms] by auto
  have "is_rooted ?k \<Longrightarrow> ?k \<noteq> ''''" by (auto simp: is_rooted_def)
  moreover have "fst (Datanode_EnsureDir E p m) = Some Diverges \<longleftrightarrow> is_rooted ?k"
    using iff [of ?k "directorySet m"] \<open>is_rooted ?k \<Longrightarrow> ?k \<noteq> ''''\<close>
    by (auto simp: Datanode_EnsureDir_def Let_def split: option.splits)
  moreover have "fst (Datanode_Write E B p c m) = Some Diverges \<longleftrightarrow> is_rooted ?k"
    using iff [of "PathDir E ?k" "directorySet m"] dir \<open>is_rooted ?k \<Longrightarrow> ?k \<noteq> ''''\<close>
    by (auto simp: Datanode_Write_def add_file_def Let_def split: option.splits)
  ultimately show ?thesis using iff rooted by blast
qed

text \<open>
  C20: in a node whose files have clean names, \<open>DeleteAll\<close> of a clean path removes exactly the files and directories at
  or below it, whatever the order of the walk and of the map range, and fails with \<open>ErrNotExist\<close> exactly when there
  was none.
\<close>

theorem datanode_DeleteAll:
  assumes "go_runtime E" "datanode_library B files" "names_ok (files (dm_dataNode m))" "norm_path p"
  shows "\<exists>n'. Datanode_DeleteAll E B p m =
      (if \<exists>q. at_or_below p q \<and> (has_key (files (dm_dataNode m)) q \<or> has_key (directorySet m) q) then None
       else Some (CoreE ''datanode.DeleteAll'' [''not found: '', p] (Some ErrNotExist)),
       \<lparr>dm_dataNode = n', directorySet = fmfilter (\<lambda>d. \<not> at_or_below p d) (directorySet m)\<rparr>) \<and>
    files n' = fmfilter (\<lambda>q. \<not> at_or_below p q) (files (dm_dataNode m))"
proof -
  note lib = assms(2)
  let ?F = "files (dm_dataNode m)"
  obtain n1 where n1: "deleteFileIfPresentLocked B p m = (Inr (has_key ?F p), m\<lparr>dm_dataNode := n1\<rparr>)"
    "files n1 = fmdrop p ?F"
    using datanode_library.deleteFileIfPresent [OF lib assms(3,4)] .
  let ?m1 = "m\<lparr>dm_dataNode := n1\<rparr>"
  have ok1: "names_ok (files (dm_dataNode ?m1))"
    using datanode_library.names_ok_drop [OF lib n1(2) assms(3)] by simp
  obtain names where names: "collectAllLocked B n1 = Inr names" "set names = {q. has_key (fmdrop p ?F) q}"
    using datanode_library.collectAll [OF lib, of n1] ok1 n1(2) by (metis datanode_medium.select_convs(1)
        datanode_medium.surjective datanode_medium.update_convs(1))
  obtain n2 where n2: "deleteEntriesMatchingLocked E B names p (p @ ''/'') False ?m1 =
      (Inr (\<exists>q\<in>set names. at_or_below p q), ?m1\<lparr>dm_dataNode := n2\<rparr>)"
    "files n2 = fmfilter (\<lambda>q. \<not> (q \<in> set names \<and> at_or_below p q)) (fmdrop p ?F)"
    using datanode_library.deleteEntries [OF lib ok1 assms(1), of names p False] n1(2) by auto
  have "p \<noteq> ''''" "normaliseEntryPath E p = p"
    using norm_path_not_Nil [OF assms(4)] go_runtime.normaliseEntryPath_norm [OF assms(1,4)] by simp_all
  then have "Datanode_DeleteAll E B p m =
      (if (\<exists>d. has_key (directorySet m) d \<and> at_or_below p d) \<or> has_key ?F p \<or> (\<exists>q\<in>set names. at_or_below p q) then None
       else Some (CoreE ''datanode.DeleteAll'' [''not found: '', p] (Some ErrNotExist)),
       \<lparr>dm_dataNode = n2, directorySet = fmfilter (\<lambda>d. \<not> at_or_below p d) (directorySet m)\<rparr>)"
    using n1(1) names(1) n2(1)
    by (simp add: Datanode_DeleteAll_def Let_def go_runtime.deleteDirectories [OF assms(1)])
  moreover have "files n2 = fmfilter (\<lambda>q. \<not> at_or_below p q) ?F"
    unfolding n2(2) names(2) by (intro fmap_eqI) (auto simp: at_or_below_def has_key_def)
  moreover have "at_or_below p p" by (simp add: at_or_below_def)
  then have "(\<exists>d. has_key (directorySet m) d \<and> at_or_below p d) \<or> has_key ?F p \<or> (\<exists>q\<in>set names. at_or_below p q)
      \<longleftrightarrow> (\<exists>q. at_or_below p q \<and> (has_key ?F q \<or> has_key (directorySet m) q))"
    unfolding names(2) by auto
  ultimately show ?thesis by auto
qed

subsection \<open>Reading and writing\<close>

context datanode_library
begin

lemma Read_iff:
  assumes "go_runtime E" "\<not> prefix ''//'' p"
  shows "Datanode_Read E B p m = Inr d \<longleftrightarrow> fmlookup (files (dm_dataNode m)) (normaliseEntryPath E p) = Some d"
proof (cases "fmlookup (files (dm_dataNode m)) (normaliseEntryPath E p)")
  case None
  moreover have "\<not> is_rooted (normaliseEntryPath E p)"
    using assms(2) go_runtime.normaliseEntryPath_rooted [OF assms(1)] by simp
  ultimately show ?thesis using open_other [of "dm_dataNode m" "normaliseEntryPath E p"]
    by (cases "dn_Open B (normaliseEntryPath E p) (dm_dataNode m)")
      (auto simp: Datanode_Read_def Let_def has_key_def)
next
  case (Some c)
  then show ?thesis using open_file [OF Some] by (auto simp: Datanode_Read_def Let_def)
qed

lemma add_file_returns:
  assumes "go_runtime E" "norm_path k"
  shows "add_file E B k c m = Some \<lparr>dm_dataNode = dn_AddData B k c (dm_dataNode m),
    directorySet = mark_dirs (parents (path_dir k)) (directorySet m)\<rparr>"
proof -
  have "\<not> is_rooted k" using norm_path_hd [OF assms(2)] by (simp add: is_rooted_def)
  then show ?thesis
    using go_runtime.ensureDirsLocked_returns [OF assms(1) go_runtime.unrooted_dir [OF assms(1)]]
    by (simp add: add_file_def go_runtime.PathDir_eq [OF assms(1)])
qed

lemma rebuild_loop_returns:
  assumes "go_runtime E" "\<forall>q\<in>set names. norm_path q"
  shows "rebuild_loop E names dirs = Some (fold (\<lambda>q. mark_dirs (parents (path_dir q))) names dirs)"
  using assms(2)
proof (induction names arbitrary: dirs)
  case (Cons q names)
  have "\<not> is_rooted q" using norm_path_hd [of q] Cons.prems by (simp add: is_rooted_def)
  then show ?case
    using Cons go_runtime.ensureDirsLocked_returns [OF assms(1) go_runtime.unrooted_dir [OF assms(1)]]
    by (simp add: go_runtime.PathDir_eq [OF assms(1)])
qed simp

lemma fold_marked_keys:
  "has_key (fold (\<lambda>q. mark_dirs (parents (path_dir q))) names dirs) d \<longleftrightarrow>
     has_key dirs d \<or> (\<exists>q\<in>set names. d \<in> set (parents (path_dir q)))"
  by (induction names arbitrary: dirs) (auto simp: has_key_def)

end

text \<open>
  \<open>Write\<close> at a path that normalises to a clean relative one succeeds; the content is read back at
  every spelling of the path without two slashes in front, all directories above it exist, and whatever could be
  read at another such path can be read as before, and nothing else.
\<close>

theorem datanode_Write_Read:
  assumes "go_runtime E" "datanode_library B files" "norm_path (normaliseEntryPath E p)"
  shows "\<exists>m'. Datanode_Write E B p c m = (None, m') \<and>
    (\<forall>q d. \<not> prefix ''//'' q \<longrightarrow> Datanode_Read E B q m' = Inr d \<longleftrightarrow>
      (if normaliseEntryPath E q = normaliseEntryPath E p then d = c else Datanode_Read E B q m = Inr d)) \<and>
    (\<forall>a. a \<in> set (parents (path_dir (normaliseEntryPath E p))) \<longrightarrow> Datanode_Exists E B a m') \<and>
    (names_ok (files (dm_dataNode m)) \<longrightarrow> names_ok (files (dm_dataNode m')))"
proof -
  let ?k = "normaliseEntryPath E p"
  let ?m = "\<lparr>dm_dataNode = dn_AddData B ?k c (dm_dataNode m),
    directorySet = mark_dirs (parents (path_dir ?k)) (directorySet m)\<rparr>"
  note lib = assms(2)
  have "?k \<noteq> ''''" using norm_path_not_Nil [OF assms(3)] .
  then have w: "Datanode_Write E B p c m = (None, ?m)"
    by (simp add: Datanode_Write_def Let_def datanode_library.add_file_returns [OF lib assms(1,3)])
  have F: "files (dm_dataNode ?m) = fmupd ?k c (files (dm_dataNode m))"
    using datanode_library.files_Add [OF lib assms(3)] by simp
  have rd: "Datanode_Read E B q ?m = Inr d \<longleftrightarrow> (if normaliseEntryPath E q = ?k then d = c else Datanode_Read E B q m = Inr d)"
    if "\<not> prefix ''//'' q" for q d
    unfolding datanode_library.Read_iff [OF lib assms(1) that] F by auto
  have ex: "Datanode_Exists E B a ?m" if a: "a \<in> set (parents (path_dir ?k))" for a
  proof -
    have "norm_path a" using a norm_dir_parents [OF assms(3)] by auto
    then have "normaliseEntryPath E a = a" by (rule go_runtime.normaliseEntryPath_norm [OF assms(1)])
    then show ?thesis using a by (simp add: Datanode_Exists_def in_directorySet_def Let_def)
  qed
  have "names_ok (files (dm_dataNode m)) \<longrightarrow> names_ok (files (dm_dataNode ?m))"
    unfolding names_ok_def F using assms(3) by auto
  then show ?thesis using w rd ex by blast
qed

text \<open>
  A snapshot can be restored, in the same medium or a new one, and every path without two slashes in front is read as before;
  the directories of the restored medium are exactly the parents of its files, so that a
  directory that held no file is gone.
\<close>

theorem datanode_snapshot:
  assumes "go_runtime E" "datanode_library B files" "names_ok (files (dm_dataNode m))"
    "Snapshot B m = Inr t"
  shows "\<exists>m'. Restore E B t m2 = (None, m') \<and> Datanode_FromTar E B t = Inr m' \<and>
    (\<forall>p d. \<not> prefix ''//'' p \<longrightarrow> Datanode_Read E B p m' = Inr d \<longleftrightarrow> Datanode_Read E B p m = Inr d) \<and>
    (\<forall>d. has_key (directorySet m') d \<longleftrightarrow>
      (\<exists>q. has_key (files (dm_dataNode m)) q \<and> d \<in> set (parents (path_dir q))))"
proof -
  note lib = assms(2)
  have "dn_ToTar B (dm_dataNode m) = Inr t" using assms(4) by (auto simp: Snapshot_def split: sum.splits)
  then obtain n' where n': "dn_FromTar B t = Inr n'" "files n' = files (dm_dataNode m)"
    using datanode_library.tar_files [OF lib] by blast
  then have ok: "names_ok (files n')"
    using assms(3) by (simp add: names_ok_def)
  obtain names where names: "collectAllLocked B n' = Inr names" "set names = {q. has_key (files n') q}"
    using datanode_library.collectAll [OF lib ok] by metis
  then have "\<forall>q\<in>set names. norm_path q" using ok by (simp add: names_ok_def)
  note rb = datanode_library.rebuild_loop_returns [OF lib assms(1) this]
  let ?m = "\<lparr>dm_dataNode = n', directorySet = fold (\<lambda>q. mark_dirs (parents (path_dir q))) names fmempty\<rparr>"
  have "Restore E B t m2 = (None, ?m)" "Datanode_FromTar E B t = Inr ?m"
    by (simp_all add: Restore_def Datanode_FromTar_def rebuildDirectorySetLocked_def n'(1) names(1) rb)
  moreover have "Datanode_Read E B p ?m = Inr d \<longleftrightarrow> Datanode_Read E B p m = Inr d" if "\<not> prefix ''//'' p" for p d
    by (simp add: datanode_library.Read_iff [OF lib assms(1) that] n'(2))
  moreover have "has_key (directorySet ?m) d \<longleftrightarrow>
      (\<exists>q. has_key (files (dm_dataNode m)) q \<and> d \<in> set (parents (path_dir q)))" for d
    using names(2) n'(2) by (simp add: datanode_library.fold_marked_keys [OF lib])
  ultimately show ?thesis by blast
qed

subsection \<open>Renaming\<close>

context datanode_library
begin

lemma move_file_below_eq:
  assumes "go_runtime E" "names_ok (files (dm_dataNode m))" "norm_path old" "norm_path new"
    "prefix (old @ ''/'') k" "fmlookup (files (dm_dataNode m)) k = Some c"
  obtains n' where "move_file_below E B (old @ ''/'') (new @ ''/'') k m = (None, m\<lparr>dm_dataNode := n'\<rparr>)"
    "files n' = fmdrop k (fmupd (new_key (old @ ''/'') (new @ ''/'') k) c (files (dm_dataNode m)))"
    "names_ok (files n')"
proof -
  let ?g = "new_key (old @ ''/'') (new @ ''/'') k"
  obtain r where k: "k = old @ slash # r" using assms(5) by (auto simp: prefix_def)
  then have "norm_path r" using assms(2,6) has_key_Some by (fastforce simp: names_ok_def norm_path_append)
  then have g: "norm_path ?g" using assms(4) k by (simp add: new_key_def norm_path_append)
  let ?m = "m\<lparr>dm_dataNode := dn_AddData B ?g c (dm_dataNode m)\<rparr>"
  have F: "files (dm_dataNode ?m) = fmupd ?g c (files (dm_dataNode m))" using files_Add [OF g] by simp
  then have "names_ok (files (dm_dataNode ?m))" using assms(2) g by (simp add: names_ok_def)
  then obtain n' where n': "removeFileLocked B k ?m = (None, ?m\<lparr>dm_dataNode := n'\<rparr>)"
    "files n' = fmdrop k (files (dm_dataNode ?m))"
    using removeFile by blast
  have "Concat E [new @ ''/'', TrimPrefix E k (old @ ''/'')] = ?g"
    using assms(5) by (simp add: go_runtime.Concat_eq [OF assms(1)] go_runtime.TrimPrefix_eq [OF assms(1)]
        trim_prefix_def new_key_def)
  then have "move_file_below E B (old @ ''/'') (new @ ''/'') k m = (None, m\<lparr>dm_dataNode := n'\<rparr>)"
    using n'(1) assms(5) by (simp add: move_file_below_def Let_def go_runtime.HasPrefix_eq [OF assms(1)]
        readFileLocked_file [OF assms(6)])
  moreover have "names_ok (files n')" using assms(2) g files_Add [OF g] by (auto simp: n'(2) names_ok_def)
  ultimately show thesis using that n'(2) F by simp
qed

lemma each_move:
  assumes "go_runtime E" "names_ok (files (dm_dataNode m))" "norm_path old" "norm_path new"
    "distinct ks" "new_key (old @ ''/'') (new @ ''/'') ` {k. prefix (old @ ''/'') k} \<inter> {k. prefix (old @ ''/'') k} = {}"
    "\<forall>k\<in>set ks. prefix (old @ ''/'') k \<longrightarrow> fmlookup (files (dm_dataNode m)) k = Some (w k)"
  shows "\<exists>n'. each (move_file_below E B (old @ ''/'') (new @ ''/'')) ks m = (None, m\<lparr>dm_dataNode := n'\<rparr>) \<and>
    files n' = fold (\<lambda>k mp. fmdrop k (fmupd (new_key (old @ ''/'') (new @ ''/'') k) (w k) mp))
      (filter (prefix (old @ ''/'')) ks) (files (dm_dataNode m))"
  using assms(2,5,7)
proof (induction ks arbitrary: m)
  case Nil
  have "m = m\<lparr>dm_dataNode := dm_dataNode m\<rparr>" by simp
  then show ?case by (intro exI [of _ "dm_dataNode m"]) simp
next
  case (Cons k ks)
  let ?g = "new_key (old @ ''/'') (new @ ''/'')"
  show ?case
  proof (cases "prefix (old @ ''/'') k")
    case True
    obtain n1 where n1: "move_file_below E B (old @ ''/'') (new @ ''/'') k m = (None, m\<lparr>dm_dataNode := n1\<rparr>)"
      "files n1 = fmdrop k (fmupd (?g k) (w k) (files (dm_dataNode m)))" "names_ok (files n1)"
      using move_file_below_eq [OF assms(1) Cons.prems(1) assms(3,4) True, of "w k"] Cons.prems(3) True by auto
    have "\<forall>j\<in>set ks. prefix (old @ ''/'') j \<longrightarrow> fmlookup (files n1) j = Some (w j)"
    proof (intro ballI impI)
      fix j assume j: "j \<in> set ks" "prefix (old @ ''/'') j"
      then have "j \<noteq> k" "j \<noteq> ?g k" using Cons.prems(2) assms(6) True by auto
      then show "fmlookup (files n1) j = Some (w j)" using Cons.prems(3) j n1(2) by simp
    qed
    then show ?thesis using Cons.IH [of "m\<lparr>dm_dataNode := n1\<rparr>"] Cons.prems(2) n1 True by auto
  next
    case False
    then have "move_file_below E B (old @ ''/'') (new @ ''/'') k m = (None, m)"
      by (simp add: move_file_below_def go_runtime.HasPrefix_eq [OF assms(1)])
    then show ?thesis using Cons.IH [OF Cons.prems(1)] Cons.prems(2,3) False by simp
  qed
qed

end

text \<open>The directories: the loop over \<open>dirsToMove\<close>.\<close>

definition moved_dir :: "string \<Rightarrow> string \<Rightarrow> string \<Rightarrow> string" where
  "moved_dir old new k = new @ drop (length old) k"

lemma moved_dir_cases:
  assumes "at_or_below old k"
  shows "moved_dir old new k = new \<and> k = old \<or>
    moved_dir old new k = new_key (old @ ''/'') (new @ ''/'') k \<and> prefix (old @ ''/'') k"
  using assms by (auto simp: at_or_below_def moved_dir_def new_key_def prefix_def)

lemma moved_dir_outside:
  assumes "(old @ ''/'') \<parallel> (new @ ''/'')" "at_or_below old k"
  shows "\<not> at_or_below old (moved_dir old new k)"
proof
  assume "at_or_below old (moved_dir old new k)"
  moreover have "old \<noteq> new" using assms(1) by auto
  moreover have "\<not> prefix (old @ ''/'') new" using assms(1) by (meson parallelD1 prefix_order.trans prefixI)
  moreover have "\<not> prefix (new @ ''/'') old" using assms(1) by (meson parallelD2 prefix_order.trans prefixI)
  moreover have "\<not> prefix (old @ ''/'') (new_key (old @ ''/'') (new @ ''/'') k)" by (rule new_key_parallel [OF assms(1)])
  ultimately show False
    using moved_dir_cases [OF assms(2), of new] by (auto simp: at_or_below_def new_key_def prefix_def)
qed

context go_runtime
begin

lemma dirs_to_move_lookup:
  "fmlookup (dirs_to_move E old new dirs) k =
     (if has_key dirs k \<and> at_or_below old k then Some (moved_dir old new k) else None)"
proof -
  have t: "at_or_below old k \<Longrightarrow> TrimPrefix E k old = drop (length old) k" for k
    by (auto simp: at_or_below_def trim_prefix_def prefix_def)
  have "fmlookup (fold (\<lambda>k acc. if k = old \<or> HasPrefix E k (old @ ''/'')
        then fmupd k (Concat E [new, TrimPrefix E k old]) acc else acc) ks acc) j
      = (if j \<in> set ks \<and> at_or_below old j then Some (moved_dir old new j) else fmlookup acc j)" for ks acc j
    using t by (induction ks arbitrary: acc) (auto simp: at_or_below_def moved_dir_def trim_prefix_def)
  then show ?thesis by (simp add: dirs_to_move_def has_key_dom)
qed

lemma move_dirs_keys:
  assumes "(old @ ''/'') \<parallel> (new @ ''/'')"
  shows "has_key (move_dirs E (dirs_to_move E old new dirs) dirs) d \<longleftrightarrow>
    \<not> at_or_below old d \<and> (has_key dirs d \<or> (\<exists>k. at_or_below old k \<and> has_key dirs k \<and> d = moved_dir old new k))"
proof -
  let ?D = "dirs_to_move E old new dirs" and ?g = "moved_dir old new"
  let ?ks = "range_keys E (fmdom ?D)"
  have ks: "set ?ks = {k. has_key dirs k \<and> at_or_below old k}"
    by (auto simp: fmlookup_dom_iff dirs_to_move_lookup split: if_splits)
  have "fold (\<lambda>k mp. case fmlookup ?D k of None \<Rightarrow> mp | Some n \<Rightarrow> fmupd n True (fmdrop k mp)) ?ks dirs
      = fold (\<lambda>k mp. fmdrop k (fmupd (?g k) True mp)) ?ks dirs"
  proof (rule fold_cong)
    fix k assume "k \<in> set ?ks"
    then have k: "fmlookup ?D k = Some (?g k)" "at_or_below old k"
      unfolding ks by (simp_all add: dirs_to_move_lookup)
    then have "?g k \<noteq> k" using moved_dir_outside [OF assms] by metis
    then show "(\<lambda>mp. case fmlookup ?D k of None \<Rightarrow> mp | Some n \<Rightarrow> fmupd n True (fmdrop k mp))
        = (\<lambda>mp. fmdrop k (fmupd (?g k) True mp))"
      using k(1) by (auto intro!: fmap_eqI)
  qed simp_all
  moreover have "inj_on ?g (set ?ks)"
    unfolding ks by (auto simp: inj_on_def moved_dir_def at_or_below_def prefix_def)
  moreover have "?g ` set ?ks \<inter> set ?ks = {}"
    unfolding ks using moved_dir_outside [OF assms] by auto
  ultimately have "has_key (move_dirs E ?D dirs) d \<longleftrightarrow>
      d \<notin> set ?ks \<and> ((\<exists>k\<in>set ?ks. ?g k = d) \<or> has_key dirs d)"
    by (auto simp: move_dirs_def has_key_def fold_move)
  then show ?thesis unfolding ks using moved_dir_outside [OF assms] by blast
qed

end

text \<open>
  C21: let all files of the node have clean names, \<open>old\<close> and \<open>new\<close> be clean paths neither of which is at or below the other,
  and \<open>old\<close> not the name of a file.  Renaming \<open>old\<close> when it has a file below it succeeds, moves every file below it, with its content, to the same
  place below \<open>new\<close>, and every recorded directory at or below it, in whatever order they are visited, and changes
  nothing else; an \<open>old\<close> without a file below it is not found, even if it is a recorded directory, and nothing changes.
\<close>

theorem datanode_Rename_directory:
  assumes "go_runtime E" "datanode_library B files" "names_ok (files (dm_dataNode m))"
    "norm_path old" "norm_path new" "(old @ ''/'') \<parallel> (new @ ''/'')" "\<not> has_key (files (dm_dataNode m)) old"
  shows "if below_some (files (dm_dataNode m)) old
    then \<exists>m'. Datanode_Rename E B old new m = (None, m') \<and>
      (\<forall>q. fmlookup (files (dm_dataNode m')) q = relocate (old @ ''/'') (new @ ''/'') (files (dm_dataNode m)) q) \<and>
      (\<forall>d. has_key (directorySet m') d \<longleftrightarrow> \<not> at_or_below old d \<and>
        (has_key (directorySet m) d \<or> (\<exists>k. at_or_below old k \<and> has_key (directorySet m) k \<and> d = moved_dir old new k)))
    else Datanode_Rename E B old new m =
      (Some (CoreE ''datanode.Rename'' [''not found: '', old] (Some ErrNotExist)), m)"
proof (cases "below_some (files (dm_dataNode m)) old")
  case True
  note lib = assms(2)
  let ?F = "files (dm_dataNode m)" and ?g = "new_key (old @ ''/'') (new @ ''/'')"
  obtain info where i: "dn_Stat B old (dm_dataNode m) = Inr info" "fi_isDir info"
    using datanode_library.stat_dir [OF lib assms(7) True] by auto
  obtain names where names: "collectAllLocked B (dm_dataNode m) = Inr names" "distinct names"
    "set names = {q. has_key ?F q}"
    using datanode_library.collectAll [OF lib assms(3)] .
  have apart: "?g ` {k. prefix (old @ ''/'') k} \<inter> {k. prefix (old @ ''/'') k} = {}"
    using new_key_parallel [OF assms(6)] by auto
  have val: "\<forall>k\<in>set names. prefix (old @ ''/'') k \<longrightarrow> fmlookup ?F k = Some (the (fmlookup ?F k))"
    unfolding names(3) by (auto simp: has_key_def)
  obtain n' where n': "each (move_file_below E B (old @ ''/'') (new @ ''/'')) names m = (None, m\<lparr>dm_dataNode := n'\<rparr>)"
    "files n' = fold (\<lambda>k mp. fmdrop k (fmupd (?g k) (the (fmlookup ?F k)) mp)) (filter (prefix (old @ ''/'')) names) ?F"
    using datanode_library.each_move [OF lib assms(1,3,4,5) names(2) apart val] by blast
  have "fmlookup (files n') q = relocate (old @ ''/'') (new @ ''/'') ?F q" for q
    unfolding n'(2) using names(2,3) val by (intro fold_move_prefix [OF _ _ assms(6)]) auto
  moreover have "normaliseEntryPath E old = old" "normaliseEntryPath E new = new"
    using go_runtime.normaliseEntryPath_norm [OF assms(1)] assms(4,5) by simp_all
  then have "Datanode_Rename E B old new m = (None, \<lparr>dm_dataNode = n',
      directorySet = move_dirs E (dirs_to_move E old new (directorySet m)) (directorySet m)\<rparr>)"
    using i names(1) n'(1) by (simp add: Datanode_Rename_def datanode_renameDirectoryLocked_def Let_def)
  ultimately show ?thesis
    using go_runtime.move_dirs_keys [OF assms(1,6), of "directorySet m"] True by simp
next
  case False
  obtain err where "dn_Stat B old (dm_dataNode m) = Inl err"
    using datanode_library.stat_none [OF assms(2,7) False assms(4)] by auto
  then show ?thesis
    using False go_runtime.normaliseEntryPath_norm [OF assms(1,4)] by (simp add: Datanode_Rename_def Let_def)
qed

text \<open>
  Renaming a file moves its content and records the parents of the new path; the old path is removed
  last, so that renaming a file to its own path deletes it.
\<close>

lemma datanode_Rename_file:
  assumes "go_runtime E" "datanode_library B files" "names_ok (files (dm_dataNode m))"
    "norm_path old" "norm_path new" "fmlookup (files (dm_dataNode m)) old = Some c"
  shows "\<exists>n'. Datanode_Rename E B old new m =
      (None, \<lparr>dm_dataNode = n', directorySet = mark_dirs (parents (path_dir new)) (directorySet m)\<rparr>) \<and>
    files n' = fmdrop old (fmupd new c (files (dm_dataNode m)))"
proof -
  note lib = assms(2)
  let ?m = "\<lparr>dm_dataNode = dn_AddData B new c (dm_dataNode m),
    directorySet = mark_dirs (parents (path_dir new)) (directorySet m)\<rparr>"
  have F: "files (dn_AddData B new c (dm_dataNode m)) = fmupd new c (files (dm_dataNode m))"
    by (rule datanode_library.files_Add [OF lib assms(5)])
  then have "names_ok (files (dm_dataNode ?m))" using assms(3,5) by (simp add: names_ok_def)
  then obtain n' where n': "removeFileLocked B old ?m = (None, ?m\<lparr>dm_dataNode := n'\<rparr>)"
    "files n' = fmdrop old (files (dm_dataNode ?m))"
    using datanode_library.removeFile [OF lib] by blast
  obtain info where "dn_Stat B old (dm_dataNode m) = Inr info" "\<not> fi_isDir info"
    using datanode_library.stat_file [OF lib has_key_Some [OF assms(6)]] by auto
  moreover have "normaliseEntryPath E old = old" "normaliseEntryPath E new = new"
    using go_runtime.normaliseEntryPath_norm [OF assms(1)] assms(4,5) by simp_all
  ultimately show ?thesis
    using n' F by (simp add: Datanode_Rename_def datanode_renameFileLocked_def Let_def
        datanode_library.readFileLocked_file [OF lib assms(6)] datanode_library.add_file_returns [OF lib assms(1,5)])
qed

subsection \<open>A concrete DataNode\<close>

text \<open>
  A DataNode as an association list; a file handle is \<open>None\<close> for a directory.  The archive is the list
  written with the length of each string in unary.
\<close>

fun list_archive :: "(string \<times> string) list \<Rightarrow> string" where
  "list_archive [] = ''0''"
| "list_archive ((p, c) # fs) = CHR ''1'' # put_string p @ put_string c @ list_archive fs"

fun archive_list' :: "nat \<Rightarrow> string \<Rightarrow> (string \<times> string) list" where
  "archive_list' 0 s = []"
| "archive_list' (Suc k) s =
     (case s of [] \<Rightarrow> []
      | c # s1 \<Rightarrow>
          (if c = CHR ''0'' then []
           else let (p, s2) = get_string 0 s1; (d, s3) = get_string 0 s2 in (p, d) # archive_list' k s3))"

definition list_stat :: "string \<Rightarrow> (string \<times> string) list \<Rightarrow> file_info res" where
  "list_stat p fs =
     (case map_of fs p of
        Some c \<Rightarrow> Inr (NewFileInfo p (int (length c)) 420 zero_time False)
      | None \<Rightarrow> (if list_ex (\<lambda>q. prefix (p @ ''/'') (fst q)) fs then Inr (datanode_dirInfo p) else Inl ErrNotExist))"

definition list_open :: "string \<Rightarrow> (string \<times> string) list \<Rightarrow> string option res" where
  "list_open p fs = (case list_stat p fs of Inl e \<Rightarrow> Inl e
     | Inr info \<Rightarrow> Inr (if fi_isDir info then None else map_of fs p))"

definition list_readdir :: "string \<Rightarrow> (string \<times> string) list \<Rightarrow> dir_entry list res" where
  "list_readdir p fs =
     (let pre = (if p = '''' then '''' else p @ ''/'');
          below = map (\<lambda>q. drop (length pre) (fst q)) (filter (\<lambda>q. prefix pre (fst q)) fs)
      in if p \<noteq> '''' \<and> below = [] then Inl ErrNotExist
         else Inr (map (\<lambda>q. NewDirEntry q (q \<notin> set below) 0 (NewFileInfo q 0 0 zero_time (q \<notin> set below)))
           (remdups (map (takeWhile (\<lambda>c. c \<noteq> slash)) below))))"

definition list_datanode :: "((string \<times> string) list, string option) datanode_api" where
  "list_datanode =
     \<lparr>dn_New = [], dn_FromTar = (\<lambda>s. Inr (archive_list' (length s) s)), dn_ToTar = (\<lambda>fs. Inr (list_archive fs)),
      dn_AddData = AList.update, dn_Open = list_open, dn_Stat = list_stat,
      dn_ReadDir = list_readdir,
      dn_calls = (\<lambda>_ fs. map (\<lambda>q. (q, NewDirEntry q False 0 (NewFileInfo q 0 0 zero_time False), None)) (remdups (map fst fs))),
      dataNodeOpen = (\<lambda>fs p. list_open p fs), dataNodeReadAll = (\<lambda>f. case f of None \<Rightarrow> Inl ErrInvalid | Some c \<Rightarrow> Inr c),
      df_Stat = (\<lambda>f. Inr (NewFileInfo '''' 0 0 zero_time (f = None))),
      df_ReadAll = (\<lambda>f. case f of None \<Rightarrow> Inl ErrInvalid | Some c \<Rightarrow> Inr c), df_Close = (\<lambda>_. None)\<rparr>"

lemma archive_list_archive: "length fs < k \<Longrightarrow> archive_list' k (list_archive fs) = fs"
proof (induction fs arbitrary: k)
  case Nil
  then show ?case by (cases k) simp_all
next
  case (Cons e fs)
  then show ?case by (cases e; cases k) simp_all
qed

lemma length_list_archive: "length fs < length (list_archive fs)"
  by (induction fs rule: list_archive.induct) (auto simp: put_string_def)

lemma below_some_list: "below_some (fmap_of_list fs) p \<longleftrightarrow> list_ex (\<lambda>q. prefix (p @ ''/'') (fst q)) fs"
proof -
  have "has_key (fmap_of_list fs) q \<longleftrightarrow> q \<in> fst ` set fs" for q
    by (simp add: has_key_def fmlookup_of_list map_of_eq_None_iff)
  then show ?thesis by (auto simp: below_some_def list_ex_iff)
qed

interpretation list_dn: datanode_library list_datanode fmap_of_list
proof
  fix n :: "(string \<times> string) list" assume "names_ok (fmap_of_list n)"
  have "has_key (fmap_of_list n) q \<longleftrightarrow> q \<in> fst ` set n" for q
    by (simp add: has_key_def fmlookup_of_list map_of_eq_None_iff)
  moreover have "(p, e, None) \<in> set (dn_calls list_datanode ''.'' n) \<longleftrightarrow>
      p \<in> fst ` set n \<and> e = NewDirEntry p False 0 (NewFileInfo p 0 0 zero_time False)" for p e
    unfolding list_datanode_def by auto
  then have "{p. \<exists>e. (p, e, None) \<in> set (dn_calls list_datanode ''.'' n) \<and> \<not> de_isDir e} = fst ` set n"
    by auto
  moreover have "distinct (map fst (dn_calls list_datanode ''.'' n))"
    "\<forall>v\<in>set (dn_calls list_datanode ''.'' n). snd (snd v) = None"
    by (auto simp: list_datanode_def comp_def)
  ultimately show "(\<forall>v\<in>set (dn_calls list_datanode ''.'' n). snd (snd v) = None) \<and>
      distinct (map fst (dn_calls list_datanode ''.'' n)) \<and>
      {p. \<exists>e. (p, e, None) \<in> set (dn_calls list_datanode ''.'' n) \<and> \<not> de_isDir e} = {q. has_key (fmap_of_list n) q}"
    by auto
next
  fix n t assume "dn_ToTar list_datanode n = Inr t"
  then show "\<exists>n'. dn_FromTar list_datanode t = Inr n' \<and> fmap_of_list n' = fmap_of_list n"
    using archive_list_archive [OF length_list_archive] by (auto simp: list_datanode_def)
qed (auto simp: list_datanode_def below_some_list list_open_def fmlookup_of_list update_conv has_key_def
    datanode_dirInfo_def list_stat_def intro!: fmap_eqI split: if_splits option.splits sum.splits)

lemmas list_datanode_ok = list_dn.datanode_library_axioms

definition sample_datanode :: "(string \<times> string) list datanode_medium" where
  "sample_datanode = snd (Datanode_EnsureDir go_core ''e'' (snd (Datanode_Write go_core list_datanode ''a/b/f'' ''x''
     (snd (Datanode_Write go_core list_datanode ''/c'' ''y'' (Datanode_New list_datanode))))))"

lemma sample_datanode_eq:
  "dm_dataNode sample_datanode = [(''c'', ''y''), (''a/b/f'', ''x'')]"
  "fmlookup (directorySet sample_datanode) ''e'' = Some True"
  by code_simp+

lemma sample_datanode_files:
  "fmap_of_list (dm_dataNode sample_datanode) = fmap_of_list [(''c'', ''y''), (''a/b/f'', ''x'')]"
  by (simp add: sample_datanode_eq)

lemma sample_datanode_ok: "names_ok (fmap_of_list (dm_dataNode sample_datanode))"
proof -
  have "norm_path ''c''" "norm_path ''a/b/f''" by code_simp+
  then show ?thesis by (auto simp: sample_datanode_files names_ok_def has_key_def fmlookup_of_list split: if_splits)
qed

theorem datanode_returns_witness:
  "fst (Datanode_Write go_core list_datanode ''//x'' ''c'' (Datanode_New list_datanode)) = Some Diverges \<and>
   fst (Datanode_EnsureDir go_core ''/x'' (Datanode_New list_datanode)) \<noteq> Some Diverges"
proof -
  have "prefix ''//'' ''//x''" "\<not> prefix ''//'' ''/x''" by simp_all
  then show ?thesis using datanode_returns [OF go_core_ok] by blast
qed

theorem datanode_DeleteAll_witness:
  "\<exists>m. Datanode_DeleteAll go_core list_datanode ''a'' sample_datanode = (None, m) \<and>
     fmap_of_list (dm_dataNode m) = fmfilter (\<lambda>q. \<not> at_or_below ''a'' q) (fmap_of_list (dm_dataNode sample_datanode))"
proof -
  have n: "norm_path ''a''" by code_simp
  have "at_or_below ''a'' ''a/b/f''" by (simp add: at_or_below_def)
  moreover have "has_key (fmap_of_list (dm_dataNode sample_datanode)) ''a/b/f''"
    by (simp add: sample_datanode_files has_key_def fmlookup_of_list)
  ultimately have "\<exists>q. at_or_below ''a'' q \<and> (has_key (fmap_of_list (dm_dataNode sample_datanode)) q
      \<or> has_key (directorySet sample_datanode) q)" by blast
  then show ?thesis
    using datanode_DeleteAll [OF go_core_ok list_datanode_ok sample_datanode_ok n] by auto
qed

theorem datanode_Write_Read_witness:
  "\<exists>m. Datanode_Write go_core list_datanode ''/d//f'' ''z'' sample_datanode = (None, m) \<and>
     Datanode_Read go_core list_datanode ''d/./f'' m = Inr ''z'' \<and> Datanode_Read go_core list_datanode ''a/b/f'' m = Inr ''x''"
proof -
  have n: "norm_path (normaliseEntryPath go_core ''/d//f'')"
    "normaliseEntryPath go_core ''d/./f'' = normaliseEntryPath go_core ''/d//f''"
    "normaliseEntryPath go_core ''a/b/f'' \<noteq> normaliseEntryPath go_core ''/d//f''" by code_simp+
  have r: "Datanode_Read go_core list_datanode ''a/b/f'' sample_datanode = Inr ''x''" by code_simp
  have s: "\<not> prefix ''//'' ''d/./f''" "\<not> prefix ''//'' ''a/b/f''" by simp_all
  obtain m where m: "Datanode_Write go_core list_datanode ''/d//f'' ''z'' sample_datanode = (None, m)"
    and rd: "\<forall>q d. \<not> prefix ''//'' q \<longrightarrow> Datanode_Read go_core list_datanode q m = Inr d \<longleftrightarrow>
      (if normaliseEntryPath go_core q = normaliseEntryPath go_core ''/d//f'' then d = ''z''
       else Datanode_Read go_core list_datanode q sample_datanode = Inr d)"
    using datanode_Write_Read [OF go_core_ok list_datanode_ok n(1), of "''z''" sample_datanode] by blast
  from m rd [rule_format, OF s(1), of "''z''"] rd [rule_format, OF s(2), of "''x''"] show ?thesis
    unfolding if_P [OF n(2)] if_not_P [OF n(3)] using r by blast
qed

theorem datanode_snapshot_witness:
  "\<exists>t m. Snapshot list_datanode sample_datanode = Inr t \<and> Datanode_FromTar go_core list_datanode t = Inr m \<and>
     Datanode_Read go_core list_datanode ''a/b/f'' m = Inr ''x'' \<and> \<not> has_key (directorySet m) ''e''"
proof -
  obtain t where t: "Snapshot list_datanode sample_datanode = Inr t"
    by (simp add: Snapshot_def list_datanode_def)
  obtain m where m: "Datanode_FromTar go_core list_datanode t = Inr m"
    "\<forall>p d. \<not> prefix ''//'' p \<longrightarrow> Datanode_Read go_core list_datanode p m = Inr d \<longleftrightarrow> Datanode_Read go_core list_datanode p sample_datanode = Inr d"
    "\<forall>d. has_key (directorySet m) d \<longleftrightarrow>
      (\<exists>q. has_key (fmap_of_list (dm_dataNode sample_datanode)) q \<and> d \<in> set (parents (path_dir q)))"
    using datanode_snapshot [OF go_core_ok list_datanode_ok sample_datanode_ok t] by blast
  have "parents (path_dir ''c'') = []" "parents (path_dir ''a/b/f'') = [''a/b'', ''a'']" by code_simp+
  moreover have "has_key (fmap_of_list (dm_dataNode sample_datanode)) q \<Longrightarrow> q = ''c'' \<or> q = ''a/b/f''" for q
    by (auto simp: sample_datanode_files has_key_def fmlookup_of_list split: if_splits)
  ultimately have "\<not> has_key (directorySet m) ''e''" unfolding m(3) [rule_format] by fastforce
  moreover have "Datanode_Read go_core list_datanode ''a/b/f'' sample_datanode = Inr ''x''" by code_simp
  moreover have "\<not> prefix ''//'' ''a/b/f''" by simp
  ultimately show ?thesis using t m(1) m(2) [rule_format, of "''a/b/f''" "''x''"] by blast
qed

theorem datanode_Rename_directory_witness:
  "(\<exists>m. Datanode_Rename go_core list_datanode ''a'' ''z'' sample_datanode = (None, m) \<and>
     fmlookup (fmap_of_list (dm_dataNode m)) ''z/b/f'' = Some ''x'') \<and>
   Datanode_Exists go_core list_datanode ''e'' sample_datanode \<and>
   Datanode_Rename go_core list_datanode ''e'' ''z'' sample_datanode =
     (Some (CoreE ''datanode.Rename'' [''not found: '', ''e''] (Some ErrNotExist)), sample_datanode)"
proof -
  let ?F = "fmap_of_list (dm_dataNode sample_datanode)"
  have n: "norm_path ''a''" "norm_path ''e''" "norm_path ''z''" by code_simp+
  have par: "(''a'' @ ''/'') \<parallel> (''z'' @ ''/'')" "(''e'' @ ''/'') \<parallel> (''z'' @ ''/'')" by (simp_all add: parallel_def)
  have keys: "has_key ?F q \<longleftrightarrow> q = ''c'' \<or> q = ''a/b/f''" for q
    by (auto simp: sample_datanode_files has_key_def fmlookup_of_list split: if_splits)
  have a: "\<not> has_key ?F ''a''" "below_some ?F ''a''" by (auto simp: keys below_some_def)
  have e: "\<not> has_key ?F ''e''" "\<not> below_some ?F ''e''" by (auto simp: keys below_some_def)
  have "relocate ''a/'' ''z/'' ?F ''z/b/f'' = Some ''x''"
    by (simp add: relocate_def keys) (simp add: sample_datanode_files fmlookup_of_list)
  moreover have "Datanode_Exists go_core list_datanode ''e'' sample_datanode" by code_simp
  ultimately show ?thesis
    using datanode_Rename_directory [OF go_core_ok list_datanode_ok sample_datanode_ok n(1,3) par(1) a(1)] a(2)
      datanode_Rename_directory [OF go_core_ok list_datanode_ok sample_datanode_ok n(2,3) par(2) e(1)] e(2)
    by auto
qed

end
