(* ===== verification/Sqlite.thy ===== *)
theory Sqlite
  imports Store Listing
begin

text \<open>
  Package \<open>sqlite\<close>: the medium of \<open>go/sqlite/sqlite.go\<close>, which keeps every file and every
  directory as a row of one table.  The database is not part of the repository: the record
  \<open>sqlite_db\<close> holds one function per statement the code runs, on a state \<open>'d\<close> of the database
  and a state \<open>'t\<close> of an open transaction.  The first argument of a statement is the name of the
  table, which the code splices into the text of the statement.
\<close>

subsection \<open>The database\<close>

text \<open>The columns of a row beside its path: content, mode, \<open>is_dir\<close> and mtime.\<close>

type_synonym cols = "string \<times> int \<times> bool \<times> gotime"

record sqlite_row =
  sr_path :: string
  sr_content :: string
  sr_mode :: int
  sr_isDir :: bool
  sr_mtime :: gotime

record ('d, 't) sqlite_db =
  q_open :: "string \<Rightarrow> 'd res"
  q_wal :: "'d \<Rightarrow> gerr option \<times> 'd"
  q_create :: "string \<Rightarrow> 'd \<Rightarrow> gerr option \<times> 'd"
  q_close :: "'d \<Rightarrow> gerr option \<times> 'd"
  q_content :: "string \<Rightarrow> string \<Rightarrow> 'd \<Rightarrow> (string \<times> bool) res"
  q_is_dir :: "string \<Rightarrow> string \<Rightarrow> 'd \<Rightarrow> bool res"
  q_row :: "string \<Rightarrow> string \<Rightarrow> 'd \<Rightarrow> cols res"
  q_file_content :: "string \<Rightarrow> string \<Rightarrow> 'd \<Rightarrow> string res"
  q_count :: "string \<Rightarrow> string \<Rightarrow> 'd \<Rightarrow> nat res"
  q_count_like :: "string \<Rightarrow> string \<Rightarrow> string \<Rightarrow> 'd \<Rightarrow> nat res"
  q_rows_like :: "string \<Rightarrow> string \<Rightarrow> 'd \<Rightarrow> sqlite_row rows"
  q_write :: "string \<Rightarrow> string \<Rightarrow> string \<Rightarrow> int \<Rightarrow> gotime \<Rightarrow> 'd \<Rightarrow> gerr option \<times> 'd"
  q_mkdir :: "string \<Rightarrow> string \<Rightarrow> gotime \<Rightarrow> 'd \<Rightarrow> gerr option \<times> 'd"
  q_delete :: "string \<Rightarrow> string \<Rightarrow> 'd \<Rightarrow> nat res \<times> 'd"
  q_delete_all :: "string \<Rightarrow> string \<Rightarrow> string \<Rightarrow> 'd \<Rightarrow> nat res \<times> 'd"
  q_begin :: "'d \<Rightarrow> 't res \<times> 'd"
  q_commit :: "'t \<Rightarrow> 'd \<Rightarrow> gerr option \<times> 'd"
  q_rollback :: "'t \<Rightarrow> 'd \<Rightarrow> gerr option \<times> 'd"
  tx_row :: "string \<Rightarrow> string \<Rightarrow> 't \<Rightarrow> cols res"
  tx_rows_like :: "string \<Rightarrow> string \<Rightarrow> 't \<Rightarrow> sqlite_row rows"
  tx_upsert :: "string \<Rightarrow> sqlite_row \<Rightarrow> 't \<Rightarrow> gerr option \<times> 't"
  tx_delete :: "string \<Rightarrow> string \<Rightarrow> 't \<Rightarrow> gerr option \<times> 't"
  tx_delete_like :: "string \<Rightarrow> string \<Rightarrow> 't \<Rightarrow> gerr option \<times> 't"

text \<open>
  \<open>q_delete\<close> and \<open>q_delete_all\<close> return the number \<open>RowsAffected\<close> reads from their result, whose
  error the code ignores.  The state of the medium is its database with the name of its table.
\<close>

record 'd sqlite_medium =
  sq_database :: 'd
  sq_table :: string

definition on_db :: "(string \<Rightarrow> 'd \<Rightarrow> 'a \<times> 'd) \<Rightarrow> 'd sqlite_medium \<Rightarrow> 'a \<times> 'd sqlite_medium" where
  "on_db f m = (case f (sq_table m) (sq_database m) of (r, d) \<Rightarrow> (r, m\<lparr>sq_database := d\<rparr>))"

definition wrap_exec :: "string \<Rightarrow> string list \<Rightarrow> gerr option \<times> 's \<Rightarrow> gerr option \<times> 's" where
  "wrap_exec op parts r =
     (case r of (Some err, s) \<Rightarrow> (Some (CoreE op parts (Some err)), s) | (None, s) \<Rightarrow> (None, s))"

subsection \<open>Opening\<close>

record sqlite_options =
  so_Path :: string
  so_Table :: string

definition normaliseTableName :: "string \<Rightarrow> string" where
  "normaliseTableName tbl = (if tbl = '''' then ''files'' else tbl)"

definition is_letter :: "char \<Rightarrow> bool" where
  "is_letter ch \<longleftrightarrow> (CHR ''a'' \<le> ch \<and> ch \<le> CHR ''z'') \<or> (CHR ''A'' \<le> ch \<and> ch \<le> CHR ''Z'') \<or> ch = CHR ''_''"

definition is_digit :: "char \<Rightarrow> bool" where
  "is_digit ch \<longleftrightarrow> CHR ''0'' \<le> ch \<and> ch \<le> CHR ''9''"

text \<open>
  The loop over the runes of the name, from index \<open>i\<close>.  A rune of more than one byte, or an
  invalid byte, is neither a letter nor a digit, and neither is its first byte.
\<close>

fun name_loop :: "nat \<Rightarrow> string \<Rightarrow> bool" where
  "name_loop i [] \<longleftrightarrow> True"
| "name_loop i (ch # rest) \<longleftrightarrow>
     (if is_letter ch then name_loop (i + 1) rest
      else if is_digit ch then (if i = 0 then False else name_loop (i + 1) rest)
      else False)"

definition isValidTableName :: "string \<Rightarrow> bool" where
  "isValidTableName name \<longleftrightarrow> (if name = '''' then False else name_loop 0 name)"

definition Sqlite_New :: "('d, 't) sqlite_db \<Rightarrow> sqlite_options \<Rightarrow> 'd sqlite_medium res" where
  "Sqlite_New D options =
     (if so_Path options = ''''
      then Inl (CoreE ''sqlite.New'' [''database path is required''] (Some ErrInvalid))
      else let tableName = normaliseTableName (so_Table options)
           in if \<not> isValidTableName tableName
              then Inl (CoreE ''sqlite.New'' [''table name contains invalid characters: '', tableName] (Some ErrInvalid))
              else case q_open D (so_Path options) of
                  Inl err \<Rightarrow> Inl (CoreE ''sqlite.New'' [''failed to open database''] (Some err))
                | Inr d \<Rightarrow>
                    (case q_wal D d of
                       (Some err, d) \<Rightarrow> Inl (CoreE ''sqlite.New'' [''failed to set WAL mode''] (Some err))
                     | (None, d) \<Rightarrow>
                         (case q_create D tableName d of
                            (Some err, d) \<Rightarrow> Inl (CoreE ''sqlite.New'' [''failed to create table''] (Some err))
                          | (None, d) \<Rightarrow> Inr \<lparr>sq_database = d, sq_table = tableName\<rparr>)))"

definition Sqlite_Close :: "('d, 't) sqlite_db \<Rightarrow> 'd sqlite_medium \<Rightarrow> gerr option \<times> 'd sqlite_medium" where
  "Sqlite_Close D m = on_db (\<lambda>_. q_close D) m"

subsection \<open>Reading and writing\<close>

definition entryKey :: "go_env \<Rightarrow> string \<Rightarrow> string" where
  "entryKey E filePath =
     (let clean = CleanPath E (''/'' @ filePath) ''/''
      in if clean = ''/'' then '''' else TrimPrefix E clean ''/'')"

definition msgSQLitePathRequired :: string where "msgSQLitePathRequired = ''path is required''"
definition msgSQLiteFileNotFound :: string where "msgSQLiteFileNotFound = ''file not found: ''"
definition msgSQLiteQueryFailed :: string where "msgSQLiteQueryFailed = ''query failed: ''"
definition msgSQLitePathIsDir :: string where "msgSQLitePathIsDir = ''path is a directory: ''"
definition msgSQLitePathNotFound :: string where "msgSQLitePathNotFound = ''path not found: ''"

definition Sqlite_Read :: "go_env \<Rightarrow> ('d, 't) sqlite_db \<Rightarrow> string \<Rightarrow> 'd sqlite_medium \<Rightarrow> string res" where
  "Sqlite_Read E D filePath m =
     (let key = entryKey E filePath; op = ''sqlite.Read''
      in if key = '''' then Inl (CoreE op [msgSQLitePathRequired] (Some ErrInvalid))
         else case q_content D (sq_table m) key (sq_database m) of
             Inl err \<Rightarrow>
               (if err = ErrNoRows then Inl (CoreE op [msgSQLiteFileNotFound, key] (Some ErrNotExist))
                else Inl (CoreE op [msgSQLiteQueryFailed, key] (Some err)))
           | Inr (content, isDir) \<Rightarrow>
               (if isDir then Inl (CoreE op [msgSQLitePathIsDir, key] (Some ErrInvalid))
                else Inr content))"

definition Sqlite_WriteMode ::
  "go_env \<Rightarrow> ('d, 't) sqlite_db \<Rightarrow> gotime \<Rightarrow> string \<Rightarrow> string \<Rightarrow> file_mode \<Rightarrow> 'd sqlite_medium
     \<Rightarrow> gerr option \<times> 'd sqlite_medium" where
  "Sqlite_WriteMode E D now filePath content mode m =
     (let key = entryKey E filePath
      in if key = '''' then (Some (CoreE ''sqlite.WriteMode'' [msgSQLitePathRequired] (Some ErrInvalid)), m)
         else wrap_exec ''sqlite.WriteMode'' [''insert failed: '', key]
                (on_db (\<lambda>tbl. q_write D tbl key content (uint mode) now) m))"

definition Sqlite_Write ::
  "go_env \<Rightarrow> ('d, 't) sqlite_db \<Rightarrow> gotime \<Rightarrow> string \<Rightarrow> string \<Rightarrow> 'd sqlite_medium
     \<Rightarrow> gerr option \<times> 'd sqlite_medium" where
  "Sqlite_Write E D now filePath content m = Sqlite_WriteMode E D now filePath content 420 m"

definition Sqlite_EnsureDir ::
  "go_env \<Rightarrow> ('d, 't) sqlite_db \<Rightarrow> gotime \<Rightarrow> string \<Rightarrow> 'd sqlite_medium \<Rightarrow> gerr option \<times> 'd sqlite_medium" where
  "Sqlite_EnsureDir E D now filePath m =
     (let key = entryKey E filePath
      in if key = '''' then (None, m)
         else wrap_exec ''sqlite.EnsureDir'' [''insert failed: '', key]
                (on_db (\<lambda>tbl. q_mkdir D tbl key now) m))"

definition Sqlite_IsFile :: "go_env \<Rightarrow> ('d, 't) sqlite_db \<Rightarrow> string \<Rightarrow> 'd sqlite_medium \<Rightarrow> bool" where
  "Sqlite_IsFile E D filePath m =
     (let key = entryKey E filePath
      in if key = '''' then False
         else case q_is_dir D (sq_table m) key (sq_database m) of Inl _ \<Rightarrow> False | Inr isDir \<Rightarrow> \<not> isDir)"

subsection \<open>Deleting\<close>

text \<open>The statement \<open>DELETE\<close> with the errors made of its outcome.\<close>

definition deleted :: "string \<Rightarrow> string \<Rightarrow> nat res \<times> 's \<Rightarrow> gerr option \<times> 's" where
  "deleted op key r =
     (case r of
        (Inl err, s) \<Rightarrow> (Some (CoreE op [''delete failed: '', key] (Some err)), s)
      | (Inr rowsAffected, s) \<Rightarrow>
          (if rowsAffected = 0 then (Some (CoreE op [msgSQLitePathNotFound, key] (Some ErrNotExist)), s)
           else (None, s)))"

definition Sqlite_Delete ::
  "go_env \<Rightarrow> ('d, 't) sqlite_db \<Rightarrow> string \<Rightarrow> 'd sqlite_medium \<Rightarrow> gerr option \<times> 'd sqlite_medium" where
  "Sqlite_Delete E D filePath m =
     (let key = entryKey E filePath; op = ''sqlite.Delete'';
          remove = deleted op key (on_db (\<lambda>tbl. q_delete D tbl key) m)
      in if key = '''' then (Some (CoreE op [msgSQLitePathRequired] (Some ErrInvalid)), m)
         else case q_is_dir D (sq_table m) key (sq_database m) of
             Inl err \<Rightarrow>
               (if err = ErrNoRows then (Some (CoreE op [msgSQLitePathNotFound, key] (Some ErrNotExist)), m)
                else (Some (CoreE op [msgSQLiteQueryFailed, key] (Some err)), m))
           | Inr isDir \<Rightarrow>
               (if isDir then
                  (case q_count_like D (sq_table m) (key @ ''/'' @ ''%'') key (sq_database m) of
                     Inl err \<Rightarrow> (Some (CoreE op [''count failed: '', key] (Some err)), m)
                   | Inr n \<Rightarrow>
                       (if n > 0 then (Some (CoreE op [''directory not empty: '', key] (Some ErrExist)), m)
                        else remove))
                else remove))"

definition Sqlite_DeleteAll ::
  "go_env \<Rightarrow> ('d, 't) sqlite_db \<Rightarrow> string \<Rightarrow> 'd sqlite_medium \<Rightarrow> gerr option \<times> 'd sqlite_medium" where
  "Sqlite_DeleteAll E D filePath m =
     (let key = entryKey E filePath; op = ''sqlite.DeleteAll''
      in if key = '''' then (Some (CoreE op [msgSQLitePathRequired] (Some ErrInvalid)), m)
         else deleted op key (on_db (\<lambda>tbl. q_delete_all D tbl key (key @ ''/'' @ ''%'')) m))"

text \<open>The structs \<open>fileInfo\<close> and \<open>dirEntry\<close> with their methods.\<close>

definition sqliteFileInfo :: "string \<Rightarrow> int \<Rightarrow> file_mode \<Rightarrow> gotime \<Rightarrow> bool \<Rightarrow> file_info" where
  [simp]: "sqliteFileInfo = NewFileInfo"

definition sqliteDirEntry :: "string \<Rightarrow> bool \<Rightarrow> file_mode \<Rightarrow> file_info \<Rightarrow> dir_entry" where
  [simp]: "sqliteDirEntry = NewDirEntry"

subsection \<open>Reading rows\<close>

text \<open>The loop \<open>for rows.Next()\<close> with its \<open>Scan\<close>, and the errors checked around it.\<close>

fun row_loop :: "string \<Rightarrow> string \<Rightarrow> ('r \<Rightarrow> 'b \<Rightarrow> 'b) \<Rightarrow> 'r res list \<Rightarrow> 'b \<Rightarrow> 'b res" where
  "row_loop op scan_msg f [] acc = Inr acc"
| "row_loop op scan_msg f (Inl err # rs) acc = Inl (CoreE op [scan_msg] (Some err))"
| "row_loop op scan_msg f (Inr r # rs) acc = row_loop op scan_msg f rs (f r acc)"

definition read_rows ::
  "string \<Rightarrow> string \<Rightarrow> string \<Rightarrow> string \<Rightarrow> ('r \<Rightarrow> 'b \<Rightarrow> 'b) \<Rightarrow> 'r rows \<Rightarrow> 'b \<Rightarrow> 'b res" where
  "read_rows op query_msg scan_msg rows_msg f q acc =
     (case q of
        Inl err \<Rightarrow> Inl (CoreE op [query_msg] (Some err))
      | Inr (rs, rows_err) \<Rightarrow>
          (case row_loop op scan_msg f rs acc of
             Inl err \<Rightarrow> Inl err
           | Inr result \<Rightarrow>
               (case rows_err of
                  Some err \<Rightarrow> Inl (CoreE op [rows_msg] (Some err))
                | None \<Rightarrow> Inr result)))"

subsection \<open>Renaming\<close>

definition renameSource :: "('d, 't) sqlite_db \<Rightarrow> string \<Rightarrow> string \<Rightarrow> 't \<Rightarrow> sqlite_row res" where
  "renameSource D tbl oldKey tx =
     (case tx_row D tbl oldKey tx of
        Inl err \<Rightarrow>
          (if err = ErrNoRows then Inl (CoreE ''sqlite.Rename'' [''source not found: '', oldKey] (Some ErrNotExist))
           else Inl (CoreE ''sqlite.Rename'' [msgSQLiteQueryFailed, oldKey] (Some err)))
      | Inr (content, mode, isDir, mtime) \<Rightarrow>
          Inr \<lparr>sr_path = oldKey, sr_content = content, sr_mode = mode, sr_isDir = isDir, sr_mtime = mtime\<rparr>)"

definition upsertEntry :: "('d, 't) sqlite_db \<Rightarrow> string \<Rightarrow> sqlite_row \<Rightarrow> 't \<Rightarrow> gerr option \<times> 't" where
  "upsertEntry D tbl entry tx = tx_upsert D tbl entry tx"

definition childrenWithPrefix :: "('d, 't) sqlite_db \<Rightarrow> string \<Rightarrow> string \<Rightarrow> 't \<Rightarrow> sqlite_row list res" where
  "childrenWithPrefix D tbl oldPrefix tx =
     read_rows ''sqlite.Rename'' ''query children failed'' ''scan child failed'' ''child rows''
       (\<lambda>childEntry children. children @ [childEntry]) (tx_rows_like D tbl (oldPrefix @ ''%'') tx) []"

definition moved_child :: "go_env \<Rightarrow> string \<Rightarrow> string \<Rightarrow> sqlite_row \<Rightarrow> sqlite_row" where
  "moved_child E oldPrefix newPrefix childEntry =
     childEntry\<lparr>sr_path := Concat E [newPrefix, TrimPrefix E (sr_path childEntry) oldPrefix]\<rparr>"

definition renameChildren ::
  "go_env \<Rightarrow> ('d, 't) sqlite_db \<Rightarrow> string \<Rightarrow> string \<Rightarrow> string \<Rightarrow> 't \<Rightarrow> gerr option \<times> 't" where
  "renameChildren E D tbl oldKey newKey tx =
     (let oldPrefix = oldKey @ ''/''; newPrefix = newKey @ ''/''
      in case childrenWithPrefix D tbl oldPrefix tx of
           Inl err \<Rightarrow> (Some err, tx)
         | Inr children \<Rightarrow>
             (case each (\<lambda>childEntry tx.
                       wrap_exec ''sqlite.Rename'' [''insert child failed'']
                         (upsertEntry D tbl (moved_child E oldPrefix newPrefix childEntry) tx))
                     children tx of
                (Some err, tx) \<Rightarrow> (Some err, tx)
              | (None, tx) \<Rightarrow>
                  wrap_exec ''sqlite.Rename'' [''delete old children failed'']
                    (tx_delete_like D tbl (oldPrefix @ ''%'') tx)))"

text \<open>The statements of \<open>Rename\<close> between the beginning and the end of its transaction.\<close>

definition rename_entry ::
  "go_env \<Rightarrow> ('d, 't) sqlite_db \<Rightarrow> string \<Rightarrow> string \<Rightarrow> string \<Rightarrow> 't \<Rightarrow> gerr option \<times> 't" where
  "rename_entry E D tbl oldKey newKey tx =
     (case renameSource D tbl oldKey tx of
        Inl err \<Rightarrow> (Some err, tx)
      | Inr source \<Rightarrow>
          (case wrap_exec ''sqlite.Rename'' [''insert at new path failed: '', newKey]
                  (upsertEntry D tbl (source\<lparr>sr_path := newKey\<rparr>) tx) of
             (Some err, tx) \<Rightarrow> (Some err, tx)
           | (None, tx) \<Rightarrow>
               (case wrap_exec ''sqlite.Rename'' [''delete old path failed: '', oldKey]
                       (tx_delete D tbl oldKey tx) of
                  (Some err, tx) \<Rightarrow> (Some err, tx)
                | (None, tx) \<Rightarrow>
                    (if sr_isDir source then renameChildren E D tbl oldKey newKey tx else (None, tx)))))"

text \<open>
  The deferred function rolls the transaction back unless it was committed, also after a
  commit that failed; the error of the rollback is only logged.
\<close>

definition Sqlite_Rename ::
  "go_env \<Rightarrow> ('d, 't) sqlite_db \<Rightarrow> string \<Rightarrow> string \<Rightarrow> 'd sqlite_medium \<Rightarrow> gerr option \<times> 'd sqlite_medium" where
  "Sqlite_Rename E D oldPath newPath m =
     (let oldKey = entryKey E oldPath; newKey = entryKey E newPath
      in if oldKey = '''' \<or> newKey = ''''
         then (Some (CoreE ''sqlite.Rename'' [''both old and new paths are required''] (Some ErrInvalid)), m)
         else case q_begin D (sq_database m) of
             (Inl err, d) \<Rightarrow>
               (Some (CoreE ''sqlite.Rename'' [''begin tx failed''] (Some err)), m\<lparr>sq_database := d\<rparr>)
           | (Inr tx, d) \<Rightarrow>
               (case rename_entry E D (sq_table m) oldKey newKey tx of
                  (Some err, tx) \<Rightarrow> (Some err, m\<lparr>sq_database := snd (q_rollback D tx d)\<rparr>)
                | (None, tx) \<Rightarrow>
                    (case q_commit D tx d of
                       (Some err, d) \<Rightarrow> (Some err, m\<lparr>sq_database := snd (q_rollback D tx d)\<rparr>)
                     | (None, d) \<Rightarrow> (None, m\<lparr>sq_database := d\<rparr>))))"

subsection \<open>Listing\<close>

definition appendSQLiteDirEntry :: "string \<Rightarrow> listing \<Rightarrow> listing" where
  "appendSQLiteDirEntry name =
     add_entry name (sqliteDirEntry name True (ModeDir OR 493) (sqliteFileInfo name 0 (ModeDir OR 493) zero_time True))"

definition sqlite_entry :: "string \<Rightarrow> string \<Rightarrow> int \<Rightarrow> bool \<Rightarrow> gotime \<Rightarrow> dir_entry" where
  "sqlite_entry name content mode isDir mtime =
     sqliteDirEntry name isDir (word_of_int mode)
       (sqliteFileInfo name (int (length content)) (word_of_int mode) mtime isDir)"

definition appendSQLiteListEntry :: "go_env \<Rightarrow> string \<Rightarrow> sqlite_row \<Rightarrow> listing \<Rightarrow> listing" where
  "appendSQLiteListEntry E pre r acc =
     (let rest = TrimPrefix E (sr_path r) pre
      in if rest = '''' then acc
         else case SplitN E rest ''/'' 2 of
             [part0, part1] \<Rightarrow> appendSQLiteDirEntry part0 acc
           | _ \<Rightarrow> add_entry rest (sqlite_entry rest (sr_content r) (sr_mode r) (sr_isDir r) (sr_mtime r)) acc)"

definition Sqlite_List ::
  "go_env \<Rightarrow> ('d, 't) sqlite_db \<Rightarrow> string \<Rightarrow> 'd sqlite_medium \<Rightarrow> dir_entry list res" where
  "Sqlite_List E D filePath m =
     (let key = entryKey E filePath;
          pre = (if key \<noteq> '''' then key @ ''/'' else key)
      in case read_rows ''sqlite.List'' ''query failed'' ''scan failed'' ''rows''
                (appendSQLiteListEntry E pre)
                (q_rows_like D (sq_table m) (pre @ ''%'') (sq_database m)) ({}, []) of
           Inl err \<Rightarrow> Inl err
         | Inr (seen, entries) \<Rightarrow> Inr entries)"

subsection \<open>Metadata and streams\<close>

definition Sqlite_Stat ::
  "go_env \<Rightarrow> ('d, 't) sqlite_db \<Rightarrow> string \<Rightarrow> 'd sqlite_medium \<Rightarrow> file_info res" where
  "Sqlite_Stat E D filePath m =
     (let key = entryKey E filePath; op = ''sqlite.Stat''
      in if key = '''' then Inl (CoreE op [msgSQLitePathRequired] (Some ErrInvalid))
         else case q_row D (sq_table m) key (sq_database m) of
             Inl err \<Rightarrow>
               (if err = ErrNoRows then Inl (CoreE op [msgSQLitePathNotFound, key] (Some ErrNotExist))
                else Inl (CoreE op [msgSQLiteQueryFailed, key] (Some err)))
           | Inr (content, mode, isDir, mtime) \<Rightarrow>
               Inr (sqliteFileInfo (PathBase E key) (int (length content)) (word_of_int mode) mtime isDir))"

record sqlite_file =
  sf_name :: string
  sf_content :: string
  sf_offset :: nat
  sf_mode :: file_mode
  sf_modTime :: gotime

definition Sqlite_Open ::
  "go_env \<Rightarrow> ('d, 't) sqlite_db \<Rightarrow> string \<Rightarrow> 'd sqlite_medium \<Rightarrow> sqlite_file res" where
  "Sqlite_Open E D filePath m =
     (let key = entryKey E filePath; op = ''sqlite.Open''
      in if key = '''' then Inl (CoreE op [msgSQLitePathRequired] (Some ErrInvalid))
         else case q_row D (sq_table m) key (sq_database m) of
             Inl err \<Rightarrow>
               (if err = ErrNoRows then Inl (CoreE op [msgSQLiteFileNotFound, key] (Some ErrNotExist))
                else Inl (CoreE op [msgSQLiteQueryFailed, key] (Some err)))
           | Inr (content, mode, isDir, mtime) \<Rightarrow>
               (if isDir then Inl (CoreE op [msgSQLitePathIsDir, key] (Some ErrInvalid))
                else Inr \<lparr>sf_name = PathBase E key, sf_content = content, sf_offset = 0,
                       sf_mode = word_of_int mode, sf_modTime = mtime\<rparr>))"

record sqlite_writer =
  qw_path :: string
  qw_data :: string
  qw_mode :: file_mode

definition Sqlite_Create :: "go_env \<Rightarrow> string \<Rightarrow> 'd sqlite_medium \<Rightarrow> sqlite_writer res" where
  "Sqlite_Create E filePath m =
     (let key = entryKey E filePath
      in if key = '''' then Inl (CoreE ''sqlite.Create'' [msgSQLitePathRequired] (Some ErrInvalid))
         else Inr \<lparr>qw_path = key, qw_data = '''', qw_mode = 0\<rparr>)"

definition Sqlite_Append ::
  "go_env \<Rightarrow> ('d, 't) sqlite_db \<Rightarrow> string \<Rightarrow> 'd sqlite_medium \<Rightarrow> sqlite_writer res" where
  "Sqlite_Append E D filePath m =
     (let key = entryKey E filePath
      in if key = '''' then Inl (CoreE ''sqlite.Append'' [msgSQLitePathRequired] (Some ErrInvalid))
         else case q_file_content D (sq_table m) key (sq_database m) of
             Inl err \<Rightarrow>
               (if err \<noteq> ErrNoRows then Inl (CoreE ''sqlite.Append'' [msgSQLiteQueryFailed, key] (Some err))
                else Inr \<lparr>qw_path = key, qw_data = '''', qw_mode = 0\<rparr>)
           | Inr existing \<Rightarrow> Inr \<lparr>qw_path = key, qw_data = existing, qw_mode = 0\<rparr>)"

definition Sqlite_ReadStream ::
  "go_env \<Rightarrow> ('d, 't) sqlite_db \<Rightarrow> string \<Rightarrow> 'd sqlite_medium \<Rightarrow> sqlite_file res" where
  "Sqlite_ReadStream E D filePath m =
     (let key = entryKey E filePath; op = ''sqlite.ReadStream''
      in if key = '''' then Inl (CoreE op [msgSQLitePathRequired] (Some ErrInvalid))
         else case q_content D (sq_table m) key (sq_database m) of
             Inl err \<Rightarrow>
               (if err = ErrNoRows then Inl (CoreE op [msgSQLiteFileNotFound, key] (Some ErrNotExist))
                else Inl (CoreE op [msgSQLiteQueryFailed, key] (Some err)))
           | Inr (content, isDir) \<Rightarrow>
               (if isDir then Inl (CoreE op [msgSQLitePathIsDir, key] (Some ErrInvalid))
                else Inr \<lparr>sf_name = PathBase E key, sf_content = content, sf_offset = 0,
                       sf_mode = 0, sf_modTime = zero_time\<rparr>))"

definition Sqlite_WriteStream :: "go_env \<Rightarrow> string \<Rightarrow> 'd sqlite_medium \<Rightarrow> sqlite_writer res" where
  "Sqlite_WriteStream E filePath m = Sqlite_Create E filePath m"

definition Sqlite_Exists :: "go_env \<Rightarrow> ('d, 't) sqlite_db \<Rightarrow> string \<Rightarrow> 'd sqlite_medium \<Rightarrow> bool" where
  "Sqlite_Exists E D filePath m =
     (let key = entryKey E filePath
      in if key = '''' then True
         else case q_count D (sq_table m) key (sq_database m) of Inl _ \<Rightarrow> False | Inr n \<Rightarrow> n > 0)"

definition Sqlite_IsDir :: "go_env \<Rightarrow> ('d, 't) sqlite_db \<Rightarrow> string \<Rightarrow> 'd sqlite_medium \<Rightarrow> bool" where
  "Sqlite_IsDir E D filePath m =
     (let key = entryKey E filePath
      in if key = '''' then False
         else case q_is_dir D (sq_table m) key (sq_database m) of Inl _ \<Rightarrow> False | Inr isDir \<Rightarrow> isDir)"

definition sqliteFile_Stat :: "sqlite_file \<Rightarrow> file_info res" where
  "sqliteFile_Stat file =
     Inr (sqliteFileInfo (sf_name file) (int (length (sf_content file))) (sf_mode file) (sf_modTime file) False)"

definition sqliteFile_Read :: "nat \<Rightarrow> sqlite_file \<Rightarrow> string res \<times> sqlite_file" where
  "sqliteFile_Read n file =
     (if sf_offset file \<ge> length (sf_content file) then (Inl ErrEOF, file)
      else let chunk = take n (drop (sf_offset file) (sf_content file))
           in (Inr chunk, file\<lparr>sf_offset := sf_offset file + length chunk\<rparr>))"

definition sqliteFile_Close :: "sqlite_file \<Rightarrow> gerr option" where
  "sqliteFile_Close file = None"

definition sqliteWriteCloser_Write :: "string \<Rightarrow> sqlite_writer \<Rightarrow> nat res \<times> sqlite_writer" where
  "sqliteWriteCloser_Write data w = (Inr (length data), w\<lparr>qw_data := qw_data w @ data\<rparr>)"

definition sqliteWriteCloser_Close ::
  "('d, 't) sqlite_db \<Rightarrow> gotime \<Rightarrow> sqlite_writer \<Rightarrow> 'd sqlite_medium \<Rightarrow> gerr option \<times> 'd sqlite_medium" where
  "sqliteWriteCloser_Close D now w m =
     (let mode = (if qw_mode w = 0 then 420 else qw_mode w)
      in wrap_exec ''sqlite.WriteCloser.Close'' [''store failed: '', qw_path w]
           (on_db (\<lambda>tbl. q_write D tbl (qw_path w) (qw_data w) (uint mode) now) m))"

text \<open>The interface has no place for the time \<open>EnsureDir\<close> stamps, which is therefore an argument here.\<close>

definition Sqlite_medium ::
  "go_env \<Rightarrow> ('d, 't) sqlite_db \<Rightarrow> gotime
     \<Rightarrow> ('d sqlite_medium, sqlite_file, sqlite_file, sqlite_writer) medium" where
  "Sqlite_medium E D created =
     \<lparr>m_Read = Sqlite_Read E D, m_Write = Sqlite_Write E D,
      m_WriteMode = Sqlite_WriteMode E D, m_EnsureDir = Sqlite_EnsureDir E D created,
      m_IsFile = Sqlite_IsFile E D, m_Delete = Sqlite_Delete E D,
      m_DeleteAll = Sqlite_DeleteAll E D, m_Rename = Sqlite_Rename E D,
      m_List = (\<lambda>_. Sqlite_List E D), m_Stat = (\<lambda>_. Sqlite_Stat E D),
      m_Open = (\<lambda>_. Sqlite_Open E D), m_Create = pure_open (Sqlite_Create E),
      m_Append = pure_open (Sqlite_Append E D), m_ReadStream = (\<lambda>_. Sqlite_ReadStream E D),
      m_WriteStream = pure_open (Sqlite_WriteStream E), m_Exists = Sqlite_Exists E D,
      m_IsDir = Sqlite_IsDir E D\<rparr>"

end
