(* ===== verification/SqliteProps.thy ===== *)
theory SqliteProps
  imports Sqlite Moves
begin

text \<open>
  Properties of the medium over SQLite: what the statements of the code do to the table, as the
  locale \<open>sqlite_library\<close>, the medium as an instance of \<open>read_write\<close>, deleting, renaming and
  listing.  The operator \<open>LIKE\<close> decides which rows are below a directory, and it reads \<open>%\<close> and
  \<open>_\<close> as wildcards and ignores the case of letters.
\<close>

subsection \<open>LIKE\<close>

text \<open>
  The operator on texts of ASCII characters: \<open>%\<close> stands for any string, \<open>_\<close> for any character,
  and any other character for itself in either case.
\<close>

fun like :: "string \<Rightarrow> string \<Rightarrow> bool" where
  "like [] s \<longleftrightarrow> s = []"
| "like (c # p) [] \<longleftrightarrow> c = CHR ''%'' \<and> like p []"
| "like (c # p) (x # s) \<longleftrightarrow>
     (if c = CHR ''%'' then like p (x # s) \<or> like (c # p) s
      else if c = CHR ''_'' then like p s
      else lower_char c = lower_char x \<and> like p s)"

definition ascii :: "string \<Rightarrow> bool" where
  "ascii s \<longleftrightarrow> list_all (\<lambda>c. 0 < (of_char c :: nat) \<and> (of_char c :: nat) < 128) s"

definition wild :: "string \<Rightarrow> bool" where
  "wild s \<longleftrightarrow> CHR ''%'' \<in> set s \<or> CHR ''_'' \<in> set s"

abbreviation lower_case :: "string \<Rightarrow> string" where
  "lower_case \<equiv> map lower_char"

lemma ascii_append [simp]: "ascii (s @ t) \<longleftrightarrow> ascii s \<and> ascii t"
  by (simp add: ascii_def)

lemma ascii_signs [simp]: "ascii ''/''" "ascii ''%''" "ascii ''/%''" "ascii []"
  by (simp_all add: ascii_def)

lemma ascii_slash [simp]: "ascii (slash # s) \<longleftrightarrow> ascii s"
  by (simp add: ascii_def)

lemma lower_slash [simp]: "lower_char slash = slash"
  by (simp add: lower_char_def)

lemma like_percent [simp]: "like ''%'' s"
  by (induction s) simp_all

lemma like_more: "like p s \<Longrightarrow> like (CHR ''%'' # p) s"
  by (cases s) simp_all

lemma prefix_like: "prefix p s \<Longrightarrow> like (p @ ''%'') s"
proof (induction p arbitrary: s)
  case (Cons c p)
  then obtain s' where s': "s = c # s'" "prefix p s'" by (cases s) auto
  then have "like (p @ ''%'') s'" using Cons.IH by blast
  then show ?case using s' like_more [of "p @ ''%''" s'] by simp
qed simp

lemma like_plain_prefix:
  "\<not> wild p \<Longrightarrow> like (p @ ''%'') s \<longleftrightarrow> prefix (lower_case p) (lower_case s)"
proof (induction p arbitrary: s)
  case (Cons c p)
  then show ?case by (cases s) (auto simp: wild_def)
qed simp

subsection \<open>What the statements do\<close>

text \<open>
  \<open>table n d\<close> is the content of the table \<open>n\<close>, whose primary key is the path; \<open>live n d\<close> holds
  while the connection works and the table is the one \<open>New\<close> creates.  Queries then answer
  from the table, and a statement that changes it either fails and leaves it alone or does what
  it says.  A transaction works on a copy, \<open>tx_table\<close>, which a commit makes the table and a
  rollback forgets.  \<open>matches\<close> is the operator \<open>LIKE\<close>, of which only the ASCII part is described.
\<close>

definition row_cols :: "sqlite_row \<Rightarrow> cols" where
  "row_cols r = (sr_content r, sr_mode r, sr_isDir r, sr_mtime r)"

definition rows_of :: "(string, cols) fmap \<Rightarrow> (string \<Rightarrow> bool) \<Rightarrow> sqlite_row list \<Rightarrow> bool" where
  "rows_of T P rs \<longleftrightarrow> distinct (map sr_path rs) \<and>
     set rs = {r. fmlookup T (sr_path r) = Some (row_cols r) \<and> P (sr_path r)}"

locale sqlite_library =
  fixes D :: "('d, 't) sqlite_db"
    and table :: "string \<Rightarrow> 'd \<Rightarrow> (string, cols) fmap"
    and live :: "string \<Rightarrow> 'd \<Rightarrow> bool"
    and tx_table :: "string \<Rightarrow> 't \<Rightarrow> (string, cols) fmap"
    and open_tx :: "string \<Rightarrow> 't \<Rightarrow> bool"
    and matches :: "string \<Rightarrow> string \<Rightarrow> bool"
  assumes matches_like: "ascii pat \<Longrightarrow> ascii s \<Longrightarrow> matches pat s \<longleftrightarrow> like pat s"
    and content_eq: "live n d \<Longrightarrow> q_content D n k d =
      (case fmlookup (table n d) k of Some (c, md, i, t) \<Rightarrow> Inr (c, i) | None \<Rightarrow> Inl ErrNoRows)"
    and is_dir_eq: "live n d \<Longrightarrow> q_is_dir D n k d =
      (case fmlookup (table n d) k of Some (c, md, i, t) \<Rightarrow> Inr i | None \<Rightarrow> Inl ErrNoRows)"
    and row_eq: "live n d \<Longrightarrow> q_row D n k d =
      (case fmlookup (table n d) k of Some cs \<Rightarrow> Inr cs | None \<Rightarrow> Inl ErrNoRows)"
    and file_content_eq: "live n d \<Longrightarrow> q_file_content D n k d =
      (case fmlookup (table n d) k of Some (c, md, i, t) \<Rightarrow> if i then Inl ErrNoRows else Inr c | None \<Rightarrow> Inl ErrNoRows)"
    and count_eq: "live n d \<Longrightarrow> q_count D n k d = Inr (if has_key (table n d) k then 1 else 0)"
    and count_like_eq: "live n d \<Longrightarrow> q_count_like D n pat k d =
      Inr (fcard (ffilter (\<lambda>q. matches pat q \<and> q \<noteq> k) (fmdom (table n d))))"
    and rows_like: "live n d \<Longrightarrow>
      \<exists>rs. q_rows_like D n pat d = Inr (map Inr rs, None) \<and> rows_of (table n d) (matches pat) rs"
    and write_row: "live n d \<Longrightarrow> q_write D n k c md t d = (e, d') \<Longrightarrow>
      live n d' \<and> table n d' = (if e = None then fmupd k (c, md, False, t) (table n d) else table n d)"
    and mkdir: "live n d \<Longrightarrow> q_mkdir D n k t d = (e, d') \<Longrightarrow>
      live n d' \<and> table n d' =
        (if e = None \<and> \<not> has_key (table n d) k then fmupd k ('''', 493, True, t) (table n d) else table n d)"
    and delete_row: "live n d \<Longrightarrow> q_delete D n k d = (r, d') \<Longrightarrow>
      live n d' \<and> (case r of Inl _ \<Rightarrow> table n d' = table n d
        | Inr j \<Rightarrow> table n d' = fmdrop k (table n d) \<and> (j = 0 \<longleftrightarrow> \<not> has_key (table n d) k))"
    and delete_all: "live n d \<Longrightarrow> q_delete_all D n k pat d = (r, d') \<Longrightarrow>
      live n d' \<and> (case r of Inl _ \<Rightarrow> table n d' = table n d
        | Inr j \<Rightarrow> table n d' = fmfilter (\<lambda>q. \<not> (q = k \<or> matches pat q)) (table n d) \<and>
            (j = 0 \<longleftrightarrow> (\<forall>q. has_key (table n d) q \<longrightarrow> q \<noteq> k \<and> \<not> matches pat q)))"
    and begin_tx: "live n d \<Longrightarrow> q_begin D d = (b, d') \<Longrightarrow>
      live n d' \<and> table n d' = table n d \<and> (\<forall>tx. b = Inr tx \<longrightarrow> open_tx n tx \<and> tx_table n tx = table n d)"
    and commit: "live n d \<Longrightarrow> open_tx n tx \<Longrightarrow> q_commit D tx d = (e, d') \<Longrightarrow>
      live n d' \<and> table n d' = (if e = None then tx_table n tx else table n d)"
    and rollback: "live n d \<Longrightarrow> q_rollback D tx d = (e, d') \<Longrightarrow> live n d' \<and> table n d' = table n d"
    and tx_row_eq: "open_tx n tx \<Longrightarrow> tx_row D n k tx =
      (case fmlookup (tx_table n tx) k of Some cs \<Rightarrow> Inr cs | None \<Rightarrow> Inl ErrNoRows)"
    and tx_rows: "open_tx n tx \<Longrightarrow>
      \<exists>rs. tx_rows_like D n pat tx = Inr (map Inr rs, None) \<and> rows_of (tx_table n tx) (matches pat) rs"
    and tx_upserted: "open_tx n tx \<Longrightarrow> tx_upsert D n w tx = (None, tx') \<Longrightarrow>
      open_tx n tx' \<and> tx_table n tx' = fmupd (sr_path w) (row_cols w) (tx_table n tx)"
    and tx_deleted: "open_tx n tx \<Longrightarrow> tx_delete D n k tx = (None, tx') \<Longrightarrow>
      open_tx n tx' \<and> tx_table n tx' = fmdrop k (tx_table n tx)"
    and tx_deleted_like: "open_tx n tx \<Longrightarrow> tx_delete_like D n pat tx = (None, tx') \<Longrightarrow>
      open_tx n tx' \<and> tx_table n tx' = fmfilter (\<lambda>q. \<not> matches pat q) (tx_table n tx)"

text \<open>The table of a medium, and whether the medium is in use.\<close>

abbreviation table_of :: "(string \<Rightarrow> 'd \<Rightarrow> (string, cols) fmap) \<Rightarrow> 'd sqlite_medium \<Rightarrow> (string, cols) fmap" where
  "table_of table m \<equiv> table (sq_table m) (sq_database m)"

abbreviation in_use :: "(string \<Rightarrow> 'd \<Rightarrow> bool) \<Rightarrow> 'd sqlite_medium \<Rightarrow> bool" where
  "in_use live m \<equiv> live (sq_table m) (sq_database m)"

lemma wrap_exec_iff:
  "wrap_exec op parts r = (e, s') \<Longrightarrow> \<exists>e0. r = (e0, s') \<and> (e = None \<longleftrightarrow> e0 = None)"
  by (auto simp: wrap_exec_def split: prod.splits option.splits)

lemma on_db_iff:
  "on_db f m = (r, m') \<longleftrightarrow> (\<exists>d'. f (sq_table m) (sq_database m) = (r, d') \<and> m' = m\<lparr>sq_database := d'\<rparr>)"
  by (auto simp: on_db_def split: prod.splits)

lemma row_loop_ok: "row_loop op msg f (map Inr rs) acc = Inr (fold f rs acc)"
  by (induction rs arbitrary: acc) simp_all

lemma read_rows_ok: "read_rows op qm sm rm f (Inr (map Inr rs, None)) acc = Inr (fold f rs acc)"
  by (simp add: read_rows_def row_loop_ok)

subsection \<open>Keys\<close>

context go_runtime
begin

lemma entryKey_cases: "entryKey E p = '''' \<or> norm_path (entryKey E p)"
  using clean_rooted_cases [of p]
  by (auto simp: entryKey_def Let_def trim_prefix_def)

lemma entryKey_norm: "norm_path p \<Longrightarrow> entryKey E p = p"
  using norm_path_not_Nil [of p] by (simp add: entryKey_def trim_prefix_def)

lemma entryKey_root: "entryKey E '''' = ''''"
proof -
  have "path_clean ''/'' = ''/''" by code_simp
  then show ?thesis by (simp add: entryKey_def)
qed

end

subsection \<open>The medium keeps the contract of writing and reading\<close>

lemma Sqlite_medium_simps [simp]:
  "m_Read (Sqlite_medium E D t) = Sqlite_Read E D"
  "m_Write (Sqlite_medium E D t) = Sqlite_Write E D"
  "m_WriteMode (Sqlite_medium E D t) = Sqlite_WriteMode E D"
  by (simp_all add: Sqlite_medium_def)

context sqlite_library
begin

lemma Read_lookup:
  "in_use live m \<Longrightarrow> Sqlite_Read E D p m =
     (if entryKey E p = '''' then Inl (CoreE ''sqlite.Read'' [msgSQLitePathRequired] (Some ErrInvalid))
      else case fmlookup (table_of table m) (entryKey E p) of
          None \<Rightarrow> Inl (CoreE ''sqlite.Read'' [msgSQLiteFileNotFound, entryKey E p] (Some ErrNotExist))
        | Some (c, md, i, t) \<Rightarrow>
            (if i then Inl (CoreE ''sqlite.Read'' [msgSQLitePathIsDir, entryKey E p] (Some ErrInvalid)) else Inr c))"
  by (auto simp: Sqlite_Read_def Let_def content_eq split: option.splits)

lemma Stat_lookup:
  "in_use live m \<Longrightarrow> fmlookup (table_of table m) (entryKey E p) = Some (c, md, i, t) \<Longrightarrow> entryKey E p \<noteq> '''' \<Longrightarrow>
   Sqlite_Stat E D p m = Inr (NewFileInfo (PathBase E (entryKey E p)) (int (length c)) (word_of_int md) t i)"
  by (simp add: Sqlite_Stat_def row_eq)

lemma IsFile_lookup:
  "in_use live m \<Longrightarrow> Sqlite_IsFile E D p m \<longleftrightarrow> entryKey E p \<noteq> '''' \<and>
     (\<exists>c md t. fmlookup (table_of table m) (entryKey E p) = Some (c, md, False, t))"
  by (auto simp: Sqlite_IsFile_def Let_def is_dir_eq split: option.splits)

lemma IsDir_lookup:
  "in_use live m \<Longrightarrow> Sqlite_IsDir E D p m \<longleftrightarrow> entryKey E p \<noteq> '''' \<and>
     (\<exists>c md t. fmlookup (table_of table m) (entryKey E p) = Some (c, md, True, t))"
  by (auto simp: Sqlite_IsDir_def Let_def is_dir_eq split: option.splits)

lemma Exists_lookup:
  "in_use live m \<Longrightarrow> Sqlite_Exists E D p m \<longleftrightarrow> entryKey E p = '''' \<or> has_key (table_of table m) (entryKey E p)"
  by (auto simp: Sqlite_Exists_def Let_def count_eq)

lemma write_statement:
  assumes "in_use live m" "wrap_exec op msg (on_db (\<lambda>tbl. q_write D tbl k c md t) m) = (e, m')"
  shows "in_use live m' \<and> sq_table m' = sq_table m \<and> table_of table m' =
    (if e = None then fmupd k (c, md, False, t) (table_of table m) else table_of table m)"
  using wrap_exec_iff [OF assms(2)] assms(1) by (auto simp: on_db_iff dest: write_row)

lemma WriteMode_cases:
  assumes "in_use live m" "Sqlite_WriteMode E D now p c mode m = (e, m')"
  obtains (bad) "entryKey E p = ''''" "m' = m"
      "e = Some (CoreE ''sqlite.WriteMode'' [msgSQLitePathRequired] (Some ErrInvalid))"
    | (failed) "entryKey E p \<noteq> ''''" "e \<noteq> None" "in_use live m'" "table_of table m' = table_of table m"
    | (stored) "entryKey E p \<noteq> ''''" "e = None" "in_use live m'"
        "table_of table m' = fmupd (entryKey E p) (c, uint mode, False, now) (table_of table m)"
proof (cases "entryKey E p = ''''")
  case True
  then show thesis using assms(2) by (intro bad) (auto simp: Sqlite_WriteMode_def)
next
  case False
  then have "wrap_exec ''sqlite.WriteMode'' [''insert failed: '', entryKey E p]
      (on_db (\<lambda>tbl. q_write D tbl (entryKey E p) c (uint mode) now) m) = (e, m')"
    using assms(2) by (simp add: Sqlite_WriteMode_def Let_def)
  from write_statement [OF assms(1) this] show thesis
    using False failed stored by (cases "e = None") auto
qed

lemma sqlite_read_write:
  "read_write (Sqlite_medium E D created) (in_use live) (entryKey E) (\<lambda>_. True)"
proof (unfold_locales, goal_cases)
  case (1 m now p c md e m')
  then show ?case by (auto elim: WriteMode_cases)
next
  case (2 m p now c md m')
  from 2(1) 2(3) [simplified] show ?case by (cases rule: WriteMode_cases) (auto simp: Read_lookup)
next
  case (3 m now p c md e m' q)
  from 3(1) 3(2) [simplified] show ?case
    using 3(1,3) by (cases rule: WriteMode_cases) (auto simp: Read_lookup)
next
  case (4 now p c m)
  then show ?case by (simp add: Sqlite_Write_def)
qed

end

subsection \<open>Which rows a pattern selects\<close>

text \<open>
  A key is \<open>plain\<close> among the paths \<open>K\<close> if the pattern \<open>key/%\<close> selects exactly the paths below it:
  no wildcard in the key, and no path below a directory whose name differs from it only by case.
\<close>

definition plain_key :: "string \<Rightarrow> string set \<Rightarrow> bool" where
  "plain_key key K \<longleftrightarrow> ascii key \<and> \<not> wild key \<and>
     (\<forall>k\<in>K. ascii k \<and> (prefix (lower_case (key @ ''/'')) (lower_case k) \<longrightarrow> prefix (key @ ''/'') k))"

abbreviation keys_of :: "(string, 'v) fmap \<Rightarrow> string set" where
  "keys_of T \<equiv> {k. has_key T k}"

lemma plain_key_mono: "plain_key key K \<Longrightarrow> L \<subseteq> K \<Longrightarrow> plain_key key L"
  by (auto simp: plain_key_def)

context sqlite_library
begin

lemma matches_plain:
  assumes "plain_key key K" "k \<in> K"
  shows "matches (key @ ''/%'') k \<longleftrightarrow> prefix (key @ ''/'') k"
proof -
  have "\<not> wild (key @ ''/'')" using assms(1) by (auto simp: plain_key_def wild_def)
  then have l: "like ((key @ ''/'') @ ''%'') k \<longleftrightarrow> prefix (lower_case (key @ ''/'')) (lower_case k)"
    by (rule like_plain_prefix)
  have "prefix (key @ ''/'') k \<Longrightarrow> prefix (lower_case (key @ ''/'')) (lower_case k)"
    by (rule map_mono_prefix)
  moreover have "matches (key @ ''/%'') k \<longleftrightarrow> like (key @ ''/%'') k"
    using assms by (intro matches_like) (simp_all add: plain_key_def)
  moreover have "prefix (lower_case (key @ ''/'')) (lower_case k) \<Longrightarrow> prefix (key @ ''/'') k"
    using assms unfolding plain_key_def by blast
  moreover have "(key @ ''/'') @ ''%'' = key @ ''/%''" by simp
  ultimately show ?thesis using l by metis
qed

lemma matches_below:
  assumes "ascii key" "ascii k" "prefix (key @ ''/'') k"
  shows "matches (key @ ''/%'') k"
  using matches_like [of "key @ ''/%''" k] prefix_like [OF assms(3)] assms(1,2) by simp

lemma matches_all: "ascii k \<Longrightarrow> matches ''%'' k"
  using matches_like [of "''%''" k] by simp

lemma DeleteAll_cases:
  assumes "in_use live m" "Sqlite_DeleteAll E D p m = (e, m')" "entryKey E p \<noteq> ''''"
  defines "gone q \<equiv> q = entryKey E p \<or> matches (entryKey E p @ ''/%'') q"
  shows "in_use live m' \<and>
    (e = None \<and> (\<exists>q. has_key (table_of table m) q \<and> gone q) \<and>
       table_of table m' = fmfilter (\<lambda>q. \<not> gone q) (table_of table m) \<or>
     e = Some (CoreE ''sqlite.DeleteAll'' [msgSQLitePathNotFound, entryKey E p] (Some ErrNotExist)) \<and>
       \<not> (\<exists>q. has_key (table_of table m) q \<and> gone q) \<and> table_of table m' = table_of table m \<or>
     (\<exists>err. e = Some (CoreE ''sqlite.DeleteAll'' [''delete failed: '', entryKey E p] (Some err))) \<and>
       table_of table m' = table_of table m)"
proof -
  let ?k = "entryKey E p" and ?n = "sq_table m"
  obtain r d' where r: "q_delete_all D ?n ?k (?k @ ''/%'') (sq_database m) = (r, d')" by force
  have eq: "deleted ''sqlite.DeleteAll'' ?k (r, m\<lparr>sq_database := d'\<rparr>) = (e, m')"
    using assms(2,3) r by (simp add: Sqlite_DeleteAll_def Let_def on_db_def)
  have post: "live ?n d' \<and> (case r of Inl _ \<Rightarrow> table ?n d' = table_of table m
      | Inr j \<Rightarrow> table ?n d' = fmfilter (\<lambda>q. \<not> gone q) (table_of table m) \<and>
          (j = 0 \<longleftrightarrow> (\<forall>q. has_key (table_of table m) q \<longrightarrow> \<not> gone q)))"
    using delete_all [OF assms(1) r] by (simp add: gone_def split: sum.splits)
  show ?thesis
  proof (cases r)
    case (Inl err)
    then show ?thesis using eq post by (auto simp: deleted_def)
  next
    case (Inr j)
    have "fmfilter (\<lambda>q. \<not> gone q) (table_of table m) = table_of table m" if "j = 0"
    proof (rule fmap_eqI)
      fix q
      show "fmlookup (fmfilter (\<lambda>q. \<not> gone q) (table_of table m)) q = fmlookup (table_of table m) q"
        using post that Inr by (cases "fmlookup (table_of table m) q") (auto simp: has_key_def)
    qed
    then show ?thesis using eq post Inr by (auto simp: deleted_def split: if_splits)
  qed
qed

end

subsection \<open>A database in memory\<close>

text \<open>The table itself as the state, of the database and of a transaction, with statements that never fail.\<close>

definition row_at :: "(string, cols) fmap \<Rightarrow> string \<Rightarrow> sqlite_row" where
  "row_at T k = (case the (fmlookup T k) of (c, md, i, t) \<Rightarrow>
     \<lparr>sr_path = k, sr_content = c, sr_mode = md, sr_isDir = i, sr_mtime = t\<rparr>)"

definition select_like :: "string \<Rightarrow> (string, cols) fmap \<Rightarrow> sqlite_row list" where
  "select_like pat T = map (row_at T) (filter (like pat) (sorted_list_of_fset (fmdom T)))"

definition remove_keys :: "(string \<Rightarrow> bool) \<Rightarrow> (string, cols) fmap \<Rightarrow> nat res \<times> (string, cols) fmap" where
  "remove_keys P T = (Inr (length (filter P (sorted_list_of_fset (fmdom T)))), fmfilter (\<lambda>q. \<not> P q) T)"

definition mem_sqlite :: "((string, cols) fmap, (string, cols) fmap) sqlite_db" where
  "mem_sqlite = \<lparr>q_open = (\<lambda>_. Inr fmempty), q_wal = (\<lambda>d. (None, d)), q_create = (\<lambda>_ d. (None, d)),
     q_close = (\<lambda>d. (None, d)),
     q_content = (\<lambda>_ k d. case fmlookup d k of Some (c, md, i, t) \<Rightarrow> Inr (c, i) | None \<Rightarrow> Inl ErrNoRows),
     q_is_dir = (\<lambda>_ k d. case fmlookup d k of Some (c, md, i, t) \<Rightarrow> Inr i | None \<Rightarrow> Inl ErrNoRows),
     q_row = (\<lambda>_ k d. case fmlookup d k of Some cs \<Rightarrow> Inr cs | None \<Rightarrow> Inl ErrNoRows),
     q_file_content = (\<lambda>_ k d. case fmlookup d k of Some (c, md, i, t) \<Rightarrow> if i then Inl ErrNoRows else Inr c
       | None \<Rightarrow> Inl ErrNoRows),
     q_count = (\<lambda>_ k d. Inr (if has_key d k then 1 else 0)),
     q_count_like = (\<lambda>_ pat k d. Inr (fcard (ffilter (\<lambda>q. like pat q \<and> q \<noteq> k) (fmdom d)))),
     q_rows_like = (\<lambda>_ pat d. Inr (map Inr (select_like pat d), None)),
     q_write = (\<lambda>_ k c md t d. (None, fmupd k (c, md, False, t) d)),
     q_mkdir = (\<lambda>_ k t d. (None, if has_key d k then d else fmupd k ('''', 493, True, t) d)),
     q_delete = (\<lambda>_ k. remove_keys (\<lambda>q. q = k)),
     q_delete_all = (\<lambda>_ k pat. remove_keys (\<lambda>q. q = k \<or> like pat q)),
     q_begin = (\<lambda>d. (Inr d, d)), q_commit = (\<lambda>t d. (None, t)), q_rollback = (\<lambda>t d. (None, d)),
     tx_row = (\<lambda>_ k d. case fmlookup d k of Some cs \<Rightarrow> Inr cs | None \<Rightarrow> Inl ErrNoRows),
     tx_rows_like = (\<lambda>_ pat d. Inr (map Inr (select_like pat d), None)),
     tx_upsert = (\<lambda>_ r t. (None, fmupd (sr_path r) (row_cols r) t)),
     tx_delete = (\<lambda>_ k t. (None, fmdrop k t)),
     tx_delete_like = (\<lambda>_ pat t. (None, fmfilter (\<lambda>q. \<not> like pat q) t))\<rparr>"

lemma row_at_iff: "fmlookup T k \<noteq> None \<Longrightarrow> r = row_at T k \<longleftrightarrow> sr_path r = k \<and> fmlookup T k = Some (row_cols r)"
  by (cases r) (auto simp: row_at_def row_cols_def split: prod.splits)

lemma rows_of_select: "rows_of T (like pat) (select_like pat T)"
proof -
  have "sr_path (row_at T k) = k" for k by (simp add: row_at_def split: prod.splits)
  then have p: "map sr_path (select_like pat T) = filter (like pat) (sorted_list_of_fset (fmdom T))"
    by (simp add: select_like_def comp_def)
  have "r \<in> set (select_like pat T) \<longleftrightarrow> fmlookup T (sr_path r) = Some (row_cols r) \<and> like pat (sr_path r)" for r
  proof -
    have "r \<in> set (select_like pat T) \<longleftrightarrow> (\<exists>k. fmlookup T k \<noteq> None \<and> like pat k \<and> r = row_at T k)"
      unfolding select_like_def set_map set_filter sorted_list_of_fset.rep_eq
      by (auto simp: fmlookup_dom_iff, blast)
    then show ?thesis using row_at_iff [of T] by (metis option.distinct(1))
  qed
  then show ?thesis using p by (auto simp: rows_of_def sorted_list_of_fset.rep_eq)
qed

lemma remove_keys_eq:
  assumes "remove_keys P T = (r, T')"
  shows "\<exists>j. r = Inr j \<and> T' = fmfilter (\<lambda>q. \<not> P q) T \<and> (j = 0 \<longleftrightarrow> (\<forall>q. has_key T q \<longrightarrow> \<not> P q))"
  using assms
  by (auto simp: remove_keys_def filter_empty_conv sorted_list_of_fset.rep_eq has_key_dom)

lemma fmfilter_neq: "fmfilter (\<lambda>q. q \<noteq> k) T = fmdrop k T"
  by (rule fmap_eqI) auto

interpretation mem_sqlite: sqlite_library mem_sqlite "\<lambda>_ d. d" "\<lambda>_ _. True" "\<lambda>_ t. t" "\<lambda>_ _. True" like
proof (unfold_locales, goal_cases)
  case (8 n d pat)
  then show ?case by (auto simp: mem_sqlite_def intro: rows_of_select)
next
  case (11 n d k r d')
  then show ?case by (auto simp: mem_sqlite_def fmfilter_neq dest!: remove_keys_eq)
next
  case (12 n d k pat r d')
  then show ?case by (auto simp: mem_sqlite_def dest!: remove_keys_eq)
next
  case (17 n pat t)
  then show ?case by (auto simp: mem_sqlite_def intro: rows_of_select)
qed (auto simp: mem_sqlite_def split: option.splits)

lemmas mem_sqlite_ok = mem_sqlite.sqlite_library_axioms

interpretation sqlite: read_write "Sqlite_medium go_core mem_sqlite 0" "\<lambda>_. True" "entryKey go_core" "\<lambda>_. True"
  using mem_sqlite.sqlite_read_write [of go_core 0] by simp

subsection \<open>Renaming\<close>

lemma fold_fmupd_other: "q \<notin> g ` set rs \<Longrightarrow> fmlookup (fold (\<lambda>r. fmupd (g r) (v r)) rs T) q = fmlookup T q"
  by (induction rs arbitrary: T) auto

lemma fold_fmupd_at:
  "r \<in> set rs \<Longrightarrow> inj_on g (set rs) \<Longrightarrow> fmlookup (fold (\<lambda>r. fmupd (g r) (v r)) rs T) (g r) = Some (v r)"
proof (induction rs arbitrary: T)
  case (Cons a rs)
  show ?case
  proof (cases "r \<in> set rs")
    case False
    then have "r = a" using Cons.prems(1) by simp
    moreover have "g a \<notin> g ` set rs"
      using Cons.prems(2) False \<open>r = a\<close> by auto
    ultimately show ?thesis by (simp add: fold_fmupd_other)
  qed (use Cons in \<open>auto simp: inj_on_def\<close>)
qed simp

text \<open>The name of a row below \<open>oldKey\<close> after the move.\<close>

abbreviation moved_path :: "string \<Rightarrow> string \<Rightarrow> sqlite_row \<Rightarrow> string" where
  "moved_path oldKey newKey r \<equiv> new_key (oldKey @ ''/'') (newKey @ ''/'') (sr_path r)"

context go_runtime
begin

lemma moved_child_eq:
  "prefix op (sr_path r) \<Longrightarrow> moved_child E op np r = r\<lparr>sr_path := new_key op np (sr_path r)\<rparr>"
  by (simp add: moved_child_def new_key_def trim_prefix_def)

end

text \<open>A successful loop of upserts is a fold over the table.\<close>

context sqlite_library
begin

lemma upserts_ok:
  assumes "open_tx n tx"
    "each (\<lambda>r tx. wrap_exec op parts (upsertEntry D n (f r) tx)) rs tx = (None, tx')"
  shows "open_tx n tx' \<and>
    tx_table n tx' = fold (\<lambda>r. fmupd (sr_path (f r)) (row_cols (f r))) rs (tx_table n tx)"
  using assms
proof (induction rs arbitrary: tx)
  case (Cons r rs)
  obtain t1 where one: "wrap_exec op parts (upsertEntry D n (f r) tx) = (None, t1)"
    and rest: "each (\<lambda>r tx. wrap_exec op parts (upsertEntry D n (f r) tx)) rs t1 = (None, tx')"
    using Cons.prems(2) by (auto split: prod.splits option.splits)
  have "tx_upsert D n (f r) tx = (None, t1)"
    using wrap_exec_iff [OF one] by (auto simp: upsertEntry_def)
  from tx_upserted [OF Cons.prems(1) this] show ?case using Cons.IH rest by auto
qed simp

lemma renameChildren_ok:
  assumes "open_tx n tx" "renameChildren E D n old new tx = (None, tx')"
  obtains rs where "rows_of (tx_table n tx) (matches (old @ ''/%'')) rs" "open_tx n tx'"
    "tx_table n tx' = fmfilter (\<lambda>q. \<not> matches (old @ ''/%'') q)
       (fold (\<lambda>r. fmupd (sr_path (moved_child E (old @ ''/'') (new @ ''/'') r)) (row_cols r)) rs (tx_table n tx))"
proof -
  obtain rs where rs: "tx_rows_like D n (old @ ''/%'') tx = Inr (map Inr rs, None)"
    "rows_of (tx_table n tx) (matches (old @ ''/%'')) rs"
    using tx_rows [OF assms(1)] by blast
  let ?f = "moved_child E (old @ ''/'') (new @ ''/'')"
  have c: "childrenWithPrefix D n (old @ ''/'') tx = Inr rs"
    by (simp add: childrenWithPrefix_def rs(1) read_rows_ok fold_snoc)
  obtain t1 where loop: "each (\<lambda>r tx. wrap_exec ''sqlite.Rename'' [''insert child failed'']
        (upsertEntry D n (?f r) tx)) rs tx = (None, t1)"
    and del: "wrap_exec ''sqlite.Rename'' [''delete old children failed''] (tx_delete_like D n (old @ ''/%'') t1)
      = (None, tx')"
    using assms(2) c by (auto simp: renameChildren_def Let_def split: prod.splits option.splits)
  have r: "row_cols (?f r) = row_cols r" for r by (simp add: moved_child_def row_cols_def)
  have del': "tx_delete_like D n (old @ ''/%'') t1 = (None, tx')" using wrap_exec_iff [OF del] by auto
  from upserts_ok [OF assms(1) loop] tx_deleted_like [OF _ del'] show thesis
    using that [OF rs(2)] by (simp add: r)
qed

lemma rename_entry_ok:
  assumes "open_tx n tx" "rename_entry E D n old new tx = (None, tx')"
  obtains c md i mt t1 where "fmlookup (tx_table n tx) old = Some (c, md, i, mt)" "open_tx n t1" "open_tx n tx'"
    "tx_table n t1 = fmdrop old (fmupd new (c, md, i, mt) (tx_table n tx))"
    "if i then renameChildren E D n old new t1 = (None, tx') else tx' = t1"
proof (cases "fmlookup (tx_table n tx) old")
  case None
  then show thesis using assms by (simp add: rename_entry_def renameSource_def tx_row_eq)
next
  case (Some cs)
  obtain c md i mt where cs: "cs = (c, md, i, mt)" by (cases cs)
  let ?src = "\<lparr>sr_path = new, sr_content = c, sr_mode = md, sr_isDir = i, sr_mtime = mt\<rparr>"
  obtain e0 t0 where up0: "wrap_exec ''sqlite.Rename'' [''insert at new path failed: '', new]
      (upsertEntry D n ?src tx) = (e0, t0)" by force
  obtain e1 t1 where del0: "wrap_exec ''sqlite.Rename'' [''delete old path failed: '', old]
      (tx_delete D n old t0) = (e1, t1)" by force
  have "renameSource D n old tx = Inr \<lparr>sr_path = old, sr_content = c, sr_mode = md, sr_isDir = i, sr_mtime = mt\<rparr>"
    using assms(1) Some cs by (simp add: renameSource_def tx_row_eq)
  then have eq: "(case (e0, t0) of (Some err, tx) \<Rightarrow> (Some err, tx)
      | (None, tx) \<Rightarrow> (case wrap_exec ''sqlite.Rename'' [''delete old path failed: '', old] (tx_delete D n old tx) of
           (Some err, tx) \<Rightarrow> (Some err, tx)
         | (None, tx) \<Rightarrow> (if i then renameChildren E D n old new tx else (None, tx)))) = (None, tx')"
    using assms(2) up0 by (cases e0) (auto simp: rename_entry_def split: prod.splits option.splits)
  then have e0: "e0 = None" by (cases e0) simp_all
  then have e1: "e1 = None" using eq del0 by (cases e1) simp_all
  have rest: "(if i then renameChildren E D n old new t1 else (None, t1)) = (None, tx')"
    using eq e0 e1 del0 by simp
  note up = up0 [unfolded e0] and del = del0 [unfolded e1]
  have "tx_upsert D n ?src tx = (None, t0)" "tx_delete D n old t0 = (None, t1)"
    using wrap_exec_iff [OF up] wrap_exec_iff [OF del] by (auto simp: upsertEntry_def)
  from tx_upserted [OF assms(1) this(1)] tx_deleted [OF _ this(2)]
  have t1: "open_tx n t1" "tx_table n t1 = fmdrop old (fmupd new (c, md, i, mt) (tx_table n tx))"
    by (auto simp: row_cols_def)
  have "open_tx n tx'"
  proof (cases i)
    case True
    with rest have "renameChildren E D n old new t1 = (None, tx')" by simp
    from renameChildren_ok [OF t1(1) this] show ?thesis by blast
  qed (use rest t1(1) in simp)
  moreover have "if i then renameChildren E D n old new t1 = (None, tx') else tx' = t1"
    using rest by (cases i) simp_all
  ultimately show thesis using that t1 Some cs by metis
qed

text \<open>An error leaves the table alone, whatever was done before it; a success commits the transaction.\<close>

lemma Rename_cases:
  assumes "in_use live m" "Sqlite_Rename E D p p' m = (e, m')"
  obtains (error) "e \<noteq> None" "in_use live m'" "table_of table m' = table_of table m"
    | (ok) tx tx' where "e = None" "in_use live m'" "entryKey E p \<noteq> ''''" "entryKey E p' \<noteq> ''''"
        "open_tx (sq_table m) tx" "tx_table (sq_table m) tx = table_of table m"
        "rename_entry E D (sq_table m) (entryKey E p) (entryKey E p') tx = (None, tx')"
        "open_tx (sq_table m) tx'" "table_of table m' = tx_table (sq_table m) tx'"
proof (cases "entryKey E p = '''' \<or> entryKey E p' = ''''")
  case True
  then show thesis using assms by (intro error) (auto simp: Sqlite_Rename_def Let_def)
next
  case keys: False
  let ?n = "sq_table m"
  obtain b d1 where b: "q_begin D (sq_database m) = (b, d1)" by force
  note d1 = begin_tx [OF assms(1) b]
  show thesis
  proof (cases b)
    case (Inl err)
    then show thesis using assms(2) b d1 keys by (intro error) (auto simp: Sqlite_Rename_def Let_def)
  next
    case (Inr tx)
    obtain e2 tx2 where r: "rename_entry E D ?n (entryKey E p) (entryKey E p') tx = (e2, tx2)" by force
    obtain e3 d3 where c: "q_commit D tx2 d1 = (e3, d3)" by force
    obtain e4 d4 where rb: "q_rollback D tx2 d1 = (e4, d4)" by force
    obtain e5 d5 where rc: "q_rollback D tx2 d3 = (e5, d5)" by force
    note eqs = assms(2) b Inr r c rb rc keys
    show thesis
    proof (cases e2)
      case (Some err)
      then show thesis using eqs d1 rollback [OF _ rb, of ?n]
        by (intro error) (auto simp: Sqlite_Rename_def Let_def)
    next
      case None
      have tx: "open_tx ?n tx" "tx_table ?n tx = table_of table m" using d1 Inr by auto
      have "open_tx ?n tx2" using rename_entry_ok [OF tx(1) r [unfolded None]] by metis
      note d3 = commit [OF conjunct1 [OF d1] this c]
      show thesis
      proof (cases e3)
        case (Some err)
        then show thesis using eqs None d1 d3 rollback [OF _ rc, of ?n]
          by (intro error) (auto simp: Sqlite_Rename_def Let_def)
      next
        case noerr: None
        then show thesis using eqs None d3 tx \<open>open_tx ?n tx2\<close>
          by (intro ok [of tx tx2]) (auto simp: Sqlite_Rename_def Let_def)
      qed
    qed
  qed
qed

end

subsection \<open>The rows a rename moves\<close>

context sqlite_library
begin

text \<open>
  When the names of source and destination differ otherwise than by case and neither is above the
  other, a directory with a plain name is moved as the map \<open>relocate\<close> says.
\<close>

lemma moved_table:
  assumes E: "go_runtime E" and rs: "rows_of T (matches (old @ ''/%'')) rs" and plain: "plain_key old (keys_of T)"
    and new: "ascii new" "lower_case (old @ ''/'') \<parallel> lower_case (new @ ''/'')"
  shows "fmlookup (fmfilter (\<lambda>q. \<not> matches (old @ ''/%'') q)
       (fold (\<lambda>r. fmupd (sr_path (moved_child E (old @ ''/'') (new @ ''/'') r)) (row_cols r)) rs T)) q
    = relocate (old @ ''/'') (new @ ''/'') T q"
proof -
  let ?op = "old @ ''/''" and ?np = "new @ ''/''"
  let ?g = "\<lambda>r. sr_path (moved_child E ?op ?np r)"
  let ?F = "fold (\<lambda>r. fmupd (?g r) (row_cols r)) rs T"
  have mem: "r \<in> set rs \<longleftrightarrow> fmlookup T (sr_path r) = Some (row_cols r) \<and> matches (old @ ''/%'') (sr_path r)" for r
    using rs by (auto simp: rows_of_def)
  have below: "prefix ?op (sr_path r)" if "r \<in> set rs" for r
    using that mem [of r] has_key_Some [of T "sr_path r"] matches_plain [OF plain, of "sr_path r"] by blast
  have g: "?g r = new_key ?op ?np (sr_path r)" if "r \<in> set rs" for r
    using below [OF that] by (simp add: go_runtime.moved_child_eq [OF E])
  have "inj_on ?g (set rs)"
  proof (rule inj_onI)
    fix r r' assume r: "r \<in> set rs" "r' \<in> set rs" "?g r = ?g r'"
    then have "sr_path r = sr_path r'"
      using below [OF r(1)] below [OF r(2)] inj_onD [OF new_key_inj, of ?op ?np "sr_path r" "sr_path r'"]
      by (simp add: g)
    then show "r = r'" using r(1,2) mem by (cases r; cases r') (auto simp: row_cols_def)
  qed
  note at = fold_fmupd_at [OF _ this]
  have np: "\<not> matches (old @ ''/%'') (?np @ s)" if "ascii s" for s
  proof
    have "\<not> wild ?op" using plain by (auto simp: plain_key_def wild_def)
    moreover assume "matches (old @ ''/%'') (?np @ s)"
    moreover have "ascii (old @ ''/%'')" "ascii (?np @ s)" using plain new(1) that by (simp_all add: plain_key_def)
    ultimately have "prefix (lower_case ?op) (lower_case (?np @ s))"
      using matches_like [of "old @ ''/%''" "?np @ s"] like_plain_prefix [of ?op "?np @ s"] by simp
    then show False using new(2) by (meson map_mono_prefix parallelE prefixI prefix_same_cases)
  qed
  have T: "ascii k" "matches (old @ ''/%'') k \<longleftrightarrow> prefix ?op k" if "has_key T k" for k
    using plain that matches_plain [OF plain, of k] by (auto simp: plain_key_def)
  let ?k = "?op @ drop (length ?np) q"
  show ?thesis
  proof (cases "\<exists>r\<in>set rs. ?g r = q")
    case True
    then obtain r where r: "r \<in> set rs" "q = ?g r" by auto
    obtain s where s: "sr_path r = ?op @ s" using below [OF r(1)] by (auto simp: prefix_def)
    then have q: "q = ?np @ s" using g [OF r(1)] r(2) by (simp add: new_key_def)
    have hk: "has_key T (?op @ s)" "fmlookup T (?op @ s) = Some (row_cols r)"
      using mem r(1) s by (auto simp: has_key_def)
    have "ascii s" using T(1) [OF hk(1)] by simp
    then have "\<not> matches (old @ ''/%'') q" using np q by simp
    moreover have "\<not> prefix ?op q"
      using new(2) q by (metis map_mono_prefix parallelE prefixI prefix_same_cases)
    moreover have "fmlookup ?F q = Some (row_cols r)" using at [OF r(1)] r(2) by simp
    ultimately show ?thesis using q hk by (simp add: relocate_def)
  next
    case False
    then have F: "fmlookup ?F q = fmlookup T q" by (intro fold_fmupd_other) auto
    have "\<not> (prefix ?np q \<and> has_key T ?k)"
    proof
      assume a: "prefix ?np q \<and> has_key T ?k"
      then have "matches (old @ ''/%'') ?k" using T(2) by simp
      moreover obtain c md i t where "fmlookup T ?k = Some (c, md, i, t)" using a by (auto simp: has_key_def)
      ultimately have r: "\<lparr>sr_path = ?k, sr_content = c, sr_mode = md, sr_isDir = i, sr_mtime = t\<rparr> \<in> set rs" (is "?r \<in> _")
        by (simp add: mem row_cols_def)
      have "?g ?r = q" using g [OF r] a by (auto simp: new_key_def prefix_def)
      then show False using False r by blast
    qed
    then show ?thesis using F T(2) [of q] by (cases "fmlookup T q") (auto simp: relocate_def has_key_def)
  qed
qed

text \<open>Whatever a pattern selects is not in the table after the renaming of a directory.\<close>

lemma rename_entry_selected:
  assumes "open_tx n tx" "rename_entry E D n old new tx = (None, tx')"
    "fmlookup (tx_table n tx) old = Some (c, md, True, mt)" "matches (old @ ''/%'') q"
  shows "fmlookup (tx_table n tx') q = None"
  using assms(1,2)
proof (rule rename_entry_ok)
  fix c' md' i mt' t1
  assume src: "fmlookup (tx_table n tx) old = Some (c', md', i, mt')" and t1: "open_tx n t1"
    and r: "if i then renameChildren E D n old new t1 = (None, tx') else tx' = t1"
  have "renameChildren E D n old new t1 = (None, tx')" using src r assms(3) by simp
  from t1 this show ?thesis
  proof (rule renameChildren_ok)
    fix rs
    assume "tx_table n tx' = fmfilter (\<lambda>q. \<not> matches (old @ ''/%'') q)
       (fold (\<lambda>r. fmupd (sr_path (moved_child E (old @ ''/'') (new @ ''/'') r)) (row_cols r)) rs (tx_table n t1))"
    then show ?thesis using assms(4) by simp
  qed
qed

text \<open>No row moved below a destination that is not shorter than the source lands on the source.\<close>

lemma rename_entry_source:
  assumes "open_tx n tx" "rename_entry E D n old new tx = (None, tx')" "length old \<le> length new" "go_runtime E"
  shows "fmlookup (tx_table n tx') old = None"
  using assms(1,2)
proof (rule rename_entry_ok)
  fix c md i mt t1
  assume T1: "tx_table n t1 = fmdrop old (fmupd new (c, md, i, mt) (tx_table n tx))" and t1: "open_tx n t1"
    and r: "if i then renameChildren E D n old new t1 = (None, tx') else tx' = t1"
  show ?thesis
  proof (cases i)
    case True
    then have "renameChildren E D n old new t1 = (None, tx')" using r by simp
    from t1 this show ?thesis
    proof (rule renameChildren_ok)
      fix rs
      let ?f = "\<lambda>r. sr_path (moved_child E (old @ ''/'') (new @ ''/'') r)"
      assume "tx_table n tx' = fmfilter (\<lambda>q. \<not> matches (old @ ''/%'') q)
         (fold (\<lambda>r. fmupd (?f r) (row_cols r)) rs (tx_table n t1))"
      moreover have "old \<notin> ?f ` set rs"
        using assms(3) by (auto simp: moved_child_def go_runtime.Concat_eq [OF assms(4)] dest: arg_cong [of _ _ length])
      ultimately show ?thesis
        using T1 by (simp add: fold_fmupd_other [where g = ?f])
    qed
  qed (use r T1 in simp)
qed

end

subsection \<open>Writing, deleting and renaming\<close>

text \<open>
  C22: a successful write to a clean path makes it a file: it reads back with the content, \<open>Stat\<close> reports its
  size, mode and time, and a path with another key reads as before.  This holds also when the
  path was a directory, whose children stay in the table.  A write that fails changes nothing.
\<close>

theorem sqlite_Write_Read:
  assumes "go_runtime E" "sqlite_library D table live tx_table open_tx matches"
    "in_use live m" "norm_path p" "Sqlite_WriteMode E D now p c mode m = (e, m')"
  shows "in_use live m' \<and>
    (e = None \<longrightarrow> Sqlite_Read E D p m' = Inr c \<and> Sqlite_IsFile E D p m' \<and> \<not> Sqlite_IsDir E D p m' \<and>
       Sqlite_Stat E D p m' = Inr (NewFileInfo (path_base p) (int (length c)) mode now False)) \<and>
    (e \<noteq> None \<longrightarrow> table_of table m' = table_of table m) \<and>
    (\<forall>q. entryKey E q \<noteq> p \<or> e \<noteq> None \<longrightarrow> Sqlite_Read E D q m' = Sqlite_Read E D q m)"
proof -
  have k: "entryKey E p = p" "p \<noteq> ''''"
    using go_runtime.entryKey_norm [OF assms(1,4)] norm_path_not_Nil [OF assms(4)] by simp_all
  note look = sqlite_library.Read_lookup [OF assms(2)] sqlite_library.IsFile_lookup [OF assms(2)]
    sqlite_library.IsDir_lookup [OF assms(2)] sqlite_library.Stat_lookup [OF assms(2)]
  show ?thesis
  proof (rule sqlite_library.WriteMode_cases [OF assms(2,3,5)], goal_cases bad failed stored)
    case stored
    then show ?thesis using k assms(1,3) by (auto simp: look go_runtime.PathBase_eq)
  qed (use k assms(3) in \<open>auto simp: look\<close>)
qed

text \<open>The medium over the table in memory, holding the rows of a list.\<close>

definition sample_sqlite :: "(string \<times> cols) list \<Rightarrow> (string, cols) fmap sqlite_medium" where
  "sample_sqlite xs = \<lparr>sq_database = fmap_of_list xs, sq_table = ''files''\<rparr>"

lemma norm_examples: "norm_path ''a/b''" "norm_path ''a_b''" "norm_path ''docs''" "norm_path ''Docs''" "norm_path ''a''" "norm_path ''c''"
  by code_simp+

theorem sqlite_Write_Read_witness:
  "Sqlite_Read go_core mem_sqlite ''a/b''
     (snd (Sqlite_WriteMode go_core mem_sqlite 7 ''a/b'' ''text'' 384 (sample_sqlite [(''a/b'', '''', 493, True, 3)])))
   = Inr ''text''"
proof -
  let ?r = "Sqlite_WriteMode go_core mem_sqlite 7 ''a/b'' ''text'' 384 (sample_sqlite [(''a/b'', '''', 493, True, 3)])"
  have "fst ?r = None"
    by (simp add: Sqlite_WriteMode_def Let_def core.entryKey_norm norm_examples wrap_exec_def on_db_def mem_sqlite_def)
  then have "?r = (None, snd ?r)" by (metis prod.collapse)
  from sqlite_Write_Read [OF go_core_ok mem_sqlite_ok TrueI norm_examples(1) this] show ?thesis by simp
qed

text \<open>
  C25: if all names are ASCII, the key is not empty and has no wildcard and no row lies below another spelling of it by case, a successful
  \<open>DeleteAll\<close> removes exactly the row of the key and those below it, and there was one; a call
  that fails changes nothing, and fails with \<open>fs.ErrNotExist\<close> only if there was none.
\<close>

theorem sqlite_DeleteAll:
  assumes "go_runtime E" "sqlite_library D table live tx_table open_tx matches"
    "in_use live m" "entryKey E p = k" "k \<noteq> ''''" "plain_key k (keys_of (table_of table m))"
    "Sqlite_DeleteAll E D p m = (e, m')"
  shows "in_use live m' \<and>
    (e = None \<longrightarrow> (\<exists>q. has_key (table_of table m) q \<and> at_or_below k q) \<and>
       table_of table m' = fmfilter (\<lambda>q. \<not> at_or_below k q) (table_of table m)) \<and>
    (e \<noteq> None \<longrightarrow> table_of table m' = table_of table m) \<and>
    (e = Some (CoreE ''sqlite.DeleteAll'' [''path not found: '', k] (Some ErrNotExist)) \<longrightarrow>
       \<not> (\<exists>q. has_key (table_of table m) q \<and> at_or_below k q))"
proof -
  let ?T = "table_of table m"
  let ?gone = "\<lambda>q. q = k \<or> matches (k @ ''/%'') q"
  have eq: "?gone q \<longleftrightarrow> at_or_below k q" if "has_key ?T q" for q
    using sqlite_library.matches_plain [OF assms(2,6), of q] that by (auto simp: at_or_below_def)
  have "fmfilter (\<lambda>q. \<not> ?gone q) ?T = fmfilter (\<lambda>q. \<not> at_or_below k q) ?T"
  proof (rule fmap_eqI)
    fix q show "fmlookup (fmfilter (\<lambda>q. \<not> ?gone q) ?T) q = fmlookup (fmfilter (\<lambda>q. \<not> at_or_below k q) ?T) q"
      using eq [of q] by (cases "fmlookup ?T q") (auto simp: has_key_def)
  qed
  moreover have "(\<exists>q. has_key ?T q \<and> ?gone q) \<longleftrightarrow> (\<exists>q. has_key ?T q \<and> at_or_below k q)" using eq by blast
  ultimately show ?thesis
    using sqlite_library.DeleteAll_cases [OF assms(2,3,7)] assms(4,5)
    by (auto simp: msgSQLitePathNotFound_def)
qed

theorem sqlite_DeleteAll_witness:
  "sq_database (snd (Sqlite_DeleteAll go_core mem_sqlite ''docs''
      (sample_sqlite [(''docs/f'', ''data'', 420, False, 1), (''c'', ''x'', 420, False, 2)])))
     = fmfilter (\<lambda>q. \<not> at_or_below ''docs'' q) (fmap_of_list [(''docs/f'', ''data'', 420, False, 1), (''c'', ''x'', 420, False, 2)])"
proof -
  let ?m = "sample_sqlite [(''docs/f'', ''data'', 420, False, 1), (''c'', ''x'', 420, False, 2)]"
  let ?r = "Sqlite_DeleteAll go_core mem_sqlite ''docs'' ?m"
  have k: "entryKey go_core ''docs'' = ''docs''" by (simp add: core.entryKey_norm norm_examples)
  have "fst ?r = None" by code_simp
  then have r: "?r = (None, snd ?r)" by (metis prod.collapse)
  have T: "has_key (sq_database ?m) q \<longleftrightarrow> q \<in> {''docs/f'', ''c''}" for q
    by (auto simp: sample_sqlite_def has_key_def fmlookup_of_list)
  have "plain_key ''docs'' {''docs/f'', ''c''}"
    by (simp add: plain_key_def ascii_def wild_def lower_char_def)
  then have plain: "plain_key ''docs'' (keys_of (sq_database ?m))"
    by (simp only: T Collect_mem_eq)
  have "sq_database ?m = fmap_of_list [(''docs/f'', ''data'', 420, False, 1), (''c'', ''x'', 420, False, 2)]"
    by (simp add: sample_sqlite_def)
  then show ?thesis
    using sqlite_DeleteAll [OF go_core_ok mem_sqlite_ok TrueI k _ plain r] by simp
qed

lemma fcard_pos: "a |\<in>| A \<Longrightarrow> 0 < fcard A"
  by (auto simp: fcard.rep_eq card_gt_0_iff)

lemma like_common: "like p s \<Longrightarrow> like (a @ p) (a @ s)"
proof (induction a)
  case (Cons x a)
  then show ?case using like_more [of "a @ p" "a @ s"] by simp
qed simp

lemma sqlite_wildcard_match:
  assumes "sqlite_library D table live tx_table open_tx matches" "ascii (x @ [c] @ y @ r)"
  shows "matches ((x @ ''_'' @ y) @ ''/%'') (x @ [c] @ y @ ''/'' @ r)"
proof -
  have "like (x @ ''_'' @ y @ ''/'' @ ''%'') (x @ [c] @ y @ ''/'' @ r)"
    by (rule like_common) (use like_common [of "''/'' @ ''%''" "''/'' @ r" y] in simp)
  moreover have "ascii ((x @ ''_'' @ y) @ ''/%'')" "ascii (x @ [c] @ y @ ''/'' @ r)"
    using assms(2) by (simp_all add: ascii_def)
  ultimately show ?thesis using sqlite_library.matches_like [OF assms(1)] by simp
qed

text \<open>
  A wildcard in the name of a directory selects foreign rows.  \<open>DeleteAll\<close> of \<open>x_y\<close> also removes a
  file below \<open>xcy\<close>, for any character \<open>c\<close>, and \<open>Delete\<close> refuses to remove the directory \<open>x_y\<close> as not
  empty although nothing is below it.
\<close>

theorem sqlite_wildcards:
  assumes "go_runtime E" "sqlite_library D table live tx_table open_tx matches"
    "in_use live m" "entryKey E p = x @ ''_'' @ y" "ascii (x @ [c] @ y @ r)" "c \<noteq> CHR ''_''"
    "has_key (table_of table m) (x @ [c] @ y @ ''/'' @ r)"
  shows "\<not> at_or_below (x @ ''_'' @ y) (x @ [c] @ y @ ''/'' @ r) \<and>
    (\<forall>m'. Sqlite_DeleteAll E D p m = (None, m') \<longrightarrow> \<not> has_key (table_of table m') (x @ [c] @ y @ ''/'' @ r)) \<and>
    (\<forall>md t. fmlookup (table_of table m) (x @ ''_'' @ y) = Some ('''', md, True, t) \<longrightarrow>
       Sqlite_Delete E D p m
         = (Some (CoreE ''sqlite.Delete'' [''directory not empty: '', x @ ''_'' @ y] (Some ErrExist)), m))"
proof (intro conjI allI impI)
  let ?k = "x @ ''_'' @ y" and ?q = "x @ [c] @ y @ ''/'' @ r"
  have k: "entryKey E p = ?k" "entryKey E p \<noteq> ''''" using assms(4) by simp_all
  have match: "matches (?k @ ''/%'') ?q" by (rule sqlite_wildcard_match [OF assms(2,5)])
  show "\<not> at_or_below ?k ?q"
    using assms(6) by (auto simp: at_or_below_def)
  show "\<not> has_key (table_of table m') ?q" if "Sqlite_DeleteAll E D p m = (None, m')" for m'
    using sqlite_library.DeleteAll_cases [OF assms(2,3) that k(2)] k(1) match by auto
  let ?A = "ffilter (\<lambda>q. matches (?k @ ''/%'') q \<and> q \<noteq> ?k) (fmdom (table_of table m))"
  have "?q |\<in>| ?A" using match assms(6,7) by (simp add: has_key_dom)
  then have "0 < fcard ?A" by (rule fcard_pos)
  then show "Sqlite_Delete E D p m = (Some (CoreE ''sqlite.Delete'' [''directory not empty: '', ?k] (Some ErrExist)), m)"
    if "fmlookup (table_of table m) ?k = Some ('''', md, True, t)" for md t
    using that k(1) sqlite_library.is_dir_eq [OF assms(2,3), of ?k]
      sqlite_library.count_like_eq [OF assms(2,3), of "?k @ ''/%''" ?k]
    by (simp add: Sqlite_Delete_def Let_def)
qed

theorem sqlite_wildcards_witness:
  "\<not> has_key (sq_database (snd (Sqlite_DeleteAll go_core mem_sqlite ''a_b''
      (sample_sqlite [(''a_b'', '''', 493, True, 1), (''axb/f'', ''data'', 420, False, 1)])))) ''axb/f''"
proof -
  let ?m = "sample_sqlite [(''a_b'', '''', 493, True, 1), (''axb/f'', ''data'', 420, False, 1)]"
  let ?r = "Sqlite_DeleteAll go_core mem_sqlite ''a_b'' ?m"
  have k: "entryKey go_core ''a_b'' = ''a'' @ ''_'' @ ''b''" by (simp add: core.entryKey_norm norm_examples)
  have "fst ?r = None" by code_simp
  then have r: "?r = (None, snd ?r)" by (metis prod.collapse)
  have "ascii (''a'' @ ''x'' @ ''b'' @ ''f'')" by code_simp
  moreover have "has_key (sq_database ?m) (''a'' @ ''x'' @ ''b'' @ ''/'' @ ''f'')" by (simp add: sample_sqlite_def has_key_def)
  ultimately show ?thesis
    using sqlite_wildcards [OF go_core_ok mem_sqlite_ok TrueI k, of "CHR ''x''" "''f''" ?m] r by simp
qed

text \<open>
  C23: a rename is atomic: on an error the table is as it was.  On success the source had a row.  If that was a
  file, the table is now the old one with this row, its content, mode and time included, put at the destination
  and then removed from the source, in this order: a file renamed to its own path is deleted.  If it was a
  directory whose name, like those of all rows and the destination, is ASCII, which has no wildcard of LIKE,
  below no other spelling of which by case there is a row, and which even up to case is neither at nor above nor
  below the destination, then the same was done to its row, and every row below it is now at the same place below the
  destination and no other row has changed.  Of other directories nothing more is said here.
\<close>

theorem sqlite_Rename:
  assumes "go_runtime E" "sqlite_library D table live tx_table open_tx matches"
    "in_use live m" "entryKey E p = old" "entryKey E p' = new"
    "Sqlite_Rename E D p p' m = (e, m')"
  shows "in_use live m' \<and> (e \<noteq> None \<longrightarrow> table_of table m' = table_of table m) \<and>
    (e = None \<longrightarrow> (\<exists>c md i mt. fmlookup (table_of table m) old = Some (c, md, i, mt) \<and>
      (let T1 = fmdrop old (fmupd new (c, md, i, mt) (table_of table m))
       in if \<not> i then table_of table m' = T1
          else plain_key old (keys_of (table_of table m)) \<and> ascii new \<and>
               lower_case (old @ ''/'') \<parallel> lower_case (new @ ''/'') \<longrightarrow>
             (\<forall>q. fmlookup (table_of table m') q = relocate (old @ ''/'') (new @ ''/'') T1 q))))"
proof (rule sqlite_library.Rename_cases [OF assms(2,3,6)], goal_cases error ok)
  case (ok tx tx')
  let ?n = "sq_table m" and ?T = "table_of table m"
  have r: "rename_entry E D ?n old new tx = (None, tx')" using ok(7) assms(4,5) by simp
  show ?case
  proof (rule sqlite_library.rename_entry_ok [OF assms(2) ok(5) r], goal_cases)
    case (1 c md i mt t1)
    let ?T1 = "fmdrop old (fmupd new (c, md, i, mt) ?T)"
    have src: "fmlookup ?T old = Some (c, md, i, mt)" and t1: "tx_table ?n t1 = ?T1"
      using 1(1,4) ok(6) by simp_all
    have result: "let T1 = ?T1 in if \<not> i then table_of table m' = T1
          else plain_key old (keys_of ?T) \<and> ascii new \<and> lower_case (old @ ''/'') \<parallel> lower_case (new @ ''/'') \<longrightarrow>
             (\<forall>q. fmlookup (table_of table m') q = relocate (old @ ''/'') (new @ ''/'') T1 q)"
    proof (cases i)
      case True
      then have "\<not> \<not> i" by simp
      show ?thesis unfolding Let_def if_not_P [OF \<open>\<not> \<not> i\<close>]
      proof (intro impI allI, elim conjE)
        fix q
        assume plain: "plain_key old (keys_of ?T)" and new: "ascii new" "lower_case (old @ ''/'') \<parallel> lower_case (new @ ''/'')"
        have "\<not> prefix (lower_case (old @ ''/'')) (lower_case new)"
          using new(2) by (metis map_append parallelE prefix_order.trans prefixI)
        then have plain1: "plain_key old (keys_of ?T1)"
          using plain new(1) by (auto simp: plain_key_def)
        from True 1(5) have "renameChildren E D ?n old new t1 = (None, tx')" by simp
        then show "fmlookup (table_of table m') q = relocate (old @ ''/'') (new @ ''/'') ?T1 q"
        proof (rule sqlite_library.renameChildren_ok [OF assms(2) 1(2)], goal_cases)
          case (1 rs)
          then show ?case
            using sqlite_library.moved_table [OF assms(2,1) _ plain1 new] t1 ok(9) by simp
        qed
      qed
    qed (use 1(5) t1 ok(9) in \<open>simp\<close>)
    show ?case using ok(1,2) src result by blast
  qed
next
  case error
  then show ?case by (intro conjI impI) auto
qed

theorem sqlite_Rename_witness:
  "fmlookup (sq_database (snd (Sqlite_Rename go_core mem_sqlite ''docs'' ''c''
      (sample_sqlite [(''docs'', '''', 493, True, 1), (''docs/f'', ''data'', 420, False, 1)])))) ''c/f''
     = Some (''data'', 420, False, 1)"
proof -
  let ?m = "sample_sqlite [(''docs'', '''', 493, True, 1), (''docs/f'', ''data'', 420, False, 1)]"
  let ?r = "Sqlite_Rename go_core mem_sqlite ''docs'' ''c'' ?m"
  have k: "entryKey go_core ''docs'' = ''docs''" "entryKey go_core ''c'' = ''c''"
    by (simp_all add: core.entryKey_norm norm_examples)
  have "fst ?r = None" by code_simp
  then have r: "?r = (None, snd ?r)" by (metis prod.collapse)
  have T: "sq_database ?m = fmap_of_list [(''docs'', '''', 493, True, 1), (''docs/f'', ''data'', 420, False, 1)]"
    by (simp add: sample_sqlite_def)
  have "plain_key ''docs'' {''docs'', ''docs/f''}"
    by (simp add: plain_key_def ascii_def wild_def lower_char_def)
  then have plain: "plain_key ''docs'' (keys_of (sq_database ?m))"
    by (rule plain_key_mono) (auto simp: T has_key_def fmlookup_of_list split: if_splits)
  have names: "ascii ''c''" "lower_case (''docs'' @ ''/'') \<parallel> lower_case (''c'' @ ''/'')"
    by (simp_all add: ascii_def parallel_def lower_char_def)
  obtain c md i mt where src: "fmlookup (sq_database ?m) ''docs'' = Some (c, md, i, mt)"
    and res: "let T1 = fmdrop ''docs'' (fmupd ''c'' (c, md, i, mt) (sq_database ?m))
       in if \<not> i then sq_database (snd ?r) = T1
          else plain_key ''docs'' (keys_of (sq_database ?m)) \<and> ascii ''c'' \<and>
               lower_case (''docs'' @ ''/'') \<parallel> lower_case (''c'' @ ''/'') \<longrightarrow>
             (\<forall>q. fmlookup (sq_database (snd ?r)) q = relocate (''docs'' @ ''/'') (''c'' @ ''/'') T1 q)"
    using sqlite_Rename [OF go_core_ok mem_sqlite_ok TrueI k r] by blast
  have "\<not> \<not> i" using src by (simp add: T fmlookup_of_list)
  have "fmlookup (sq_database (snd ?r)) ''c/f'' = relocate (''docs'' @ ''/'') (''c'' @ ''/'')
      (fmdrop ''docs'' (fmupd ''c'' (c, md, i, mt) (sq_database ?m))) ''c/f''"
    using res [unfolded Let_def if_not_P [OF \<open>\<not> \<not> i\<close>]] plain names by blast
  also have "\<dots> = Some (''data'', 420, False, 1)" by (simp add: T relocate_def has_key_def)
  finally show ?thesis .
qed

text \<open>
  C24: a directory is lost when a call that renames it to itself, to a name that differs only by case, or to a place
  below itself (up to case) succeeds, all names being ASCII and that of the directory without the wildcards of LIKE: the
  table has no row at the source, and none with an ASCII name below the source or below the destination.
\<close>

theorem sqlite_Rename_loses:
  assumes "go_runtime E" "sqlite_library D table live tx_table open_tx matches"
    "in_use live m" "entryKey E p = old" "entryKey E p' = new"
    "fmlookup (table_of table m) old = Some (c, md, True, mt)" "Sqlite_Rename E D p p' m = (None, m')"
    "ascii old" "ascii new" "\<not> wild old" "at_or_below (lower_case old) (lower_case new)" "ascii r"
  shows "fmlookup (table_of table m') old = None \<and>
    fmlookup (table_of table m') (old @ ''/'' @ r) = None \<and>
    fmlookup (table_of table m') (new @ ''/'' @ r) = None"
proof (rule sqlite_library.Rename_cases [OF assms(2,3,7)], goal_cases error ok)
  case (ok tx tx')
  let ?n = "sq_table m"
  have r: "rename_entry E D ?n old new tx = (None, tx')" using ok(7) assms(4,5) by simp
  have "fmlookup (tx_table ?n tx) old = Some (c, md, True, mt)" using assms(6) ok(6) by simp
  note gone = sqlite_library.rename_entry_selected [OF assms(2) ok(5) r this]
  have match: "matches (old @ ''/%'') q \<longleftrightarrow> prefix (lower_case (old @ ''/'')) (lower_case q)" if "ascii q" for q
  proof -
    have "\<not> wild (old @ ''/'')" using assms(10) by (auto simp: wild_def)
    from like_plain_prefix [OF this, of q] show ?thesis
      using sqlite_library.matches_like [OF assms(2), of "old @ ''/%''" q] assms(8) that by simp
  qed
  have "prefix (lower_case (old @ ''/'')) (lower_case (new @ ''/'' @ r))"
    using assms(11) by (auto simp: at_or_below_def prefix_def)
  then have "matches (old @ ''/%'') (new @ ''/'' @ r)" using match [of "new @ ''/'' @ r"] assms(9,12) by simp
  moreover have "matches (old @ ''/%'') (old @ ''/'' @ r)" using match [of "old @ ''/'' @ r"] assms(8,12) by simp
  moreover have "length old \<le> length new"
    using assms(11) by (auto simp: at_or_below_def prefix_def dest: arg_cong [of _ _ length])
  from sqlite_library.rename_entry_source [OF assms(2) ok(5) r this assms(1)]
  have "fmlookup (tx_table ?n tx') old = None" .
  ultimately show ?case using gone ok(9) by simp
qed simp

theorem sqlite_Rename_loses_witness:
  "fmlookup (sq_database (snd (Sqlite_Rename go_core mem_sqlite ''docs'' ''Docs''
      (sample_sqlite [(''docs'', '''', 493, True, 1), (''docs/f'', ''data'', 420, False, 1)])))) ''Docs/f'' = None"
proof -
  let ?m = "sample_sqlite [(''docs'', '''', 493, True, 1), (''docs/f'', ''data'', 420, False, 1)]"
  let ?r = "Sqlite_Rename go_core mem_sqlite ''docs'' ''Docs'' ?m"
  have k: "entryKey go_core ''docs'' = ''docs''" "entryKey go_core ''Docs'' = ''Docs''"
    by (simp_all add: core.entryKey_norm norm_examples)
  have "fst ?r = None" by code_simp
  then have r: "?r = (None, snd ?r)" by (metis prod.collapse)
  have src: "fmlookup (sq_database ?m) ''docs'' = Some ('''', 493, True, 1)" by (simp add: sample_sqlite_def fmlookup_of_list)
  have "ascii ''docs''" "ascii ''Docs''" "\<not> wild ''docs''" "at_or_below (lower_case ''docs'') (lower_case ''Docs'')" "ascii ''f''"
    by code_simp+
  from sqlite_Rename_loses [OF go_core_ok mem_sqlite_ok TrueI k src r this] show ?thesis by simp
qed

subsection \<open>Listing\<close>

text \<open>What a row adds to the listing of the paths that start with \<open>pre\<close>.\<close>

definition implicit_dir :: "string \<Rightarrow> dir_entry" where
  "implicit_dir name =
     NewDirEntry name True (ModeDir OR 493) (NewFileInfo name 0 (ModeDir OR 493) zero_time True)"

definition row_cand :: "string \<Rightarrow> sqlite_row \<Rightarrow> (string \<times> dir_entry) option" where
  "row_cand pre r =
     (let rest = trim_prefix (sr_path r) pre; name = takeWhile (\<lambda>x. x \<noteq> slash) rest
      in if rest = '''' then None
         else if slash \<in> set rest then Some (name, implicit_dir name)
         else Some (rest, sqlite_entry rest (sr_content r) (sr_mode r) (sr_isDir r) (sr_mtime r)))"

lemma row_cand_named: "named (cands (row_cand pre) A)"
  by (auto simp: named_def cands_def row_cand_def Let_def implicit_dir_def sqlite_entry_def split: if_splits)

context go_runtime
begin

lemma appendSQLiteListEntry_eq: "appendSQLiteListEntry E pre r = add_cand (row_cand pre r)"
  by (rule ext) (simp add: appendSQLiteListEntry_def row_cand_def Let_def appendSQLiteDirEntry_def
      implicit_dir_def split2_def)

end

lemma row_below:
  assumes mem: "\<And>r. r \<in> set rs \<longleftrightarrow> fmlookup T (sr_path r) = Some (row_cols r) \<and> prefix pre (sr_path r)"
    and "r \<in> set rs"
  shows "\<exists>rest. sr_path r = pre @ rest \<and> trim_prefix (sr_path r) pre = rest \<and> has_key T (pre @ rest)"
  using assms(2) mem [of r] has_key_Some [of T "sr_path r" "row_cols r"] by (auto simp: prefix_def trim_prefix_def)

text \<open>The names and the entries the rows below a prefix offer.\<close>

lemma row_cand_names:
  assumes mem: "\<And>r. r \<in> set rs \<longleftrightarrow> fmlookup T (sr_path r) = Some (row_cols r) \<and> prefix pre (sr_path r)"
    and rest: "\<And>rest. has_key T (pre @ rest) \<Longrightarrow> rest \<noteq> ''''"
  shows "fst ` cands (row_cand pre) (set rs) = {takeWhile (\<lambda>x. x \<noteq> slash) rest |rest. has_key T (pre @ rest)}"
    (is "?L = ?R")
proof (intro equalityI subsetI)
  fix n assume "n \<in> ?L"
  then obtain r e where "r \<in> set rs" "row_cand pre r = Some (n, e)" by (auto simp: cands_def)
  with row_below [OF mem, of r] show "n \<in> ?R" by (auto simp: row_cand_def Let_def split: if_splits) (metis takeWhile_no_sep)
next
  fix n assume "n \<in> ?R"
  then obtain rest where n: "n = takeWhile (\<lambda>x. x \<noteq> slash) rest" "has_key T (pre @ rest)" by blast
  obtain c md i t where cols: "fmlookup T (pre @ rest) = Some (c, md, i, t)" using n(2) by (auto simp: has_key_def)
  let ?r = "\<lparr>sr_path = pre @ rest, sr_content = c, sr_mode = md, sr_isDir = i, sr_mtime = t\<rparr>"
  have "?r \<in> set rs" using cols by (simp add: mem row_cols_def)
  moreover have "\<exists>e. row_cand pre ?r = Some (n, e)"
    using rest [OF n(2)] n(1) by (simp add: row_cand_def Let_def trim_prefix_def)
  ultimately show "n \<in> ?L" by (force simp: cands_def image_iff)
qed

lemma row_cand_entry:
  assumes mem: "\<And>r. r \<in> set rs \<longleftrightarrow> fmlookup T (sr_path r) = Some (row_cols r) \<and> prefix pre (sr_path r)"
    and e: "e \<in> snd ` cands (row_cand pre) (set rs)"
  shows "(\<exists>r. has_key T (pre @ de_name e @ ''/'' @ r)) \<and> e = implicit_dir (de_name e) \<or>
    (\<exists>c md i t. fmlookup T (pre @ de_name e) = Some (c, md, i, t) \<and> e = sqlite_entry (de_name e) c md i t)"
proof -
  obtain r n where r: "r \<in> set rs" "row_cand pre r = Some (n, e)" using e by (auto simp: cands_def)
  have n: "de_name e = n" using r row_cand_named [of pre "set rs"] by (auto simp: named_def cands_def)
  obtain rest where p: "sr_path r = pre @ rest" "trim_prefix (sr_path r) pre = rest" "has_key T (pre @ rest)"
    using row_below [OF mem r(1)] by blast
  show ?thesis
  proof (cases "slash \<in> set rest")
    case True
    have "n = takeWhile (\<lambda>x. x \<noteq> slash) rest" "e = implicit_dir n"
      using r(2) p(2) True by (auto simp: row_cand_def Let_def split: if_splits)
    moreover obtain s where "rest = takeWhile (\<lambda>x. x \<noteq> slash) rest @ slash # s"
      using takeWhile_at_slash [OF True] by blast
    ultimately have "rest = de_name e @ ''/'' @ s" "e = implicit_dir (de_name e)" using n by simp_all
    then show ?thesis using p(3) by blast
  next
    case False
    then have "n = rest" "e = sqlite_entry rest (sr_content r) (sr_mode r) (sr_isDir r) (sr_mtime r)"
      using r(2) p(2) by (auto simp: row_cand_def Let_def split: if_splits)
    moreover have "fmlookup T (pre @ rest) = Some (row_cols r)" using mem r(1) p(1) by simp
    ultimately show ?thesis using n by (auto simp: row_cols_def)
  qed
qed

text \<open>
  In a table of clean ASCII paths, the listing of the root or of a plain key has the first component of
  every path below it as a name, each exactly once; the entry is the row of that path, or, when
  there is a row below it, possibly a directory made up from its name.
\<close>

theorem sqlite_List:
  assumes "go_runtime E" "sqlite_library D table live tx_table open_tx matches"
    "in_use live m" "entryKey E p = k" "\<forall>q. has_key (table_of table m) q \<longrightarrow> norm_path q \<and> ascii q"
    "k = '''' \<or> plain_key k (keys_of (table_of table m))" "pre = (if k = '''' then '''' else k @ ''/'')"
  shows "\<exists>es. Sqlite_List E D p m = Inr es \<and> distinct (map de_name es) \<and>
    de_name ` set es = {takeWhile (\<lambda>x. x \<noteq> slash) rest |rest. has_key (table_of table m) (pre @ rest)} \<and>
    (\<forall>e\<in>set es.
       (\<exists>r. has_key (table_of table m) (pre @ de_name e @ ''/'' @ r)) \<and> e = implicit_dir (de_name e) \<or>
       (\<exists>c md i t. fmlookup (table_of table m) (pre @ de_name e) = Some (c, md, i, t) \<and>
          e = sqlite_entry (de_name e) c md i t))"
proof -
  let ?T = "table_of table m"
  obtain rs where q: "q_rows_like D (sq_table m) (pre @ ''%'') (sq_database m) = Inr (map Inr rs, None)"
    and rs: "rows_of ?T (matches (pre @ ''%'')) rs"
    using sqlite_library.rows_like [OF assms(2,3)] by blast
  have pre: "matches (pre @ ''%'') k' \<longleftrightarrow> prefix pre k'" if "has_key ?T k'" for k'
  proof (cases "k = ''''")
    case True
    then show ?thesis using assms(5,7) that sqlite_library.matches_all [OF assms(2), of k'] by simp
  next
    case False
    then show ?thesis using assms(6,7) that sqlite_library.matches_plain [OF assms(2), of k "keys_of ?T" k'] by simp
  qed
  have mem: "r \<in> set rs \<longleftrightarrow> fmlookup ?T (sr_path r) = Some (row_cols r) \<and> prefix pre (sr_path r)" for r
  proof -
    have "r \<in> set rs \<longleftrightarrow> fmlookup ?T (sr_path r) = Some (row_cols r) \<and> matches (pre @ ''%'') (sr_path r)"
      using rs by (simp add: rows_of_def)
    then show ?thesis using pre [of "sr_path r"] has_key_Some [of ?T "sr_path r" "row_cols r"] by blast
  qed
  define acc where "acc = fold (\<lambda>r. add_cand (row_cand pre r)) rs ({}, [])"
  have key: "(if entryKey E p \<noteq> '''' then entryKey E p @ ''/'' else entryKey E p) = pre"
    using assms(4,7) by simp
  have f: "fold (appendSQLiteListEntry E pre) rs ({}, []) = acc"
  proof -
    have "appendSQLiteListEntry E pre = (\<lambda>r. add_cand (row_cand pre r))"
      by (rule ext) (rule go_runtime.appendSQLiteListEntry_eq [OF assms(1)])
    then show ?thesis by (simp add: acc_def)
  qed
  have List: "Sqlite_List E D p m = Inr (snd acc)"
    unfolding Sqlite_List_def Let_def key q read_rows_ok f by (cases acc) simp
  have "offered {} ({}, [])" by (simp add: offered_def)
  from offered_fold [OF this row_cand_named [of pre]] have off: "offered (cands (row_cand pre) (set rs)) acc"
    by (simp add: acc_def)
  have rest: "rest \<noteq> ''''" if "has_key ?T (pre @ rest)" for rest
  proof
    assume "rest = ''''"
    then have "norm_path pre" using that assms(5) by simp
    then show False using assms(7) by (cases "k = ''''") (auto simp: norm_path_def good_elem_def split_on_snoc)
  qed
  note cands = row_cand_names [OF mem rest]
  have "e \<in> set (snd acc) \<Longrightarrow> e \<in> snd ` cands (row_cand pre) (set rs)" for e
    using off by (auto simp: offered_def)
  note entry = row_cand_entry [OF mem this]
  have "distinct (map de_name (snd acc))" "de_name ` set (snd acc) = fst ` cands (row_cand pre) (set rs)"
    using off by (simp_all add: offered_def)
  then show ?thesis using List cands entry by auto
qed

theorem sqlite_List_witness:
  "\<exists>es. Sqlite_List go_core mem_sqlite ''docs'' (sample_sqlite [(''docs'', '''', 493, True, 1), (''docs/f'', ''data'', 420, False, 1)])
     = Inr es \<and> de_name ` set es = {''f''}"
proof -
  let ?m = "sample_sqlite [(''docs'', '''', 493, True, 1), (''docs/f'', ''data'', 420, False, 1)]"
  have T: "has_key (sq_database ?m) q \<longleftrightarrow> q \<in> {''docs'', ''docs/f''}" for q
    by (auto simp: sample_sqlite_def has_key_def fmlookup_of_list)
  have "norm_path ''docs'' \<and> ascii ''docs''" "norm_path ''docs/f'' \<and> ascii ''docs/f''" by code_simp+
  then have ok: "\<forall>q. has_key (sq_database ?m) q \<longrightarrow> norm_path q \<and> ascii q" unfolding T by blast
  have "plain_key ''docs'' {''docs'', ''docs/f''}"
    by (simp add: plain_key_def ascii_def wild_def lower_char_def)
  then have plain: "''docs'' = '''' \<or> plain_key ''docs'' (keys_of (sq_database ?m))"
    by (simp only: T Collect_mem_eq simp_thms)
  have k: "entryKey go_core ''docs'' = ''docs''" by (simp add: core.entryKey_norm norm_examples)
  have pre: "''docs/'' = (if ''docs'' = '''' then '''' else ''docs'' @ ''/'')" by simp
  have "{takeWhile (\<lambda>x. x \<noteq> slash) rest |rest. has_key (sq_database ?m) (''docs/'' @ rest)} = {''f''}"
    unfolding T by auto
  then show ?thesis
    using sqlite_List [OF go_core_ok mem_sqlite_ok TrueI k ok plain pre] by metis
qed

end
