(* ===== verification/S3.thy ===== *)
theory S3
  imports Medium
begin

text \<open>
  Package \<open>s3\<close>: the medium of \<open>go/s3/s3.go\<close> over the objects of a bucket, and the action handlers of
  \<open>go/s3/actions.go\<close>.  The service behind the interface \<open>Client\<close> is not part of the repository: the
  record \<open>s3_client\<close> holds the methods of the interface on a state \<open>'b\<close> of the service, with the
  fields of their inputs and outputs that the code uses.  A pointer that may be nil is an option.
\<close>

subsection \<open>The client\<close>

record s3_object =
  ob_Key :: "string option"
  ob_Size :: "int option"
  ob_LastModified :: "gotime option"

record s3_listing =
  ls_Contents :: "s3_object list"
  ls_CommonPrefixes :: "string option list"
  ls_IsTruncated :: "bool option"
  ls_NextContinuationToken :: "string option"

record s3_head =
  hd_ContentLength :: "int option"
  hd_LastModified :: "gotime option"

text \<open>The body of an object is modelled by what \<open>core.ReadAll\<close> makes of it.\<close>

record s3_get =
  go_Body :: "string core_result"
  go_head :: s3_head

record s3_error =
  er_Key :: "string option"
  er_Code :: "string option"
  er_Message :: "string option"

text \<open>
  The arguments of \<open>ListObjectsV2\<close> are the bucket, the prefix, the delimiter, the continuation token
  and the maximal number of keys.
\<close>

record 'b s3_client =
  GetObject :: "string \<Rightarrow> string \<Rightarrow> 'b \<Rightarrow> s3_get res"
  PutObject :: "string \<Rightarrow> string \<Rightarrow> string \<Rightarrow> 'b \<Rightarrow> gerr option \<times> 'b"
  DeleteObject :: "string \<Rightarrow> string \<Rightarrow> 'b \<Rightarrow> gerr option \<times> 'b"
  DeleteObjects :: "string \<Rightarrow> string option list \<Rightarrow> 'b \<Rightarrow> s3_error list res \<times> 'b"
  HeadObject :: "string \<Rightarrow> string \<Rightarrow> 'b \<Rightarrow> s3_head res"
  ListObjectsV2 :: "string \<Rightarrow> string \<Rightarrow> string option \<Rightarrow> string option \<Rightarrow> nat option \<Rightarrow> 'b \<Rightarrow> s3_listing res"
  CopyObject :: "string \<Rightarrow> string \<Rightarrow> string \<Rightarrow> 'b \<Rightarrow> gerr option \<times> 'b"

record 'b s3_medium =
  s3_client :: "'b s3_client"
  s3_bucket :: string
  s3_prefix :: string

record 'b s3_options =
  so3_Bucket :: string
  so3_Client :: "'b s3_client option"
  so3_Prefix :: string

subsection \<open>Opening\<close>

definition ToString :: "string option \<Rightarrow> string" where
  "ToString p = (case p of None \<Rightarrow> '''' | Some s \<Rightarrow> s)"

definition error_detail :: "go_env \<Rightarrow> s3_error \<Rightarrow> string" where
  "error_detail E errorItem =
     (let key = ToString (er_Key errorItem); code = ToString (er_Code errorItem);
          message = ToString (er_Message errorItem)
      in if code \<noteq> '''' \<and> message \<noteq> '''' then Concat E [key, '': '', code, '' '', message]
         else if code \<noteq> '''' then Concat E [key, '': '', code]
         else if message \<noteq> '''' then Concat E [key, '': '', message]
         else key)"

definition deleteObjectsError :: "go_env \<Rightarrow> string \<Rightarrow> s3_error list \<Rightarrow> gerr option" where
  "deleteObjectsError E pre errs =
     (if errs = [] then None
      else Some (CoreE ''s3.DeleteAll''
             [''partial delete failed under '', pre, '': '', Join E ''; '' (map (error_detail E) errs)] None))"

definition readAllString :: "string core_result \<Rightarrow> string res" where
  "readAllString r =
     (case r of ROk content \<Rightarrow> Inr content | ROkOther \<Rightarrow> Inl ErrInvalid
      | RFail err \<Rightarrow> Inl err | RFailOther \<Rightarrow> Inl ErrInvalid)"

definition normalisePrefix :: "go_env \<Rightarrow> string \<Rightarrow> string" where
  "normalisePrefix E pre =
     (if pre = '''' then ''''
      else let clean = CleanPath E (''/'' @ pre) ''/''
           in if clean = ''/'' then ''''
              else let clean = TrimPrefix E clean ''/''
                   in if clean \<noteq> '''' \<and> \<not> HasSuffix E clean ''/'' then clean @ ''/'' else clean)"

definition S3_New :: "go_env \<Rightarrow> 'b s3_options \<Rightarrow> 'b s3_medium res" where
  "S3_New E options =
     (if so3_Bucket options = '''' then Inl (CoreE ''s3.New'' [''bucket name is required''] (Some ErrInvalid))
      else case so3_Client options of
          None \<Rightarrow> Inl (CoreE ''s3.New'' [''client is required''] (Some ErrInvalid))
        | Some client \<Rightarrow>
            Inr \<lparr>s3_client = client, s3_bucket = so3_Bucket options,
                 s3_prefix = normalisePrefix E (so3_Prefix options)\<rparr>)"

definition objectKey :: "go_env \<Rightarrow> 'b s3_medium \<Rightarrow> string \<Rightarrow> string" where
  "objectKey E M filePath =
     (let clean = CleanPath E (''/'' @ filePath) ''/'';
          clean = (if clean = ''/'' then '''' else clean);
          clean = TrimPrefix E clean ''/''
      in if s3_prefix M = '''' then clean
         else if clean = '''' then s3_prefix M
         else s3_prefix M @ clean)"

subsection \<open>Reading and writing\<close>

definition msgS3PathRequired :: string where "msgS3PathRequired = ''path is required''"
definition msgS3GetObjectFailed :: string where "msgS3GetObjectFailed = ''failed to get object: ''"

definition S3_Read :: "go_env \<Rightarrow> 'b s3_medium \<Rightarrow> string \<Rightarrow> 'b \<Rightarrow> string res" where
  "S3_Read E M filePath s =
     (let key = objectKey E M filePath
      in if key = '''' then Inl (CoreE ''s3.Read'' [msgS3PathRequired] (Some ErrInvalid))
         else case GetObject (s3_client M) (s3_bucket M) key s of
             Inl err \<Rightarrow> Inl (CoreE ''s3.Read'' [msgS3GetObjectFailed, key] (Some err))
           | Inr out \<Rightarrow>
               (case readAllString (go_Body out) of
                  Inl err \<Rightarrow> Inl (CoreE ''s3.Read'' [''failed to read body: '', key] (Some err))
                | Inr data \<Rightarrow> Inr data))"

text \<open>A call whose result is only an error, which is wrapped.\<close>

definition s3_call :: "string \<Rightarrow> string list \<Rightarrow> gerr option \<times> 'b \<Rightarrow> gerr option \<times> 'b" where
  "s3_call op parts r =
     (case r of (Some err, s) \<Rightarrow> (Some (CoreE op parts (Some err)), s) | (None, s) \<Rightarrow> (None, s))"

definition S3_Write :: "go_env \<Rightarrow> 'b s3_medium \<Rightarrow> string \<Rightarrow> string \<Rightarrow> 'b \<Rightarrow> gerr option \<times> 'b" where
  "S3_Write E M filePath content s =
     (let key = objectKey E M filePath
      in if key = '''' then (Some (CoreE ''s3.Write'' [msgS3PathRequired] (Some ErrInvalid)), s)
         else s3_call ''s3.Write'' [''failed to put object: '', key]
                (PutObject (s3_client M) (s3_bucket M) key content s))"

definition S3_WriteMode ::
  "go_env \<Rightarrow> 'b s3_medium \<Rightarrow> string \<Rightarrow> string \<Rightarrow> file_mode \<Rightarrow> 'b \<Rightarrow> gerr option \<times> 'b" where
  "S3_WriteMode E M filePath content mode s = S3_Write E M filePath content s"

definition S3_EnsureDir :: "string \<Rightarrow> 'b \<Rightarrow> gerr option \<times> 'b" where
  "S3_EnsureDir directoryPath s = (None, s)"

definition S3_IsFile :: "go_env \<Rightarrow> 'b s3_medium \<Rightarrow> string \<Rightarrow> 'b \<Rightarrow> bool" where
  "S3_IsFile E M filePath s =
     (let key = objectKey E M filePath
      in if key = '''' then False
         else if HasSuffix E key ''/'' then False
         else is_ok (HeadObject (s3_client M) (s3_bucket M) key s))"

subsection \<open>Deleting and renaming\<close>

definition S3_Delete :: "go_env \<Rightarrow> 'b s3_medium \<Rightarrow> string \<Rightarrow> 'b \<Rightarrow> gerr option \<times> 'b" where
  "S3_Delete E M filePath s =
     (let key = objectKey E M filePath
      in if key = '''' then (Some (CoreE ''s3.Delete'' [msgS3PathRequired] (Some ErrInvalid)), s)
         else s3_call ''s3.Delete'' [''failed to delete object: '', key]
                (DeleteObject (s3_client M) (s3_bucket M) key s))"

text \<open>The result of a batch is the next token and whether to go on.\<close>

definition deleteObjectBatch ::
  "go_env \<Rightarrow> 'b s3_medium \<Rightarrow> string \<Rightarrow> string option \<Rightarrow> 'b \<Rightarrow> (string option \<times> bool) res \<times> 'b" where
  "deleteObjectBatch E M pre continuationToken s =
     (case ListObjectsV2 (s3_client M) (s3_bucket M) pre None continuationToken None s of
        Inl err \<Rightarrow> (Inl (CoreE ''s3.DeleteAll'' [''failed to list objects: '', pre] (Some err)), s)
      | Inr listOutput \<Rightarrow>
          (if ls_Contents listOutput = [] then (Inr (None, False), s)
           else case DeleteObjects (s3_client M) (s3_bucket M) (map ob_Key (ls_Contents listOutput)) s of
               (Inl err, s) \<Rightarrow> (Inl (CoreE ''s3.DeleteAll'' [''failed to delete objects''] (Some err)), s)
             | (Inr errs, s) \<Rightarrow>
                 (case deleteObjectsError E pre errs of
                    Some err \<Rightarrow> (Inl err, s)
                  | None \<Rightarrow>
                      (if ls_IsTruncated listOutput = Some True
                       then (Inr (ls_NextContinuationToken listOutput, True), s)
                       else (Inr (None, False), s)))))"

partial_function (option) delete_batches ::
  "go_env \<Rightarrow> 'b s3_medium \<Rightarrow> string \<Rightarrow> string option \<Rightarrow> 'b \<Rightarrow> (gerr option \<times> 'b) option" where
  "delete_batches E M pre continuationToken s =
     (case deleteObjectBatch E M pre continuationToken s of
        (Inl err, s') \<Rightarrow> Some (Some err, s')
      | (Inr (nextToken, keepGoing), s') \<Rightarrow>
          (if \<not> keepGoing then Some (None, s') else delete_batches E M pre nextToken s'))"

definition S3_DeleteAll :: "go_env \<Rightarrow> 'b s3_medium \<Rightarrow> string \<Rightarrow> 'b \<Rightarrow> (gerr option \<times> 'b) option" where
  "S3_DeleteAll E M filePath s =
     (let key = objectKey E M filePath
      in if key = '''' then Some (Some (CoreE ''s3.DeleteAll'' [msgS3PathRequired] (Some ErrInvalid)), s)
         else case s3_call ''s3.DeleteAll'' [''failed to delete object: '', key]
                     (DeleteObject (s3_client M) (s3_bucket M) key s) of
             (Some err, s) \<Rightarrow> Some (Some err, s)
           | (None, s) \<Rightarrow>
               delete_batches E M (if \<not> HasSuffix E key ''/'' then key @ ''/'' else key) None s)"

definition S3_Rename :: "go_env \<Rightarrow> 'b s3_medium \<Rightarrow> string \<Rightarrow> string \<Rightarrow> 'b \<Rightarrow> gerr option \<times> 'b" where
  "S3_Rename E M oldPath newPath s =
     (let oldKey = objectKey E M oldPath; newKey = objectKey E M newPath
      in if oldKey = '''' \<or> newKey = ''''
         then (Some (CoreE ''s3.Rename'' [''both old and new paths are required''] (Some ErrInvalid)), s)
         else let copySource = s3_bucket M @ ''/'' @ oldKey
              in case s3_call ''s3.Rename'' [''failed to copy object: '', oldKey, '' -> '', newKey]
                        (CopyObject (s3_client M) (s3_bucket M) copySource newKey s) of
                   (Some err, s) \<Rightarrow> (Some err, s)
                 | (None, s) \<Rightarrow>
                     s3_call ''s3.Rename'' [''failed to delete source object: '', oldKey]
                       (DeleteObject (s3_client M) (s3_bucket M) oldKey s))"

subsection \<open>Listing\<close>

definition s3DirectoryEntry :: "string \<Rightarrow> dir_entry" where
  "s3DirectoryEntry name =
     NewDirEntry name True (ModeDir OR 493) (NewFileInfo name 0 (ModeDir OR 493) zero_time True)"

definition s3ObjectEntry :: "string \<Rightarrow> s3_object \<Rightarrow> dir_entry" where
  "s3ObjectEntry name object =
     (let size = (case ob_Size object of Some n \<Rightarrow> n | None \<Rightarrow> 0);
          modTime = (case ob_LastModified object of Some t \<Rightarrow> t | None \<Rightarrow> zero_time)
      in NewDirEntry name False 420 (NewFileInfo name size 420 modTime False))"

definition appendCommonPrefixEntries ::
  "go_env \<Rightarrow> string \<Rightarrow> string option list \<Rightarrow> dir_entry list \<Rightarrow> dir_entry list" where
  "appendCommonPrefixEntries E pre commonPrefixes entries =
     fold (\<lambda>commonPrefix entries.
         case commonPrefix of
           None \<Rightarrow> entries
         | Some p \<Rightarrow>
             (let name = TrimSuffix E (TrimPrefix E p pre) ''/''
              in if name = '''' then entries else entries @ [s3DirectoryEntry name]))
       commonPrefixes entries"

definition appendObjectEntries ::
  "go_env \<Rightarrow> string \<Rightarrow> s3_object list \<Rightarrow> dir_entry list \<Rightarrow> dir_entry list" where
  "appendObjectEntries E pre objects entries =
     fold (\<lambda>object entries.
         case ob_Key object of
           None \<Rightarrow> entries
         | Some key \<Rightarrow>
             (let name = TrimPrefix E key pre
              in if name = '''' \<or> Contains E name ''/'' then entries
                 else entries @ [s3ObjectEntry name object]))
       objects entries"

definition S3_List :: "go_env \<Rightarrow> 'b s3_medium \<Rightarrow> string \<Rightarrow> 'b \<Rightarrow> dir_entry list res" where
  "S3_List E M filePath s =
     (let pre = objectKey E M filePath;
          pre = (if pre \<noteq> '''' \<and> \<not> HasSuffix E pre ''/'' then pre @ ''/'' else pre)
      in case ListObjectsV2 (s3_client M) (s3_bucket M) pre (Some ''/'') None None s of
           Inl err \<Rightarrow> Inl (CoreE ''s3.List'' [''failed to list objects: '', pre] (Some err))
         | Inr listOutput \<Rightarrow>
             Inr (appendObjectEntries E pre (ls_Contents listOutput)
                   (appendCommonPrefixEntries E pre (ls_CommonPrefixes listOutput) [])))"

subsection \<open>Metadata and streams\<close>

definition S3_Stat :: "go_env \<Rightarrow> 'b s3_medium \<Rightarrow> string \<Rightarrow> 'b \<Rightarrow> file_info res" where
  "S3_Stat E M filePath s =
     (let key = objectKey E M filePath
      in if key = '''' then Inl (CoreE ''s3.Stat'' [msgS3PathRequired] (Some ErrInvalid))
         else case HeadObject (s3_client M) (s3_bucket M) key s of
             Inl err \<Rightarrow> Inl (CoreE ''s3.Stat'' [''failed to head object: '', key] (Some err))
           | Inr out \<Rightarrow>
               (let size = (case hd_ContentLength out of Some n \<Rightarrow> n | None \<Rightarrow> 0);
                    modTime = (case hd_LastModified out of Some t \<Rightarrow> t | None \<Rightarrow> zero_time)
                in Inr (NewFileInfo (PathBase E key) size 420 modTime False)))"

record s3_file =
  f3_name :: string
  f3_content :: string
  f3_offset :: nat
  f3_size :: int
  f3_modTime :: gotime

definition S3_Open :: "go_env \<Rightarrow> 'b s3_medium \<Rightarrow> string \<Rightarrow> 'b \<Rightarrow> s3_file res" where
  "S3_Open E M filePath s =
     (let key = objectKey E M filePath
      in if key = '''' then Inl (CoreE ''s3.Open'' [msgS3PathRequired] (Some ErrInvalid))
         else case GetObject (s3_client M) (s3_bucket M) key s of
             Inl err \<Rightarrow> Inl (CoreE ''s3.Open'' [msgS3GetObjectFailed, key] (Some err))
           | Inr out \<Rightarrow>
               (case readAllString (go_Body out) of
                  Inl err \<Rightarrow> Inl (CoreE ''s3.Open'' [''failed to read body: '', key] (Some err))
                | Inr data \<Rightarrow>
                    (let size = (case hd_ContentLength (go_head out) of Some n \<Rightarrow> n | None \<Rightarrow> 0);
                         modTime = (case hd_LastModified (go_head out) of Some t \<Rightarrow> t | None \<Rightarrow> zero_time)
                     in Inr \<lparr>f3_name = PathBase E key, f3_content = data, f3_offset = 0, f3_size = size,
                          f3_modTime = modTime\<rparr>)))"

record s3_writer =
  w3_key :: string
  w3_data :: string

definition S3_Create :: "go_env \<Rightarrow> 'b s3_medium \<Rightarrow> string \<Rightarrow> 'b \<Rightarrow> s3_writer res" where
  "S3_Create E M filePath s =
     (let key = objectKey E M filePath
      in if key = '''' then Inl (CoreE ''s3.Create'' [msgS3PathRequired] (Some ErrInvalid))
         else Inr \<lparr>w3_key = key, w3_data = ''''\<rparr>)"

definition S3_Append :: "go_env \<Rightarrow> 'b s3_medium \<Rightarrow> string \<Rightarrow> 'b \<Rightarrow> s3_writer res" where
  "S3_Append E M filePath s =
     (let key = objectKey E M filePath
      in if key = '''' then Inl (CoreE ''s3.Append'' [msgS3PathRequired] (Some ErrInvalid))
         else case GetObject (s3_client M) (s3_bucket M) key s of
             Inl _ \<Rightarrow> Inr \<lparr>w3_key = key, w3_data = ''''\<rparr>
           | Inr out \<Rightarrow>
               (case readAllString (go_Body out) of
                  Inl readErr \<Rightarrow> Inl (CoreE ''s3.Append'' [''failed to read existing object: '', key] (Some readErr))
                | Inr content \<Rightarrow> Inr \<lparr>w3_key = key, w3_data = content\<rparr>))"

definition S3_ReadStream :: "go_env \<Rightarrow> 'b s3_medium \<Rightarrow> string \<Rightarrow> 'b \<Rightarrow> string core_result res" where
  "S3_ReadStream E M filePath s =
     (let key = objectKey E M filePath
      in if key = '''' then Inl (CoreE ''s3.ReadStream'' [msgS3PathRequired] (Some ErrInvalid))
         else case GetObject (s3_client M) (s3_bucket M) key s of
             Inl err \<Rightarrow> Inl (CoreE ''s3.ReadStream'' [msgS3GetObjectFailed, key] (Some err))
           | Inr out \<Rightarrow> Inr (go_Body out))"

definition S3_WriteStream :: "go_env \<Rightarrow> 'b s3_medium \<Rightarrow> string \<Rightarrow> 'b \<Rightarrow> s3_writer res" where
  "S3_WriteStream E M filePath s = S3_Create E M filePath s"

definition S3_IsDir :: "go_env \<Rightarrow> 'b s3_medium \<Rightarrow> string \<Rightarrow> 'b \<Rightarrow> bool" where
  "S3_IsDir E M filePath s =
     (let key = objectKey E M filePath
      in if key = '''' then False
         else let pre = (if \<not> HasSuffix E key ''/'' then key @ ''/'' else key)
              in case ListObjectsV2 (s3_client M) (s3_bucket M) pre None None (Some 1) s of
                   Inl _ \<Rightarrow> False
                 | Inr listOutput \<Rightarrow> length (ls_Contents listOutput) > 0 \<or> length (ls_CommonPrefixes listOutput) > 0)"

definition S3_Exists :: "go_env \<Rightarrow> 'b s3_medium \<Rightarrow> string \<Rightarrow> 'b \<Rightarrow> bool" where
  "S3_Exists E M filePath s =
     (let key = objectKey E M filePath
      in if key = '''' then False
         else if is_ok (HeadObject (s3_client M) (s3_bucket M) key s) then True
         else let pre = (if \<not> HasSuffix E key ''/'' then key @ ''/'' else key)
              in case ListObjectsV2 (s3_client M) (s3_bucket M) pre None None (Some 1) s of
                   Inl _ \<Rightarrow> False
                 | Inr listOutput \<Rightarrow> length (ls_Contents listOutput) > 0 \<or> length (ls_CommonPrefixes listOutput) > 0)"

definition s3File_Stat :: "s3_file \<Rightarrow> file_info res" where
  "s3File_Stat file =
     Inr (NewFileInfo (f3_name file) (int (length (f3_content file))) 420 (f3_modTime file) False)"

definition s3File_Read :: "nat \<Rightarrow> s3_file \<Rightarrow> string res \<times> s3_file" where
  "s3File_Read n file =
     (if f3_offset file \<ge> length (f3_content file) then (Inl ErrEOF, file)
      else let chunk = take n (drop (f3_offset file) (f3_content file))
           in (Inr chunk, file\<lparr>f3_offset := f3_offset file + length chunk\<rparr>))"

definition s3File_Close :: "s3_file \<Rightarrow> gerr option" where
  "s3File_Close file = None"

definition s3WriteCloser_Write :: "string \<Rightarrow> s3_writer \<Rightarrow> nat res \<times> s3_writer" where
  "s3WriteCloser_Write data w = (Inr (length data), w\<lparr>w3_data := w3_data w @ data\<rparr>)"

definition s3WriteCloser_Close :: "'b s3_medium \<Rightarrow> s3_writer \<Rightarrow> 'b \<Rightarrow> gerr option \<times> 'b" where
  "s3WriteCloser_Close M w s =
     s3_call ''s3.writeCloser.Close'' [''failed to upload on close'']
       (PutObject (s3_client M) (s3_bucket M) (w3_key w) (w3_data w) s)"

text \<open>A call that does not return has the result \<open>Diverges\<close>.\<close>

definition S3_medium :: "go_env \<Rightarrow> 'b s3_medium \<Rightarrow> ('b, s3_file, string core_result, s3_writer) medium" where
  "S3_medium E M =
     \<lparr>m_Read = S3_Read E M, m_Write = (\<lambda>_. S3_Write E M),
      m_WriteMode = (\<lambda>_. S3_WriteMode E M), m_EnsureDir = S3_EnsureDir,
      m_IsFile = S3_IsFile E M, m_Delete = S3_Delete E M,
      m_DeleteAll = (\<lambda>p s. case S3_DeleteAll E M p s of Some r \<Rightarrow> r | None \<Rightarrow> (Some Diverges, s)),
      m_Rename = S3_Rename E M,
      m_List = (\<lambda>_. S3_List E M), m_Stat = (\<lambda>_. S3_Stat E M),
      m_Open = (\<lambda>_. S3_Open E M), m_Create = pure_open (S3_Create E M),
      m_Append = pure_open (S3_Append E M), m_ReadStream = (\<lambda>_. S3_ReadStream E M),
      m_WriteStream = pure_open (S3_WriteStream E M), m_Exists = S3_Exists E M,
      m_IsDir = S3_IsDir E M\<rparr>"

subsection \<open>Actions\<close>

definition s3_readAction :: "go_env \<Rightarrow> 'b s3_medium options \<Rightarrow> 'b \<Rightarrow> string res" where
  "s3_readAction E opts s =
     (case opt_medium opts ''medium'' of
        None \<Rightarrow> Inl (CoreE ''s3.readAction'' [''medium is required''] (Some ErrInvalid))
      | Some medium \<Rightarrow>
          (case S3_Read E medium (opt_string opts ''path'') s of
             Inl err \<Rightarrow> Inl err | Inr content \<Rightarrow> Inr content))"

definition s3_writeAction :: "go_env \<Rightarrow> 'b s3_medium options \<Rightarrow> 'b \<Rightarrow> gerr option \<times> 'b" where
  "s3_writeAction E opts s =
     (case opt_medium opts ''medium'' of
        None \<Rightarrow> (Some (CoreE ''s3.writeAction'' [''medium is required''] (Some ErrInvalid)), s)
      | Some medium \<Rightarrow> S3_Write E medium (opt_string opts ''path'') (opt_string opts ''content'') s)"

end
