(* ===== verification/S3Props.thy ===== *)
theory S3Props
  imports S3 Moves
begin

text \<open>
  Properties of the medium over S3: the locale \<open>s3_service\<close> says what the requests do to the objects of
  a bucket.  The loop of \<open>DeleteAll\<close> over the pages of a listing returns; every operation stays below
  the prefix of the medium; a listing is complete unless the service cut it off.
\<close>

subsection \<open>The service\<close>

text \<open>
  \<open>objects b s\<close> are the contents of the objects of the bucket \<open>b\<close> by their keys, and \<open>up s\<close> holds while the
  service answers.  Deleting an object that is not there succeeds.  A listing gives the keys that start
  with a prefix in increasing order, some of them at a time: a continuation token \<open>t\<close> stands for the
  keys after \<open>marker t\<close>, the last one of the page before.  With a delimiter it gives the keys without the
  delimiter after the prefix, and what is before the delimiter of the others.  The source of a copy is read
  as URL-encoded; for keys of unreserved characters this does not matter.
\<close>

definition unreserved :: "char \<Rightarrow> bool" where
  "unreserved c \<longleftrightarrow> c \<in> set ''ABCDEFGHIJKLMNOPQRSTUVWXYZabcdefghijklmnopqrstuvwxyz0123456789-_.~/''"

definition after :: "(string \<Rightarrow> string) \<Rightarrow> string option \<Rightarrow> string \<Rightarrow> bool" where
  "after marker tok k \<longleftrightarrow> (case tok of None \<Rightarrow> True | Some t \<Rightarrow> marker t < k)"

definition selected :: "(string \<Rightarrow> string) \<Rightarrow> string \<Rightarrow> string option \<Rightarrow> (string, string) fmap \<Rightarrow> string list" where
  "selected marker pre tok T = filter (\<lambda>k. prefix pre k \<and> after marker tok k) (sorted_list_of_fset (fmdom T))"

definition page :: "(string \<Rightarrow> string) \<Rightarrow> string list \<Rightarrow> nat option \<Rightarrow> s3_listing \<Rightarrow> bool" where
  "page marker ks mx out \<longleftrightarrow> (\<exists>n. map ob_Key (ls_Contents out) = map Some (take n ks) \<and>
     (ks \<noteq> [] \<and> mx \<noteq> Some 0 \<longrightarrow> 0 < n) \<and> ls_CommonPrefixes out = [] \<and>
     (ls_IsTruncated out = Some True \<longleftrightarrow> n < length ks) \<and>
     (n < length ks \<longrightarrow> (\<exists>t. ls_NextContinuationToken out = Some t \<and> (0 < n \<longrightarrow> marker t = ks ! (n - 1)))))"

definition files_in :: "(string, string) fmap \<Rightarrow> string \<Rightarrow> string set" where
  "files_in T pre = {n. has_key T (pre @ n) \<and> n \<noteq> '''' \<and> slash \<notin> set n}"

definition dirs_in :: "(string, string) fmap \<Rightarrow> string \<Rightarrow> string set" where
  "dirs_in T pre = {n. slash \<notin> set n \<and> (\<exists>r. has_key T (pre @ n @ ''/'' @ r))}"

definition dir_page :: "(string, string) fmap \<Rightarrow> string \<Rightarrow> s3_listing \<Rightarrow> bool" where
  "dir_page T pre out \<longleftrightarrow> (\<exists>ks ns.
     map ob_Key (ls_Contents out) = map Some ks \<and> ls_CommonPrefixes out = map (\<lambda>n. Some (pre @ n @ ''/'')) ns \<and>
     distinct ks \<and> distinct ns \<and>
     set ks \<subseteq> {k. has_key T k \<and> prefix pre k \<and> slash \<notin> set (drop (length pre) k)} \<and> set ns \<subseteq> dirs_in T pre \<and>
     (\<forall>object\<in>set (ls_Contents out). \<forall>k c. ob_Key object = Some k \<longrightarrow> fmlookup T k = Some c \<longrightarrow>
        ob_Size object = Some (int (length c))) \<and>
     (ls_IsTruncated out = Some True \<longleftrightarrow>
        \<not> (set ks = {k. has_key T k \<and> prefix pre k \<and> slash \<notin> set (drop (length pre) k)} \<and> set ns = dirs_in T pre)))"

locale s3_service =
  fixes C :: "'b s3_client"
    and objects :: "string \<Rightarrow> 'b \<Rightarrow> (string, string) fmap"
    and up :: "'b \<Rightarrow> bool"
    and marker :: "string \<Rightarrow> string"
  assumes get_eq: "up s \<Longrightarrow> case fmlookup (objects b s) k of
        None \<Rightarrow> \<exists>err. GetObject C b k s = Inl err
      | Some c \<Rightarrow> \<exists>out. GetObject C b k s = Inr out \<and> go_Body out = ROk c"
    and head_eq: "up s \<Longrightarrow> case fmlookup (objects b s) k of
        None \<Rightarrow> \<exists>err. HeadObject C b k s = Inl err
      | Some c \<Rightarrow> \<exists>out. HeadObject C b k s = Inr out \<and> hd_ContentLength out = Some (int (length c))"
    and put: "up s \<Longrightarrow> PutObject C b k c s = (e, s') \<Longrightarrow>
      up s' \<and> objects b s' = (if e = None then fmupd k c (objects b s) else objects b s)"
    and delete: "up s \<Longrightarrow> DeleteObject C b k s = (e, s') \<Longrightarrow>
      up s' \<and> objects b s' = (if e = None then fmdrop k (objects b s) else objects b s)"
    and delete_many: "up s \<Longrightarrow> DeleteObjects C b ks s = (r, s') \<Longrightarrow>
      up s' \<and> (case r of Inl _ \<Rightarrow> objects b s' = objects b s
        | Inr errs \<Rightarrow> objects b s' =
            fmfilter (\<lambda>k. Some k \<notin> set ks \<or> Some k \<in> er_Key ` set errs) (objects b s))"
    and list_page: "up s \<Longrightarrow> \<exists>out. ListObjectsV2 C b pre None tok mx s = Inr out \<and>
      page marker (selected marker pre tok (objects b s)) mx out"
    and list_dir: "up s \<Longrightarrow> \<exists>out. ListObjectsV2 C b pre (Some ''/'') None None s = Inr out \<and>
      dir_page (objects b s) pre out"
    and copy: "up s \<Longrightarrow> list_all unreserved k \<Longrightarrow> CopyObject C b (b @ ''/'' @ k) k' s = (e, s') \<Longrightarrow>
      up s' \<and> (if e = None then k \<noteq> k' \<and> has_key (objects b s) k \<and>
                 objects b s' = fmupd k' (the (fmlookup (objects b s) k)) (objects b s)
               else objects b s' = objects b s)"
    and copy_any: "up s \<Longrightarrow> CopyObject C b src k' s = (e, s') \<Longrightarrow> up s' \<and>
      (\<forall>q. q \<noteq> k' \<longrightarrow> fmlookup (objects b s') q = fmlookup (objects b s) q)"

abbreviation in_bucket :: "(string \<Rightarrow> 'b \<Rightarrow> (string, string) fmap) \<Rightarrow> 'b s3_medium \<Rightarrow> 'b \<Rightarrow> (string, string) fmap" where
  "in_bucket objects M s \<equiv> objects (s3_bucket M) s"

lemma s3_call_iff: "s3_call op parts r = (e, s') \<Longrightarrow> \<exists>e0. r = (e0, s') \<and> (e = None \<longleftrightarrow> e0 = None)"
  by (auto simp: s3_call_def split: prod.splits option.splits)

lemma set_selected: "set (selected marker pre tok T) = {k. has_key T k \<and> prefix pre k \<and> after marker tok k}"
  by (auto simp: selected_def sorted_list_of_fset.rep_eq has_key_dom)

lemma selected_sorted: "sorted (selected marker pre tok T)" "distinct (selected marker pre tok T)"
  by (simp_all add: selected_def sorted_list_of_fset.rep_eq sorted_wrt_filter)

subsection \<open>Keys\<close>

context go_runtime
begin

lemma objectKey_cases: "objectKey E M p = s3_prefix M \<or> (\<exists>q. norm_path q \<and> objectKey E M p = s3_prefix M @ q)"
  using clean_rooted_cases [of p] by (auto simp: objectKey_def Let_def trim_prefix_def dest: norm_path_not_Nil)

lemma objectKey_prefix: "prefix (s3_prefix M) (objectKey E M p)"
  using objectKey_cases [of M p] by auto

lemma objectKey_norm: "norm_path p \<Longrightarrow> objectKey E M p = s3_prefix M @ p"
  using norm_path_not_Nil [of p] by (simp add: objectKey_def Let_def trim_prefix_def)

end

subsection \<open>Deleting page by page\<close>

lemma take_sorted_last:
  fixes ks :: "string list"
  assumes "sorted ks" "distinct ks" "0 < n" "n < length ks" "k \<in> set ks"
  shows "k \<in> set (take n ks) \<longleftrightarrow> \<not> ks ! (n - 1) < k"
proof -
  obtain i where i: "i < length ks" "k = ks ! i" using assms(5) by (auto simp: in_set_conv_nth)
  have "k \<in> set (take n ks) \<longleftrightarrow> i < n"
  proof
    assume "k \<in> set (take n ks)"
    then obtain j where j: "j < n" "j < length ks" "k = ks ! j" by (auto simp: in_set_conv_nth)
    then have "i = j" using i assms(2) by (simp add: nth_eq_iff_index_eq)
    then show "i < n" using j by simp
  next
    assume "i < n"
    then show "k \<in> set (take n ks)" using i by (force simp: in_set_conv_nth)
  qed
  moreover have "i < n \<longleftrightarrow> \<not> ks ! (n - 1) < ks ! i"
  proof
    assume "i < n"
    then have "ks ! i \<le> ks ! (n - 1)" using assms(1,4) by (intro sorted_nth_mono) auto
    then show "\<not> ks ! (n - 1) < ks ! i" by simp
  next
    assume a: "\<not> ks ! (n - 1) < ks ! i"
    show "i < n"
    proof (rule ccontr)
      assume "\<not> i < n"
      then have "ks ! (n - 1) \<le> ks ! i" "ks ! (n - 1) \<noteq> ks ! i"
        using assms i by (auto intro!: sorted_nth_mono simp: nth_eq_iff_index_eq)
      then show False using a by simp
    qed
  qed
  ultimately show ?thesis using i(2) by simp
qed

text \<open>What may have happened to a table when only keys that start with \<open>pre\<close> were deleted.\<close>

definition only_deleted :: "string \<Rightarrow> (string, string) fmap \<Rightarrow> (string, string) fmap \<Rightarrow> bool" where
  "only_deleted pre T T' \<longleftrightarrow>
     (\<forall>k. fmlookup T' k = fmlookup T k \<or> prefix pre k \<and> fmlookup T' k = None)"

lemma only_deleted_refl: "only_deleted pre T T"
  by (simp add: only_deleted_def)

lemma only_deleted_trans: "only_deleted pre T T' \<Longrightarrow> only_deleted pre T' T'' \<Longrightarrow> only_deleted pre T T''"
  unfolding only_deleted_def by metis

lemma only_deleted_keys: "only_deleted pre T T' \<Longrightarrow> has_key T' k \<Longrightarrow> has_key T k"
  unfolding only_deleted_def has_key_def by metis

lemma page_keys:
  assumes "page marker ks None out"
  shows "Some k \<in> set (map ob_Key (ls_Contents out)) \<Longrightarrow> k \<in> set ks"
    "ls_IsTruncated out \<noteq> Some True \<Longrightarrow> k \<in> set ks \<Longrightarrow> Some k \<in> set (map ob_Key (ls_Contents out))"
    "ls_Contents out = [] \<longleftrightarrow> ks = []"
proof -
  obtain n where n: "map ob_Key (ls_Contents out) = map Some (take n ks)" "ks \<noteq> [] \<longrightarrow> 0 < n"
      "ls_IsTruncated out = Some True \<longleftrightarrow> n < length ks"
    using assms unfolding page_def by auto
  show "Some k \<in> set (map ob_Key (ls_Contents out)) \<Longrightarrow> k \<in> set ks"
    unfolding n(1) by (auto dest: in_set_takeD)
  show "ls_IsTruncated out \<noteq> Some True \<Longrightarrow> k \<in> set ks \<Longrightarrow> Some k \<in> set (map ob_Key (ls_Contents out))"
    unfolding n(1) using n(3) by simp
  have "ls_Contents out = [] \<longleftrightarrow> map ob_Key (ls_Contents out) = []" by simp
  also have "\<dots> \<longleftrightarrow> ks = []" unfolding n(1) using n(2) by auto
  finally show "ls_Contents out = [] \<longleftrightarrow> ks = []" .
qed

lemma page_after:
  assumes "page marker ks None out" "sorted ks" "distinct ks" "ks = selected marker pre tok T"
    "ls_IsTruncated out = Some True" "ls_Contents out \<noteq> []" "has_key T k" "prefix pre k"
  shows "after marker (ls_NextContinuationToken out) k \<longrightarrow> after marker tok k \<and> Some k \<notin> set (map ob_Key (ls_Contents out))"
    and "after marker tok k \<longrightarrow> after marker (ls_NextContinuationToken out) k \<or> Some k \<in> set (map ob_Key (ls_Contents out))"
proof -
  obtain n t where n: "map ob_Key (ls_Contents out) = map Some (take n ks)" "n < length ks"
      "ls_NextContinuationToken out = Some t" "0 < n \<longrightarrow> marker t = ks ! (n - 1)"
    using assms(1,5) unfolding page_def by auto
  have "0 < n" using n(1) assms(6) by (cases n) auto
  then have t: "marker t = ks ! (n - 1)" using n(4) by simp
  have mem: "Some q \<in> set (map ob_Key (ls_Contents out)) \<longleftrightarrow> q \<in> set (take n ks)" for q by (auto simp: n(1))
  have ks: "k \<in> set ks \<longleftrightarrow> after marker tok k" using assms(4,7,8) by (simp add: set_selected)
  note split = take_sorted_last [OF assms(2,3) \<open>0 < n\<close> n(2), of k]
  have last: "ks ! (n - 1) \<in> set ks" using n(2) \<open>0 < n\<close> by simp
  then have al: "after marker tok (ks ! (n - 1))" using assms(4) by (simp add: set_selected)
  show "after marker (ls_NextContinuationToken out) k \<longrightarrow> after marker tok k \<and> Some k \<notin> set (map ob_Key (ls_Contents out))"
  proof
    assume a: "after marker (ls_NextContinuationToken out) k"
    then have "ks ! (n - 1) < k" using n(3) t by (simp add: after_def)
    then have "after marker tok k" using al by (auto simp: after_def split: option.splits)
    then show "after marker tok k \<and> Some k \<notin> set (map ob_Key (ls_Contents out))"
      using split ks mem \<open>ks ! (n - 1) < k\<close> by blast
  qed
  show "after marker tok k \<longrightarrow> after marker (ls_NextContinuationToken out) k \<or> Some k \<in> set (map ob_Key (ls_Contents out))"
    using split ks mem n(3) t by (auto simp: after_def)
qed

context s3_service
begin

abbreviation remaining :: "string \<Rightarrow> string \<Rightarrow> string option \<Rightarrow> 'b \<Rightarrow> string set" where
  "remaining b pre tok s \<equiv> set (selected marker pre tok (objects b s))"

text \<open>What one batch does: nothing is listed, the request fails, or all that was listed is deleted.\<close>

lemma batch_cases:
  assumes "s3_client M = C" "up s" "deleteObjectBatch E M pre tok s = (r, s')"
  obtains (empty) "selected marker pre tok (in_bucket objects M s) = []" "r = Inr (None, False)" "s' = s"
    | (error) err where "r = Inl err" "up s'" "only_deleted pre (in_bucket objects M s) (in_bucket objects M s')"
    | (deleted) out where "page marker (selected marker pre tok (in_bucket objects M s)) None out"
        "ls_Contents out \<noteq> []" "up s'"
        "in_bucket objects M s' = fmfilter (\<lambda>k. Some k \<notin> set (map ob_Key (ls_Contents out))) (in_bucket objects M s)"
        "r = (if ls_IsTruncated out = Some True then Inr (ls_NextContinuationToken out, True) else Inr (None, False))"
proof -
  let ?b = "s3_bucket M" and ?T = "objects (s3_bucket M) s" and ?ks = "selected marker pre tok (objects (s3_bucket M) s)"
  obtain out where out: "ListObjectsV2 C ?b pre None tok None s = Inr out" "page marker ?ks None out"
    using list_page [OF assms(2)] by blast
  let ?keys = "map ob_Key (ls_Contents out)"
  show thesis
  proof (cases "ls_Contents out = []")
    case True
    then have "selected marker pre tok (objects ?b s) = []" using page_keys(3) [OF out(2)] by simp
    moreover have "r = Inr (None, False)" "s' = s"
      using True assms(1,3) out(1) by (simp_all add: deleteObjectBatch_def)
    ultimately show thesis by (rule empty)
  next
    case False
    obtain r1 s1 where d: "DeleteObjects C ?b ?keys s = (r1, s1)" by force
    note post = delete_many [OF assms(2) d]
    show thesis
    proof (cases r1)
      case (Inl err)
      show thesis
        by (rule error) (use assms(1,3) out(1) False d post Inl in \<open>auto simp: deleteObjectBatch_def only_deleted_refl\<close>)
    next
      case (Inr errs)
      then have T1: "objects ?b s1 = fmfilter (\<lambda>k. Some k \<notin> set ?keys \<or> Some k \<in> er_Key ` set errs) ?T" "up s1"
        using post by auto
      have od: "only_deleted pre ?T (objects ?b s1)"
        using page_keys(1) [OF out(2)] unfolding T1 only_deleted_def by (auto simp: set_selected)
      note eqs = assms(1,3) out(1) False d Inr T1
      show thesis
      proof (cases "errs = []")
        case True
        then show thesis using eqs
          by (intro deleted [OF out(2)]) (auto simp: deleteObjectBatch_def deleteObjectsError_def split: if_splits)
      next
        case False
        show thesis
          by (rule error) (use eqs False od in \<open>auto simp: deleteObjectBatch_def deleteObjectsError_def\<close>)
      qed
    qed
  qed
qed

lemma batch_step:
  assumes "s3_client M = C" "up s" "deleteObjectBatch E M pre tok s = (r, s')"
  shows "up s' \<and> only_deleted pre (in_bucket objects M s) (in_bucket objects M s') \<and>
    (r = Inr (tok', False) \<longrightarrow> remaining (s3_bucket M) pre tok s' = {}) \<and>
    (r = Inr (tok', True) \<longrightarrow> remaining (s3_bucket M) pre tok' s' \<subset> remaining (s3_bucket M) pre tok s \<and>
       remaining (s3_bucket M) pre tok s' \<subseteq> remaining (s3_bucket M) pre tok' s')"
proof (rule batch_cases [OF assms], goal_cases empty error deleted)
  case empty
  then show ?case using assms(2) by (simp add: only_deleted_refl)
next
  case (error err)
  then show ?case by simp
next
  case (deleted out)
  let ?keys = "map ob_Key (ls_Contents out)" and ?tok = "ls_NextContinuationToken out" and ?b = "s3_bucket M"
  note sub = page_keys(1) [OF deleted(1)]
  have od: "only_deleted pre (in_bucket objects M s) (in_bucket objects M s')"
    using sub unfolding deleted(4) only_deleted_def by (auto simp: set_selected)
  show ?case
  proof (cases "ls_IsTruncated out = Some True")
    case True
    have r: "r = Inr (?tok, True)" using deleted(5) True by simp
    note after = page_after [OF deleted(1) selected_sorted refl True deleted(2)]
    obtain n where n: "?keys = map Some (take n (selected marker pre tok (in_bucket objects M s)))"
      using deleted(1) unfolding page_def by blast
    then obtain k where "Some k \<in> set ?keys"
      using deleted(2) by (cases "take n (selected marker pre tok (in_bucket objects M s))") auto
    then have "\<exists>k. Some k \<in> set ?keys \<and> k \<in> remaining ?b pre tok s" using sub by blast
    then have "remaining ?b pre ?tok s' \<subset> remaining ?b pre tok s"
      using after(1) by (auto simp: set_selected deleted(4))
    moreover have "remaining ?b pre tok s' \<subseteq> remaining ?b pre ?tok s'"
      using after(2) by (auto simp: set_selected deleted(4))
    ultimately show ?thesis using deleted(3) od unfolding r by blast
  next
    case False
    then have "remaining ?b pre tok s' = {}"
      using page_keys(2) [OF deleted(1)] by (auto simp: set_selected deleted(4))
    then show ?thesis using deleted(3,5) od False by simp
  qed
qed

text \<open>The loop returns, and on success nothing is left of what it started with.\<close>

lemma batches_return:
  assumes "s3_client M = C" "up s"
  shows "\<exists>e s'. delete_batches E M pre tok s = Some (e, s') \<and> up s' \<and>
    only_deleted pre (in_bucket objects M s) (in_bucket objects M s') \<and>
    (e = None \<longrightarrow> remaining (s3_bucket M) pre tok s' = {})"
  using assms(2)
proof (induction "card (remaining (s3_bucket M) pre tok s)" arbitrary: tok s rule: less_induct)
  case less
  obtain r s1 where b: "deleteObjectBatch E M pre tok s = (r, s1)" by force
  have step: "up s1" "only_deleted pre (in_bucket objects M s) (in_bucket objects M s1)"
    using batch_step [OF assms(1) less.prems b] by blast+
  note last = batch_step [OF assms(1) less.prems b]
  show ?case
  proof (cases r)
    case (Inl err)
    then show ?thesis using b step(1,2) by (simp add: delete_batches.simps [of E M pre tok s])
  next
    case (Inr x)
    obtain tok' go where x: "x = (tok', go)" by force
    show ?thesis
    proof (cases go)
      case False
      then show ?thesis using b Inr x last [of tok'] by (simp add: delete_batches.simps [of E M pre tok s])
    next
      case True
      then have go: "remaining (s3_bucket M) pre tok' s1 \<subset> remaining (s3_bucket M) pre tok s"
        "remaining (s3_bucket M) pre tok s1 \<subseteq> remaining (s3_bucket M) pre tok' s1"
        using last [of tok'] Inr x by auto
      have "card (remaining (s3_bucket M) pre tok' s1) < card (remaining (s3_bucket M) pre tok s)"
        using go(1) by (intro psubset_card_mono) auto
      from less.hyps [OF this step(1)] obtain e s' where s': "delete_batches E M pre tok' s1 = Some (e, s')" "up s'"
        "only_deleted pre (in_bucket objects M s1) (in_bucket objects M s')"
        "e = None \<Longrightarrow> remaining (s3_bucket M) pre tok' s' = {}" by blast
      have "remaining (s3_bucket M) pre tok s' = {}" if "e = None"
      proof (rule ccontr)
        assume "remaining (s3_bucket M) pre tok s' \<noteq> {}"
        then obtain k where k: "has_key (in_bucket objects M s') k" "prefix pre k" "after marker tok k"
          by (auto simp: set_selected)
        then have "k \<in> remaining (s3_bucket M) pre tok s1"
          using only_deleted_keys [OF s'(3)] by (simp add: set_selected)
        then have "after marker tok' k" using go(2) by (auto simp: set_selected)
        then show False using s'(4) [OF that] k by (auto simp: set_selected)
      qed
      then show ?thesis
        using b Inr x True s'(1,2) only_deleted_trans [OF step(2) s'(3)]
        by (simp add: delete_batches.simps [of E M pre tok s])
    qed
  qed
qed

end

subsection \<open>The medium keeps the contract of writing and reading\<close>

lemma S3_medium_simps [simp]:
  "m_Read (S3_medium E M) = S3_Read E M"
  "m_Write (S3_medium E M) t = S3_Write E M"
  "m_WriteMode (S3_medium E M) t = S3_WriteMode E M"
  by (simp_all add: S3_medium_def)

context s3_service
begin

lemma S3_Read_lookup:
  assumes "s3_client M = C" "up s" "objectKey E M p \<noteq> ''''"
  shows "fmlookup (in_bucket objects M s) (objectKey E M p) = Some c \<Longrightarrow> S3_Read E M p s = Inr c"
  using get_eq [OF assms(2), of "s3_bucket M" "objectKey E M p"] assms(1,3)
  by (auto simp: S3_Read_def Let_def readAllString_def)

lemma S3_Write_cases:
  assumes "s3_client M = C" "up s" "S3_Write E M p c s = (e, s')"
  obtains (bad) "objectKey E M p = ''''" "e \<noteq> None" "s' = s"
    | (failed) "objectKey E M p \<noteq> ''''" "e \<noteq> None" "up s'" "in_bucket objects M s' = in_bucket objects M s"
    | (stored) "objectKey E M p \<noteq> ''''" "e = None" "up s'"
        "in_bucket objects M s' = fmupd (objectKey E M p) c (in_bucket objects M s)"
proof (cases "objectKey E M p = ''''")
  case True
  then show thesis using assms(3) by (intro bad) (auto simp: S3_Write_def)
next
  case False
  then have w: "s3_call ''s3.Write'' [''failed to put object: '', objectKey E M p]
      (PutObject C (s3_bucket M) (objectKey E M p) c s) = (e, s')"
    using assms(1,3) by (simp add: S3_Write_def Let_def)
  obtain e0 where e0: "PutObject C (s3_bucket M) (objectKey E M p) c s = (e0, s')" "e = None \<longleftrightarrow> e0 = None"
    using s3_call_iff [OF w] by blast
  from put [OF assms(2) e0(1)] show thesis
    using False e0(2) failed stored by (cases "e = None") auto
qed

lemma s3_Delete_object:
  assumes "up s" "s3_call op parts (DeleteObject C b k s) = (e, s')"
  shows "up s' \<and> objects b s' = (if e = None then fmdrop k (objects b s) else objects b s)"
  using s3_call_iff [OF assms(2)] delete [OF assms(1), of b k] by auto

end

subsection \<open>A service in memory\<close>

text \<open>
  The objects of one bucket with a flag that says whether the service answers; a listing gives two
  keys at a time.
\<close>

definition cut :: "nat \<Rightarrow> string list \<Rightarrow> s3_listing" where
  "cut n ks = \<lparr>ls_Contents = map (\<lambda>k. \<lparr>ob_Key = Some k, ob_Size = None, ob_LastModified = None\<rparr>) (take n ks),
     ls_CommonPrefixes = [], ls_IsTruncated = Some (n < length ks),
     ls_NextContinuationToken = (if n < length ks then Some (ks ! (n - 1)) else None)\<rparr>"

definition dir_names :: "(string, string) fmap \<Rightarrow> string \<Rightarrow> string list" where
  "dir_names T pre = remdups (map (\<lambda>k. takeWhile (\<lambda>x. x \<noteq> slash) (drop (length pre) k))
     (filter (\<lambda>k. prefix pre k \<and> slash \<in> set (drop (length pre) k)) (sorted_list_of_fset (fmdom T))))"

definition dir_listing :: "(string, string) fmap \<Rightarrow> string \<Rightarrow> s3_listing" where
  "dir_listing T pre =
     \<lparr>ls_Contents = map (\<lambda>k. \<lparr>ob_Key = Some k, ob_Size = Some (int (length (value_or_empty T k))), ob_LastModified = None\<rparr>)
        (filter (\<lambda>k. prefix pre k \<and> slash \<notin> set (drop (length pre) k)) (sorted_list_of_fset (fmdom T))),
      ls_CommonPrefixes = map (\<lambda>n. Some (pre @ n @ ''/'')) (dir_names T pre),
      ls_IsTruncated = Some False, ls_NextContinuationToken = None\<rparr>"

definition answer :: "'a \<Rightarrow> bool \<times> 'm \<Rightarrow> 'a res" where
  "answer x s = (if fst s then Inr x else Inl (ErrNew ''unavailable''))"

definition change :: "('m \<Rightarrow> 'm) \<Rightarrow> bool \<times> 'm \<Rightarrow> gerr option \<times> bool \<times> 'm" where
  "change f s = (if fst s then (None, fst s, f (snd s)) else (Some (ErrNew ''unavailable''), s))"

definition mem_s3 :: "(bool \<times> (string, string) fmap) s3_client" where
  "mem_s3 = \<lparr>
     GetObject = (\<lambda>_ k s. case fmlookup (snd s) k of None \<Rightarrow> Inl (ErrNew ''NoSuchKey'')
       | Some c \<Rightarrow> answer \<lparr>go_Body = ROk c, go_head = \<lparr>hd_ContentLength = Some (int (length c)), hd_LastModified = None\<rparr>\<rparr> s),
     PutObject = (\<lambda>_ k c. change (fmupd k c)),
     DeleteObject = (\<lambda>_ k. change (fmdrop k)),
     DeleteObjects = (\<lambda>_ ks s. (Inr [], fst s, fmfilter (\<lambda>k. Some k \<notin> set ks) (snd s))),
     HeadObject = (\<lambda>_ k s. case fmlookup (snd s) k of None \<Rightarrow> Inl (ErrNew ''NotFound'')
       | Some c \<Rightarrow> answer \<lparr>hd_ContentLength = Some (int (length c)), hd_LastModified = None\<rparr> s),
     ListObjectsV2 = (\<lambda>_ pre delim tok _ s. Inr (if delim = None
       then cut 2 (selected (\<lambda>t. t) pre tok (snd s)) else dir_listing (snd s) pre)),
     CopyObject = (\<lambda>b src k' s. let k = drop (length b + 1) src
       in if \<not> list_all unreserved k then (Some (ErrNew ''NoSuchKey''), s)
          else if k = k' then (Some (ErrNew ''InvalidRequest''), s)
          else case fmlookup (snd s) k of None \<Rightarrow> (Some (ErrNew ''NoSuchKey''), s)
            | Some c \<Rightarrow> change (fmupd k' c) s)\<rparr>"

lemma page_cut:
  assumes "0 < n"
  shows "page (\<lambda>t. t) ks mx (cut n ks)"
  unfolding page_def by (rule exI [of _ n]) (use assms in \<open>simp add: cut_def comp_def\<close>)

lemma distinct_dir_names: "distinct (dir_names T pre)"
  by (simp add: dir_names_def)

lemma set_dir_names: "set (dir_names T pre) = dirs_in T pre"
proof (intro equalityI subsetI)
  fix n assume "n \<in> set (dir_names T pre)"
  then obtain r where r: "has_key T (pre @ r)" "slash \<in> set r" "n = takeWhile (\<lambda>x. x \<noteq> slash) r"
    by (auto simp: dir_names_def sorted_list_of_fset.rep_eq has_key_dom prefix_def)
  obtain t where "r = n @ slash # t" using takeWhile_at_slash [OF r(2)] unfolding r(3) [symmetric] by blast
  then have "has_key T (pre @ n @ ''/'' @ t)" using r(1) by simp
  moreover have "slash \<notin> set n" unfolding r(3) by (auto dest: set_takeWhileD)
  ultimately show "n \<in> dirs_in T pre" unfolding dirs_in_def by blast
next
  fix n assume "n \<in> dirs_in T pre"
  then obtain r where r: "slash \<notin> set n" "has_key T (pre @ n @ ''/'' @ r)" by (auto simp: dirs_in_def)
  then have "pre @ n @ ''/'' @ r \<in> set (filter (\<lambda>k. prefix pre k \<and> slash \<in> set (drop (length pre) k)) (sorted_list_of_fset (fmdom T)))"
    by (simp add: sorted_list_of_fset.rep_eq has_key_dom)
  moreover have "n = takeWhile (\<lambda>x. x \<noteq> slash) (drop (length pre) (pre @ n @ ''/'' @ r))" using r(1) by simp
  ultimately show "n \<in> set (dir_names T pre)" unfolding dir_names_def set_remdups set_map by (rule rev_image_eqI)
qed

lemma dir_page_listing: "dir_page T pre (dir_listing T pre)"
  unfolding dir_page_def
  by (rule exI [of _ "filter (\<lambda>k. prefix pre k \<and> slash \<notin> set (drop (length pre) k)) (sorted_list_of_fset (fmdom T))"],
      rule exI [of _ "dir_names T pre"])
    (auto simp: dir_listing_def set_dir_names comp_def sorted_list_of_fset.rep_eq has_key_dom value_or_empty_def distinct_dir_names)

interpretation mem_s3: s3_service mem_s3 "\<lambda>_. snd" fst "\<lambda>t. t"
proof (unfold_locales, goal_cases)
  case (6 s b pre tok mx)
  then show ?case by (simp add: mem_s3_def page_cut)
next
  case (7 s b pre)
  then show ?case by (simp add: mem_s3_def dir_page_listing)
qed (auto simp: mem_s3_def answer_def change_def Let_def has_key_def split: option.splits if_splits)

lemmas mem_s3_ok = mem_s3.s3_service_axioms

definition sample_s3 :: "string \<Rightarrow> (bool \<times> (string, string) fmap) s3_medium" where
  "sample_s3 pre = \<lparr>s3_client = mem_s3, s3_bucket = ''b'', s3_prefix = pre\<rparr>"

lemma sample_s3_simps [simp]: "s3_client (sample_s3 pre) = mem_s3" "s3_prefix (sample_s3 pre) = pre" "s3_bucket (sample_s3 pre) = ''b''"
  by (simp_all add: sample_s3_def)

interpretation s3: read_write "S3_medium go_core (sample_s3 ''d/'')" fst "objectKey go_core (sample_s3 ''d/'')" "\<lambda>_. True"
proof (unfold_locales, goal_cases)
  case (1 s now p c md e s')
  then have "S3_Write go_core (sample_s3 ''d/'') p c s = (e, s')" by (simp add: S3_WriteMode_def)
  from _ \<open>fst s\<close> this show ?case by (rule mem_s3.S3_Write_cases) (use 1 in simp_all)
next
  case (2 s p now c md s')
  then have w: "S3_Write go_core (sample_s3 ''d/'') p c s = (None, s')" by (simp add: S3_WriteMode_def)
  from _ \<open>fst s\<close> w show ?case
    by (rule mem_s3.S3_Write_cases) (simp_all add: mem_s3.S3_Read_lookup)
next
  case (3 s now p c md e s' q)
  then have w: "S3_Write go_core (sample_s3 ''d/'') p c s = (e, s')" by (simp add: S3_WriteMode_def)
  have read: "S3_Read go_core (sample_s3 ''d/'') q t = S3_Read go_core (sample_s3 ''d/'') q t'"
    if "fst t" "fst t'" "fmlookup (snd t) (objectKey go_core (sample_s3 ''d/'') q) = fmlookup (snd t') (objectKey go_core (sample_s3 ''d/'') q)"
    for t t'
    using that by (simp add: S3_Read_def Let_def mem_s3_def answer_def split: option.splits)
  from _ \<open>fst s\<close> w show ?case
    by (rule mem_s3.S3_Write_cases) (use 3(1,3) in \<open>auto intro!: read\<close>)
next
  case (4 now p c s)
  then show ?case by (simp add: S3_WriteMode_def)
qed

subsection \<open>Deleting\<close>

context s3_service
begin

lemma DeleteAll_returns:
  assumes "go_runtime E" "s3_client M = C" "up s"
    "objectKey E M p = k" "k \<noteq> ''''" "pre = (if suffix ''/'' k then k else k @ ''/'')"
  shows "\<exists>e s'. S3_DeleteAll E M p s = Some (e, s') \<and> up s' \<and>
    (e = None \<longrightarrow> in_bucket objects M s' = fmfilter (\<lambda>q. \<not> (q = k \<or> prefix pre q)) (in_bucket objects M s)) \<and>
    (\<forall>q. fmlookup (in_bucket objects M s') q = fmlookup (in_bucket objects M s) q \<or>
       (q = k \<or> prefix pre q) \<and> fmlookup (in_bucket objects M s') q = None)"
proof -
  let ?T = "in_bucket objects M"
  obtain e1 s1 where one: "s3_call ''s3.DeleteAll'' [''failed to delete object: '', k]
      (DeleteObject C (s3_bucket M) k s) = (e1, s1)" by force
  note s1 = s3_Delete_object [OF assms(3) one]
  have pre: "(if \<not> HasSuffix E k ''/'' then k @ ''/'' else k) = pre"
    using assms(6) by (simp add: go_runtime.HasSuffix_eq [OF assms(1)])
  show ?thesis
  proof (cases e1)
    case (Some err)
    then have "S3_DeleteAll E M p s = Some (Some err, s1)"
      using assms(2,4,5) one by (simp add: S3_DeleteAll_def Let_def)
    then show ?thesis using s1 Some by auto
  next
    case None
    then have eq: "S3_DeleteAll E M p s = delete_batches E M pre None s1"
      using assms(2,4,5) one pre by (simp add: S3_DeleteAll_def Let_def)
    obtain e s' where r: "delete_batches E M pre None s1 = Some (e, s')" "up s'" "only_deleted pre (?T s1) (?T s')"
      "e = None \<Longrightarrow> set (selected marker pre None (?T s')) = {}"
      using batches_return [OF assms(2), of s1 E pre None] s1 by blast
    have T1: "?T s1 = fmdrop k (?T s)" using s1 None by simp
    have frame: "fmlookup (?T s') q = fmlookup (?T s) q \<or> (q = k \<or> prefix pre q) \<and> fmlookup (?T s') q = None" for q
      using r(3) [unfolded only_deleted_def, rule_format, of q] by (auto simp: T1 split: if_splits)
    have "?T s' = fmfilter (\<lambda>q. \<not> (q = k \<or> prefix pre q)) (?T s)" if "e = None"
    proof (rule fmap_eqI)
      fix q
      have "k \<noteq> q \<Longrightarrow> prefix pre q \<Longrightarrow> fmlookup (?T s') q = None"
        using r(4) [OF that] by (auto simp: set_selected after_def has_key_def)
      moreover have "fmlookup (?T s') k = None"
        using r(3) [unfolded only_deleted_def, rule_format, of k] by (auto simp: T1)
      ultimately show "fmlookup (?T s') q = fmlookup (fmfilter (\<lambda>q. \<not> (q = k \<or> prefix pre q)) (?T s)) q"
        using frame [of q] by (cases "q = k \<or> prefix pre q") auto
    qed
    then show ?thesis using eq r(1,2) frame by auto
  qed
qed

end

text \<open>
  C26: for a path whose key is not empty, the loop of \<open>DeleteAll\<close> over the pages of the listing returns, however many pages there are.  On
  success exactly the object of the key and the objects below it are gone; on an error some of them
  may be, and no other object has changed.
\<close>

theorem s3_DeleteAll:
  assumes "go_runtime E" "s3_service C objects up marker" "s3_client M = C" "up s"
    "objectKey E M p = k" "k \<noteq> ''''" "pre = (if suffix ''/'' k then k else k @ ''/'')"
  shows "\<exists>e s'. S3_DeleteAll E M p s = Some (e, s') \<and> up s' \<and>
    (e = None \<longrightarrow> in_bucket objects M s' = fmfilter (\<lambda>q. \<not> (q = k \<or> prefix pre q)) (in_bucket objects M s)) \<and>
    (\<forall>q. fmlookup (in_bucket objects M s') q = fmlookup (in_bucket objects M s) q \<or>
       (q = k \<or> prefix pre q) \<and> fmlookup (in_bucket objects M s') q = None)"
  by (rule s3_service.DeleteAll_returns [OF assms(2,1,3-7)])

text \<open>Five objects below \<open>d/x\<close>, listed in three pages.\<close>

definition five :: "(string, string) fmap" where
  "five = fmap_of_list [(''d/x/1'', ''a''), (''d/x/2'', ''b''), (''d/x/3'', ''c''), (''d/x/4'', ''d''), (''d/x/5'', ''e''), (''d/y'', ''f'')]"

theorem s3_DeleteAll_witness:
  "\<exists>e s'. S3_DeleteAll go_core (sample_s3 ''d/'') ''x'' (True, five) = Some (e, s') \<and> fst s' \<and>
     (e = None \<longrightarrow> snd s' = fmfilter (\<lambda>q. \<not> (q = ''d/x'' \<or> prefix ''d/x/'' q)) five)"
proof -
  have "norm_path ''x''" by code_simp
  then have k: "objectKey go_core (sample_s3 ''d/'') ''x'' = ''d/x''" by (simp add: core.objectKey_norm)
  have pre: "''d/x/'' = (if suffix ''/'' ''d/x'' then ''d/x'' else ''d/x'' @ ''/'')" by (simp add: suffix_def)
  from s3_DeleteAll [OF go_core_ok mem_s3_ok _ _ k _ pre, of "(True, five)"] show ?thesis by auto
qed

subsection \<open>Staying below the prefix\<close>

text \<open>
  One step of a client of the medium: an operation that changes the objects, where a writer is one that
  \<open>Create\<close> or \<open>Append\<close> returned at some time and any data was written to.
\<close>

inductive s3_step :: "go_env \<Rightarrow> 'b s3_medium \<Rightarrow> 'b \<Rightarrow> 'b \<Rightarrow> bool" for E M where
  wrote: "S3_WriteMode E M p c md s = (e, s') \<Longrightarrow> s3_step E M s s'"
| delete: "S3_Delete E M p s = (e, s') \<Longrightarrow> s3_step E M s s'"
| delete_all: "S3_DeleteAll E M p s = Some (e, s') \<Longrightarrow> s3_step E M s s'"
| rename: "S3_Rename E M p p' s = (e, s') \<Longrightarrow> s3_step E M s s'"
| ensure: "S3_EnsureDir p s = (e, s') \<Longrightarrow> s3_step E M s s'"
| close: "S3_Create E M p s0 = Inr w \<or> S3_Append E M p s0 = Inr w \<Longrightarrow>
    s3WriteCloser_Close M (w\<lparr>w3_data := data\<rparr>) s = (e, s') \<Longrightarrow> s3_step E M s s'"

lemma writer_key:
  "S3_Create E M p s = Inr w \<or> S3_Append E M p s = Inr w \<Longrightarrow> w3_key w = objectKey E M p"
  by (auto simp: S3_Create_def S3_Append_def Let_def split: if_splits sum.splits)

lemma below_key: "prefix P k \<Longrightarrow> q = k \<or> prefix (if b then k else k @ ''/'') q \<Longrightarrow> prefix P q"
  by (cases b) (auto intro: prefix_order.trans dest: append_prefixD)

context s3_service
begin

lemma s3_step_frame:
  assumes "go_runtime E" "s3_client M = C" "up s" "s3_step E M s s'"
  shows "up s' \<and> (\<forall>k. \<not> prefix (s3_prefix M) k \<longrightarrow> fmlookup (in_bucket objects M s') k = fmlookup (in_bucket objects M s) k)"
    (is "?same s s'")
proof -
  have key: "prefix (s3_prefix M) (objectKey E M p)" for p by (rule go_runtime.objectKey_prefix [OF assms(1)])
  have put: "?same s s'" if "s3_call op parts (PutObject C (s3_bucket M) (objectKey E M p) c s) = (e, s')" for op parts p c e
    using s3_call_iff [OF that] key [of p] by (auto dest!: put [OF assms(3)])
  have del: "?same t t'" if "up t" "s3_call op parts (DeleteObject C (s3_bucket M) (objectKey E M p) t) = (e, t')"
    for op parts p t e t'
    using s3_Delete_object [OF that] key [of p] by auto
  from assms(4) show ?thesis
  proof cases
    case (wrote p c md e)
    then show ?thesis using assms(2,3) put by (auto simp: S3_WriteMode_def S3_Write_def Let_def split: if_splits)
  next
    case (delete p e)
    then show ?thesis using assms(2,3) del by (auto simp: S3_Delete_def Let_def split: if_splits)
  next
    case (delete_all p e)
    let ?k = "objectKey E M p"
    show ?thesis
    proof (cases "?k = ''''")
      case True
      then show ?thesis using delete_all assms(3) by (simp add: S3_DeleteAll_def)
    next
      case False
      obtain e2 s2 where s2: "S3_DeleteAll E M p s = Some (e2, s2)" "up s2"
        "\<And>q. fmlookup (in_bucket objects M s2) q = fmlookup (in_bucket objects M s) q \<or>
          (q = ?k \<or> prefix (if suffix ''/'' ?k then ?k else ?k @ ''/'') q) \<and> fmlookup (in_bucket objects M s2) q = None"
        using DeleteAll_returns [OF assms(1-3) refl False refl] by blast
      then have "s2 = s'" using delete_all by simp
      then show ?thesis using s2(2,3) below_key [OF key [of p]] by blast
    qed
  next
    case (rename p p' e)
    show ?thesis
    proof (cases "objectKey E M p = '''' \<or> objectKey E M p' = ''''")
      case True
      then show ?thesis using rename assms(3) by (auto simp: S3_Rename_def)
    next
      case False
      obtain e1 s1 where c: "s3_call ''s3.Rename'' [''failed to copy object: '', objectKey E M p, '' -> '', objectKey E M p']
          (CopyObject C (s3_bucket M) (s3_bucket M @ ''/'' @ objectKey E M p) (objectKey E M p') s) = (e1, s1)" by force
      obtain e0 where e0: "CopyObject C (s3_bucket M) (s3_bucket M @ ''/'' @ objectKey E M p) (objectKey E M p') s = (e0, s1)"
        using s3_call_iff [OF c] by blast
      have one: "?same s s1" using copy_any [OF assms(3) e0] key [of p'] by auto
      then show ?thesis
        using rename assms(2) False c del [of s1 "''s3.Rename''" "[''failed to delete source object: '', objectKey E M p]" p e s']
        by (cases e1) (auto simp: S3_Rename_def Let_def)
    qed
  next
    case (ensure p e)
    then show ?thesis using assms(3) by (simp add: S3_EnsureDir_def)
  next
    case (close p s0 w data e)
    then show ?thesis using assms(2) put writer_key [of E M p s0 w] by (simp add: s3WriteCloser_Close_def)
  qed
qed

end

text \<open>
  A medium with a prefix never touches an object outside it: after any sequence of writes, stream
  closes, deletions and renames, with any paths, an object whose key does not start with the prefix
  of the medium is as it was.
\<close>

theorem s3_confined:
  assumes "go_runtime E" "s3_service C objects up marker" "s3_client M = C" "up s"
    "(s3_step E M)\<^sup>*\<^sup>* s s'" "\<not> prefix (s3_prefix M) k"
  shows "fmlookup (in_bucket objects M s') k = fmlookup (in_bucket objects M s) k"
proof -
  from assms(5) have "up s' \<and> fmlookup (in_bucket objects M s') k = fmlookup (in_bucket objects M s) k"
  proof (induction rule: rtranclp_induct)
    case (step t u)
    then show ?case using s3_service.s3_step_frame [OF assms(2,1,3) _ step(2)] assms(6) by auto
  qed (use assms(4) in simp)
  then show ?thesis ..
qed

theorem s3_confined_witness:
  "fmlookup (snd (snd (S3_Rename go_core (sample_s3 ''d/'') ''../y'' ''../../e'' (True, fmupd ''e'' ''1'' five)))) ''e'' = Some ''1''"
proof -
  let ?s = "(True, fmupd ''e'' ''1'' five)"
  let ?r = "S3_Rename go_core (sample_s3 ''d/'') ''../y'' ''../../e'' ?s"
  have "s3_step go_core (sample_s3 ''d/'') ?s (snd ?r)"
    by (rule s3_step.rename [of _ _ _ _ _ "fst ?r"]) (rule prod.collapse [symmetric])
  then have "(s3_step go_core (sample_s3 ''d/''))\<^sup>*\<^sup>* ?s (snd ?r)" ..
  from s3_confined [OF go_core_ok mem_s3_ok _ _ this, of "''e''"] show ?thesis by simp
qed

subsection \<open>Renaming and appending\<close>

text \<open>
  A rename is a copy followed by a deletion.  On success the object is at the new key only; a
  rename that fails leaves everything as it was or the object at both keys, and its content is never
  lost.  An object is not renamed to itself.
\<close>

theorem s3_Rename:
  assumes "go_runtime E" "s3_service C objects up marker" "s3_client M = C" "up s"
    "objectKey E M p = k" "objectKey E M p' = k'" "list_all unreserved k"
    "S3_Rename E M p p' s = (e, s')"
  shows "up s' \<and>
    (e = None \<longrightarrow> k \<noteq> k' \<and> (\<exists>c. fmlookup (in_bucket objects M s) k = Some c \<and>
       in_bucket objects M s' = fmdrop k (fmupd k' c (in_bucket objects M s)))) \<and>
    (e \<noteq> None \<longrightarrow> in_bucket objects M s' = in_bucket objects M s \<or>
       (\<exists>c. fmlookup (in_bucket objects M s) k = Some c \<and>
          in_bucket objects M s' = fmupd k' c (in_bucket objects M s)))"
proof (cases "k = '''' \<or> k' = ''''")
  case True
  then show ?thesis using assms(4,5,6,8) by (auto simp: S3_Rename_def Let_def)
next
  case False
  obtain e1 s1 where c: "s3_call ''s3.Rename'' [''failed to copy object: '', k, '' -> '', k']
      (CopyObject C (s3_bucket M) (s3_bucket M @ ''/'' @ k) k' s) = (e1, s1)" by force
  obtain e0 where e0: "CopyObject C (s3_bucket M) (s3_bucket M @ ''/'' @ k) k' s = (e0, s1)" "e1 = None \<longleftrightarrow> e0 = None"
    using s3_call_iff [OF c] by blast
  note one = s3_service.copy [OF assms(2,4,7) e0(1)]
  show ?thesis
  proof (cases e1)
    case (Some err)
    then have "e = Some err" "s' = s1" using assms(3,5,6,8) False c by (auto simp: S3_Rename_def Let_def)
    then show ?thesis using one e0(2) Some by simp
  next
    case None
    have "s3_call ''s3.Rename'' [''failed to delete source object: '', k] (DeleteObject C (s3_bucket M) k s1) = (e, s')"
      using assms(3,5,6,8) False c None by (auto simp: S3_Rename_def Let_def)
    note two = s3_service.s3_Delete_object [OF assms(2) conjunct1 [OF one] this]
    have "k \<noteq> k'" "has_key (in_bucket objects M s) k"
      "in_bucket objects M s1 = fmupd k' (the (fmlookup (in_bucket objects M s) k)) (in_bucket objects M s)"
      using one e0(2) None by auto
    then show ?thesis using two by (cases e) (auto simp: has_key_def)
  qed
qed

theorem s3_Rename_witness:
  "fmlookup (snd (snd (S3_Rename go_core (sample_s3 ''d/'') ''y'' ''z'' (True, five)))) ''d/z'' = Some ''f''"
proof -
  let ?r = "S3_Rename go_core (sample_s3 ''d/'') ''y'' ''z'' (True, five)"
  have "norm_path ''y''" "norm_path ''z''" by code_simp+
  then have k: "objectKey go_core (sample_s3 ''d/'') ''y'' = ''d/y''" "objectKey go_core (sample_s3 ''d/'') ''z'' = ''d/z''"
    by (simp_all add: core.objectKey_norm)
  have u: "list_all unreserved ''d/y''" by code_simp
  have "fst ?r = None" by code_simp
  then have r: "?r = (None, snd ?r)" by (metis prod.collapse)
  have "fmlookup five ''d/y'' = Some ''f''" by (simp add: five_def)
  then show ?thesis
    using s3_Rename [OF go_core_ok mem_s3_ok _ _ k u r] by simp
qed

text \<open>
  C28: \<open>Append\<close> takes every error of the service for a missing object.  If the object exists but reading it
  fails at the moment, the call succeeds with an empty writer, and closing the writer replaces the
  content by what was appended.
\<close>

theorem s3_Append_loses:
  assumes "s3_service C objects up marker" "s3_client M = C" "objectKey E M p = k" "k \<noteq> ''''"
    "GetObject C (s3_bucket M) k s = Inl err" "up s1" "fmlookup (in_bucket objects M s1) k = Some c"
  shows "\<exists>w. S3_Append E M p s = Inr w \<and>
    (\<forall>s2. s3WriteCloser_Close M (snd (s3WriteCloser_Write data w)) s1 = (None, s2) \<longrightarrow>
       fmlookup (in_bucket objects M s2) k = Some data)"
proof -
  let ?w = "\<lparr>w3_key = k, w3_data = ''''\<rparr>"
  have "S3_Append E M p s = Inr ?w" using assms(2-5) by (simp add: S3_Append_def Let_def)
  moreover have "fmlookup (in_bucket objects M s2) k = Some data"
    if "s3WriteCloser_Close M (snd (s3WriteCloser_Write data ?w)) s1 = (None, s2)" for s2
  proof -
    have w: "snd (s3WriteCloser_Write data ?w) = \<lparr>w3_key = k, w3_data = data\<rparr>"
      by (simp add: s3WriteCloser_Write_def)
    have "s3_call ''s3.writeCloser.Close'' [''failed to upload on close''] (PutObject C (s3_bucket M) k data s1) = (None, s2)"
      using that unfolding w by (simp add: s3WriteCloser_Close_def assms(2))
    from s3_call_iff [OF this] have "PutObject C (s3_bucket M) k data s1 = (None, s2)" by auto
    then show ?thesis using s3_service.put [OF assms(1,6)] by auto
  qed
  ultimately show ?thesis by blast
qed

theorem s3_Append_loses_witness:
  "\<exists>w. S3_Append go_core (sample_s3 ''d/'') ''y'' (False, five) = Inr w \<and> fmlookup five ''d/y'' = Some ''f'' \<and>
    (\<forall>s2. s3WriteCloser_Close (sample_s3 ''d/'') (snd (s3WriteCloser_Write ''!'' w)) (True, five) = (None, s2) \<longrightarrow>
       fmlookup (snd s2) ''d/y'' = Some ''!'')"
proof -
  have "norm_path ''y''" by code_simp
  then have k: "objectKey go_core (sample_s3 ''d/'') ''y'' = ''d/y''" by (simp add: core.objectKey_norm)
  have f: "fmlookup five ''d/y'' = Some ''f''" by (simp add: five_def)
  then have down: "GetObject mem_s3 (s3_bucket (sample_s3 ''d/'')) ''d/y'' (False, five) = Inl (ErrNew ''unavailable'')"
    by (simp add: mem_s3_def answer_def)
  have "fst (True, five)" "fmlookup (snd (True, five)) ''d/y'' = Some ''f''" "''d/y'' \<noteq> ''''" using f by simp_all
  from s3_Append_loses [OF mem_s3_ok sample_s3_simps(1) k this(3) down this(1,2), of "''!''"] f show ?thesis
    by blast
qed

subsection \<open>Listing\<close>

context go_runtime
begin

lemma appendCommonPrefixEntries_eq:
  "appendCommonPrefixEntries E pre (map (\<lambda>n. Some (pre @ n @ ''/'')) ns) acc
     = acc @ map s3DirectoryEntry (filter (\<lambda>n. n \<noteq> '''') ns)"
proof (induction ns arbitrary: acc)
  case (Cons n ns)
  have "TrimSuffix E (TrimPrefix E (pre @ n @ ''/'') pre) ''/'' = n"
    by (simp add: trim_prefix_def trim_suffix_def)
  then show ?case using Cons.IH by (simp add: appendCommonPrefixEntries_def)
qed (simp add: appendCommonPrefixEntries_def)

lemma appendObjectEntries_eq:
  assumes "map ob_Key obs = map Some ks" "\<forall>k\<in>set ks. prefix pre k \<and> slash \<notin> set (drop (length pre) k)"
  shows "appendObjectEntries E pre obs acc = acc @
    map (\<lambda>ob. s3ObjectEntry (drop (length pre) (the (ob_Key ob))) ob) (filter (\<lambda>ob. ob_Key ob \<noteq> Some pre) obs)"
  using assms
proof (induction obs arbitrary: ks acc)
  case (Cons ob obs)
  then obtain k ks' where ks: "ks = k # ks'" "ob_Key ob = Some k" "map ob_Key obs = map Some ks'" by (cases ks) auto
  have k: "prefix pre k" "slash \<notin> set (drop (length pre) k)" using Cons.prems(2) ks(1) by auto
  have "drop (length pre) k = '''' \<longleftrightarrow> k = pre" using k(1) by (auto simp: prefix_def)
  moreover have "\<not> sublist ''/'' (drop (length pre) k)" using k(2) by (simp add: sublist_single)
  moreover have "trim_prefix k pre = drop (length pre) k" using k(1) by (simp add: trim_prefix_def)
  ultimately have step: "appendObjectEntries E pre (ob # obs) acc = appendObjectEntries E pre obs
      (if k = pre then acc else acc @ [s3ObjectEntry (drop (length pre) k) ob])"
    using ks(2) by (simp add: appendObjectEntries_def Let_def)
  show ?case unfolding step using Cons.IH [OF ks(3)] Cons.prems(2) ks(1,2) by simp
qed (simp add: appendObjectEntries_def)

end

text \<open>
  The listing made of a page of a directory, first the directories and then the files.
\<close>

definition dir_entries :: "string \<Rightarrow> s3_listing \<Rightarrow> string list \<Rightarrow> dir_entry list" where
  "dir_entries pre out ns = map s3DirectoryEntry (filter (\<lambda>n. n \<noteq> '''') ns) @
     map (\<lambda>ob. s3ObjectEntry (drop (length pre) (the (ob_Key ob))) ob) (filter (\<lambda>ob. ob_Key ob \<noteq> Some pre) (ls_Contents out))"

lemma s3_entry_simps [simp]:
  "de_name (s3DirectoryEntry n) = n" "de_isDir (s3DirectoryEntry n)"
  "de_name (s3ObjectEntry n ob) = n" "\<not> de_isDir (s3ObjectEntry n ob)"
  "fi_size (de_info (s3ObjectEntry n ob)) = (case ob_Size ob of Some m \<Rightarrow> m | None \<Rightarrow> 0)"
  by (simp_all add: s3DirectoryEntry_def s3ObjectEntry_def NewFileInfo_def Let_def)

lemma dir_entries_names:
  "map de_name (filter de_isDir (dir_entries pre out ns)) = filter (\<lambda>n. n \<noteq> '''') ns"
  "map de_name (filter (\<lambda>e. \<not> de_isDir e) (dir_entries pre out ns))
     = map (\<lambda>ob. drop (length pre) (the (ob_Key ob))) (filter (\<lambda>ob. ob_Key ob \<noteq> Some pre) (ls_Contents out))"
  by (simp_all add: dir_entries_def comp_def filter_map)

lemma object_names:
  assumes "map ob_Key obs = map Some ks"
  shows "map (\<lambda>ob. drop (length pre) (the (ob_Key ob))) (filter (\<lambda>ob. ob_Key ob \<noteq> Some pre) obs)
    = map (drop (length pre)) (filter (\<lambda>k. k \<noteq> pre) ks)"
  using assms
proof (induction obs arbitrary: ks)
  case (Cons ob obs)
  then show ?case by (cases ks) auto
qed simp

lemma file_names:
  assumes "\<forall>k\<in>set ks. prefix pre k" "distinct ks"
  shows "distinct (map (drop (length pre)) (filter (\<lambda>k. k \<noteq> pre) ks))"
    "set (map (drop (length pre)) (filter (\<lambda>k. k \<noteq> pre) ks)) = {n. pre @ n \<in> set ks \<and> n \<noteq> ''''}"
proof -
  have "inj_on (drop (length pre)) (set (filter (\<lambda>k. k \<noteq> pre) ks))"
  proof (rule inj_onI)
    fix x y
    assume a: "x \<in> set (filter (\<lambda>k. k \<noteq> pre) ks)" "y \<in> set (filter (\<lambda>k. k \<noteq> pre) ks)"
      "drop (length pre) x = drop (length pre) y"
    then have "prefix pre x" "prefix pre y" using assms(1) by auto
    then show "x = y" using a(3) by (auto simp: prefix_def)
  qed
  then show "distinct (map (drop (length pre)) (filter (\<lambda>k. k \<noteq> pre) ks))"
    using assms(2) by (simp add: distinct_map)
  show "set (map (drop (length pre)) (filter (\<lambda>k. k \<noteq> pre) ks)) = {n. pre @ n \<in> set ks \<and> n \<noteq> ''''}"
  proof (intro equalityI subsetI)
    fix n assume "n \<in> set (map (drop (length pre)) (filter (\<lambda>k. k \<noteq> pre) ks))"
    then obtain k where "k \<in> set ks" "k \<noteq> pre" "n = drop (length pre) k" by auto
    then show "n \<in> {n. pre @ n \<in> set ks \<and> n \<noteq> ''''}" using assms(1) by (auto simp: prefix_def)
  next
    fix n assume "n \<in> {n. pre @ n \<in> set ks \<and> n \<noteq> ''''}"
    then show "n \<in> set (map (drop (length pre)) (filter (\<lambda>k. k \<noteq> pre) ks))"
      by (auto intro!: image_eqI [of _ _ "pre @ n"])
  qed
qed

text \<open>
  C27: a listing has the names of the objects directly below the path as files, with their sizes, and the
  first components of the keys further below as directories, each once; nothing else is listed, and
  everything is listed unless the service cut the page off, which the code does not look at.
\<close>

theorem s3_List:
  assumes "go_runtime E" "s3_service C objects up marker" "s3_client M = C" "up s"
    "objectKey E M p = k" "pre = (if k \<noteq> '''' \<and> \<not> suffix ''/'' k then k @ ''/'' else k)"
    "T = in_bucket objects M s"
  shows "\<exists>out es. ListObjectsV2 C (s3_bucket M) pre (Some ''/'') None None s = Inr out \<and> S3_List E M p s = Inr es \<and>
    (let ds = map de_name (filter de_isDir es); fs = map de_name (filter (\<lambda>e. \<not> de_isDir e) es)
     in distinct ds \<and> distinct fs \<and> set ds \<subseteq> dirs_in T pre \<and> set fs \<subseteq> files_in T pre \<and>
        (ls_IsTruncated out \<noteq> Some True \<longrightarrow> set ds = dirs_in T pre - {''''} \<and> set fs = files_in T pre)) \<and>
    (\<forall>e\<in>set es. \<not> de_isDir e \<longrightarrow> (\<exists>c. fmlookup T (pre @ de_name e) = Some c \<and> fi_size (de_info e) = int (length c)))"
proof -
  obtain out where out: "ListObjectsV2 C (s3_bucket M) pre (Some ''/'') None None s = Inr out" "dir_page T pre out"
    using s3_service.list_dir [OF assms(2,4), of "s3_bucket M" pre] assms(7) by auto
  let ?K = "{k. has_key T k \<and> prefix pre k \<and> slash \<notin> set (drop (length pre) k)}"
  obtain ks ns where p: "map ob_Key (ls_Contents out) = map Some ks"
      "ls_CommonPrefixes out = map (\<lambda>n. Some (pre @ n @ ''/'')) ns" "distinct ks" "distinct ns"
      "set ks \<subseteq> ?K" "set ns \<subseteq> dirs_in T pre"
      "\<forall>object\<in>set (ls_Contents out). \<forall>k c. ob_Key object = Some k \<longrightarrow> fmlookup T k = Some c \<longrightarrow>
        ob_Size object = Some (int (length c))"
      "ls_IsTruncated out = Some True \<longleftrightarrow> \<not> (set ks = ?K \<and> set ns = dirs_in T pre)"
    using out(2) unfolding dir_page_def by (elim exE conjE) (rule that)
  have pre: "(if objectKey E M p \<noteq> '''' \<and> \<not> HasSuffix E (objectKey E M p) ''/'' then objectKey E M p @ ''/''
      else objectKey E M p) = pre"
    using assms(5,6) by (simp add: go_runtime.HasSuffix_eq [OF assms(1)])
  have below: "\<forall>k\<in>set ks. prefix pre k \<and> slash \<notin> set (drop (length pre) k)" using p(5) by auto
  let ?es = "dir_entries pre out ns"
  have "appendCommonPrefixEntries E pre (ls_CommonPrefixes out) [] = map s3DirectoryEntry (filter (\<lambda>n. n \<noteq> '''') ns)"
    unfolding p(2) go_runtime.appendCommonPrefixEntries_eq [OF assms(1)] by simp
  then have List: "S3_List E M p s = Inr ?es"
    unfolding S3_List_def Let_def pre assms(3) out(1)
    using go_runtime.appendObjectEntries_eq [OF assms(1) p(1) below] by (simp add: dir_entries_def)
  have "\<forall>k\<in>set ks. prefix pre k" using below by blast
  note fs = file_names [OF this p(3)]
  have K: "{n. pre @ n \<in> ?K \<and> n \<noteq> ''''} = files_in T pre" by (auto simp: files_in_def)
  have names: "let ds = map de_name (filter de_isDir ?es); fs = map de_name (filter (\<lambda>e. \<not> de_isDir e) ?es)
     in distinct ds \<and> distinct fs \<and> set ds \<subseteq> dirs_in T pre \<and> set fs \<subseteq> files_in T pre \<and>
        (ls_IsTruncated out \<noteq> Some True \<longrightarrow> set ds = dirs_in T pre - {''''} \<and> set fs = files_in T pre)"
    unfolding Let_def dir_entries_names object_names [OF p(1)]
  proof (intro conjI impI)
    show "distinct (map (drop (length pre)) (filter (\<lambda>k. k \<noteq> pre) ks))"
      "set (map (drop (length pre)) (filter (\<lambda>k. k \<noteq> pre) ks)) \<subseteq> files_in T pre"
      using fs p(5) below by (auto simp: files_in_def)
    show "distinct (filter (\<lambda>n. n \<noteq> '''') ns)" "set (filter (\<lambda>n. n \<noteq> '''') ns) \<subseteq> dirs_in T pre"
      using p(4,6) by auto
    assume "ls_IsTruncated out \<noteq> Some True"
    then have whole: "set ks = ?K" "set ns = dirs_in T pre" using p(8) by blast+
    show "set (filter (\<lambda>n. n \<noteq> '''') ns) = dirs_in T pre - {''''}" using whole(2) by auto
    show "set (map (drop (length pre)) (filter (\<lambda>k. k \<noteq> pre) ks)) = files_in T pre"
      unfolding fs(2) K [symmetric] whole(1) by simp
  qed
  have "\<exists>c. fmlookup T (pre @ de_name e) = Some c \<and> fi_size (de_info e) = int (length c)"
    if "e \<in> set ?es" "\<not> de_isDir e" for e
  proof -
    note e = that
    obtain ob where ob: "ob \<in> set (ls_Contents out)" "e = s3ObjectEntry (drop (length pre) (the (ob_Key ob))) ob"
      using e by (auto simp: dir_entries_def)
    have "ob_Key ob \<in> set (map Some ks)" using ob(1) p(1) by (metis image_eqI list.set_map)
    then obtain k where k: "ob_Key ob = Some k" "k \<in> set ks" by auto
    then obtain c where "fmlookup T k = Some c" "prefix pre k" using p(5) by (auto simp: has_key_def)
    then show ?thesis using ob k p(7) by (auto simp: prefix_def)
  qed
  then show ?thesis using out(1) List names by blast
qed

theorem s3_List_witness:
  "\<exists>es. S3_List go_core (sample_s3 ''d/'') '''' (True, five) = Inr es \<and>
     set (map de_name (filter (\<lambda>e. \<not> de_isDir e) es)) = files_in five ''d/''"
proof -
  have "path_clean ''/'' = ''/''" by code_simp
  then have k: "objectKey go_core (sample_s3 ''d/'') '''' = ''d/''" by (simp add: objectKey_def trim_prefix_def)
  have pre: "''d/'' = (if ''d/'' \<noteq> '''' \<and> \<not> suffix ''/'' ''d/'' then ''d/'' @ ''/'' else ''d/'')" by (simp add: suffix_def)
  have "ListObjectsV2 mem_s3 b pre (Some d) t mx (True, five) = Inr (dir_listing five pre)" for b pre d t mx
    by (simp add: mem_s3_def)
  moreover have "ls_IsTruncated (dir_listing five ''d/'') = Some False" by (simp add: dir_listing_def)
  ultimately show ?thesis
    using s3_List [OF go_core_ok mem_s3_ok _ _ k pre refl, of "(True, five)"] by (auto simp: Let_def)
qed

end
