(* ===== verification/Actions.thy ===== *)
theory Actions
  imports Memory Local
begin

text \<open>
  The functions of \<open>go/io.go\<close> that forward to a medium, the actions of \<open>go/actions.go\<close> and the service of
  \<open>go/service.go\<close>.  The action registry of package \<open>core\<close> is a parameter: a function that enters a
  handler under a name.
\<close>

subsection \<open>Forwarding functions\<close>

definition io_Read :: "('s, 'f, 'r, 'w) medium \<Rightarrow> string \<Rightarrow> 's \<Rightarrow> string res" where
  "io_Read medium path s = m_Read medium path s"

definition io_Write :: "('s, 'f, 'r, 'w) medium \<Rightarrow> gotime \<Rightarrow> string \<Rightarrow> string \<Rightarrow> 's \<Rightarrow> gerr option \<times> 's" where
  "io_Write medium now path content s = m_Write medium now path content s"

definition io_ReadStream :: "('s, 'f, 'r, 'w) medium \<Rightarrow> gotime \<Rightarrow> string \<Rightarrow> 's \<Rightarrow> 'r res" where
  "io_ReadStream medium now path s = m_ReadStream medium now path s"

definition io_WriteStream :: "('s, 'f, 'r, 'w) medium \<Rightarrow> string \<Rightarrow> 's \<Rightarrow> 'w res \<times> 's" where
  "io_WriteStream medium path s = m_WriteStream medium path s"

definition io_EnsureDir :: "('s, 'f, 'r, 'w) medium \<Rightarrow> string \<Rightarrow> 's \<Rightarrow> gerr option \<times> 's" where
  "io_EnsureDir medium path s = m_EnsureDir medium path s"

definition io_IsFile :: "('s, 'f, 'r, 'w) medium \<Rightarrow> string \<Rightarrow> 's \<Rightarrow> bool" where
  "io_IsFile medium path s = m_IsFile medium path s"

text \<open>The package variable \<open>Local\<close>, set when the program starts.\<close>

definition io_Local :: "go_env \<Rightarrow> ('o, 'f, 'w) os_api \<Rightarrow> 'o \<Rightarrow> ('o, 'f, 'f, 'w) medium res" where
  "io_Local E S fs = (case Local_New E S ''/'' fs of Inl err \<Rightarrow> Inl err | Inr M \<Rightarrow> Inr (Local_medium E S M))"

subsection \<open>Actions\<close>

text \<open>
  What a handler gives to \<open>core.Ok\<close>; an error is what it gives to \<open>core.Fail\<close>.  The state of the program
  is that of the operating system, the shared in-memory medium of the actions and the state of the
  mediums that occur in options.
\<close>

datatype action_value = VNil | VString string | VBool bool | VNames "string list" | VEntries "dir_entry list"

record ('o, 's) io_state =
  io_os :: 'o
  memoryActionStore :: memory_medium
  io_media :: 's

type_synonym ('m, 's) handler = "gotime \<Rightarrow> 'm options \<Rightarrow> 's \<Rightarrow> action_value res \<times> 's"

text \<open>The result of a handler from that of an operation that returns only an error.\<close>

definition done_result :: "gerr option \<times> 's \<Rightarrow> action_value res \<times> 's" where
  "done_result r = (case r of (Some err, s) \<Rightarrow> (Inl err, s) | (None, s) \<Rightarrow> (Inr VNil, s))"

definition on_os :: "('o \<Rightarrow> 'a \<times> 'o) \<Rightarrow> ('o, 's) io_state \<Rightarrow> 'a \<times> ('o, 's) io_state" where
  "on_os f st = (case f (io_os st) of (r, fs) \<Rightarrow> (r, st\<lparr>io_os := fs\<rparr>))"

definition on_memory :: "(memory_medium \<Rightarrow> 'a \<times> memory_medium) \<Rightarrow> ('o, 's) io_state \<Rightarrow> 'a \<times> ('o, 's) io_state" where
  "on_memory f st = (case f (memoryActionStore st) of (r, m) \<Rightarrow> (r, st\<lparr>memoryActionStore := m\<rparr>))"

definition on_media :: "('s \<Rightarrow> 'a \<times> 's) \<Rightarrow> ('o, 's) io_state \<Rightarrow> 'a \<times> ('o, 's) io_state" where
  "on_media f st = (case f (io_media st) of (r, s) \<Rightarrow> (r, st\<lparr>io_media := s\<rparr>))"

definition localMediumFromOptions ::
  "go_env \<Rightarrow> ('o, 'f, 'w) os_api \<Rightarrow> 'm options \<Rightarrow> 'o \<Rightarrow> ('o, 'f, 'f, 'w) medium res" where
  "localMediumFromOptions E S opts fs =
     (let root = opt_string opts ''root''
      in if root = '''' then Inl (CoreE ''io.localMediumFromOptions'' [''root is required''] (Some ErrInvalid))
         else NewSandboxed E S root fs)"

definition localReadAction :: "go_env \<Rightarrow> ('o, 'f, 'w) os_api \<Rightarrow> ('m, ('o, 's) io_state) handler" where
  "localReadAction E S now opts st =
     (case localMediumFromOptions E S opts (io_os st) of
        Inl err \<Rightarrow> (Inl err, st)
      | Inr medium \<Rightarrow>
          (case m_Read medium (opt_string opts ''path'') (io_os st) of
             Inl err \<Rightarrow> (Inl err, st)
           | Inr content \<Rightarrow> (Inr (VString content), st)))"

definition localWriteAction :: "go_env \<Rightarrow> ('o, 'f, 'w) os_api \<Rightarrow> ('m, ('o, 's) io_state) handler" where
  "localWriteAction E S now opts st =
     (case localMediumFromOptions E S opts (io_os st) of
        Inl err \<Rightarrow> (Inl err, st)
      | Inr medium \<Rightarrow>
          done_result (on_os (m_Write medium now (opt_string opts ''path'') (opt_string opts ''content'')) st))"

definition localListAction :: "go_env \<Rightarrow> ('o, 'f, 'w) os_api \<Rightarrow> ('m, ('o, 's) io_state) handler" where
  "localListAction E S now opts st =
     (case localMediumFromOptions E S opts (io_os st) of
        Inl err \<Rightarrow> (Inl err, st)
      | Inr medium \<Rightarrow>
          (case m_List medium now (opt_string opts ''path'') (io_os st) of
             Inl err \<Rightarrow> (Inl err, st)
           | Inr entries \<Rightarrow> (Inr (VEntries entries), st)))"

definition localDeleteAction :: "go_env \<Rightarrow> ('o, 'f, 'w) os_api \<Rightarrow> ('m, ('o, 's) io_state) handler" where
  "localDeleteAction E S now opts st =
     (case localMediumFromOptions E S opts (io_os st) of
        Inl err \<Rightarrow> (Inl err, st)
      | Inr medium \<Rightarrow>
          (let path = opt_string opts ''path'' in
           if opt_bool opts ''recursive'' then done_result (on_os (m_DeleteAll medium path) st)
           else done_result (on_os (m_Delete medium path) st)))"

definition memoryReadAction :: "('m, ('o, 's) io_state) handler" where
  "memoryReadAction now opts st =
     (case MemoryMedium_Read (opt_string opts ''path'') (memoryActionStore st) of
        Inl err \<Rightarrow> (Inl err, st)
      | Inr content \<Rightarrow> (Inr (VString content), st))"

definition memoryWriteAction :: "go_env \<Rightarrow> ('m, ('o, 's) io_state) handler" where
  "memoryWriteAction E now opts st =
     done_result (on_memory (MemoryMedium_Write E now (opt_string opts ''path'') (opt_string opts ''content'')) st)"

text \<open>The dash of the message is a character of three bytes.\<close>

definition msgNotImplemented :: string where
  "msgNotImplemented = ''not implemented '' @ [CHR 0xE2, CHR 0x80, CHR 0x94] @ '' see #633 for backend tracking''"

definition githubNotImplementedAction :: "('m, 's) handler" where
  "githubNotImplementedAction now opts st =
     (Inl (CoreE ''io.github'' [msgNotImplemented] None), st)"

definition pwaNotImplementedAction :: "('m, 's) handler" where
  "pwaNotImplementedAction now opts st =
     (Inl (CoreE ''io.pwa'' [msgNotImplemented] None), st)"

definition mediumFromOptions :: "'m options \<Rightarrow> string \<Rightarrow> 'm res" where
  "mediumFromOptions opts operation =
     (case opt_medium opts ''medium'' of
        None \<Rightarrow> Inl (CoreE operation [''medium is required''] (Some ErrInvalid))
      | Some medium \<Rightarrow> Inr medium)"

definition mediumReadAction :: "string \<Rightarrow> (('s, 'f, 'r, 'w) medium, ('o, 's) io_state) handler" where
  "mediumReadAction operation now opts st =
     (case mediumFromOptions opts operation of
        Inl err \<Rightarrow> (Inl err, st)
      | Inr medium \<Rightarrow>
          (case m_Read medium (opt_string opts ''path'') (io_media st) of
             Inl err \<Rightarrow> (Inl err, st)
           | Inr content \<Rightarrow> (Inr (VString content), st)))"

definition mediumWriteAction :: "string \<Rightarrow> (('s, 'f, 'r, 'w) medium, ('o, 's) io_state) handler" where
  "mediumWriteAction operation now opts st =
     (case mediumFromOptions opts operation of
        Inl err \<Rightarrow> (Inl err, st)
      | Inr medium \<Rightarrow>
          done_result (on_media (m_Write medium now (opt_string opts ''path'') (opt_string opts ''content'')) st))"

definition copyAction :: "(('s, 'f, 'r, 'w) medium, ('o, 's) io_state) handler" where
  "copyAction now opts st =
     (case opt_medium opts ''source'' of
        None \<Rightarrow> (Inl (CoreE ''io.copyAction'' [''source medium is required''] (Some ErrInvalid)), st)
      | Some source \<Rightarrow>
          (case opt_medium opts ''destination'' of
             None \<Rightarrow> (Inl (CoreE ''io.copyAction'' [''destination medium is required''] (Some ErrInvalid)), st)
           | Some destination \<Rightarrow>
               done_result (on_media (\<lambda>s. Copy source s (opt_string opts ''sourcePath'')
                   destination now (opt_string opts ''destinationPath'') s) st)))"

definition io_actions ::
  "go_env \<Rightarrow> ('o, 'g, 'v) os_api \<Rightarrow> (string \<times> (('s, 'f, 'r, 'w) medium, ('o, 's) io_state) handler) list" where
  "io_actions E S =
     [(''core.io.local.read'', localReadAction E S), (''core.io.local.write'', localWriteAction E S),
      (''core.io.local.list'', localListAction E S), (''core.io.local.delete'', localDeleteAction E S),
      (''core.io.memory.read'', memoryReadAction), (''core.io.memory.write'', memoryWriteAction E),
      (''core.io.github.clone'', githubNotImplementedAction), (''core.io.github.read'', githubNotImplementedAction),
      (''core.io.pwa.scrape'', pwaNotImplementedAction),
      (''core.io.sftp.read'', mediumReadAction ''io.sftp.readAction''),
      (''core.io.sftp.write'', mediumWriteAction ''io.sftp.writeAction''),
      (''core.io.s3.read'', mediumReadAction ''io.s3.readAction''),
      (''core.io.s3.write'', mediumWriteAction ''io.s3.writeAction''),
      (''core.io.copy'', copyAction)]"

text \<open>\<open>Action\<close> is the method of \<open>core.Core\<close> that enters a handler; a nil core is \<open>None\<close>.\<close>

definition register_all :: "(string \<Rightarrow> 'h \<Rightarrow> 'c \<Rightarrow> 'c) \<Rightarrow> (string \<times> 'h) list \<Rightarrow> 'c \<Rightarrow> 'c" where
  "register_all Action hs c = fold (\<lambda>(name, h). Action name h) hs c"

definition RegisterActions where
  "RegisterActions E S Action c = map_option (register_all Action (io_actions E S)) c"

definition ResetMemoryActionStore :: "('o, 's) io_state \<Rightarrow> ('o, 's) io_state" where
  "ResetMemoryActionStore st = st\<lparr>memoryActionStore := NewMemoryMedium\<rparr>"

subsection \<open>The service\<close>

text \<open>A service, or its medium, may be nil.\<close>

record ('s, 'f, 'r, 'w) io_service =
  sv_Medium :: "('s, 'f, 'r, 'w) medium option"

definition NewService ::
  "go_env \<Rightarrow> ('o, 'f, 'w) os_api \<Rightarrow> ('o, 'f, 'f, 'w) medium option \<Rightarrow> string \<Rightarrow> 'o
     \<Rightarrow> ('o, 'f, 'f, 'w) io_service res" where
  "NewService E S Local Root fs =
     (if Root \<noteq> '''' then
        (case NewSandboxed E S Root fs of
           Inl err \<Rightarrow> Inl (CoreE ''io.NewService'' [''create sandboxed medium''] (Some err))
         | Inr sandboxed \<Rightarrow> Inr \<lparr>sv_Medium = Some sandboxed\<rparr>)
      else Inr \<lparr>sv_Medium = Local\<rparr>)"

definition io_Register where
  "io_Register E S Local fs = NewService E S Local '''' fs"

text \<open>The guard of every handler.\<close>

definition with_medium ::
  "string \<Rightarrow> ('s, 'f, 'r, 'w) io_service option \<Rightarrow> (('s, 'f, 'r, 'w) medium \<Rightarrow> 's \<Rightarrow> action_value res \<times> 's)
     \<Rightarrow> 's \<Rightarrow> action_value res \<times> 's" where
  "with_medium op sv f s =
     (case Option.bind sv sv_Medium of
        None \<Rightarrow> (Inl (CoreE op [''service not initialised''] None), s)
      | Some medium \<Rightarrow> f medium s)"

definition failed :: "string \<Rightarrow> string \<Rightarrow> gerr option \<times> 's \<Rightarrow> action_value res \<times> 's" where
  "failed op path r =
     (case r of (Some err, s) \<Rightarrow> (Inl (CoreE op [path] (Some err)), s) | (None, s) \<Rightarrow> (Inr VNil, s))"

definition handleRead :: "('s, 'f, 'r, 'w) io_service option \<Rightarrow> ('m, 's) handler" where
  "handleRead sv now opts =
     with_medium ''io.read'' sv (\<lambda>medium s.
       case m_Read medium (opt_string opts ''path'') s of
         Inl err \<Rightarrow> (Inl (CoreE ''io.read'' [opt_string opts ''path''] (Some err)), s)
       | Inr content \<Rightarrow> (Inr (VString content), s))"

definition handleWrite :: "('s, 'f, 'r, 'w) io_service option \<Rightarrow> ('m, 's) handler" where
  "handleWrite sv now opts =
     with_medium ''io.write'' sv (\<lambda>medium s.
       let path = opt_string opts ''path''; content = opt_string opts ''content''; mode = opt_int opts ''mode''
       in if mode \<noteq> 0 then failed ''io.write'' path (m_WriteMode medium now path content (word_of_int mode) s)
          else failed ''io.write'' path (m_Write medium now path content s))"

definition handleDelete :: "('s, 'f, 'r, 'w) io_service option \<Rightarrow> ('m, 's) handler" where
  "handleDelete sv now opts =
     with_medium ''io.delete'' sv (\<lambda>medium s.
       let path = opt_string opts ''path'' in failed ''io.delete'' path (m_Delete medium path s))"

definition handleDeleteAll :: "('s, 'f, 'r, 'w) io_service option \<Rightarrow> ('m, 's) handler" where
  "handleDeleteAll sv now opts =
     with_medium ''io.delete_all'' sv (\<lambda>medium s.
       let path = opt_string opts ''path'' in failed ''io.delete_all'' path (m_DeleteAll medium path s))"

definition handleRename :: "('s, 'f, 'r, 'w) io_service option \<Rightarrow> ('m, 's) handler" where
  "handleRename sv now opts =
     with_medium ''io.rename'' sv (\<lambda>medium s.
       failed ''io.rename'' (opt_string opts ''old'') (m_Rename medium (opt_string opts ''old'') (opt_string opts ''new'') s))"

definition handleExists :: "('s, 'f, 'r, 'w) io_service option \<Rightarrow> ('m, 's) handler" where
  "handleExists sv now opts =
     with_medium ''io.exists'' sv (\<lambda>medium s. (Inr (VBool (m_Exists medium (opt_string opts ''path'') s)), s))"

definition handleIsFile :: "('s, 'f, 'r, 'w) io_service option \<Rightarrow> ('m, 's) handler" where
  "handleIsFile sv now opts =
     with_medium ''io.is_file'' sv (\<lambda>medium s. (Inr (VBool (m_IsFile medium (opt_string opts ''path'') s)), s))"

definition handleIsDir :: "('s, 'f, 'r, 'w) io_service option \<Rightarrow> ('m, 's) handler" where
  "handleIsDir sv now opts =
     with_medium ''io.is_dir'' sv (\<lambda>medium s. (Inr (VBool (m_IsDir medium (opt_string opts ''path'') s)), s))"

definition handleEnsureDir :: "('s, 'f, 'r, 'w) io_service option \<Rightarrow> ('m, 's) handler" where
  "handleEnsureDir sv now opts =
     with_medium ''io.ensure_dir'' sv (\<lambda>medium s.
       failed ''io.ensure_dir'' (opt_string opts ''path'') (m_EnsureDir medium (opt_string opts ''path'') s))"

definition handleList :: "('s, 'f, 'r, 'w) io_service option \<Rightarrow> ('m, 's) handler" where
  "handleList sv now opts =
     with_medium ''io.list'' sv (\<lambda>medium s.
       let path = opt_string opts ''path''
       in case m_List medium now path s of
            Inl err \<Rightarrow> (Inl (CoreE ''io.list'' [path] (Some err)), s)
          | Inr entries \<Rightarrow> (Inr (VNames (map de_name entries)), s))"

definition service_actions :: "('s, 'f, 'r, 'w) io_service option \<Rightarrow> (string \<times> ('m, 's) handler) list" where
  "service_actions sv =
     [(''io.read'', handleRead sv), (''io.write'', handleWrite sv), (''io.delete'', handleDelete sv),
      (''io.delete_all'', handleDeleteAll sv), (''io.rename'', handleRename sv), (''io.exists'', handleExists sv),
      (''io.is_file'', handleIsFile sv), (''io.is_dir'', handleIsDir sv), (''io.ensure_dir'', handleEnsureDir sv),
      (''io.list'', handleList sv)]"

text \<open>\<open>once\<close> is the state of \<open>registrations\<close>: whether its function was run.\<close>

definition OnStartup where
  "OnStartup Action sv once c =
     (case sv of
        None \<Rightarrow> (once, c)
      | Some _ \<Rightarrow>
          (if once then (once, c)
           else (True, map_option (register_all Action (service_actions sv)) c)))"

end
