(* ===== verification/ActionsProps.thy ===== *)
theory ActionsProps
  imports Actions LocalProps
begin

text \<open>
  Properties of the actions and of the service: what a client sees that runs the registered handlers by
  their names.
\<close>

subsection \<open>Running an action by its name\<close>

text \<open>The registry as a map; running a name that is not registered is \<open>None\<close>.\<close>

definition enter :: "string \<Rightarrow> 'h \<Rightarrow> (string \<rightharpoonup> 'h) \<Rightarrow> (string \<rightharpoonup> 'h)" where
  "enter name h m = m(name \<mapsto> h)"

definition run_action ::
  "(string \<rightharpoonup> ('m, 's) handler) \<Rightarrow> string \<Rightarrow> gotime \<Rightarrow> 'm options \<Rightarrow> 's \<Rightarrow> (action_value res \<times> 's) option" where
  "run_action m name now opts st = map_option (\<lambda>h. h now opts st) (m name)"

lemma register_all_map:
  "distinct (map fst hs) \<Longrightarrow> register_all enter hs m = m ++ map_of hs"
proof (induction hs arbitrary: m)
  case (Cons h hs)
  obtain n f where h: "h = (n, f)" by force
  have "register_all enter (h # hs) m = register_all enter hs (m(n \<mapsto> f))"
    by (simp only: register_all_def h fold_Cons comp_def enter_def split_conv)
  also have "\<dots> = m(n \<mapsto> f) ++ map_of hs" using Cons.IH Cons.prems by simp
  finally have "register_all enter (h # hs) m = m(n \<mapsto> f) ++ map_of hs" .
  moreover have "map_of hs n = None" using Cons.prems h by (auto simp: map_of_eq_None_iff)
  ultimately show ?case using h by (auto simp: map_add_def fun_eq_iff split: option.splits)
qed (simp add: register_all_def)

lemma io_actions_names: "distinct (map fst (io_actions E S))"
  by (simp add: io_actions_def)

lemma service_actions_names: "distinct (map fst (service_actions sv))"
  by (simp add: service_actions_def)

lemma done_result_iff:
  "done_result r = (Inr v, s') \<longleftrightarrow> v = VNil \<and> r = (None, s')"
  by (auto simp: done_result_def split: prod.splits option.splits)

text \<open>
  C29: the actions work on one shared in-memory medium: what \<open>core.io.memory.write\<close> stored,
  \<open>core.io.memory.read\<close> of the path returns, until the store is reset; neither touches the operating
  system or another medium.  In any state, a local action whose options have no \<open>root\<close> fails and changes nothing.
\<close>

theorem io_actions_run:
  assumes "go_runtime E" "RegisterActions E S enter (Some Map.empty) = Some registry"
    "run_action registry ''core.io.memory.write'' now opts st = Some (Inr v, st')"
    "opt_string opts' ''path'' = opt_string opts ''path''"
  shows "run_action registry ''core.io.memory.read'' now' opts' st'
      = Some (Inr (VString (opt_string opts ''content'')), st') \<and>
    io_os st' = io_os st \<and> io_media st' = io_media st \<and>
    (\<exists>err. run_action registry ''core.io.memory.read'' now' opts' (ResetMemoryActionStore st')
       = Some (Inl err, ResetMemoryActionStore st')) \<and>
    (\<forall>name t o2 st2. name \<in> {''core.io.local.read'', ''core.io.local.write'',
        ''core.io.local.list'', ''core.io.local.delete''} \<and> opt_string o2 ''root'' = '''' \<longrightarrow>
       run_action registry name t o2 st2 = Some
         (Inl (CoreE ''io.localMediumFromOptions'' [''root is required''] (Some ErrInvalid)), st2))"
proof -
  have reg: "registry = map_of (io_actions E S)"
    using assms(2) by (simp add: RegisterActions_def register_all_map [OF io_actions_names])
  have get: "registry ''core.io.memory.write'' = Some (memoryWriteAction E)"
    "registry ''core.io.memory.read'' = Some memoryReadAction"
    "registry ''core.io.local.read'' = Some (localReadAction E S)" "registry ''core.io.local.write'' = Some (localWriteAction E S)"
    "registry ''core.io.local.list'' = Some (localListAction E S)" "registry ''core.io.local.delete'' = Some (localDeleteAction E S)"
    unfolding reg by (simp_all add: io_actions_def)
  let ?p = "opt_string opts ''path''" and ?c = "opt_string opts ''content''"
  obtain m' where w: "MemoryMedium_Write E now ?p ?c (memoryActionStore st) = (None, m')"
    and st': "st' = st\<lparr>memoryActionStore := m'\<rparr>"
    using assms(3) get(1) by (auto simp: run_action_def memoryWriteAction_def done_result_iff on_memory_def split: prod.splits)
  note rw = go_runtime.memory_read_write [OF assms(1)]
  have "m_WriteMode (MemoryMedium_medium E) now ?p ?c 420 (memoryActionStore st) = (None, m')"
    using w read_write.write_default [OF rw, of now ?p ?c] by (simp add: MemoryMedium_medium_def)
  from read_write.read_written [OF rw TrueI TrueI this] have "MemoryMedium_Read ?p m' = Inr ?c"
    by (simp add: MemoryMedium_medium_def)
  moreover have "\<exists>err. MemoryMedium_Read ?p NewMemoryMedium = Inl err"
    by (simp add: MemoryMedium_Read_def NewMemoryMedium_def)
  ultimately show ?thesis
    using get st' assms(4)
    by (auto simp: run_action_def memoryReadAction_def ResetMemoryActionStore_def localReadAction_def localWriteAction_def
        localListAction_def localDeleteAction_def localMediumFromOptions_def)
qed

text \<open>Options with the values of a list, whose other keys are missing.\<close>

definition some_options :: "(string \<times> 'm opt_value) list \<Rightarrow> 'm options" where
  "some_options xs k = (case map_of xs k of Some v \<Rightarrow> v | None \<Rightarrow> OptOther)"

definition sample_options :: "(memory_medium, memory_file, memory_file, memory_writer) medium options" where
  "sample_options = some_options [(''path'', OptString ''a/b''), (''content'', OptString ''text'')]"

text \<open>A program with an empty in-memory store and one more in-memory medium.\<close>

definition sample_state :: "((string, string) fmap, memory_medium) io_state" where
  "sample_state = \<lparr>io_os = fmempty, memoryActionStore = NewMemoryMedium, io_media = NewMemoryMedium\<rparr>"

theorem io_actions_run_witness:
  "\<exists>registry st'. RegisterActions go_core (link_disk []) enter (Some Map.empty) = Some registry \<and>
     run_action registry ''core.io.memory.write'' 1 sample_options sample_state = Some (Inr VNil, st') \<and>
     run_action registry ''core.io.memory.read'' 2 sample_options st' = Some (Inr (VString ''text''), st')"
proof -
  let ?reg = "map_of (io_actions go_core (link_disk []))"
  have reg: "RegisterActions go_core (link_disk []) enter (Some Map.empty) = Some ?reg"
    by (simp add: RegisterActions_def register_all_map [OF io_actions_names])
  have opts: "opt_string sample_options ''path'' = ''a/b''" "opt_string sample_options ''content'' = ''text''"
    by (simp_all add: sample_options_def some_options_def opt_string_def)
  obtain m' where "MemoryMedium_Write go_core 1 ''a/b'' ''text'' NewMemoryMedium = (None, m')"
  proof -
    have "fst (MemoryMedium_Write go_core 1 ''a/b'' ''text'' NewMemoryMedium) = None" by code_simp
    then show thesis by (metis that prod.collapse)
  qed
  then have w: "run_action ?reg ''core.io.memory.write'' 1 sample_options sample_state
      = Some (Inr VNil, sample_state\<lparr>memoryActionStore := m'\<rparr>)"
    by (simp add: run_action_def io_actions_def memoryWriteAction_def on_memory_def done_result_def opts sample_state_def)
  from io_actions_run [OF go_core_ok reg w refl] show ?thesis
    using reg w unfolding opts by blast
qed

subsection \<open>The service\<close>

text \<open>
  C30: over a medium that keeps the contract of writing and reading, what \<open>io.write\<close> stored \<open>io.read\<close>
  returns, with or without a mode, and a path with another key reads as before; the five actions that
  only ask do not change the state; a second start registers nothing.
\<close>

theorem io_service_run:
  assumes "read_write M iv key valid" "iv s"
    "OnStartup enter (Some \<lparr>sv_Medium = Some M\<rparr>) False (Some Map.empty) = (once, Some registry)"
    "run_action registry ''io.write'' now opts s = Some (Inr v, s')"
    "opt_string opts ''path'' = p" "valid p" "opt_string opts' ''path'' = p"
  shows "iv s' \<and> run_action registry ''io.read'' now' opts' s' = Some (Inr (VString (opt_string opts ''content'')), s') \<and>
    (\<forall>t o2. key (opt_string o2 ''path'') \<noteq> key p \<longrightarrow>
       map_option fst (run_action registry ''io.read'' t o2 s') = map_option fst (run_action registry ''io.read'' t o2 s)) \<and>
    (\<forall>t o2. \<forall>name \<in> {''io.read'', ''io.exists'', ''io.is_file'', ''io.is_dir'', ''io.list''}.
       \<exists>r. run_action registry name t o2 s = Some (r, s)) \<and>
    OnStartup enter (Some \<lparr>sv_Medium = Some M\<rparr>) once (Some registry) = (once, Some registry)"
proof -
  let ?sv = "Some \<lparr>sv_Medium = Some M\<rparr>" and ?c = "opt_string opts ''content''"
  have reg: "registry = map_of (service_actions ?sv)" and once: "once = True"
    using assms(3) by (simp_all add: OnStartup_def register_all_map [OF service_actions_names])
  have get: "registry ''io.write'' = Some (handleWrite ?sv)" "registry ''io.read'' = Some (handleRead ?sv)"
    "registry ''io.exists'' = Some (handleExists ?sv)" "registry ''io.is_file'' = Some (handleIsFile ?sv)"
    "registry ''io.is_dir'' = Some (handleIsDir ?sv)" "registry ''io.list'' = Some (handleList ?sv)"
    unfolding reg by (simp_all add: service_actions_def)
  have failed: "failed op q r = (Inr v, s') \<Longrightarrow> r = (None, s')" for op q r
    by (auto simp: failed_def split: prod.splits option.splits)
  obtain md where w: "m_WriteMode M now p ?c md s = (None, s')"
    using assms(4,5) get(1) read_write.write_default [OF assms(1), of now p ?c s]
    by (auto simp: run_action_def handleWrite_def with_medium_def Let_def split: if_splits dest!: failed)
  have "m_Read M p s' = Inr ?c" by (rule read_write.read_written [OF assms(1,2,6) w])
  then have read: "run_action registry ''io.read'' now' opts' s' = Some (Inr (VString ?c), s')"
    using get(2) assms(7) by (simp add: run_action_def handleRead_def with_medium_def)
  have other: "map_option fst (run_action registry ''io.read'' t o2 s') = map_option fst (run_action registry ''io.read'' t o2 s)"
    if "key (opt_string o2 ''path'') \<noteq> key p" for t o2
    using get(2) read_write.read_other [OF assms(1,2) w, of "opt_string o2 ''path''"] that
    by (simp add: run_action_def handleRead_def with_medium_def split: sum.splits)
  have "\<exists>r. run_action registry name t o2 s = Some (r, s)"
    if "name \<in> {''io.read'', ''io.exists'', ''io.is_file'', ''io.is_dir'', ''io.list''}" for t o2 name
    using that get
    by (auto simp: run_action_def handleRead_def handleExists_def handleIsFile_def handleIsDir_def handleList_def
        with_medium_def Let_def split: sum.splits)
  moreover have "OnStartup enter ?sv once (Some registry) = (once, Some registry)" by (simp add: OnStartup_def once)
  ultimately show ?thesis using read_write.write_inv [OF assms(1,2) w] read other by blast
qed

theorem io_service_run_witness:
  "\<exists>once registry s'. OnStartup enter (Some \<lparr>sv_Medium = Some (MemoryMedium_medium go_core)\<rparr>) False (Some Map.empty)
       = (once, Some registry) \<and>
     run_action registry ''io.read'' 2 sample_options s' = Some (Inr (VString ''text''), s')"
proof -
  let ?M = "MemoryMedium_medium go_core" and ?sv = "Some \<lparr>sv_Medium = Some (MemoryMedium_medium go_core)\<rparr>"
  have start: "OnStartup enter ?sv False (Some Map.empty) = (True, Some (map_of (service_actions ?sv)))"
    by (simp add: OnStartup_def register_all_map [OF service_actions_names])
  have opts: "opt_string sample_options ''path'' = ''a/b''" "opt_string sample_options ''content'' = ''text''" "opt_int sample_options ''mode'' = 0"
    by (simp_all add: sample_options_def some_options_def opt_string_def opt_int_def)
  have "fst (MemoryMedium_Write go_core 1 ''a/b'' ''text'' NewMemoryMedium) = None" by code_simp
  then obtain m' where m: "MemoryMedium_Write go_core 1 ''a/b'' ''text'' NewMemoryMedium = (None, m')"
    by (metis prod.collapse)
  have w: "run_action (map_of (service_actions ?sv)) ''io.write'' 1 sample_options NewMemoryMedium = Some (Inr VNil, m')"
    using m by (simp add: run_action_def service_actions_def handleWrite_def with_medium_def opts failed_def MemoryMedium_medium_def)
  from io_service_run [OF memory.read_write_axioms TrueI start w opts(1) TrueI opts(1), of 2] start show ?thesis
    unfolding opts(2) by blast
qed

end
