(* ===== verification/Remote.thy ===== *)
theory Remote
  imports AbsPaths Moves Actions
begin

text \<open>
  What the packages of \<open>go/pkg/medium\<close> share: the relative path they make of any argument, word for word
  the same function in all four, and lemmas on the paths below a root.
\<close>

definition cleanRelative :: "go_env \<Rightarrow> string \<Rightarrow> string" where
  "cleanRelative E filePath =
     (let clean = CleanPath E (''/'' @ Replace E filePath backslash ''/'') ''/''
      in if clean = ''/'' then '''' else TrimPrefix E clean ''/'')"

text \<open>\<open>fs.FileInfoToDirEntry\<close>.\<close>

definition FileInfoToDirEntry :: "file_info \<Rightarrow> dir_entry" where
  "FileInfoToDirEntry info = NewDirEntry (fi_name info) (fi_isDir info) (fi_mode info) info"

subsection \<open>Package net/url\<close>

text \<open>
  The functions of \<open>net/url\<close> the packages call are parameters: parsing an URL into its parts, writing it and
  undoing the percent-encoding of a path.  \<open>u_rest\<close> stands for the parts the code carries along.
\<close>

record url =
  u_Scheme :: string
  u_Host :: string
  u_Path :: string
  u_RawPath :: string
  u_rest :: string

record url_lib =
  url_Parse :: "string \<Rightarrow> url res"
  url_String :: "url \<Rightarrow> string"
  url_PathUnescape :: "string \<Rightarrow> string res"

subsection \<open>Elements of a relative path\<close>

definition rel_parts :: "string \<Rightarrow> string list" where
  "rel_parts p = clean_elems True (path_elems (replace_char (CHR 0x5C) slash p))"

lemma good_rel_parts [simp]: "good (rel_parts p)"
  by (simp add: rel_parts_def clean_elems_rooted path_elems_mem)

lemma clean_slash: "path_clean (slash # p) = abs_path (clean_elems True (path_elems p))"
  by (simp add: path_clean_def abs_path_def is_rooted_def path_elems_Cons)

lemma abs_path_root: "abs_path cs = ''/'' \<longleftrightarrow> join_with slash cs = []"
  by (simp add: abs_path_def)

lemma join_Nil_iff: "good cs \<Longrightarrow> join_with slash cs = [] \<longleftrightarrow> cs = []"
  using join_good_Nil by fastforce

lemma rel_parts_norm: "good cs \<Longrightarrow> list_all (\<lambda>e. CHR 0x5C \<notin> set e) cs \<Longrightarrow> rel_parts (join_with slash cs) = cs"
proof -
  assume g: "good cs" and b: "list_all (\<lambda>e. CHR 0x5C \<notin> set e) cs"
  have "CHR 0x5C \<notin> set (join_with slash cs)"
    using set_join_with [of slash cs] b by (auto simp: list_all_iff)
  then have "replace_char (CHR 0x5C) slash (join_with slash cs) = join_with slash cs"
    by (auto simp: replace_char_def intro!: map_idI)
  then show ?thesis by (simp add: rel_parts_def path_elems_join g clean_elems_good)
qed

lemma replace_again: "replace_char c d (replace_char c d s) = replace_char c d s"
  by (simp add: replace_char_def)

lemma no_backslash_parts: "e \<in> set (rel_parts p) \<Longrightarrow> CHR 0x5C \<notin> set e"
proof
  assume e: "e \<in> set (rel_parts p)" "CHR 0x5C \<in> set e"
  let ?s = "replace_char (CHR 0x5C) slash p"
  have "e = ''..'' \<or> e \<in> set (split_on slash ?s)"
    using e(1) set_clean_elems [of True "path_elems ?s"] by (auto simp: rel_parts_def path_elems_def)
  then have "CHR 0x5C \<in> set ?s"
    using e(2) set_join_elem [of e "split_on slash ?s" slash] by auto
  then show False by (auto simp: replace_char_def split: if_splits)
qed

lemma rel_parts_idem: "rel_parts (join_with slash (rel_parts p)) = rel_parts p"
  by (rule rel_parts_norm [OF good_rel_parts]) (simp add: list_all_iff no_backslash_parts)

context go_runtime
begin

lemma cleanRelative_parts: "cleanRelative E p = join_with slash (rel_parts p)"
  by (simp add: cleanRelative_def Let_def clean_slash rel_parts_def trim_prefix_def abs_path_root)
     (simp add: abs_path_def)

lemma cleanRelative_Nil: "cleanRelative E p = '''' \<longleftrightarrow> rel_parts p = []"
  by (simp add: cleanRelative_parts join_Nil_iff)

lemma cleanRelative_idem: "cleanRelative E (cleanRelative E p) = cleanRelative E p"
  by (simp add: cleanRelative_parts rel_parts_idem)

lemma cleanRelative_norm: "cleanRelative E p = '''' \<or> norm_path (cleanRelative E p)"
  by (cases "rel_parts p = []") (auto simp: cleanRelative_parts intro: norm_path_join)

end

subsection \<open>Paths below a root\<close>

definition within :: "string \<Rightarrow> string \<Rightarrow> bool" where
  "within root q \<longleftrightarrow> root = ''/'' \<or> at_or_below root q"

lemma at_or_below_refl [simp]: "at_or_below p p"
  by (simp add: at_or_below_def)

lemma at_or_below_trans: "at_or_below p q \<Longrightarrow> at_or_below q r \<Longrightarrow> at_or_below p r"
  by (auto simp: at_or_below_def prefix_def)

lemma within_below: "within root p \<Longrightarrow> at_or_below p q \<Longrightarrow> within root q"
  by (auto simp: within_def intro: at_or_below_trans)

lemma at_or_below_comparable: "at_or_below a x \<Longrightarrow> at_or_below b x \<Longrightarrow> at_or_below a b \<or> at_or_below b a"
  by (auto simp: at_or_below_def prefix_def append_eq_append_conv2 append_eq_Cons_conv Cons_eq_append_conv)

lemma within_ancestor: "within root p \<Longrightarrow> at_or_below d p \<Longrightarrow> within root d \<or> at_or_below d root"
  using at_or_below_comparable [of d p root] by (auto simp: within_def)

lemma at_or_below_abs: "rs \<noteq> [] \<Longrightarrow> at_or_below (abs_path rs) (abs_path (rs @ cs))"
  by (cases cs) (auto simp: at_or_below_def abs_path_def join_with_append)

lemma within_abs: "within (abs_path rs) (abs_path (rs @ cs))"
  by (cases "rs = []") (simp_all add: within_def at_or_below_abs)

lemma path_dir_parent: "good (cs @ [c]) \<Longrightarrow> path_dir (abs_path (cs @ [c])) = abs_path cs"
proof -
  assume g: "good (cs @ [c])"
  then have c: "slash \<notin> set c" by (simp add: good_elem_def)
  show ?thesis
  proof (cases "cs = []")
    case True
    then show ?thesis using dir_part_append [OF c, of "[]"]
      by (simp add: path_dir_def abs_path_def path_clean_def path_elems_def is_rooted_def clean_elems_def)
  next
    case False
    have "abs_path (cs @ [c]) = abs_path cs @ slash # c"
      using False by (simp add: abs_path_def join_with_append)
    then have "dir_part (abs_path (cs @ [c])) = abs_path cs @ ''/''"
      using dir_part_append [OF c] by simp
    moreover have "path_clean (abs_path cs @ ''/'') = abs_path cs"
      using clean_append [of cs "[]"] g by (simp add: path_elems_def)
    ultimately show ?thesis by (simp add: path_dir_def)
  qed
qed

text \<open>Where a path is after its directory \<open>old\<close> became \<open>new\<close>.\<close>

definition moved :: "string \<Rightarrow> string \<Rightarrow> string \<Rightarrow> string" where
  "moved old new p = (if at_or_below old p then new @ drop (length old) p else p)"

lemma moved_below: "at_or_below old p \<Longrightarrow> at_or_below new (moved old new p)"
  by (auto simp: moved_def at_or_below_def prefix_def)

lemma within_moved: "within root p \<Longrightarrow> within root new \<Longrightarrow> within root (moved old new p)"
  using moved_below within_below by (metis moved_def)

end
