(* ===== verification/Sftp.thy ===== *)
theory Sftp
  imports Remote
begin

text \<open>
  Package \<open>sftp\<close>: the medium of \<open>go/pkg/medium/sftp/sftp.go\<close> and the action handlers of
  \<open>go/pkg/medium/sftp/register.go\<close>.  The client library (\<open>github.com/pkg/sftp\<close>) and the SSH transport are not
  part of the repository: the records \<open>sftp_client\<close> and \<open>ssh_api\<close> hold their functions on a state \<open>'s\<close> of
  the connection and the server.
\<close>

subsection \<open>The client\<close>

datatype open_flag = O_WRONLY | O_CREATE | O_TRUNC | O_APPEND

text \<open>
  Opening a file to read it, reading it to the end and closing it leave the server as it was; a failing
  close of such a file is only logged.
\<close>

record ('s, 'h) sftp_client =
  sc_Open :: "string \<Rightarrow> 's \<Rightarrow> 'h res"
  sc_ReadAll :: "'h \<Rightarrow> 's \<Rightarrow> string res"
  sc_OpenFile :: "string \<Rightarrow> open_flag list \<Rightarrow> 's \<Rightarrow> 'h res \<times> 's"
  sc_Write :: "'h \<Rightarrow> string \<Rightarrow> 's \<Rightarrow> nat res \<times> 's"
  sc_CloseFile :: "'h \<Rightarrow> 's \<Rightarrow> gerr option \<times> 's"
  sc_Chmod :: "string \<Rightarrow> file_mode \<Rightarrow> 's \<Rightarrow> gerr option \<times> 's"
  sc_MkdirAll :: "string \<Rightarrow> 's \<Rightarrow> gerr option \<times> 's"
  sc_Stat :: "string \<Rightarrow> 's \<Rightarrow> file_info res"
  sc_Remove :: "string \<Rightarrow> 's \<Rightarrow> gerr option \<times> 's"
  sc_RemoveAll :: "string \<Rightarrow> 's \<Rightarrow> gerr option \<times> 's"
  sc_Rename :: "string \<Rightarrow> string \<Rightarrow> 's \<Rightarrow> gerr option \<times> 's"
  sc_ReadDir :: "string \<Rightarrow> 's \<Rightarrow> file_info list res"
  sc_Close :: "'s \<Rightarrow> gerr option \<times> 's"

datatype 'k auth_method = Password string | PublicKeys 'k

record ('k, 'b) ssh_config =
  cfg_User :: string
  cfg_Auth :: "'k auth_method list"
  cfg_HostKeyCallback :: 'b

record ('k, 'b, 'c, 's, 'h) ssh_api =
  ssh_ParsePrivateKey :: "string \<Rightarrow> 'k res"
  ssh_Dial :: "string \<Rightarrow> ('k, 'b) ssh_config \<Rightarrow> 's \<Rightarrow> 'c res \<times> 's"
  ssh_NewClient :: "'c \<Rightarrow> 's \<Rightarrow> ('s, 'h) sftp_client res \<times> 's"
  ssh_Close :: "'c \<Rightarrow> 's \<Rightarrow> gerr option \<times> 's"

record ('c, 's, 'h) sftp_medium =
  sf_client :: "('s, 'h) sftp_client"
  sf_sshClient :: "'c option"
  sf_root :: string
  sf_ownsClient :: bool
  sf_ownsSSHConn :: bool

record ('k, 'b, 'c, 's, 'h) sftp_options =
  of_Client :: "('s, 'h) sftp_client option"
  of_SSHClient :: "'c option"
  of_Address :: string
  of_User :: string
  of_Password :: string
  of_PrivateKey :: string
  of_Config :: "('k, 'b) ssh_config option"
  of_HostKeyCallback :: "'b option"
  of_Root :: string

subsection \<open>Opening and closing\<close>

definition sftp_normaliseRoot :: "go_env \<Rightarrow> string \<Rightarrow> string" where
  "sftp_normaliseRoot E root =
     (let clean = CleanPath E (''/'' @ root) ''/''
      in if clean = ''.'' \<or> clean = '''' then ''/'' else clean)"

text \<open>The private key is added after the password, when there is one.\<close>

definition sshConfig ::
  "('k, 'b, 'c, 's, 'h) ssh_api \<Rightarrow> ('k, 'b, 'c, 's, 'h) sftp_options \<Rightarrow> ('k, 'b) ssh_config res" where
  "sshConfig S options =
     (case of_Config options of
        Some config \<Rightarrow> Inr config
      | None \<Rightarrow>
          (if of_User options = '''' then Inl (CoreE ''sftp.New'' [''user is required''] (Some ErrInvalid))
           else case of_HostKeyCallback options of
               None \<Rightarrow> Inl (CoreE ''sftp.New'' [''host key callback is required''] (Some ErrInvalid))
             | Some callback \<Rightarrow>
                 (let auth = (if of_Password options \<noteq> '''' then [Password (of_Password options)] else [])
                  in case (if length (of_PrivateKey options) > 0
                           then (case ssh_ParsePrivateKey S (of_PrivateKey options) of
                                   Inl err \<Rightarrow> Inl err | Inr signer \<Rightarrow> Inr (auth @ [PublicKeys signer]))
                           else Inr auth) of
                       Inl err \<Rightarrow> Inl (CoreE ''sftp.New'' [''failed to parse private key''] (Some err))
                     | Inr auth \<Rightarrow>
                         (if auth = []
                          then Inl (CoreE ''sftp.New'' [''password or private key is required''] (Some ErrInvalid))
                          else Inr \<lparr>cfg_User = of_User options, cfg_Auth = auth,
                                 cfg_HostKeyCallback = callback\<rparr>))))"

text \<open>A connection whose close fails is only logged.\<close>

definition closeSFTPCloser :: "('a \<Rightarrow> 's \<Rightarrow> gerr option \<times> 's) \<Rightarrow> 'a \<Rightarrow> 's \<Rightarrow> 's" where
  "closeSFTPCloser close closer s = snd (close closer s)"

definition Sftp_New ::
  "go_env \<Rightarrow> ('k, 'b, 'c, 's, 'h) ssh_api \<Rightarrow> ('k, 'b, 'c, 's, 'h) sftp_options \<Rightarrow> 's
     \<Rightarrow> ('c, 's, 'h) sftp_medium res \<times> 's" where
  "Sftp_New E S options s =
     (let root = sftp_normaliseRoot E (of_Root options)
      in case of_Client options of
           Some client \<Rightarrow>
             (Inr \<lparr>sf_client = client, sf_sshClient = None, sf_root = root, sf_ownsClient = False,
                 sf_ownsSSHConn = False\<rparr>, s)
         | None \<Rightarrow>
             (case of_SSHClient options of
                Some sshClient \<Rightarrow>
                  (case ssh_NewClient S sshClient s of
                     (Inl err, s) \<Rightarrow>
                       (Inl (CoreE ''sftp.New'' [''failed to create SFTP client''] (Some err)), s)
                   | (Inr client, s) \<Rightarrow>
                       (Inr \<lparr>sf_client = client, sf_sshClient = Some sshClient, sf_root = root,
                           sf_ownsClient = True, sf_ownsSSHConn = False\<rparr>, s))
              | None \<Rightarrow>
                  (case sshConfig S options of
                     Inl err \<Rightarrow> (Inl err, s)
                   | Inr config \<Rightarrow>
                       (if of_Address options = ''''
                        then (Inl (CoreE ''sftp.New'' [''address is required''] (Some ErrInvalid)), s)
                        else case ssh_Dial S (of_Address options) config s of
                            (Inl err, s) \<Rightarrow>
                              (Inl (CoreE ''sftp.New'' [''failed to dial SSH server''] (Some err)), s)
                          | (Inr sshClient, s) \<Rightarrow>
                              (case ssh_NewClient S sshClient s of
                                 (Inl err, s) \<Rightarrow>
                                   (Inl (CoreE ''sftp.New'' [''failed to create SFTP client''] (Some err)),
                                    closeSFTPCloser (ssh_Close S) sshClient s)
                               | (Inr client, s) \<Rightarrow>
                                   (Inr \<lparr>sf_client = client, sf_sshClient = Some sshClient, sf_root = root,
                                       sf_ownsClient = True, sf_ownsSSHConn = True\<rparr>, s))))))"

text \<open>The first error is returned, the SSH connection is closed in any case.\<close>

definition Sftp_Close ::
  "('k, 'b, 'c, 's, 'h) ssh_api \<Rightarrow> ('c, 's, 'h) sftp_medium \<Rightarrow> 's \<Rightarrow> gerr option \<times> 's" where
  "Sftp_Close S M s =
     (case (if sf_ownsClient M then sc_Close (sf_client M) s else (None, s)) of
        (err, s) \<Rightarrow>
          (case (if sf_ownsSSHConn M then sf_sshClient M else None) of
             None \<Rightarrow> (err, s)
           | Some sshClient \<Rightarrow>
               (case ssh_Close S sshClient s of
                  (closeErr, s) \<Rightarrow> (if err = None then closeErr else err, s))))"

subsection \<open>Paths\<close>

definition remotePath :: "go_env \<Rightarrow> ('c, 's, 'h) sftp_medium \<Rightarrow> string \<Rightarrow> string" where
  "remotePath E M filePath =
     (let relative = cleanRelative E filePath
      in if relative = '''' then sf_root M
         else if sf_root M = ''/'' then ''/'' @ relative
         else PathJoin E [sf_root M, relative])"

definition requiredRemotePath :: "go_env \<Rightarrow> ('c, 's, 'h) sftp_medium \<Rightarrow> string \<Rightarrow> string \<Rightarrow> string res" where
  "requiredRemotePath E M operation filePath =
     (if cleanRelative E filePath = '''' then Inl (CoreE operation [''path is required''] (Some ErrInvalid))
      else Inr (remotePath E M filePath))"

definition sftp_ensureParent ::
  "go_env \<Rightarrow> ('c, 's, 'h) sftp_medium \<Rightarrow> string \<Rightarrow> 's \<Rightarrow> gerr option \<times> 's" where
  "sftp_ensureParent E M path s =
     (let parent = PathDir E path
      in if parent = ''.'' \<or> parent = ''/'' then (None, s) else sc_MkdirAll (sf_client M) parent s)"

subsection \<open>Reading and writing\<close>

definition Sftp_Read :: "go_env \<Rightarrow> ('c, 's, 'h) sftp_medium \<Rightarrow> string \<Rightarrow> 's \<Rightarrow> string res" where
  "Sftp_Read E M filePath s =
     (case requiredRemotePath E M ''sftp.Read'' filePath of
        Inl err \<Rightarrow> Inl err
      | Inr path \<Rightarrow>
          (case sc_Open (sf_client M) path s of
             Inl err \<Rightarrow> Inl (CoreE ''sftp.Read'' [''open failed: '', path] (Some err))
           | Inr file \<Rightarrow>
               (case sc_ReadAll (sf_client M) file s of
                  Inl err \<Rightarrow> Inl (CoreE ''sftp.Read'' [''read failed: '', path] (Some err))
                | Inr data \<Rightarrow> Inr data)))"

definition Sftp_WriteMode ::
  "go_env \<Rightarrow> ('c, 's, 'h) sftp_medium \<Rightarrow> string \<Rightarrow> string \<Rightarrow> file_mode \<Rightarrow> 's \<Rightarrow> gerr option \<times> 's" where
  "Sftp_WriteMode E M filePath content mode s =
     (let op = ''sftp.WriteMode'' in
      case requiredRemotePath E M op filePath of
        Inl err \<Rightarrow> (Some err, s)
      | Inr path \<Rightarrow>
          (case sftp_ensureParent E M path s of
             (Some err, s) \<Rightarrow> (Some (CoreE op [''create parent failed: '', path] (Some err)), s)
           | (None, s) \<Rightarrow>
               (case sc_OpenFile (sf_client M) path [O_WRONLY, O_CREATE, O_TRUNC] s of
                  (Inl err, s) \<Rightarrow> (Some (CoreE op [''open failed: '', path] (Some err)), s)
                | (Inr file, s) \<Rightarrow>
                    (case sc_Write (sf_client M) file content s of
                       (Inl err, s) \<Rightarrow>
                         (Some (CoreE op [''write failed: '', path] (Some err)),
                          closeSFTPCloser (sc_CloseFile (sf_client M)) file s)
                     | (Inr _, s) \<Rightarrow>
                         (case sc_CloseFile (sf_client M) file s of
                            (Some closeErr, s) \<Rightarrow> (Some (CoreE op [''close failed: '', path] (Some closeErr)), s)
                          | (None, s) \<Rightarrow>
                              (if mode \<noteq> 0 then
                                 (case sc_Chmod (sf_client M) path mode s of
                                    (Some err, s) \<Rightarrow> (Some (CoreE op [''chmod failed: '', path] (Some err)), s)
                                  | (None, s) \<Rightarrow> (None, s))
                               else (None, s)))))))"

definition Sftp_Write ::
  "go_env \<Rightarrow> ('c, 's, 'h) sftp_medium \<Rightarrow> string \<Rightarrow> string \<Rightarrow> 's \<Rightarrow> gerr option \<times> 's" where
  "Sftp_Write E M filePath content s = Sftp_WriteMode E M filePath content 420 s"

definition Sftp_EnsureDir :: "go_env \<Rightarrow> ('c, 's, 'h) sftp_medium \<Rightarrow> string \<Rightarrow> 's \<Rightarrow> gerr option \<times> 's" where
  "Sftp_EnsureDir E M filePath s =
     (let path = remotePath E M filePath
      in if path = sf_root M then (None, s)
         else case sc_MkdirAll (sf_client M) path s of
             (Some err, s) \<Rightarrow> (Some (CoreE ''sftp.EnsureDir'' [''mkdir failed: '', path] (Some err)), s)
           | (None, s) \<Rightarrow> (None, s))"

definition Sftp_IsFile :: "go_env \<Rightarrow> ('c, 's, 'h) sftp_medium \<Rightarrow> string \<Rightarrow> 's \<Rightarrow> bool" where
  "Sftp_IsFile E M filePath s =
     (if cleanRelative E filePath = '''' then False
      else case sc_Stat (sf_client M) (remotePath E M filePath) s of
          Inl err \<Rightarrow> False | Inr info \<Rightarrow> \<not> fi_isDir info)"

subsection \<open>Deleting and renaming\<close>

definition Sftp_Delete :: "go_env \<Rightarrow> ('c, 's, 'h) sftp_medium \<Rightarrow> string \<Rightarrow> 's \<Rightarrow> gerr option \<times> 's" where
  "Sftp_Delete E M filePath s =
     (case requiredRemotePath E M ''sftp.Delete'' filePath of
        Inl err \<Rightarrow> (Some err, s)
      | Inr path \<Rightarrow>
          (case sc_Remove (sf_client M) path s of
             (Some err, s) \<Rightarrow> (Some (CoreE ''sftp.Delete'' [''remove failed: '', path] (Some err)), s)
           | (None, s) \<Rightarrow> (None, s)))"

definition Sftp_DeleteAll :: "go_env \<Rightarrow> ('c, 's, 'h) sftp_medium \<Rightarrow> string \<Rightarrow> 's \<Rightarrow> gerr option \<times> 's" where
  "Sftp_DeleteAll E M filePath s =
     (case requiredRemotePath E M ''sftp.DeleteAll'' filePath of
        Inl err \<Rightarrow> (Some err, s)
      | Inr path \<Rightarrow>
          (case sc_RemoveAll (sf_client M) path s of
             (Some err, s) \<Rightarrow> (Some (CoreE ''sftp.DeleteAll'' [''remove all failed: '', path] (Some err)), s)
           | (None, s) \<Rightarrow> (None, s)))"

definition Sftp_Rename ::
  "go_env \<Rightarrow> ('c, 's, 'h) sftp_medium \<Rightarrow> string \<Rightarrow> string \<Rightarrow> 's \<Rightarrow> gerr option \<times> 's" where
  "Sftp_Rename E M oldPath newPath s =
     (let op = ''sftp.Rename'' in
      case requiredRemotePath E M op oldPath of
        Inl err \<Rightarrow> (Some err, s)
      | Inr oldRemotePath \<Rightarrow>
          (case requiredRemotePath E M op newPath of
             Inl err \<Rightarrow> (Some err, s)
           | Inr newRemotePath \<Rightarrow>
               (case sftp_ensureParent E M newRemotePath s of
                  (Some err, s) \<Rightarrow> (Some (CoreE op [''create parent failed: '', newRemotePath] (Some err)), s)
                | (None, s) \<Rightarrow>
                    (case sc_Rename (sf_client M) oldRemotePath newRemotePath s of
                       (Some err, s) \<Rightarrow> (Some (CoreE op [''rename failed: '', oldRemotePath] (Some err)), s)
                     | (None, s) \<Rightarrow> (None, s)))))"

subsection \<open>Metadata and streams\<close>

text \<open>\<open>slices.SortFunc\<close> need not keep the order of equal names; in a directory the names differ.\<close>

definition Sftp_List :: "go_env \<Rightarrow> ('c, 's, 'h) sftp_medium \<Rightarrow> string \<Rightarrow> 's \<Rightarrow> dir_entry list res" where
  "Sftp_List E M filePath s =
     (let path = remotePath E M filePath
      in case sc_ReadDir (sf_client M) path s of
           Inl err \<Rightarrow> Inl (CoreE ''sftp.List'' [''read dir failed: '', path] (Some err))
         | Inr infos \<Rightarrow> Inr (sort_key de_name (map FileInfoToDirEntry infos)))"

definition Sftp_Stat :: "go_env \<Rightarrow> ('c, 's, 'h) sftp_medium \<Rightarrow> string \<Rightarrow> 's \<Rightarrow> file_info res" where
  "Sftp_Stat E M filePath s =
     (case requiredRemotePath E M ''sftp.Stat'' filePath of
        Inl err \<Rightarrow> Inl err
      | Inr path \<Rightarrow>
          (case sc_Stat (sf_client M) path s of
             Inl err \<Rightarrow> Inl (CoreE ''sftp.Stat'' [''stat failed: '', path] (Some err))
           | Inr info \<Rightarrow> Inr info))"

definition Sftp_Open :: "go_env \<Rightarrow> ('c, 's, 'h) sftp_medium \<Rightarrow> string \<Rightarrow> 's \<Rightarrow> 'h res" where
  "Sftp_Open E M filePath s =
     (case requiredRemotePath E M ''sftp.Open'' filePath of
        Inl err \<Rightarrow> Inl err
      | Inr path \<Rightarrow>
          (case sc_Open (sf_client M) path s of
             Inl err \<Rightarrow> Inl (CoreE ''sftp.Open'' [''open failed: '', path] (Some err))
           | Inr file \<Rightarrow> Inr file))"

text \<open>What \<open>Create\<close> and \<open>Append\<close> share.\<close>

definition open_writer ::
  "go_env \<Rightarrow> ('c, 's, 'h) sftp_medium \<Rightarrow> string \<Rightarrow> open_flag list \<Rightarrow> string \<Rightarrow> 's \<Rightarrow> 'h res \<times> 's" where
  "open_writer E M op flags filePath s =
     (case requiredRemotePath E M op filePath of
        Inl err \<Rightarrow> (Inl err, s)
      | Inr path \<Rightarrow>
          (case sftp_ensureParent E M path s of
             (Some err, s) \<Rightarrow> (Inl (CoreE op [''create parent failed: '', path] (Some err)), s)
           | (None, s) \<Rightarrow>
               (case sc_OpenFile (sf_client M) path flags s of
                  (Inl err, s) \<Rightarrow> (Inl (CoreE op [''open failed: '', path] (Some err)), s)
                | (Inr file, s) \<Rightarrow> (Inr file, s))))"

definition Sftp_Create :: "go_env \<Rightarrow> ('c, 's, 'h) sftp_medium \<Rightarrow> string \<Rightarrow> 's \<Rightarrow> 'h res \<times> 's" where
  "Sftp_Create E M filePath s = open_writer E M ''sftp.Create'' [O_WRONLY, O_CREATE, O_TRUNC] filePath s"

definition Sftp_Append :: "go_env \<Rightarrow> ('c, 's, 'h) sftp_medium \<Rightarrow> string \<Rightarrow> 's \<Rightarrow> 'h res \<times> 's" where
  "Sftp_Append E M filePath s = open_writer E M ''sftp.Append'' [O_WRONLY, O_CREATE, O_APPEND] filePath s"

definition Sftp_ReadStream :: "go_env \<Rightarrow> ('c, 's, 'h) sftp_medium \<Rightarrow> string \<Rightarrow> 's \<Rightarrow> 'h res" where
  "Sftp_ReadStream E M filePath s =
     (case Sftp_Open E M filePath s of Inl err \<Rightarrow> Inl err | Inr file \<Rightarrow> Inr file)"

definition Sftp_WriteStream :: "go_env \<Rightarrow> ('c, 's, 'h) sftp_medium \<Rightarrow> string \<Rightarrow> 's \<Rightarrow> 'h res \<times> 's" where
  "Sftp_WriteStream E M filePath s = Sftp_Create E M filePath s"

definition Sftp_Exists :: "go_env \<Rightarrow> ('c, 's, 'h) sftp_medium \<Rightarrow> string \<Rightarrow> 's \<Rightarrow> bool" where
  "Sftp_Exists E M filePath s =
     (if cleanRelative E filePath = '''' then False
      else is_ok (sc_Stat (sf_client M) (remotePath E M filePath) s))"

definition Sftp_IsDir :: "go_env \<Rightarrow> ('c, 's, 'h) sftp_medium \<Rightarrow> string \<Rightarrow> 's \<Rightarrow> bool" where
  "Sftp_IsDir E M filePath s =
     (if cleanRelative E filePath = '''' then False
      else case sc_Stat (sf_client M) (remotePath E M filePath) s of
          Inl err \<Rightarrow> False | Inr info \<Rightarrow> fi_isDir info)"

definition Sftp_medium :: "go_env \<Rightarrow> ('c, 's, 'h) sftp_medium \<Rightarrow> ('s, 'h, 'h, 'h) medium" where
  "Sftp_medium E M =
     \<lparr>m_Read = Sftp_Read E M, m_Write = (\<lambda>_. Sftp_Write E M),
      m_WriteMode = (\<lambda>_. Sftp_WriteMode E M), m_EnsureDir = Sftp_EnsureDir E M,
      m_IsFile = Sftp_IsFile E M, m_Delete = Sftp_Delete E M,
      m_DeleteAll = Sftp_DeleteAll E M, m_Rename = Sftp_Rename E M,
      m_List = (\<lambda>_. Sftp_List E M), m_Stat = (\<lambda>_. Sftp_Stat E M),
      m_Open = (\<lambda>_. Sftp_Open E M), m_Create = Sftp_Create E M, m_Append = Sftp_Append E M,
      m_ReadStream = (\<lambda>_. Sftp_ReadStream E M), m_WriteStream = Sftp_WriteStream E M,
      m_Exists = Sftp_Exists E M, m_IsDir = Sftp_IsDir E M\<rparr>"

subsection \<open>Actions\<close>

definition sftp_readAction :: "go_env \<Rightarrow> (('c, 's, 'h) sftp_medium, 's) handler" where
  "sftp_readAction E now opts s =
     (case opt_medium opts ''medium'' of
        None \<Rightarrow> (Inl (CoreE ''sftp.readAction'' [''medium is required''] (Some ErrInvalid)), s)
      | Some medium \<Rightarrow>
          (case Sftp_Read E medium (opt_string opts ''path'') s of
             Inl err \<Rightarrow> (Inl err, s) | Inr content \<Rightarrow> (Inr (VString content), s)))"

definition sftp_writeAction :: "go_env \<Rightarrow> (('c, 's, 'h) sftp_medium, 's) handler" where
  "sftp_writeAction E now opts s =
     (case opt_medium opts ''medium'' of
        None \<Rightarrow> (Inl (CoreE ''sftp.writeAction'' [''medium is required''] (Some ErrInvalid)), s)
      | Some medium \<Rightarrow>
          done_result (Sftp_Write E medium (opt_string opts ''path'') (opt_string opts ''content'') s))"

definition sftp_RegisterActions where
  "sftp_RegisterActions E Action c =
     map_option (register_all Action
       [(''core.io.sftp.read'', sftp_readAction E), (''core.io.sftp.write'', sftp_writeAction E)]) c"

end
