(* ===== verification/SftpProps.thy ===== *)
theory SftpProps
  imports Sftp
begin

text \<open>
  Properties of the SFTP medium: the locale \<open>sftp_server\<close> says what the requests do to the tree of the
  server.  Whatever a client does with a medium, and with the writers it opened, nothing outside its root
  changes; a write that succeeds can be read back; a rename never replaces anything.  All of this is about servers
  without symbolic links: the code checks names only, never where a link leads.
\<close>

subsection \<open>The server\<close>

text \<open>
  What a state shows: the contents of the files by their absolute paths, the directories, and for a handle
  opened to write the path its file has now (\<open>None\<close> when it was closed or its file removed) and the
  offset of the next write (\<open>None\<close> for one that appends).
\<close>

record 'h sftp_view =
  v_files :: "(string, string) fmap"
  v_dirs :: "string set"
  v_handle :: "'h \<Rightarrow> string option"
  v_offset :: "'h \<Rightarrow> nat option"

definition keeps_handles :: "'h sftp_view \<Rightarrow> 'h sftp_view \<Rightarrow> bool" where
  "keeps_handles v v' \<longleftrightarrow> (\<forall>h. v_handle v' h = v_handle v h \<or> v_handle v' h = None)"

definition quiet :: "'h sftp_view \<Rightarrow> 'h sftp_view \<Rightarrow> bool" where
  "quiet v v' \<longleftrightarrow> v_files v' = v_files v \<and> v_dirs v' = v_dirs v \<and> keeps_handles v v'"

definition exists_at :: "'h sftp_view \<Rightarrow> string \<Rightarrow> bool" where
  "exists_at v p \<longleftrightarrow> has_key (v_files v) p \<or> p \<in> v_dirs v"

text \<open>The directory entries of \<open>p\<close>: a name, and whether it is a directory.\<close>

definition entry_path :: "string \<Rightarrow> string \<Rightarrow> string" where
  "entry_path p n = (if p = ''/'' then ''/'' @ n else p @ ''/'' @ n)"

definition children :: "'h sftp_view \<Rightarrow> string \<Rightarrow> (string \<times> bool) set" where
  "children v p = {(n, d). good_elem n \<and>
     (if d then entry_path p n \<in> v_dirs v else has_key (v_files v) (entry_path p n))}"

text \<open>A write at an offset; a hole is filled with zero bytes.\<close>

definition overwrite :: "nat \<Rightarrow> string \<Rightarrow> string \<Rightarrow> string" where
  "overwrite k d c = take k c @ replicate (k - length c) (CHR 0x00) @ d @ drop (k + length d) c"

text \<open>
  Requests on clean absolute paths, by the protocol and the documentation of the client.  \<open>up s\<close> holds
  while the connection works and the account may access the tree; a request can still fail.  The tree has no
  symbolic links: a path names the file at that place, so that opening it for writing changes no other (on a server
  with a link below the root that leads out of it, a write to the link changes a file outside).  A rename
  fails when the new name exists.  A failing removal of a tree may have removed a part of it.
\<close>

locale sftp_server =
  fixes C :: "('s, 'h) sftp_client"
    and view :: "'s \<Rightarrow> 'h sftp_view"
    and up :: "'s \<Rightarrow> bool"
  assumes tree: "up s \<Longrightarrow> has_key (v_files (view s)) p \<Longrightarrow> p \<notin> v_dirs (view s)"
    and read_file: "up s \<Longrightarrow> case fmlookup (v_files (view s)) p of
        Some c \<Rightarrow> \<exists>h. sc_Open C p s = Inr h \<and> sc_ReadAll C h s = Inr c
      | None \<Rightarrow> \<forall>h. sc_Open C p s = Inr h \<longrightarrow> (\<exists>err. sc_ReadAll C h s = Inl err)"
    and stat: "up s \<Longrightarrow> case sc_Stat C p s of
        Inl _ \<Rightarrow> \<not> exists_at (view s) p
      | Inr info \<Rightarrow> exists_at (view s) p \<and> (fi_isDir info \<longleftrightarrow> p \<in> v_dirs (view s))"
    and read_dir: "up s \<Longrightarrow> case sc_ReadDir C p s of
        Inl _ \<Rightarrow> p \<notin> v_dirs (view s)
      | Inr infos \<Rightarrow> p \<in> v_dirs (view s) \<and> distinct (map fi_name infos) \<and>
          (\<lambda>i. (fi_name i, fi_isDir i)) ` set infos = children (view s) p"
    and mkdir: "up s \<Longrightarrow> sc_MkdirAll C p s = (e, s') \<Longrightarrow>
      up s' \<and> v_files (view s') = v_files (view s) \<and> keeps_handles (view s) (view s') \<and>
      v_dirs (view s) \<subseteq> v_dirs (view s') \<and> v_dirs (view s') \<subseteq> v_dirs (view s) \<union> {d. at_or_below d p} \<and>
      (e = None \<longrightarrow> p \<in> v_dirs (view s'))"
    and open_write: "up s \<Longrightarrow> O_WRONLY \<in> set fl \<Longrightarrow> O_CREATE \<in> set fl \<Longrightarrow> sc_OpenFile C p fl s = (r, s') \<Longrightarrow>
      up s' \<and> (case r of Inl _ \<Rightarrow> quiet (view s) (view s')
      | Inr h \<Rightarrow> v_files (view s') = (if O_TRUNC \<in> set fl \<or> \<not> has_key (v_files (view s)) p
            then fmupd p '''' (v_files (view s)) else v_files (view s)) \<and>
          v_dirs (view s') = v_dirs (view s) \<and> v_handle (view s') h = Some p \<and>
          v_offset (view s') h = (if O_APPEND \<in> set fl then None else Some 0) \<and>
          (\<forall>h'. h' \<noteq> h \<longrightarrow> v_handle (view s') h' = v_handle (view s) h' \<or> v_handle (view s') h' = None))"
    and writes: "up s \<Longrightarrow> sc_Write C h d s = (w, s') \<Longrightarrow>
      up s' \<and> v_dirs (view s') = v_dirs (view s) \<and> keeps_handles (view s) (view s') \<and>
      (\<forall>q. v_handle (view s) h \<noteq> Some q \<longrightarrow> fmlookup (v_files (view s')) q = fmlookup (v_files (view s)) q) \<and>
      (\<forall>n p c. w = Inr n \<longrightarrow> v_handle (view s) h = Some p \<longrightarrow> fmlookup (v_files (view s)) p = Some c \<longrightarrow>
         n = length d \<and> fmlookup (v_files (view s')) p = Some (case v_offset (view s) h of
            None \<Rightarrow> c @ d | Some k \<Rightarrow> overwrite k d c))"
    and close_file: "up s \<Longrightarrow> sc_CloseFile C h s = (e, s') \<Longrightarrow> up s' \<and> quiet (view s) (view s')"
    and chmod: "up s \<Longrightarrow> sc_Chmod C p md s = (e, s') \<Longrightarrow> up s' \<and> quiet (view s) (view s')"
    and remove: "up s \<Longrightarrow> sc_Remove C p s = (e, s') \<Longrightarrow> up s' \<and> keeps_handles (view s) (view s') \<and>
      (if e = None then v_files (view s') = fmdrop p (v_files (view s)) \<and> v_dirs (view s') = v_dirs (view s) - {p}
       else quiet (view s) (view s'))"
    and remove_all: "up s \<Longrightarrow> sc_RemoveAll C p s = (e, s') \<Longrightarrow> up s' \<and> keeps_handles (view s) (view s') \<and>
      v_dirs (view s') \<subseteq> v_dirs (view s) \<and> v_dirs (view s) \<subseteq> v_dirs (view s') \<union> {d. at_or_below p d} \<and>
      (\<forall>q. if at_or_below p q then e = None \<longrightarrow> \<not> exists_at (view s') q
         else fmlookup (v_files (view s')) q = fmlookup (v_files (view s)) q)"
    and rename: "up s \<Longrightarrow> sc_Rename C old new s = (e, s') \<Longrightarrow> up s' \<and>
      (if e \<noteq> None then quiet (view s) (view s')
       else exists_at (view s) old \<and> \<not> exists_at (view s) new \<and> \<not> at_or_below old new \<and>
         (\<forall>h. v_handle (view s') h = map_option (moved old new) (v_handle (view s) h) \<or> v_handle (view s') h = None) \<and>
         v_dirs (view s') = moved old new ` v_dirs (view s) \<and>
         (\<forall>q. fmlookup (v_files (view s')) q =
            (if at_or_below old q then None
             else if at_or_below new q then fmlookup (v_files (view s)) (old @ drop (length new) q)
             else fmlookup (v_files (view s)) q)))"

lemma keeps_handles_refl [simp]: "keeps_handles v v"
  by (simp add: keeps_handles_def)

lemma keeps_handles_trans: "keeps_handles u v \<Longrightarrow> keeps_handles v w \<Longrightarrow> keeps_handles u w"
  unfolding keeps_handles_def by metis

lemma overwrite_empty [simp]: "overwrite 0 d '''' = d"
  by (simp add: overwrite_def)

subsection \<open>Paths\<close>

context go_runtime
begin

lemma normaliseRoot_abs: "\<exists>rs. good rs \<and> sftp_normaliseRoot E root = abs_path rs"
proof -
  have "sftp_normaliseRoot E root = abs_path (clean_elems True (path_elems root))"
    by (simp add: sftp_normaliseRoot_def Let_def clean_slash) (simp add: abs_path_def)
  then show ?thesis using clean_elems_rooted [of "path_elems root"] path_elems_mem [of _ root] by auto
qed

lemma remotePath_abs:
  assumes "sf_root M = abs_path rs" "good rs"
  shows "remotePath E M p = abs_path (rs @ rel_parts p)"
proof (cases "rel_parts p = []")
  case True
  then show ?thesis by (simp add: remotePath_def cleanRelative_parts assms(1))
next
  case False
  let ?s = "join_with slash (rel_parts p)"
  have ne: "?s \<noteq> []" using False by (simp add: join_Nil_iff)
  show ?thesis
  proof (cases "rs = []")
    case True
    then show ?thesis
      by (simp add: remotePath_def Let_def cleanRelative_parts ne assms(1)) (simp add: abs_path_def)
  next
    case False
    have "abs_path rs \<noteq> ''/''" using False assms(2) by (simp add: abs_path_root join_Nil_iff)
    moreover have "path_join [abs_path rs, ?s] = abs_path (rs @ rel_parts p)"
      using ne clean_append [OF assms(2), of ?s]
      by (simp add: path_join_def Let_def path_elems_join) (simp add: abs_path_def)
    ultimately show ?thesis by (simp add: remotePath_def Let_def cleanRelative_parts ne assms(1))
  qed
qed

lemma remotePath_within:
  assumes "sf_root M = abs_path rs" "good rs"
  shows "within (sf_root M) (remotePath E M p)"
  unfolding remotePath_abs [OF assms] by (simp add: assms(1) within_abs)

text \<open>The parent of the path of a file is still inside the root.\<close>

lemma parent_within:
  assumes "sf_root M = abs_path rs" "good rs" "cleanRelative E p \<noteq> ''''"
  shows "within (sf_root M) (PathDir E (remotePath E M p))"
proof -
  have "rel_parts p \<noteq> []" using assms(3) by (simp add: cleanRelative_Nil)
  then obtain cs c where cs: "rel_parts p = cs @ [c]" by (metis rev_exhaust)
  then have "good ((rs @ cs) @ [c])" using assms(2) good_rel_parts [of p] by simp
  from path_dir_parent [OF this] show ?thesis
    by (simp add: remotePath_abs [OF assms(1,2)] cs assms(1) within_abs)
qed

end

subsection \<open>What one operation may touch\<close>

definition only_within :: "string \<Rightarrow> 'h sftp_view \<Rightarrow> 'h sftp_view \<Rightarrow> bool" where
  "only_within root v v' \<longleftrightarrow>
     (\<forall>q. \<not> within root q \<longrightarrow> fmlookup (v_files v') q = fmlookup (v_files v) q \<and>
        (q \<in> v_dirs v \<longrightarrow> q \<in> v_dirs v') \<and> (q \<in> v_dirs v' \<longrightarrow> q \<in> v_dirs v \<or> at_or_below q root))"

lemma only_within_refl [simp]: "only_within root v v"
  by (simp add: only_within_def)

lemma only_within_trans: "only_within root u v \<Longrightarrow> only_within root v w \<Longrightarrow> only_within root u w"
  unfolding only_within_def by metis

lemma quiet_only: "quiet v v' \<Longrightarrow> only_within root v v'"
  by (simp add: quiet_def only_within_def)

lemma quiet_handles: "quiet v v' \<Longrightarrow> keeps_handles v v'"
  by (simp add: quiet_def)

text \<open>The file of an open writer is below the root.\<close>

definition safe_writer :: "string \<Rightarrow> 'h sftp_view \<Rightarrow> 'h \<Rightarrow> bool" where
  "safe_writer root v h \<longleftrightarrow> (\<forall>p. v_handle v h = Some p \<longrightarrow> within root p)"

lemma safe_kept: "keeps_handles v v' \<Longrightarrow> safe_writer root v h \<Longrightarrow> safe_writer root v' h"
  unfolding keeps_handles_def safe_writer_def by (metis option.distinct(1))

text \<open>What an operation of a confined client does, and its writers with it.\<close>

definition confined :: "('s \<Rightarrow> 'h sftp_view) \<Rightarrow> ('s \<Rightarrow> bool) \<Rightarrow> string \<Rightarrow> 's \<Rightarrow> 's \<Rightarrow> bool" where
  "confined view up root s s' \<longleftrightarrow> up s' \<and> only_within root (view s) (view s') \<and>
     (\<forall>h. safe_writer root (view s) h \<longrightarrow> safe_writer root (view s') h)"

lemma confined_refl [simp]: "confined view up root s s \<longleftrightarrow> up s"
  by (simp add: confined_def)

lemma confined_trans: "confined view up root s t \<Longrightarrow> confined view up root t u \<Longrightarrow> confined view up root s u"
  unfolding confined_def by (blast intro: only_within_trans)

lemma confined_up: "confined view up root s s' \<Longrightarrow> up s'"
  by (simp add: confined_def)

lemma confined_kept:
  "up s' \<Longrightarrow> only_within root (view s) (view s') \<Longrightarrow> keeps_handles (view s) (view s') \<Longrightarrow> confined view up root s s'"
  unfolding confined_def by (auto intro: safe_kept)

context sftp_server
begin

lemma confined_quiet: "up s' \<and> quiet (view s) (view s') \<Longrightarrow> confined view up root s s'"
  by (rule confined_kept) (simp_all add: quiet_only quiet_handles)

lemma confined_mkdir:
  assumes "up s" "within root p" "sc_MkdirAll C p s = (e, s')"
  shows "confined view up root s s'"
proof -
  note m = mkdir [OF assms(1,3)]
  have "only_within root (view s) (view s')"
    unfolding only_within_def
  proof (intro allI impI)
    fix q assume q: "\<not> within root q"
    have "q \<in> v_dirs (view s') \<Longrightarrow> q \<notin> v_dirs (view s) \<Longrightarrow> at_or_below q p" using m by blast
    then have "q \<in> v_dirs (view s') \<Longrightarrow> q \<in> v_dirs (view s) \<or> at_or_below q root"
      using within_ancestor [OF assms(2), of q] q by blast
    then show "fmlookup (v_files (view s')) q = fmlookup (v_files (view s)) q \<and>
        (q \<in> v_dirs (view s) \<longrightarrow> q \<in> v_dirs (view s')) \<and>
        (q \<in> v_dirs (view s') \<longrightarrow> q \<in> v_dirs (view s) \<or> at_or_below q root)"
      using m by auto
  qed
  with m show ?thesis by (intro confined_kept) simp_all
qed

lemma confined_open:
  assumes "up s" "O_WRONLY \<in> set fl" "O_CREATE \<in> set fl" "within root p" "sc_OpenFile C p fl s = (r, s')"
  shows "confined view up root s s' \<and> (\<forall>h. r = Inr h \<longrightarrow> safe_writer root (view s') h)"
proof (cases r)
  case (Inl err)
  then show ?thesis using open_write [OF assms(1,2,3,5)] by (simp add: confined_quiet)
next
  case (Inr h)
  have o: "up s'" "v_files (view s') = (if O_TRUNC \<in> set fl \<or> \<not> has_key (v_files (view s)) p
        then fmupd p '''' (v_files (view s)) else v_files (view s))"
    "v_dirs (view s') = v_dirs (view s)" "v_handle (view s') h = Some p"
    "\<And>h'. h' \<noteq> h \<Longrightarrow> v_handle (view s') h' = v_handle (view s) h' \<or> v_handle (view s') h' = None"
    using open_write [OF assms(1,2,3,5)] unfolding Inr by simp_all
  have "only_within root (view s) (view s')"
    unfolding only_within_def using o(2,3) assms(4) by auto
  moreover have here: "safe_writer root (view s') h" using o(4) assms(4) by (simp add: safe_writer_def)
  moreover have "safe_writer root (view s') h'" if "safe_writer root (view s) h'" for h'
    using that here o(5) [of h'] by (cases "h' = h") (auto simp: safe_writer_def)
  ultimately show ?thesis unfolding confined_def using o(1) Inr by simp
qed

lemma confined_write:
  assumes "up s" "safe_writer root (view s) h" "sc_Write C h d s = (r, s')"
  shows "confined view up root s s'"
proof -
  note w = writes [OF assms(1,3)]
  have "only_within root (view s) (view s')"
    unfolding only_within_def
  proof (intro allI impI)
    fix q assume "\<not> within root q"
    then have "v_handle (view s) h \<noteq> Some q" using assms(2) by (auto simp: safe_writer_def)
    then show "fmlookup (v_files (view s')) q = fmlookup (v_files (view s)) q \<and>
        (q \<in> v_dirs (view s) \<longrightarrow> q \<in> v_dirs (view s')) \<and>
        (q \<in> v_dirs (view s') \<longrightarrow> q \<in> v_dirs (view s) \<or> at_or_below q root)"
      using w by auto
  qed
  with w show ?thesis by (intro confined_kept) simp_all
qed

lemma confined_remove:
  assumes "up s" "within root p" "sc_Remove C p s = (e, s')"
  shows "confined view up root s s'"
proof -
  note r = remove [OF assms(1,3)]
  have "only_within root (view s) (view s')"
    using r assms(2) quiet_only by (cases "e = None") (auto simp: only_within_def)
  with r show ?thesis by (intro confined_kept) simp_all
qed

lemma confined_remove_all:
  assumes "up s" "within root p" "sc_RemoveAll C p s = (e, s')"
  shows "confined view up root s s'"
proof -
  note r = remove_all [OF assms(1,3)]
  have "only_within root (view s) (view s')"
    unfolding only_within_def
  proof (intro allI impI)
    fix q assume "\<not> within root q"
    then have "\<not> at_or_below p q" using within_below [OF assms(2)] by blast
    then have "fmlookup (v_files (view s')) q = fmlookup (v_files (view s)) q" using r by presburger
    then show "fmlookup (v_files (view s')) q = fmlookup (v_files (view s)) q \<and>
        (q \<in> v_dirs (view s) \<longrightarrow> q \<in> v_dirs (view s')) \<and>
        (q \<in> v_dirs (view s') \<longrightarrow> q \<in> v_dirs (view s) \<or> at_or_below q root)"
      using r \<open>\<not> at_or_below p q\<close> by blast
  qed
  with r show ?thesis by (intro confined_kept) simp_all
qed

lemma confined_rename:
  assumes "up s" "within root old" "within root new" "sc_Rename C old new s = (e, s')"
  shows "confined view up root s s'"
proof (cases "e = None")
  case True
  note r = rename [OF assms(1,4), unfolded True, simplified]
  have out: "\<not> at_or_below old q \<and> \<not> at_or_below new q" if "\<not> within root q" for q
    using that within_below assms(2,3) by blast
  have dirs: "q \<in> v_dirs (view s') \<longleftrightarrow> q \<in> v_dirs (view s)" if q: "\<not> within root q" for q
  proof -
    have "q = moved old new d \<longleftrightarrow> q = d" for d
      using out [OF q] moved_below [of old d new] by (auto simp: moved_def)
    moreover have "v_dirs (view s') = moved old new ` v_dirs (view s)" using r by blast
    ultimately show ?thesis by (simp add: image_iff)
  qed
  have "only_within root (view s) (view s')"
    unfolding only_within_def using r out dirs by simp
  moreover have "safe_writer root (view s') h" if w: "safe_writer root (view s) h" for h
    unfolding safe_writer_def
  proof (intro allI impI)
    fix q assume h: "v_handle (view s') h = Some q"
    then have "map_option (moved old new) (v_handle (view s) h) = Some q"
      using r by (metis option.distinct(1))
    then obtain p where "v_handle (view s) h = Some p" "q = moved old new p" by auto
    then show "within root q" using w assms(3) by (auto simp: safe_writer_def intro: within_moved)
  qed
  ultimately show ?thesis unfolding confined_def using r by blast
qed (use rename [OF assms(1,4)] confined_quiet in simp)

end

subsection \<open>Sequences of operations\<close>

text \<open>
  A client with the medium and the writers \<open>H\<close> it opened: it calls any operation, whatever its result, in
  any order, and writes to its writers or closes them.
\<close>

inductive sftp_step ::
  "go_env \<Rightarrow> ('c, 's, 'h) sftp_medium \<Rightarrow> 'h set \<times> 's \<Rightarrow> 'h set \<times> 's \<Rightarrow> bool"
  for E :: go_env and M :: "('c, 's, 'h) sftp_medium"
where
  WriteMode: "Sftp_WriteMode E M p c md s = (e, s') \<Longrightarrow> sftp_step E M (H, s) (H, s')"
| EnsureDir: "Sftp_EnsureDir E M p s = (e, s') \<Longrightarrow> sftp_step E M (H, s) (H, s')"
| Delete: "Sftp_Delete E M p s = (e, s') \<Longrightarrow> sftp_step E M (H, s) (H, s')"
| DeleteAll: "Sftp_DeleteAll E M p s = (e, s') \<Longrightarrow> sftp_step E M (H, s) (H, s')"
| Rename: "Sftp_Rename E M old new s = (e, s') \<Longrightarrow> sftp_step E M (H, s) (H, s')"
| Create: "Sftp_Create E M p s = (r, s') \<Longrightarrow>
    sftp_step E M (H, s) (case r of Inl err \<Rightarrow> H | Inr h \<Rightarrow> insert h H, s')"
| Append: "Sftp_Append E M p s = (r, s') \<Longrightarrow>
    sftp_step E M (H, s) (case r of Inl err \<Rightarrow> H | Inr h \<Rightarrow> insert h H, s')"
| SendData: "h \<in> H \<Longrightarrow> sc_Write (sf_client M) h d s = (w, s') \<Longrightarrow> sftp_step E M (H, s) (H, s')"
| CloseWriter: "h \<in> H \<Longrightarrow> sc_CloseFile (sf_client M) h s = (e, s') \<Longrightarrow> sftp_step E M (H, s) (H, s')"

lemma requiredRemotePath_Inr:
  "requiredRemotePath E M op p = Inr path \<longleftrightarrow> cleanRelative E p \<noteq> '''' \<and> path = remotePath E M p"
  by (auto simp: requiredRemotePath_def)

text \<open>A medium over a server that keeps the laws, with a root as \<open>New\<close> makes it.\<close>

locale sftp_on_server = go_runtime E + sftp_server C view up
  for E :: go_env and C :: "('s, 'h) sftp_client" and view :: "'s \<Rightarrow> 'h sftp_view" and up :: "'s \<Rightarrow> bool" +
  fixes M :: "('c, 's, 'h) sftp_medium"
    and rs :: "string list"
  assumes client: "sf_client M = C"
    and root: "sf_root M = abs_path rs"
    and good_root: "good rs"
begin

abbreviation ok where "ok \<equiv> confined view up (sf_root M)"

lemmas path_within = remotePath_within [OF root good_root]
lemmas path_parent = parent_within [OF root good_root]

lemma confined_parent:
  assumes "up s" "cleanRelative E p \<noteq> ''''" "sftp_ensureParent E M (remotePath E M p) s = (e, s')"
  shows "ok s s'"
  using assms(3) assms(1) confined_mkdir [OF assms(1) path_parent [OF assms(2)], of e s']
  by (auto simp: sftp_ensureParent_def client Let_def simp del: core_eqs split: if_splits)

text \<open>
  The steps of \<open>WriteMode\<close>: other files keep their contents, and after a success the file has the content.
\<close>

definition wrote :: "string \<Rightarrow> 's \<Rightarrow> 's \<Rightarrow> bool" where
  "wrote path s s' \<longleftrightarrow> ok s s' \<and>
     (\<forall>q. q \<noteq> path \<longrightarrow> fmlookup (v_files (view s')) q = fmlookup (v_files (view s)) q)"

lemma wrote_trans: "wrote path s t \<Longrightarrow> wrote path t u \<Longrightarrow> wrote path s u"
  unfolding wrote_def by (auto intro: confined_trans)

lemma wrote_up: "wrote path s s' \<Longrightarrow> up s'"
  by (simp add: wrote_def confined_def)

lemma wrote_quiet: "up s' \<and> quiet (view s) (view s') \<Longrightarrow> wrote path s s'"
  using confined_quiet by (simp add: wrote_def quiet_def)

lemma wrote_parent:
  assumes "up s" "cleanRelative E p \<noteq> ''''" "sftp_ensureParent E M (remotePath E M p) s = (e, s')"
  shows "wrote (remotePath E M p) s s' \<and> v_files (view s') = v_files (view s)"
  using confined_parent [OF assms] assms(1,3) mkdir [OF assms(1)]
  by (auto simp: wrote_def sftp_ensureParent_def client Let_def simp del: core_eqs split: if_splits)

lemma WriteMode_wrote:
  assumes "up s" "cleanRelative E p \<noteq> ''''" "Sftp_WriteMode E M p c md s = (e, s')"
  shows "wrote (remotePath E M p) s s' \<and> (e = None \<longrightarrow> fmlookup (v_files (view s')) (remotePath E M p) = Some c)"
proof -
  let ?p = "remotePath E M p"
  obtain e1 s1 where 1: "sftp_ensureParent E M ?p s = (e1, s1)" by force
  have w1: "wrote ?p s s1" using wrote_parent [OF assms(1,2) 1] by simp
  note run = assms(3) [unfolded Sftp_WriteMode_def requiredRemotePath_def Let_def client]
  show ?thesis
  proof (cases e1)
    case (Some err)
    then show ?thesis using run assms(2) 1 w1 by auto
  next
    case e1: None
    obtain r2 s2 where 2: "sc_OpenFile C ?p [O_WRONLY, O_CREATE, O_TRUNC] s1 = (r2, s2)" by force
    note opened = open_write [OF wrote_up [OF w1] _ _ 2, simplified]
    have "wrote ?p s1 s2"
      using confined_open [OF wrote_up [OF w1] _ _ path_within 2] opened
      by (cases r2) (auto simp: wrote_def quiet_def)
    then have w2: "wrote ?p s s2" by (rule wrote_trans [OF w1])
    show ?thesis
    proof (cases r2)
      case (Inl err)
      then show ?thesis using run assms(2) 1 2 e1 w2 by auto
    next
      case (Inr h)
      have h: "v_handle (view s2) h = Some ?p" "v_offset (view s2) h = Some 0"
        "fmlookup (v_files (view s2)) ?p = Some ''''"
        using opened unfolding Inr by simp_all
      have safe: "safe_writer (sf_root M) (view s2) h"
        using h(1) path_within by (simp add: safe_writer_def)
      obtain r3 s3 where 3: "sc_Write C h c s2 = (r3, s3)" by force
      obtain e4 s4 where 4: "sc_CloseFile C h s3 = (e4, s4)" by force
      obtain e5 s5 where 5: "sc_Chmod C ?p md s4 = (e5, s5)" by force
      have "wrote ?p s2 s3"
        using confined_write [OF wrote_up [OF w2] safe 3] writes [OF wrote_up [OF w2] 3] h(1)
        by (simp add: wrote_def)
      then have w3: "wrote ?p s s3" by (rule wrote_trans [OF w2])
      have q4: "up s4 \<and> quiet (view s3) (view s4)" using close_file [OF wrote_up [OF w3] 4] .
      then have w4: "wrote ?p s s4" by (intro wrote_trans [OF w3] wrote_quiet)
      have q5: "up s5 \<and> quiet (view s4) (view s5)" using chmod [OF wrote_up [OF w4] 5] .
      then have w5: "wrote ?p s s5" by (intro wrote_trans [OF w4] wrote_quiet)
      have "fmlookup (v_files (view s3)) ?p = Some c" if "r3 = Inr n" for n
        using writes [OF wrote_up [OF w2] 3] that h by simp
      then have fin: "fmlookup (v_files (view s4)) ?p = Some c \<and> fmlookup (v_files (view s5)) ?p = Some c"
        if "r3 = Inr n" for n
        using that q4 q5 by (simp add: quiet_def)
      show ?thesis
        using run assms(2) 1 2 3 4 5 e1 Inr w4 w5 fin
        by (cases r3; cases e4; cases e5; cases "md = 0") (auto simp: closeSFTPCloser_def)
    qed
  qed
qed

lemma WriteMode_refused: "cleanRelative E p = '''' \<Longrightarrow>
  Sftp_WriteMode E M p c md s = (Some (CoreE ''sftp.WriteMode'' [''path is required''] (Some ErrInvalid)), s)"
  by (simp add: Sftp_WriteMode_def requiredRemotePath_def)

lemma ok_WriteMode: "up s \<Longrightarrow> Sftp_WriteMode E M p c md s = (e, s') \<Longrightarrow> ok s s'"
  using WriteMode_wrote [of s p c md e s'] WriteMode_refused [of p c md s]
  by (cases "cleanRelative E p = ''''") (auto simp: wrote_def)

lemma ok_EnsureDir: "up s \<Longrightarrow> Sftp_EnsureDir E M p s = (e, s') \<Longrightarrow> ok s s'"
  using confined_mkdir [OF _ path_within, of s p]
  by (auto simp: Sftp_EnsureDir_def Let_def client split: if_splits prod.splits option.splits)

lemma ok_Delete: "up s \<Longrightarrow> Sftp_Delete E M p s = (e, s') \<Longrightarrow> ok s s'"
  using confined_remove [OF _ path_within, of s p]
  by (auto simp: Sftp_Delete_def requiredRemotePath_def client split: if_splits prod.splits option.splits)

lemma ok_DeleteAll: "up s \<Longrightarrow> Sftp_DeleteAll E M p s = (e, s') \<Longrightarrow> ok s s'"
  using confined_remove_all [OF _ path_within, of s p]
  by (auto simp: Sftp_DeleteAll_def requiredRemotePath_def client split: if_splits prod.splits option.splits)

lemma ok_Rename:
  assumes "up s" "Sftp_Rename E M old new s = (e, s')"
  shows "ok s s'"
proof (cases "cleanRelative E old = '''' \<or> cleanRelative E new = ''''")
  case True
  then show ?thesis using assms by (auto simp: Sftp_Rename_def requiredRemotePath_def Let_def split: if_splits)
next
  case False
  let ?old = "remotePath E M old" and ?new = "remotePath E M new"
  obtain e1 s1 where 1: "sftp_ensureParent E M ?new s = (e1, s1)" by force
  obtain e2 s2 where 2: "sc_Rename C ?old ?new s1 = (e2, s2)" by force
  have c1: "ok s s1" using confined_parent [OF assms(1) _ 1] False by simp
  have "ok s1 s2" using confined_rename [OF confined_up [OF c1] path_within path_within 2] .
  then have "ok s s2" by (rule confined_trans [OF c1])
  then show ?thesis using assms(2) False 1 2 c1
    by (cases e1; cases e2) (auto simp: Sftp_Rename_def requiredRemotePath_def client)
qed

lemma ok_open_writer:
  assumes "up s" "open_writer E M op fl p s = (r, s')" "O_WRONLY \<in> set fl" "O_CREATE \<in> set fl"
  shows "ok s s' \<and> (\<forall>h. r = Inr h \<longrightarrow> safe_writer (sf_root M) (view s') h)"
proof (cases "cleanRelative E p = ''''")
  case True
  then show ?thesis using assms by (auto simp: open_writer_def requiredRemotePath_def)
next
  case False
  let ?p = "remotePath E M p"
  obtain e1 s1 where 1: "sftp_ensureParent E M ?p s = (e1, s1)" by force
  obtain r2 s2 where 2: "sc_OpenFile C ?p fl s1 = (r2, s2)" by force
  have c1: "ok s s1" using confined_parent [OF assms(1) False 1] .
  note o = confined_open [OF confined_up [OF c1] assms(3,4) path_within 2]
  then have "ok s s2" by (intro confined_trans [OF c1]) simp
  then show ?thesis using assms(2) False 1 2 c1 o
    by (cases e1; cases r2) (auto simp: open_writer_def requiredRemotePath_def client)
qed

lemma step_ok:
  assumes "sftp_step E M (H, s) (H', s')" "up s" "\<forall>h\<in>H. safe_writer (sf_root M) (view s) h"
  shows "ok s s' \<and> (\<forall>h\<in>H'. safe_writer (sf_root M) (view s') h)"
proof -
  have kept: "ok s s' \<Longrightarrow> \<forall>h\<in>H. safe_writer (sf_root M) (view s') h"
    using assms(3) by (auto simp: confined_def)
  from assms(1) show ?thesis
  proof (cases rule: sftp_step.cases)
    case (Create p r)
    then have "ok s s' \<and> (\<forall>h. r = Inr h \<longrightarrow> safe_writer (sf_root M) (view s') h)"
      using ok_open_writer [OF assms(2)] by (simp add: Sftp_Create_def)
    then show ?thesis using kept Create by (auto split: sum.splits)
  next
    case (Append p r)
    then have "ok s s' \<and> (\<forall>h. r = Inr h \<longrightarrow> safe_writer (sf_root M) (view s') h)"
      using ok_open_writer [OF assms(2)] by (simp add: Sftp_Append_def)
    then show ?thesis using kept Append by (auto split: sum.splits)
  next
    case (SendData h d w)
    then have "ok s s'" using confined_write [OF assms(2), of "sf_root M" h d w s'] assms(3) client by simp
    then show ?thesis using kept SendData by simp
  next
    case (CloseWriter h e)
    then have "ok s s'" using close_file [OF assms(2), of h e s'] client by (intro confined_quiet) simp
    then show ?thesis using kept CloseWriter by simp
  qed (use kept assms(2) in \<open>auto dest: ok_WriteMode ok_EnsureDir ok_Delete ok_DeleteAll ok_Rename\<close>)
qed

lemma steps_ok:
  "(sftp_step E M)\<^sup>*\<^sup>* (H, s) (H', s') \<Longrightarrow> up s \<Longrightarrow> \<forall>h\<in>H. safe_writer (sf_root M) (view s) h \<Longrightarrow>
   ok s s' \<and> (\<forall>h\<in>H'. safe_writer (sf_root M) (view s') h)"
proof (induction rule: rtranclp_induct2)
  case (step H1 s1 H2 s2)
  then have "ok s s1" "\<forall>h\<in>H1. safe_writer (sf_root M) (view s1) h" by auto
  note n = step_ok [OF step.hyps(2) confined_up [OF this(1)] this(2)]
  then show ?case using confined_trans [OF \<open>ok s s1\<close>] by simp
qed simp

end

subsection \<open>A server in memory\<close>

text \<open>A tree with one account, whose requests fail only for the reasons the code can see.\<close>

datatype mem_handle = ReadHandle string | WriteHandle nat

record mem_server =
  ms_view :: "mem_handle sftp_view"
  ms_next :: nat

definition busy :: "mem_handle sftp_view \<Rightarrow> string \<Rightarrow> bool" where
  "busy v p \<longleftrightarrow> (\<exists>q\<in>fset (fmdom (v_files v)) \<union> v_dirs v. at_or_below p q \<and> q \<noteq> p)"

definition with_view :: "mem_server \<Rightarrow> mem_handle sftp_view \<Rightarrow> mem_server" where
  "with_view s v = s\<lparr>ms_view := v\<rparr>"

definition mem_open_write :: "string \<Rightarrow> open_flag list \<Rightarrow> mem_server \<Rightarrow> mem_handle res \<times> mem_server" where
  "mem_open_write p fl s =
     (let v = ms_view s; h = WriteHandle (ms_next s) in
      if p \<in> v_dirs v \<or> path_dir p \<notin> v_dirs v then (Inl ErrInvalid, s)
      else (Inr h, \<lparr>ms_view = v\<lparr>v_files := (if O_TRUNC \<in> set fl \<or> \<not> has_key (v_files v) p
                        then fmupd p '''' (v_files v) else v_files v),
                      v_handle := (v_handle v)(h := Some p),
                      v_offset := (v_offset v)(h := if O_APPEND \<in> set fl then None else Some 0)\<rparr>,
                    ms_next = Suc (ms_next s)\<rparr>))"

definition mem_write :: "mem_handle \<Rightarrow> string \<Rightarrow> mem_server \<Rightarrow> nat res \<times> mem_server" where
  "mem_write h d s =
     (let v = ms_view s in
      case v_handle v h of
        None \<Rightarrow> (Inl ErrInvalid, s)
      | Some p \<Rightarrow>
          (case fmlookup (v_files v) p of
             None \<Rightarrow> (Inl ErrNotExist, s)
           | Some c \<Rightarrow> (Inr (length d), with_view s (v\<lparr>
                 v_files := fmupd p (case v_offset v h of None \<Rightarrow> c @ d | Some k \<Rightarrow> overwrite k d c) (v_files v),
                 v_offset := (v_offset v)(h := map_option (\<lambda>k. k + length d) (v_offset v h))\<rparr>))))"

definition mem_mkdir :: "string \<Rightarrow> mem_server \<Rightarrow> gerr option \<times> mem_server" where
  "mem_mkdir p s =
     (let v = ms_view s; ds = {d \<in> set (prefixes p). d \<noteq> [] \<and> at_or_below d p} in
      if \<exists>d\<in>insert p ds. has_key (v_files v) d then (Some ErrExist, s)
      else (None, with_view s (v\<lparr>v_dirs := v_dirs v \<union> insert p ds\<rparr>)))"

definition mem_remove :: "string \<Rightarrow> mem_server \<Rightarrow> gerr option \<times> mem_server" where
  "mem_remove p s =
     (let v = ms_view s in
      if \<not> exists_at v p then (Some ErrNotExist, s)
      else if busy v p then (Some ErrInvalid, s)
      else (None, with_view s (v\<lparr>v_files := fmdrop p (v_files v), v_dirs := v_dirs v - {p},
              v_handle := (\<lambda>h. if v_handle v h = Some p then None else v_handle v h)\<rparr>)))"

definition mem_remove_all :: "string \<Rightarrow> mem_server \<Rightarrow> gerr option \<times> mem_server" where
  "mem_remove_all p s =
     (let v = ms_view s in
      (None, with_view s (v\<lparr>v_files := fmfilter (\<lambda>q. \<not> at_or_below p q) (v_files v),
              v_dirs := {q \<in> v_dirs v. \<not> at_or_below p q},
              v_handle := (\<lambda>h. case v_handle v h of Some q \<Rightarrow> (if at_or_below p q then None else Some q)
                 | None \<Rightarrow> None)\<rparr>)))"

definition move_files :: "string \<Rightarrow> string \<Rightarrow> (string, string) fmap \<Rightarrow> (string, string) fmap" where
  "move_files old new f =
     fmap_of_list (map (\<lambda>k. (moved old new k, the (fmlookup f k))) (sorted_list_of_fset (fmdom f)))"

definition mem_rename :: "string \<Rightarrow> string \<Rightarrow> mem_server \<Rightarrow> gerr option \<times> mem_server" where
  "mem_rename old new s =
     (let v = ms_view s in
      if \<not> exists_at v old then (Some ErrNotExist, s)
      else if exists_at v new \<or> busy v new then (Some ErrExist, s)
      else if at_or_below old new then (Some ErrInvalid, s)
      else (None, with_view s (v\<lparr>v_files := move_files old new (v_files v), v_dirs := moved old new ` v_dirs v,
              v_handle := (\<lambda>h. map_option (moved old new) (v_handle v h))\<rparr>)))"

text \<open>The names of the paths of a set that are entries of a directory.\<close>

definition entry_names :: "string \<Rightarrow> string set \<Rightarrow> string list" where
  "entry_names p A = sorted_list_of_set
     ((\<lambda>q. drop (length (entry_path p '''')) q) ` {q \<in> A. prefix (entry_path p '''') q \<and>
        good_elem (drop (length (entry_path p '''')) q)})"

definition mem_sftp :: "(mem_server, mem_handle) sftp_client" where
  "mem_sftp =
     \<lparr>sc_Open = (\<lambda>p s. if has_key (v_files (ms_view s)) p then Inr (ReadHandle p) else Inl ErrNotExist),
      sc_ReadAll = (\<lambda>h s. case h of
          ReadHandle p \<Rightarrow> (case fmlookup (v_files (ms_view s)) p of Some c \<Rightarrow> Inr c | None \<Rightarrow> Inl ErrNotExist)
        | WriteHandle n \<Rightarrow> Inl ErrPermission),
      sc_OpenFile = mem_open_write,
      sc_Write = mem_write,
      sc_CloseFile = (\<lambda>h s. (None, with_view s ((ms_view s)\<lparr>v_handle := (v_handle (ms_view s))(h := None)\<rparr>))),
      sc_Chmod = (\<lambda>p md s. (if exists_at (ms_view s) p then None else Some ErrNotExist, s)),
      sc_MkdirAll = mem_mkdir,
      sc_Stat = (\<lambda>p s. if p \<in> v_dirs (ms_view s)
          then Inr (NewFileInfo (path_base p) 0 (ModeDir OR 493) 0 True)
          else case fmlookup (v_files (ms_view s)) p of
              Some c \<Rightarrow> Inr (NewFileInfo (path_base p) (int (length c)) 420 0 False)
            | None \<Rightarrow> Inl ErrNotExist),
      sc_Remove = mem_remove,
      sc_RemoveAll = mem_remove_all,
      sc_Rename = mem_rename,
      sc_ReadDir = (\<lambda>p s. if p \<in> v_dirs (ms_view s)
          then Inr (map (\<lambda>n. NewFileInfo n 0 (ModeDir OR 493) 0 True) (entry_names p (v_dirs (ms_view s))) @
                    map (\<lambda>n. NewFileInfo n 0 420 0 False) (entry_names p (fset (fmdom (v_files (ms_view s))))))
          else Inl ErrNotExist),
      sc_Close = (\<lambda>s. (None, s))\<rparr>"

definition mem_up :: "mem_server \<Rightarrow> bool" where
  "mem_up s \<longleftrightarrow> finite (v_dirs (ms_view s)) \<and>
     (\<forall>p\<in>v_dirs (ms_view s). \<not> has_key (v_files (ms_view s)) p)"

lemma view_with_view [simp]: "ms_view (with_view s v) = v"
  by (simp add: with_view_def)

lemma moved_inj:
  assumes "moved old new k = moved old new j" "\<not> at_or_below new k" "\<not> at_or_below new j"
  shows "k = j"
proof -
  have "at_or_below old k \<longleftrightarrow> at_or_below old j"
    using assms moved_below by (metis moved_def)
  then show ?thesis using assms(1) by (auto simp: moved_def at_or_below_def prefix_def split: if_splits)
qed

lemma moved_onto:
  assumes "at_or_below new q" "\<not> at_or_below new k"
  shows "moved old new k = q \<longleftrightarrow> at_or_below old k \<and> k = old @ drop (length new) q"
  using assms by (auto simp: moved_def at_or_below_def prefix_def)

lemma lookup_move_files:
  assumes "\<forall>k. has_key f k \<longrightarrow> \<not> at_or_below new k" "\<not> at_or_below old new"
  shows "fmlookup (move_files old new f) q =
    (if at_or_below old q then None
     else if at_or_below new q then fmlookup f (old @ drop (length new) q) else fmlookup f q)"
proof -
  let ?ks = "sorted_list_of_fset (fmdom f)"
  let ?xs = "map (\<lambda>k. (moved old new k, the (fmlookup f k))) ?ks"
  have ks: "set ?ks = {k. has_key f k}" "distinct ?ks"
    by (auto simp: sorted_list_of_fset.rep_eq has_key_dom)
  have "inj_on (moved old new) (set ?ks)"
    using assms(1) ks(1) by (auto simp: inj_on_def intro: moved_inj)
  then have d: "distinct (map fst ?xs)" using ks(2) by (simp add: comp_def distinct_map)
  have xs: "set ?xs = (\<lambda>k. (moved old new k, the (fmlookup f k))) ` {k. has_key f k}"
    by (simp only: set_map ks(1) image_image)
  have "(q, c) \<in> set ?xs \<longleftrightarrow> (\<exists>k. fmlookup f k = Some c \<and> moved old new k = q)" for c
  proof
    assume "(q, c) \<in> set ?xs"
    then obtain k where k: "has_key f k" "q = moved old new k" "c = the (fmlookup f k)"
      unfolding xs by (elim imageE) simp
    then have "fmlookup f k = Some c" by (elim has_keyE) simp
    then show "\<exists>k. fmlookup f k = Some c \<and> moved old new k = q" using k(2) by (intro exI [of _ k]) simp
  next
    assume "\<exists>k. fmlookup f k = Some c \<and> moved old new k = q"
    then obtain k where "fmlookup f k = Some c" "moved old new k = q" by (elim exE conjE)
    then show "(q, c) \<in> set ?xs"
      unfolding xs by (intro image_eqI [of _ _ k]) (simp_all add: has_key_def)
  qed
  then have look: "fmlookup (move_files old new f) q = Some c \<longleftrightarrow> (\<exists>k. fmlookup f k = Some c \<and> moved old new k = q)" for c
    by (simp only: move_files_def fmlookup_of_list map_of_eq_Some_iff [OF d])
  have option_eq: "x = y" if "\<And>c. x = Some c \<longleftrightarrow> y = Some c" for x y :: "string option"
    using that [of "the x"] that [of "the y"] by (cases x; cases y) simp_all
  have shift: "at_or_below old (old @ drop (length new) q)" if "at_or_below new q"
    using that by (auto simp: at_or_below_def prefix_def)
  show ?thesis
  proof (rule option_eq)
    fix c
    have not_below: "\<not> at_or_below old q" if k: "fmlookup f k = Some c" "moved old new k = q" for k
    proof
      assume q: "at_or_below old q"
      then have "at_or_below old k" using k(2) by (auto simp: moved_def split: if_splits)
      then have "at_or_below new q" using moved_below k(2) by blast
      then have "at_or_below new old" using at_or_below_comparable q assms(2) by blast
      then show False using \<open>at_or_below old k\<close> k(1) assms(1) at_or_below_trans by (auto simp: has_key_def)
    qed
    have onto: "moved old new k = q \<longleftrightarrow>
        (if at_or_below new q then k = old @ drop (length new) q else k = q)"
      if k: "fmlookup f k = Some c" "\<not> at_or_below old q" for k
    proof (cases "at_or_below new q")
      case True
      then show ?thesis using moved_onto [OF True, of k old] shift k(1) assms(1) by (auto simp: has_key_def)
    next
      case False
      then have "\<not> at_or_below old k \<or> moved old new k \<noteq> q" using moved_below by blast
      then show ?thesis using False k(2) by (auto simp: moved_def)
    qed
    show "fmlookup (move_files old new f) q = Some c \<longleftrightarrow>
      (if at_or_below old q then None
       else if at_or_below new q then fmlookup f (old @ drop (length new) q) else fmlookup f q) = Some c"
    proof (cases "at_or_below old q")
      case True
      then show ?thesis using look not_below by auto
    next
      case False
      have "fmlookup (move_files old new f) q = Some c \<longleftrightarrow> (\<exists>k. fmlookup f k = Some c \<and>
          (if at_or_below new q then k = old @ drop (length new) q else k = q))"
        unfolding look using onto [OF _ False] by blast
      then show ?thesis using False by simp
    qed
  qed
qed

lemma mem_sftp_simps [simp]:
  "sc_OpenFile mem_sftp = mem_open_write" "sc_Write mem_sftp = mem_write" "sc_MkdirAll mem_sftp = mem_mkdir"
  "sc_Remove mem_sftp = mem_remove" "sc_RemoveAll mem_sftp = mem_remove_all" "sc_Rename mem_sftp = mem_rename"
  by (simp_all add: mem_sftp_def)

lemma entry_prefix: "entry_path p n = entry_path p '''' @ n"
  by (simp add: entry_path_def)

lemma set_entry_names: "finite A \<Longrightarrow> set (entry_names p A) = {n. good_elem n \<and> entry_path p n \<in> A}"
proof -
  assume "finite A"
  then have "set (entry_names p A) = (\<lambda>q. drop (length (entry_path p '''')) q) ` {q \<in> A. prefix (entry_path p '''') q \<and>
      good_elem (drop (length (entry_path p '''')) q)}"
    by (simp add: entry_names_def)
  also have "\<dots> = {n. good_elem n \<and> entry_path p '''' @ n \<in> A}"
    by (force simp: prefix_def image_iff)
  also have "\<dots> = {n. good_elem n \<and> entry_path p n \<in> A}"
    by (simp only: entry_prefix [symmetric])
  finally show ?thesis .
qed

lemma distinct_entry_names: "distinct (entry_names p A)"
  by (simp add: entry_names_def)

lemma finite_ancestors [simp]: "finite {d. prefix d p \<and> P d}"
  by (rule finite_subset [of _ "set (prefixes p)"]) auto

lemma mem_mkdir_law:
  assumes "mem_up s" "mem_mkdir p s = (e, s')"
  shows "mem_up s' \<and> v_files (ms_view s') = v_files (ms_view s) \<and> keeps_handles (ms_view s) (ms_view s') \<and>
      v_dirs (ms_view s) \<subseteq> v_dirs (ms_view s') \<and> v_dirs (ms_view s') \<subseteq> v_dirs (ms_view s) \<union> {d. at_or_below d p} \<and>
      (e = None \<longrightarrow> p \<in> v_dirs (ms_view s'))"
  using assms by (auto simp: mem_mkdir_def mem_up_def Let_def keeps_handles_def split: if_splits)

lemma mem_open_write_law:
  assumes "mem_up s" "mem_open_write p fl s = (r, s')"
  shows "mem_up s' \<and> (case r of Inl _ \<Rightarrow> quiet (ms_view s) (ms_view s')
      | Inr h \<Rightarrow> v_files (ms_view s') = (if O_TRUNC \<in> set fl \<or> \<not> has_key (v_files (ms_view s)) p
            then fmupd p '''' (v_files (ms_view s)) else v_files (ms_view s)) \<and>
          v_dirs (ms_view s') = v_dirs (ms_view s) \<and> v_handle (ms_view s') h = Some p \<and>
          v_offset (ms_view s') h = (if O_APPEND \<in> set fl then None else Some 0) \<and>
          (\<forall>h'. h' \<noteq> h \<longrightarrow> v_handle (ms_view s') h' = v_handle (ms_view s) h' \<or> v_handle (ms_view s') h' = None))"
  using assms by (auto simp: mem_open_write_def mem_up_def Let_def quiet_def split: if_splits)

lemma mem_write_law:
  assumes "mem_up s" "mem_write h d s = (w, s')"
  shows "mem_up s' \<and> v_dirs (ms_view s') = v_dirs (ms_view s) \<and> keeps_handles (ms_view s) (ms_view s') \<and>
      (\<forall>q. v_handle (ms_view s) h \<noteq> Some q \<longrightarrow> fmlookup (v_files (ms_view s')) q = fmlookup (v_files (ms_view s)) q) \<and>
      (\<forall>n p c. w = Inr n \<longrightarrow> v_handle (ms_view s) h = Some p \<longrightarrow> fmlookup (v_files (ms_view s)) p = Some c \<longrightarrow>
         n = length d \<and> fmlookup (v_files (ms_view s')) p = Some (case v_offset (ms_view s) h of
            None \<Rightarrow> c @ d | Some k \<Rightarrow> overwrite k d c))"
  using assms
  by (auto simp: mem_write_def mem_up_def Let_def keeps_handles_def has_key_def split: option.splits if_splits)

lemma mem_remove_law:
  assumes "mem_up s" "mem_remove p s = (e, s')"
  shows "mem_up s' \<and> keeps_handles (ms_view s) (ms_view s') \<and>
      (if e = None then v_files (ms_view s') = fmdrop p (v_files (ms_view s)) \<and> v_dirs (ms_view s') = v_dirs (ms_view s) - {p}
       else quiet (ms_view s) (ms_view s'))"
  using assms by (auto simp: mem_remove_def mem_up_def Let_def keeps_handles_def quiet_def split: if_splits)

lemma mem_remove_all_law:
  assumes "mem_up s" "mem_remove_all p s = (e, s')"
  shows "mem_up s' \<and> keeps_handles (ms_view s) (ms_view s') \<and>
      v_dirs (ms_view s') \<subseteq> v_dirs (ms_view s) \<and> v_dirs (ms_view s) \<subseteq> v_dirs (ms_view s') \<union> {d. at_or_below p d} \<and>
      (\<forall>q. if at_or_below p q then e = None \<longrightarrow> \<not> exists_at (ms_view s') q
         else fmlookup (v_files (ms_view s')) q = fmlookup (v_files (ms_view s)) q)"
  using assms
  by (auto simp: mem_remove_all_def mem_up_def Let_def keeps_handles_def exists_at_def split: option.splits if_splits)

lemma mem_rename_law:
  assumes "mem_up s" "mem_rename old new s = (e, s')"
  shows "mem_up s' \<and>
      (if e \<noteq> None then quiet (ms_view s) (ms_view s')
       else exists_at (ms_view s) old \<and> \<not> exists_at (ms_view s) new \<and> \<not> at_or_below old new \<and>
         (\<forall>h. v_handle (ms_view s') h = map_option (moved old new) (v_handle (ms_view s) h) \<or> v_handle (ms_view s') h = None) \<and>
         v_dirs (ms_view s') = moved old new ` v_dirs (ms_view s) \<and>
         (\<forall>q. fmlookup (v_files (ms_view s')) q =
            (if at_or_below old q then None
             else if at_or_below new q then fmlookup (v_files (ms_view s)) (old @ drop (length new) q)
             else fmlookup (v_files (ms_view s)) q)))"
proof (cases "e = None")
  case False
  then show ?thesis using assms by (auto simp: mem_rename_def Let_def quiet_def split: if_splits)
next
  case True
  let ?v = "ms_view s"
  have c: "exists_at ?v old" "\<not> exists_at ?v new" "\<not> busy ?v new" "\<not> at_or_below old new"
    and s': "s' = with_view s (?v\<lparr>v_files := move_files old new (v_files ?v), v_dirs := moved old new ` v_dirs ?v,
        v_handle := (\<lambda>h. map_option (moved old new) (v_handle ?v h))\<rparr>)"
    using assms(2) True by (auto simp: mem_rename_def Let_def split: if_splits)
  have free: "\<not> at_or_below new q" if "exists_at ?v q" for q
    using that c(2,3) by (auto simp: busy_def exists_at_def has_key_dom)
  have look: "fmlookup (move_files old new (v_files ?v)) q =
    (if at_or_below old q then None
     else if at_or_below new q then fmlookup (v_files ?v) (old @ drop (length new) q) else fmlookup (v_files ?v) q)" for q
    using free c(4) by (intro lookup_move_files) (auto simp: exists_at_def)
  have "\<not> has_key (move_files old new (v_files ?v)) (moved old new d)" if d: "d \<in> v_dirs ?v" for d
  proof
    assume "has_key (move_files old new (v_files ?v)) (moved old new d)"
    moreover have "\<not> at_or_below new d" using free d by (simp add: exists_at_def)
    moreover have "old @ drop (length new) (moved old new d) = d" if "at_or_below old d"
      using that by (auto simp: moved_def at_or_below_def prefix_def)
    ultimately have "has_key (v_files ?v) d"
      using moved_below [of old d new] by (auto simp: has_key_def look moved_def split: if_splits)
    then show False using assms(1) d by (auto simp: mem_up_def)
  qed
  then have "mem_up s'" using assms(1) by (auto simp: mem_up_def s')
  then show ?thesis using True c look by (simp add: s')
qed

interpretation mem_sftp: sftp_server mem_sftp ms_view mem_up
proof
  fix s p assume up: "mem_up s"
  show "has_key (v_files (ms_view s)) p \<Longrightarrow> p \<notin> v_dirs (ms_view s)" using up by (auto simp: mem_up_def)
  show "case fmlookup (v_files (ms_view s)) p of
        Some c \<Rightarrow> \<exists>h. sc_Open mem_sftp p s = Inr h \<and> sc_ReadAll mem_sftp h s = Inr c
      | None \<Rightarrow> \<forall>h. sc_Open mem_sftp p s = Inr h \<longrightarrow> (\<exists>err. sc_ReadAll mem_sftp h s = Inl err)"
    by (auto simp: mem_sftp_def has_key_def split: option.splits)
  show "case sc_Stat mem_sftp p s of
        Inl _ \<Rightarrow> \<not> exists_at (ms_view s) p
      | Inr info \<Rightarrow> exists_at (ms_view s) p \<and> (fi_isDir info \<longleftrightarrow> p \<in> v_dirs (ms_view s))"
    using up by (auto simp: mem_sftp_def exists_at_def has_key_def mem_up_def split: option.splits)
  show "case sc_ReadDir mem_sftp p s of
        Inl _ \<Rightarrow> p \<notin> v_dirs (ms_view s)
      | Inr infos \<Rightarrow> p \<in> v_dirs (ms_view s) \<and> distinct (map fi_name infos) \<and>
          (\<lambda>i. (fi_name i, fi_isDir i)) ` set infos = children (ms_view s) p"
  proof (cases "p \<in> v_dirs (ms_view s)")
    case True
    let ?D = "entry_names p (v_dirs (ms_view s))" and ?F = "entry_names p (fset (fmdom (v_files (ms_view s))))"
    have sets: "set ?D = {n. good_elem n \<and> entry_path p n \<in> v_dirs (ms_view s)}"
      "set ?F = {n. good_elem n \<and> has_key (v_files (ms_view s)) (entry_path p n)}"
      using up by (simp_all add: set_entry_names mem_up_def has_key_dom)
    then have "set ?D \<inter> set ?F = {}" using up by (auto simp: mem_up_def)
    then show ?thesis using True sets
      by (simp add: mem_sftp_def comp_def distinct_entry_names image_Un image_image children_def) auto
  qed (simp add: mem_sftp_def)
qed (unfold mem_sftp_simps, (erule (1) mem_mkdir_law mem_open_write_law mem_write_law mem_remove_law
      mem_remove_all_law mem_rename_law | (auto simp: mem_sftp_def mem_up_def quiet_def keeps_handles_def)[1])+)

subsection \<open>What a client sees\<close>

context sftp_on_server
begin

lemma remotePath_eq_iff: "remotePath E M p = remotePath E M q \<longleftrightarrow> cleanRelative E p = cleanRelative E q"
proof -
  have "remotePath E M p = remotePath E M q \<longleftrightarrow> rs @ rel_parts p = rs @ rel_parts q"
    unfolding remotePath_abs [OF root good_root] using good_root by (intro abs_path_inject) simp_all
  moreover have "cleanRelative E p = cleanRelative E q \<longleftrightarrow> rel_parts p = rel_parts q"
    unfolding cleanRelative_parts by (metis good_rel_parts path_elems_join)
  ultimately show ?thesis by simp
qed

lemma Read_iff:
  assumes "up s"
  shows "Sftp_Read E M q s = Inr c \<longleftrightarrow>
    cleanRelative E q \<noteq> '''' \<and> fmlookup (v_files (view s)) (remotePath E M q) = Some c"
  using read_file [OF assms, of "remotePath E M q"]
  by (auto simp: Sftp_Read_def requiredRemotePath_def client split: sum.splits option.splits)

lemma Exists_iff:
  "up s \<Longrightarrow> Sftp_Exists E M q s \<longleftrightarrow> cleanRelative E q \<noteq> '''' \<and> exists_at (view s) (remotePath E M q)"
  using stat [of s "remotePath E M q"]
  by (auto simp: Sftp_Exists_def client is_ok_def split: sum.splits)

lemma Write_Read:
  assumes "up s" "Sftp_WriteMode E M p c md s = (e, s')"
  shows "(e = None \<longrightarrow> (\<forall>q. cleanRelative E q = cleanRelative E p \<longrightarrow> Sftp_Read E M q s' = Inr c)) \<and>
    (\<forall>q d. cleanRelative E q \<noteq> cleanRelative E p \<longrightarrow> (Sftp_Read E M q s' = Inr d \<longleftrightarrow> Sftp_Read E M q s = Inr d))"
proof (cases "cleanRelative E p = ''''")
  case True
  then show ?thesis using assms(2) WriteMode_refused [OF True, of c md s] by auto
next
  case False
  note w = WriteMode_wrote [OF assms(1) False assms(2)]
  then have up': "up s'" and other: "\<And>q. q \<noteq> remotePath E M p \<Longrightarrow>
      fmlookup (v_files (view s')) q = fmlookup (v_files (view s)) q"
    by (simp_all add: wrote_def confined_def)
  have "Sftp_Read E M q s' = Inr c" if "e = None" "cleanRelative E q = cleanRelative E p" for q
    using that False w remotePath_eq_iff [of q p] by (simp add: Read_iff [OF up'])
  moreover have "Sftp_Read E M q s' = Inr d \<longleftrightarrow> Sftp_Read E M q s = Inr d"
    if "cleanRelative E q \<noteq> cleanRelative E p" for q d
    using that other [of "remotePath E M q"] remotePath_eq_iff [of q p]
    by (simp add: Read_iff [OF up'] Read_iff [OF assms(1)])
  ultimately show ?thesis by blast
qed

lemma Rename_moves:
  assumes "up s" "Sftp_Rename E M old new s = (e, s')"
  shows "(e \<noteq> None \<longrightarrow> v_files (view s') = v_files (view s)) \<and>
    (e = None \<longrightarrow> Sftp_Exists E M old s \<and> \<not> Sftp_Exists E M new s \<and>
      (\<forall>c. Sftp_Read E M new s' = Inr c \<longleftrightarrow> Sftp_Read E M old s = Inr c) \<and>
      \<not> (\<exists>c. Sftp_Read E M old s' = Inr c))"
proof (cases "cleanRelative E old = '''' \<or> cleanRelative E new = ''''")
  case True
  then show ?thesis using assms by (auto simp: Sftp_Rename_def requiredRemotePath_def Let_def split: if_splits)
next
  case False
  let ?old = "remotePath E M old" and ?new = "remotePath E M new"
  obtain e1 s1 where 1: "sftp_ensureParent E M ?new s = (e1, s1)" by force
  obtain e2 s2 where 2: "sc_Rename C ?old ?new s1 = (e2, s2)" by force
  have c1: "up s1" "v_files (view s1) = v_files (view s)"
    using wrote_parent [OF assms(1) _ 1] False by (auto intro: wrote_up)
  have dirs: "v_dirs (view s) \<subseteq> v_dirs (view s1)" "v_dirs (view s1) \<subseteq> v_dirs (view s) \<union> {d. at_or_below d (path_dir ?new)}"
    using 1 assms(1) mkdir [OF assms(1), of "path_dir ?new"]
    by (auto simp: sftp_ensureParent_def client Let_def split: if_splits)
  note r = rename [OF c1(1) 2]
  show ?thesis
  proof (cases "e1 = None \<and> e2 = None")
    case False
    then show ?thesis using assms(2) 1 2 c1 r \<open>\<not> (cleanRelative E old = '''' \<or> cleanRelative E new = '''')\<close>
      by (cases e1; cases e2) (auto simp: Sftp_Rename_def requiredRemotePath_def client quiet_def)
  next
    case True
    then have e: "e = None" "s' = s2" using assms(2) 1 2 False
      by (auto simp: Sftp_Rename_def requiredRemotePath_def client)
    have rel: "rel_parts new \<noteq> []" using False by (simp add: cleanRelative_Nil)
    then obtain cs c where cs: "rel_parts new = cs @ [c]" by (metis rev_exhaust)
    then have new: "?new = abs_path ((rs @ cs) @ [c])" "good ((rs @ cs) @ [c])"
      using remotePath_abs [OF root good_root] good_rel_parts [of new] good_root by simp_all
    have "at_or_below (path_dir ?new) ?new \<or> path_dir ?new = ''/''"
      using path_dir_parent [OF new(2)] at_or_below_abs [of "rs @ cs" "[c]"] unfolding new(1) by force
    moreover have "\<not> at_or_below ?old ''/''"
    proof -
      have "rs @ rel_parts old \<noteq> []" using False by (simp add: cleanRelative_Nil)
      then show ?thesis
        using remotePath_abs [OF root good_root, of old] join_good_Nil [of "rs @ rel_parts old"] good_root
        by (auto simp: at_or_below_def abs_path_def)
    qed
    ultimately have "\<not> at_or_below ?old (path_dir ?new)" if "\<not> at_or_below ?old ?new"
      using that at_or_below_trans by (cases "path_dir ?new = ''/''") auto
    then have "?old \<in> v_dirs (view s1) \<Longrightarrow> ?old \<in> v_dirs (view s)"
      using dirs(2) r True by auto
    then have ex: "exists_at (view s) ?old" "\<not> exists_at (view s) ?new"
      using r True c1(2) dirs(1) by (auto simp: exists_at_def)
    have "\<not> at_or_below ?old ?new" "up s2"
      and look: "\<And>q. fmlookup (v_files (view s2)) q =
            (if at_or_below ?old q then None
             else if at_or_below ?new q then fmlookup (v_files (view s1)) (?old @ drop (length ?new) q)
             else fmlookup (v_files (view s1)) q)"
      using r True by auto
    then show ?thesis
      using e False ex c1(2) by (simp add: Exists_iff [OF assms(1)] Read_iff [OF assms(1)] Read_iff [OF \<open>up s2\<close>])
  qed
qed

end

text \<open>A medium whose root is as \<open>New\<close> makes it.\<close>

lemma sftp_on_serverI:
  assumes "go_runtime E" "sftp_server (sf_client M) view up" "sf_root M = sftp_normaliseRoot E r"
  obtains rs where "sftp_on_server E (sf_client M) view up M rs"
  using go_runtime.normaliseRoot_abs [OF assms(1), of r] assms
  by (auto simp: sftp_on_server_def sftp_on_server_axioms_def)

text \<open>
  C33: on an SFTP server without symbolic links, whatever operations a client calls on a medium, in any order and whether
  they succeed or fail, and whatever it writes to the writers it opened, even after their files were renamed: no
  file and no directory outside the root is changed or removed, and the only directories made outside are
  those the root is in.  This is confinement by names: the code does not look for links, and where one below the root
  leads out of it the claim does not hold.
\<close>

theorem sftp_confined:
  assumes "go_runtime E" "sftp_server (sf_client M) view up" "sf_root M = sftp_normaliseRoot E r" "up s"
    "(sftp_step E M)\<^sup>*\<^sup>* ({}, s) (H, s')" "\<not> within (sf_root M) q"
  shows "fmlookup (v_files (view s')) q = fmlookup (v_files (view s)) q \<and>
    (q \<in> v_dirs (view s) \<longrightarrow> q \<in> v_dirs (view s')) \<and>
    (q \<in> v_dirs (view s') \<longrightarrow> q \<in> v_dirs (view s) \<or> at_or_below q (sf_root M))"
proof -
  from assms(1-3) obtain rs where "sftp_on_server E (sf_client M) view up M rs" by (rule sftp_on_serverI)
  from sftp_on_server.steps_ok [OF this assms(5,4)] show ?thesis
    using assms(6) by (simp add: confined_def only_within_def)
qed

text \<open>
  After a \<open>WriteMode\<close> that succeeded, every spelling of the path reads the content; whether it
  succeeded or not, what a read of any other path gives is as before.
\<close>

theorem sftp_Write_Read:
  assumes "go_runtime E" "sftp_server (sf_client M) view up" "sf_root M = sftp_normaliseRoot E r" "up s"
    "Sftp_WriteMode E M p c md s = (e, s')"
  shows "(e = None \<longrightarrow> (\<forall>q. cleanRelative E q = cleanRelative E p \<longrightarrow> Sftp_Read E M q s' = Inr c)) \<and>
    (\<forall>q d. cleanRelative E q \<noteq> cleanRelative E p \<longrightarrow> (Sftp_Read E M q s' = Inr d \<longleftrightarrow> Sftp_Read E M q s = Inr d))"
proof -
  from assms(1-3) obtain rs where "sftp_on_server E (sf_client M) view up M rs" by (rule sftp_on_serverI)
  from sftp_on_server.Write_Read [OF this assms(4,5)] show ?thesis .
qed

text \<open>
  C34: a rename that succeeds found the old path and no new one (so it never replaces anything, unlike the
  rename of other mediums): the new path reads what the old one read, which reads nothing.  A rename that
  failed left all files as they were.
\<close>

theorem sftp_Rename:
  assumes "go_runtime E" "sftp_server (sf_client M) view up" "sf_root M = sftp_normaliseRoot E r" "up s"
    "Sftp_Rename E M old new s = (e, s')"
  shows "(e \<noteq> None \<longrightarrow> v_files (view s') = v_files (view s)) \<and>
    (e = None \<longrightarrow> Sftp_Exists E M old s \<and> \<not> Sftp_Exists E M new s \<and>
      (\<forall>c. Sftp_Read E M new s' = Inr c \<longleftrightarrow> Sftp_Read E M old s = Inr c) \<and>
      \<not> (\<exists>c. Sftp_Read E M old s' = Inr c))"
proof -
  from assms(1-3) obtain rs where "sftp_on_server E (sf_client M) view up M rs" by (rule sftp_on_serverI)
  from sftp_on_server.Rename_moves [OF this assms(4,5)] show ?thesis .
qed

subsection \<open>A medium on the server in memory\<close>

definition sample_sftp :: "string \<Rightarrow> (unit, mem_server, mem_handle) sftp_medium" where
  "sample_sftp root = \<lparr>sf_client = mem_sftp, sf_sshClient = None, sf_root = root, sf_ownsClient = False,
     sf_ownsSSHConn = False\<rparr>"

lemma sample_sftp_simps [simp]: "sf_client (sample_sftp root) = mem_sftp" "sf_root (sample_sftp root) = root"
  by (simp_all add: sample_sftp_def)

definition fresh_server :: "(string, string) fmap \<Rightarrow> string list \<Rightarrow> mem_server" where
  "fresh_server files dirs = \<lparr>ms_view = \<lparr>v_files = files, v_dirs = set dirs, v_handle = Map.empty, v_offset = Map.empty\<rparr>,
     ms_next = 0\<rparr>"

lemmas mem_sftp_ok = mem_sftp.sftp_server_axioms

interpretation sample: sftp_on_server go_core mem_sftp ms_view mem_up "sample_sftp ''/srv''" "[''srv'']"
  by unfold_locales (simp_all add: abs_path_def good_elem_def)

lemma srv_root: "sf_root (sample_sftp ''/srv'') = sftp_normaliseRoot go_core ''srv''"
  by (simp add: sftp_normaliseRoot_def) code_simp

lemma srv_server: "sftp_server (sf_client (sample_sftp ''/srv'')) ms_view mem_up"
  using mem_sftp_ok by simp

definition served :: mem_server where
  "served = fresh_server (fmupd ''/etc/key'' ''k'' fmempty) [''/'', ''/etc'', ''/srv'']"

lemma served_up: "mem_up served"
  by (simp add: served_def fresh_server_def mem_up_def)

theorem sftp_confined_witness:
  "\<exists>H s'. (sftp_step go_core (sample_sftp ''/srv''))\<^sup>*\<^sup>* ({}, served) (H, s') \<and> H \<noteq> {} \<and>
     fmlookup (v_files (ms_view s')) ''/etc/key'' = Some ''k''"
proof -
  let ?M = "sample_sftp ''/srv''"
  obtain r s' where c: "Sftp_Create go_core ?M ''../etc/key'' served = (r, s')" by force
  have "is_ok (fst (Sftp_Create go_core ?M ''../etc/key'' served))" by code_simp
  then obtain h where h: "r = Inr h" using c by (auto simp: is_ok_iff)
  have steps: "(sftp_step go_core ?M)\<^sup>*\<^sup>* ({}, served) ({h}, s')"
    using sftp_step.Create [OF c, of "{}"] h by simp
  have "\<not> within (sf_root ?M) ''/etc/key''" by (simp add: within_def at_or_below_def)
  from sftp_confined [OF go_core_ok srv_server srv_root served_up steps this]
  have "fmlookup (v_files (ms_view s')) ''/etc/key'' = fmlookup (v_files (ms_view served)) ''/etc/key''" by blast
  also have "\<dots> = Some ''k''" by (simp add: served_def fresh_server_def)
  finally show ?thesis using steps by blast
qed

theorem sftp_Write_Read_witness:
  "\<exists>s'. Sftp_WriteMode go_core (sample_sftp ''/srv'') ''a/b'' ''text'' 420 served = (None, s') \<and>
     Sftp_Read go_core (sample_sftp ''/srv'') ''a/b'' s' = Inr ''text''"
proof -
  have "fst (Sftp_WriteMode go_core (sample_sftp ''/srv'') ''a/b'' ''text'' 420 served) = None" by code_simp
  then obtain s' where w: "Sftp_WriteMode go_core (sample_sftp ''/srv'') ''a/b'' ''text'' 420 served = (None, s')"
    by (metis prod.collapse)
  with sftp_Write_Read [OF go_core_ok srv_server srv_root served_up w] show ?thesis by blast
qed

theorem sftp_Rename_witness:
  "let s = fresh_server (fmupd ''/srv/a'' ''text'' fmempty) [''/'', ''/srv''] in
   \<exists>s'. Sftp_Rename go_core (sample_sftp ''/srv'') ''a'' ''b'' s = (None, s') \<and>
     Sftp_Read go_core (sample_sftp ''/srv'') ''b'' s' = Inr ''text''"
proof -
  let ?s = "fresh_server (fmupd ''/srv/a'' ''text'' fmempty) [''/'', ''/srv'']" and ?M = "sample_sftp ''/srv''"
  have "fst (Sftp_Rename go_core ?M ''a'' ''b'' ?s) = None" by code_simp
  then obtain s' where r: "Sftp_Rename go_core ?M ''a'' ''b'' ?s = (None, s')" by (metis prod.collapse)
  have up: "mem_up ?s" by (simp add: fresh_server_def mem_up_def)
  from sftp_Rename [OF go_core_ok srv_server srv_root up r]
  have "Sftp_Read go_core ?M ''b'' s' = Inr ''text'' \<longleftrightarrow> Sftp_Read go_core ?M ''a'' ?s = Inr ''text''" by blast
  moreover have "Sftp_Read go_core ?M ''a'' ?s = Inr ''text''" by code_simp
  ultimately show ?thesis using r by (simp add: Let_def)
qed

text \<open>
  On this server a write can only fail before it changed anything, so the medium keeps the contract of
  writing and reading, and what \<open>Copy\<close> does through it is what the contract says.
\<close>

lemma mem_write_fails:
  assumes "Sftp_WriteMode go_core (sample_sftp root) p c md s = (e, s')" "e \<noteq> None"
  shows "v_files (ms_view s') = v_files (ms_view s)"
proof (cases "cleanRelative go_core p = ''''")
  case True
  then show ?thesis using assms(1) by (auto simp: Sftp_WriteMode_def requiredRemotePath_def)
next
  case False
  let ?p = "remotePath go_core (sample_sftp root) p" and ?fl = "[O_WRONLY, O_CREATE, O_TRUNC]"
  obtain e1 s1 where 1: "sftp_ensureParent go_core (sample_sftp root) ?p s = (e1, s1)" by force
  then have f1: "v_files (ms_view s1) = v_files (ms_view s)"
    by (auto simp: sftp_ensureParent_def mem_mkdir_def Let_def split: if_splits)
  obtain r2 s2 where 2: "mem_open_write ?p ?fl s1 = (r2, s2)" by force
  note run = assms(1) [unfolded Sftp_WriteMode_def requiredRemotePath_def Let_def]
  show ?thesis
  proof (cases "e1 \<noteq> None \<or> (\<exists>err. r2 = Inl err)")
    case True
    then have "s' = (if e1 = None then s2 else s1)" using run False 1 2 by (cases e1) auto
    moreover have "\<exists>err. r2 = Inl err \<Longrightarrow> s2 = s1" using 2 by (auto simp: mem_open_write_def Let_def split: if_splits)
    ultimately show ?thesis using True f1 by auto
  next
    case ok: False
    then obtain h where h: "e1 = None" "r2 = Inr h" by (cases r2) auto
    have "v_handle (ms_view s2) h = Some ?p" "fmlookup (v_files (ms_view s2)) ?p = Some ''''"
      using 2 h(2) by (auto simp: mem_open_write_def Let_def split: if_splits)
    then have "fst (mem_write h c s2) = Inr (length c) \<and> has_key (v_files (ms_view (snd (mem_write h c s2)))) ?p"
      by (simp add: mem_write_def Let_def)
    then obtain s3 where 3: "mem_write h c s2 = (Inr (length c), s3)" "has_key (v_files (ms_view s3)) ?p"
      by (cases "mem_write h c s2") auto
    then have "e = None" using run False 1 2 h
      by (auto simp: mem_sftp_def exists_at_def split: if_splits)
    then show ?thesis using assms(2) by simp
  qed
qed

lemma mem_Read_files:
  "fmlookup (v_files (ms_view s')) (remotePath go_core (sample_sftp root) q)
     = fmlookup (v_files (ms_view s)) (remotePath go_core (sample_sftp root) q) \<Longrightarrow>
   Sftp_Read go_core (sample_sftp root) q s' = Sftp_Read go_core (sample_sftp root) q s"
  by (auto simp: Sftp_Read_def requiredRemotePath_def mem_sftp_def has_key_def split: option.splits)

lemma Sftp_medium_simps [simp]:
  "m_Read (Sftp_medium E M) = Sftp_Read E M" "m_Write (Sftp_medium E M) now = Sftp_Write E M"
  "m_WriteMode (Sftp_medium E M) now = Sftp_WriteMode E M"
  by (simp_all add: Sftp_medium_def)

interpretation sftp: read_write "Sftp_medium go_core (sample_sftp ''/srv'')" mem_up "cleanRelative go_core"
  "\<lambda>p. cleanRelative go_core p \<noteq> ''''"
proof
  let ?M = "sample_sftp ''/srv''"
  fix s e s' and now :: gotime and p c md
  assume up: "mem_up s" and w: "m_WriteMode (Sftp_medium go_core ?M) now p c md s = (e, s')"
  then have run: "Sftp_WriteMode go_core ?M p c md s = (e, s')" by simp
  show "mem_up s'" using sample.ok_WriteMode [OF up run] by (simp add: confined_def)
  fix q assume q: "cleanRelative go_core q \<noteq> cleanRelative go_core p \<or> e \<noteq> None"
  have "fmlookup (v_files (ms_view s')) (remotePath go_core ?M q) = fmlookup (v_files (ms_view s)) (remotePath go_core ?M q)"
  proof (cases "e = None \<and> cleanRelative go_core p \<noteq> ''''")
    case True
    then show ?thesis using sample.WriteMode_wrote [OF up _ run] sample.remotePath_eq_iff [of q p] q
      by (simp add: sample.wrote_def)
  next
    case False
    then have "e \<noteq> None" using sample.WriteMode_refused [of p c md s] run by auto
    then show ?thesis using mem_write_fails [OF run] by simp
  qed
  then show "m_Read (Sftp_medium go_core ?M) q s' = m_Read (Sftp_medium go_core ?M) q s"
    unfolding Sftp_medium_simps by (rule mem_Read_files)
next
  let ?M = "sample_sftp ''/srv''"
  fix s s' and now :: gotime and p c md
  assume up: "mem_up s" and p: "cleanRelative go_core p \<noteq> ''''"
    and w: "m_WriteMode (Sftp_medium go_core ?M) now p c md s = (None, s')"
  from sample.Write_Read [OF up w [unfolded Sftp_medium_simps]]
  show "m_Read (Sftp_medium go_core ?M) p s' = Inr c"
    unfolding Sftp_medium_simps by blast
qed (simp add: Sftp_Write_def)

end
