(* ===== verification/Pwa.thy ===== *)
theory Pwa
  imports Remote Datanode
begin

text \<open>
  Package \<open>pwa\<close>: the read-only medium of \<open>go/pkg/medium/pwa/pwa.go\<close> over a DataNode that the Borg
  client downloads when it is first needed, and the action handlers of \<open>go/pkg/medium/pwa/register.go\<close>.
  Borg is not part of the repository: its downloader is the record \<open>pwa_client\<close> over a state \<open>'w\<close> of the
  world (the network among it), its DataNode the record of \<open>Datanode\<close>.  The double-checked lock makes the
  download one atomic step.
\<close>

subsection \<open>The client and the state\<close>

record ('n, 'w) pwa_client =
  FindManifest :: "string \<Rightarrow> 'w \<Rightarrow> string res \<times> 'w"
  DownloadAndPackagePWA :: "string \<Rightarrow> string \<Rightarrow> 'w \<Rightarrow> 'n res \<times> 'w"

text \<open>A medium whose DataNode is not downloaded yet has none.\<close>

record 'n pwa_medium =
  pw_url :: string
  pw_dataNode :: "'n option"

definition Pwa_New :: "string \<Rightarrow> 'n pwa_medium res" where
  "Pwa_New URL = Inr \<lparr>pw_url = URL, pw_dataNode = None\<rparr>"

definition pwa_requiredPath :: "go_env \<Rightarrow> string \<Rightarrow> string \<Rightarrow> string res" where
  "pwa_requiredPath E operation filePath =
     (let clean = cleanRelative E filePath
      in if clean = '''' then Inl (CoreE operation [''path is required''] (Some ErrInvalid)) else Inr clean)"

definition ensureDataNode ::
  "go_env \<Rightarrow> ('n, 'w) pwa_client \<Rightarrow> 'n pwa_medium \<times> 'w \<Rightarrow> 'n res \<times> 'n pwa_medium \<times> 'w" where
  "ensureDataNode E client s =
     (case s of (medium, w) \<Rightarrow>
       (case pw_dataNode medium of
          Some dataNode \<Rightarrow> (Inr dataNode, medium, w)
        | None \<Rightarrow>
            (let targetURL = Trim E (pw_url medium)
             in if targetURL = ''''
                then (Inl (CoreE ''pwa.ensureDataNode'' [''url is required''] (Some ErrInvalid)), medium, w)
                else case FindManifest client targetURL w of
                    (Inl err, w) \<Rightarrow>
                      (Inl (CoreE ''pwa.ensureDataNode'' [''failed to find PWA manifest''] (Some err)), medium, w)
                  | (Inr manifestURL, w) \<Rightarrow>
                      (case DownloadAndPackagePWA client targetURL manifestURL w of
                         (Inl err, w) \<Rightarrow>
                           (Inl (CoreE ''pwa.ensureDataNode'' [''failed to download PWA''] (Some err)), medium, w)
                       | (Inr dataNode, w) \<Rightarrow>
                           (Inr dataNode, medium\<lparr>pw_dataNode := Some dataNode\<rparr>, w)))))"

definition errReadOnly :: gerr where
  "errReadOnly = ErrNew ''pwa medium is read-only''"

definition pwa_readOnly :: "string \<Rightarrow> gerr" where
  "pwa_readOnly operation = CoreE operation [''PWA medium is read-only''] (Some errReadOnly)"

text \<open>What the reading operations share: the DataNode, or the error of the download.\<close>

definition with_node ::
  "go_env \<Rightarrow> ('n, 'w) pwa_client \<Rightarrow> ('n \<Rightarrow> 'a res) \<Rightarrow> 'n pwa_medium \<times> 'w \<Rightarrow> 'a res \<times> 'n pwa_medium \<times> 'w" where
  "with_node E client f s =
     (case ensureDataNode E client s of
        (Inl err, s) \<Rightarrow> (Inl err, s)
      | (Inr dataNode, s) \<Rightarrow> (f dataNode, s))"

subsection \<open>Reading\<close>

definition Pwa_Read ::
  "go_env \<Rightarrow> ('n, 'f) datanode_api \<Rightarrow> ('n, 'w) pwa_client \<Rightarrow> string \<Rightarrow> 'n pwa_medium \<times> 'w
     \<Rightarrow> string res \<times> 'n pwa_medium \<times> 'w" where
  "Pwa_Read E B client filePath s =
     (case pwa_requiredPath E ''pwa.Read'' filePath of
        Inl err \<Rightarrow> (Inl err, s)
      | Inr clean \<Rightarrow>
          with_node E client (\<lambda>dataNode.
            case dn_Open B clean dataNode of
              Inl err \<Rightarrow> Inl (CoreE ''pwa.Read'' [''not found: '', clean] (Some ErrNotExist))
            | Inr file \<Rightarrow>
                (case df_Stat B file of
                   Inl err \<Rightarrow> Inl (CoreE ''pwa.Read'' [''stat failed: '', clean] (Some err))
                 | Inr info \<Rightarrow>
                     (if fi_isDir info
                      then Inl (CoreE ''pwa.Read'' [''path is a directory: '', clean] (Some ErrInvalid))
                      else case df_ReadAll B file of
                          Inl err \<Rightarrow> Inl (CoreE ''pwa.Read'' [''read failed: '', clean] (Some err))
                        | Inr data \<Rightarrow> Inr data))) s)"

definition Pwa_List ::
  "go_env \<Rightarrow> ('n, 'f) datanode_api \<Rightarrow> ('n, 'w) pwa_client \<Rightarrow> string \<Rightarrow> 'n pwa_medium \<times> 'w
     \<Rightarrow> dir_entry list res \<times> 'n pwa_medium \<times> 'w" where
  "Pwa_List E B client filePath s =
     with_node E client (\<lambda>dataNode.
       let clean = cleanRelative E filePath
       in case dn_ReadDir B clean dataNode of
            Inl err \<Rightarrow> Inl (CoreE ''pwa.List'' [''not found: '', clean] (Some ErrNotExist))
          | Inr entries \<Rightarrow> Inr entries) s"

definition Pwa_Stat ::
  "go_env \<Rightarrow> ('n, 'f) datanode_api \<Rightarrow> ('n, 'w) pwa_client \<Rightarrow> string \<Rightarrow> 'n pwa_medium \<times> 'w
     \<Rightarrow> file_info res \<times> 'n pwa_medium \<times> 'w" where
  "Pwa_Stat E B client filePath s =
     with_node E client (\<lambda>dataNode.
       let clean = cleanRelative E filePath
       in case dn_Stat B clean dataNode of
            Inl err \<Rightarrow> Inl (CoreE ''pwa.Stat'' [''not found: '', clean] (Some ErrNotExist))
          | Inr info \<Rightarrow> Inr info) s"

definition Pwa_IsFile ::
  "go_env \<Rightarrow> ('n, 'f) datanode_api \<Rightarrow> ('n, 'w) pwa_client \<Rightarrow> string \<Rightarrow> 'n pwa_medium \<times> 'w
     \<Rightarrow> bool \<times> 'n pwa_medium \<times> 'w" where
  "Pwa_IsFile E B client filePath s =
     (let clean = cleanRelative E filePath
      in if clean = '''' then (False, s)
         else case Pwa_Stat E B client clean s of
             (Inl err, s) \<Rightarrow> (False, s) | (Inr info, s) \<Rightarrow> (\<not> fi_isDir info, s))"

text \<open>A file that turns out to be unusable is closed; a failing close is only logged.\<close>

definition Pwa_Open ::
  "go_env \<Rightarrow> ('n, 'f) datanode_api \<Rightarrow> ('n, 'w) pwa_client \<Rightarrow> string \<Rightarrow> 'n pwa_medium \<times> 'w
     \<Rightarrow> 'f res \<times> 'n pwa_medium \<times> 'w" where
  "Pwa_Open E B client filePath s =
     (case pwa_requiredPath E ''pwa.Open'' filePath of
        Inl err \<Rightarrow> (Inl err, s)
      | Inr clean \<Rightarrow>
          with_node E client (\<lambda>dataNode.
            case dn_Open B clean dataNode of
              Inl err \<Rightarrow> Inl (CoreE ''pwa.Open'' [''not found: '', clean] (Some ErrNotExist))
            | Inr file \<Rightarrow>
                (case df_Stat B file of
                   Inl err \<Rightarrow> Inl (CoreE ''pwa.Open'' [''stat failed: '', clean] (Some err))
                 | Inr info \<Rightarrow>
                     (if fi_isDir info
                      then Inl (CoreE ''pwa.Open'' [''path is a directory: '', clean] (Some ErrInvalid))
                      else Inr file))) s)"

definition Pwa_ReadStream ::
  "go_env \<Rightarrow> ('n, 'f) datanode_api \<Rightarrow> ('n, 'w) pwa_client \<Rightarrow> string \<Rightarrow> 'n pwa_medium \<times> 'w
     \<Rightarrow> 'f res \<times> 'n pwa_medium \<times> 'w" where
  "Pwa_ReadStream E B client filePath s =
     (case Pwa_Open E B client filePath s of (Inl err, s) \<Rightarrow> (Inl err, s) | (Inr file, s) \<Rightarrow> (Inr file, s))"

definition Pwa_Exists ::
  "go_env \<Rightarrow> ('n, 'f) datanode_api \<Rightarrow> ('n, 'w) pwa_client \<Rightarrow> string \<Rightarrow> 'n pwa_medium \<times> 'w
     \<Rightarrow> bool \<times> 'n pwa_medium \<times> 'w" where
  "Pwa_Exists E B client filePath s =
     (case Pwa_Stat E B client filePath s of (r, s) \<Rightarrow> (is_ok r, s))"

definition Pwa_IsDir ::
  "go_env \<Rightarrow> ('n, 'f) datanode_api \<Rightarrow> ('n, 'w) pwa_client \<Rightarrow> string \<Rightarrow> 'n pwa_medium \<times> 'w
     \<Rightarrow> bool \<times> 'n pwa_medium \<times> 'w" where
  "Pwa_IsDir E B client filePath s =
     (case Pwa_Stat E B client filePath s of
        (Inl err, s) \<Rightarrow> (False, s) | (Inr info, s) \<Rightarrow> (fi_isDir info, s))"

subsection \<open>Writing is refused\<close>

definition Pwa_Write :: "string \<Rightarrow> string \<Rightarrow> 's \<Rightarrow> gerr option \<times> 's" where
  "Pwa_Write filePath content s = (Some (pwa_readOnly ''pwa.Write''), s)"

definition Pwa_WriteMode :: "string \<Rightarrow> string \<Rightarrow> file_mode \<Rightarrow> 's \<Rightarrow> gerr option \<times> 's" where
  "Pwa_WriteMode filePath content mode s = (Some (pwa_readOnly ''pwa.WriteMode''), s)"

definition Pwa_EnsureDir :: "string \<Rightarrow> 's \<Rightarrow> gerr option \<times> 's" where
  "Pwa_EnsureDir filePath s = (Some (pwa_readOnly ''pwa.EnsureDir''), s)"

definition Pwa_Delete :: "string \<Rightarrow> 's \<Rightarrow> gerr option \<times> 's" where
  "Pwa_Delete filePath s = (Some (pwa_readOnly ''pwa.Delete''), s)"

definition Pwa_DeleteAll :: "string \<Rightarrow> 's \<Rightarrow> gerr option \<times> 's" where
  "Pwa_DeleteAll filePath s = (Some (pwa_readOnly ''pwa.DeleteAll''), s)"

definition Pwa_Rename :: "string \<Rightarrow> string \<Rightarrow> 's \<Rightarrow> gerr option \<times> 's" where
  "Pwa_Rename oldPath newPath s = (Some (pwa_readOnly ''pwa.Rename''), s)"

definition Pwa_Create :: "string \<Rightarrow> 's \<Rightarrow> 'v res \<times> 's" where
  "Pwa_Create filePath s = (Inl (pwa_readOnly ''pwa.Create''), s)"

definition Pwa_Append :: "string \<Rightarrow> 's \<Rightarrow> 'v res \<times> 's" where
  "Pwa_Append filePath s = (Inl (pwa_readOnly ''pwa.Append''), s)"

definition Pwa_WriteStream :: "string \<Rightarrow> 's \<Rightarrow> 'v res \<times> 's" where
  "Pwa_WriteStream filePath s = (Inl (pwa_readOnly ''pwa.WriteStream''), s)"

subsection \<open>Actions\<close>

text \<open>
  The mediums of a program live at addresses of a heap; an action is given one in its options, or makes a
  new one for an URL.  \<open>alloc\<close> puts a new medium at an address that is free.
\<close>

record ('n, 'w) pwa_world =
  px_media :: "(nat, 'n pwa_medium) fmap"
  px_next :: nat
  px_net :: 'w

definition alloc :: "'n pwa_medium \<Rightarrow> ('n, 'w) pwa_world \<Rightarrow> nat \<times> ('n, 'w) pwa_world" where
  "alloc m x = (px_next x, x\<lparr>px_media := fmupd (px_next x) m (px_media x), px_next := Suc (px_next x)\<rparr>)"

definition on_medium ::
  "nat \<Rightarrow> ('n pwa_medium \<times> 'w \<Rightarrow> 'a res \<times> 'n pwa_medium \<times> 'w) \<Rightarrow> ('n, 'w) pwa_world
     \<Rightarrow> 'a res \<times> ('n, 'w) pwa_world" where
  "on_medium a f x =
     (case fmlookup (px_media x) a of
        None \<Rightarrow> (Inl ErrInvalid, x)
      | Some m \<Rightarrow>
          (case f (m, px_net x) of (r, m', w') \<Rightarrow> (r, x\<lparr>px_media := fmupd a m' (px_media x), px_net := w'\<rparr>)))"

definition pwa_mediumFromOptions ::
  "nat options \<Rightarrow> ('n, 'w) pwa_world \<Rightarrow> nat res \<times> ('n, 'w) pwa_world" where
  "pwa_mediumFromOptions opts x =
     (case opt_medium opts ''medium'' of
        Some medium \<Rightarrow> (Inr medium, x)
      | None \<Rightarrow>
          (case Pwa_New (opt_string opts ''url'') of
             Inl err \<Rightarrow> (Inl err, x)
           | Inr medium \<Rightarrow> (case alloc medium x of (a, x) \<Rightarrow> (Inr a, x))))"

definition pwa_readAction ::
  "go_env \<Rightarrow> ('n, 'f) datanode_api \<Rightarrow> ('n, 'w) pwa_client \<Rightarrow> nat options \<Rightarrow> ('n, 'w) pwa_world
     \<Rightarrow> string res \<times> ('n, 'w) pwa_world" where
  "pwa_readAction E B client opts x =
     (case pwa_mediumFromOptions opts x of
        (Inl err, x) \<Rightarrow> (Inl err, x)
      | (Inr medium, x) \<Rightarrow> on_medium medium (Pwa_Read E B client (opt_string opts ''path'')) x)"

text \<open>The result of a scrape is the medium itself, its DataNode downloaded.\<close>

definition scrapeAction ::
  "go_env \<Rightarrow> ('n, 'w) pwa_client \<Rightarrow> nat options \<Rightarrow> ('n, 'w) pwa_world \<Rightarrow> nat res \<times> ('n, 'w) pwa_world" where
  "scrapeAction E client opts x =
     (case pwa_mediumFromOptions opts x of
        (Inl err, x) \<Rightarrow> (Inl err, x)
      | (Inr medium, x) \<Rightarrow>
          (case on_medium medium (ensureDataNode E client) x of
             (Inl err, x) \<Rightarrow> (Inl err, x) | (Inr _, x) \<Rightarrow> (Inr medium, x)))"

definition pwa_listAction ::
  "go_env \<Rightarrow> ('n, 'f) datanode_api \<Rightarrow> ('n, 'w) pwa_client \<Rightarrow> nat options \<Rightarrow> ('n, 'w) pwa_world
     \<Rightarrow> dir_entry list res \<times> ('n, 'w) pwa_world" where
  "pwa_listAction E B client opts x =
     (case pwa_mediumFromOptions opts x of
        (Inl err, x) \<Rightarrow> (Inl err, x)
      | (Inr medium, x) \<Rightarrow> on_medium medium (Pwa_List E B client (opt_string opts ''path'')) x)"

definition pwa_writeAction :: "nat options \<Rightarrow> ('n, 'w) pwa_world \<Rightarrow> gerr option \<times> ('n, 'w) pwa_world" where
  "pwa_writeAction opts x =
     (case pwa_mediumFromOptions opts x of
        (Inl err, x) \<Rightarrow> (Some err, x)
      | (Inr medium, x) \<Rightarrow> Pwa_Write (opt_string opts ''path'') (opt_string opts ''content'') x)"

end
