(* ===== verification/PwaProps.thy ===== *)
theory PwaProps
  imports Pwa DatanodeProps
begin

text \<open>
  Properties of the PWA medium: a download that failed is tried again by the next operation, one that
  succeeded is the last use of the network, and every operation then answers from the DataNode of that moment.
\<close>

subsection \<open>The download\<close>

text \<open>One attempt: find the manifest, then download.\<close>

definition fetch :: "('n, 'w) pwa_client \<Rightarrow> string \<Rightarrow> 'w \<Rightarrow> 'n res \<times> 'w" where
  "fetch client target w =
     (case FindManifest client target w of
        (Inl err, w) \<Rightarrow> (Inl (CoreE ''pwa.ensureDataNode'' [''failed to find PWA manifest''] (Some err)), w)
      | (Inr manifest, w) \<Rightarrow>
          (case DownloadAndPackagePWA client target manifest w of
             (Inl err, w) \<Rightarrow> (Inl (CoreE ''pwa.ensureDataNode'' [''failed to download PWA''] (Some err)), w)
           | (Inr dataNode, w) \<Rightarrow> (Inr dataNode, w)))"

lemma ensureDataNode_fetch:
  "pw_dataNode m = None \<Longrightarrow> Trim E (pw_url m) \<noteq> '''' \<Longrightarrow>
   ensureDataNode E client (m, w) =
     (case fetch client (Trim E (pw_url m)) w of
        (Inl err, w) \<Rightarrow> (Inl err, m, w)
      | (Inr dataNode, w) \<Rightarrow> (Inr dataNode, m\<lparr>pw_dataNode := Some dataNode\<rparr>, w))"
  by (simp add: ensureDataNode_def fetch_def Let_def split: prod.splits sum.splits)

lemma ensureDataNode_cached [simp]:
  "pw_dataNode m = Some n \<Longrightarrow> ensureDataNode E client (m, w) = (Inr n, m, w)"
  by (simp add: ensureDataNode_def)

lemma with_node_cached [simp]: "pw_dataNode m = Some n \<Longrightarrow> with_node E client f (m, w) = (f n, m, w)"
  by (simp add: with_node_def)

lemma with_node_fetch:
  "pw_dataNode m = None \<Longrightarrow> Trim E (pw_url m) \<noteq> '''' \<Longrightarrow>
   with_node E client f (m, w) =
     (case fetch client (Trim E (pw_url m)) w of
        (Inl err, w) \<Rightarrow> (Inl err, m, w)
      | (Inr dataNode, w) \<Rightarrow> (f dataNode, m\<lparr>pw_dataNode := Some dataNode\<rparr>, w))"
  by (simp add: with_node_def ensureDataNode_fetch split: prod.splits sum.splits)

subsection \<open>Every operation\<close>

inductive pwa_step ::
  "go_env \<Rightarrow> ('n, 'f) datanode_api \<Rightarrow> ('n, 'w) pwa_client \<Rightarrow> 'n pwa_medium \<times> 'w \<Rightarrow> 'n pwa_medium \<times> 'w \<Rightarrow> bool"
  for E B client
where
  Read: "Pwa_Read E B client p s = (r, s') \<Longrightarrow> pwa_step E B client s s'"
| List: "Pwa_List E B client p s = (rl, s') \<Longrightarrow> pwa_step E B client s s'"
| Stat: "Pwa_Stat E B client p s = (rs, s') \<Longrightarrow> pwa_step E B client s s'"
| Open: "Pwa_Open E B client p s = (rf, s') \<Longrightarrow> pwa_step E B client s s'"
| ReadStream: "Pwa_ReadStream E B client p s = (rf, s') \<Longrightarrow> pwa_step E B client s s'"
| IsFile: "Pwa_IsFile E B client p s = (b, s') \<Longrightarrow> pwa_step E B client s s'"
| Exists: "Pwa_Exists E B client p s = (b, s') \<Longrightarrow> pwa_step E B client s s'"
| IsDir: "Pwa_IsDir E B client p s = (b, s') \<Longrightarrow> pwa_step E B client s s'"
| Scrape: "ensureDataNode E client s = (rn, s') \<Longrightarrow> pwa_step E B client s s'"
| Write: "Pwa_Write p c s = (e, s') \<Longrightarrow> pwa_step E B client s s'"
| WriteMode: "Pwa_WriteMode p c md s = (e, s') \<Longrightarrow> pwa_step E B client s s'"
| EnsureDir: "Pwa_EnsureDir p s = (e, s') \<Longrightarrow> pwa_step E B client s s'"
| Delete: "Pwa_Delete p s = (e, s') \<Longrightarrow> pwa_step E B client s s'"
| DeleteAll: "Pwa_DeleteAll p s = (e, s') \<Longrightarrow> pwa_step E B client s s'"
| Rename: "Pwa_Rename p q s = (e, s') \<Longrightarrow> pwa_step E B client s s'"
| Create: "Pwa_Create p s = (wr :: unit res, s') \<Longrightarrow> pwa_step E B client s s'"
| Append: "Pwa_Append p s = (wr :: unit res, s') \<Longrightarrow> pwa_step E B client s s'"
| WriteStream: "Pwa_WriteStream p s = (wr :: unit res, s') \<Longrightarrow> pwa_step E B client s s'"

lemmas pwa_ops = Pwa_Read_def Pwa_List_def Pwa_Stat_def Pwa_Open_def Pwa_ReadStream_def Pwa_IsFile_def
  Pwa_Exists_def Pwa_IsDir_def Pwa_Write_def Pwa_WriteMode_def Pwa_EnsureDir_def Pwa_Delete_def
  Pwa_DeleteAll_def Pwa_Rename_def Pwa_Create_def Pwa_Append_def Pwa_WriteStream_def

lemma step_cached:
  assumes "pwa_step E B client s s'" "pw_dataNode (fst s) = Some n"
  shows "s' = s"
proof -
  obtain m w where s: "s = (m, w)" "pw_dataNode m = Some n" using assms(2) by (cases s) simp
  from assms(1) show ?thesis unfolding s(1)
    by (cases rule: pwa_step.cases) (auto simp: pwa_ops Let_def s(2) split: sum.splits prod.splits if_splits)
qed

lemma steps_cached:
  "(pwa_step E B client)\<^sup>*\<^sup>* s s' \<Longrightarrow> pw_dataNode (fst s) = Some n \<Longrightarrow> s' = s"
  by (induction rule: rtranclp_induct) (auto dest: step_cached)

subsection \<open>Reads are answered once the network is\<close>

text \<open>What a read gives on a DataNode, and the state after some reads of a path.\<close>

definition node_read :: "('n, 'f) datanode_api \<Rightarrow> 'n \<Rightarrow> string \<Rightarrow> string res" where
  "node_read B n clean =
     (case dn_Open B clean n of
        Inl err \<Rightarrow> Inl (CoreE ''pwa.Read'' [''not found: '', clean] (Some ErrNotExist))
      | Inr file \<Rightarrow>
          (case df_Stat B file of
             Inl err \<Rightarrow> Inl (CoreE ''pwa.Read'' [''stat failed: '', clean] (Some err))
           | Inr info \<Rightarrow>
               (if fi_isDir info then Inl (CoreE ''pwa.Read'' [''path is a directory: '', clean] (Some ErrInvalid))
                else case df_ReadAll B file of
                    Inl err \<Rightarrow> Inl (CoreE ''pwa.Read'' [''read failed: '', clean] (Some err))
                  | Inr data \<Rightarrow> Inr data)))"

lemma Pwa_Read_node:
  "cleanRelative E p \<noteq> '''' \<Longrightarrow>
   Pwa_Read E B client p s = with_node E client (\<lambda>n. node_read B n (cleanRelative E p)) s"
  by (simp add: Pwa_Read_def pwa_requiredPath_def node_read_def Let_def)

definition after_reads ::
  "go_env \<Rightarrow> ('n, 'f) datanode_api \<Rightarrow> ('n, 'w) pwa_client \<Rightarrow> string \<Rightarrow> nat \<Rightarrow> 'n pwa_medium \<times> 'w \<Rightarrow> 'n pwa_medium \<times> 'w" where
  "after_reads E B client p j s = ((\<lambda>s. snd (Pwa_Read E B client p s)) ^^ j) s"

lemma after_reads_simps [simp]:
  "after_reads E B client p 0 s = s"
  "after_reads E B client p (Suc j) s = snd (Pwa_Read E B client p (after_reads E B client p j s))"
  by (simp_all add: after_reads_def)

lemma failing_reads:
  assumes "Trim E url \<noteq> ''''" "cleanRelative E p \<noteq> ''''"
    "\<forall>i<j. \<exists>err. fetch client (Trim E url) (ws i) = (Inl err, ws (Suc i))"
  shows "after_reads E B client p j (\<lparr>pw_url = url, pw_dataNode = None\<rparr>, ws 0) = (\<lparr>pw_url = url, pw_dataNode = None\<rparr>, ws j)"
  using assms(3)
proof (induction j)
  case (Suc j)
  then obtain err where "fetch client (Trim E url) (ws j) = (Inl err, ws (Suc j))" by auto
  then show ?case using Suc by (simp add: Pwa_Read_node assms(1,2) with_node_fetch)
qed simp

text \<open>
  C35: with a URL that is not blank and a path that is not the root, a read that is repeated is answered once the
  network is.  While the download fails, a read returns
  the error of this attempt and the next read tries again; from the first download that succeeds on, every
  read of the path returns what the downloaded DataNode has there, and no operation of the medium, in any
  order, uses the network again or changes the medium.
\<close>

theorem pwa_eventually_reads:
  assumes "Trim E url \<noteq> ''''" "cleanRelative E p \<noteq> ''''"
    "\<forall>i<k. \<exists>err. fetch client (Trim E url) (ws i) = (Inl err, ws (Suc i))"
    "fetch client (Trim E url) (ws k) = (Inr n, w')"
  defines "s \<equiv> (\<lparr>pw_url = url, pw_dataNode = None\<rparr>, ws 0)"
  shows "(\<forall>j<k. fst (Pwa_Read E B client p (after_reads E B client p j s))
        = Inl (projl (fst (fetch client (Trim E url) (ws j))))) \<and>
    (\<forall>j\<ge>k. fst (Pwa_Read E B client p (after_reads E B client p j s)) = node_read B n (cleanRelative E p)) \<and>
    (\<forall>j>k. \<forall>t. (pwa_step E B client)\<^sup>*\<^sup>* (after_reads E B client p j s) t \<longrightarrow>
       t = (\<lparr>pw_url = url, pw_dataNode = Some n\<rparr>, w'))"
proof -
  note read = Pwa_Read_node [OF assms(2)] and fails = failing_reads [OF assms(1,2), folded s_def]
  have early: "fst (Pwa_Read E B client p (after_reads E B client p j s))
      = Inl (projl (fst (fetch client (Trim E url) (ws j))))" if j: "j < k" for j
  proof -
    obtain err where "fetch client (Trim E url) (ws j) = (Inl err, ws (Suc j))" using assms(3) j by auto
    moreover have "after_reads E B client p j s = (\<lparr>pw_url = url, pw_dataNode = None\<rparr>, ws j)"
      using assms(3) j unfolding s_def by (intro failing_reads [OF assms(1,2)]) auto
    ultimately show ?thesis by (simp add: read assms(1) with_node_fetch)
  qed
  have at: "after_reads E B client p k s = (\<lparr>pw_url = url, pw_dataNode = None\<rparr>, ws k)"
    unfolding s_def by (rule failing_reads [OF assms(1-3)])
  have late: "after_reads E B client p (Suc k + i) s = (\<lparr>pw_url = url, pw_dataNode = Some n\<rparr>, w')" for i
    by (induction i) (simp_all add: at read assms(1,4) with_node_fetch)
  have "fst (Pwa_Read E B client p (after_reads E B client p j s)) = node_read B n (cleanRelative E p)" if "k \<le> j" for j
  proof (cases "j = k")
    case True
    then show ?thesis by (simp add: at read assms(1,4) with_node_fetch)
  next
    case False
    then have "Suc k + (j - Suc k) = j" using that by simp
    with late [of "j - Suc k"] show ?thesis by (simp add: read)
  qed
  moreover have "t = (\<lparr>pw_url = url, pw_dataNode = Some n\<rparr>, w')"
    if "k < j" "(pwa_step E B client)\<^sup>*\<^sup>* (after_reads E B client p j s) t" for j t
  proof -
    have "Suc k + (j - Suc k) = j" using that(1) by simp
    with late [of "j - Suc k"] show ?thesis using steps_cached [OF that(2)] by simp
  qed
  ultimately show ?thesis using early by blast
qed

text \<open>A network that is down for the first requests.\<close>

definition slow_client :: "(string \<times> string) list \<Rightarrow> ((string \<times> string) list, nat) pwa_client" where
  "slow_client site = \<lparr>FindManifest = (\<lambda>u w. (if w = 0 then Inr (u @ ''/manifest.json'') else Inl ErrUnexpectedEOF, w - 1)),
     DownloadAndPackagePWA = (\<lambda>u m w. (Inr site, w))\<rparr>"

theorem pwa_eventually_reads_witness:
  "let client = slow_client [(''index.html'', ''page'')]; s = (\<lparr>pw_url = ''https://app'', pw_dataNode = None\<rparr>, 2);
       p = ''/index.html'' in
   \<not> is_ok (fst (Pwa_Read go_core list_datanode client p s)) \<and>
   fst (Pwa_Read go_core list_datanode client p (after_reads go_core list_datanode client p 2 s)) = Inr ''page''"
proof -
  let ?c = "slow_client [(''index.html'', ''page'')]" and ?ws = "\<lambda>i. 2 - i :: nat"
  let ?s = "(\<lparr>pw_url = ''https://app'', pw_dataNode = None\<rparr>, ?ws 0)" and ?p = "''/index.html''"
  have url: "Trim go_core ''https://app'' \<noteq> ''''" by code_simp
  have p: "cleanRelative go_core ?p = ''index.html''" by code_simp
  have fails: "\<forall>i<2. \<exists>err. fetch ?c (Trim go_core ''https://app'') (?ws i) = (Inl err, ?ws (Suc i))"
    by (auto simp: fetch_def slow_client_def)
  have works: "fetch ?c (Trim go_core ''https://app'') (?ws 2) = (Inr [(''index.html'', ''page'')], 0)"
    by (simp add: fetch_def slow_client_def)
  have pp: "cleanRelative go_core ?p \<noteq> ''''" by (simp add: p)
  note all = pwa_eventually_reads [OF url pp fails works, where B = list_datanode]
  have "fst (Pwa_Read go_core list_datanode ?c ?p (after_reads go_core list_datanode ?c ?p 2 ?s))
      = node_read list_datanode [(''index.html'', ''page'')] ''index.html''"
    using all [THEN conjunct2, THEN conjunct1] unfolding p by blast
  moreover have "fst (Pwa_Read go_core list_datanode ?c ?p (after_reads go_core list_datanode ?c ?p 0 ?s))
      = Inl (projl (fst (fetch ?c (Trim go_core ''https://app'') (?ws 0))))"
    using all [THEN conjunct1, rule_format, of 0] by simp
  moreover have "node_read list_datanode [(''index.html'', ''page'')] ''index.html'' = Inr ''page''" by code_simp
  ultimately show ?thesis by (simp add: Let_def)
qed

end
