(* ===== verification/Github.thy ===== *)
theory Github
  imports Remote Datanode
begin

text \<open>
  Package \<open>github\<close>: the read-only medium of \<open>go/pkg/medium/github/github.go\<close> over the contents API of a
  repository, its two ways to clone, and the action handlers of \<open>go/pkg/medium/github/register.go\<close>.  The
  client library (\<open>go-github\<close>, \<open>oauth2\<close>) is the record \<open>gh_api\<close> over a state \<open>'w\<close> of the remote; Borg's
  cloner is a function argument and its DataNode the record of \<open>Datanode\<close>.
\<close>

subsection \<open>The client\<close>

record gh_content =
  gc_Type :: string
  gc_Path :: string
  gc_Name :: string
  gc_Size :: int
  gc_Content :: "string res"

text \<open>
  The error of a request: the client refused the path, the server answered with a status, or another one.
\<close>

datatype gh_error = PathForbidden gerr | ErrorResponse "int option" gerr | OtherError gerr

record 't http_client =
  hc_Transport :: "'t option"

record 't gh_client =
  gh_http :: "'t http_client option"
  gh_BaseURL :: url

text \<open>
  \<open>GetContents\<close> takes the owner, the repository, the path and the ref, and returns the file and the directory
  content, of which one may be nil.
\<close>

record ('t, 'w) gh_api =
  gh_NewClient :: "'t http_client option \<Rightarrow> 't gh_client"
  gh_GetContents :: "'t gh_client \<Rightarrow> string \<Rightarrow> string \<Rightarrow> string \<Rightarrow> string option \<Rightarrow> 'w
     \<Rightarrow> gh_error + gh_content option \<times> gh_content list option"
  gh_DefaultTransport :: 't
  oauth_Transport :: "string \<Rightarrow> 't \<Rightarrow> 't"

record 't gh_medium =
  gm_client :: "'t gh_client"
  gm_owner :: string
  gm_repo :: string
  gm_ref :: string
  gm_baseURL :: string

record 't gh_options =
  go_Client :: "'t gh_client option"
  go_HTTPClient :: "'t http_client option"
  go_Owner :: string
  go_Repo :: string
  go_Ref :: string
  go_Branch :: string
  go_Token :: string
  go_TokenFile :: string
  go_BaseURL :: string

subsection \<open>Opening\<close>

definition tokenFileMedium ::
  "go_env \<Rightarrow> ('o, 'f, 'v) os_api \<Rightarrow> string \<Rightarrow> 'o \<Rightarrow> (('o, 'f, 'f, 'v) medium \<times> string) res" where
  "tokenFileMedium E S tokenFile fs =
     (if PathIsAbs E tokenFile then
        (let root = PathDir E tokenFile; relativePath = PathBase E tokenFile in
         if root = '''' \<or> root = ''.'' \<or> relativePath = '''' \<or> relativePath = ''.'' \<or> relativePath = ''/''
         then Inl ErrInvalid
         else case NewSandboxed E S root fs of
             Inl err \<Rightarrow> Inl err | Inr medium \<Rightarrow> Inr (medium, relativePath))
      else case NewSandboxed E S ''.'' fs of
          Inl err \<Rightarrow> Inl err | Inr medium \<Rightarrow> Inr (medium, tokenFile))"

definition token_from_file :: "go_env \<Rightarrow> ('o, 'f, 'v) os_api \<Rightarrow> string \<Rightarrow> 'o \<Rightarrow> string" where
  "token_from_file E S tokenFile fs =
     (case tokenFileMedium E S tokenFile fs of
        Inl err \<Rightarrow> ''''
      | Inr (medium, relativePath) \<Rightarrow>
          (case m_Read medium relativePath fs of Inl err \<Rightarrow> '''' | Inr data \<Rightarrow> Trim E data))"

definition tokenFromEnvironment :: "go_env \<Rightarrow> ('o, 'f, 'v) os_api \<Rightarrow> string \<Rightarrow> 'o \<Rightarrow> string" where
  "tokenFromEnvironment E S tokenFile fs =
     (let token = Trim E (os_Env S ''GITHUB_TOKEN'') in
      if token \<noteq> '''' then token
      else if tokenFile = '''' then
        (let home = Trim E (os_Env S ''HOME'');
             home = (if home = '''' then Trim E (os_Env S ''DIR_HOME'') else home)
         in if home = '''' then ''''
            else token_from_file E S (Path E [home, ''.config'', ''lthn'', ''github-token'']) fs)
      else token_from_file E S tokenFile fs)"

definition oauthClient :: "('t, 'w) gh_api \<Rightarrow> 't http_client option \<Rightarrow> string \<Rightarrow> 't http_client" where
  "oauthClient A client token =
     (let clone = (case client of Some c \<Rightarrow> c | None \<Rightarrow> \<lparr>hc_Transport = None\<rparr>);
          transport = (case hc_Transport clone of None \<Rightarrow> gh_DefaultTransport A | Some t \<Rightarrow> t)
      in clone\<lparr>hc_Transport := Some (oauth_Transport A token transport)\<rparr>)"

definition setClientBaseURL :: "go_env \<Rightarrow> url_lib \<Rightarrow> 't gh_client \<Rightarrow> string \<Rightarrow> 't gh_client res" where
  "setClientBaseURL E U client baseURL =
     (case url_Parse U baseURL of
        Inl err \<Rightarrow> Inl err
      | Inr parsed \<Rightarrow>
          (if u_Scheme parsed = '''' \<or> u_Host parsed = '''' then Inl ErrInvalid
           else let parsed = (if \<not> HasSuffix E (u_Path parsed) ''/''
                    then parsed\<lparr>u_Path := u_Path parsed @ ''/''\<rparr> else parsed)
                in Inr (client\<lparr>gh_BaseURL := parsed\<rparr>)))"

text \<open>
  An injected client is shared with the caller: setting its base URL changes it.  The model returns
  the client as part of the medium.
\<close>

definition Github_New ::
  "go_env \<Rightarrow> url_lib \<Rightarrow> ('o, 'f, 'v) os_api \<Rightarrow> ('t, 'w) gh_api \<Rightarrow> 't gh_options \<Rightarrow> 'o \<Rightarrow> 't gh_medium res" where
  "Github_New E U S A options fs =
     (let owner = Trim E (go_Owner options) in
      if owner = '''' then Inl (CoreE ''github.New'' [''owner is required''] (Some ErrInvalid))
      else let repo = Trim E (go_Repo options) in
      if repo = '''' then Inl (CoreE ''github.New'' [''repo is required''] (Some ErrInvalid))
      else
        let client = (case go_Client options of
              Some client \<Rightarrow> client
            | None \<Rightarrow>
                (let token = (if go_Token options = '''' then tokenFromEnvironment E S (go_TokenFile options) fs
                      else go_Token options);
                     httpClient = (if token \<noteq> '''' then Some (oauthClient A (go_HTTPClient options) token)
                      else go_HTTPClient options)
                 in gh_NewClient A httpClient))
        in case (if go_BaseURL options \<noteq> '''' then setClientBaseURL E U client (go_BaseURL options)
                 else Inr client) of
             Inl err \<Rightarrow> Inl (CoreE ''github.New'' [''base URL is invalid''] (Some err))
           | Inr client \<Rightarrow>
               (let ref = Trim E (go_Ref options);
                    ref = (if ref = '''' then Trim E (go_Branch options) else ref)
                in Inr \<lparr>gm_client = client, gm_owner = owner, gm_repo = repo, gm_ref = ref,
                     gm_baseURL = Trim E (go_BaseURL options)\<rparr>))"

subsection \<open>Requests\<close>

definition gh_requiredPath :: "go_env \<Rightarrow> string \<Rightarrow> string \<Rightarrow> string res" where
  "gh_requiredPath E operation filePath =
     (let clean = cleanRelative E filePath
      in if clean = '''' then Inl (CoreE operation [''path is required''] (Some ErrInvalid)) else Inr clean)"

definition contentOptions :: "'t gh_medium \<Rightarrow> string option" where
  "contentOptions M = (if gm_ref M = '''' then None else Some (gm_ref M))"

definition wrapGitHubError :: "string \<Rightarrow> string \<Rightarrow> gh_error \<Rightarrow> gerr" where
  "wrapGitHubError operation filePath err =
     (case err of
        PathForbidden cause \<Rightarrow> CoreE operation [''path is invalid: '', filePath] (Some ErrInvalid)
      | ErrorResponse status cause \<Rightarrow>
          (case status of
             Some code \<Rightarrow>
               (if code = 404 then CoreE operation [''not found: '', filePath] (Some ErrNotExist)
                else if code = 401 \<or> code = 403
                then CoreE operation [''permission denied: '', filePath] (Some ErrPermission)
                else if code = 422 then CoreE operation [''invalid path: '', filePath] (Some ErrInvalid)
                else CoreE operation [''GitHub contents request failed: '', filePath] (Some cause))
           | None \<Rightarrow> CoreE operation [''GitHub contents request failed: '', filePath] (Some cause))
      | OtherError cause \<Rightarrow> CoreE operation [''GitHub contents request failed: '', filePath] (Some cause))"

definition getContents ::
  "('t, 'w) gh_api \<Rightarrow> 't gh_medium \<Rightarrow> string \<Rightarrow> string \<Rightarrow> 'w
     \<Rightarrow> (gh_content option \<times> gh_content list option) res" where
  "getContents A M operation filePath w =
     (case gh_GetContents A (gm_client M) (gm_owner M) (gm_repo M) filePath (contentOptions M) w of
        Inl err \<Rightarrow> Inl (wrapGitHubError operation filePath err)
      | Inr contents \<Rightarrow> Inr contents)"

definition ErrReadOnly :: gerr where "ErrReadOnly = ErrNew ''github medium is read-only''"

definition gh_readOnly :: "string \<Rightarrow> gerr" where
  "gh_readOnly operation = CoreE operation [''GitHub medium is read-only''] (Some ErrReadOnly)"

text \<open>\<open>GetType\<close> of a nil content is empty.\<close>

definition GetType :: "gh_content option \<Rightarrow> string" where
  "GetType content = (case content of None \<Rightarrow> '''' | Some c \<Rightarrow> gc_Type c)"

definition fileInfoForContent :: "gh_content \<Rightarrow> string \<Rightarrow> file_info" where
  "fileInfoForContent content name =
     (let isDir = (gc_Type content = ''dir'')
      in NewFileInfo name (gc_Size content) (if isDir then ModeDir OR 493 else 420) zero_time isDir)"

definition dirInfoForPath :: "go_env \<Rightarrow> string \<Rightarrow> file_info" where
  "dirInfoForPath E filePath =
     (let name = PathBase E filePath;
          name = (if name = ''.'' \<or> name = ''/'' \<or> name = '''' then ''.'' else name)
      in NewFileInfo name 0 (ModeDir OR 493) zero_time True)"

subsection \<open>Reading\<close>

definition Github_Read :: "go_env \<Rightarrow> ('t, 'w) gh_api \<Rightarrow> 't gh_medium \<Rightarrow> string \<Rightarrow> 'w \<Rightarrow> string res" where
  "Github_Read E A M filePath w =
     (case gh_requiredPath E ''github.Read'' filePath of
        Inl err \<Rightarrow> Inl err
      | Inr clean \<Rightarrow>
          (case getContents A M ''github.Read'' clean w of
             Inl err \<Rightarrow> Inl err
           | Inr (fileContent, directoryContent) \<Rightarrow>
               (if directoryContent \<noteq> None \<or> GetType fileContent = ''dir''
                then Inl (CoreE ''github.Read'' [''path is a directory: '', clean] (Some ErrInvalid))
                else case fileContent of
                    None \<Rightarrow> Inl (CoreE ''github.Read'' [''not found: '', clean] (Some ErrNotExist))
                  | Some file \<Rightarrow>
                      (case gc_Content file of
                         Inl err \<Rightarrow> Inl (CoreE ''github.Read'' [''decode content failed: '', clean] (Some err))
                       | Inr content \<Rightarrow> Inr content))))"

definition Github_Stat :: "go_env \<Rightarrow> ('t, 'w) gh_api \<Rightarrow> 't gh_medium \<Rightarrow> string \<Rightarrow> 'w \<Rightarrow> file_info res" where
  "Github_Stat E A M filePath w =
     (case gh_requiredPath E ''github.Stat'' filePath of
        Inl err \<Rightarrow> Inl err
      | Inr clean \<Rightarrow>
          (case getContents A M ''github.Stat'' clean w of
             Inl err \<Rightarrow> Inl err
           | Inr (fileContent, directoryContent) \<Rightarrow>
               (if fileContent = None \<and> directoryContent = None
                then Inl (CoreE ''github.Stat'' [''not found: '', clean] (Some ErrNotExist))
                else if directoryContent \<noteq> None \<or> GetType fileContent = ''dir'' then Inr (dirInfoForPath E clean)
                else Inr (fileInfoForContent (the fileContent) (PathBase E clean)))))"

definition Github_IsFile :: "go_env \<Rightarrow> ('t, 'w) gh_api \<Rightarrow> 't gh_medium \<Rightarrow> string \<Rightarrow> 'w \<Rightarrow> bool" where
  "Github_IsFile E A M filePath w =
     (let clean = cleanRelative E filePath
      in if clean = '''' then False
         else case Github_Stat E A M clean w of Inl err \<Rightarrow> False | Inr info \<Rightarrow> \<not> fi_isDir info)"

definition Github_Exists :: "go_env \<Rightarrow> ('t, 'w) gh_api \<Rightarrow> 't gh_medium \<Rightarrow> string \<Rightarrow> 'w \<Rightarrow> bool" where
  "Github_Exists E A M filePath w =
     (let clean = cleanRelative E filePath
      in if clean = '''' then False else is_ok (Github_Stat E A M clean w))"

definition Github_IsDir :: "go_env \<Rightarrow> ('t, 'w) gh_api \<Rightarrow> 't gh_medium \<Rightarrow> string \<Rightarrow> 'w \<Rightarrow> bool" where
  "Github_IsDir E A M filePath w =
     (let clean = cleanRelative E filePath
      in if clean = '''' then False
         else case Github_Stat E A M clean w of Inl err \<Rightarrow> False | Inr info \<Rightarrow> fi_isDir info)"

subsection \<open>Listing\<close>

text \<open>
  The recursion of \<open>listRecursive\<close> and its loop over the entries of a directory as one function:
  \<open>Inl path\<close> is a call, \<open>Inr contents\<close> the loop over what is left.  \<open>None\<close> means that it does not
  return.
\<close>

definition content_name :: "go_env \<Rightarrow> gh_content \<Rightarrow> string" where
  "content_name E content =
     (let name = cleanRelative E (gc_Path content) in if name = '''' then gc_Name content else name)"

definition content_entry :: "go_env \<Rightarrow> gh_content \<Rightarrow> dir_entry" where
  "content_entry E content =
     (let name = content_name E content; info = fileInfoForContent content name
      in NewDirEntry name (fi_isDir info) (fi_mode info) info)"

definition directory_of ::
  "('t, 'w) gh_api \<Rightarrow> 't gh_medium \<Rightarrow> string \<Rightarrow> 'w \<Rightarrow> gh_content list res" where
  "directory_of A M filePath w =
     (case getContents A M ''github.List'' filePath w of
        Inl err \<Rightarrow> Inl err
      | Inr (fileContent, directoryContent) \<Rightarrow>
          (if fileContent = None \<and> directoryContent = None
           then Inl (CoreE ''github.List'' [''not found: '', filePath] (Some ErrNotExist))
           else if fileContent \<noteq> None \<and> GetType fileContent \<noteq> ''dir''
           then Inl (CoreE ''github.List'' [''path is not a directory: '', filePath] (Some ErrInvalid))
           else case directoryContent of
               None \<Rightarrow> Inl (CoreE ''github.List'' [''path is not a directory: '', filePath] (Some ErrInvalid))
             | Some contents \<Rightarrow> Inr contents))"

partial_function (option) list_recursive ::
  "go_env \<Rightarrow> ('t, 'w) gh_api \<Rightarrow> 't gh_medium \<Rightarrow> 'w \<Rightarrow> string + gh_content list \<Rightarrow> dir_entry list res option" where
  "list_recursive E A M w todo =
     (case todo of
        Inl filePath \<Rightarrow>
          (case directory_of A M filePath w of
             Inl err \<Rightarrow> Some (Inl err)
           | Inr contents \<Rightarrow> list_recursive E A M w (Inr contents))
      | Inr contents \<Rightarrow>
          (case contents of
             [] \<Rightarrow> Some (Inr [])
           | content # rest \<Rightarrow>
               Option.bind (if gc_Type content = ''dir'' then list_recursive E A M w (Inl (gc_Path content))
                     else Some (Inr []))
                 (\<lambda>r. case r of
                    Inl err \<Rightarrow> Some (Inl err)
                  | Inr childEntries \<Rightarrow>
                      Option.bind (list_recursive E A M w (Inr rest))
                        (\<lambda>r'. case r' of
                           Inl err \<Rightarrow> Some (Inl err)
                         | Inr entries \<Rightarrow> Some (Inr (content_entry E content # childEntries @ entries))))))"

declare list_recursive.simps [code]

definition listRecursive ::
  "go_env \<Rightarrow> ('t, 'w) gh_api \<Rightarrow> 't gh_medium \<Rightarrow> string \<Rightarrow> 'w \<Rightarrow> dir_entry list res option" where
  "listRecursive E A M filePath w = list_recursive E A M w (Inl filePath)"

text \<open>\<open>slices.SortFunc\<close> need not keep the order of equal names; the paths of a repository differ.\<close>

definition Github_List ::
  "go_env \<Rightarrow> ('t, 'w) gh_api \<Rightarrow> 't gh_medium \<Rightarrow> string \<Rightarrow> 'w \<Rightarrow> dir_entry list res option" where
  "Github_List E A M filePath w =
     map_option (\<lambda>r. case r of Inl err \<Rightarrow> Inl err | Inr entries \<Rightarrow> Inr (sort_key de_name entries))
       (listRecursive E A M (cleanRelative E filePath) w)"

definition compareNames :: "string \<Rightarrow> string \<Rightarrow> int" where
  "compareNames left right = (if left < right then -1 else if left > right then 1 else 0)"

subsection \<open>Files\<close>

record github_file =
  gf_name :: string
  gf_content :: string
  gf_mode :: file_mode
  gf_modTime :: gotime
  gf_offset :: nat
  gf_closed :: bool

definition ErrClosed :: gerr where "ErrClosed = ErrNew ''file already closed''"

definition Github_Open :: "go_env \<Rightarrow> ('t, 'w) gh_api \<Rightarrow> 't gh_medium \<Rightarrow> string \<Rightarrow> 'w \<Rightarrow> github_file res" where
  "Github_Open E A M filePath w =
     (case Github_Read E A M filePath w of
        Inl err \<Rightarrow> Inl err
      | Inr content \<Rightarrow>
          (case Github_Stat E A M filePath w of
             Inl err \<Rightarrow> Inl err
           | Inr info \<Rightarrow> Inr \<lparr>gf_name = fi_name info, gf_content = content, gf_mode = fi_mode info,
               gf_modTime = fi_modTime info, gf_offset = 0, gf_closed = False\<rparr>))"

definition githubFile_Stat :: "github_file \<Rightarrow> file_info res" where
  "githubFile_Stat file =
     Inr (NewFileInfo (gf_name file) (int (length (gf_content file))) (gf_mode file) (gf_modTime file) False)"

definition githubFile_Read :: "nat \<Rightarrow> github_file \<Rightarrow> string res \<times> github_file" where
  "githubFile_Read n file =
     (if gf_closed file then (Inl ErrClosed, file)
      else if gf_offset file \<ge> length (gf_content file) then (Inl ErrEOF, file)
      else let chunk = take n (drop (gf_offset file) (gf_content file))
           in (Inr chunk, file\<lparr>gf_offset := gf_offset file + length chunk\<rparr>))"

definition githubFile_Close :: "github_file \<Rightarrow> gerr option \<times> github_file" where
  "githubFile_Close file = (None, file\<lparr>gf_closed := True\<rparr>)"

definition githubFile_String :: "github_file \<Rightarrow> string" where
  "githubFile_String file = ''githubFile('' @ gf_name file @ '')''"

text \<open>A stream is a reader over the content.\<close>

definition Github_ReadStream :: "go_env \<Rightarrow> ('t, 'w) gh_api \<Rightarrow> 't gh_medium \<Rightarrow> string \<Rightarrow> 'w \<Rightarrow> string res" where
  "Github_ReadStream E A M filePath w =
     (case Github_Read E A M filePath w of Inl err \<Rightarrow> Inl err | Inr content \<Rightarrow> Inr content)"

subsection \<open>Writing is refused\<close>

definition Github_Write :: "string \<Rightarrow> string \<Rightarrow> 's \<Rightarrow> gerr option \<times> 's" where
  "Github_Write filePath content s = (Some (gh_readOnly ''github.Write''), s)"

definition Github_WriteMode :: "string \<Rightarrow> string \<Rightarrow> file_mode \<Rightarrow> 's \<Rightarrow> gerr option \<times> 's" where
  "Github_WriteMode filePath content mode s = (Some (gh_readOnly ''github.WriteMode''), s)"

definition Github_EnsureDir :: "string \<Rightarrow> 's \<Rightarrow> gerr option \<times> 's" where
  "Github_EnsureDir filePath s = (Some (gh_readOnly ''github.EnsureDir''), s)"

definition Github_Delete :: "string \<Rightarrow> 's \<Rightarrow> gerr option \<times> 's" where
  "Github_Delete filePath s = (Some (gh_readOnly ''github.Delete''), s)"

definition Github_DeleteAll :: "string \<Rightarrow> 's \<Rightarrow> gerr option \<times> 's" where
  "Github_DeleteAll filePath s = (Some (gh_readOnly ''github.DeleteAll''), s)"

definition Github_Rename :: "string \<Rightarrow> string \<Rightarrow> 's \<Rightarrow> gerr option \<times> 's" where
  "Github_Rename oldPath newPath s = (Some (gh_readOnly ''github.Rename''), s)"

definition Github_Create :: "string \<Rightarrow> 's \<Rightarrow> 'v res \<times> 's" where
  "Github_Create filePath s = (Inl (gh_readOnly ''github.Create''), s)"

definition Github_Append :: "string \<Rightarrow> 's \<Rightarrow> 'v res \<times> 's" where
  "Github_Append filePath s = (Inl (gh_readOnly ''github.Append''), s)"

definition Github_WriteStream :: "string \<Rightarrow> 's \<Rightarrow> 'v res \<times> 's" where
  "Github_WriteStream filePath s = (Inl (gh_readOnly ''github.WriteStream''), s)"

definition Github_medium ::
  "go_env \<Rightarrow> ('t, 'w) gh_api \<Rightarrow> 't gh_medium \<Rightarrow> ('w, github_file, string, unit) medium" where
  "Github_medium E A M =
     \<lparr>m_Read = Github_Read E A M, m_Write = (\<lambda>_. Github_Write), m_WriteMode = (\<lambda>_. Github_WriteMode),
      m_EnsureDir = Github_EnsureDir, m_IsFile = Github_IsFile E A M, m_Delete = Github_Delete,
      m_DeleteAll = Github_DeleteAll, m_Rename = Github_Rename,
      m_List = (\<lambda>_ p w. case Github_List E A M p w of Some r \<Rightarrow> r | None \<Rightarrow> Inl Diverges),
      m_Stat = (\<lambda>_. Github_Stat E A M), m_Open = (\<lambda>_. Github_Open E A M), m_Create = Github_Create,
      m_Append = Github_Append, m_ReadStream = (\<lambda>_. Github_ReadStream E A M),
      m_WriteStream = Github_WriteStream, m_Exists = Github_Exists E A M, m_IsDir = Github_IsDir E A M\<rparr>"

subsection \<open>Cloning with the contents API\<close>

fun read_entries ::
  "go_env \<Rightarrow> ('t, 'w) gh_api \<Rightarrow> 't gh_medium \<Rightarrow> dir_entry list \<Rightarrow> (string, string) fmap \<Rightarrow> 'w
     \<Rightarrow> (string, string) fmap res" where
  "read_entries E A M [] contents w = Inr contents"
| "read_entries E A M (entry # entries) contents w =
     (if de_isDir entry then read_entries E A M entries contents w
      else case Github_Read E A M (de_name entry) w of
          Inl err \<Rightarrow> Inl err
        | Inr content \<Rightarrow> read_entries E A M entries (fmupd (de_name entry) content contents) w)"

definition cloneWithContentsAPI ::
  "go_env \<Rightarrow> ('t, 'w) gh_api \<Rightarrow> 't gh_medium \<Rightarrow> string \<Rightarrow> 'w \<Rightarrow> (string, string) fmap res option" where
  "cloneWithContentsAPI E A M filePath w =
     (let clean = cleanRelative E filePath;
          tree = map_option (\<lambda>r. case r of Inl err \<Rightarrow> Inl err | Inr entries \<Rightarrow> read_entries E A M entries fmempty w)
            (Github_List E A M clean w)
      in if clean = '''' then tree
         else case Github_Stat E A M clean w of
             Inl err \<Rightarrow> Some (Inl err)
           | Inr info \<Rightarrow>
               (if \<not> fi_isDir info then
                  (case Github_Read E A M clean w of
                     Inl err \<Rightarrow> Some (Inl err)
                   | Inr content \<Rightarrow> Some (Inr (fmupd clean content fmempty)))
                else tree))"

subsection \<open>Cloning with Borg\<close>

text \<open>A file whose close fails is only logged.\<close>

definition readBorgDataNodeFile :: "('n, 'f) datanode_api \<Rightarrow> 'n \<Rightarrow> string \<Rightarrow> string res" where
  "readBorgDataNodeFile B dataNode filePath =
     (case dn_Open B filePath dataNode of
        Inl err \<Rightarrow> Inl err
      | Inr file \<Rightarrow> (case df_ReadAll B file of Inl err \<Rightarrow> Inl err | Inr data \<Rightarrow> Inr data))"

text \<open>As before, \<open>Inl\<close> is a call on a directory and \<open>Inr\<close> the loop over its other entries.\<close>

definition child_path :: "go_env \<Rightarrow> string \<Rightarrow> dir_entry \<Rightarrow> string" where
  "child_path E dirPath entry =
     (if dirPath \<noteq> '''' then PathJoin E [dirPath, de_name entry] else de_name entry)"

partial_function (option) collect_borg ::
  "go_env \<Rightarrow> ('n, 'f) datanode_api \<Rightarrow> 'n \<Rightarrow> string + string \<times> dir_entry list \<Rightarrow> (string, string) fmap
     \<Rightarrow> (string, string) fmap res option" where
  "collect_borg E B dataNode todo contents =
     (case todo of
        Inl dirPath \<Rightarrow>
          (case dn_ReadDir B dirPath dataNode of
             Inl err \<Rightarrow> Some (Inl err)
           | Inr entries \<Rightarrow> collect_borg E B dataNode (Inr (dirPath, entries)) contents)
      | Inr (dirPath, entries) \<Rightarrow>
          (case entries of
             [] \<Rightarrow> Some (Inr contents)
           | entry # rest \<Rightarrow>
               (let childPath = child_path E dirPath entry in
                if de_isDir entry then
                  Option.bind (collect_borg E B dataNode (Inl childPath) contents)
                    (\<lambda>r. case r of
                       Inl err \<Rightarrow> Some (Inl err)
                     | Inr contents \<Rightarrow> collect_borg E B dataNode (Inr (dirPath, rest)) contents)
                else case readBorgDataNodeFile B dataNode childPath of
                    Inl err \<Rightarrow> Some (Inl err)
                  | Inr content \<Rightarrow>
                      collect_borg E B dataNode (Inr (dirPath, rest)) (fmupd childPath content contents))))"

declare collect_borg.simps [code]

definition collectBorgDataNodeDir ::
  "go_env \<Rightarrow> ('n, 'f) datanode_api \<Rightarrow> 'n \<Rightarrow> string \<Rightarrow> (string, string) fmap \<Rightarrow> (string, string) fmap res option" where
  "collectBorgDataNodeDir E B dataNode dirPath contents = collect_borg E B dataNode (Inl dirPath) contents"

definition collectBorgDataNodeContents ::
  "go_env \<Rightarrow> ('n, 'f) datanode_api \<Rightarrow> 'n option \<Rightarrow> string \<Rightarrow> (string, string) fmap res option" where
  "collectBorgDataNodeContents E B dataNode clean =
     (case dataNode of
        None \<Rightarrow> Some (Inl ErrInvalid)
      | Some dataNode \<Rightarrow>
          (if clean \<noteq> '''' then
             (case dn_Stat B clean dataNode of
                Inl err \<Rightarrow> Some (Inl ErrNotExist)
              | Inr info \<Rightarrow>
                  (if \<not> fi_isDir info then
                     (case readBorgDataNodeFile B dataNode clean of
                        Inl err \<Rightarrow> Some (Inl err)
                      | Inr content \<Rightarrow> Some (Inr (fmupd clean content fmempty)))
                   else collectBorgDataNodeDir E B dataNode clean fmempty))
           else collectBorgDataNodeDir E B dataNode clean fmempty))"

definition borgCloneURL :: "'t gh_medium \<Rightarrow> string" where
  "borgCloneURL M = ''https://github.com/'' @ gm_owner M @ ''/'' @ gm_repo M @ ''.git''"

definition cloneWithBorg ::
  "go_env \<Rightarrow> ('n, 'f) datanode_api \<Rightarrow> (string \<Rightarrow> 'w \<Rightarrow> 'n option res) \<Rightarrow> 't gh_medium \<Rightarrow> string \<Rightarrow> 'w
     \<Rightarrow> (string, string) fmap res option" where
  "cloneWithBorg E B cloneGitRepository M filePath w =
     (case cloneGitRepository (borgCloneURL M) w of
        Inl err \<Rightarrow> Some (Inl (CoreE ''github.Clone'' [''Borg clone failed''] (Some err)))
      | Inr dataNode \<Rightarrow>
          map_option (\<lambda>r. case r of
               Inl err \<Rightarrow> Inl (CoreE ''github.Clone'' [''failed to read Borg DataNode clone''] (Some err))
             | Inr contents \<Rightarrow> Inr contents)
            (collectBorgDataNodeContents E B dataNode (cleanRelative E filePath)))"

definition Clone ::
  "go_env \<Rightarrow> ('n, 'f) datanode_api \<Rightarrow> (string \<Rightarrow> 'w \<Rightarrow> 'n option res) \<Rightarrow> ('t, 'w) gh_api \<Rightarrow> 't gh_medium
     \<Rightarrow> string \<Rightarrow> 'w \<Rightarrow> (string, string) fmap res option" where
  "Clone E B cloneGitRepository A M filePath w =
     (if gm_baseURL M = '''' \<and> gm_ref M = '''' then cloneWithBorg E B cloneGitRepository M filePath w
      else cloneWithContentsAPI E A M filePath w)"

subsection \<open>Actions\<close>

definition gh_mediumFromOptions ::
  "go_env \<Rightarrow> url_lib \<Rightarrow> ('o, 'f, 'v) os_api \<Rightarrow> ('t, 'w) gh_api \<Rightarrow> 't gh_medium options \<Rightarrow> 'o \<Rightarrow> 't gh_medium res" where
  "gh_mediumFromOptions E U S A opts fs =
     (case opt_medium opts ''medium'' of
        Some medium \<Rightarrow> Inr medium
      | None \<Rightarrow>
          (let ref = opt_string opts ''ref'';
               ref = (if ref = '''' then opt_string opts ''branch'' else ref);
               tokenFile = opt_string opts ''tokenFile'';
               tokenFile = (if tokenFile = '''' then opt_string opts ''token_file'' else tokenFile);
               baseURL = opt_string opts ''baseURL'';
               baseURL = (if baseURL = '''' then opt_string opts ''base_url'' else baseURL)
           in Github_New E U S A \<lparr>go_Client = None, go_HTTPClient = None, go_Owner = opt_string opts ''owner'',
                go_Repo = opt_string opts ''repo'', go_Ref = ref, go_Branch = '''',
                go_Token = opt_string opts ''token'', go_TokenFile = tokenFile, go_BaseURL = baseURL\<rparr> fs))"

definition gh_readAction ::
  "go_env \<Rightarrow> url_lib \<Rightarrow> ('o, 'f, 'v) os_api \<Rightarrow> ('t, 'w) gh_api \<Rightarrow> 't gh_medium options \<Rightarrow> 'o \<Rightarrow> 'w \<Rightarrow> string res" where
  "gh_readAction E U S A opts fs w =
     (case gh_mediumFromOptions E U S A opts fs of
        Inl err \<Rightarrow> Inl err | Inr medium \<Rightarrow> Github_Read E A medium (opt_string opts ''path'') w)"

definition gh_listAction ::
  "go_env \<Rightarrow> url_lib \<Rightarrow> ('o, 'f, 'v) os_api \<Rightarrow> ('t, 'w) gh_api \<Rightarrow> 't gh_medium options \<Rightarrow> 'o \<Rightarrow> 'w
     \<Rightarrow> dir_entry list res option" where
  "gh_listAction E U S A opts fs w =
     (case gh_mediumFromOptions E U S A opts fs of
        Inl err \<Rightarrow> Some (Inl err) | Inr medium \<Rightarrow> Github_List E A medium (opt_string opts ''path'') w)"

definition cloneAction ::
  "go_env \<Rightarrow> ('n, 'f) datanode_api \<Rightarrow> (string \<Rightarrow> 'w \<Rightarrow> 'n option res) \<Rightarrow> url_lib \<Rightarrow> ('o, 'g, 'v) os_api
     \<Rightarrow> ('t, 'w) gh_api \<Rightarrow> 't gh_medium options \<Rightarrow> 'o \<Rightarrow> 'w \<Rightarrow> (string, string) fmap res option" where
  "cloneAction E B cloneGitRepository U S A opts fs w =
     (case gh_mediumFromOptions E U S A opts fs of
        Inl err \<Rightarrow> Some (Inl err)
      | Inr medium \<Rightarrow> Clone E B cloneGitRepository A medium (opt_string opts ''path'') w)"

end
