(* ===== verification/GithubProps.thy ===== *)
theory GithubProps
  imports Github DatanodeProps
begin

text \<open>
  Properties of the GitHub medium: the recursion over the directories of a repository returns and lists
  everything below a path, cloning with the contents API gives the files of the repository, and so does cloning
  with Borg when it fetched the same files.
\<close>

subsection \<open>Trees of files\<close>

text \<open>A repository is a finite map of files; its directories are what files are below.\<close>

definition tree_ok :: "(string, 'v) fmap \<Rightarrow> bool" where
  "tree_ok T \<longleftrightarrow> names_ok T \<and> (\<forall>q. has_key T q \<longrightarrow> \<not> below_some T q)"

definition is_dir :: "(string, 'v) fmap \<Rightarrow> string \<Rightarrow> bool" where
  "is_dir T p \<longleftrightarrow> p = '''' \<or> below_some T p"

definition join_name :: "string \<Rightarrow> string \<Rightarrow> string" where
  "join_name p n = (if p = '''' then n else p @ ''/'' @ n)"

definition is_at :: "(string, 'v) fmap \<Rightarrow> bool \<Rightarrow> string \<Rightarrow> bool" where
  "is_at T d q \<longleftrightarrow> (if d then below_some T q else has_key T q)"

definition kids :: "(string, 'v) fmap \<Rightarrow> string \<Rightarrow> (string \<times> bool) set" where
  "kids T p = {(n, d). good_elem n \<and> is_at T d (join_name p n)}"

definition beneath :: "string \<Rightarrow> string \<Rightarrow> bool" where
  "beneath p q \<longleftrightarrow> p = '''' \<or> prefix (p @ ''/'') q"

abbreviation J :: "string list \<Rightarrow> string" where "J \<equiv> join_with slash"

lemma J_Nil: "good ps \<Longrightarrow> J ps = '''' \<longleftrightarrow> ps = []"
  by (rule join_Nil_iff)

lemma J_inject: "good ps \<Longrightarrow> good qs \<Longrightarrow> J ps = J qs \<longleftrightarrow> ps = qs"
  by (metis path_elems_join)

lemma norm_J: "norm_path q \<Longrightarrow> \<exists>qs. good qs \<and> qs \<noteq> [] \<and> q = J qs"
  by (elim norm_pathE) blast

lemma join_name_J: "good ps \<Longrightarrow> join_name (J ps) n = J (ps @ [n])"
  by (cases "ps = []") (simp_all add: join_name_def J_Nil join_with_append)

lemma below_J:
  assumes "good ps" "good qs" "ps \<noteq> []"
  shows "prefix (J ps @ ''/'') (J qs) \<longleftrightarrow> (\<exists>cs. cs \<noteq> [] \<and> qs = ps @ cs)"
  using strict_below [OF assms] by (simp add: abs_path_def)

lemma beneath_J:
  assumes "good ps" "good qs" "qs \<noteq> []"
  shows "beneath (J ps) (J qs) \<longleftrightarrow> (\<exists>cs. cs \<noteq> [] \<and> qs = ps @ cs)"
  using below_J [OF assms(1,2)] assms by (cases "ps = []") (auto simp: beneath_def J_Nil)

lemma at_or_below_J:
  assumes "good ps" "good qs" "ps \<noteq> []"
  shows "at_or_below (J ps) (J qs) \<longleftrightarrow> (\<exists>cs. qs = ps @ cs)"
  unfolding at_or_below_def below_J [OF assms] using J_inject [OF assms(2,1)] by auto

text \<open>What exists has a clean name, files and directories alike.\<close>

lemma is_at_J:
  assumes "tree_ok T" "is_at T d q"
  obtains qs where "good qs" "qs \<noteq> []" "q = J qs"
proof (cases d)
  case False
  then have "norm_path q" using assms by (auto simp: is_at_def tree_ok_def names_ok_def)
  then show thesis using norm_J that by blast
next
  case True
  then obtain k where k: "has_key T k" "prefix (q @ ''/'') k"
    using assms(2) by (auto simp: is_at_def below_some_def)
  then have "norm_path k" using assms(1) by (auto simp: tree_ok_def names_ok_def)
  moreover obtain r where "k = q @ slash # r" using k(2) by (auto simp: prefix_def)
  ultimately have "norm_path q" by (simp add: norm_path_append)
  then show thesis using norm_J that by blast
qed

text \<open>What is under a directory is one of its entries or under one.\<close>

lemma beneath_kid:
  assumes "tree_ok T" "good ps" "is_at T d q" "beneath (J ps) q"
  obtains n e where "(n, e) \<in> kids T (J ps)" "at_or_below (J (ps @ [n])) q"
proof -
  obtain qs where qs: "good qs" "qs \<noteq> []" "q = J qs" using is_at_J [OF assms(1,3)] .
  then obtain n cs where cs: "qs = ps @ n # cs"
    using beneath_J [OF assms(2) qs(1,2)] assms(4) by (metis list.exhaust)
  then have n: "good_elem n" and g: "good (ps @ [n])" using qs(1) by simp_all
  have below: "at_or_below (J (ps @ [n])) q"
    unfolding qs(3) using at_or_below_J [OF g qs(1)] cs by auto
  have "is_at T (if cs = [] then d else True) (J (ps @ [n]))"
  proof (cases "cs = []")
    case True
    then show ?thesis using assms(3) qs(3) cs by simp
  next
    case False
    then have "prefix (J (ps @ [n]) @ ''/'') q"
      unfolding qs(3) using below_J [OF g qs(1)] cs by auto
    then have "below_some T (J (ps @ [n]))"
      using assms(3) by (auto simp: is_at_def below_some_def has_key_def prefix_def split: if_splits)
    then show ?thesis using False by (simp add: is_at_def)
  qed
  then have "(n, if cs = [] then d else True) \<in> kids T (J ps)"
    using n by (simp add: kids_def join_name_J [OF assms(2)])
  then show thesis using that below by blast
qed

lemma kid_beneath:
  assumes "good ps" "(n, e) \<in> kids T (J ps)" "at_or_below (J (ps @ [n])) q"
  shows "beneath (J ps) q"
proof (cases "ps = []")
  case False
  have "prefix (J ps @ ''/'') (J (ps @ [n]))"
    using False by (simp add: join_with_append)
  then show ?thesis using assms(3) by (auto simp: beneath_def at_or_below_def prefix_def)
qed (simp add: beneath_def)

lemma kids_disjoint:
  assumes "good ps" "good_elem n" "good_elem m" "at_or_below (J (ps @ [n])) q" "at_or_below (J (ps @ [m])) q"
  shows "n = m"
proof -
  have g: "good (ps @ [n])" "good (ps @ [m])" using assms by simp_all
  have "at_or_below (J (ps @ [n])) (J (ps @ [m])) \<or> at_or_below (J (ps @ [m])) (J (ps @ [n]))"
    using at_or_below_comparable assms(4,5) .
  then show ?thesis using at_or_below_J [OF g] at_or_below_J [OF g(2,1)] by auto
qed

text \<open>At or below an entry there is the entry itself or what is under it, as a directory.\<close>

lemma at_or_below_beneath: "p \<noteq> '''' \<Longrightarrow> at_or_below p q \<longleftrightarrow> q = p \<or> beneath p q"
  by (auto simp: at_or_below_def beneath_def)

lemma file_alone:
  assumes "tree_ok T" "has_key T p" "is_at T d q" "at_or_below p q"
  shows "q = p \<and> \<not> d"
proof -
  have no: "\<not> below_some T p" using assms(1,2) by (simp add: tree_ok_def)
  have "q = p"
  proof (rule ccontr)
    assume "q \<noteq> p"
    then have "prefix (p @ ''/'') q" using assms(4) by (simp add: at_or_below_def)
    then have "below_some T p"
      using assms(3) by (auto simp: is_at_def below_some_def prefix_def split: if_splits)
    then show False using no by simp
  qed
  then show ?thesis using no assms(3) by (cases d) (simp_all add: is_at_def)
qed

text \<open>A bound on the lengths of all names, from which the recursion over directories counts down.\<close>

lemma names_bounded: "\<exists>L. \<forall>d q. is_at T d q \<longrightarrow> length q \<le> L"
proof -
  let ?L = "Max (insert 0 (length ` fset (fmdom T)))"
  have key: "length q \<le> ?L" if "has_key T q" for q
    using that by (intro Max_ge) (auto simp: has_key_dom)
  have "length q \<le> ?L" if q: "is_at T d q" for d q
  proof (cases d)
    case True
    then have "below_some T q" using q by (simp add: is_at_def)
    then obtain k where "has_key T k" "prefix (q @ ''/'') k" by (auto simp: below_some_def)
    then show ?thesis using key [of k] prefix_length_le [of "q @ ''/''" k] by simp
  qed (use q key in \<open>simp add: is_at_def\<close>)
  then show ?thesis by blast
qed

lemma length_child: "good ps \<Longrightarrow> good_elem n \<Longrightarrow> length (J ps) < length (J (ps @ [n]))"
  by (cases "ps = []") (simp_all add: join_with_append good_elem_def)


subsection \<open>The contents API\<close>

text \<open>
  What the code relies on, for the ref of the medium: the content of a path is that of a file, or the entries
  of a directory with their paths and types, or the answer is 404.  The names have no backslash, which the
  medium takes for a separator.  By its documentation the API serves files up to 1 MB and the first 1,000
  entries of a directory; there are no links and submodules.
\<close>

definition plain_names :: "(string, 'v) fmap \<Rightarrow> bool" where
  "plain_names T \<longleftrightarrow> (\<forall>q. has_key T q \<longrightarrow> CHR 0x5C \<notin> set q)"

definition contents_of :: "(string, string) fmap \<Rightarrow> string \<Rightarrow> gh_content list \<Rightarrow> bool" where
  "contents_of T p cs \<longleftrightarrow> distinct (map gc_Name cs) \<and>
     (\<lambda>c. (gc_Name c, gc_Type c = ''dir'')) ` set cs = kids T p \<and>
     (\<forall>c\<in>set cs. gc_Path c = join_name p (gc_Name c))"

lemma contents_kid:
  assumes "contents_of T p cs" "c \<in> set cs"
  shows "(gc_Name c, gc_Type c = ''dir'') \<in> kids T p"
proof -
  have "(\<lambda>c. (gc_Name c, gc_Type c = ''dir'')) ` set cs = kids T p"
    using assms(1) unfolding contents_of_def by blast
  then show ?thesis using assms(2) by (elim subst) (rule imageI)
qed

locale github_repo = go_runtime E
  for E :: go_env +
  fixes A :: "('t, 'w) gh_api"
    and M :: "'t gh_medium"
    and tree :: "'w \<Rightarrow> (string, string) fmap"
  assumes tree: "tree_ok (tree w)" "plain_names (tree w)"
    and get_file: "fmlookup (tree w) p = Some c \<Longrightarrow> \<exists>f.
      gh_GetContents A (gm_client M) (gm_owner M) (gm_repo M) p (contentOptions M) w = Inr (Some f, None) \<and>
      gc_Type f \<noteq> ''dir'' \<and> gc_Content f = Inr c"
    and get_dir: "tree w \<noteq> fmempty \<Longrightarrow> is_dir (tree w) p \<Longrightarrow> \<exists>cs.
      gh_GetContents A (gm_client M) (gm_owner M) (gm_repo M) p (contentOptions M) w = Inr (None, Some cs) \<and>
      contents_of (tree w) p cs"
    and get_none: "\<not> has_key (tree w) p \<Longrightarrow> tree w = fmempty \<or> \<not> is_dir (tree w) p \<Longrightarrow> \<exists>e.
      gh_GetContents A (gm_client M) (gm_owner M) (gm_repo M) p (contentOptions M) w
        = Inl (ErrorResponse (Some 404) e)"
begin

lemma plain_J:
  assumes "is_at (tree w) d q"
  shows "cleanRelative E q = q"
proof -
  obtain qs where qs: "good qs" "q = J qs" using is_at_J [OF tree(1) assms] .
  have "CHR 0x5C \<notin> set q"
    using assms tree(2) [of w] by (auto simp: is_at_def plain_names_def below_some_def prefix_def split: if_splits)
  then have "list_all (\<lambda>e. CHR 0x5C \<notin> set e) qs"
    using qs(2) set_join_elem [of _ qs slash] by (auto simp: list_all_iff)
  then show ?thesis using rel_parts_norm [OF qs(1)] qs(2) by (simp add: cleanRelative_parts)
qed

lemma file_not_dir: "has_key (tree w) p \<Longrightarrow> \<not> is_dir (tree w) p"
  using tree(1) [of w] norm_path_not_Nil by (auto simp: is_dir_def tree_ok_def names_ok_def)

lemma Read_file:
  assumes "fmlookup (tree w) q = Some c"
  shows "Github_Read E A M q w = Inr c"
proof -
  have at: "is_at (tree w) False q" using assms by (simp add: is_at_def has_key_def)
  have "q \<noteq> ''''" using is_at_J [OF tree(1) at] join_good_Nil by metis
  then show ?thesis
    using get_file [OF assms] plain_J [OF at]
    by (auto simp: Github_Read_def gh_requiredPath_def getContents_def GetType_def)
qed

lemma directory_contents:
  assumes "tree w \<noteq> fmempty" "is_dir (tree w) p"
  obtains cs where "directory_of A M p w = Inr cs" "contents_of (tree w) p cs"
  using get_dir [OF assms] by (auto simp: directory_of_def getContents_def)

lemma content_entry_simps:
  assumes "contents_of (tree w) (J ps) cs" "c \<in> set cs" "good ps"
  shows "de_name (content_entry E c) = J (ps @ [gc_Name c])" "de_isDir (content_entry E c) = (gc_Type c = ''dir'')"
    "gc_Path c = J (ps @ [gc_Name c])" "is_at (tree w) (gc_Type c = ''dir'') (J (ps @ [gc_Name c]))" "good_elem (gc_Name c)"
proof -
  have "(gc_Name c, gc_Type c = ''dir'') \<in> kids (tree w) (J ps)"
    by (rule contents_kid [OF assms(1,2)])
  then show at: "is_at (tree w) (gc_Type c = ''dir'') (J (ps @ [gc_Name c]))" and "good_elem (gc_Name c)"
    by (simp_all add: kids_def join_name_J [OF assms(3)])
  show path: "gc_Path c = J (ps @ [gc_Name c])"
    using assms by (simp add: contents_of_def join_name_J)
  have "J (ps @ [gc_Name c]) \<noteq> ''''"
    using is_at_J [OF tree(1) at] join_good_Nil by metis
  then show "de_name (content_entry E c) = J (ps @ [gc_Name c])"
    using plain_J [OF at] path by (simp add: content_entry_def content_name_def Let_def)
  show "de_isDir (content_entry E c) = (gc_Type c = ''dir'')"
    by (simp add: content_entry_def fileInfoForContent_def Let_def)
qed

text \<open>What a list of entries holds: each thing below one of the given paths, once.\<close>

definition holds :: "'w \<Rightarrow> (string \<Rightarrow> bool) \<Rightarrow> dir_entry list \<Rightarrow> bool" where
  "holds w P es \<longleftrightarrow> distinct (map de_name es) \<and>
     (\<lambda>e. (de_name e, de_isDir e)) ` set es = {(q, d). is_at (tree w) d q \<and> P q}"

lemma holds_names: "holds w P es \<Longrightarrow> e \<in> set es \<Longrightarrow> is_at (tree w) (de_isDir e) (de_name e) \<and> P (de_name e)"
  unfolding holds_def by (metis (mono_tags, lifting) case_prodD imageI mem_Collect_eq)

lemma loop_returns:
  assumes "contents_of (tree w) (J ps) all" "good ps" "set cs \<subseteq> set all" "distinct (map gc_Name cs)"
    "\<And>n. (n, True) \<in> kids (tree w) (J ps) \<Longrightarrow>
       \<exists>es. list_recursive E A M w (Inl (J (ps @ [n]))) = Some (Inr es) \<and> holds w (beneath (J (ps @ [n]))) es"
  shows "\<exists>es. list_recursive E A M w (Inr cs) = Some (Inr es) \<and>
    holds w (\<lambda>q. \<exists>c\<in>set cs. at_or_below (J (ps @ [gc_Name c])) q) es"
  using assms(3,4)
proof (induction cs)
  case Nil
  then show ?case by (simp add: list_recursive.simps [of E A M w "Inr []"] holds_def)
next
  case (Cons c cs)
  then obtain es where es: "list_recursive E A M w (Inr cs) = Some (Inr es)"
    "holds w (\<lambda>q. \<exists>c\<in>set cs. at_or_below (J (ps @ [gc_Name c])) q) es"
    by auto
  let ?p = "J (ps @ [gc_Name c])"
  have c: "c \<in> set all" using Cons.prems by simp
  note entry = content_entry_simps [OF assms(1) c assms(2)]
  have ne: "?p \<noteq> ''''" using is_at_J [OF tree(1) entry(4)] join_good_Nil by metis
  have "\<exists>ds. (if gc_Type c = ''dir'' then list_recursive E A M w (Inl (gc_Path c)) else Some (Inr [])) = Some (Inr ds) \<and>
      holds w (\<lambda>q. beneath ?p q) ds"
  proof (cases "gc_Type c = ''dir''")
    case True
    then have "(gc_Name c, True) \<in> kids (tree w) (J ps)"
      using contents_kid [OF assms(1) c] by simp
    then show ?thesis using assms(5) entry(3) True by simp
  next
    case False
    then have "has_key (tree w) ?p" using entry(4) by (simp add: is_at_def)
    then have "\<not> (is_at (tree w) d q \<and> beneath ?p q)" for d q
      using file_alone [OF tree(1), of w ?p d q] at_or_below_beneath [OF ne, of q] ne
      by (auto simp: beneath_def prefix_def)
    then show ?thesis using False by (auto simp: holds_def)
  qed
  then obtain ds where ds: "(if gc_Type c = ''dir'' then list_recursive E A M w (Inl (gc_Path c)) else Some (Inr []))
      = Some (Inr ds)" "holds w (beneath ?p) ds" by auto
  let ?es = "content_entry E c # ds @ es"
  have run: "list_recursive E A M w (Inr (c # cs)) = Some (Inr ?es)"
    by (subst list_recursive.simps) (simp add: ds(1) es(1) del: if_split)
  have sets: "(\<lambda>e. (de_name e, de_isDir e)) ` set ?es
      = {(q, d). is_at (tree w) d q \<and> (\<exists>c'\<in>set (c # cs). at_or_below (J (ps @ [gc_Name c'])) q)}"
  proof -
    have img: "(\<lambda>e. (de_name e, de_isDir e)) ` set ?es = insert (?p, gc_Type c = ''dir'')
        ({(q, d). is_at (tree w) d q \<and> beneath ?p q} \<union>
         {(q, d). is_at (tree w) d q \<and> (\<exists>c\<in>set cs. at_or_below (J (ps @ [gc_Name c])) q)})"
      using ds(2) es(2) by (simp add: holds_def image_Un entry(1,2))
    have at_p: "is_at (tree w) d ?p \<longleftrightarrow> d = (gc_Type c = ''dir'')" for d
      using entry(4) tree(1) [of w] by (auto simp: is_at_def tree_ok_def split: if_splits)
    have key: "(q, d) = (?p, gc_Type c = ''dir'') \<or> is_at (tree w) d q \<and> beneath ?p q \<longleftrightarrow>
        is_at (tree w) d q \<and> at_or_below ?p q" for q d
      using at_or_below_beneath [OF ne, of q] at_p [of d] by (cases "q = ?p") auto
    show ?thesis
    proof (rule set_eqI)
      fix x :: "string \<times> bool"
      obtain q d where "x = (q, d)" by force
      then show "x \<in> (\<lambda>e. (de_name e, de_isDir e)) ` set ?es \<longleftrightarrow>
          x \<in> {(q, d). is_at (tree w) d q \<and> (\<exists>c'\<in>set (c # cs). at_or_below (J (ps @ [gc_Name c'])) q)}"
        unfolding img using key [of q d] by (simp, blast)
    qed
  qed
  have "distinct (map de_name ?es)"
  proof -
    have "de_name e \<noteq> ?p" if "e \<in> set ds" for e
      using holds_names [OF ds(2) that] ne by (auto simp: beneath_def prefix_def)
    moreover have "de_name e \<noteq> ?p \<and> \<not> beneath ?p (de_name e)" if e: "e \<in> set es" for e
    proof -
      obtain c' where c': "c' \<in> set cs" "at_or_below (J (ps @ [gc_Name c'])) (de_name e)"
        using holds_names [OF es(2) e] by auto
      have "gc_Name c' \<noteq> gc_Name c"
        using imageI [OF c'(1), of gc_Name] Cons.prems(2) by (auto simp del: image_eqI)
      moreover have "good_elem (gc_Name c')"
        using c'(1) Cons.prems(1) by (intro content_entry_simps(5) [OF assms(1) _ assms(2)]) auto
      ultimately have "\<not> at_or_below ?p (de_name e)"
        using kids_disjoint [OF assms(2) _ entry(5) c'(2)] by blast
      then show ?thesis using at_or_below_beneath [OF ne] by auto
    qed
    ultimately show ?thesis
      using ds(2) es(2) holds_names [OF ds(2)] by (fastforce simp: holds_def entry(1))
  qed
  then show ?case using run sets unfolding holds_def by blast
qed

text \<open>The recursion returns: the paths grow, and none is longer than the longest name.\<close>

lemma list_returns:
  assumes "tree w \<noteq> fmempty" "good ps" "is_dir (tree w) (J ps)"
  shows "\<exists>es. list_recursive E A M w (Inl (J ps)) = Some (Inr es) \<and> holds w (beneath (J ps)) es"
proof -
  obtain L where L: "\<forall>d q. is_at (tree w) d q \<longrightarrow> length q \<le> L" using names_bounded by metis
  show ?thesis using assms(2,3)
  proof (induction "Suc L - length (J ps)" arbitrary: ps rule: less_induct)
    case less
    obtain cs where cs: "directory_of A M (J ps) w = Inr cs" "contents_of (tree w) (J ps) cs"
      using directory_contents [OF assms(1) less.prems(2)] .
    have IH: "\<exists>es. list_recursive E A M w (Inl (J (ps @ [n]))) = Some (Inr es) \<and> holds w (beneath (J (ps @ [n]))) es"
      if n: "(n, True) \<in> kids (tree w) (J ps)" for n
    proof (rule less.hyps)
      have g: "good_elem n" "is_at (tree w) True (J (ps @ [n]))"
        using n by (simp_all add: kids_def join_name_J [OF less.prems(1)])
      then show "good (ps @ [n])" "is_dir (tree w) (J (ps @ [n]))"
        using less.prems(1) by (simp_all add: is_dir_def is_at_def)
      show "Suc L - length (J (ps @ [n])) < Suc L - length (J ps)"
        using L g length_child [OF less.prems(1) g(1)] by (meson diff_less_mono2 le_imp_less_Suc less_trans)
    qed
    have "distinct (map gc_Name cs)" using cs(2) by (simp add: contents_of_def)
    from loop_returns [OF cs(2) less.prems(1) order_refl this IH]
    obtain es where es: "list_recursive E A M w (Inr cs) = Some (Inr es)"
      "holds w (\<lambda>q. \<exists>c\<in>set cs. at_or_below (J (ps @ [gc_Name c])) q) es"
      by blast
    have "(\<exists>c\<in>set cs. at_or_below (J (ps @ [gc_Name c])) q) \<longleftrightarrow> beneath (J ps) q" if q: "is_at (tree w) d q" for d q
    proof
      assume "beneath (J ps) q"
      from beneath_kid [OF tree(1) less.prems(1) q this] obtain n e
        where "(n, e) \<in> kids (tree w) (J ps)" "at_or_below (J (ps @ [n])) q" .
      then show "\<exists>c\<in>set cs. at_or_below (J (ps @ [gc_Name c])) q"
        using cs(2) unfolding contents_of_def by (metis (no_types, lifting) imageE prod.inject)
    next
      assume "\<exists>c\<in>set cs. at_or_below (J (ps @ [gc_Name c])) q"
      then obtain c where c: "c \<in> set cs" "at_or_below (J (ps @ [gc_Name c])) q" by blast
      then have "(gc_Name c, gc_Type c = ''dir'') \<in> kids (tree w) (J ps)"
        using contents_kid [OF cs(2)] by blast
      then show "beneath (J ps) q" using kid_beneath [OF less.prems(1)] c(2) by blast
    qed
    then have "holds w (beneath (J ps)) es" using es(2) unfolding holds_def by (auto simp: set_eq_iff)
    moreover have "list_recursive E A M w (Inl (J ps)) = Some (Inr es)"
      by (subst list_recursive.simps) (simp add: cs(1) es(1))
    ultimately show ?case by blast
  qed
qed

text \<open>Reading the files of a listing into a map.\<close>

lemma read_entries_returns:
  assumes "\<forall>e\<in>set es. is_at (tree w) (de_isDir e) (de_name e)"
  shows "\<exists>C. read_entries E A M es contents w = Inr C \<and>
    (\<forall>q. fmlookup C q = (if (q, False) \<in> (\<lambda>e. (de_name e, de_isDir e)) ` set es then fmlookup (tree w) q
       else fmlookup contents q))"
  using assms
proof (induction es arbitrary: contents)
  case (Cons e es)
  show ?case
  proof (cases "de_isDir e")
    case True
    then show ?thesis using Cons by auto
  next
    case False
    then obtain c where c: "fmlookup (tree w) (de_name e) = Some c"
      using Cons.prems by (auto simp: is_at_def elim: has_keyE)
    obtain C where "read_entries E A M es (fmupd (de_name e) c contents) w = Inr C"
      "\<forall>q. fmlookup C q = (if (q, False) \<in> (\<lambda>e. (de_name e, de_isDir e)) ` set es then fmlookup (tree w) q
         else fmlookup (fmupd (de_name e) c contents) q)"
      using Cons by fastforce
    then show ?thesis using False Read_file [OF c] c by (auto simp: image_iff)
  qed
qed simp

lemma List_returns:
  assumes "tree w \<noteq> fmempty" "good ps" "is_dir (tree w) (J ps)" "cleanRelative E p = J ps"
  obtains es where "Github_List E A M p w = Some (Inr es)" "holds w (beneath (J ps)) es" "sorted (map de_name es)"
proof -
  obtain es where es: "list_recursive E A M w (Inl (J ps)) = Some (Inr es)" "holds w (beneath (J ps)) es"
    using list_returns [OF assms(1-3)] by blast
  have "Github_List E A M p w = Some (Inr (sort_key de_name es))"
    using es(1) by (simp add: Github_List_def listRecursive_def assms(4))
  moreover have "holds w (beneath (J ps)) (sort_key de_name es)"
    using es(2) by (simp add: holds_def distinct_map)
  ultimately show thesis using that by simp
qed

lemma clone_tree:
  assumes "tree w \<noteq> fmempty" "is_dir (tree w) (cleanRelative E p)"
  shows "\<exists>es. Github_List E A M (cleanRelative E p) w = Some (Inr es) \<and>
    read_entries E A M es fmempty w = Inr (fmfilter (beneath (cleanRelative E p)) (tree w))"
proof -
  let ?ps = "rel_parts p"
  have p: "cleanRelative E p = J ?ps" by (rule cleanRelative_parts)
  obtain es where es: "Github_List E A M (J ?ps) w = Some (Inr es)" "holds w (beneath (J ?ps)) es"
    using List_returns [OF assms(1) good_rel_parts, of p "J ?ps"] assms(2) p cleanRelative_idem [of p] by metis
  have "\<forall>e\<in>set es. is_at (tree w) (de_isDir e) (de_name e)" using holds_names [OF es(2)] by blast
  from read_entries_returns [OF this, of fmempty] obtain C where C: "read_entries E A M es fmempty w = Inr C"
    "\<And>q. fmlookup C q = (if (q, False) \<in> (\<lambda>e. (de_name e, de_isDir e)) ` set es then fmlookup (tree w) q else None)"
    by auto
  have "C = fmfilter (beneath (J ?ps)) (tree w)"
    using es(2) by (intro fmap_eqI) (auto simp: C(2) holds_def is_at_def has_key_def)
  then show ?thesis using es(1) C(1) p by simp
qed

lemma Stat_path:
  assumes "cleanRelative E p \<noteq> ''''" "tree w \<noteq> fmempty"
  shows "case Github_Stat E A M (cleanRelative E p) w of
      Inl err \<Rightarrow> err_is err ErrNotExist \<and> \<not> has_key (tree w) (cleanRelative E p) \<and> \<not> is_dir (tree w) (cleanRelative E p)
    | Inr info \<Rightarrow> (if fi_isDir info then is_dir (tree w) (cleanRelative E p) else has_key (tree w) (cleanRelative E p))"
proof -
  let ?p = "cleanRelative E p"
  consider c where "fmlookup (tree w) ?p = Some c" | "\<not> has_key (tree w) ?p" "is_dir (tree w) ?p"
    | "\<not> has_key (tree w) ?p" "\<not> is_dir (tree w) ?p"
    by (cases "fmlookup (tree w) ?p") (auto simp: has_key_def)
  then show ?thesis
  proof cases
    case 1
    then show ?thesis using get_file [OF 1] assms(1)
      by (auto simp: Github_Stat_def gh_requiredPath_def cleanRelative_idem getContents_def GetType_def
          fileInfoForContent_def has_key_def Let_def)
  next
    case 2
    then show ?thesis using get_dir [OF assms(2) 2(2)] assms(1)
      by (auto simp: Github_Stat_def gh_requiredPath_def cleanRelative_idem getContents_def dirInfoForPath_def Let_def)
  next
    case 3
    then show ?thesis using get_none [OF 3(1)] assms(1)
      by (auto simp: Github_Stat_def gh_requiredPath_def cleanRelative_idem getContents_def wrapGitHubError_def)
  qed
qed

lemma clone_empty:
  assumes "tree w = fmempty"
  shows "\<exists>err. cloneWithContentsAPI E A M filePath w = Some (Inl err) \<and> err_is err ErrNotExist"
proof (cases "cleanRelative E filePath = ''''")
  case True
  have "\<exists>e. gh_GetContents A (gm_client M) (gm_owner M) (gm_repo M) '''' (contentOptions M) w
      = Inl (ErrorResponse (Some 404) e)"
    using get_none [of w "''''"] assms by simp
  then have "\<exists>err. directory_of A M '''' w = Inl err \<and> err_is err ErrNotExist"
    by (auto simp: directory_of_def getContents_def wrapGitHubError_def)
  then obtain err where e: "directory_of A M '''' w = Inl err" "err_is err ErrNotExist" by blast
  have "list_recursive E A M w (Inl '''') = Some (Inl err)"
    by (subst list_recursive.simps) (simp add: e(1))
  then show ?thesis using True e(2) cleanRelative_idem [of filePath]
    by (simp add: cloneWithContentsAPI_def Github_List_def listRecursive_def)
next
  case False
  have "\<exists>e. gh_GetContents A (gm_client M) (gm_owner M) (gm_repo M) (cleanRelative E filePath) (contentOptions M) w
      = Inl (ErrorResponse (Some 404) e)"
    using get_none [of w "cleanRelative E filePath"] assms by simp
  then show ?thesis using False
    by (auto simp: cloneWithContentsAPI_def Let_def Github_Stat_def gh_requiredPath_def cleanRelative_idem
        getContents_def wrapGitHubError_def)
qed

text \<open>What a clone of a path is: a file, the files under a directory, or nothing.\<close>

lemma clone_contents:
  fixes filePath :: string
  assumes "tree w \<noteq> fmempty"
  defines "p \<equiv> cleanRelative E filePath"
  shows "if has_key (tree w) p \<or> is_dir (tree w) p
    then cloneWithContentsAPI E A M filePath w = Some (Inr (fmfilter (\<lambda>q. q = p \<or> beneath p q) (tree w)))
    else \<exists>err. cloneWithContentsAPI E A M filePath w = Some (Inl err) \<and> err_is err ErrNotExist"
proof -
  have tree_clone: "cloneWithContentsAPI E A M filePath w = Some (Inr (fmfilter (\<lambda>q. q = p \<or> beneath p q) (tree w)))"
    if dir: "is_dir (tree w) p" and st: "p = '''' \<or> (\<exists>info. Github_Stat E A M p w = Inr info \<and> fi_isDir info)"
  proof -
    obtain es where es: "Github_List E A M p w = Some (Inr es)"
      "read_entries E A M es fmempty w = Inr (fmfilter (beneath p) (tree w))"
      using clone_tree [OF assms(1), of filePath] dir unfolding p_def by blast
    have "\<not> has_key (tree w) p" using dir file_not_dir by blast
    then have "fmfilter (beneath p) (tree w) = fmfilter (\<lambda>q. q = p \<or> beneath p q) (tree w)"
      by (intro fmap_eqI) (auto simp: has_key_def)
    then show ?thesis using es st unfolding cloneWithContentsAPI_def Let_def p_def [symmetric] by auto
  qed
  show ?thesis
  proof (cases "p = ''''")
    case True
    then show ?thesis using tree_clone by (simp add: is_dir_def)
  next
    case False
    note st = Stat_path [OF False [unfolded p_def] assms(1), folded p_def]
    show ?thesis
    proof (cases "Github_Stat E A M p w")
      case (Inl err)
      then show ?thesis using st False by (simp add: cloneWithContentsAPI_def Let_def p_def)
    next
      case (Inr info)
      show ?thesis
      proof (cases "fi_isDir info")
        case True
        then show ?thesis using tree_clone st Inr by simp
      next
        case plain: False
        then have "has_key (tree w) p" using st Inr by simp
        then obtain c where c: "fmlookup (tree w) p = Some c" by (elim has_keyE)
        have alone: "\<not> beneath p q" if "has_key (tree w) q" for q
          using file_alone [OF tree(1) \<open>has_key (tree w) p\<close>, of False q] that False
            at_or_below_beneath [OF False, of q] by (auto simp: is_at_def beneath_def prefix_def)
        have "fmlookup (tree w) q = None" if "beneath p q" for q
          using alone [of q] that by (cases "fmlookup (tree w) q") (auto simp: has_key_def)
        then have "fmupd p c fmempty = fmfilter (\<lambda>q. q = p \<or> beneath p q) (tree w)"
          using c by (intro fmap_eqI) auto
        then show ?thesis using c Read_file [OF c] plain Inr False \<open>has_key (tree w) p\<close>
          by (simp add: cloneWithContentsAPI_def Let_def p_def)
      qed
    qed
  qed
qed

end


subsection \<open>Borg's clone\<close>

text \<open>A DataNode also lists a directory: each entry once, with its kind.\<close>

locale datanode_dirs = datanode_library B files
  for B :: "('n, 'f) datanode_api" and files :: "'n \<Rightarrow> (string, string) fmap" +
  assumes read_dir: "tree_ok (files n) \<Longrightarrow> is_dir (files n) p \<Longrightarrow> \<exists>es. dn_ReadDir B p n = Inr es \<and>
      distinct (map de_name es) \<and> (\<lambda>e. (de_name e, de_isDir e)) ` set es = kids (files n) p"

locale borg_clone = go_runtime E + datanode_dirs B files
  for E :: go_env and B :: "('n, 'f) datanode_api" and files :: "'n \<Rightarrow> (string, string) fmap"
begin

lemma readBorg_file: "fmlookup (files n) p = Some c \<Longrightarrow> readBorgDataNodeFile B n p = Inr c"
  using open_file [of n p c] by (auto simp: readBorgDataNodeFile_def)

lemma child_path_J:
  assumes "good ps" "good_elem (de_name e)"
  shows "child_path E (J ps) e = J (ps @ [de_name e])"
proof (cases "ps = []")
  case False
  have "norm_path (J (ps @ [de_name e]))" using assms by (intro norm_path_join) simp_all
  moreover have "J (ps @ [de_name e]) = J ps @ ''/'' @ de_name e" using False by (simp add: join_with_append)
  ultimately show ?thesis
    using False assms by (simp add: child_path_def J_Nil path_join_def Let_def good_elem_def)
qed (simp add: child_path_def)

text \<open>What is added to the map: the files that satisfy a predicate.\<close>

definition adds :: "'n \<Rightarrow> (string \<Rightarrow> bool) \<Rightarrow> (string, string) fmap \<Rightarrow> (string, string) fmap \<Rightarrow> bool" where
  "adds n P C C' \<longleftrightarrow>
     (\<forall>q. fmlookup C' q = (if P q \<and> has_key (files n) q then fmlookup (files n) q else fmlookup C q))"

lemma adds_trans: "adds n P C D \<Longrightarrow> adds n Q D F \<Longrightarrow> adds n (\<lambda>q. P q \<or> Q q) C F"
  by (simp add: adds_def)

lemma borg_loop:
  assumes "tree_ok (files n)" "good ps" "\<forall>e\<in>set es. (de_name e, de_isDir e) \<in> kids (files n) (J ps)"
    "\<And>m C. (m, True) \<in> kids (files n) (J ps) \<Longrightarrow>
       \<exists>C'. collect_borg E B n (Inl (J (ps @ [m]))) C = Some (Inr C') \<and> adds n (beneath (J (ps @ [m]))) C C'"
  shows "\<exists>C'. collect_borg E B n (Inr (J ps, es)) C = Some (Inr C') \<and>
    adds n (\<lambda>q. \<exists>e\<in>set es. at_or_below (J (ps @ [de_name e])) q) C C'"
  using assms(3)
proof (induction es arbitrary: C)
  case Nil
  then show ?case by (simp add: collect_borg.simps [of E B n "Inr (J ps, [])"] adds_def)
next
  case (Cons e es)
  let ?p = "J (ps @ [de_name e])"
  have kid: "good_elem (de_name e)" "is_at (files n) (de_isDir e) ?p"
    using Cons.prems by (simp_all add: kids_def join_name_J [OF assms(2)])
  have child: "child_path E (J ps) e = ?p" by (rule child_path_J [OF assms(2) kid(1)])
  have ne: "?p \<noteq> ''''" using is_at_J [OF assms(1) kid(2)] join_good_Nil by metis
  have "\<exists>D. collect_borg E B n (Inr (J ps, e # es)) C = collect_borg E B n (Inr (J ps, es)) D \<and> adds n (at_or_below ?p) C D"
  proof (cases "de_isDir e")
    case True
    then obtain D where D: "collect_borg E B n (Inl ?p) C = Some (Inr D)" "adds n (beneath ?p) C D"
      using assms(4) [of "de_name e" C] Cons.prems by auto
    have "\<not> has_key (files n) ?p"
      using kid(2) True assms(1) by (auto simp: is_at_def tree_ok_def)
    then have "adds n (at_or_below ?p) C D"
      using D(2) at_or_below_beneath [OF ne] unfolding adds_def by metis
    moreover have "collect_borg E B n (Inr (J ps, e # es)) C = collect_borg E B n (Inr (J ps, es)) D"
      by (subst collect_borg.simps) (simp add: child True D(1))
    ultimately show ?thesis by blast
  next
    case False
    then obtain c where c: "fmlookup (files n) ?p = Some c" using kid(2) by (auto simp: is_at_def elim: has_keyE)
    have "has_key (files n) ?p" using c by (simp add: has_key_def)
    then have "at_or_below ?p q \<and> has_key (files n) q \<longleftrightarrow> q = ?p" for q
      using file_alone [OF assms(1), of ?p False q] by (auto simp: is_at_def)
    then have "adds n (at_or_below ?p) C (fmupd ?p c C)" using c by (simp add: adds_def)
    moreover have "collect_borg E B n (Inr (J ps, e # es)) C = collect_borg E B n (Inr (J ps, es)) (fmupd ?p c C)"
      by (subst collect_borg.simps) (simp add: child False readBorg_file [OF c])
    ultimately show ?thesis by blast
  qed
  then obtain D where D: "collect_borg E B n (Inr (J ps, e # es)) C = collect_borg E B n (Inr (J ps, es)) D"
    "adds n (at_or_below ?p) C D" by blast
  have "\<forall>e\<in>set es. (de_name e, de_isDir e) \<in> kids (files n) (J ps)" using Cons.prems by simp
  from Cons.IH [OF this, of D] obtain C' where C': "collect_borg E B n (Inr (J ps, es)) D = Some (Inr C')"
    "adds n (\<lambda>q. \<exists>e\<in>set es. at_or_below (J (ps @ [de_name e])) q) D C'" by blast
  show ?case using adds_trans [OF D(2) C'(2)] C'(1) D(1) by auto
qed

lemma borg_returns:
  assumes "tree_ok (files n)" "good ps" "is_dir (files n) (J ps)"
  shows "\<exists>C'. collect_borg E B n (Inl (J ps)) C = Some (Inr C') \<and> adds n (beneath (J ps)) C C'"
proof -
  obtain L where L: "\<forall>d q. is_at (files n) d q \<longrightarrow> length q \<le> L" using names_bounded by metis
  show ?thesis using assms(2,3)
  proof (induction "Suc L - length (J ps)" arbitrary: ps C rule: less_induct)
    case less
    obtain es where es: "dn_ReadDir B (J ps) n = Inr es"
      "(\<lambda>e. (de_name e, de_isDir e)) ` set es = kids (files n) (J ps)"
      using read_dir [OF assms(1) less.prems(2)] by blast
    have kid: "\<forall>e\<in>set es. (de_name e, de_isDir e) \<in> kids (files n) (J ps)"
      by (intro ballI) (rule subst [OF es(2)], rule imageI)
    have IH: "\<exists>C'. collect_borg E B n (Inl (J (ps @ [m]))) C = Some (Inr C') \<and> adds n (beneath (J (ps @ [m]))) C C'"
      if m: "(m, True) \<in> kids (files n) (J ps)" for m C
    proof (rule less.hyps)
      have g: "good_elem m" "is_at (files n) True (J (ps @ [m]))"
        using m by (simp_all add: kids_def join_name_J [OF less.prems(1)])
      then show "good (ps @ [m])" "is_dir (files n) (J (ps @ [m]))"
        using less.prems(1) by (simp_all add: is_dir_def is_at_def)
      show "Suc L - length (J (ps @ [m])) < Suc L - length (J ps)"
        using L g length_child [OF less.prems(1) g(1)] by (meson diff_less_mono2 le_imp_less_Suc less_trans)
    qed
    from borg_loop [OF assms(1) less.prems(1) kid IH, of C] obtain C' where
      C': "collect_borg E B n (Inr (J ps, es)) C = Some (Inr C')"
      "adds n (\<lambda>q. \<exists>e\<in>set es. at_or_below (J (ps @ [de_name e])) q) C C'" by blast
    have "(\<exists>e\<in>set es. at_or_below (J (ps @ [de_name e])) q) \<longleftrightarrow> beneath (J ps) q" if "has_key (files n) q" for q
    proof
      assume "beneath (J ps) q"
      moreover have "is_at (files n) False q" using that by (simp add: is_at_def)
      ultimately obtain m d where "(m, d) \<in> kids (files n) (J ps)" "at_or_below (J (ps @ [m])) q"
        using beneath_kid [OF assms(1) less.prems(1)] by blast
      then show "\<exists>e\<in>set es. at_or_below (J (ps @ [de_name e])) q"
        unfolding es(2) [symmetric] by auto
    next
      assume "\<exists>e\<in>set es. at_or_below (J (ps @ [de_name e])) q"
      then show "beneath (J ps) q" using kid kid_beneath [OF less.prems(1)] by blast
    qed
    then have "adds n (beneath (J ps)) C C'" using C'(2) unfolding adds_def by metis
    moreover have "collect_borg E B n (Inl (J ps)) C = Some (Inr C')"
      by (subst collect_borg.simps) (simp add: es(1) C'(1))
    ultimately show ?case by blast
  qed
qed

lemma borg_contents:
  assumes "tree_ok (files n)" "p = J ps" "good ps"
  shows "if has_key (files n) p \<or> is_dir (files n) p
    then collectBorgDataNodeContents E B (Some n) p = Some (Inr (fmfilter (\<lambda>q. q = p \<or> beneath p q) (files n)))
    else collectBorgDataNodeContents E B (Some n) p = Some (Inl ErrNotExist)"
proof -
  have tree_part: "collectBorgDataNodeDir E B n p fmempty = Some (Inr (fmfilter (\<lambda>q. q = p \<or> beneath p q) (files n)))"
    if dir: "is_dir (files n) p"
  proof -
    obtain C where C: "collect_borg E B n (Inl p) fmempty = Some (Inr C)" "adds n (beneath p) fmempty C"
      using borg_returns [OF assms(1,3), of fmempty] dir assms(2) by blast
    have "\<not> has_key (files n) p"
      using dir assms(1) norm_path_not_Nil by (auto simp: is_dir_def tree_ok_def names_ok_def)
    then have "C = fmfilter (\<lambda>q. q = p \<or> beneath p q) (files n)"
      using C(2) by (intro fmap_eqI) (auto simp: adds_def has_key_def)
    then show ?thesis using C(1) by (simp add: collectBorgDataNodeDir_def)
  qed
  show ?thesis
  proof (cases "p = ''''")
    case True
    then show ?thesis using tree_part by (simp add: collectBorgDataNodeContents_def is_dir_def)
  next
    case False
    have norm: "norm_path p" using False assms(2,3) by (cases "ps = []") (auto intro: norm_path_join)
    consider c where "fmlookup (files n) p = Some c" | "\<not> has_key (files n) p" "below_some (files n) p"
      | "\<not> has_key (files n) p" "\<not> below_some (files n) p"
      by (cases "fmlookup (files n) p") (auto simp: has_key_def)
    then show ?thesis
    proof cases
      case 1
      then have k: "has_key (files n) p" by (simp add: has_key_def)
      have "fmlookup (files n) q = None" if "beneath p q" for q
        using file_alone [OF assms(1) k, of False q] that False at_or_below_beneath [OF False, of q]
        by (cases "fmlookup (files n) q") (auto simp: is_at_def beneath_def prefix_def has_key_def)
      then have "fmupd p c fmempty = fmfilter (\<lambda>q. q = p \<or> beneath p q) (files n)"
        using 1 by (intro fmap_eqI) auto
      then show ?thesis using k stat_file [OF k] False readBorg_file [OF 1]
        by (auto simp: collectBorgDataNodeContents_def)
    next
      case 2
      then show ?thesis using stat_dir [OF 2] False tree_part
        by (auto simp: collectBorgDataNodeContents_def is_dir_def)
    next
      case 3
      then show ?thesis using stat_none [OF 3 norm] False
        by (auto simp: collectBorgDataNodeContents_def is_dir_def)
    qed
  qed
qed

end

subsection \<open>A repository in memory\<close>

lemma list_has_key: "has_key (fmap_of_list fs) k \<longleftrightarrow> k \<in> fst ` set fs"
  by (simp add: has_key_def fmlookup_of_list map_of_eq_None_iff)

text \<open>What a file below a directory says of the entries of the directory.\<close>

lemma first_element:
  assumes "tree_ok T" "has_key T k" "good ps" "p = J ps" "prefix (if p = '''' then '''' else p @ ''/'') k"
  obtains m cs where "good (ps @ m # cs)" "k = J (ps @ m # cs)"
    "drop (length (if p = '''' then '''' else p @ ''/'')) k = J (m # cs)"
    "takeWhile (\<lambda>c. c \<noteq> slash) (J (m # cs)) = m"
proof -
  have "is_at T False k" using assms(2) by (simp add: is_at_def)
  then obtain ks where ks: "good ks" "ks \<noteq> []" "k = J ks" using is_at_J [OF assms(1)] by metis
  have "beneath (J ps) k" using assms(4,5) by (auto simp: beneath_def split: if_splits)
  then obtain cs' where cs': "cs' \<noteq> []" "ks = ps @ cs'" using beneath_J [OF assms(3) ks(1,2)] ks(3) by auto
  then obtain m cs where m: "ks = ps @ m # cs" by (cases cs') auto
  have "slash \<notin> set m" using ks(1) m by (simp add: good_elem_def)
  then have "takeWhile (\<lambda>c. c \<noteq> slash) (J (m # cs)) = m" by (cases cs) simp_all
  moreover have "drop (length (if p = '''' then '''' else p @ ''/'')) k = J (m # cs)"
    using assms(3) by (cases "ps = []") (simp_all add: assms(4) ks(3) m J_Nil join_with_append)
  ultimately show thesis using that [of m cs] ks m by simp
qed

lemma entries_image:
  "(\<lambda>e. (de_name e, de_isDir e)) ` set (map (\<lambda>q. NewDirEntry q (q \<notin> B) m (i q)) ns) = {(q, d). q \<in> set ns \<and> d = (q \<notin> B)}"
  by (auto simp: image_image)

lemma some_list: "(\<exists>cs. P cs) \<longleftrightarrow> P [] \<or> (\<exists>cs. cs \<noteq> [] \<and> P cs)"
  by metis

lemma list_readdir_kids:
  assumes "tree_ok (fmap_of_list fs)" "is_dir (fmap_of_list fs) p"
  obtains es where "list_readdir p fs = Inr es" "distinct (map de_name es)"
    "(\<lambda>e. (de_name e, de_isDir e)) ` set es = kids (fmap_of_list fs) p"
proof -
  let ?T = "fmap_of_list fs"
  let ?pre = "if p = '''' then '''' else p @ ''/''"
  let ?below = "map (\<lambda>q. drop (length ?pre) (fst q)) (filter (\<lambda>q. prefix ?pre (fst q)) fs)"
  let ?names = "remdups (map (takeWhile (\<lambda>c. c \<noteq> slash)) ?below)"
  let ?es = "map (\<lambda>q. NewDirEntry q (q \<notin> set ?below) 0 (NewFileInfo q 0 0 zero_time (q \<notin> set ?below))) ?names"
  obtain ps where ps: "good ps" "p = J ps"
  proof (cases "p = ''''")
    case True
    then show thesis using that [of "[]"] by simp
  next
    case False
    then have "is_at ?T True p" using assms(2) by (simp add: is_dir_def is_at_def)
    then show thesis using is_at_J [OF assms(1)] that by metis
  qed
  have below: "r \<in> set ?below \<longleftrightarrow> has_key ?T (?pre @ r)" for r
    by (force simp: list_has_key prefix_def image_iff)
  have ne: "\<not> (p \<noteq> '''' \<and> ?below = [])"
    using assms(2) by (auto simp: is_dir_def below_some_def list_has_key filter_empty_conv)
  have name: "m \<in> set ?names \<longleftrightarrow> (\<exists>cs. good (ps @ m # cs) \<and> has_key ?T (J (ps @ m # cs)))" for m
  proof
    assume "m \<in> set ?names"
    then obtain r where r: "r \<in> set ?below" "m = takeWhile (\<lambda>c. c \<noteq> slash) r" by auto
    then have k: "has_key ?T (?pre @ r)" using below by blast
    have pf: "prefix ?pre (?pre @ r)" by simp
    obtain n cs where n: "good (ps @ n # cs)" "?pre @ r = J (ps @ n # cs)" "drop (length ?pre) (?pre @ r) = J (n # cs)"
      "takeWhile (\<lambda>c. c \<noteq> slash) (J (n # cs)) = n"
      by (rule first_element [OF assms(1) k ps pf])
    have "r = J (n # cs)" using n(3) by (metis append_eq_conv_conj)
    then have "m = n" using r(2) n(4) by simp
    then show "\<exists>cs. good (ps @ m # cs) \<and> has_key ?T (J (ps @ m # cs))" using n(1,2) k by metis
  next
    assume "\<exists>cs. good (ps @ m # cs) \<and> has_key ?T (J (ps @ m # cs))"
    then obtain cs where cs: "good (ps @ m # cs)" "has_key ?T (J (ps @ m # cs))" by blast
    have "J (ps @ m # cs) = ?pre @ J (m # cs)"
      using ps by (cases "ps = []") (simp_all add: J_Nil join_with_append)
    then have "J (m # cs) \<in> set ?below" using cs(2) below by simp
    then have "takeWhile (\<lambda>c. c \<noteq> slash) (J (m # cs)) \<in> set ?names"
      unfolding set_remdups by (subst list.set_map) (rule imageI)
    moreover have "slash \<notin> set m" using cs(1) by (simp add: good_elem_def)
    then have "takeWhile (\<lambda>c. c \<noteq> slash) (J (m # cs)) = m" by (cases cs) simp_all
    ultimately show "m \<in> set ?names" by (simp only:)
  qed
  have kid: "(m, d) \<in> kids ?T p \<longleftrightarrow> m \<in> set ?names \<and> d = (m \<notin> set ?below)" for m d
  proof -
    have pre: "?pre @ m = J (ps @ [m])"
      using ps by (cases "ps = []") (simp_all add: J_Nil join_with_append)
    have isfile: "m \<in> set ?below \<longleftrightarrow> has_key ?T (J (ps @ [m]))" by (simp only: below pre)
    have sub: "below_some ?T (J (ps @ [m])) \<longleftrightarrow> (\<exists>cs. cs \<noteq> [] \<and> good (ps @ m # cs) \<and> has_key ?T (J (ps @ m # cs)))"
      if g: "good_elem m"
    proof
      assume "below_some ?T (J (ps @ [m]))"
      then obtain k where k: "has_key ?T k" "prefix (J (ps @ [m]) @ ''/'') k" by (auto simp: below_some_def)
      then obtain ks where ks: "good ks" "k = J ks" using is_at_J [OF assms(1), of False k] by (auto simp: is_at_def)
      then obtain cs where "cs \<noteq> []" "ks = (ps @ [m]) @ cs"
        using k(2) below_J [of "ps @ [m]" ks] ps(1) g by auto
      then show "\<exists>cs. cs \<noteq> [] \<and> good (ps @ m # cs) \<and> has_key ?T (J (ps @ m # cs))" using ks k(1) by auto
    next
      assume "\<exists>cs. cs \<noteq> [] \<and> good (ps @ m # cs) \<and> has_key ?T (J (ps @ m # cs))"
      then obtain cs where cs: "cs \<noteq> []" "good (ps @ m # cs)" "has_key ?T (J (ps @ m # cs))" by blast
      then have "prefix (J (ps @ [m]) @ ''/'') (J (ps @ m # cs))"
        using below_J [of "ps @ [m]" "ps @ m # cs"] ps(1) g by auto
      then show "below_some ?T (J (ps @ [m]))" using cs(3) by (auto simp: below_some_def)
    qed
    have excl: "has_key ?T (J (ps @ [m])) \<Longrightarrow> \<not> below_some ?T (J (ps @ [m]))" using assms(1) by (simp add: tree_ok_def)
    show ?thesis
    proof (cases "good_elem m")
      case True
      have "m \<in> set ?names \<longleftrightarrow> has_key ?T (J (ps @ [m])) \<or> below_some ?T (J (ps @ [m]))"
      proof -
        have "good (ps @ [m])" using ps(1) True by simp
        then show ?thesis unfolding name sub [OF True]
          by (subst some_list [of "\<lambda>cs. good (ps @ m # cs) \<and> has_key ?T (J (ps @ m # cs))"]) (simp only: conj_ac simp_thms)
      qed
      then show ?thesis
        using True excl isfile by (cases d) (auto simp: kids_def is_at_def ps(2) join_name_J [OF ps(1)])
    next
      case False
      then have "m \<notin> set ?names" unfolding name by simp
      moreover have "(m, d) \<notin> kids ?T p" using False by (simp add: kids_def)
      ultimately show ?thesis by blast
    qed
  qed
  have "list_readdir p fs = Inr ?es" using ne by (simp add: list_readdir_def Let_def del: set_map)
  moreover have "distinct (map de_name ?es)" by (simp add: comp_def)
  moreover have "(\<lambda>e. (de_name e, de_isDir e)) ` set ?es = kids ?T p"
    unfolding entries_image using kid by blast
  ultimately show thesis using that by blast
qed

interpretation list_dirs: datanode_dirs list_datanode fmap_of_list
proof
  fix n :: "(string \<times> string) list" and p
  assume "tree_ok (fmap_of_list n)" "is_dir (fmap_of_list n) p"
  then obtain es where "list_readdir p n = Inr es" "distinct (map de_name es)"
    "(\<lambda>e. (de_name e, de_isDir e)) ` set es = kids (fmap_of_list n) p"
    by (rule list_readdir_kids)
  then show "\<exists>es. dn_ReadDir list_datanode p n = Inr es \<and> distinct (map de_name es) \<and>
      (\<lambda>e. (de_name e, de_isDir e)) ` set es = kids (fmap_of_list n) p"
    by (auto simp: list_datanode_def)
qed

interpretation list_borg: borg_clone go_core list_datanode fmap_of_list ..

text \<open>The API over a list of files, of which the valid lists are repositories.\<close>

definition valid_files :: "(string \<times> string) list \<Rightarrow> bool" where
  "valid_files fs \<longleftrightarrow> list_all (\<lambda>(q, _). norm_path q \<and> CHR 0x5C \<notin> set q \<and>
     \<not> list_ex (\<lambda>(k, _). prefix (q @ ''/'') k) fs) fs"

definition repo_tree :: "(string \<times> string) list \<Rightarrow> (string, string) fmap" where
  "repo_tree fs = (if valid_files fs then fmap_of_list fs else fmempty)"

definition list_contents :: "string \<Rightarrow> (string \<times> string) list \<Rightarrow> gh_error + gh_content option \<times> gh_content list option" where
  "list_contents p fs =
     (if fs = [] \<or> \<not> valid_files fs then Inl (ErrorResponse (Some 404) ErrNotExist)
      else case map_of fs p of
          Some c \<Rightarrow> Inr (Some \<lparr>gc_Type = ''file'', gc_Path = p, gc_Name = path_base p, gc_Size = int (length c),
              gc_Content = Inr c\<rparr>, None)
        | None \<Rightarrow>
            (if p \<noteq> '''' \<and> \<not> list_ex (\<lambda>(k, _). prefix (p @ ''/'') k) fs then Inl (ErrorResponse (Some 404) ErrNotExist)
             else case list_readdir p fs of
                 Inl _ \<Rightarrow> Inl (ErrorResponse (Some 404) ErrNotExist)
               | Inr es \<Rightarrow> Inr (None, Some (map (\<lambda>e. \<lparr>gc_Type = (if de_isDir e then ''dir'' else ''file''),
                   gc_Path = join_name p (de_name e), gc_Name = de_name e, gc_Size = 0, gc_Content = Inl ErrInvalid\<rparr>) es))))"

definition list_api :: "(unit, (string \<times> string) list) gh_api" where
  "list_api = \<lparr>gh_NewClient = (\<lambda>h. \<lparr>gh_http = h, gh_BaseURL = \<lparr>u_Scheme = ''https'', u_Host = ''api.github.com'',
       u_Path = ''/'', u_RawPath = '''', u_rest = ''''\<rparr>\<rparr>),
     gh_GetContents = (\<lambda>_ _ _ p _ fs. list_contents p fs), gh_DefaultTransport = (), oauth_Transport = (\<lambda>_ t. t)\<rparr>"

definition sample_github :: "string \<Rightarrow> unit gh_medium" where
  "sample_github ref = \<lparr>gm_client = gh_NewClient list_api None, gm_owner = ''o'', gm_repo = ''r'', gm_ref = ref,
     gm_baseURL = ''''\<rparr>"

lemma valid_tree: "valid_files fs \<Longrightarrow> tree_ok (fmap_of_list fs) \<and> plain_names (fmap_of_list fs)"
  by (fastforce simp: valid_files_def tree_ok_def names_ok_def plain_names_def below_some_def list_has_key
      list_all_iff list_ex_iff)

lemma list_below: "list_ex (\<lambda>(k, _). prefix (p @ ''/'') k) fs \<longleftrightarrow> below_some (fmap_of_list fs) p"
  by (force simp: below_some_def list_has_key list_ex_iff)

interpretation list_repo: github_repo go_core list_api "sample_github ref" repo_tree
proof
  fix w :: "(string \<times> string) list"
  show "tree_ok (repo_tree w)" "plain_names (repo_tree w)"
    using valid_tree [of w] by (auto simp: repo_tree_def tree_ok_def names_ok_def plain_names_def)
next
  fix w :: "(string \<times> string) list" and p c
  assume "fmlookup (repo_tree w) p = Some c"
  then show "\<exists>f. gh_GetContents list_api (gm_client (sample_github ref)) (gm_owner (sample_github ref))
      (gm_repo (sample_github ref)) p (contentOptions (sample_github ref)) w = Inr (Some f, None) \<and>
      gc_Type f \<noteq> ''dir'' \<and> gc_Content f = Inr c"
    by (auto simp: list_api_def list_contents_def repo_tree_def fmlookup_of_list split: if_splits)
next
  fix w :: "(string \<times> string) list" and p
  assume t: "repo_tree w \<noteq> fmempty" and d: "is_dir (repo_tree w) p"
  then have v: "valid_files w" "w \<noteq> []" and d': "is_dir (fmap_of_list w) p"
    by (auto simp: repo_tree_def split: if_splits)
  have "tree_ok (fmap_of_list w)" using valid_tree v(1) by blast
  from list_readdir_kids [OF this d'] obtain es where es: "list_readdir p w = Inr es" "distinct (map de_name es)"
    "(\<lambda>e. (de_name e, de_isDir e)) ` set es = kids (fmap_of_list w) p" .
  have "\<not> has_key (fmap_of_list w) p"
    using d' \<open>tree_ok (fmap_of_list w)\<close> norm_path_not_Nil by (auto simp: is_dir_def tree_ok_def names_ok_def)
  then have n: "map_of w p = None" by (simp add: has_key_def fmlookup_of_list)
  have type_dir: "(if d then ''dir'' else ''file'') = ''dir'' \<longleftrightarrow> d" for d by simp
  let ?cs = "map (\<lambda>e. \<lparr>gc_Type = (if de_isDir e then ''dir'' else ''file''), gc_Path = join_name p (de_name e),
      gc_Name = de_name e, gc_Size = 0, gc_Content = Inl ErrInvalid\<rparr>) es"
  have "contents_of (repo_tree w) p ?cs"
    using es(2,3) v(1) unfolding contents_of_def repo_tree_def
    by (simp add: comp_def image_image type_dir)
  then show "\<exists>cs. gh_GetContents list_api (gm_client (sample_github ref)) (gm_owner (sample_github ref))
      (gm_repo (sample_github ref)) p (contentOptions (sample_github ref)) w = Inr (None, Some cs) \<and>
      contents_of (repo_tree w) p cs"
    using v n d' es(1) by (intro exI [of _ ?cs]) (auto simp: list_api_def list_contents_def list_below is_dir_def)
next
  fix w :: "(string \<times> string) list" and p
  assume k: "\<not> has_key (repo_tree w) p" and t: "repo_tree w = fmempty \<or> \<not> is_dir (repo_tree w) p"
  show "\<exists>e. gh_GetContents list_api (gm_client (sample_github ref)) (gm_owner (sample_github ref))
      (gm_repo (sample_github ref)) p (contentOptions (sample_github ref)) w = Inl (ErrorResponse (Some 404) e)"
  proof (cases "w = [] \<or> \<not> valid_files w")
    case True
    then show ?thesis by (auto simp: list_api_def list_contents_def)
  next
    case False
    then have "repo_tree w = fmap_of_list w" by (simp add: repo_tree_def)
    moreover have "fmap_of_list w \<noteq> fmempty"
    proof
      assume e: "fmap_of_list w = fmempty"
      obtain a b where "(a, b) \<in> set w" using False by (cases w) auto
      then have "has_key (fmap_of_list w) a" by (force simp: list_has_key)
      then show False using e by simp
    qed
    ultimately show ?thesis using k t False
      by (auto simp: list_api_def list_contents_def list_below is_dir_def has_key_def fmlookup_of_list)
  qed
qed

subsection \<open>What a client sees\<close>

text \<open>
  C31: listing a directory of a repository that has a file returns, whatever its depth, and gives in the order of their
  names the paths of all files and directories below it, each once.
\<close>

theorem github_List:
  assumes "github_repo E A M tree" "tree w \<noteq> fmempty" "is_dir (tree w) (cleanRelative E p)"
  shows "\<exists>es. Github_List E A M p w = Some (Inr es) \<and> sorted (map de_name es) \<and> distinct (map de_name es) \<and>
    (\<lambda>e. (de_name e, de_isDir e)) ` set es = {(q, d). is_at (tree w) d q \<and> beneath (cleanRelative E p) q}"
proof -
  have p: "cleanRelative E p = J (rel_parts p)"
    using assms(1) by (simp add: github_repo_def go_runtime.cleanRelative_parts)
  have "is_dir (tree w) (J (rel_parts p))" using assms(3) p by simp
  from github_repo.List_returns [OF assms(1,2) good_rel_parts this p] obtain es where
    "Github_List E A M p w = Some (Inr es)" "github_repo.holds tree w (beneath (J (rel_parts p))) es"
    "sorted (map de_name es)" .
  then show ?thesis unfolding github_repo.holds_def [OF assms(1)] p by blast
qed

definition sample_repo :: "(string \<times> string) list" where
  "sample_repo = [(''a/b'', ''x''), (''c'', ''y'')]"

lemma sample_repo_facts:
  "fmap_of_list sample_repo = repo_tree sample_repo" "repo_tree sample_repo \<noteq> fmempty"
  "below_some (repo_tree sample_repo) ''a''"
proof -
  have "valid_files sample_repo" by code_simp
  then show tree: "fmap_of_list sample_repo = repo_tree sample_repo" by (simp add: repo_tree_def)
  have "fmlookup (fmap_of_list sample_repo) ''c'' = Some ''y''" by (simp add: sample_repo_def)
  then show "repo_tree sample_repo \<noteq> fmempty" unfolding tree by auto
  have "list_ex (\<lambda>(k, _). prefix (''a'' @ ''/'') k) sample_repo" by (simp add: sample_repo_def)
  then show "below_some (repo_tree sample_repo) ''a''" unfolding list_below tree .
qed

theorem github_List_witness:
  "\<exists>es. Github_List go_core list_api (sample_github ''main'') ''/'' sample_repo = Some (Inr es) \<and>
     (''a'', True) \<in> (\<lambda>e. (de_name e, de_isDir e)) ` set es"
proof -
  have p: "cleanRelative go_core ''/'' = ''''" by code_simp
  have "is_dir (repo_tree sample_repo) (cleanRelative go_core ''/'')" by (simp add: p is_dir_def)
  from github_List [OF list_repo.github_repo_axioms sample_repo_facts(2) this, of "''main''"] show ?thesis
    using sample_repo_facts(3) by (auto simp: p is_at_def beneath_def)
qed

text \<open>
  C32: when Borg cloned what the API serves, both ways to clone a path give the same map: the file, or all
  files below the directory, with their contents; for a path that is neither both fail with \<open>fs.ErrNotExist\<close>.
  They differ on an empty repository, whose root the API does not know.
\<close>

theorem github_clones_agree:
  fixes filePath :: string
  assumes "github_repo E A M tree" "datanode_dirs B files" "cloneGit (borgCloneURL M) w = Inr (Some n)"
    "files n = tree w"
  defines "p \<equiv> cleanRelative E filePath"
  shows "(tree w \<noteq> fmempty \<and> (has_key (tree w) p \<or> is_dir (tree w) p) \<longrightarrow>
      cloneWithContentsAPI E A M filePath w = Some (Inr (fmfilter (\<lambda>q. q = p \<or> beneath p q) (tree w))) \<and>
      cloneWithBorg E B cloneGit M filePath w = cloneWithContentsAPI E A M filePath w) \<and>
    (\<not> has_key (tree w) p \<and> \<not> is_dir (tree w) p \<longrightarrow>
      (\<exists>err. cloneWithContentsAPI E A M filePath w = Some (Inl err) \<and> err_is err ErrNotExist) \<and>
      (\<exists>err. cloneWithBorg E B cloneGit M filePath w = Some (Inl err) \<and> err_is err ErrNotExist)) \<and>
    (tree w = fmempty \<and> p = '''' \<longrightarrow>
      (\<exists>err. cloneWithContentsAPI E A M filePath w = Some (Inl err) \<and> err_is err ErrNotExist) \<and>
      cloneWithBorg E B cloneGit M filePath w = Some (Inr fmempty))"
proof -
  have run: "go_runtime E" using assms(1) by (simp add: github_repo_def)
  have borg: "borg_clone E B files" using run assms(2) by (simp add: borg_clone_def)
  have p: "p = J (rel_parts filePath)" unfolding p_def using run by (rule go_runtime.cleanRelative_parts)
  have tree: "tree_ok (files n)" using github_repo.tree(1) [OF assms(1), of w] assms(4) by simp
  note b = borg_clone.borg_contents [OF borg tree p good_rel_parts]
  have B: "cloneWithBorg E B cloneGit M filePath w = map_option (\<lambda>r. case r of
        Inl err \<Rightarrow> Inl (CoreE ''github.Clone'' [''failed to read Borg DataNode clone''] (Some err))
      | Inr contents \<Rightarrow> Inr contents) (collectBorgDataNodeContents E B (Some n) p)"
    by (simp add: cloneWithBorg_def assms(3) p_def)
  have empty: "\<exists>err. cloneWithContentsAPI E A M filePath w = Some (Inl err) \<and> err_is err ErrNotExist"
    if "tree w = fmempty"
    using github_repo.clone_empty [OF assms(1) that] .
  note a = github_repo.clone_contents [OF assms(1), of w filePath, folded p_def]
  show ?thesis
    using a b empty B assms(4)
    by (cases "tree w = fmempty"; cases "has_key (tree w) p \<or> is_dir (tree w) p") (auto simp: is_dir_def split: if_splits)
qed

theorem github_clones_agree_witness:
  "cloneWithBorg go_core list_datanode (\<lambda>_ w. Inr (Some w)) (sample_github ''main'') ''a'' sample_repo
     = Some (Inr (fmfilter (\<lambda>q. q = ''a'' \<or> beneath ''a'' q) (repo_tree sample_repo)))"
proof -
  let ?git = "\<lambda>(_ :: string) w :: (string \<times> string) list. Inr (Some w) :: (string \<times> string) list option res"
  have p: "cleanRelative go_core ''a'' = ''a''" by code_simp
  from github_clones_agree [OF list_repo.github_repo_axioms [of "''main''"] list_dirs.datanode_dirs_axioms,
      where cloneGit = ?git and w = sample_repo and n = sample_repo and filePath = "''a''"]
  show ?thesis using sample_repo_facts by (simp add: p is_dir_def)
qed

end
