(* ===== verification/Http.thy ===== *)
theory Http
  imports Remote Sigil
begin

text \<open>
  What the HTTP packages of the repository use of Go's \<open>strconv\<close>, \<open>net/http\<close> and \<open>net/url\<close>: numbers in a
  text, headers, requests and responses, and percent-encoding.
\<close>

subsection \<open>Package strconv\<close>

function decimal_digits :: "int \<Rightarrow> string" where
  "decimal_digits n =
     (if n < 10 then [char_of (48 + n)] else decimal_digits (n div 10) @ [char_of (48 + n mod 10)])"
  by auto
termination by (relation "measure nat") auto

declare decimal_digits.simps [simp del]

definition decimal :: "int \<Rightarrow> string" where
  "decimal i = (if i < 0 then ''-'' @ decimal_digits (- i) else decimal_digits i)"

text \<open>A \<open>*NumError\<close>: the function, its argument and the kind of the error.\<close>

definition ErrSyntax :: gerr where "ErrSyntax = ErrNew ''invalid syntax''"
definition ErrRange :: gerr where "ErrRange = ErrNew ''value out of range''"

definition NumError :: "string \<Rightarrow> gerr \<Rightarrow> gerr" where
  "NumError num err = PathError ''strconv.ParseInt'' num err"

definition digit_value :: "char \<Rightarrow> int option" where
  "digit_value c = (let n = of_char c in
     if 48 \<le> n \<and> n \<le> 57 then Some (n - 48)
     else if 97 \<le> n \<and> n \<le> 122 then Some (n - 87)
     else if 65 \<le> n \<and> n \<le> 90 then Some (n - 55) else None)"

text \<open>
  The digits of \<open>ParseUint(s, base, 64)\<close>, from left to right: the first one that is no digit of the base is a
  syntax error, the first one that takes the value past 64 bits a range error.  Underscores are skipped
  when the base was 0.
\<close>

fun uint_digits :: "bool \<Rightarrow> int \<Rightarrow> string \<Rightarrow> int \<Rightarrow> int res" where
  "uint_digits base0 base [] n = Inr n"
| "uint_digits base0 base (c # cs) n =
     (if base0 \<and> c = CHR ''_'' then uint_digits base0 base cs n
      else case digit_value c of
          None \<Rightarrow> Inl ErrSyntax
        | Some d \<Rightarrow>
            (if d \<ge> base then Inl ErrSyntax
             else if n * base + d \<ge> 18446744073709551616 then Inl ErrRange
             else uint_digits base0 base cs (n * base + d)))"

text \<open>\<open>underscoreOK\<close>: an underscore separates digits, or the prefix of the base from them.\<close>

fun underscores :: "bool \<Rightarrow> char \<Rightarrow> string \<Rightarrow> bool" where
  "underscores hex saw [] \<longleftrightarrow> saw \<noteq> CHR ''_''"
| "underscores hex saw (c # cs) \<longleftrightarrow>
     (if (case digit_value c of None \<Rightarrow> False | Some d \<Rightarrow> d < 10 \<or> hex \<and> d < 16) then underscores hex (CHR ''0'') cs
      else if c = CHR ''_'' then saw = CHR ''0'' \<and> underscores hex (CHR ''_'') cs
      else saw \<noteq> CHR ''_'' \<and> underscores hex (CHR ''!'') cs)"

definition base_prefix :: "string \<Rightarrow> (int \<times> string) option" where
  "base_prefix s =
     (case s of
        z # b # cs \<Rightarrow>
          (if z \<noteq> CHR ''0'' then None
           else if b = CHR ''b'' \<or> b = CHR ''B'' then Some (2, cs)
           else if b = CHR ''o'' \<or> b = CHR ''O'' then Some (8, cs)
           else if b = CHR ''x'' \<or> b = CHR ''X'' then Some (16, cs) else None)
      | _ \<Rightarrow> None)"

definition underscoreOK :: "string \<Rightarrow> bool" where
  "underscoreOK s =
     (case base_prefix s of
        None \<Rightarrow> underscores False (CHR ''^'') s
      | Some (b, cs) \<Rightarrow> underscores (b = 16) (CHR ''0'') cs)"

definition ParseUint :: "bool \<Rightarrow> string \<Rightarrow> int res" where
  "ParseUint base0 s =
     (if s = [] then Inl ErrSyntax
      else
        let (base, digits) =
          (if \<not> base0 then (10, s)
           else if hd s \<noteq> CHR ''0'' then (10, s)
           else case base_prefix s of
               Some (b, cs) \<Rightarrow> if length s \<ge> 3 then (b, cs) else (8, tl s)
             | None \<Rightarrow> (8, tl s))
        in case uint_digits base0 base digits 0 of
             Inl err \<Rightarrow> Inl err
           | Inr n \<Rightarrow> (if base0 \<and> CHR ''_'' \<in> set digits \<and> \<not> underscoreOK s then Inl ErrSyntax else Inr n))"

text \<open>
  \<open>ParseInt(s, base, 64)\<close> for the bases 0 (\<open>base0\<close>) and 10: the number and the error.  A number out of range is
  clamped, one that is not well formed is 0.
\<close>

definition ParseInt :: "bool \<Rightarrow> string \<Rightarrow> int \<times> gerr option" where
  "ParseInt base0 s =
     (let neg = prefix ''-'' s;
          t = (if neg \<or> prefix ''+'' s then tl s else s);
          clamped = (if neg then - (9223372036854775808) else 9223372036854775807, Some (NumError s ErrRange))
      in if s = [] then (0, Some (NumError s ErrSyntax))
         else case ParseUint base0 t of
             Inl err \<Rightarrow> if err = ErrRange then clamped else (0, Some (NumError s err))
           | Inr n \<Rightarrow>
               (if \<not> neg \<and> n \<ge> 9223372036854775808 then clamped
                else if neg \<and> n > 9223372036854775808 then clamped
                else (if neg then - n else n, None)))"

lemma ParseInt_examples:
  "ParseInt False ''420'' = (420, None)" "ParseInt True ''0644'' = (420, None)" "ParseInt True ''0x1_F'' = (31, None)"
  "snd (ParseInt True ''1__0'') \<noteq> None" "ParseInt False ''-7'' = (-7, None)" "fst (ParseInt False ''12k'') = 0"
  "fst (ParseInt False ''99999999999999999999'') = 9223372036854775807" "ParseInt True ''-0b11'' = (-3, None)"
  by code_simp+

lemma decimal_examples: "decimal 404 = ''404''" "decimal (-10) = ''-10''" "decimal 0 = ''0''"
  by code_simp+

subsection \<open>Package net/http\<close>

text \<open>
  \<open>http.Header\<close> maps a canonical key to its values: unless the key has a character that no header may have,
  the first letter and those after a hyphen are upper case, the others lower case.
\<close>

type_synonym http_header = "(string, string list) fmap"

definition header_char :: "char \<Rightarrow> bool" where
  "header_char c \<longleftrightarrow> (let n = (of_char c :: nat) in 48 \<le> n \<and> n \<le> 57 \<or> 65 \<le> n \<and> n \<le> 90 \<or> 94 \<le> n \<and> n \<le> 122
     \<or> n \<in> {33, 35, 36, 37, 38, 39, 42, 43, 45, 46, 124, 126})"

fun canonical_letters :: "bool \<Rightarrow> string \<Rightarrow> string" where
  "canonical_letters upper [] = []"
| "canonical_letters upper (c # cs) =
     (let n = (of_char c :: nat);
          c' = (if upper \<and> 97 \<le> n \<and> n \<le> 122 then char_of (n - 32)
                else if \<not> upper \<and> 65 \<le> n \<and> n \<le> 90 then char_of (n + 32) else c)
      in c' # canonical_letters (c' = CHR ''-'') cs)"

definition CanonicalHeaderKey :: "string \<Rightarrow> string" where
  "CanonicalHeaderKey k = (if list_all header_char k then canonical_letters True k else k)"

definition Header_Set :: "string \<Rightarrow> string \<Rightarrow> http_header \<Rightarrow> http_header" where
  "Header_Set k v h = fmupd (CanonicalHeaderKey k) [v] h"

definition Header_Add :: "string \<Rightarrow> string \<Rightarrow> http_header \<Rightarrow> http_header" where
  "Header_Add k v h =
     fmupd (CanonicalHeaderKey k) ((case fmlookup h (CanonicalHeaderKey k) of None \<Rightarrow> [] | Some vs \<Rightarrow> vs) @ [v]) h"

lemma CanonicalHeaderKey_examples:
  "CanonicalHeaderKey ''content-TYPE'' = ''Content-Type''" "CanonicalHeaderKey ''a b'' = ''a b''"
  by code_simp+

record http_request =
  rq_Method :: string
  rq_URL :: url
  rq_Header :: http_header
  rq_Body :: "string option"

record 'b http_response =
  rs_StatusCode :: int
  rs_Body :: 'b

text \<open>\<open>NewRequest\<close> parses the URL; the methods the code passes are all valid.\<close>

definition NewRequest :: "url_lib \<Rightarrow> string \<Rightarrow> string \<Rightarrow> string option \<Rightarrow> http_request res" where
  "NewRequest U method address body =
     (case url_Parse U address of
        Inl err \<Rightarrow> Inl err
      | Inr u \<Rightarrow> Inr \<lparr>rq_Method = method, rq_URL = u, rq_Header = fmempty, rq_Body = body\<rparr>)"

definition SetBasicAuth :: "string \<Rightarrow> string \<Rightarrow> http_request \<Rightarrow> http_request" where
  "SetBasicAuth username password r =
     r\<lparr>rq_Header := Header_Set ''Authorization'' (''Basic '' @ b64_encode (username @ '':'' @ password)) (rq_Header r)\<rparr>"

subsection \<open>Percent-encoding\<close>

text \<open>\<open>url.PathUnescape\<close>.\<close>

fun path_unescape :: "string \<Rightarrow> string res" where
  "path_unescape [] = Inr []"
| "path_unescape (c # cs) =
     (if c \<noteq> CHR 0x25 then map_sum id (\<lambda>r. c # r) (path_unescape cs)
      else case cs of
          x # y # zs \<Rightarrow>
            (case (hex_value x, hex_value y) of
               (Some a, Some b) \<Rightarrow> map_sum id (\<lambda>r. byte (16 * a + b) # r) (path_unescape zs)
             | _ \<Rightarrow> Inl (ErrNew ''invalid URL escape''))
        | _ \<Rightarrow> Inl (ErrNew ''invalid URL escape''))"

lemma path_unescape_plain: "CHR 0x25 \<notin> set s \<Longrightarrow> path_unescape s = Inr s"
  by (induction s) auto

lemma path_unescape_examples: "path_unescape ''/a%20b'' = Inr ''/a b''" "\<not> is_ok (path_unescape ''5%'')"
  by code_simp+

end
