(* ===== verification/Webdav.thy ===== *)
theory Webdav
  imports Http
begin

text \<open>
  Package \<open>webdav\<close>: the medium of \<open>go/pkg/medium/webdav/webdav.go\<close> and the action handlers of
  \<open>go/pkg/medium/webdav/register.go\<close>.  The HTTP client and the server behind it are the function \<open>wd_Do\<close> on a
  state \<open>'s\<close>.  GET and PROPFIND are safe methods: what a reading operation does to the state is dropped.
  Parsing a body as XML, a time and an URL are parameters (\<open>dav_lib\<close>).
\<close>

subsection \<open>What a server answers to PROPFIND\<close>

text \<open>A resource type is a collection when the pointer of that name is not nil.\<close>

record dav_prop =
  dp_DisplayName :: string
  dp_ContentLength :: string
  dp_LastModified :: string
  dp_Collection :: bool

record dav_propstat =
  ds_Prop :: dav_prop
  ds_Status :: string

record dav_response =
  dr_Href :: string
  dr_PropStats :: "dav_propstat list"

record 'b dav_lib =
  dl_url :: url_lib
  dl_ReadAll :: "'b \<Rightarrow> string res"
  dl_Decode :: "'b \<Rightarrow> dav_response list res"
  dl_ParseTime :: "string \<Rightarrow> gotime res"

record ('s, 'b) dav_medium =
  wd_baseURL :: url
  wd_Do :: "http_request \<Rightarrow> 's \<Rightarrow> 'b http_response res \<times> 's"
  wd_username :: string
  wd_password :: string
  wd_headers :: http_header

record ('s, 'b) dav_options =
  wo_BaseURL :: string
  wo_Client :: "(http_request \<Rightarrow> 's \<Rightarrow> 'b http_response res \<times> 's) option"
  wo_Username :: string
  wo_Password :: string
  wo_Header :: http_header

subsection \<open>Opening\<close>

text \<open>\<open>default_client\<close> is an \<open>http.Client\<close> with a timeout of 30 seconds.\<close>

definition Webdav_New ::
  "'b dav_lib \<Rightarrow> (http_request \<Rightarrow> 's \<Rightarrow> 'b http_response res \<times> 's) \<Rightarrow> ('s, 'b) dav_options \<Rightarrow> ('s, 'b) dav_medium res" where
  "Webdav_New L default_client options =
     (if wo_BaseURL options = '''' then Inl (CoreE ''webdav.New'' [''base URL is required''] (Some ErrInvalid))
      else case url_Parse (dl_url L) (wo_BaseURL options) of
          Inl err \<Rightarrow> Inl (CoreE ''webdav.New'' [''base URL is invalid''] (Some err))
        | Inr baseURL \<Rightarrow>
            (if u_Scheme baseURL = '''' \<or> u_Host baseURL = ''''
             then Inl (CoreE ''webdav.New'' [''base URL must include scheme and host''] (Some ErrInvalid))
             else
               let client = (case wo_Client options of None \<Rightarrow> default_client | Some client \<Rightarrow> client)
               in Inr \<lparr>wd_baseURL = baseURL, wd_Do = client, wd_username = wo_Username options,
                    wd_password = wo_Password options, wd_headers = wo_Header options\<rparr>))"

subsection \<open>Requests\<close>

definition resource_url :: "go_env \<Rightarrow> ('s, 'b) dav_medium \<Rightarrow> string \<Rightarrow> url" where
  "resource_url E M filePath =
     (let u = wd_baseURL M; basePath = TrimSuffix E (u_Path u) ''/''; relativePath = cleanRelative E filePath
      in if relativePath = '''' then (if basePath = '''' then u\<lparr>u_Path := ''/'', u_RawPath := ''''\<rparr> else u)
         else if basePath = '''' then u\<lparr>u_Path := ''/'' @ relativePath, u_RawPath := ''''\<rparr>
         else u\<lparr>u_Path := basePath @ ''/'' @ relativePath, u_RawPath := ''''\<rparr>)"

definition resourceURL :: "go_env \<Rightarrow> 'b dav_lib \<Rightarrow> ('s, 'b) dav_medium \<Rightarrow> string \<Rightarrow> string" where
  "resourceURL E L M filePath = url_String (dl_url L) (resource_url E M filePath)"

definition requiredResourceURL ::
  "go_env \<Rightarrow> 'b dav_lib \<Rightarrow> ('s, 'b) dav_medium \<Rightarrow> string \<Rightarrow> string \<Rightarrow> string res" where
  "requiredResourceURL E L M operation filePath =
     (if cleanRelative E filePath = '''' then Inl (CoreE operation [''path is required''] (Some ErrInvalid))
      else Inr (resourceURL E L M filePath))"

text \<open>The headers of the medium are added in the order of a map range.\<close>

definition add_headers :: "go_env \<Rightarrow> http_header \<Rightarrow> http_header \<Rightarrow> http_header" where
  "add_headers E headers h =
     fold (\<lambda>key. fold (Header_Add key) (case fmlookup headers key of None \<Rightarrow> [] | Some values \<Rightarrow> values))
       (range_keys E (fmdom headers)) h"

definition newRequest ::
  "go_env \<Rightarrow> 'b dav_lib \<Rightarrow> ('s, 'b) dav_medium \<Rightarrow> string \<Rightarrow> string \<Rightarrow> string option \<Rightarrow> http_request res" where
  "newRequest E L M method filePath body =
     (case NewRequest (dl_url L) method (resourceURL E L M filePath) body of
        Inl err \<Rightarrow> Inl err
      | Inr request \<Rightarrow>
          (let request = request\<lparr>rq_Header := add_headers E (wd_headers M) (rq_Header request)\<rparr>
           in Inr (if wd_username M \<noteq> '''' \<or> wd_password M \<noteq> ''''
                then SetBasicAuth (wd_username M) (wd_password M) request else request)))"

definition dav_do ::
  "go_env \<Rightarrow> 'b dav_lib \<Rightarrow> ('s, 'b) dav_medium \<Rightarrow> string \<Rightarrow> string \<Rightarrow> string option \<Rightarrow> 's
     \<Rightarrow> 'b http_response res \<times> 's" where
  "dav_do E L M method filePath body s =
     (case newRequest E L M method filePath body of
        Inl err \<Rightarrow> (Inl err, s)
      | Inr request \<Rightarrow> wd_Do M request s)"

definition statusError :: "string \<Rightarrow> string \<Rightarrow> int \<Rightarrow> gerr" where
  "statusError operation resource statusCode =
     (if statusCode = 404 then CoreE operation [''not found: '', resource] (Some ErrNotExist)
      else if statusCode = 409 then CoreE operation [''conflict: '', resource] (Some ErrInvalid)
      else if statusCode = 405 then CoreE operation [''method not allowed: '', resource] (Some ErrExist)
      else CoreE operation [''unexpected HTTP status '', decimal statusCode, '' for '', resource] None)"

definition statusOK :: "int \<Rightarrow> int list \<Rightarrow> bool" where
  "statusOK statusCode allowed \<longleftrightarrow> list_ex (\<lambda>code. statusCode = code) allowed"

subsection \<open>PROPFIND\<close>

definition empty_prop :: dav_prop where
  "empty_prop = \<lparr>dp_DisplayName = '''', dp_ContentLength = '''', dp_LastModified = '''', dp_Collection = False\<rparr>"

definition response_prop :: "go_env \<Rightarrow> dav_response \<Rightarrow> dav_prop" where
  "response_prop E response =
     (case find (\<lambda>propstat. ds_Status propstat = '''' \<or> Contains E (ds_Status propstat) '' 200 '') (dr_PropStats response) of
        Some propstat \<Rightarrow> ds_Prop propstat
      | None \<Rightarrow> (case dr_PropStats response of [] \<Rightarrow> empty_prop | propstat # _ \<Rightarrow> ds_Prop propstat))"

definition dav_fileInfo :: "go_env \<Rightarrow> 'b dav_lib \<Rightarrow> dav_response \<Rightarrow> string \<Rightarrow> file_info" where
  "dav_fileInfo E L response fallbackPath =
     (let prop = response_prop E response; isDir = dp_Collection prop;
          sz = fst (ParseInt False (Trim E (dp_ContentLength prop)));
          modTime = (if dp_LastModified prop = '''' then zero_time
            else case dl_ParseTime L (dp_LastModified prop) of Inl err \<Rightarrow> zero_time | Inr parsedTime \<Rightarrow> parsedTime);
          name = (if dp_DisplayName prop = '''' then PathBase E (TrimSuffix E fallbackPath ''/'') else dp_DisplayName prop);
          name = (if name = ''.'' \<or> name = ''/'' then '''' else name)
      in if isDir then NewFileInfo name 0 (ModeDir OR 493) modTime isDir else NewFileInfo name sz 420 modTime isDir)"

definition hrefToPath :: "'b dav_lib \<Rightarrow> string \<Rightarrow> string" where
  "hrefToPath L href =
     (let whole = (case url_PathUnescape (dl_url L) href of Inr unescaped \<Rightarrow> unescaped | Inl err \<Rightarrow> href)
      in case url_Parse (dl_url L) href of
           Inl err \<Rightarrow> whole
         | Inr parsedURL \<Rightarrow>
             (if u_Path parsedURL = '''' then whole
              else case url_PathUnescape (dl_url L) (u_Path parsedURL) of
                  Inr unescaped \<Rightarrow> unescaped | Inl err \<Rightarrow> u_Path parsedURL))"

definition sameURLPath :: "go_env \<Rightarrow> string \<Rightarrow> string \<Rightarrow> bool" where
  "sameURLPath E left right \<longleftrightarrow> CleanPath E (''/'' @ left) ''/'' = CleanPath E (''/'' @ right) ''/''"

definition propfindBody :: string where
  "propfindBody = join_with (CHR 0x0A)
     [''<?xml version=\"1.0\" encoding=\"utf-8\"?>'', CHR 0x09 # ''<propfind xmlns=\"DAV:\">'', CHR 0x09 # ''  <prop>'',
      ''    <displayname/>'', ''    <getcontentlength/>'', ''    <getlastmodified/>'', ''    <resourcetype/>'', ''  </prop>'',
      ''</propfind>'']"

definition propfind ::
  "go_env \<Rightarrow> 'b dav_lib \<Rightarrow> ('s, 'b) dav_medium \<Rightarrow> string \<Rightarrow> string \<Rightarrow> 's \<Rightarrow> (dav_response list \<times> string) res" where
  "propfind E L M filePath depth s =
     (let op = ''webdav.propfind''; resource = resourceURL E L M filePath in
      case newRequest E L M ''PROPFIND'' filePath (Some propfindBody) of
        Inl err \<Rightarrow> Inl (CoreE op [''failed to build PROPFIND request''] (Some err))
      | Inr request \<Rightarrow>
          (let request = request\<lparr>rq_Header := Header_Set ''Content-Type'' ''application/xml; charset=utf-8''
                 (Header_Set ''Depth'' depth (rq_Header request))\<rparr>
           in case fst (wd_Do M request s) of
                Inl err \<Rightarrow> Inl (CoreE op [''PROPFIND failed: '', resource] (Some err))
              | Inr response \<Rightarrow>
                  (if rs_StatusCode response \<noteq> 207 then Inl (statusError op resource (rs_StatusCode response))
                   else case dl_Decode L (rs_Body response) of
                       Inl err \<Rightarrow> Inl (CoreE op [''decode failed: '', resource] (Some err))
                     | Inr responses \<Rightarrow> Inr (responses, hrefToPath L resource))))"

definition Webdav_Stat :: "go_env \<Rightarrow> 'b dav_lib \<Rightarrow> ('s, 'b) dav_medium \<Rightarrow> string \<Rightarrow> 's \<Rightarrow> file_info res" where
  "Webdav_Stat E L M filePath s =
     (let op = ''webdav.Stat'' in
      case requiredResourceURL E L M op filePath of
        Inl err \<Rightarrow> Inl err
      | Inr resource \<Rightarrow>
          (case propfind E L M filePath ''0'' s of
             Inl err \<Rightarrow> Inl err
           | Inr (responses, requestPath) \<Rightarrow>
               (case responses of
                  [] \<Rightarrow> Inl (CoreE op [''not found: '', resource] (Some ErrNotExist))
                | response # _ \<Rightarrow> Inr (dav_fileInfo E L response requestPath))))"

definition Webdav_IsFile :: "go_env \<Rightarrow> 'b dav_lib \<Rightarrow> ('s, 'b) dav_medium \<Rightarrow> string \<Rightarrow> 's \<Rightarrow> bool" where
  "Webdav_IsFile E L M filePath s \<longleftrightarrow>
     (if cleanRelative E filePath = '''' then False
      else case Webdav_Stat E L M filePath s of Inl err \<Rightarrow> False | Inr info \<Rightarrow> \<not> fi_isDir info)"

definition Webdav_Exists :: "go_env \<Rightarrow> 'b dav_lib \<Rightarrow> ('s, 'b) dav_medium \<Rightarrow> string \<Rightarrow> 's \<Rightarrow> bool" where
  "Webdav_Exists E L M filePath s \<longleftrightarrow>
     (if cleanRelative E filePath = '''' then False else is_ok (Webdav_Stat E L M filePath s))"

definition Webdav_IsDir :: "go_env \<Rightarrow> 'b dav_lib \<Rightarrow> ('s, 'b) dav_medium \<Rightarrow> string \<Rightarrow> 's \<Rightarrow> bool" where
  "Webdav_IsDir E L M filePath s \<longleftrightarrow>
     (if cleanRelative E filePath = '''' then False
      else case Webdav_Stat E L M filePath s of Inl err \<Rightarrow> False | Inr info \<Rightarrow> fi_isDir info)"

text \<open>\<open>slices.SortFunc\<close> need not keep the order of equal names.\<close>

definition Webdav_List :: "go_env \<Rightarrow> 'b dav_lib \<Rightarrow> ('s, 'b) dav_medium \<Rightarrow> string \<Rightarrow> 's \<Rightarrow> dir_entry list res" where
  "Webdav_List E L M filePath s =
     (case propfind E L M filePath ''1'' s of
        Inl err \<Rightarrow> Inl err
      | Inr (responses, requestPath) \<Rightarrow>
          (let children = filter (\<lambda>response. \<not> sameURLPath E (hrefToPath L (dr_Href response)) requestPath) responses;
               entries = map (\<lambda>response.
                 FileInfoToDirEntry (dav_fileInfo E L response (hrefToPath L (dr_Href response)))) children
           in Inr (sort_key de_name entries)))"

subsection \<open>Collections\<close>

definition mkcol :: "go_env \<Rightarrow> 'b dav_lib \<Rightarrow> ('s, 'b) dav_medium \<Rightarrow> string \<Rightarrow> 's \<Rightarrow> gerr option \<times> 's" where
  "mkcol E L M filePath s =
     (let op = ''webdav.EnsureDir''; resource = resourceURL E L M filePath in
      case dav_do E L M ''MKCOL'' filePath None s of
        (Inl err, s) \<Rightarrow> (Some (CoreE op [''MKCOL failed: '', resource] (Some err)), s)
      | (Inr response, s) \<Rightarrow>
          (let code = rs_StatusCode response in
           if code = 201 \<or> code = 200 \<or> code = 204 then (None, s)
           else if code = 405 then
             (if Webdav_IsDir E L M filePath s then (None, s) else (Some (statusError op resource code), s))
           else (Some (statusError op resource code), s)))"

fun mkcol_loop ::
  "go_env \<Rightarrow> 'b dav_lib \<Rightarrow> ('s, 'b) dav_medium \<Rightarrow> string list \<Rightarrow> string \<Rightarrow> 's \<Rightarrow> gerr option \<times> 's" where
  "mkcol_loop E L M [] current s = (None, s)"
| "mkcol_loop E L M (part # parts) current s =
     (let current = (if current = '''' then part else PathJoin E [current, part]) in
      case mkcol E L M current s of
        (Some err, s) \<Rightarrow> (Some err, s)
      | (None, s) \<Rightarrow> mkcol_loop E L M parts current s)"

definition Webdav_EnsureDir ::
  "go_env \<Rightarrow> 'b dav_lib \<Rightarrow> ('s, 'b) dav_medium \<Rightarrow> string \<Rightarrow> 's \<Rightarrow> gerr option \<times> 's" where
  "Webdav_EnsureDir E L M filePath s =
     (let relative = cleanRelative E filePath in
      if relative = '''' then (None, s) else mkcol_loop E L M (Split E relative ''/'') '''' s)"

definition dav_ensureParent ::
  "go_env \<Rightarrow> 'b dav_lib \<Rightarrow> ('s, 'b) dav_medium \<Rightarrow> string \<Rightarrow> 's \<Rightarrow> gerr option \<times> 's" where
  "dav_ensureParent E L M filePath s =
     (let relative = cleanRelative E filePath; parent = PathDir E relative in
      if parent = ''.'' \<or> parent = '''' then (None, s) else Webdav_EnsureDir E L M parent s)"

subsection \<open>Reading and writing\<close>

text \<open>What \<open>Read\<close> and \<open>ReadStream\<close> share: GET, and the body of a response that is OK.\<close>

definition get_body ::
  "go_env \<Rightarrow> 'b dav_lib \<Rightarrow> ('s, 'b) dav_medium \<Rightarrow> string \<Rightarrow> string \<Rightarrow> 's \<Rightarrow> ('b \<times> string) res" where
  "get_body E L M op filePath s =
     (case requiredResourceURL E L M op filePath of
        Inl err \<Rightarrow> Inl err
      | Inr resource \<Rightarrow>
          (case fst (dav_do E L M ''GET'' filePath None s) of
             Inl err \<Rightarrow> Inl (CoreE op [''GET failed: '', resource] (Some err))
           | Inr response \<Rightarrow>
               (if \<not> statusOK (rs_StatusCode response) [200]
                then Inl (statusError op resource (rs_StatusCode response))
                else Inr (rs_Body response, resource))))"

definition Webdav_Read :: "go_env \<Rightarrow> 'b dav_lib \<Rightarrow> ('s, 'b) dav_medium \<Rightarrow> string \<Rightarrow> 's \<Rightarrow> string res" where
  "Webdav_Read E L M filePath s =
     (case get_body E L M ''webdav.Read'' filePath s of
        Inl err \<Rightarrow> Inl err
      | Inr (body, resource) \<Rightarrow>
          (case dl_ReadAll L body of
             Inl err \<Rightarrow> Inl (CoreE ''webdav.Read'' [''read body failed: '', resource] (Some err))
           | Inr data \<Rightarrow> Inr data))"

definition Webdav_ReadStream :: "go_env \<Rightarrow> 'b dav_lib \<Rightarrow> ('s, 'b) dav_medium \<Rightarrow> string \<Rightarrow> 's \<Rightarrow> 'b res" where
  "Webdav_ReadStream E L M filePath s = map_sum id fst (get_body E L M ''webdav.ReadStream'' filePath s)"

definition putBytes ::
  "go_env \<Rightarrow> 'b dav_lib \<Rightarrow> ('s, 'b) dav_medium \<Rightarrow> string \<Rightarrow> string \<Rightarrow> 's \<Rightarrow> gerr option \<times> 's" where
  "putBytes E L M filePath data s =
     (let op = ''webdav.WriteMode'' in
      case requiredResourceURL E L M op filePath of
        Inl err \<Rightarrow> (Some err, s)
      | Inr resource \<Rightarrow>
          (case dav_ensureParent E L M filePath s of
             (Some err, s) \<Rightarrow> (Some err, s)
           | (None, s) \<Rightarrow>
               (case dav_do E L M ''PUT'' filePath (Some data) s of
                  (Inl err, s) \<Rightarrow> (Some (CoreE op [''PUT failed: '', resource] (Some err)), s)
                | (Inr response, s) \<Rightarrow>
                    (if \<not> statusOK (rs_StatusCode response) [200, 201, 204]
                     then (Some (statusError op resource (rs_StatusCode response)), s) else (None, s)))))"

definition Webdav_WriteMode ::
  "go_env \<Rightarrow> 'b dav_lib \<Rightarrow> ('s, 'b) dav_medium \<Rightarrow> string \<Rightarrow> string \<Rightarrow> file_mode \<Rightarrow> 's \<Rightarrow> gerr option \<times> 's" where
  "Webdav_WriteMode E L M filePath content mode s = putBytes E L M filePath content s"

definition Webdav_Write ::
  "go_env \<Rightarrow> 'b dav_lib \<Rightarrow> ('s, 'b) dav_medium \<Rightarrow> string \<Rightarrow> string \<Rightarrow> 's \<Rightarrow> gerr option \<times> 's" where
  "Webdav_Write E L M filePath content s = Webdav_WriteMode E L M filePath content 420 s"

subsection \<open>Removing and renaming\<close>

text \<open>The request at the end of \<open>Delete\<close> and \<open>DeleteAll\<close>.\<close>

definition delete_resource ::
  "go_env \<Rightarrow> 'b dav_lib \<Rightarrow> ('s, 'b) dav_medium \<Rightarrow> string \<Rightarrow> string \<Rightarrow> string \<Rightarrow> 's \<Rightarrow> gerr option \<times> 's" where
  "delete_resource E L M op filePath resource s =
     (case dav_do E L M ''DELETE'' filePath None s of
        (Inl err, s) \<Rightarrow> (Some (CoreE op [''DELETE failed: '', resource] (Some err)), s)
      | (Inr response, s) \<Rightarrow>
          (if \<not> statusOK (rs_StatusCode response) [200, 202, 204]
           then (Some (statusError op resource (rs_StatusCode response)), s) else (None, s)))"

definition Webdav_Delete :: "go_env \<Rightarrow> 'b dav_lib \<Rightarrow> ('s, 'b) dav_medium \<Rightarrow> string \<Rightarrow> 's \<Rightarrow> gerr option \<times> 's" where
  "Webdav_Delete E L M filePath s =
     (let op = ''webdav.Delete'' in
      case requiredResourceURL E L M op filePath of
        Inl err \<Rightarrow> (Some err, s)
      | Inr resource \<Rightarrow>
          (case Webdav_Stat E L M filePath s of
             Inl err \<Rightarrow> (Some err, s)
           | Inr info \<Rightarrow>
               (if fi_isDir info then
                  (case Webdav_List E L M filePath s of
                     Inl err \<Rightarrow> (Some err, s)
                   | Inr entries \<Rightarrow>
                       (if length entries > 0
                        then (Some (CoreE op [''collection not empty: '', resource] (Some ErrExist)), s)
                        else delete_resource E L M op filePath resource s))
                else delete_resource E L M op filePath resource s)))"

definition Webdav_DeleteAll :: "go_env \<Rightarrow> 'b dav_lib \<Rightarrow> ('s, 'b) dav_medium \<Rightarrow> string \<Rightarrow> 's \<Rightarrow> gerr option \<times> 's" where
  "Webdav_DeleteAll E L M filePath s =
     (let op = ''webdav.DeleteAll'' in
      case requiredResourceURL E L M op filePath of
        Inl err \<Rightarrow> (Some err, s)
      | Inr resource \<Rightarrow> delete_resource E L M op filePath resource s)"

definition Webdav_Rename ::
  "go_env \<Rightarrow> 'b dav_lib \<Rightarrow> ('s, 'b) dav_medium \<Rightarrow> string \<Rightarrow> string \<Rightarrow> 's \<Rightarrow> gerr option \<times> 's" where
  "Webdav_Rename E L M oldPath newPath s =
     (let op = ''webdav.Rename'' in
      case requiredResourceURL E L M op oldPath of
        Inl err \<Rightarrow> (Some err, s)
      | Inr source \<Rightarrow>
          (case requiredResourceURL E L M op newPath of
             Inl err \<Rightarrow> (Some err, s)
           | Inr destination \<Rightarrow>
               (case dav_ensureParent E L M newPath s of
                  (Some err, s) \<Rightarrow> (Some err, s)
                | (None, s) \<Rightarrow>
                    (case newRequest E L M ''MOVE'' oldPath None of
                       Inl err \<Rightarrow> (Some (CoreE op [''failed to build MOVE request''] (Some err)), s)
                     | Inr request \<Rightarrow>
                         (let request = request\<lparr>rq_Header := Header_Set ''Overwrite'' ''T''
                                (Header_Set ''Destination'' destination (rq_Header request))\<rparr>
                          in case wd_Do M request s of
                               (Inl err, s) \<Rightarrow> (Some (CoreE op [''MOVE failed: '', source] (Some err)), s)
                             | (Inr response, s) \<Rightarrow>
                                 (if \<not> statusOK (rs_StatusCode response) [201, 204]
                                  then (Some (statusError op source (rs_StatusCode response)), s)
                                  else (None, s)))))))"

subsection \<open>Files and writers\<close>

record dav_file =
  wf_name :: string
  wf_content :: string
  wf_offset :: nat
  wf_mode :: file_mode
  wf_modTime :: gotime

definition Webdav_Open :: "go_env \<Rightarrow> 'b dav_lib \<Rightarrow> ('s, 'b) dav_medium \<Rightarrow> string \<Rightarrow> 's \<Rightarrow> dav_file res" where
  "Webdav_Open E L M filePath s =
     (case Webdav_Read E L M filePath s of
        Inl err \<Rightarrow> Inl err
      | Inr content \<Rightarrow>
          (case Webdav_Stat E L M filePath s of
             Inl err \<Rightarrow> Inl err
           | Inr info \<Rightarrow>
               (if fi_isDir info
                then Inl (CoreE ''webdav.Open'' [''path is a collection: '', filePath] (Some ErrInvalid))
                else Inr \<lparr>wf_name = fi_name info, wf_content = content, wf_offset = 0, wf_mode = fi_mode info,
                  wf_modTime = fi_modTime info\<rparr>)))"

definition webdavFile_Stat :: "dav_file \<Rightarrow> file_info res" where
  "webdavFile_Stat file =
     Inr (NewFileInfo (wf_name file) (int (length (wf_content file))) (wf_mode file) (wf_modTime file) False)"

definition webdavFile_Read :: "nat \<Rightarrow> dav_file \<Rightarrow> string res \<times> dav_file" where
  "webdavFile_Read n file =
     (if wf_offset file \<ge> length (wf_content file) then (Inl ErrEOF, file)
      else let chunk = take n (drop (wf_offset file) (wf_content file))
           in (Inr chunk, file\<lparr>wf_offset := wf_offset file + length chunk\<rparr>))"

definition webdavFile_Close :: "dav_file \<Rightarrow> gerr option" where "webdavFile_Close file = None"

record dav_writer =
  dw_path :: string
  dw_data :: string
  dw_mode :: file_mode

definition Webdav_Create :: "go_env \<Rightarrow> 'b dav_lib \<Rightarrow> ('s, 'b) dav_medium \<Rightarrow> string \<Rightarrow> 's \<Rightarrow> dav_writer res" where
  "Webdav_Create E L M filePath s =
     (case requiredResourceURL E L M ''webdav.Create'' filePath of
        Inl err \<Rightarrow> Inl err
      | Inr resource \<Rightarrow> Inr \<lparr>dw_path = filePath, dw_data = '''', dw_mode = 420\<rparr>)"

definition Webdav_Append :: "go_env \<Rightarrow> 'b dav_lib \<Rightarrow> ('s, 'b) dav_medium \<Rightarrow> string \<Rightarrow> 's \<Rightarrow> dav_writer res" where
  "Webdav_Append E L M filePath s =
     (case requiredResourceURL E L M ''webdav.Append'' filePath of
        Inl err \<Rightarrow> Inl err
      | Inr resource \<Rightarrow>
          (case Webdav_Read E L M filePath s of
             Inr content \<Rightarrow> Inr \<lparr>dw_path = filePath, dw_data = content, dw_mode = 420\<rparr>
           | Inl err \<Rightarrow>
               (if \<not> err_is err ErrNotExist
                then Inl (CoreE ''webdav.Append'' [''read existing failed: '', filePath] (Some err))
                else Inr \<lparr>dw_path = filePath, dw_data = '''', dw_mode = 420\<rparr>)))"

definition Webdav_WriteStream :: "go_env \<Rightarrow> 'b dav_lib \<Rightarrow> ('s, 'b) dav_medium \<Rightarrow> string \<Rightarrow> 's \<Rightarrow> dav_writer res" where
  "Webdav_WriteStream E L M filePath s = Webdav_Create E L M filePath s"

definition webdavWriteCloser_Write :: "string \<Rightarrow> dav_writer \<Rightarrow> nat res \<times> dav_writer" where
  "webdavWriteCloser_Write data writer = (Inr (length data), writer\<lparr>dw_data := dw_data writer @ data\<rparr>)"

definition webdavWriteCloser_Close ::
  "go_env \<Rightarrow> 'b dav_lib \<Rightarrow> ('s, 'b) dav_medium \<Rightarrow> dav_writer \<Rightarrow> 's \<Rightarrow> gerr option \<times> 's" where
  "webdavWriteCloser_Close E L M writer s = Webdav_WriteMode E L M (dw_path writer) (dw_data writer) (dw_mode writer) s"

definition Webdav_medium :: "go_env \<Rightarrow> 'b dav_lib \<Rightarrow> ('s, 'b) dav_medium \<Rightarrow> ('s, dav_file, 'b, dav_writer) medium" where
  "Webdav_medium E L M =
     \<lparr>m_Read = Webdav_Read E L M, m_Write = (\<lambda>_. Webdav_Write E L M), m_WriteMode = (\<lambda>_. Webdav_WriteMode E L M),
      m_EnsureDir = Webdav_EnsureDir E L M, m_IsFile = Webdav_IsFile E L M, m_Delete = Webdav_Delete E L M,
      m_DeleteAll = Webdav_DeleteAll E L M, m_Rename = Webdav_Rename E L M, m_List = (\<lambda>_. Webdav_List E L M),
      m_Stat = (\<lambda>_. Webdav_Stat E L M), m_Open = (\<lambda>_. Webdav_Open E L M), m_Create = pure_open (Webdav_Create E L M),
      m_Append = pure_open (Webdav_Append E L M), m_ReadStream = (\<lambda>_. Webdav_ReadStream E L M),
      m_WriteStream = pure_open (Webdav_WriteStream E L M), m_Exists = Webdav_Exists E L M, m_IsDir = Webdav_IsDir E L M\<rparr>"

subsection \<open>Actions\<close>

definition dav_readAction :: "go_env \<Rightarrow> 'b dav_lib \<Rightarrow> (('s, 'b) dav_medium, 's) handler" where
  "dav_readAction E L now opts s =
     (case opt_medium opts ''medium'' of
        None \<Rightarrow> (Inl (CoreE ''webdav.readAction'' [''medium is required''] (Some ErrInvalid)), s)
      | Some medium \<Rightarrow>
          (case Webdav_Read E L medium (opt_string opts ''path'') s of
             Inl err \<Rightarrow> (Inl err, s) | Inr content \<Rightarrow> (Inr (VString content), s)))"

definition dav_writeAction :: "go_env \<Rightarrow> 'b dav_lib \<Rightarrow> (('s, 'b) dav_medium, 's) handler" where
  "dav_writeAction E L now opts s =
     (case opt_medium opts ''medium'' of
        None \<Rightarrow> (Inl (CoreE ''webdav.writeAction'' [''medium is required''] (Some ErrInvalid)), s)
      | Some medium \<Rightarrow>
          done_result (Webdav_Write E L medium (opt_string opts ''path'') (opt_string opts ''content'') s))"

definition dav_RegisterActions where
  "dav_RegisterActions E L Action c =
     map_option (register_all Action
       [(''core.io.webdav.read'', dav_readAction E L), (''core.io.webdav.write'', dav_writeAction E L)]) c"

end
