(* ===== verification/WebdavProps.thy ===== *)
theory WebdavProps
  imports Webdav SigilProps
begin

text \<open>
  Properties of the WebDAV medium over any server that answers as RFC 4918 says: what is written can be read, a
  collection is deleted only when it is empty, as long as no name has a percent sign, and \<open>EnsureDir\<close> makes what
  is missing.  The server in memory at the end meets the contract.
\<close>

subsection \<open>The contract of a server\<close>

record dav_view =
  dv_files :: "(string, string) fmap"
  dv_dirs :: "string set"

definition resources :: "dav_view \<Rightarrow> string set" where
  "resources v = fmdom' (dv_files v) \<union> dv_dirs v"

lemma mem_resources: "x \<in> resources v \<longleftrightarrow> has_key (dv_files v) x \<or> x \<in> dv_dirs v"
  by (simp add: resources_def has_key_def fmlookup_dom'_iff)

text \<open>A request on the resource of a path.\<close>

definition asks :: "url \<Rightarrow> http_request \<Rightarrow> string \<Rightarrow> string \<Rightarrow> bool" where
  "asks base r method p \<longleftrightarrow> rq_Method r = method \<and> rq_URL r = base\<lparr>u_Path := p, u_RawPath := ''''\<rparr>"

text \<open>
  A request that changes the server: with one of the statuses the change is done, with another one nothing has
  changed, and when no response arrived either may be the case.
\<close>

definition outcome :: "int list \<Rightarrow> 'b http_response res \<Rightarrow> dav_view \<Rightarrow> dav_view \<Rightarrow> dav_view \<Rightarrow> bool" where
  "outcome codes a v v' w \<longleftrightarrow>
     (case a of
        Inl err \<Rightarrow> v' = v \<or> v' = w
      | Inr response \<Rightarrow> if rs_StatusCode response \<in> set codes then v' = w else v' = v)"

definition put_file :: "string \<Rightarrow> string \<Rightarrow> dav_view \<Rightarrow> dav_view" where
  "put_file p c v = v\<lparr>dv_files := fmupd p c (dv_files v)\<rparr>"

definition add_dir :: "string \<Rightarrow> dav_view \<Rightarrow> dav_view" where
  "add_dir p v = v\<lparr>dv_dirs := insert p (dv_dirs v)\<rparr>"

definition remove_tree :: "string \<Rightarrow> dav_view \<Rightarrow> dav_view" where
  "remove_tree p v =
     \<lparr>dv_files = fmfilter (\<lambda>q. \<not> at_or_below p q) (dv_files v), dv_dirs = {q \<in> dv_dirs v. \<not> at_or_below p q}\<rparr>"

locale url_library =
  fixes U :: url_lib
  assumes Unescape_eq: "is_ok (url_PathUnescape U s) \<longleftrightarrow> is_ok (path_unescape s)"
      "path_unescape s = Inr t \<Longrightarrow> url_PathUnescape U s = Inr t"
    and Parse_String: "url_Parse U a = Inr u \<Longrightarrow> u_Scheme u \<noteq> '''' \<Longrightarrow> u_Host u \<noteq> '''' \<Longrightarrow> is_rooted p \<Longrightarrow>
      url_Parse U (url_String U (u\<lparr>u_Path := p, u_RawPath := ''''\<rparr>)) = Inr (u\<lparr>u_Path := p, u_RawPath := ''''\<rparr>)"

text \<open>
  GET reads a file and does not find what is not there; on a collection it may answer anything.  PROPFIND of depth
  0 tells collections from files; the one of depth 1 on a collection names at least its members, with or
  without a final slash.  What a DELETE of a collection with members does when it fails in part is left open;
  one that is only accepted (202) may not have been done yet.
\<close>

locale dav_server = go_runtime E + url_library "dl_url L"
  for E :: go_env and L :: "'b dav_lib" +
  fixes Do :: "http_request \<Rightarrow> 's \<Rightarrow> 'b http_response res \<times> 's"
    and base :: url
    and view :: "'s \<Rightarrow> dav_view"
    and up :: "'s \<Rightarrow> bool"
  assumes base_parsed: "\<exists>a. url_Parse (dl_url L) a = Inr base"
    and base_host: "u_Scheme base \<noteq> ''''" "u_Host base \<noteq> ''''"
    and up_Do: "up s \<Longrightarrow> Do r s = (a, s') \<Longrightarrow> up s'"
    and disjoint: "up s \<Longrightarrow> has_key (dv_files (view s)) p \<Longrightarrow> p \<notin> dv_dirs (view s)"
    and tree: "up s \<Longrightarrow> good (xs @ [n]) \<Longrightarrow> prefix (path_elems (u_Path base)) xs \<Longrightarrow> abs_path (xs @ [n]) \<in> resources (view s) \<Longrightarrow> abs_path xs \<in> dv_dirs (view s)"
    and named: "up s \<Longrightarrow> p \<in> resources (view s) \<Longrightarrow> \<exists>xs. good xs \<and> p = abs_path xs"
    and GET_file: "up s \<Longrightarrow> asks base r ''GET'' p \<Longrightarrow> fmlookup (dv_files (view s)) p = Some c \<Longrightarrow>
      \<exists>a. fst (Do r s) = Inr a \<and> rs_StatusCode a = 200 \<and> dl_ReadAll L (rs_Body a) = Inr c"
    and GET_none: "up s \<Longrightarrow> asks base r ''GET'' p \<Longrightarrow> p \<notin> resources (view s) \<Longrightarrow>
      \<exists>a. fst (Do r s) = Inr a \<and> rs_StatusCode a = 404"
    and PROPFIND_0: "up s \<Longrightarrow> asks base r ''PROPFIND'' p \<Longrightarrow> fmlookup (rq_Header r) ''Depth'' = Some [''0''] \<Longrightarrow>
      p \<in> resources (view s) \<Longrightarrow>
      \<exists>a d ds. fst (Do r s) = Inr a \<and> rs_StatusCode a = 207 \<and> dl_Decode L (rs_Body a) = Inr (d # ds) \<and>
        (dp_Collection (response_prop E d) \<longleftrightarrow> p \<in> dv_dirs (view s))"
    and PROPFIND_none: "up s \<Longrightarrow> asks base r ''PROPFIND'' p \<Longrightarrow> p \<notin> resources (view s) \<Longrightarrow>
      \<exists>a. fst (Do r s) = Inr a \<and> rs_StatusCode a = 404"
    and PROPFIND_1: "up s \<Longrightarrow> asks base r ''PROPFIND'' (abs_path xs) \<Longrightarrow> fmlookup (rq_Header r) ''Depth'' = Some [''1''] \<Longrightarrow>
      good (xs @ [n]) \<Longrightarrow> abs_path (xs @ [n]) \<in> resources (view s) \<Longrightarrow>
      \<exists>a ds d u. fst (Do r s) = Inr a \<and> rs_StatusCode a = 207 \<and> dl_Decode L (rs_Body a) = Inr ds \<and> d \<in> set ds \<and>
        url_Parse (dl_url L) (dr_Href d) = Inr u \<and> u_Path u \<in> {abs_path (xs @ [n]), abs_path (xs @ [n]) @ ''/''}"
    and PUT: "up s \<Longrightarrow> asks base r ''PUT'' p \<Longrightarrow> rq_Body r = Some c \<Longrightarrow> Do r s = (a, s') \<Longrightarrow>
      outcome [200, 201, 204] a (view s) (view s') (put_file p c (view s))"
    and MKCOL: "up s \<Longrightarrow> asks base r ''MKCOL'' p \<Longrightarrow> Do r s = (a, s') \<Longrightarrow>
      outcome [200, 201, 204] a (view s) (view s') (add_dir p (view s))"
    and DELETE: "up s \<Longrightarrow> asks base r ''DELETE'' p \<Longrightarrow> \<forall>q\<in>resources (view s). at_or_below p q \<longrightarrow> q = p \<Longrightarrow> Do r s = (a, s') \<Longrightarrow>
      outcome [200, 204] a (view s) (view s') (remove_tree p (view s)) \<or> view s' = remove_tree p (view s)"

text \<open>One that answers MKCOL with the statuses of section 9.3 of the RFC.\<close>

locale dav_reliable = dav_server +
  assumes MKCOL_exists: "up s \<Longrightarrow> asks base r ''MKCOL'' p \<Longrightarrow> p \<in> resources (view s) \<Longrightarrow>
      \<exists>a. fst (Do r s) = Inr a \<and> rs_StatusCode a = 405"
    and MKCOL_new: "up s \<Longrightarrow> asks base r ''MKCOL'' (abs_path (xs @ [n])) \<Longrightarrow> good (xs @ [n]) \<Longrightarrow>
      abs_path (xs @ [n]) \<notin> resources (view s) \<Longrightarrow> abs_path xs \<in> dv_dirs (view s) \<Longrightarrow>
      \<exists>a. fst (Do r s) = Inr a \<and> rs_StatusCode a = 201"

subsection \<open>The requests of a medium\<close>

definition base_path :: "string list \<Rightarrow> url \<Rightarrow> bool" where
  "base_path rs u \<longleftrightarrow> good rs \<and> u_Path u \<in> (if rs = [] then {'''', ''/''} else {abs_path rs, abs_path rs @ ''/''})"

lemma last_abs_path: "good (ys @ [y]) \<Longrightarrow> last (abs_path (ys @ [y])) = last y"
  by (cases "ys = []") (auto simp: abs_path_def join_with_append good_elem_def)

lemma no_final_slash: "good rs \<Longrightarrow> rs \<noteq> [] \<Longrightarrow> abs_path rs \<noteq> t @ ''/''"
proof
  assume g: "good rs" "rs \<noteq> []" "abs_path rs = t @ ''/''"
  then obtain ys y where rs: "rs = ys @ [y]" by (metis append_butlast_last_id)
  have "last y = slash" using last_abs_path [of ys y] g by (simp add: rs)
  moreover have "y \<noteq> []" "slash \<notin> set y" using g(1) by (simp_all add: rs good_elem_def)
  ultimately show False using last_in_set [of y] by auto
qed

lemma base_trim:
  assumes "base_path rs u"
  shows "trim_suffix (u_Path u) ''/'' = (if rs = [] then '''' else abs_path rs)"
proof (cases "rs = []")
  case True
  then show ?thesis using assms by (auto simp: base_path_def trim_suffix_def)
next
  case False
  then have "\<not> suffix ''/'' (abs_path rs)"
    using assms no_final_slash [of rs] by (auto simp: base_path_def suffix_def)
  then show ?thesis using False assms by (auto simp: base_path_def trim_suffix_def)
qed

lemma path_elems_slash: "path_elems (p @ ''/'') = path_elems p"
  using path_elems_append [of p "''''"] by (simp add: path_elems_def)

lemma base_elems: "base_path rs u \<Longrightarrow> path_elems (u_Path u) = rs"
  by (auto simp: base_path_def path_elems_slash split: if_splits) (simp_all add: path_elems_def)

lemma abs_path_append: "rs \<noteq> [] \<Longrightarrow> cs \<noteq> [] \<Longrightarrow> abs_path (rs @ cs) = abs_path rs @ ''/'' @ join_with slash cs"
  by (simp add: abs_path_def join_with_append)

locale dav_on_server = dav_server E L Do base view up
  for E :: go_env and L :: "'b dav_lib" and Do :: "http_request \<Rightarrow> 's \<Rightarrow> 'b http_response res \<times> 's"
    and base :: url and view :: "'s \<Rightarrow> dav_view" and up :: "'s \<Rightarrow> bool" +
  fixes M :: "('s, 'b) dav_medium"
    and rs :: "string list"
  assumes client: "wd_Do M = Do"
    and based: "wd_baseURL M = base" "base_path rs base"
begin

definition at :: "string \<Rightarrow> string" where
  "at q = abs_path (rs @ rel_parts q)"

lemma good_rs [simp]: "good rs"
  using based(2) by (simp add: base_path_def)

lemma resource_url: "cleanRelative E q \<noteq> '''' \<Longrightarrow> resource_url E M q = base\<lparr>u_Path := at q, u_RawPath := ''''\<rparr>"
  by (simp add: resource_url_def Let_def based(1) base_trim [OF based(2)] at_def cleanRelative_Nil abs_path_append)
     (auto simp: cleanRelative_parts abs_path_def)

lemma newRequest:
  assumes "cleanRelative E q \<noteq> ''''"
  obtains r where "newRequest E L M m q body = Inr r" "asks base r m (at q)" "rq_Body r = body"
proof -
  have "url_Parse (dl_url L) (resourceURL E L M q) = Inr (base\<lparr>u_Path := at q, u_RawPath := ''''\<rparr>)"
    using base_parsed base_host Parse_String by (auto simp: resourceURL_def resource_url [OF assms] at_def)
  then show thesis
    using that by (auto simp: newRequest_def NewRequest_def Let_def asks_def SetBasicAuth_def split: if_splits)
qed

lemma at_inject: "at p = at q \<longleftrightarrow> cleanRelative E p = cleanRelative E q"
  by (auto simp: at_def abs_path_inject cleanRelative_parts) (metis rel_parts_idem)

lemma required: "requiredResourceURL E L M op q = Inr u \<longleftrightarrow> cleanRelative E q \<noteq> '''' \<and> u = resourceURL E L M q"
  by (auto simp: requiredResourceURL_def)

lemma Depth_key [simp]: "CanonicalHeaderKey ''Depth'' = ''Depth''" "CanonicalHeaderKey ''Content-Type'' = ''Content-Type''"
  by code_simp+

text \<open>What a PROPFIND is answered.\<close>

definition reply :: "string \<Rightarrow> 'b http_response \<Rightarrow> (dav_response list \<times> string) res" where
  "reply q a =
     (if rs_StatusCode a \<noteq> 207 then Inl (statusError ''webdav.propfind'' (resourceURL E L M q) (rs_StatusCode a))
      else case dl_Decode L (rs_Body a) of
          Inl err \<Rightarrow> Inl (CoreE ''webdav.propfind'' [''decode failed: '', resourceURL E L M q] (Some err))
        | Inr ds \<Rightarrow> Inr (ds, hrefToPath L (resourceURL E L M q)))"

lemma propfind_request:
  assumes "cleanRelative E q \<noteq> ''''"
  obtains r where "asks base r ''PROPFIND'' (at q)" "fmlookup (rq_Header r) ''Depth'' = Some [depth]"
    "\<forall>s a. fst (Do r s) = Inr a \<longrightarrow> propfind E L M q depth s = reply q a"
proof -
  obtain r where r: "newRequest E L M ''PROPFIND'' q (Some propfindBody) = Inr r" "asks base r ''PROPFIND'' (at q)"
    using newRequest [OF assms] by metis
  let ?r = "r\<lparr>rq_Header := Header_Set ''Content-Type'' ''application/xml; charset=utf-8'' (Header_Set ''Depth'' depth (rq_Header r))\<rparr>"
  show thesis
  proof (rule that [of ?r])
    show "asks base ?r ''PROPFIND'' (at q)" using r(2) by (simp add: asks_def)
    show "fmlookup (rq_Header ?r) ''Depth'' = Some [depth]" by (simp add: Header_Set_def)
  qed (simp add: propfind_def Let_def r(1) client reply_def)
qed

lemma Stat_found:
  assumes "up s" "cleanRelative E q \<noteq> ''''" "at q \<in> resources (view s)"
  obtains info where "Webdav_Stat E L M q s = Inr info" "fi_isDir info \<longleftrightarrow> at q \<in> dv_dirs (view s)"
proof -
  obtain r where r: "asks base r ''PROPFIND'' (at q)" "fmlookup (rq_Header r) ''Depth'' = Some [''0'']"
    and p: "\<forall>s a. fst (Do r s) = Inr a \<longrightarrow> propfind E L M q ''0'' s = reply q a"
    by (rule propfind_request [OF assms(2)])
  from PROPFIND_0 [OF assms(1) r assms(3)] obtain a d ds where
    "fst (Do r s) = Inr a" "rs_StatusCode a = 207" "dl_Decode L (rs_Body a) = Inr (d # ds)"
    "dp_Collection (response_prop E d) \<longleftrightarrow> at q \<in> dv_dirs (view s)" by blast
  then show thesis
    using that assms(2) p by (auto simp: Webdav_Stat_def reply_def requiredResourceURL_def dav_fileInfo_def Let_def)
qed

lemma Stat_missing:
  assumes "up s" "cleanRelative E q \<noteq> ''''" "at q \<notin> resources (view s)"
  shows "\<not> is_ok (Webdav_Stat E L M q s)"
proof -
  obtain r where r: "asks base r ''PROPFIND'' (at q)"
    and p: "\<forall>s a. fst (Do r s) = Inr a \<longrightarrow> propfind E L M q ''0'' s = reply q a"
    by (rule propfind_request [OF assms(2)])
  from PROPFIND_none [OF assms(1) r assms(3)] show ?thesis
    using assms(2) p by (auto simp: Webdav_Stat_def reply_def requiredResourceURL_def Let_def)
qed

lemma IsDir_iff:
  assumes "up s"
  shows "Webdav_IsDir E L M q s \<longleftrightarrow> cleanRelative E q \<noteq> '''' \<and> at q \<in> dv_dirs (view s)"
proof (cases "cleanRelative E q \<noteq> '''' \<and> at q \<in> resources (view s)")
  case True
  then obtain info where "Webdav_Stat E L M q s = Inr info" "fi_isDir info \<longleftrightarrow> at q \<in> dv_dirs (view s)"
    using Stat_found [OF assms] by metis
  then show ?thesis by (simp add: Webdav_IsDir_def)
next
  case False
  then show ?thesis using Stat_missing [OF assms, of q]
    by (auto simp: Webdav_IsDir_def resources_def is_ok_def split: sum.splits)
qed

end

subsection \<open>Making collections\<close>

text \<open>The elements of a clean relative path, as far as they are from others of its kind.\<close>

definition plain :: "string list \<Rightarrow> bool" where
  "plain cs \<longleftrightarrow> good cs \<and> list_all (\<lambda>e. CHR 0x5C \<notin> set e) cs"

lemma plain_append [simp]: "plain (cs @ ds) \<longleftrightarrow> plain cs \<and> plain ds"
  by (auto simp: plain_def)

lemma plain_good: "plain cs \<Longrightarrow> good cs"
  by (simp add: plain_def)

lemma plain_Nil [simp]: "plain []"
  by (simp add: plain_def)

lemma plain_Cons: "plain (c # cs) \<longleftrightarrow> plain [c] \<and> plain cs"
  by (auto simp: plain_def)

lemma plain_parts [simp]: "plain (rel_parts q)"
  using no_backslash_parts [of _ q] by (auto simp: plain_def list.pred_set [of "\<lambda>e. CHR 0x5C \<notin> set e"])

lemma rel_parts_plain: "plain cs \<Longrightarrow> rel_parts (join_with slash cs) = cs"
  by (simp add: plain_def rel_parts_norm)

text \<open>The paths of the collections below \<open>base\<close> that the loop over \<open>ps\<close> makes.\<close>

definition chain :: "string list \<Rightarrow> string list \<Rightarrow> string set" where
  "chain base ps = {abs_path (base @ es) | es. es \<noteq> [] \<and> prefix es ps}"

lemma chain_Nil [simp]: "chain base [] = {}"
  by (auto simp: chain_def)

lemma chain_Cons: "chain base (p # ps) = insert (abs_path (base @ [p])) (chain (base @ [p]) ps)"
proof -
  have "es \<noteq> [] \<and> prefix es (p # ps) \<longleftrightarrow> (\<exists>fs. es = p # fs \<and> prefix fs ps)" for es
    by (cases es) auto
  then show ?thesis
    by (force simp: chain_def)
qed

context dav_on_server
begin

lemma do_request:
  assumes "cleanRelative E q \<noteq> ''''"
  obtains r where "dav_do E L M m q body = Do r" "asks base r m (at q)" "rq_Body r = body"
proof -
  obtain r where r: "newRequest E L M m q body = Inr r" "asks base r m (at q)" "rq_Body r = body"
    by (rule newRequest [OF assms])
  show thesis by (rule that [OF _ r(2,3)]) (simp add: dav_do_def r(1) client fun_eq_iff)
qed

lemma mkcol_frame:
  assumes "up s" "cleanRelative E c \<noteq> ''''" "mkcol E L M c s = (e, s')"
  shows "up s' \<and> (view s' = view s \<or> view s' = add_dir (at c) (view s)) \<and> (e = None \<longrightarrow> at c \<in> dv_dirs (view s'))"
proof -
  obtain r where r: "dav_do E L M ''MKCOL'' c None = Do r" "asks base r ''MKCOL'' (at c)"
    by (rule do_request [OF assms(2)])
  obtain a t where d: "Do r s = (a, t)" by force
  have t: "up t" using up_Do [OF assms(1) d] .
  have st: "s' = t" and e: "e = None \<Longrightarrow> \<exists>b. a = Inr b \<and> (rs_StatusCode b \<in> {200, 201, 204} \<or> Webdav_IsDir E L M c t)"
    using assms(3) d by (auto simp: mkcol_def Let_def r split: sum.splits if_splits)
  from MKCOL [OF assms(1) r(2) d] show ?thesis
    using t e IsDir_iff [OF t, of c] unfolding st by (auto simp: outcome_def add_dir_def split: sum.splits if_splits)
qed

lemma at_join: "plain cs \<Longrightarrow> at (join_with slash cs) = abs_path (rs @ cs)"
  by (simp add: at_def rel_parts_plain)

lemma current_join:
  assumes "plain (ds @ [p])"
  shows "(if join_with slash ds = '''' then p else PathJoin E [join_with slash ds, p]) = join_with slash (ds @ [p])"
proof (cases "ds = []")
  case False
  have "norm_path (join_with slash (ds @ [p]))" using assms by (intro norm_path_join) (auto simp: plain_def)
  moreover have "join_with slash (ds @ [p]) = join_with slash ds @ ''/'' @ p" using False by (simp add: join_with_append)
  ultimately show ?thesis
    using False assms by (simp add: path_join_def Let_def good_elem_def plain_def join_Nil_iff)
qed simp

lemma join_plain_nonempty: "plain (ds @ [p]) \<Longrightarrow> cleanRelative E (join_with slash (ds @ [p])) \<noteq> ''''"
  using rel_parts_plain [of "ds @ [p]"] by (simp add: cleanRelative_Nil)

lemma mkcol_loop_frame:
  assumes "up s" "plain (ds @ ps)" "mkcol_loop E L M ps (join_with slash ds) s = (e, s')"
  shows "up s' \<and> dv_files (view s') = dv_files (view s) \<and> dv_dirs (view s) \<subseteq> dv_dirs (view s') \<and>
    dv_dirs (view s') \<subseteq> dv_dirs (view s) \<union> chain (rs @ ds) ps \<and> (e = None \<longrightarrow> chain (rs @ ds) ps \<subseteq> dv_dirs (view s'))"
  using assms
proof (induction ps arbitrary: ds s)
  case (Cons p ps)
  let ?c = "join_with slash (ds @ [p])"
  have pl: "plain (ds @ [p])" "plain ((ds @ [p]) @ ps)" using Cons.prems(2) by (simp_all add: plain_Cons [of p ps])
  obtain f t where m: "mkcol E L M ?c s = (f, t)" by force
  note mk = mkcol_frame [OF Cons.prems(1) join_plain_nonempty [OF pl(1)] m, unfolded at_join [OF pl(1)]]
  have loop: "mkcol_loop E L M (p # ps) (join_with slash ds) s =
      (case f of Some err \<Rightarrow> (Some err, t) | None \<Rightarrow> mkcol_loop E L M ps ?c t)"
    by (simp add: current_join [OF pl(1)] m Let_def del: core_eqs split: option.splits)
  show ?case
  proof (cases f)
    case None
    then have "mkcol_loop E L M ps ?c t = (e, s')" using Cons.prems(3) loop by simp
    from Cons.IH [OF _ pl(2) this] show ?thesis
      using mk None by (auto simp: chain_Cons add_dir_def)
  next
    case (Some err)
    then show ?thesis using Cons.prems(3) loop mk by (auto simp: chain_Cons add_dir_def)
  qed
qed (simp add: chain_def)

lemma split_relative: "cleanRelative E q \<noteq> '''' \<Longrightarrow> Split E (cleanRelative E q) ''/'' = rel_parts q"
  by (simp add: cleanRelative_parts join_Nil_iff split_join_good)

lemma EnsureDir_frame:
  assumes "up s" "Webdav_EnsureDir E L M q s = (e, s')"
  shows "up s' \<and> dv_files (view s') = dv_files (view s) \<and> dv_dirs (view s) \<subseteq> dv_dirs (view s') \<and>
    dv_dirs (view s') \<subseteq> dv_dirs (view s) \<union> chain rs (rel_parts q) \<and> (e = None \<longrightarrow> chain rs (rel_parts q) \<subseteq> dv_dirs (view s'))"
proof (cases "cleanRelative E q = ''''")
  case True
  then show ?thesis using assms by (auto simp: Webdav_EnsureDir_def cleanRelative_Nil)
next
  case False
  then show ?thesis
    using assms(2) mkcol_loop_frame [OF assms(1), of "[]" "rel_parts q" e s']
    by (simp add: Webdav_EnsureDir_def Let_def split_relative del: Split_eq)
qed

lemma ensureParent_frame:
  assumes "up s" "dav_ensureParent E L M q s = (e, s')"
  shows "up s' \<and> dv_files (view s') = dv_files (view s)"
  using assms(2) assms(1) EnsureDir_frame [OF assms(1), of "PathDir E (cleanRelative E q)" e s']
  by (auto simp: dav_ensureParent_def Let_def simp del: PathDir_eq split: if_splits)

end

subsection \<open>Reading what was written\<close>

context dav_on_server
begin

lemma get_body_found:
  assumes "cleanRelative E q \<noteq> ''''" "up s"
  shows "fmlookup (dv_files (view s)) (at q) = Some c \<Longrightarrow> \<exists>b u. get_body E L M op q s = Inr (b, u) \<and> dl_ReadAll L b = Inr c"
    "at q \<notin> resources (view s) \<Longrightarrow> \<not> is_ok (get_body E L M op q s)"
proof -
  obtain r where r: "dav_do E L M ''GET'' q None = Do r" "asks base r ''GET'' (at q)"
    by (rule do_request [OF assms(1)])
  show "\<exists>b u. get_body E L M op q s = Inr (b, u) \<and> dl_ReadAll L b = Inr c" if "fmlookup (dv_files (view s)) (at q) = Some c"
    using GET_file [OF assms(2) r(2) that] assms(1)
    by (auto simp: get_body_def requiredResourceURL_def r(1) statusOK_def)
  show "\<not> is_ok (get_body E L M op q s)" if "at q \<notin> resources (view s)"
    using GET_none [OF assms(2) r(2) that] assms(1)
    by (auto simp: get_body_def requiredResourceURL_def r(1) statusOK_def)
qed

lemma Read_file:
  "up s \<Longrightarrow> cleanRelative E q \<noteq> '''' \<Longrightarrow> fmlookup (dv_files (view s)) (at q) = Some c \<Longrightarrow> Webdav_Read E L M q s = Inr c"
  using get_body_found(1) [of q s c "''webdav.Read''"] by (auto simp: Webdav_Read_def)

lemma IsFile_iff:
  assumes "up s"
  shows "Webdav_IsFile E L M q s \<longleftrightarrow> cleanRelative E q \<noteq> '''' \<and> has_key (dv_files (view s)) (at q)"
proof (cases "cleanRelative E q \<noteq> '''' \<and> at q \<in> resources (view s)")
  case True
  then obtain info where "Webdav_Stat E L M q s = Inr info" "fi_isDir info \<longleftrightarrow> at q \<in> dv_dirs (view s)"
    using Stat_found [OF assms] by metis
  then show ?thesis
    using True disjoint [OF assms, of "at q"] by (auto simp: Webdav_IsFile_def resources_def fmdom'_notI has_key_def fmlookup_dom'_iff)
next
  case False
  then show ?thesis using Stat_missing [OF assms, of q]
    by (auto simp: Webdav_IsFile_def resources_def is_ok_def has_key_def fmlookup_dom'_iff split: sum.splits)
qed

lemma WriteMode_frame:
  assumes "up s" "Webdav_WriteMode E L M p c md s = (e, s')"
  shows "up s'" "e = None \<Longrightarrow> cleanRelative E p \<noteq> '''' \<and> fmlookup (dv_files (view s')) (at p) = Some c"
    "x \<noteq> at p \<Longrightarrow> fmlookup (dv_files (view s')) x = fmlookup (dv_files (view s)) x"
proof -
  have "up s' \<and> (e = None \<longrightarrow> cleanRelative E p \<noteq> '''' \<and> fmlookup (dv_files (view s')) (at p) = Some c) \<and>
    (\<forall>x. x \<noteq> at p \<longrightarrow> fmlookup (dv_files (view s')) x = fmlookup (dv_files (view s)) x)"
  proof (cases "cleanRelative E p = ''''")
    case True
    then show ?thesis using assms by (auto simp: Webdav_WriteMode_def putBytes_def requiredResourceURL_def Let_def)
  next
    case False
    obtain f t where f: "dav_ensureParent E L M p s = (f, t)" by force
    note parent = ensureParent_frame [OF assms(1) f]
    obtain r where r: "dav_do E L M ''PUT'' p (Some c) = Do r" "asks base r ''PUT'' (at p)" "rq_Body r = Some c"
      by (rule do_request [OF False])
    obtain a u where d: "Do r t = (a, u)" by force
    show ?thesis
    proof (cases f)
      case None
      have "s' = u" "e = None \<Longrightarrow> \<exists>b. a = Inr b \<and> rs_StatusCode b \<in> {200, 201, 204}"
        using assms(2) None f d False
        by (auto simp: Webdav_WriteMode_def putBytes_def requiredResourceURL_def Let_def r(1) statusOK_def split: sum.splits if_splits)
      then show ?thesis
        using PUT [OF _ r(2,3) d] up_Do [OF _ d] parent False
        by (auto simp: outcome_def put_file_def split: sum.splits if_splits)
    next
      case (Some err)
      then show ?thesis using assms f parent False by (auto simp: Webdav_WriteMode_def putBytes_def requiredResourceURL_def Let_def)
    qed
  qed
  then show "up s'" "e = None \<Longrightarrow> cleanRelative E p \<noteq> '''' \<and> fmlookup (dv_files (view s')) (at p) = Some c"
    "x \<noteq> at p \<Longrightarrow> fmlookup (dv_files (view s')) x = fmlookup (dv_files (view s)) x" by blast+
qed

lemma Write_Read:
  assumes "up s" "Webdav_WriteMode E L M p c md s = (e, s')"
  shows "(e = None \<longrightarrow> (\<forall>q. cleanRelative E q = cleanRelative E p \<longrightarrow> Webdav_Read E L M q s' = Inr c)) \<and>
    (\<forall>q. cleanRelative E q \<noteq> cleanRelative E p \<and> Webdav_IsFile E L M q s \<longrightarrow> Webdav_Read E L M q s' = Webdav_Read E L M q s)"
proof (intro conjI impI allI)
  note w = WriteMode_frame [OF assms]
  fix q assume "e = None" "cleanRelative E q = cleanRelative E p"
  then show "Webdav_Read E L M q s' = Inr c" using w(1,2) by (metis Read_file at_inject)
next
  note w = WriteMode_frame [OF assms]
  fix q assume q: "cleanRelative E q \<noteq> cleanRelative E p \<and> Webdav_IsFile E L M q s"
  then obtain d where "cleanRelative E q \<noteq> ''''" "fmlookup (dv_files (view s)) (at q) = Some d"
    using IsFile_iff [OF assms(1)] by (auto simp: has_key_def)
  moreover have "at q \<noteq> at p" using q by (simp add: at_inject)
  ultimately show "Webdav_Read E L M q s' = Webdav_Read E L M q s"
    using w(1,3) assms(1) by (simp add: Read_file)
qed

end

subsection \<open>Deleting\<close>

lemma same_path:
  "good xs \<Longrightarrow> path_clean (slash # abs_path xs) = abs_path xs" "good xs \<Longrightarrow> path_clean (slash # abs_path xs @ ''/'') = abs_path xs"
  using path_elems_slash [of "abs_path xs"] by (simp_all add: clean_slash clean_elems_good)

text \<open>A server whose answer to a PROPFIND of depth 1 on \<open>xs\<close> names only this collection and members of it.\<close>

definition lists_members ::
  "'b dav_lib \<Rightarrow> (http_request \<Rightarrow> 's \<Rightarrow> 'b http_response res \<times> 's) \<Rightarrow> url \<Rightarrow> ('s \<Rightarrow> dav_view) \<Rightarrow> string list \<Rightarrow> 's \<Rightarrow> bool" where
  "lists_members L Do base view xs s \<longleftrightarrow> (\<forall>r a ds d. asks base r ''PROPFIND'' (abs_path xs) \<and>
     fmlookup (rq_Header r) ''Depth'' = Some [''1''] \<and> fst (Do r s) = Inr a \<and> dl_Decode L (rs_Body a) = Inr ds \<and> d \<in> set ds \<longrightarrow>
     (\<exists>u n. url_Parse (dl_url L) (dr_Href d) = Inr u \<and> (u_Path u \<in> {abs_path xs, abs_path xs @ ''/''} \<or>
        good_elem n \<and> abs_path (xs @ [n]) \<in> resources (view s) \<and> u_Path u \<in> {abs_path (xs @ [n]), abs_path (xs @ [n]) @ ''/''})))"

lemma path_unescape_append: "path_unescape a = Inr b \<Longrightarrow> path_unescape (a @ c) = map_sum id (\<lambda>r. b @ r) (path_unescape c)"
proof (induction a arbitrary: b rule: path_unescape.induct)
  case (2 x xs)
  show ?case
  proof (cases "x = CHR 0x25")
    case True
    then obtain y z zs where xs: "xs = y # z # zs" using "2.prems" by (auto split: list.splits)
    then obtain m n r where "hex_value y = Some m" "hex_value z = Some n" "path_unescape zs = Inr r" "b = byte (16 * m + n) # r"
      using True "2.prems" by (cases "path_unescape zs") (auto split: option.splits)
    then show ?thesis
      using "2.IH"(2) [of y "z # zs" z zs] True xs by (cases "path_unescape c") auto
  next
    case False
    then show ?thesis using 2 by (cases "path_unescape xs"; cases "path_unescape c") auto
  qed
qed (cases "path_unescape c"; simp)

context dav_on_server
begin

lemma hrefToPath_plain:
  assumes "url_Parse (dl_url L) h = Inr u" "u_Path u \<noteq> ''''" "CHR 0x25 \<notin> set (u_Path u)"
  shows "hrefToPath L h = u_Path u"
  using assms Unescape_eq(2) [OF path_unescape_plain [OF assms(3)]] by (simp add: hrefToPath_def Let_def)

lemma requestPath:
  assumes "cleanRelative E q \<noteq> ''''" "CHR 0x25 \<notin> set (at q)"
  shows "hrefToPath L (resourceURL E L M q) = at q"
proof -
  have "url_Parse (dl_url L) (resourceURL E L M q) = Inr (base\<lparr>u_Path := at q, u_RawPath := ''''\<rparr>)"
    using base_parsed base_host Parse_String by (auto simp: resourceURL_def resource_url [OF assms(1)] at_def)
  from hrefToPath_plain [OF this] assms(2) show ?thesis by (simp add: at_def abs_path_def)
qed

lemma sort_key_Nil: "sort_key f xs = [] \<longleftrightarrow> xs = []"
  by (metis length_0_conv length_sort)

text \<open>A collection with a member is not empty for \<open>List\<close>.\<close>

lemma List_member:
  assumes "up s" "cleanRelative E q \<noteq> ''''" "good_elem n" "abs_path (rs @ rel_parts q @ [n]) \<in> resources (view s)"
    "CHR 0x25 \<notin> set (abs_path (rs @ rel_parts q @ [n]))" "CHR 0x25 \<notin> set (at q)"
  shows "Webdav_List E L M q s \<noteq> Inr []"
proof -
  let ?c = "abs_path ((rs @ rel_parts q) @ [n])"
  obtain r where r: "asks base r ''PROPFIND'' (at q)" "fmlookup (rq_Header r) ''Depth'' = Some [''1'']"
    and p: "\<forall>s a. fst (Do r s) = Inr a \<longrightarrow> propfind E L M q ''1'' s = reply q a"
    by (rule propfind_request [OF assms(2)])
  obtain a ds d u where a: "fst (Do r s) = Inr a" "rs_StatusCode a = 207" "dl_Decode L (rs_Body a) = Inr ds" and d: "d \<in> set ds"
    and u: "url_Parse (dl_url L) (dr_Href d) = Inr u" "u_Path u \<in> {?c, ?c @ ''/''}"
    using PROPFIND_1 [OF assms(1) r(1) [unfolded at_def] r(2), of n] assms(3,4) by auto
  have "hrefToPath L (dr_Href d) = u_Path u"
    using u(2) assms(5) by (intro hrefToPath_plain [OF u(1)]) (auto simp: abs_path_def)
  moreover have "path_clean (slash # u_Path u) \<noteq> path_clean (slash # at q)"
    using u(2) assms(3) by (auto simp: at_def same_path abs_path_inject)
  ultimately have "\<not> sameURLPath E (hrefToPath L (dr_Href d)) (at q)" by (simp add: sameURLPath_def)
  then show ?thesis
    using p a d requestPath [OF assms(2,6)] by (auto simp: Webdav_List_def reply_def Let_def filter_empty_conv sort_key_Nil)
qed

text \<open>
  A collection whose members all have names that decode to a dot, on a server whose answer names only the collection
  and its members, is empty for \<open>List\<close>.
\<close>

lemma hrefToPath_dot:
  assumes "url_Parse (dl_url L) h = Inr u" "u_Path u \<in> {abs_path (xs @ [n]), abs_path (xs @ [n]) @ ''/''}"
    "good xs" "xs \<noteq> []" "CHR 0x25 \<notin> set (abs_path xs)" "path_unescape n = Inr ''.''"
  shows "path_clean (slash # hrefToPath L h) = abs_path xs"
proof -
  have snoc: "abs_path (xs @ [n]) = abs_path xs @ slash # n" using assms(4) by (simp add: abs_path_def join_with_append)
  obtain t where t: "t \<in> {[], ''/''}" "u_Path u = abs_path xs @ slash # n @ t" using assms(2) by (auto simp: snoc)
  have "path_unescape (abs_path xs @ slash # n @ t) = Inr (abs_path xs @ slash # ''.'' @ t)"
    using path_unescape_append [OF path_unescape_plain [OF assms(5)], of "slash # n @ t"]
      path_unescape_append [OF assms(6), of t] t(1) by (auto simp: map_sum_def)
  then have "hrefToPath L h = abs_path xs @ slash # ''.'' @ t"
    using assms(1) t(2) Unescape_eq(2) by (simp add: hrefToPath_def Let_def)
  moreover have dot: "path_elems ''.'' = []" "path_elems ''./'' = []" by code_simp+
  ultimately show ?thesis
    using t(1) assms(3) dot by (auto simp: clean_slash path_elems_append clean_elems_good)
qed

lemma List_dots:
  assumes "up s" "cleanRelative E q \<noteq> ''''" "CHR 0x25 \<notin> set (at q)" "lists_members L Do base view (rs @ rel_parts q) s"
    "good_elem n" "abs_path (rs @ rel_parts q @ [n]) \<in> resources (view s)"
    "\<And>n. good_elem n \<Longrightarrow> abs_path (rs @ rel_parts q @ [n]) \<in> resources (view s) \<Longrightarrow> path_unescape n = Inr ''.''"
  shows "Webdav_List E L M q s = Inr []"
proof -
  let ?xs = "rs @ rel_parts q"
  have xs: "good ?xs" "?xs \<noteq> []" using assms(2) by (simp_all add: cleanRelative_Nil)
  obtain r where r: "asks base r ''PROPFIND'' (abs_path ?xs)" "fmlookup (rq_Header r) ''Depth'' = Some [''1'']"
    and p: "\<forall>s a. fst (Do r s) = Inr a \<longrightarrow> propfind E L M q ''1'' s = reply q a"
    by (rule propfind_request [OF assms(2), unfolded at_def])
  obtain a ds where a: "fst (Do r s) = Inr a" "rs_StatusCode a = 207" "dl_Decode L (rs_Body a) = Inr ds"
    using PROPFIND_1 [OF assms(1) r, of n] xs assms(5,6) by auto
  have "sameURLPath E (hrefToPath L (dr_Href d)) (at q)" if d: "d \<in> set ds" for d
  proof -
    obtain u m where u: "url_Parse (dl_url L) (dr_Href d) = Inr u" "u_Path u \<in> {abs_path ?xs, abs_path ?xs @ ''/''} \<or>
        good_elem m \<and> abs_path (?xs @ [m]) \<in> resources (view s) \<and> u_Path u \<in> {abs_path (?xs @ [m]), abs_path (?xs @ [m]) @ ''/''}"
      using assms(4) r a(1,3) d unfolding lists_members_def by blast
    from u(2) have "path_clean (slash # hrefToPath L (dr_Href d)) = abs_path ?xs"
    proof (elim disjE conjE)
      assume p: "u_Path u \<in> {abs_path ?xs, abs_path ?xs @ ''/''}"
      then have "hrefToPath L (dr_Href d) = u_Path u"
        using assms(3) by (intro hrefToPath_plain [OF u(1)]) (auto simp: at_def abs_path_def)
      then show ?thesis using p same_path [OF xs(1)] by auto
    next
      assume m: "good_elem m" "abs_path (?xs @ [m]) \<in> resources (view s)"
        and p: "u_Path u \<in> {abs_path (?xs @ [m]), abs_path (?xs @ [m]) @ ''/''}"
      have "path_unescape m = Inr ''.''" using assms(7) [OF m(1)] m(2) by simp
      then show ?thesis by (rule hrefToPath_dot [OF u(1) p xs assms(3) [unfolded at_def]])
    qed
    then show ?thesis using same_path(1) [OF xs(1)] by (simp add: sameURLPath_def at_def)
  qed
  then have "filter (\<lambda>d. \<not> sameURLPath E (hrefToPath L (dr_Href d)) (at q)) ds = []" by (simp add: filter_empty_conv)
  then show ?thesis
    using p a requestPath [OF assms(2,3)] by (simp add: Webdav_List_def reply_def Let_def)
qed

lemma member_above:
  assumes "up s" "good (xs @ e # es)" "prefix rs xs" "abs_path (xs @ e # es) \<in> resources (view s)"
  shows "abs_path (xs @ [e]) \<in> resources (view s) \<and> abs_path xs \<in> dv_dirs (view s)"
  using assms(2,4)
proof (induction es rule: rev_induct)
  case Nil
  then show ?case using tree [OF assms(1), of xs e] assms(3) base_elems [OF based(2)] by simp
next
  case (snoc f es)
  have "abs_path (xs @ e # es) \<in> dv_dirs (view s)"
    using tree [OF assms(1), of "xs @ e # es" f] snoc.prems assms(3) base_elems [OF based(2)] by simp
  then show ?case using snoc by (simp add: resources_def)
qed

lemma below_at:
  assumes "up s" "cleanRelative E q \<noteq> ''''" "x \<in> resources (view s)" "at_or_below (at q) x" "x \<noteq> at q"
  obtains n where "good_elem n" "abs_path (rs @ rel_parts q @ [n]) \<in> resources (view s)" "at q \<in> dv_dirs (view s)"
proof -
  obtain xs where xs: "good xs" "x = abs_path xs" using named [OF assms(1,3)] by blast
  have "rel_parts q \<noteq> []" using assms(2) by (simp add: cleanRelative_Nil)
  then obtain es where es: "es \<noteq> []" "xs = (rs @ rel_parts q) @ es"
    using assms(4,5) xs strict_below [of "rs @ rel_parts q" xs] by (auto simp: at_or_below_def at_def)
  then obtain n ns where "es = n # ns" by (cases es) auto
  then show thesis
    using member_above [OF assms(1), of "rs @ rel_parts q" n ns] xs es assms(3) by (intro that [of n]) (auto simp: at_def)
qed

definition one_gone :: "string \<Rightarrow> dav_view \<Rightarrow> dav_view \<Rightarrow> bool" where
  "one_gone p v v' \<longleftrightarrow> (\<forall>x. x \<noteq> p \<longrightarrow>
     fmlookup (dv_files v') x = fmlookup (dv_files v) x \<and> (x \<in> dv_dirs v' \<longleftrightarrow> x \<in> dv_dirs v))"

lemma delete_one:
  assumes "up s" "cleanRelative E q \<noteq> ''''" "\<forall>x\<in>resources (view s). at_or_below (at q) x \<longrightarrow> x = at q"
    "delete_resource E L M op q u s = (e, s')"
  shows "up s' \<and> one_gone (at q) (view s) (view s')"
proof -
  obtain r where r: "dav_do E L M ''DELETE'' q None = Do r" "asks base r ''DELETE'' (at q)"
    by (rule do_request [OF assms(2)])
  obtain a t where d: "Do r s = (a, t)" by force
  have "s' = t" using assms(4) d by (auto simp: delete_resource_def r(1) split: sum.splits if_splits)
  have gone: "one_gone (at q) (view s) (remove_tree (at q) (view s))"
    using assms(3) by (auto simp: one_gone_def remove_tree_def resources_def fmlookup_dom'_iff intro!: fmdom_notD fmdom_notI)
      (metis (no_types, lifting) UnCI fmdom'_notD)
  show ?thesis
    using DELETE [OF assms(1) r(2) assms(3) d] gone up_Do [OF assms(1) d] \<open>s' = t\<close>
    by (auto simp: outcome_def one_gone_def split: sum.splits if_splits)
qed

end

context dav_on_server
begin

lemma Delete_safe:
  assumes "up s" "\<forall>x\<in>resources (view s). CHR 0x25 \<notin> set x" "Webdav_Delete E L M q s = (e, s')"
  shows "one_gone (at q) (view s) (view s')"
    "good_elem n \<Longrightarrow> abs_path (rs @ rel_parts q @ [n]) \<in> resources (view s) \<Longrightarrow> e \<noteq> None \<and> view s' = view s"
proof -
  let ?member = "\<lambda>n. good_elem n \<and> abs_path (rs @ rel_parts q @ [n]) \<in> resources (view s)"
  have "(\<nexists>n. ?member n) \<and> one_gone (at q) (view s) (view s') \<or> e \<noteq> None \<and> s' = s"
  proof (cases "cleanRelative E q = '''' \<or> at q \<notin> resources (view s)")
    case True
    have "e \<noteq> None \<and> s' = s"
    proof (cases "cleanRelative E q = ''''")
      case False
      then obtain err where "Webdav_Stat E L M q s = Inl err"
        using Stat_missing [OF assms(1) False] True by (cases "Webdav_Stat E L M q s") auto
      then show ?thesis using assms(3) False by (auto simp: Webdav_Delete_def requiredResourceURL_def Let_def)
    qed (use assms(3) in \<open>auto simp: Webdav_Delete_def requiredResourceURL_def Let_def\<close>)
    then show ?thesis by blast
  next
    case False
    then have q: "cleanRelative E q \<noteq> ''''" "at q \<in> resources (view s)" by auto
    obtain info where info: "Webdav_Stat E L M q s = Inr info" "fi_isDir info \<longleftrightarrow> at q \<in> dv_dirs (view s)"
      using Stat_found [OF assms(1) q] by metis
    show ?thesis
    proof (cases "\<exists>n. ?member n")
      case True
      then obtain n where n: "good_elem n" "abs_path (rs @ rel_parts q @ [n]) \<in> resources (view s)" by blast
      have "at q \<in> dv_dirs (view s)"
        using member_above [OF assms(1), of "rs @ rel_parts q" n "[]"] n by (simp add: at_def)
      moreover have "Webdav_List E L M q s \<noteq> Inr []"
        using List_member [OF assms(1) q(1) n] assms(2) n(2) q(2) by blast
      ultimately show ?thesis
        using assms(3) q(1) info by (auto simp: Webdav_Delete_def requiredResourceURL_def Let_def split: sum.splits if_splits)
    next
      case False
      then have "\<forall>x\<in>resources (view s). at_or_below (at q) x \<longrightarrow> x = at q"
        using below_at [OF assms(1) q(1)] by metis
      from delete_one [OF assms(1) q(1) this] False show ?thesis
        using assms(3) q(1) info by (auto simp: Webdav_Delete_def requiredResourceURL_def Let_def split: sum.splits if_splits)
    qed
  qed
  then show "one_gone (at q) (view s) (view s')"
    "good_elem n \<Longrightarrow> abs_path (rs @ rel_parts q @ [n]) \<in> resources (view s) \<Longrightarrow> e \<noteq> None \<and> view s' = view s"
    by (auto simp: one_gone_def)
qed

end

subsection \<open>When collections can be made\<close>

locale dav_reliable_medium = dav_on_server E L Do base view up M rs + dav_reliable E L Do base view up
  for E :: go_env and L :: "'b dav_lib" and Do :: "http_request \<Rightarrow> 's \<Rightarrow> 'b http_response res \<times> 's"
    and base :: url and view :: "'s \<Rightarrow> dav_view" and up :: "'s \<Rightarrow> bool"
    and M :: "('s, 'b) dav_medium" and rs :: "string list"
begin

lemma mkcol_exact:
  assumes "up s" "plain (ds @ [p])" "abs_path (rs @ ds) \<in> dv_dirs (view s)"
    "mkcol E L M (join_with slash (ds @ [p])) s = (e, s')"
  shows "e = None \<longleftrightarrow> \<not> has_key (dv_files (view s)) (abs_path (rs @ ds @ [p]))"
proof -
  let ?c = "join_with slash (ds @ [p])" and ?p = "abs_path (rs @ ds @ [p])"
  have at: "at ?c = ?p" using at_join [OF assms(2)] by simp
  have ne: "cleanRelative E ?c \<noteq> ''''" by (rule join_plain_nonempty [OF assms(2)])
  obtain r where r: "dav_do E L M ''MKCOL'' ?c None = Do r" "asks base r ''MKCOL'' ?p"
    using do_request [OF ne, of "''MKCOL''" None] unfolding at by metis
  obtain a t where d: "Do r s = (a, t)" by force
  have t: "up t" using up_Do [OF assms(1) d] .
  have g: "good ((rs @ ds) @ [p])" using assms(2) by (simp add: plain_def)
  show ?thesis
  proof (cases "?p \<in> resources (view s)")
    case True
    from MKCOL_exists [OF assms(1) r(2) True] obtain b where b: "a = Inr b" "rs_StatusCode b = 405" using d by auto
    then have "view t = view s" using MKCOL [OF assms(1) r(2) d] by (simp add: outcome_def)
    then have "e = None \<longleftrightarrow> ?p \<in> dv_dirs (view s)"
      using assms(4) d b IsDir_iff [OF t, of ?c] ne by (auto simp: mkcol_def Let_def r(1) at split: if_splits)
    then show ?thesis
      using True disjoint [OF assms(1), of ?p] unfolding mem_resources by blast
  next
    case False
    then obtain b where b: "a = Inr b" "rs_StatusCode b = 201"
      using MKCOL_new [OF assms(1) _ g, of r] r(2) assms(3) d by auto
    then have "e = None" using assms(4) d by (simp add: mkcol_def Let_def r(1))
    then show ?thesis using False by (simp add: mem_resources)
  qed
qed

lemma mkcol_loop_exact:
  assumes "up s" "plain (ds @ ps)" "abs_path (rs @ ds) \<in> dv_dirs (view s)"
    "mkcol_loop E L M ps (join_with slash ds) s = (e, s')"
  shows "e = None \<longleftrightarrow> (\<forall>x\<in>chain (rs @ ds) ps. \<not> has_key (dv_files (view s)) x)"
  using assms
proof (induction ps arbitrary: ds s)
  case (Cons p ps)
  let ?c = "join_with slash (ds @ [p])"
  have pl: "plain (ds @ [p])" "plain ((ds @ [p]) @ ps)" using Cons.prems(2) by (simp_all add: plain_Cons [of p ps])
  obtain f t where m: "mkcol E L M ?c s = (f, t)" by force
  note mk = mkcol_frame [OF Cons.prems(1) join_plain_nonempty [OF pl(1)] m, unfolded at_join [OF pl(1)]]
  note ex = mkcol_exact [OF Cons.prems(1) pl(1) Cons.prems(3) m]
  have loop: "mkcol_loop E L M (p # ps) (join_with slash ds) s =
      (case f of Some err \<Rightarrow> (Some err, t) | None \<Rightarrow> mkcol_loop E L M ps ?c t)"
    by (simp add: current_join [OF pl(1)] m Let_def del: core_eqs split: option.splits)
  show ?case
  proof (cases f)
    case None
    then have l: "mkcol_loop E L M ps ?c t = (e, s')" using Cons.prems(4) loop by simp
    have "abs_path (rs @ ds @ [p]) \<in> dv_dirs (view t)" "dv_files (view t) = dv_files (view s)"
      using mk None by (auto simp: add_dir_def)
    with Cons.IH [OF _ pl(2) _ l] show ?thesis using mk ex None by (simp add: chain_Cons)
  next
    case (Some err)
    then show ?thesis using Cons.prems(4) loop ex by (simp add: chain_Cons)
  qed
qed (simp add: chain_def)

lemma EnsureDir_exact:
  assumes "up s" "abs_path rs \<in> dv_dirs (view s)" "Webdav_EnsureDir E L M q s = (e, s')"
  shows "e = None \<longleftrightarrow> (\<forall>x\<in>chain rs (rel_parts q). \<not> has_key (dv_files (view s)) x)"
proof (cases "cleanRelative E q = ''''")
  case True
  then show ?thesis using assms by (simp add: Webdav_EnsureDir_def cleanRelative_Nil)
next
  case False
  then show ?thesis
    using assms(2,3) mkcol_loop_exact [OF assms(1), of "[]" "rel_parts q" e s']
    by (simp add: Webdav_EnsureDir_def Let_def split_relative del: Split_eq)
qed

end

subsection \<open>The properties\<close>

lemma dav_on_serverI: "dav_server E L (wd_Do M) (wd_baseURL M) view up \<Longrightarrow> base_path rs (wd_baseURL M) \<Longrightarrow>
    dav_on_server E L (wd_Do M) (wd_baseURL M) view up M rs"
  by (simp add: dav_on_server_def dav_on_server_axioms_def)

lemma dav_reliable_mediumI: "dav_reliable E L (wd_Do M) (wd_baseURL M) view up \<Longrightarrow> base_path rs (wd_baseURL M) \<Longrightarrow>
    dav_reliable_medium E L (wd_Do M) (wd_baseURL M) view up M rs"
  by (simp add: dav_reliable_medium_def dav_on_serverI dav_reliable.axioms(1))

text \<open>
  C36: after a \<open>WriteMode\<close> on a WebDAV medium that succeeded, every spelling of the path reads the content;
  whether it succeeded or not, also when the connection broke, every other file reads as before.
\<close>

theorem webdav_Write_Read:
  assumes "dav_server E L (wd_Do M) (wd_baseURL M) view up" "base_path rs (wd_baseURL M)" "up s"
    "Webdav_WriteMode E L M p c md s = (e, s')"
  shows "(e = None \<longrightarrow> (\<forall>q. cleanRelative E q = cleanRelative E p \<longrightarrow> Webdav_Read E L M q s' = Inr c)) \<and>
    (\<forall>q. cleanRelative E q \<noteq> cleanRelative E p \<and> Webdav_IsFile E L M q s \<longrightarrow>
       Webdav_Read E L M q s' = Webdav_Read E L M q s)"
  by (rule dav_on_server.Write_Read [OF dav_on_serverI [OF assms(1,2)] assms(3,4)])

text \<open>
  C37: on a server none of whose names has a percent sign, \<open>Delete\<close> of a WebDAV medium removes at most the one
  resource it is asked for, and a collection that has a member is not touched: the call fails.
\<close>

theorem webdav_Delete:
  assumes "dav_server E L (wd_Do M) (wd_baseURL M) view up" "base_path rs (wd_baseURL M)" "up s"
    "\<forall>x\<in>resources (view s). CHR 0x25 \<notin> set x" "Webdav_Delete E L M q s = (e, s')"
  shows "(\<forall>x. x \<noteq> abs_path (rs @ rel_parts q) \<longrightarrow>
      fmlookup (dv_files (view s')) x = fmlookup (dv_files (view s)) x \<and> (x \<in> dv_dirs (view s') \<longleftrightarrow> x \<in> dv_dirs (view s))) \<and>
    (\<forall>n. good_elem n \<and> abs_path (rs @ rel_parts q @ [n]) \<in> resources (view s) \<longrightarrow> e \<noteq> None \<and> view s' = view s)"
proof -
  note on = dav_on_serverI [OF assms(1,2)]
  from dav_on_server.Delete_safe [OF on assms(3-5), unfolded dav_on_server.one_gone_def [OF on] dav_on_server.at_def [OF on]]
  show ?thesis by blast
qed

text \<open>
  C38: over a server that answers MKCOL as the RFC says and on which the collection of the base URL exists, \<open>EnsureDir\<close>
  succeeds exactly when neither the path nor a parent of it, below the base, is a file; then exactly the path and these parents
  have become collections.  Files never change.
\<close>

theorem webdav_EnsureDir:
  assumes "dav_reliable E L (wd_Do M) (wd_baseURL M) view up" "base_path rs (wd_baseURL M)" "up s"
    "abs_path rs \<in> dv_dirs (view s)" "Webdav_EnsureDir E L M q s = (e, s')"
  shows "(e = None \<longleftrightarrow> (\<forall>x\<in>chain rs (rel_parts q). \<not> has_key (dv_files (view s)) x)) \<and>
    dv_files (view s') = dv_files (view s) \<and>
    (e = None \<longrightarrow> dv_dirs (view s') = dv_dirs (view s) \<union> chain rs (rel_parts q))"
  using dav_reliable_medium.EnsureDir_exact [OF dav_reliable_mediumI [OF assms(1,2)] assms(3-5)]
    dav_on_server.EnsureDir_frame [OF dav_on_serverI [OF dav_reliable.axioms(1) [OF assms(1)] assms(2)] assms(3,5)]
  by blast

subsection \<open>URLs, written and read\<close>

text \<open>
  An instance of the URL functions: scheme, host, the path with every byte encoded that is not a letter, a digit or
  one of \<open>-._~/\<close>, and the rest from a question mark on.
\<close>

definition unreserved :: "char \<Rightarrow> bool" where
  "unreserved c \<longleftrightarrow> (let n = (of_char c :: nat) in 48 \<le> n \<and> n \<le> 57 \<or> 65 \<le> n \<and> n \<le> 90 \<or> 97 \<le> n \<and> n \<le> 122
     \<or> n \<in> {45, 46, 95, 126, 47})"

definition path_escape :: "string \<Rightarrow> string" where
  "path_escape p = concat (map (\<lambda>c. if unreserved c then [c]
     else [CHR 0x25, hex_digit (val c div 16), hex_digit (val c mod 16)]) p)"

definition plain_String :: "url \<Rightarrow> string" where
  "plain_String u = u_Scheme u @ ''://'' @ u_Host u @ path_escape (u_Path u) @ u_rest u"

definition plain_Parse :: "string \<Rightarrow> url res" where
  "plain_Parse s =
     (let scheme = takeWhile (\<lambda>c. c \<noteq> CHR '':'') s; t = drop (length scheme) s in
      if \<not> prefix ''://'' t then Inl (ErrNew ''invalid URL'')
      else
        let t = drop 3 t; host = takeWhile (\<lambda>c. c \<noteq> slash \<and> c \<noteq> CHR ''?'') t; t = drop (length host) t;
            raw = takeWhile (\<lambda>c. c \<noteq> CHR ''?'') t
        in case path_unescape raw of
             Inl err \<Rightarrow> Inl err
           | Inr p \<Rightarrow> Inr \<lparr>u_Scheme = scheme, u_Host = host, u_Path = p, u_RawPath = '''', u_rest = drop (length raw) t\<rparr>)"

definition plain_url :: url_lib where
  "plain_url = \<lparr>url_Parse = plain_Parse, url_String = plain_String, url_PathUnescape = path_unescape\<rparr>"

lemma val_div: "val c div 16 < 16"
  using less_mult_imp_div_less [of "val c" 16 16] val_less [of c] by (simp del: of_char_mod_256)

lemma unescape_escape: "path_unescape (path_escape p) = Inr p"
proof (induction p)
  case (Cons c p)
  have "val c div 16 < 16" by (rule val_div)
  moreover have "unreserved c \<Longrightarrow> c \<noteq> CHR 0x25" by (auto simp: unreserved_def)
  ultimately show ?case
    using Cons by (simp add: path_escape_def hex_value_digit)
qed (simp add: path_escape_def)

lemma hex_digit_letter: "n < 16 \<Longrightarrow> hex_digit n \<noteq> CHR ''?''"
proof
  assume "n < 16" "hex_digit n = CHR ''?''"
  moreover have "hex_value (CHR ''?'') = None" by code_simp
  ultimately show False using hex_value_digit [of n] by simp
qed

lemma escape_question: "CHR ''?'' \<notin> set (path_escape p)"
proof -
  have "CHR ''?'' \<noteq> hex_digit (val c div 16)" "CHR ''?'' \<noteq> hex_digit (val c mod 16)" for c
    by (intro hex_digit_letter [symmetric] val_div, intro hex_digit_letter [symmetric]) simp
  then show ?thesis by (auto simp: path_escape_def unreserved_def split: if_splits)
qed

lemma takeWhile_stops: "(\<And>x. x \<in> set xs \<Longrightarrow> P x) \<Longrightarrow> ys = [] \<or> \<not> P (hd ys) \<Longrightarrow> takeWhile P (xs @ ys) = xs"
  by (cases ys) (auto simp: takeWhile_append)

lemma hd_takeWhile_rest: "drop (length (takeWhile P xs)) xs = [] \<or> \<not> P (hd (drop (length (takeWhile P xs)) xs))"
  by (induction xs) auto

lemma plain_Parse_parts:
  assumes "plain_Parse a = Inr u"
  shows "CHR '':'' \<notin> set (u_Scheme u)" "slash \<notin> set (u_Host u)" "CHR ''?'' \<notin> set (u_Host u)"
    "u_rest u = [] \<or> hd (u_rest u) = CHR ''?''"
proof -
  obtain t1 t2 where "u_Scheme u = takeWhile (\<lambda>c. c \<noteq> CHR '':'') a" "u_Host u = takeWhile (\<lambda>c. c \<noteq> slash \<and> c \<noteq> CHR ''?'') t1"
    and rest: "u_rest u = drop (length (takeWhile (\<lambda>c. c \<noteq> CHR ''?'') t2)) t2"
    using assms by (auto simp: plain_Parse_def Let_def simp del: drop_drop split: if_splits sum.splits)
  then show "CHR '':'' \<notin> set (u_Scheme u)" "slash \<notin> set (u_Host u)" "CHR ''?'' \<notin> set (u_Host u)"
    by (auto dest: set_takeWhileD)
  show "u_rest u = [] \<or> hd (u_rest u) = CHR ''?''"
    unfolding rest using hd_takeWhile_rest [of "\<lambda>c. c \<noteq> CHR ''?''" t2] by simp
qed

lemma plain_Parse_String:
  assumes "plain_Parse a = Inr u" "is_rooted p"
  shows "plain_Parse (plain_String (u\<lparr>u_Path := p, u_RawPath := ''''\<rparr>)) = Inr (u\<lparr>u_Path := p, u_RawPath := ''''\<rparr>)"
proof -
  note u = plain_Parse_parts [OF assms(1)]
  let ?t = "u_Host u @ path_escape p @ u_rest u"
  have e: "\<exists>r. path_escape p = slash # r"
    using assms(2) by (auto simp: is_rooted_def prefix_def path_escape_def unreserved_def)
  have 1: "takeWhile (\<lambda>c. c \<noteq> CHR '':'') (u_Scheme u @ ''://'' @ ?t) = u_Scheme u"
    using u(1) by (intro takeWhile_stops) auto
  have 2: "takeWhile (\<lambda>c. c \<noteq> slash \<and> c \<noteq> CHR ''?'') ?t = u_Host u"
    using u(2,3) e by (intro takeWhile_stops) auto
  have 3: "takeWhile (\<lambda>c. c \<noteq> CHR ''?'') (path_escape p @ u_rest u) = path_escape p"
    using u(4) escape_question [of p] by (intro takeWhile_stops) auto
  show ?thesis
    using 1 2 3 by (simp add: plain_Parse_def plain_String_def Let_def unescape_escape)
qed

interpretation plain_url: url_library plain_url
  by unfold_locales (simp_all add: plain_url_def plain_Parse_String)

subsection \<open>A server in memory\<close>

text \<open>
  A server that keeps its resources in memory, under \<open>https://h/dav\<close>: it answers with the statuses of the RFC and
  refuses what it does not know.  A GET of a collection finds nothing.
\<close>

datatype dav_body = Text string | Multi "dav_response list"

definition plain_dav :: "dav_body dav_lib" where
  "plain_dav =
     \<lparr>dl_url = plain_url, dl_ReadAll = (\<lambda>b. case b of Text c \<Rightarrow> Inr c | Multi ds \<Rightarrow> Inr ''''),
      dl_Decode = (\<lambda>b. case b of Text c \<Rightarrow> Inl (ErrNew ''invalid XML'') | Multi ds \<Rightarrow> Inr ds),
      dl_ParseTime = (\<lambda>t. Inl (ErrNew ''invalid time''))\<rparr>"

definition server_url :: url where
  "server_url = \<lparr>u_Scheme = ''https'', u_Host = ''h'', u_Path = ''/dav'', u_RawPath = '''', u_rest = ''''\<rparr>"

definition describe :: "dav_view \<Rightarrow> string \<Rightarrow> dav_response" where
  "describe v q =
     \<lparr>dr_Href = plain_String (server_url\<lparr>u_Path := (if q \<in> dv_dirs v then q @ ''/'' else q)\<rparr>),
      dr_PropStats = [\<lparr>ds_Prop = \<lparr>dp_DisplayName = '''', dp_ContentLength = (case fmlookup (dv_files v) q of None \<Rightarrow> ''''
           | Some c \<Rightarrow> decimal (int (length c))), dp_LastModified = '''', dp_Collection = q \<in> dv_dirs v\<rparr>,
         ds_Status = ''HTTP/1.1 200 OK''\<rparr>]\<rparr>"

definition members :: "string \<Rightarrow> dav_view \<Rightarrow> string list" where
  "members p v = filter (\<lambda>q. path_dir q = p \<and> q \<noteq> p) (sorted_list_of_set (fset (fmdom (dv_files v)) \<union> dv_dirs v))"

definition proper :: "string \<Rightarrow> bool" where
  "proper p \<longleftrightarrow> is_rooted p \<and> path_clean p = p \<and> p \<noteq> ''/''"

definition status :: "int \<Rightarrow> dav_view \<Rightarrow> dav_body http_response res \<times> dav_view" where
  "status n v = (Inr \<lparr>rs_StatusCode = n, rs_Body = Text ''''\<rparr>, v)"

definition mem_do :: "http_request \<Rightarrow> dav_view \<Rightarrow> dav_body http_response res \<times> dav_view" where
  "mem_do r v =
     (let p = u_Path (rq_URL r); m = rq_Method r; is_file = has_key (dv_files v) p; is_dir = p \<in> dv_dirs v in
      if m = ''GET'' then
        (case fmlookup (dv_files v) p of
           None \<Rightarrow> status 404 v | Some c \<Rightarrow> (Inr \<lparr>rs_StatusCode = 200, rs_Body = Text c\<rparr>, v))
      else if m = ''PROPFIND'' then
        (if \<not> is_file \<and> \<not> is_dir then status 404 v
         else (Inr \<lparr>rs_StatusCode = 207, rs_Body = Multi (map (describe v) (p #
            (if is_dir \<and> fmlookup (rq_Header r) ''Depth'' = Some [''1''] then members p v else [])))\<rparr>, v))
      else if m = ''PUT'' \<and> rq_Body r \<noteq> None then
        (if is_dir then status 405 v else if \<not> proper p then status 400 v
         else if path_dir p \<notin> dv_dirs v then status 409 v
         else status (if is_file then 204 else 201) (put_file p (the (rq_Body r)) v))
      else if m = ''MKCOL'' then
        (if is_file \<or> is_dir then status 405 v else if \<not> proper p then status 400 v
         else if path_dir p \<notin> dv_dirs v then status 409 v else status 201 (add_dir p v))
      else if m = ''DELETE'' then
        (if \<not> is_file \<and> \<not> is_dir then status 404 v else if \<not> proper p then status 403 v
         else status 204 (remove_tree p v))
      else status 501 v)"

definition dav_up :: "dav_view \<Rightarrow> bool" where
  "dav_up v \<longleftrightarrow> finite (dv_dirs v) \<and> (\<forall>p\<in>dv_dirs v. \<not> has_key (dv_files v) p) \<and> ''/'' \<in> dv_dirs v \<and>
     (\<forall>p\<in>resources v. p \<noteq> ''/'' \<longrightarrow> proper p \<and> path_dir p \<in> dv_dirs v)"

lemma proper_abs: "good (xs @ [n]) \<Longrightarrow> proper (abs_path (xs @ [n]))"
  using abs_path_inject [of "xs @ [n]" "[]"] by (auto simp: proper_def)

lemma proper_iff: "proper p \<longleftrightarrow> (\<exists>xs n. good (xs @ [n]) \<and> p = abs_path (xs @ [n]))"
proof
  assume p: "proper p"
  then obtain cs where cs: "good cs" "p = abs_path cs" using clean_abs [of p] by (auto simp: proper_def)
  moreover have "cs \<noteq> []" using p cs(2) by (auto simp: proper_def)
  ultimately show "\<exists>xs n. good (xs @ [n]) \<and> p = abs_path (xs @ [n])" by (metis append_butlast_last_id)
qed (auto intro: proper_abs)

lemma resources_simps [simp]:
  "resources (put_file p c v) = insert p (resources v)" "resources (add_dir p v) = insert p (resources v)"
  "resources (remove_tree p v) = {q \<in> resources v. \<not> at_or_below p q}"
  by (auto simp: mem_resources put_file_def add_dir_def remove_tree_def)

lemma dirs_remove: "dv_dirs (remove_tree p v) = {q \<in> dv_dirs v. \<not> at_or_below p q}"
  by (simp add: remove_tree_def)

lemma files_remove: "has_key (dv_files (remove_tree p v)) q \<longleftrightarrow> has_key (dv_files v) q \<and> \<not> at_or_below p q"
  by (auto simp: remove_tree_def has_key_def)

lemma proper_root: "proper p \<Longrightarrow> \<not> at_or_below p ''/''"
  by (auto simp: at_or_below_def proper_def prefix_def append_eq_Cons_conv is_rooted_def)

lemma up_remove: "dav_up v \<Longrightarrow> proper p \<Longrightarrow> dav_up (remove_tree p v)"
  unfolding dav_up_def
proof (intro conjI ballI impI; elim conjE)
  fix q assume v: "\<forall>p\<in>resources v. p \<noteq> ''/'' \<longrightarrow> proper p \<and> path_dir p \<in> dv_dirs v"
    and q: "q \<in> resources (remove_tree p v)" "q \<noteq> ''/''" and p: "proper p"
  then obtain xs n where x: "good (xs @ [n])" "q = abs_path (xs @ [n])" using proper_iff by auto
  have "at_or_below p q" if "at_or_below p (path_dir q)"
    using that at_or_below_trans [of p "abs_path xs" q] at_or_below_abs [of xs "[n]"] x path_dir_parent [OF x(1)] proper_root [OF p]
    by (cases "xs = []") auto
  then show "path_dir q \<in> dv_dirs (remove_tree p v)" using v q by (auto simp: dirs_remove)
next
  assume "proper p"
  then show "''/'' \<in> dv_dirs (remove_tree p v)" if "''/'' \<in> dv_dirs v"
    using that proper_root by (simp add: remove_tree_def)
qed (auto simp: dirs_remove files_remove)

lemma mem_do_up: "dav_up v \<Longrightarrow> mem_do r v = (a, v') \<Longrightarrow> dav_up v'"
proof -
  assume v: "dav_up v" and d: "mem_do r v = (a, v')"
  have "v' = v \<or> (\<exists>p c. proper p \<and> p \<notin> dv_dirs v \<and> path_dir p \<in> dv_dirs v \<and> v' = put_file p c v) \<or>
    (\<exists>p. proper p \<and> p \<notin> resources v \<and> path_dir p \<in> dv_dirs v \<and> v' = add_dir p v) \<or>
    (\<exists>p. proper p \<and> v' = remove_tree p v)"
    using d by (auto simp: mem_do_def Let_def status_def mem_resources split: if_splits option.splits)
  then show "dav_up v'"
  proof (elim disjE exE conjE)
    fix p assume "proper p" "v' = remove_tree p v"
    then show ?thesis using up_remove [OF v] by simp
  qed (use v in \<open>auto simp: dav_up_def put_file_def add_dir_def mem_resources\<close>)
qed

lemma server_parsed: "plain_Parse (plain_String server_url) = Inr server_url"
  by code_simp

lemma describe_href:
  "is_rooted q \<Longrightarrow> \<exists>u. plain_Parse (dr_Href (describe v q)) = Inr u \<and> u_Path u \<in> {q, q @ ''/''}"
proof -
  assume q: "is_rooted q"
  let ?p = "if q \<in> dv_dirs v then q @ ''/'' else q"
  have "is_rooted ?p" using q by (auto simp: is_rooted_def prefix_def)
  from plain_Parse_String [OF server_parsed this]
  have "plain_Parse (plain_String (server_url\<lparr>u_Path := ?p\<rparr>)) = Inr (server_url\<lparr>u_Path := ?p\<rparr>)"
    by (simp add: server_url_def)
  then show ?thesis by (cases "q \<in> dv_dirs v") (simp_all add: describe_def)
qed

lemma describe_prop: "dp_Collection (response_prop go_core (describe v q)) \<longleftrightarrow> q \<in> dv_dirs v"
proof -
  have "Contains go_core ''HTTP/1.1 200 OK'' '' 200 ''" by code_simp
  then show ?thesis by (simp add: response_prop_def describe_def)
qed

lemma up_named: "dav_up v \<Longrightarrow> p \<in> resources v \<Longrightarrow> \<exists>xs. good xs \<and> p = abs_path xs"
proof (cases "p = ''/''")
  case True
  then show ?thesis by (intro exI [of _ "[]"]) simp
next
  case False
  moreover assume "dav_up v" "p \<in> resources v"
  ultimately have "proper p" by (simp add: dav_up_def)
  then show ?thesis unfolding proper_iff by blast
qed

lemma up_parent: "dav_up v \<Longrightarrow> good (xs @ [n]) \<Longrightarrow> abs_path (xs @ [n]) \<in> resources v \<Longrightarrow> abs_path xs \<in> dv_dirs v"
  using proper_abs [of xs n] path_dir_parent [of xs n] by (auto simp: dav_up_def proper_def)

lemma members_child:
  assumes "dav_up v" "good (xs @ [n])" "abs_path (xs @ [n]) \<in> resources v"
  shows "abs_path (xs @ [n]) \<in> set (members (abs_path xs) v)"
proof -
  have "finite (fset (fmdom (dv_files v)) \<union> dv_dirs v)" using assms(1) by (simp add: dav_up_def)
  moreover have "abs_path (xs @ [n]) \<in> fset (fmdom (dv_files v)) \<union> dv_dirs v"
    using assms(3) by (simp add: mem_resources has_key_dom)
  moreover have "abs_path (xs @ [n]) \<noteq> abs_path xs" using assms(2) by (simp add: abs_path_inject)
  ultimately show ?thesis
    using path_dir_parent [OF assms(2)] by (simp add: members_def)
qed

lemma mem_propfind:
  "asks base r ''PROPFIND'' p \<Longrightarrow> p \<in> resources v \<Longrightarrow> mem_do r v = (Inr \<lparr>rs_StatusCode = 207, rs_Body = Multi (map (describe v) (p #
     (if p \<in> dv_dirs v \<and> fmlookup (rq_Header r) ''Depth'' = Some [''1''] then members p v else [])))\<rparr>, v)"
  by (auto simp: asks_def mem_do_def mem_resources)

lemma plain_dav_simps [simp]:
  "dl_url plain_dav = plain_url" "dl_ReadAll plain_dav (Text c) = Inr c" "dl_Decode plain_dav (Multi ds) = Inr ds"
  "url_Parse plain_url = plain_Parse" "url_String plain_url = plain_String" "url_PathUnescape plain_url = path_unescape"
  by (simp_all add: plain_dav_def plain_url_def)

lemma mem_propfind_1:
  assumes "dav_up v" "asks base r ''PROPFIND'' (abs_path xs)" "fmlookup (rq_Header r) ''Depth'' = Some [''1'']"
    "good (xs @ [n])" "abs_path (xs @ [n]) \<in> resources v"
  shows "\<exists>a ds d u. fst (mem_do r v) = Inr a \<and> rs_StatusCode a = 207 \<and> dl_Decode plain_dav (rs_Body a) = Inr ds \<and>
    d \<in> set ds \<and> plain_Parse (dr_Href d) = Inr u \<and> u_Path u \<in> {abs_path (xs @ [n]), abs_path (xs @ [n]) @ ''/''}"
proof -
  have dir: "abs_path xs \<in> dv_dirs v" by (rule up_parent [OF assms(1,4,5)])
  obtain u where u: "plain_Parse (dr_Href (describe v (abs_path (xs @ [n])))) = Inr u"
    "u_Path u \<in> {abs_path (xs @ [n]), abs_path (xs @ [n]) @ ''/''}"
    using describe_href [of "abs_path (xs @ [n])" v] by auto
  have m: "describe v (abs_path (xs @ [n])) \<in> set (map (describe v) (abs_path xs # members (abs_path xs) v))"
    using members_child [OF assms(1,4,5)] by simp
  have "fst (mem_do r v) = Inr \<lparr>rs_StatusCode = 207, rs_Body = Multi (map (describe v) (abs_path xs # members (abs_path xs) v))\<rparr>"
    using mem_propfind [OF assms(2), of v] dir assms(3) by (simp add: mem_resources)
  then show ?thesis using m u
    by (intro exI [of _ "\<lparr>rs_StatusCode = 207, rs_Body = Multi (map (describe v) (abs_path xs # members (abs_path xs) v))\<rparr>"] exI
        [of _ "map (describe v) (abs_path xs # members (abs_path xs) v)"] exI [of _ "describe v (abs_path (xs @ [n]))"] exI [of _ u]) simp
qed

lemma mem_propfind_0:
  assumes "asks server_url r ''PROPFIND'' p" "p \<in> resources v"
  shows "\<exists>a d ds. fst (mem_do r v) = Inr a \<and> rs_StatusCode a = 207 \<and> dl_Decode plain_dav (rs_Body a) = Inr (d # ds) \<and>
    (dp_Collection (response_prop go_core d) \<longleftrightarrow> p \<in> dv_dirs v)"
  using mem_propfind [OF assms] by (simp add: describe_prop)

lemma asks_path: "asks u r m p \<Longrightarrow> rq_Method r = m \<and> u_Path (rq_URL r) = p"
  by (simp add: asks_def)

lemma mem_put:
  "asks server_url r ''PUT'' p \<Longrightarrow> rq_Body r = Some c \<Longrightarrow> mem_do r v = (a, v') \<Longrightarrow>
    outcome [200, 201, 204] a v v' (put_file p c v)"
  by (auto dest!: asks_path simp: mem_do_def Let_def status_def outcome_def split: if_splits)

lemma mem_mkcol: "asks server_url r ''MKCOL'' p \<Longrightarrow> mem_do r v = (a, v') \<Longrightarrow> outcome [200, 201, 204] a v v' (add_dir p v)"
  by (auto dest!: asks_path simp: mem_do_def Let_def status_def outcome_def split: if_splits)

lemma mem_delete: "asks server_url r ''DELETE'' p \<Longrightarrow> mem_do r v = (a, v') \<Longrightarrow> outcome [200, 204] a v v' (remove_tree p v)"
  by (auto dest!: asks_path simp: mem_do_def Let_def status_def outcome_def split: if_splits)

lemma mem_mkcol_new:
  assumes "asks server_url r ''MKCOL'' (abs_path (xs @ [n]))" "good (xs @ [n])" "abs_path (xs @ [n]) \<notin> resources v" "abs_path xs \<in> dv_dirs v"
  shows "\<exists>a. fst (mem_do r v) = Inr a \<and> rs_StatusCode a = 201"
  using asks_path [OF assms(1)] assms(3,4) proper_abs [OF assms(2)] path_dir_parent [OF assms(2)]
  by (simp add: mem_do_def status_def mem_resources)


interpretation mem_dav: dav_reliable go_core plain_dav mem_do server_url "\<lambda>v. v" dav_up
proof (unfold_locales, goal_cases)
  case (3 a u p) then show ?case by (simp add: plain_Parse_String)
next
  case 4 then show ?case using server_parsed by auto
next
  case (7 v r a v') then show ?case by (rule mem_do_up)
next
  case (8 v p) then show ?case by (auto simp: dav_up_def)
next
  case (9 v xs n) then show ?case by (blast intro: up_parent)
next
  case (10 v p) then show ?case by (rule up_named)
next
  case (11 v r p c) then show ?case by (auto dest!: asks_path simp: mem_do_def)
next
  case (12 v r p) then show ?case by (auto dest!: asks_path simp: mem_do_def status_def mem_resources has_key_def)
next
  case (13 v r p) then show ?case by (blast intro: mem_propfind_0)
next
  case (14 v r p) then show ?case by (auto dest!: asks_path simp: mem_do_def status_def mem_resources)
next
  case (15 v r xs n) then show ?case unfolding plain_dav_simps by (blast intro: mem_propfind_1)
next
  case (16 v r p c a v') then show ?case by (blast intro: mem_put)
next
  case (17 v r p a v') then show ?case by (blast intro: mem_mkcol)
next
  case (18 v r p a v') then show ?case by (blast intro: mem_delete)
next
  case (19 v r p) then show ?case by (auto dest!: asks_path simp: mem_do_def status_def mem_resources)
next
  case (20 v r xs n) then show ?case by (blast intro: mem_mkcol_new)
qed (simp_all add: server_url_def)

subsection \<open>Witnesses\<close>

definition sample_dav :: "(dav_view, dav_body) dav_medium" where
  "sample_dav = \<lparr>wd_baseURL = server_url, wd_Do = mem_do, wd_username = ''user'', wd_password = '''', wd_headers = fmempty\<rparr>"

definition stocked :: "(string \<times> string) list \<Rightarrow> string list \<Rightarrow> dav_view" where
  "stocked fs ds = \<lparr>dv_files = fmap_of_list fs, dv_dirs = set ds\<rparr>"

definition stock :: dav_view where
  "stock = stocked [(''/dav/a'', ''x''), (''/dav/d/b'', ''y'')] [''/'', ''/dav'', ''/dav/d'']"

lemma sample_dav_simps [simp]: "wd_Do sample_dav = mem_do" "wd_baseURL sample_dav = server_url"
  by (simp_all add: sample_dav_def)

lemma sample_base: "base_path [''dav''] server_url"
  by (simp add: base_path_def server_url_def abs_path_def good_elem_def)

lemma sample_server: "dav_server go_core plain_dav (wd_Do sample_dav) (wd_baseURL sample_dav) (\<lambda>v. v) dav_up"
  "dav_reliable go_core plain_dav (wd_Do sample_dav) (wd_baseURL sample_dav) (\<lambda>v. v) dav_up"
  using mem_dav.dav_server_axioms mem_dav.dav_reliable_axioms by simp_all

interpretation sample_dav: dav_reliable_medium go_core plain_dav mem_do server_url "\<lambda>v. v" dav_up sample_dav "[''dav'']"
  by unfold_locales (simp_all add: sample_base)

lemma stock_resources: "resources stock = set [''/dav/a'', ''/dav/d/b'', ''/'', ''/dav'', ''/dav/d'']"
  by (auto simp: resources_def stock_def stocked_def fmdom'_alt_def)

lemma stock_dirs: "dv_dirs stock = set [''/'', ''/dav'', ''/dav/d'']"
  by (simp add: stock_def stocked_def)

lemma stock_up: "dav_up stock"
proof -
  have "\<forall>p\<in>resources stock. p \<noteq> ''/'' \<longrightarrow> proper p \<and> path_dir p \<in> dv_dirs stock"
    unfolding stock_resources stock_dirs by code_simp
  then show ?thesis unfolding dav_up_def stock_dirs by (simp add: stock_def stocked_def has_key_def)
qed

theorem webdav_Write_Read_witness:
  "\<exists>v. Webdav_WriteMode go_core plain_dav sample_dav ''d/e/../f'' ''text'' 420 stock = (None, v) \<and>
     Webdav_Read go_core plain_dav sample_dav ''/d/f'' v = Inr ''text''"
proof -
  let ?W = "Webdav_WriteMode go_core plain_dav sample_dav ''d/e/../f'' ''text'' 420 stock"
  have "fst ?W = None" by code_simp
  then obtain v where w: "?W = (None, v)" by (metis prod.collapse)
  have "cleanRelative go_core ''/d/f'' = cleanRelative go_core ''d/e/../f''" by code_simp
  with webdav_Write_Read [OF sample_server(1) sample_base [folded sample_dav_simps(2)] stock_up w] w show ?thesis by blast
qed

theorem webdav_Delete_witness:
  "\<exists>e. Webdav_Delete go_core plain_dav sample_dav ''d'' stock = (Some e, stock)"
proof -
  have d: "Webdav_Delete go_core plain_dav sample_dav ''d'' stock =
    (fst (Webdav_Delete go_core plain_dav sample_dav ''d'' stock), snd (Webdav_Delete go_core plain_dav sample_dav ''d'' stock))" by simp
  have p: "\<forall>x\<in>resources stock. CHR 0x25 \<notin> set x" by (simp add: stock_resources)
  have m: "good_elem ''b'' \<and> abs_path ([''dav''] @ rel_parts ''d'' @ [''b'']) \<in> resources stock"
    unfolding stock_resources by code_simp
  from webdav_Delete [OF sample_server(1) sample_base [folded sample_dav_simps(2)] stock_up p d] m show ?thesis
    by (metis not_None_eq prod.collapse)
qed

theorem webdav_EnsureDir_witness:
  "\<exists>v. Webdav_EnsureDir go_core plain_dav sample_dav ''d/x/y'' stock = (None, v) \<and> ''/dav/d/x/y'' \<in> dv_dirs v \<and>
     fst (Webdav_EnsureDir go_core plain_dav sample_dav ''d/b/y'' stock) \<noteq> None"
proof -
  let ?E = "\<lambda>p. Webdav_EnsureDir go_core plain_dav sample_dav p stock"
  note ok = webdav_EnsureDir [OF sample_server(2) sample_base [folded sample_dav_simps(2)] stock_up]
  have root: "abs_path [''dav''] \<in> dv_dirs stock" by (simp add: stock_def stocked_def abs_path_def)
  have "fst (?E ''d/x/y'') = None" by code_simp
  then obtain v where v: "?E ''d/x/y'' = (None, v)" by (metis prod.collapse)
  have parts: "rel_parts ''d/x/y'' = [''d'', ''x'', ''y'']" "rel_parts ''d/b/y'' = [''d'', ''b'', ''y'']" by code_simp+
  have "''/dav/d/x/y'' \<in> dv_dirs v"
    using ok [OF root v] by (simp add: parts chain_Cons abs_path_def)
  moreover obtain e w where "?E ''d/b/y'' = (e, w)" by force
  with ok [OF root this] have "fst (?E ''d/b/y'') \<noteq> None"
    by (simp add: parts chain_Cons abs_path_def stock_def stocked_def has_key_def)
  ultimately show ?thesis using v by blast
qed

text \<open>
  C39: a name with a percent sign.  The path of an URL is already decoded when \<open>hrefToPath\<close> decodes it once more, so a
  member whose name is the text of an encoded dot is taken for the collection itself.  On any server whose answer to
  a PROPFIND of depth 1 on a collection, the URL of which has no percent sign, names just the collection and members of
  it: when the collection has members and all are named so, \<open>List\<close> shows none, and \<open>Delete\<close>, which is meant to fail
  as the collection is not empty, does to the server what \<open>DeleteAll\<close> does, and succeeds when that does.
\<close>

theorem webdav_Delete_percent:
  assumes "dav_server E L (wd_Do M) (wd_baseURL M) view up" "base_path rs (wd_baseURL M)" "up s" "rel_parts q \<noteq> []"
    "CHR 0x25 \<notin> set (abs_path (rs @ rel_parts q))"
    "lists_members L (wd_Do M) (wd_baseURL M) view (rs @ rel_parts q) s"
    "good_elem m" "abs_path (rs @ rel_parts q @ [m]) \<in> resources (view s)"
    "\<And>n. good_elem n \<Longrightarrow> abs_path (rs @ rel_parts q @ [n]) \<in> resources (view s) \<Longrightarrow> path_unescape n = Inr ''.''"
  shows "Webdav_List E L M q s = Inr [] \<and>
    snd (Webdav_Delete E L M q s) = snd (Webdav_DeleteAll E L M q s) \<and>
    (fst (Webdav_Delete E L M q s) = None \<longleftrightarrow> fst (Webdav_DeleteAll E L M q s) = None)"
proof -
  note on = dav_on_serverI [OF assms(1,2)]
  note at = dav_on_server.at_def [OF on]
  have q: "cleanRelative E q \<noteq> ''''" using assms(4) go_runtime.cleanRelative_Nil [OF dav_server.axioms(1) [OF assms(1)]] by simp
  have list: "Webdav_List E L M q s = Inr []"
    using dav_on_server.List_dots [OF on assms(3) q _ assms(6-9)] assms(5) by (simp add: at)
  have "dav_on_server.at rs q \<in> dv_dirs (view s)"
    using dav_on_server.member_above [OF on assms(3), of "rs @ rel_parts q" m "[]"] assms(7,8)
      dav_on_server.good_rs [OF on] by (simp add: at)
  then obtain info where "Webdav_Stat E L M q s = Inr info" "fi_isDir info"
    using dav_on_server.Stat_found [OF on assms(3) q] by (auto simp: resources_def)
  then have "Webdav_Delete E L M q s = delete_resource E L M ''webdav.Delete'' q (resourceURL E L M q) s"
    using list q by (simp add: Webdav_Delete_def requiredResourceURL_def Let_def)
  moreover have "Webdav_DeleteAll E L M q s = delete_resource E L M ''webdav.DeleteAll'' q (resourceURL E L M q) s"
    using q by (simp add: Webdav_DeleteAll_def requiredResourceURL_def Let_def)
  ultimately show ?thesis
    using list by (auto simp: delete_resource_def Let_def split: prod.splits sum.splits)
qed

text \<open>The answers of the server in memory name just the collection and its members.\<close>

lemma mem_lists_members:
  assumes "dav_up v" "good xs" "xs \<noteq> []" "abs_path xs \<in> dv_dirs v"
  shows "lists_members plain_dav mem_do server_url (\<lambda>v. v) xs v"
  unfolding lists_members_def
proof (intro allI impI, elim conjE)
  fix r a ds d
  assume r: "asks server_url r ''PROPFIND'' (abs_path xs)" "fmlookup (rq_Header r) ''Depth'' = Some [''1'']"
    and a: "fst (mem_do r v) = Inr a" "dl_Decode plain_dav (rs_Body a) = Inr ds" "d \<in> set ds"
  have "ds = map (describe v) (abs_path xs # members (abs_path xs) v)"
    using mem_propfind [OF r(1), of v] r(2) a(1,2) assms(4) by (auto simp: mem_resources)
  then obtain x where x: "d = describe v x" "x = abs_path xs \<or> x \<in> set (members (abs_path xs) v)" using a(3) by auto
  have "x = abs_path xs \<or> (\<exists>n. good_elem n \<and> x = abs_path (xs @ [n]) \<and> x \<in> resources v)"
  proof (rule disjCI)
    assume "\<not> (\<exists>n. good_elem n \<and> x = abs_path (xs @ [n]) \<and> x \<in> resources v)"
    moreover have "finite (fset (fmdom (dv_files v)) \<union> dv_dirs v)" using assms(1) by (simp add: dav_up_def)
    then have "x \<in> resources v \<and> path_dir x = abs_path xs" if "x \<noteq> abs_path xs"
      using x(2) that by (auto simp: members_def mem_resources has_key_dom)
    moreover have "\<exists>n. good_elem n \<and> x = abs_path (xs @ [n])" if "x \<in> resources v" "path_dir x = abs_path xs"
    proof -
      have "path_dir ''/'' = ''/''" by code_simp
      then have "path_dir ''/'' \<noteq> abs_path xs" using assms(2,3) abs_path_inject [of xs "[]"] by auto
      then have "proper x" using that assms(1) by (auto simp: dav_up_def)
      then obtain ys n where "good (ys @ [n])" "x = abs_path (ys @ [n])" using proper_iff by auto
      then show ?thesis using that(2) path_dir_parent [of ys n] assms(2) by (auto simp: abs_path_inject)
    qed
    ultimately show "x = abs_path xs" by blast
  qed
  moreover have "is_rooted x" using calculation by (auto simp: abs_path_def is_rooted_def prefix_def)
  from describe_href [OF this] obtain u where u: "plain_Parse (dr_Href d) = Inr u" "u_Path u \<in> {x, x @ ''/''}" using x(1) by blast
  ultimately show "\<exists>u n. url_Parse (dl_url plain_dav) (dr_Href d) = Inr u \<and> (u_Path u \<in> {abs_path xs, abs_path xs @ ''/''} \<or>
      good_elem n \<and> abs_path (xs @ [n]) \<in> resources v \<and> u_Path u \<in> {abs_path (xs @ [n]), abs_path (xs @ [n]) @ ''/''})"
    by (intro exI [of _ u]) auto
qed

definition hidden :: dav_view where
  "hidden = stocked [(''/dav/d/%2e'', ''precious'')] [''/'', ''/dav'', ''/dav/d'']"

lemma hidden_resources: "resources hidden = set [''/dav/d/%2e'', ''/'', ''/dav'', ''/dav/d'']"
  by (auto simp: resources_def hidden_def stocked_def fmdom'_alt_def)

lemma hidden_up: "dav_up hidden"
proof -
  have d: "dv_dirs hidden = set [''/'', ''/dav'', ''/dav/d'']" by (simp add: hidden_def stocked_def)
  have "\<forall>p\<in>resources hidden. p \<noteq> ''/'' \<longrightarrow> proper p \<and> path_dir p \<in> dv_dirs hidden"
    unfolding hidden_resources d by code_simp
  then show ?thesis unfolding dav_up_def d by (simp add: hidden_def stocked_def has_key_def)
qed

theorem webdav_Delete_percent_witness:
  "Webdav_List go_core plain_dav sample_dav ''d'' hidden = Inr [] \<and>
    fst (Webdav_Delete go_core plain_dav sample_dav ''d'' hidden) = None \<and>
    \<not> has_key (dv_files (snd (Webdav_Delete go_core plain_dav sample_dav ''d'' hidden))) ''/dav/d/%2e''"
proof -
  have rel: "rel_parts ''d'' = [''d'']" by code_simp
  have abs: "abs_path [''dav'', ''d''] = ''/dav/d''" "abs_path [''dav'', ''d'', n] = ''/dav/d/'' @ n" for n
    by (simp_all add: abs_path_def)
  have dir: "abs_path [''dav'', ''d''] \<in> dv_dirs hidden" by (simp add: abs hidden_def stocked_def)
  have names: "good [''dav'', ''d'']" "good_elem ''%2e''" "path_unescape ''%2e'' = Inr ''.''" by code_simp+
  have only: "lists_members plain_dav mem_do server_url (\<lambda>v. v) [''dav'', ''d''] hidden"
    by (rule mem_lists_members [OF hidden_up names(1) _ dir]) simp
  have dots: "path_unescape n = Inr ''.''" if "''/dav/d/'' @ n \<in> resources hidden" for n
    using that names(3) by (simp add: hidden_resources)
  have all: "fst (Webdav_DeleteAll go_core plain_dav sample_dav ''d'' hidden) = None"
    "\<not> has_key (dv_files (snd (Webdav_DeleteAll go_core plain_dav sample_dav ''d'' hidden))) ''/dav/d/%2e''"
    by code_simp+
  show ?thesis
    using webdav_Delete_percent [OF sample_server(1) sample_base [folded sample_dav_simps(2)] hidden_up, of "''d''" "''%2e''"]
      only names(2) dots all by (simp add: rel abs hidden_resources)
qed

subsection \<open>The contract between writing and reading\<close>

lemma mem_do_answers: "\<exists>b. fst (mem_do r v) = Inr b"
  by (simp add: mem_do_def Let_def status_def split: option.split)

lemma mem_dav_Read_files:
  assumes "fmlookup (dv_files v) (sample_dav.at q) = fmlookup (dv_files w) (sample_dav.at q)"
  shows "Webdav_Read go_core plain_dav sample_dav q v = Webdav_Read go_core plain_dav sample_dav q w"
proof (cases "cleanRelative go_core q = ''''")
  case False
  obtain r where r: "dav_do go_core plain_dav sample_dav ''GET'' q None = mem_do r" "asks server_url r ''GET'' (sample_dav.at q)"
    by (rule sample_dav.do_request [OF False])
  have "fst (mem_do r v) = fst (mem_do r w)"
    using assms asks_path [OF r(2)] by (auto simp: mem_do_def Let_def status_def split: option.split)
  then show ?thesis using False by (simp add: Webdav_Read_def get_body_def requiredResourceURL_def r(1))
qed (simp add: Webdav_Read_def get_body_def requiredResourceURL_def)

lemma mem_dav_write_fails:
  assumes "dav_up v" "Webdav_WriteMode go_core plain_dav sample_dav p c md v = (Some err, v')"
  shows "dv_files v' = dv_files v"
proof (cases "cleanRelative go_core p = ''''")
  case False
  obtain f t where f: "dav_ensureParent go_core plain_dav sample_dav p v = (f, t)" by force
  note parent = sample_dav.ensureParent_frame [OF assms(1) f]
  obtain r where r: "dav_do go_core plain_dav sample_dav ''PUT'' p (Some c) = mem_do r" "asks server_url r ''PUT'' (sample_dav.at p)"
    "rq_Body r = Some c" by (rule sample_dav.do_request [OF False])
  obtain a u where d: "mem_do r t = (a, u)" by force
  obtain b where "a = Inr b" using mem_do_answers [of r t] d by auto
  then show ?thesis
    using mem_put [OF r(2,3) d] assms(2) f d False parent
    by (cases f) (auto simp: Webdav_WriteMode_def putBytes_def requiredResourceURL_def Let_def r(1) statusOK_def outcome_def split: if_splits)
qed (use assms(2) in \<open>simp add: Webdav_WriteMode_def putBytes_def requiredResourceURL_def Let_def\<close>)

lemma Webdav_medium_simps [simp]:
  "m_Read (Webdav_medium E L M) = Webdav_Read E L M" "m_Write (Webdav_medium E L M) now = Webdav_Write E L M"
  "m_WriteMode (Webdav_medium E L M) now = Webdav_WriteMode E L M"
  by (simp_all add: Webdav_medium_def)

interpretation webdav: read_write "Webdav_medium go_core plain_dav sample_dav" dav_up "cleanRelative go_core"
  "\<lambda>p. cleanRelative go_core p \<noteq> ''''"
proof
  fix s e s' and now :: gotime and p c md
  assume up: "dav_up s" and w: "m_WriteMode (Webdav_medium go_core plain_dav sample_dav) now p c md s = (e, s')"
  then have run: "Webdav_WriteMode go_core plain_dav sample_dav p c md s = (e, s')" by simp
  note frame = sample_dav.WriteMode_frame [OF up run]
  show "dav_up s'" by (rule frame(1))
  fix q assume q: "cleanRelative go_core q \<noteq> cleanRelative go_core p \<or> e \<noteq> None"
  have "fmlookup (dv_files s') (sample_dav.at q) = fmlookup (dv_files s) (sample_dav.at q)"
  proof (cases e)
    case None
    then show ?thesis using q by (intro frame(3)) (simp add: sample_dav.at_inject)
  next
    case (Some err)
    then show ?thesis using mem_dav_write_fails [OF up] run by simp
  qed
  then show "m_Read (Webdav_medium go_core plain_dav sample_dav) q s' = m_Read (Webdav_medium go_core plain_dav sample_dav) q s"
    unfolding Webdav_medium_simps by (rule mem_dav_Read_files)
next
  fix s s' and now :: gotime and p c md
  assume "dav_up s" "m_WriteMode (Webdav_medium go_core plain_dav sample_dav) now p c md s = (None, s')"
  then show "m_Read (Webdav_medium go_core plain_dav sample_dav) p s' = Inr c"
    using sample_dav.Write_Read by simp
qed (simp add: Webdav_Write_def)

end
