(* ===== verification/Api.thy ===== *)
theory Api
  imports Http Workspace Cube
begin

text \<open>
  Package \<open>api\<close>: the handlers of \<open>go/pkg/api/handlers.go\<close> and the provider of \<open>go/pkg/api/provider.go\<close>, which serve
  mediums, workspaces and actions over HTTP.  A handler takes the parameters and the body of a request and
  answers with a status and a JSON value; the router that calls it (gin) and the registry of actions
  (\<open>core.Core\<close>) are not part of the repository.
\<close>

subsection \<open>Values of a payload\<close>

text \<open>
  A value of type \<open>any\<close>.  Decoding JSON gives nil, booleans, strings, \<open>float64\<close> numbers, lists and maps.  Of a
  number only what is left of it when it is truncated is used.
\<close>

datatype go_value =
    GNil | GBool bool | GString string | GFloat int | GInt int | GInt64 int | GMode file_mode
  | GStrings "string list" | GList "go_value list" | GMap "(string, go_value) fmap"

type_synonym payload = "(string, go_value) fmap"

fun firstValue :: "payload \<Rightarrow> string list \<Rightarrow> go_value" where
  "firstValue payload [] = GNil"
| "firstValue payload (key # keys) =
     (case fmlookup payload key of Some value \<Rightarrow> value | None \<Rightarrow> firstValue payload keys)"

definition stringValue :: "payload \<Rightarrow> string list \<Rightarrow> string" where
  "stringValue payload keys = (case firstValue payload keys of GString typed \<Rightarrow> typed | _ \<Rightarrow> '''')"

definition boolValue :: "payload \<Rightarrow> string list \<Rightarrow> bool" where
  "boolValue payload keys = (case firstValue payload keys of GBool typed \<Rightarrow> typed | _ \<Rightarrow> False)"

primrec normalizedValue :: "go_value \<Rightarrow> go_value" where
  "normalizedValue (GList typed) = GList (map normalizedValue typed)"
| "normalizedValue (GMap typed) = GMap (fmmap normalizedValue typed)"
| "normalizedValue GNil = GNil"
| "normalizedValue (GBool b) = GBool b"
| "normalizedValue (GString s) = GString s"
| "normalizedValue (GFloat i) = GFloat i"
| "normalizedValue (GInt i) = GInt i"
| "normalizedValue (GInt64 i) = GInt64 i"
| "normalizedValue (GMode m) = GMode m"
| "normalizedValue (GStrings ss) = GStrings ss"

text \<open>What \<open>%T\<close> prints.\<close>

primrec type_name :: "go_value \<Rightarrow> string" where
  "type_name GNil = ''<nil>''"
| "type_name (GBool b) = ''bool''"
| "type_name (GString s) = ''string''"
| "type_name (GFloat i) = ''float64''"
| "type_name (GInt i) = ''int''"
| "type_name (GInt64 i) = ''int64''"
| "type_name (GMode m) = ''fs.FileMode''"
| "type_name (GStrings ss) = ''[]string''"
| "type_name (GList vs) = ''[]interface {}''"
| "type_name (GMap m) = ''map[string]interface {}''"

subsection \<open>The environment\<close>

text \<open>
  The result of an action: a value, an error, or a failure without an error.  \<open>ae_FloatMode\<close> converts a number to
  32 bits, which Go leaves to the machine when the number does not fit.
\<close>

datatype run_result = Ran action_value | RanError gerr | RanFailed action_value

record ('c, 'm, 's, 'f, 'r, 'w) api_env =
  ae_JSONUnmarshal :: "string \<Rightarrow> payload res"
  ae_ErrorText :: "gerr \<Rightarrow> string"
  ae_Sprint :: "action_value \<Rightarrow> string"
  ae_FormatTime :: "gotime \<Rightarrow> string"
  ae_FloatMode :: "int \<Rightarrow> file_mode"
  ae_ErrorJoin :: "gerr \<Rightarrow> gerr \<Rightarrow> gerr"
  ae_Run :: "'c \<Rightarrow> string \<Rightarrow> 'm options \<Rightarrow> gotime \<Rightarrow> 's \<Rightarrow> run_result \<times> 's"
  ae_ReadFile :: "'f \<Rightarrow> 's \<Rightarrow> string res"
  ae_ReadAll :: "'r \<Rightarrow> 's \<Rightarrow> string res"
  ae_WriteString :: "'w \<Rightarrow> string \<Rightarrow> 's \<Rightarrow> gerr option \<times> 'w \<times> 's"
  ae_CloseWriter :: "gotime \<Rightarrow> 'w \<Rightarrow> 's \<Rightarrow> gerr option \<times> 's"
  ae_NewMemoryMedium :: "('s, 'f, 'r, 'w) medium"

text \<open>An HTTP request: the parameters of its route, and its body unless it has none.\<close>

record api_request =
  aq_Param :: "string \<Rightarrow> string"
  aq_Body :: "string res option"

definition fileModeValue :: "('c, 'm, 's, 'f, 'r, 'w) api_env \<Rightarrow> go_value \<Rightarrow> file_mode \<Rightarrow> file_mode res" where
  "fileModeValue A value fallback =
     (case value of
        GNil \<Rightarrow> Inr fallback
      | GMode typed \<Rightarrow> Inr typed
      | GInt typed \<Rightarrow> Inr (word_of_int typed)
      | GInt64 typed \<Rightarrow> Inr (word_of_int typed)
      | GFloat typed \<Rightarrow> Inr (ae_FloatMode A typed)
      | GString typed \<Rightarrow>
          (case ParseInt True typed of
             (parsed, Some err) \<Rightarrow> Inl err | (parsed, None) \<Rightarrow> Inr (word_of_int parsed))
      | _ \<Rightarrow> Inl (ErrNew (''unsupported file mode type '' @ type_name value)))"

subsection \<open>Answers\<close>

text \<open>\<open>fs.FileMode.String\<close>: the letters of the type bits that are set, or a hyphen, and the nine permissions.\<close>

definition mode_letters :: "file_mode \<Rightarrow> (nat \<times> char) list \<Rightarrow> string" where
  "mode_letters m = concat \<circ> map (\<lambda>(i, c). if bit m i then [c] else [])"

definition FileMode_String :: "file_mode \<Rightarrow> string" where
  "FileMode_String m =
     (let types = mode_letters m (zip (rev [19..<32]) ''dalTLDpSugct?'')
      in (if types = '''' then ''-'' else types)
         @ map (\<lambda>(i, c). if bit m i then c else CHR ''-'') (zip (rev [0..<9]) ''rwxrwxrwx''))"

lemma FileMode_String_examples:
  "FileMode_String 420 = ''-rw-r--r--''" "FileMode_String (ModeDir OR 493) = ''drwxr-xr-x''" "FileMode_String 0 = ''----------''"
  by code_simp+

record dirEntryDTO =
  dto_Name :: string
  dto_IsDir :: bool
  dto_Type :: string
  dto_Size :: int
  dto_Mode :: string

record fileInfoDTO =
  ito_Name :: string
  ito_Size :: int
  ito_Mode :: string
  ito_ModTime :: string
  ito_IsDir :: bool

record mediumResponse =
  mr_OK :: bool
  mr_Content :: string
  mr_Entries :: "dirEntryDTO list"
  mr_Info :: "fileInfoDTO option"
  mr_Exists :: "bool option"
  mr_IsFile :: "bool option"
  mr_IsDir :: "bool option"
  mr_Action :: string
  mr_Value :: action_value
  mr_Medium :: string
  mr_Op :: string
  mr_Meta :: payload

definition empty_response :: mediumResponse where
  "empty_response = \<lparr>mr_OK = False, mr_Content = '''', mr_Entries = [], mr_Info = None, mr_Exists = None, mr_IsFile = None,
     mr_IsDir = None, mr_Action = '''', mr_Value = VNil, mr_Medium = '''', mr_Op = '''',
     mr_Meta = fmempty\<rparr>"

definition ok_response :: mediumResponse where "ok_response = empty_response\<lparr>mr_OK := True\<rparr>"

record apiError =
  er_Code :: string
  er_Message :: string

record apiResponse =
  ar_Success :: bool
  ar_Data :: "mediumResponse option"
  ar_Error :: "apiError option"

type_synonym reply = "int \<times> apiResponse"

definition apiOK :: "mediumResponse \<Rightarrow> apiResponse" where
  "apiOK data = \<lparr>ar_Success = True, ar_Data = Some data, ar_Error = None\<rparr>"

definition apiFail :: "string \<Rightarrow> string \<Rightarrow> apiResponse" where
  "apiFail code message = \<lparr>ar_Success = False, ar_Data = None, ar_Error = Some \<lparr>er_Code = code, er_Message = message\<rparr>\<rparr>"

definition notImplemented :: "string \<Rightarrow> reply" where
  "notImplemented message = (501, apiFail ''not_implemented'' message)"

definition unconfiguredMedium :: "string \<Rightarrow> reply" where
  "unconfiguredMedium mediumType = notImplemented (mediumType @ '' medium is not configured'')"

definition dirEntryDTO_of :: "dir_entry \<Rightarrow> dirEntryDTO" where
  "dirEntryDTO_of entry =
     \<lparr>dto_Name = de_name entry, dto_IsDir = de_isDir entry, dto_Type = FileMode_String (DirEntry_Type entry),
      dto_Size = fi_size (de_info entry), dto_Mode = FileMode_String (fi_mode (de_info entry))\<rparr>"

definition dirEntryDTOs :: "dir_entry list \<Rightarrow> dirEntryDTO list" where
  "dirEntryDTOs entries = map dirEntryDTO_of entries"

definition fileInfoDTOFromInfo :: "('c, 'm, 's, 'f, 'r, 'w) api_env \<Rightarrow> file_info \<Rightarrow> fileInfoDTO" where
  "fileInfoDTOFromInfo A info =
     \<lparr>ito_Name = fi_name info, ito_Size = fi_size info, ito_Mode = FileMode_String (fi_mode info),
      ito_ModTime = ae_FormatTime A (fi_modTime info), ito_IsDir = fi_isDir info\<rparr>"

definition resultErrorMessage :: "('c, 'm, 's, 'f, 'r, 'w) api_env \<Rightarrow> run_result \<Rightarrow> string" where
  "resultErrorMessage A r =
     (case r of
        RanError err \<Rightarrow> ae_ErrorText A err
      | Ran v \<Rightarrow> if v \<noteq> VNil then ae_Sprint A v else ''action failed''
      | RanFailed v \<Rightarrow> if v \<noteq> VNil then ae_Sprint A v else ''action failed'')"

subsection \<open>Requests\<close>

text \<open>A body that is the JSON null gives a nil map, in which nothing is found.\<close>

definition bindPayload :: "('c, 'm, 's, 'f, 'r, 'w) api_env \<Rightarrow> api_request \<Rightarrow> reply + payload" where
  "bindPayload A c =
     (case aq_Body c of
        None \<Rightarrow> Inr fmempty
      | Some (Inl err) \<Rightarrow> Inl (400, apiFail ''invalid_request'' (ae_ErrorText A err))
      | Some (Inr data) \<Rightarrow>
          (case ae_JSONUnmarshal A data of
             Inl err \<Rightarrow> Inl (400, apiFail ''invalid_request'' (ae_ErrorText A err))
           | Inr payload \<Rightarrow> Inr payload))"

record mediumRequest =
  mq_Root :: string
  mq_Path :: string
  mq_OldPath :: string
  mq_NewPath :: string
  mq_Content :: string
  mq_Mode :: go_value
  mq_Recursive :: bool

definition mediumRequestFromPayload :: "payload \<Rightarrow> mediumRequest" where
  "mediumRequestFromPayload payload =
     \<lparr>mq_Root = stringValue payload [''root''], mq_Path = stringValue payload [''path''],
      mq_OldPath = stringValue payload [''oldPath'', ''old_path''],
      mq_NewPath = stringValue payload [''newPath'', ''new_path''], mq_Content = stringValue payload [''content''],
      mq_Mode = firstValue payload [''mode''], mq_Recursive = boolValue payload [''recursive'']\<rparr>"

text \<open>A value as the handlers of the actions see it: no handler asks for a number in the form JSON gives it.\<close>

definition option_value :: "go_value \<Rightarrow> 'm opt_value" where
  "option_value v = (case v of GString s \<Rightarrow> OptString s | GBool b \<Rightarrow> OptBool b | GInt i \<Rightarrow> OptInt i | _ \<Rightarrow> OptOther)"

definition optionsFromPayload :: "payload \<Rightarrow> 'm options" where
  "optionsFromPayload payload key =
     (case fmlookup payload key of Some value \<Rightarrow> option_value (normalizedValue value) | None \<Rightarrow> OptOther)"

subsection \<open>Operations of a medium\<close>

type_synonym ('s, 'f, 'r, 'w) operation =
  "('s, 'f, 'r, 'w) medium \<Rightarrow> mediumRequest \<Rightarrow> gotime \<Rightarrow> 's \<Rightarrow> mediumResponse res \<times> 's"

text \<open>The answer of an operation that returns only an error.\<close>

definition answer_error :: "gerr option \<times> 's \<Rightarrow> mediumResponse res \<times> 's" where
  "answer_error r = (case r of (Some err, s) \<Rightarrow> (Inl err, s) | (None, s) \<Rightarrow> (Inr ok_response, s))"

definition readMediumOperation :: "('s, 'f, 'r, 'w) operation" where
  "readMediumOperation medium req now s =
     (case m_Read medium (mq_Path req) s of
        Inl err \<Rightarrow> (Inl err, s) | Inr content \<Rightarrow> (Inr (ok_response\<lparr>mr_Content := content\<rparr>), s))"

definition writeMediumOperation :: "('s, 'f, 'r, 'w) operation" where
  "writeMediumOperation medium req now s = answer_error (m_Write medium now (mq_Path req) (mq_Content req) s)"

definition writeModeMediumOperation :: "('c, 'm, 's, 'f, 'r, 'w) api_env \<Rightarrow> ('s, 'f, 'r, 'w) operation" where
  "writeModeMediumOperation A medium req now s =
     (case fileModeValue A (mq_Mode req) 420 of
        Inl err \<Rightarrow> (Inl err, s)
      | Inr mode \<Rightarrow> answer_error (m_WriteMode medium now (mq_Path req) (mq_Content req) mode s))"

definition ensureDirMediumOperation :: "('s, 'f, 'r, 'w) operation" where
  "ensureDirMediumOperation medium req now s = answer_error (m_EnsureDir medium (mq_Path req) s)"

definition isFileMediumOperation :: "('s, 'f, 'r, 'w) operation" where
  "isFileMediumOperation medium req now s = (Inr (ok_response\<lparr>mr_IsFile := Some (m_IsFile medium (mq_Path req) s)\<rparr>), s)"

definition deleteAllMediumOperation :: "('s, 'f, 'r, 'w) operation" where
  "deleteAllMediumOperation medium req now s = answer_error (m_DeleteAll medium (mq_Path req) s)"

definition deleteMediumOperation :: "('s, 'f, 'r, 'w) operation" where
  "deleteMediumOperation medium req now s =
     (if mq_Recursive req then deleteAllMediumOperation medium req now s
      else answer_error (m_Delete medium (mq_Path req) s))"

definition renameMediumOperation :: "('s, 'f, 'r, 'w) operation" where
  "renameMediumOperation medium req now s = answer_error (m_Rename medium (mq_OldPath req) (mq_NewPath req) s)"

definition listMediumOperation :: "('s, 'f, 'r, 'w) operation" where
  "listMediumOperation medium req now s =
     (case m_List medium now (mq_Path req) s of
        Inl err \<Rightarrow> (Inl err, s) | Inr entries \<Rightarrow> (Inr (ok_response\<lparr>mr_Entries := dirEntryDTOs entries\<rparr>), s))"

definition statMediumOperation :: "('c, 'm, 's, 'f, 'r, 'w) api_env \<Rightarrow> ('s, 'f, 'r, 'w) operation" where
  "statMediumOperation A medium req now s =
     (case m_Stat medium now (mq_Path req) s of
        Inl err \<Rightarrow> (Inl err, s)
      | Inr info \<Rightarrow> (Inr (ok_response\<lparr>mr_Info := Some (fileInfoDTOFromInfo A info)\<rparr>), s))"

definition readAllContent :: "string res \<Rightarrow> mediumResponse res" where
  "readAllContent r = (case r of Inl err \<Rightarrow> Inl err | Inr content \<Rightarrow> Inr (ok_response\<lparr>mr_Content := content\<rparr>))"

text \<open>A reader whose close fails is only logged.\<close>

definition openMediumOperation :: "('c, 'm, 's, 'f, 'r, 'w) api_env \<Rightarrow> ('s, 'f, 'r, 'w) operation" where
  "openMediumOperation A medium req now s =
     (case m_Open medium now (mq_Path req) s of
        Inl err \<Rightarrow> (Inl err, s) | Inr file \<Rightarrow> (readAllContent (ae_ReadFile A file s), s))"

definition readStreamMediumOperation :: "('c, 'm, 's, 'f, 'r, 'w) api_env \<Rightarrow> ('s, 'f, 'r, 'w) operation" where
  "readStreamMediumOperation A medium req now s =
     (case m_ReadStream medium now (mq_Path req) s of
        Inl err \<Rightarrow> (Inl err, s) | Inr reader \<Rightarrow> (readAllContent (ae_ReadAll A reader s), s))"

definition writeAndClose ::
  "('c, 'm, 's, 'f, 'r, 'w) api_env \<Rightarrow> gotime \<Rightarrow> 'w \<Rightarrow> string \<Rightarrow> 's \<Rightarrow> gerr option \<times> 's" where
  "writeAndClose A now writer content s =
     (case ae_WriteString A writer content s of
        (Some err, writer, s) \<Rightarrow>
          (case ae_CloseWriter A now writer s of
             (Some closeErr, s) \<Rightarrow> (Some (ae_ErrorJoin A err closeErr), s)
           | (None, s) \<Rightarrow> (Some err, s))
      | (None, writer, s) \<Rightarrow> ae_CloseWriter A now writer s)"

text \<open>What the operations share that open a writer.\<close>

definition write_through ::
  "('c, 'm, 's, 'f, 'r, 'w) api_env \<Rightarrow> (string \<Rightarrow> 's \<Rightarrow> 'w res \<times> 's) \<Rightarrow> mediumRequest \<Rightarrow> gotime \<Rightarrow> 's \<Rightarrow> mediumResponse res \<times> 's" where
  "write_through A opener req now s =
     (case opener (mq_Path req) s of
        (Inl err, s) \<Rightarrow> (Inl err, s)
      | (Inr writer, s) \<Rightarrow> answer_error (writeAndClose A now writer (mq_Content req) s))"

definition createMediumOperation :: "('c, 'm, 's, 'f, 'r, 'w) api_env \<Rightarrow> ('s, 'f, 'r, 'w) operation" where
  "createMediumOperation A medium = write_through A (m_Create medium)"

definition appendMediumOperation :: "('c, 'm, 's, 'f, 'r, 'w) api_env \<Rightarrow> ('s, 'f, 'r, 'w) operation" where
  "appendMediumOperation A medium = write_through A (m_Append medium)"

definition writeStreamMediumOperation :: "('c, 'm, 's, 'f, 'r, 'w) api_env \<Rightarrow> ('s, 'f, 'r, 'w) operation" where
  "writeStreamMediumOperation A medium = write_through A (m_WriteStream medium)"

definition existsMediumOperation :: "('s, 'f, 'r, 'w) operation" where
  "existsMediumOperation medium req now s = (Inr (ok_response\<lparr>mr_Exists := Some (m_Exists medium (mq_Path req) s)\<rparr>), s)"

definition isDirMediumOperation :: "('s, 'f, 'r, 'w) operation" where
  "isDirMediumOperation medium req now s = (Inr (ok_response\<lparr>mr_IsDir := Some (m_IsDir medium (mq_Path req) s)\<rparr>), s)"

definition mediumOperationHandlers :: "('c, 'm, 's, 'f, 'r, 'w) api_env \<Rightarrow> (string \<times> ('s, 'f, 'r, 'w) operation) list" where
  "mediumOperationHandlers A =
     [(''read'', readMediumOperation), (''write'', writeMediumOperation), (''writemode'', writeModeMediumOperation A),
      (''ensuredir'', ensureDirMediumOperation), (''mkdir'', ensureDirMediumOperation), (''isfile'', isFileMediumOperation),
      (''delete'', deleteMediumOperation), (''deleteall'', deleteAllMediumOperation), (''rename'', renameMediumOperation),
      (''list'', listMediumOperation), (''stat'', statMediumOperation A), (''open'', openMediumOperation A),
      (''create'', createMediumOperation A), (''append'', appendMediumOperation A),
      (''readstream'', readStreamMediumOperation A), (''writestream'', writeStreamMediumOperation A),
      (''exists'', existsMediumOperation), (''isdir'', isDirMediumOperation)]"

definition errUnsupportedMediumOperation :: gerr where
  "errUnsupportedMediumOperation = ErrNew ''unsupported medium operation''"

text \<open>\<open>core.Errorf\<close> with \<open>%w\<close> wraps its argument.\<close>

definition dispatchMediumOperation ::
  "go_env \<Rightarrow> ('c, 'm, 's, 'f, 'r, 'w) api_env \<Rightarrow> ('s, 'f, 'r, 'w) medium \<Rightarrow> string \<Rightarrow> mediumRequest \<Rightarrow> gotime \<Rightarrow> 's
     \<Rightarrow> mediumResponse res \<times> 's" where
  "dispatchMediumOperation E A medium op req now s =
     (case map_of (mediumOperationHandlers A) (Lower E op) of
        None \<Rightarrow> (Inl (CoreE '''' [op] (Some errUnsupportedMediumOperation)), s)
      | Some handler \<Rightarrow> handler medium req now s)"

subsection \<open>The provider\<close>

text \<open>
  A provider holds the registry of actions and two mediums, each of which may be nil, and may be nil itself.
  \<open>as_service\<close> is what \<open>apiWorkspaceServices\<close> holds for it; \<open>as_media\<close> is the state of the mediums and of
  whatever the actions act on.
\<close>

record ('c, 's, 'f, 'r, 'w) io_provider =
  pv_core :: "'c option"
  pv_local :: "('s, 'f, 'r, 'w) medium option"
  pv_memory :: "('s, 'f, 'r, 'w) medium option"

record ('s, 'f, 'r, 'w) api_state =
  as_media :: 's
  as_service :: "('s, 'f, 'r, 'w) workspace option"

definition unavailable :: "string \<Rightarrow> reply" where
  "unavailable message = (503, apiFail ''service_unavailable'' message)"

definition resolveMedium ::
  "go_env \<Rightarrow> ('c, 's, 'f, 'r, 'w) io_provider option \<Rightarrow> string \<Rightarrow> reply + ('s, 'f, 'r, 'w) medium" where
  "resolveMedium E p mediumType =
     (if Lower E mediumType = ''memory'' then
        (case Option.bind p pv_memory of
           None \<Rightarrow> Inl (unavailable ''memory medium is not configured'') | Some medium \<Rightarrow> Inr medium)
      else if Lower E mediumType = ''local'' then
        (case Option.bind p pv_local of
           None \<Rightarrow> Inl (unavailable ''local medium is not configured'') | Some medium \<Rightarrow> Inr medium)
      else Inl (unconfiguredMedium mediumType))"

text \<open>
  The service is made at the first request; \<open>LoadOrStore\<close> keeps the one of another request that was faster, which
  in this order of steps there is not.
\<close>

definition resolveWorkspaceService ::
  "go_env \<Rightarrow> ('c, 'm, 's, 'f, 'r, 'w) api_env \<Rightarrow> ('c, 's, 'f, 'r, 'w) io_provider option \<Rightarrow> ('s, 'f, 'r, 'w) api_state
     \<Rightarrow> (reply + ('s, 'f, 'r, 'w) workspace) \<times> ('s, 'f, 'r, 'w) api_state" where
  "resolveWorkspaceService E A p st =
     (case p of
        None \<Rightarrow> (Inl (unavailable ''workspace service is not configured''), st)
      | Some provider \<Rightarrow>
          (case as_service st of
             Some service \<Rightarrow> (Inr service, st)
           | None \<Rightarrow>
               (let medium = (case pv_memory provider of None \<Rightarrow> ae_NewMemoryMedium A | Some medium \<Rightarrow> medium) in
                case NewWorkspace E (Some medium) ''workspaces'' (as_media st) of
                  (Inl err, s) \<Rightarrow> (Inl (unavailable (ae_ErrorText A err)), st\<lparr>as_media := s\<rparr>)
                | (Inr service, s) \<Rightarrow> (Inr service, \<lparr>as_media = s, as_service = Some service\<rparr>))))"

definition workspaceNameFromPayload :: "go_env \<Rightarrow> payload \<Rightarrow> string" where
  "workspaceNameFromPayload E payload =
     Trim E (stringValue payload [''workspace'', ''name'', ''identifier'', ''workspaceID'', ''workspace_id''])"

definition workspaceCommandFromPayload :: "go_env \<Rightarrow> string \<Rightarrow> payload \<Rightarrow> workspace_command" where
  "workspaceCommandFromPayload E pathWorkspace payload =
     (let name = workspaceNameFromPayload E payload; name = (if name = '''' then pathWorkspace else name)
      in \<lparr>wc_Action = Trim E (stringValue payload [''action'']), wc_Workspace = name,
          wc_Path = stringValue payload [''path''], wc_Content = stringValue payload [''content''],
          wc_Identifier = '''', wc_Password = '''', wc_WorkspaceID = ''''\<rparr>)"

definition writeWorkspaceResult ::
  "('c, 'm, 's, 'f, 'r, 'w) api_env \<Rightarrow> string \<Rightarrow> ('s, 'f, 'r, 'w) command_result \<Rightarrow> reply" where
  "writeWorkspaceResult A action result =
     (let response = ok_response\<lparr>mr_Action := action\<rparr> in
      case result of
        Failed err \<Rightarrow> (500, apiFail ''workspace_failed'' (resultErrorMessage A (RanError err)))
      | OkNil \<Rightarrow> (200, apiOK response)
      | OkMedium medium \<Rightarrow> (200, apiOK response)
      | OkContent value \<Rightarrow> (200, apiOK (response\<lparr>mr_Value := VString value, mr_Content := value\<rparr>))
      | OkID value \<Rightarrow> (200, apiOK (response\<lparr>mr_Value := VString value, mr_Content := value\<rparr>))
      | OkEntries value \<Rightarrow> (200, apiOK (response\<lparr>mr_Entries := dirEntryDTOs value\<rparr>)))"

text \<open>What the three handlers of workspaces share: a command on the service of the provider.\<close>

definition run_command ::
  "go_env \<Rightarrow> ('c, 'm, 's, 'f, 'r, 'w) api_env \<Rightarrow> ('c, 's, 'f, 'r, 'w) io_provider option \<Rightarrow> workspace_command \<Rightarrow> gotime
     \<Rightarrow> ('s, 'f, 'r, 'w) api_state \<Rightarrow> reply \<times> ('s, 'f, 'r, 'w) api_state" where
  "run_command E A p command now st =
     (case resolveWorkspaceService E A p st of
        (Inl r, st) \<Rightarrow> (r, st)
      | (Inr service, st) \<Rightarrow>
          (case HandleWorkspaceCommand E now command (Some service) (as_media st) of
             (result, service, s) \<Rightarrow>
               (writeWorkspaceResult A (wc_Action command) result, \<lparr>as_media = s, as_service = service\<rparr>)))"

definition workspace_command_of :: "string \<Rightarrow> string \<Rightarrow> workspace_command" where
  "workspace_command_of action name =
     \<lparr>wc_Action = action, wc_Workspace = name, wc_Path = '''', wc_Content = '''', wc_Identifier = '''', wc_Password = '''',
      wc_WorkspaceID = ''''\<rparr>"

definition createWorkspace ::
  "go_env \<Rightarrow> ('c, 'm, 's, 'f, 'r, 'w) api_env \<Rightarrow> ('c, 's, 'f, 'r, 'w) io_provider option \<Rightarrow> api_request \<Rightarrow> gotime
     \<Rightarrow> ('s, 'f, 'r, 'w) api_state \<Rightarrow> reply \<times> ('s, 'f, 'r, 'w) api_state" where
  "createWorkspace E A p c now st =
     (case bindPayload A c of
        Inl r \<Rightarrow> (r, st)
      | Inr payload \<Rightarrow>
          (let workspaceName = workspaceNameFromPayload E payload in
           if workspaceName = '''' then ((400, apiFail ''invalid_request'' ''workspace is required''), st)
           else run_command E A p (workspace_command_of ''create'' workspaceName) now st))"

definition switchWorkspace ::
  "go_env \<Rightarrow> ('c, 'm, 's, 'f, 'r, 'w) api_env \<Rightarrow> ('c, 's, 'f, 'r, 'w) io_provider option \<Rightarrow> api_request \<Rightarrow> gotime
     \<Rightarrow> ('s, 'f, 'r, 'w) api_state \<Rightarrow> reply \<times> ('s, 'f, 'r, 'w) api_state" where
  "switchWorkspace E A p c now st =
     (let workspaceID = Trim E (aq_Param c ''id'') in
      if workspaceID = '''' then ((400, apiFail ''invalid_request'' ''workspace id is required''), st)
      else run_command E A p (workspace_command_of ''switch'' workspaceID) now st)"

definition handleWorkspaceCommand ::
  "go_env \<Rightarrow> ('c, 'm, 's, 'f, 'r, 'w) api_env \<Rightarrow> ('c, 's, 'f, 'r, 'w) io_provider option \<Rightarrow> api_request \<Rightarrow> gotime
     \<Rightarrow> ('s, 'f, 'r, 'w) api_state \<Rightarrow> reply \<times> ('s, 'f, 'r, 'w) api_state" where
  "handleWorkspaceCommand E A p c now st =
     (let workspaceID = Trim E (aq_Param c ''id'') in
      if workspaceID = '''' then ((400, apiFail ''invalid_request'' ''workspace id is required''), st)
      else case bindPayload A c of
          Inl r \<Rightarrow> (r, st)
        | Inr payload \<Rightarrow>
            (if Trim E (stringValue payload [''action'']) = ''''
             then ((400, apiFail ''invalid_request'' ''action is required''), st)
             else run_command E A p (workspaceCommandFromPayload E workspaceID payload) now st))"

definition dispatchMedium ::
  "go_env \<Rightarrow> ('c, 'm, 's, 'f, 'r, 'w) api_env \<Rightarrow> ('c, 's, 'f, 'r, 'w) io_provider option \<Rightarrow> api_request \<Rightarrow> gotime
     \<Rightarrow> ('s, 'f, 'r, 'w) api_state \<Rightarrow> reply \<times> ('s, 'f, 'r, 'w) api_state" where
  "dispatchMedium E A p c now st =
     (let mediumType = Trim E (aq_Param c ''type''); op = Trim E (aq_Param c ''op'') in
      if mediumType = '''' then ((400, apiFail ''invalid_request'' ''medium type is required''), st)
      else if op = '''' then ((400, apiFail ''invalid_request'' ''medium operation is required''), st)
      else case bindPayload A c of
          Inl r \<Rightarrow> (r, st)
        | Inr payload \<Rightarrow>
            (let req = mediumRequestFromPayload payload in
             case resolveMedium E p mediumType of
               Inl r \<Rightarrow> (r, st)
             | Inr medium \<Rightarrow>
                 (case dispatchMediumOperation E A medium op req now (as_media st) of
                    (Inl err, s) \<Rightarrow>
                      (if err_is err errUnsupportedMediumOperation then notImplemented (ae_ErrorText A err)
                       else (500, apiFail ''medium_failed'' (ae_ErrorText A err)), st\<lparr>as_media := s\<rparr>)
                  | (Inr resp, s) \<Rightarrow>
                      ((200, apiOK (resp\<lparr>mr_Medium := mediumType, mr_Op := op\<rparr>)), st\<lparr>as_media := s\<rparr>))))"

subsection \<open>Actions\<close>

record rfc15Action =
  ra_Name :: string
  ra_Medium :: string
  ra_Operation :: string

definition rfc15Actions :: "rfc15Action list" where
  "rfc15Actions = map (\<lambda>(n, m, op). \<lparr>ra_Name = n, ra_Medium = m, ra_Operation = op\<rparr>)
     [(''core.io.local.read'', ''local'', ''read''), (''core.io.local.write'', ''local'', ''write''),
      (''core.io.local.list'', ''local'', ''list''), (''core.io.local.delete'', ''local'', ''delete''),
      (''core.io.memory.read'', ''memory'', ''read''), (''core.io.memory.write'', ''memory'', ''write''),
      (''core.io.github.clone'', ''github'', ''clone''), (''core.io.github.read'', ''github'', ''read''),
      (''core.io.pwa.scrape'', ''pwa'', ''scrape''), (''core.io.sftp.read'', ''sftp'', ''read''),
      (''core.io.sftp.write'', ''sftp'', ''write''), (''core.io.s3.read'', ''s3'', ''read''),
      (''core.io.s3.write'', ''s3'', ''write''), (''core.io.cube.read'', ''cube'', ''read''),
      (''core.io.cube.write'', ''cube'', ''write''), (''core.io.cube.pack'', ''cube'', ''pack''),
      (''core.io.cube.unpack'', ''cube'', ''unpack''), (''core.io.copy'', ''any'', ''copy'')]"

definition findRFC15Action :: "string \<Rightarrow> rfc15Action option" where
  "findRFC15Action name = find (\<lambda>action. ra_Name action = name) rfc15Actions"

definition dispatchAction ::
  "go_env \<Rightarrow> ('c, 'm, 's, 'f, 'r, 'w) api_env \<Rightarrow> ('c, 's, 'f, 'r, 'w) io_provider option \<Rightarrow> api_request \<Rightarrow> gotime
     \<Rightarrow> ('s, 'f, 'r, 'w) api_state \<Rightarrow> reply \<times> ('s, 'f, 'r, 'w) api_state" where
  "dispatchAction E A p c now st =
     (let actionName = Trim E (aq_Param c ''action'') in
      case findRFC15Action actionName of
        None \<Rightarrow> ((404, apiFail ''unknown_action'' (''RFC '' @ [CHR 0xC2, CHR 0xA7] @ ''15 action is not registered'')), st)
      | Some action \<Rightarrow>
          (case bindPayload A c of
             Inl r \<Rightarrow> (r, st)
           | Inr payload \<Rightarrow>
               (case Option.bind p pv_core of
                  None \<Rightarrow> (unavailable ''core action registry is not configured'', st)
                | Some core \<Rightarrow>
                    (case ae_Run A core (ra_Name action) (optionsFromPayload payload) now (as_media st) of
                       (Ran v, s) \<Rightarrow>
                         ((200, apiOK (ok_response\<lparr>mr_Action := ra_Name action, mr_Value := v\<rparr>)), st\<lparr>as_media := s\<rparr>)
                     | (failure, s) \<Rightarrow>
                         ((500, apiFail ''action_failed'' (resultErrorMessage A failure)), st\<lparr>as_media := s\<rparr>)))))"

end
