(* ===== verification/Provider.thy ===== *)
theory Provider
  imports Api Actions
begin

text \<open>
  The provider of \<open>go/pkg/api/provider.go\<close>: what \<open>NewProvider\<close> puts together, the routes it mounts and how it
  describes them.
\<close>

subsection \<open>The program around a provider\<close>

text \<open>
  The state of a program with one provider: that of the packages \<open>io\<close> and \<open>cube\<close>, and the in-memory medium the
  provider makes for itself, which is not the store of the memory actions.
\<close>

record ('o, 's, 'e) program =
  pg_io :: "('o, 's) io_state"
  pg_cube :: 'e
  pg_memory :: memory_medium

text \<open>A medium over a part of a larger state, with its files, readers and writers among others.\<close>

definition on_part :: "('t \<Rightarrow> 's) \<Rightarrow> ('s \<Rightarrow> 't \<Rightarrow> 't) \<Rightarrow> ('s \<Rightarrow> 'a \<times> 's) \<Rightarrow> 't \<Rightarrow> 'a \<times> 't" where
  "on_part get put f t = (case f (get t) of (a, s) \<Rightarrow> (a, put s t))"

definition lift_medium ::
  "('t \<Rightarrow> 's) \<Rightarrow> ('s \<Rightarrow> 't \<Rightarrow> 't) \<Rightarrow> ('f \<Rightarrow> 'g) \<Rightarrow> ('r \<Rightarrow> 'q) \<Rightarrow> ('w \<Rightarrow> 'v) \<Rightarrow> ('s, 'f, 'r, 'w) medium \<Rightarrow> ('t, 'g, 'q, 'v) medium" where
  "lift_medium get put ff fr fw M =
     \<lparr>m_Read = (\<lambda>p t. m_Read M p (get t)), m_Write = (\<lambda>now p c. on_part get put (m_Write M now p c)),
      m_WriteMode = (\<lambda>now p c md. on_part get put (m_WriteMode M now p c md)),
      m_EnsureDir = (\<lambda>p. on_part get put (m_EnsureDir M p)), m_IsFile = (\<lambda>p t. m_IsFile M p (get t)),
      m_Delete = (\<lambda>p. on_part get put (m_Delete M p)), m_DeleteAll = (\<lambda>p. on_part get put (m_DeleteAll M p)),
      m_Rename = (\<lambda>p q. on_part get put (m_Rename M p q)), m_List = (\<lambda>now p t. m_List M now p (get t)),
      m_Stat = (\<lambda>now p t. m_Stat M now p (get t)), m_Open = (\<lambda>now p t. map_sum id ff (m_Open M now p (get t))),
      m_Create = (\<lambda>p t. map_prod (map_sum id fw) id (on_part get put (m_Create M p) t)),
      m_Append = (\<lambda>p t. map_prod (map_sum id fw) id (on_part get put (m_Append M p) t)),
      m_ReadStream = (\<lambda>now p t. map_sum id fr (m_ReadStream M now p (get t))),
      m_WriteStream = (\<lambda>p t. map_prod (map_sum id fw) id (on_part get put (m_WriteStream M p) t)),
      m_Exists = (\<lambda>p t. m_Exists M p (get t)), m_IsDir = (\<lambda>p t. m_IsDir M p (get t))\<rparr>"

abbreviation get_os :: "('o, 's, 'e) program \<Rightarrow> 'o" where "get_os pg \<equiv> io_os (pg_io pg)"

abbreviation put_os :: "'o \<Rightarrow> ('o, 's, 'e) program \<Rightarrow> ('o, 's, 'e) program" where
  "put_os fs pg \<equiv> pg\<lparr>pg_io := (pg_io pg)\<lparr>io_os := fs\<rparr>\<rparr>"

abbreviation put_memory :: "memory_medium \<Rightarrow> ('o, 's, 'e) program \<Rightarrow> ('o, 's, 'e) program" where
  "put_memory m pg \<equiv> pg\<lparr>pg_memory := m\<rparr>"

subsection \<open>The actions of a provider\<close>

text \<open>The handlers of \<open>RegisterActions\<close> of \<open>io\<close> and of \<open>cube\<close>, on the state of the program.\<close>

definition on_io :: "('m, ('o, 's) io_state) handler \<Rightarrow> ('m, ('o, 's, 'e) program) handler" where
  "on_io h now opts pg = (case h now opts (pg_io pg) of (r, st) \<Rightarrow> (r, pg\<lparr>pg_io := st\<rparr>))"

definition cube_actions ::
  "go_env \<Rightarrow> ('o, 'g, 'v) os_api \<Rightarrow> 'e cube_env \<Rightarrow> 'n borg
     \<Rightarrow> (string \<times> (('s, 'f, 'r, 'w) medium, ('o, 's, 'e) program) handler) list" where
  "cube_actions E S K B =
     [(''core.io.cube.read'', \<lambda>now opts pg.
         (map_sum id VString (readAction K opts (io_media (pg_io pg), pg_cube pg)), pg)),
      (''core.io.cube.write'', \<lambda>now opts pg.
         (case writeAction K now opts (io_media (pg_io pg), pg_cube pg) of
            (e, s, r) \<Rightarrow> done_result (e, pg\<lparr>pg_io := (pg_io pg)\<lparr>io_media := s\<rparr>, pg_cube := r\<rparr>))),
      (''core.io.cube.pack'', \<lambda>now opts pg.
         (case packAction E S K B now opts (io_media (pg_io pg)) (get_os pg) of
            (e, fs) \<Rightarrow> done_result (e, put_os fs pg))),
      (''core.io.cube.unpack'', \<lambda>now opts pg.
         (case unpackAction E S K B now opts (get_os pg) (io_media (pg_io pg)) of
            (e, s) \<Rightarrow> done_result (e, pg\<lparr>pg_io := (pg_io pg)\<lparr>io_media := s\<rparr>\<rparr>)))]"

definition cube_RegisterActions where
  "cube_RegisterActions E S K B Action c = map_option (register_all Action (cube_actions E S K B)) c"

definition provider_actions ::
  "go_env \<Rightarrow> ('o, 'g, 'v) os_api \<Rightarrow> 'e cube_env \<Rightarrow> 'n borg
     \<Rightarrow> (string \<times> (('s, 'f, 'r, 'w) medium, ('o, 's, 'e) program) handler) list" where
  "provider_actions E S K B = map (map_prod id on_io) (io_actions E S) @ cube_actions E S K B"

subsection \<open>NewProvider\<close>

definition configuredLocalMedium ::
  "go_env \<Rightarrow> ('o, 'f, 'v) os_api \<Rightarrow> 'o \<Rightarrow> ('o, 'f, 'f, 'v) medium option" where
  "configuredLocalMedium E S fs =
     (let root = os_Env S ''CORE_IO_LOCAL_ROOT'' in
      if root = '''' then None
      else case NewSandboxed E S root fs of Inl err \<Rightarrow> None | Inr medium \<Rightarrow> Some medium)"

text \<open>
  \<open>cores\<close> are the arguments of \<open>NewProvider\<close>, any of which may be nil, \<open>new_core\<close> is \<open>core.New()\<close> and \<open>Action\<close>
  enters a handler into a registry.  The provider starts with an empty in-memory medium.
\<close>

definition NewProvider ::
  "go_env \<Rightarrow> ('o, 'f, 'v) os_api \<Rightarrow> 'e cube_env \<Rightarrow> 'n borg \<Rightarrow> 'c
     \<Rightarrow> (string \<Rightarrow> (('s, 'h, 'r, 'w) medium, ('o, 's, 'e) program) handler \<Rightarrow> 'c \<Rightarrow> 'c) \<Rightarrow> 'c option list
     \<Rightarrow> ('o, 's, 'e) program
     \<Rightarrow> ('c, ('o, 's, 'e) program, 'f + memory_file, 'f + memory_file, 'v + memory_writer) io_provider
        \<times> ('o, 's, 'e) program" where
  "NewProvider E S K B new_core Action cores pg =
     (let c = (case cores of [] \<Rightarrow> None | c # _ \<Rightarrow> c);
          c = (case c of None \<Rightarrow> new_core | Some c \<Rightarrow> c);
          c = register_all Action (map (map_prod id on_io) (io_actions E S)) c;
          c = register_all Action (cube_actions E S K B) c
      in (\<lparr>pv_core = Some c,
           pv_local = map_option (lift_medium get_os put_os Inl Inl Inl) (configuredLocalMedium E S (get_os pg)),
           pv_memory = Some (lift_medium pg_memory put_memory Inr Inr Inr (MemoryMedium_medium E))\<rparr>,
          pg\<lparr>pg_memory := NewMemoryMedium\<rparr>))"

subsection \<open>Routes\<close>

definition provider_Name :: string where "provider_Name = ''io''"

definition BasePath :: string where "BasePath = ''/v1''"

type_synonym ('c, 's, 'f, 'r, 'w) route =
  "('c, 's, 'f, 'r, 'w) io_provider option \<Rightarrow> api_request \<Rightarrow> gotime \<Rightarrow> ('s, 'f, 'r, 'w) api_state
     \<Rightarrow> reply \<times> ('s, 'f, 'r, 'w) api_state"

definition routes ::
  "go_env \<Rightarrow> ('c, 'm, 's, 'f, 'r, 'w) api_env \<Rightarrow> (string \<times> ('c, 's, 'f, 'r, 'w) route) list" where
  "routes E A =
     [(''/workspace'', createWorkspace E A), (''/workspace/:id/switch'', switchWorkspace E A),
      (''/workspace/:id/command'', handleWorkspaceCommand E A), (''/medium/:type/:op'', dispatchMedium E A),
      (''/io/:action'', dispatchAction E A)]"

text \<open>\<open>POST\<close> mounts a handler on a group of a router, \<open>Group\<close> makes a group.\<close>

definition RegisterRoutes where
  "RegisterRoutes E A POST p rg =
     (case (p, rg) of
        (Some provider, Some g) \<Rightarrow> Some (register_all POST (map (map_prod id (\<lambda>h. h p)) (routes E A)) g)
      | _ \<Rightarrow> rg)"

definition provider_Register where
  "provider_Register E A POST Group p r =
     (case (p, r) of
        (Some provider, Some router) \<Rightarrow> RegisterRoutes E A POST p (Some (Group router BasePath))
      | _ \<Rightarrow> None)"

record parameter_description =
  pd_Name :: string
  pd_In :: string
  pd_Required :: bool
  pd_Schema :: payload

record route_description =
  rd_Method :: string
  rd_Path :: string
  rd_Summary :: string
  rd_Description :: string
  rd_Tags :: "string list"
  rd_StatusCode :: int
  rd_Parameters :: "parameter_description list"
  rd_RequestBody :: payload
  rd_Response :: payload

definition schema :: "string \<Rightarrow> payload" where
  "schema t = fmap_of_list [(''type'', GString t)]"

definition object_schema :: "(string \<times> string) list \<Rightarrow> payload \<Rightarrow> payload" where
  "object_schema properties m = fmupd ''type'' (GString ''object'')
     (fmupd ''properties'' (GMap (fmap_of_list (map (\<lambda>(k, t). (k, GMap (schema t))) properties))) m)"

definition path_parameter :: "string \<Rightarrow> parameter_description" where
  "path_parameter n = \<lparr>pd_Name = n, pd_In = ''path'', pd_Required = True, pd_Schema = schema ''string''\<rparr>"

definition section_sign :: string where "section_sign = [CHR 0xC2, CHR 0xA7]"

definition describe_route ::
  "string \<Rightarrow> string \<Rightarrow> string \<Rightarrow> string \<Rightarrow> parameter_description list \<Rightarrow> payload \<Rightarrow> route_description" where
  "describe_route path summary description tag parameters body =
     \<lparr>rd_Method = ''POST'', rd_Path = path, rd_Summary = summary, rd_Description = description, rd_Tags = [''io'', tag],
      rd_StatusCode = 200, rd_Parameters = parameters, rd_RequestBody = body, rd_Response = schema ''object''\<rparr>"

definition Describe :: "route_description list" where
  "Describe =
     [describe_route ''/workspace'' ''Create workspace'' (''RFC '' @ section_sign @ ''5 workspace creation route.'')
        ''workspace'' []
        (object_schema [(''workspace'', ''string''), (''name'', ''string''), (''identifier'', ''string''), (''workspaceID'', ''string'')]
           (fmap_of_list [(''required'', GStrings [''workspace''])])),
      describe_route ''/workspace/:id/switch'' ''Switch workspace'' (''RFC '' @ section_sign @ ''5 workspace switch route.'')
        ''workspace'' [path_parameter ''id''] fmempty,
      describe_route ''/workspace/:id/command'' ''Handle workspace command''
        (''RFC '' @ section_sign @ ''5 workspace command route.'') ''workspace'' [path_parameter ''id'']
        (object_schema [(''action'', ''string''), (''workspace'', ''string''), (''name'', ''string''), (''identifier'', ''string''),
             (''workspaceID'', ''string''), (''path'', ''string''), (''content'', ''string'')]
           (fmap_of_list [(''required'', GStrings [''action''])])),
      describe_route ''/medium/:type/:op'' ''Dispatch Medium operation''
        ''Dispatches HTTP requests to configured go-io Medium primitives.'' ''medium'' [path_parameter ''type'', path_parameter ''op'']
        (object_schema [(''path'', ''string''), (''oldPath'', ''string''), (''newPath'', ''string''), (''content'', ''string''),
             (''mode'', ''integer''), (''recursive'', ''boolean'')] fmempty),
      describe_route ''/io/:action'' (''Dispatch RFC '' @ section_sign @ ''15 IO action'')
        (''Dispatches registered go-io RFC '' @ section_sign @ ''15 actions.'') ''actions''
        [\<lparr>pd_Name = ''action'', pd_In = ''path'', pd_Required = True,
           pd_Schema = fmupd ''enum'' (GList (map (\<lambda>action. GString (ra_Name action)) rfc15Actions)) (schema ''string'')\<rparr>]
        (schema ''object'')]"

end
