(* ===== verification/ApiProps.thy ===== *)
theory ApiProps
  imports Provider ActionsProps CubeProps
begin

text \<open>
  Properties of the HTTP API: the shape of its answers, what a client reads that wrote before, the modes it
  can give, and the routes and actions it describes.
\<close>

subsection \<open>Numbers in a text\<close>

lemma below_ten: "0 \<le> d \<Longrightarrow> d < 10 \<Longrightarrow> d \<in> {0, 1, 2, 3, 4, 5, 6, 7, 8, 9 :: int}"
  by simp presburger

lemma digit_char: "0 \<le> d \<Longrightarrow> d < 10 \<Longrightarrow> digit_value (char_of (48 + d)) = Some d"
proof -
  assume "0 \<le> d" "d < 10"
  then have "d \<in> {0, 1, 2, 3, 4, 5, 6, 7, 8, 9}" by (rule below_ten)
  moreover have "\<forall>d\<in>{0, 1, 2, 3, 4, 5, 6, 7, 8, 9}. digit_value (char_of (48 + d)) = Some d" by code_simp
  ultimately show ?thesis by blast
qed

lemma uint_digits_append:
  "uint_digits b base (xs @ ys) m = (case uint_digits b base xs m of Inl err \<Rightarrow> Inl err | Inr n \<Rightarrow> uint_digits b base ys n)"
  by (induction b base xs m rule: uint_digits.induct) (auto split: option.split)

definition is_digit_char :: "char \<Rightarrow> bool" where
  "is_digit_char c \<longleftrightarrow> c \<in> set ''0123456789''"

lemma digit_char_mem: "0 \<le> (d :: int) \<Longrightarrow> d < 10 \<Longrightarrow> is_digit_char (char_of (48 + d)) \<and> (char_of (48 + d) = CHR ''0'' \<longleftrightarrow> d = 0)"
proof -
  assume "0 \<le> d" "d < 10"
  then have "d \<in> {0, 1, 2, 3, 4, 5, 6, 7, 8, 9}" by (rule below_ten)
  moreover have "\<forall>d\<in>{0, 1, 2, 3, 4, 5, 6, 7, 8, 9 :: int}. is_digit_char (char_of (48 + d)) \<and> (char_of (48 + d) = CHR ''0'' \<longleftrightarrow> d = 0)"
    by code_simp
  ultimately show ?thesis by blast
qed

lemma decimal_digits_0 [simp]: "decimal_digits 0 = ''0''"
  by code_simp

lemma decimal_digits_chars:
  "0 \<le> n \<Longrightarrow> decimal_digits n \<noteq> [] \<and> list_all is_digit_char (decimal_digits n) \<and>
     (hd (decimal_digits n) = CHR ''0'' \<longleftrightarrow> n = 0) \<and> (n = 0 \<longrightarrow> decimal_digits n = ''0'')"
proof (induction n rule: decimal_digits.induct)
  case (1 n)
  show ?case
  proof (cases "n < 10")
    case True
    then show ?thesis using 1 digit_char_mem [of n] by (simp add: decimal_digits.simps [of n])
  next
    case False
    then show ?thesis
      using 1 digit_char_mem [of "n mod 10"] by (auto simp: decimal_digits.simps [of n] div_eq_0_iff) 
  qed
qed

lemma uint_decimal:
  "0 \<le> n \<Longrightarrow> uint_digits True 10 (decimal_digits n) 0 = (if n < 18446744073709551616 then Inr n else Inl ErrRange)"
proof (induction n rule: decimal_digits.induct)
  case (1 n)
  have step: "uint_digits True 10 [char_of (48 + d)] m = (if m * 10 + d \<ge> 18446744073709551616 then Inl ErrRange else Inr (m * 10 + d))"
    if "0 \<le> d" "d < 10" for d m
    using digit_char [OF that] that digit_char_mem [OF that] by (auto simp: is_digit_char_def)
  show ?case
  proof (cases "n < 10")
    case True
    then show ?thesis using 1 step [of n 0] by (simp add: decimal_digits.simps [of n])
  next
    case False
    then have "uint_digits True 10 (decimal_digits (n div 10)) 0 = (if n div 10 < 18446744073709551616 then Inr (n div 10) else Inl ErrRange)"
      using 1 by simp
    then show ?thesis
      using False step [of "n mod 10" "n div 10"] 1(2) by (auto simp: decimal_digits.simps [of n] uint_digits_append)
  qed
qed

lemma ParseUint_decimal:
  assumes "0 \<le> n"
  shows "ParseUint True (decimal_digits n) = (if n < 18446744073709551616 then Inr n else Inl ErrRange)"
proof (cases "n = 0")
  case True
  then show ?thesis using decimal_digits_chars [OF assms] by simp code_simp
next
  case False
  then have hd: "hd (decimal_digits n) \<noteq> CHR ''0''" "decimal_digits n \<noteq> []" and "list_all is_digit_char (decimal_digits n)"
    using decimal_digits_chars [OF assms] by auto
  then have "CHR ''_'' \<notin> set (decimal_digits n)" by (auto simp: list_all_iff is_digit_char_def)
  then show ?thesis using hd uint_decimal [OF assms] by (simp add: ParseUint_def)
qed

lemma ParseInt_decimal:
  "ParseInt True (decimal n) =
     (if n < - 9223372036854775808 then (- 9223372036854775808, Some (NumError (decimal n) ErrRange))
      else if n \<ge> 9223372036854775808 then (9223372036854775807, Some (NumError (decimal n) ErrRange)) else (n, None))"
proof (cases "n < 0")
  case True
  then show ?thesis
    using ParseUint_decimal [of "- n"] by (simp add: ParseInt_def decimal_def Let_def)
next
  case False
  then have "decimal n = decimal_digits n" "0 \<le> n" by (simp_all add: decimal_def)
  moreover have "\<not> prefix ''-'' (decimal_digits n)" "\<not> prefix ''+'' (decimal_digits n)" "decimal_digits n \<noteq> []"
    using decimal_digits_chars [OF \<open>0 \<le> n\<close>] by (auto simp: prefix_def is_digit_char_def)
  ultimately show ?thesis
    using ParseUint_decimal [of n] False by (simp add: ParseInt_def Let_def)
qed

text \<open>
  A mode given as a decimal text is taken modulo 2^32 as long as it fits 64 bits, so a mode that does not
  fit a file mode is cut without a word; beyond 64 bits it is refused.
\<close>

lemma fileModeValue_decimal:
  "fileModeValue A (GString (decimal n)) fallback =
     (if - (2 ^ 63) \<le> n \<and> n < 2 ^ 63 then Inr (word_of_int (n mod 2 ^ 32)) else Inl (NumError (decimal n) ErrRange))"
proof -
  have "(word_of_int (n mod 2 ^ 32) :: 32 word) = word_of_int n"
    using word_of_int_2p_len [where 'a = 32] by (simp add: word_of_int_eq_iff take_bit_eq_mod)
  then show ?thesis by (simp add: fileModeValue_def ParseInt_decimal)
qed

subsection \<open>The shape of the answers\<close>

lemma answer_ok: "answer_error r = (Inr resp, s') \<Longrightarrow> mr_OK resp"
  by (auto simp: answer_error_def ok_response_def split: prod.splits option.splits)

definition gives_ok :: "('s, 'f, 'r, 'w) operation \<Rightarrow> bool" where
  "gives_ok f \<longleftrightarrow> (\<forall>M req now s resp s'. f M req now s = (Inr resp, s') \<longrightarrow> mr_OK resp)"

lemma ok_response_OK [simp]: "mr_OK ok_response"
  by (simp add: ok_response_def)

lemma gives_ok_answers:
  "gives_ok writeMediumOperation" "gives_ok ensureDirMediumOperation" "gives_ok deleteAllMediumOperation"
  "gives_ok renameMediumOperation"
  by (auto simp: gives_ok_def writeMediumOperation_def ensureDirMediumOperation_def deleteAllMediumOperation_def
      renameMediumOperation_def dest: answer_ok)

lemma gives_ok_delete: "gives_ok deleteMediumOperation"
  by (auto simp: gives_ok_def deleteMediumOperation_def deleteAllMediumOperation_def dest: answer_ok split: if_splits)

lemma gives_ok_writeMode: "gives_ok (writeModeMediumOperation A)"
  by (auto simp: gives_ok_def writeModeMediumOperation_def dest: answer_ok split: sum.splits)

lemma gives_ok_queries:
  "gives_ok readMediumOperation" "gives_ok isFileMediumOperation" "gives_ok listMediumOperation" "gives_ok (statMediumOperation A)"
  "gives_ok existsMediumOperation" "gives_ok isDirMediumOperation"
  by (auto simp: gives_ok_def readMediumOperation_def isFileMediumOperation_def listMediumOperation_def statMediumOperation_def
      existsMediumOperation_def isDirMediumOperation_def split: sum.splits)

lemma gives_ok_readers: "gives_ok (openMediumOperation A)" "gives_ok (readStreamMediumOperation A)"
  by (auto simp: gives_ok_def openMediumOperation_def readStreamMediumOperation_def readAllContent_def split: sum.splits)

lemma write_through_ok: "write_through A opener req now s = (Inr resp, s') \<Longrightarrow> mr_OK resp"
  by (auto simp: write_through_def dest: answer_ok split: prod.splits sum.splits)

lemma gives_ok_writers: "gives_ok (createMediumOperation A)" "gives_ok (appendMediumOperation A)" "gives_ok (writeStreamMediumOperation A)"
  by (auto simp: gives_ok_def createMediumOperation_def appendMediumOperation_def writeStreamMediumOperation_def dest: write_through_ok)

lemma handlers_ok: "(op, f) \<in> set (mediumOperationHandlers A) \<Longrightarrow> gives_ok f"
  unfolding mediumOperationHandlers_def
  using gives_ok_answers gives_ok_delete gives_ok_writeMode gives_ok_queries gives_ok_readers gives_ok_writers
  by (simp only: set_simps insert_iff empty_iff prod.inject) blast

lemma operation_ok: "(op, f) \<in> set (mediumOperationHandlers A) \<Longrightarrow> f M req now s = (Inr resp, s') \<Longrightarrow> mr_OK resp"
  using handlers_ok unfolding gives_ok_def by blast

lemma dispatch_ok: "dispatchMediumOperation E A M op req now s = (Inr resp, s') \<Longrightarrow> mr_OK resp"
  unfolding dispatchMediumOperation_def by (auto dest!: map_of_SomeD dest: operation_ok split: option.splits)

text \<open>The codes an answer of each status may have, and what an answer holds.\<close>

definition codes :: "(int \<times> string) set" where
  "codes = {(400, ''invalid_request''), (404, ''unknown_action''), (500, ''workspace_failed''), (500, ''medium_failed''),
     (500, ''action_failed''), (501, ''not_implemented''), (503, ''service_unavailable'')}"

definition well_typed :: "reply \<Rightarrow> bool" where
  "well_typed r \<longleftrightarrow> (case r of (status, a) \<Rightarrow>
     if status = 200 then ar_Success a \<and> ar_Error a = None \<and> (\<exists>data. ar_Data a = Some data \<and> mr_OK data)
     else \<not> ar_Success a \<and> ar_Data a = None \<and> (\<exists>e. ar_Error a = Some e \<and> (status, er_Code e) \<in> codes))"

lemma typed_fail: "(status, code) \<in> codes \<Longrightarrow> well_typed (status, apiFail code message)"
  by (auto simp: well_typed_def apiFail_def codes_def)

lemma typed_ok: "mr_OK data \<Longrightarrow> well_typed (200, apiOK data)"
  by (simp add: well_typed_def apiOK_def)

lemma mem_codes: "(400, ''invalid_request'') \<in> codes" "(404, ''unknown_action'') \<in> codes" "(500, ''workspace_failed'') \<in> codes"
  "(500, ''medium_failed'') \<in> codes" "(500, ''action_failed'') \<in> codes" "(501, ''not_implemented'') \<in> codes"
  "(503, ''service_unavailable'') \<in> codes"
  by (simp_all add: codes_def)

lemmas typed_fails [simp] = mem_codes [THEN typed_fail]

lemma typed_helpers [simp]: "well_typed (notImplemented m)" "well_typed (unavailable m)" "well_typed (unconfiguredMedium m)"
  "fst (notImplemented m) = 501" "fst (unavailable m) = 503" "fst (unconfiguredMedium m) = 501"
  by (simp_all add: notImplemented_def unavailable_def unconfiguredMedium_def)

text \<open>A rejected request: the answer is well formed, and of status 400 or 404 only when nothing has changed.\<close>

definition answered :: "reply \<Rightarrow> 'a \<Rightarrow> 'a \<Rightarrow> bool" where
  "answered r st st' \<longleftrightarrow> well_typed r \<and> (fst r \<in> {400, 404} \<longrightarrow> st' = st)"

lemma bind_typed: "bindPayload A c = Inl r \<Longrightarrow> answered r st st"
  by (auto simp: answered_def bindPayload_def split: option.splits sum.splits)

lemma resolve_typed: "resolveMedium E p t = Inl r \<Longrightarrow> answered r st st"
  by (auto simp: answered_def resolveMedium_def split: option.splits if_splits)

lemma workspace_result_typed: "well_typed (writeWorkspaceResult A action result) \<and> fst (writeWorkspaceResult A action result) \<in> {200, 500}"
  by (auto simp: writeWorkspaceResult_def Let_def ok_response_def intro!: typed_ok split: command_result.split)

lemma run_command_status: "run_command E A p command now st = (r, st') \<Longrightarrow> well_typed r \<and> fst r \<in> {200, 500, 503}"
proof -
  assume run: "run_command E A p command now st = (r, st')"
  obtain q st1 where q: "resolveWorkspaceService E A p st = (q, st1)" by force
  have "\<And>r. q = Inl r \<Longrightarrow> well_typed r \<and> fst r = 503"
    using q by (auto simp: resolveWorkspaceService_def Let_def split: option.splits prod.splits sum.splits)
  moreover have "\<And>service. q = Inr service \<Longrightarrow> \<exists>result. r = writeWorkspaceResult A (wc_Action command) result"
    using run q by (auto simp: run_command_def split: prod.splits)
  ultimately show ?thesis
    using run q workspace_result_typed [of A "wc_Action command"] by (cases q) (auto simp: run_command_def)
qed

lemma run_command_answered: "run_command E A p command now st = (r, st') \<Longrightarrow> answered r st st'"
  using run_command_status [of E A p command now st r st'] by (auto simp: answered_def)

lemma refused: "answered (400, apiFail ''invalid_request'' m) st st" "answered (404, apiFail ''unknown_action'' m) st st"
  "answered (unavailable m) st st'"
  by (simp_all add: answered_def)

lemma changed: "well_typed r \<Longrightarrow> fst r \<in> {200, 500, 501, 503} \<Longrightarrow> answered r st st'"
  by (auto simp: answered_def)

lemma createWorkspace_answered: "createWorkspace E A p c now st = (r, st') \<Longrightarrow> answered r st st'"
  by (auto simp: createWorkspace_def Let_def refused dest: bind_typed run_command_answered split: sum.splits if_splits)

lemma switchWorkspace_answered: "switchWorkspace E A p c now st = (r, st') \<Longrightarrow> answered r st st'"
  by (auto simp: switchWorkspace_def Let_def refused dest: run_command_answered split: if_splits)

lemma handleWorkspaceCommand_answered: "handleWorkspaceCommand E A p c now st = (r, st') \<Longrightarrow> answered r st st'"
  by (auto simp: handleWorkspaceCommand_def Let_def refused dest: bind_typed run_command_answered split: sum.splits if_splits)

lemma dispatchMedium_answered:
  assumes "dispatchMedium E A p c now st = (r, st')"
  shows "answered r st st'"
proof (cases "Trim E (aq_Param c ''type'') = '''' \<or> Trim E (aq_Param c ''op'') = '''' \<or> isl (bindPayload A c)")
  case True
  then show ?thesis using assms
    by (auto simp: dispatchMedium_def Let_def refused dest: bind_typed split: if_splits sum.splits)
next
  case False
  then obtain payload where b: "bindPayload A c = Inr payload" by (cases "bindPayload A c") auto
  let ?t = "Trim E (aq_Param c ''type'')" and ?op = "Trim E (aq_Param c ''op'')" and ?req = "mediumRequestFromPayload payload"
  show ?thesis
  proof (cases "resolveMedium E p ?t")
    case (Inl q)
    then show ?thesis using assms False b resolve_typed [OF Inl] by (simp add: dispatchMedium_def Let_def)
  next
    case (Inr M)
    obtain a s where d: "dispatchMediumOperation E A M ?op ?req now (as_media st) = (a, s)" by force
    show ?thesis
    proof (cases a)
      case (Inl err)
      then show ?thesis using assms False b Inr d by (auto simp: dispatchMedium_def Let_def intro!: changed split: if_splits)
    next
      case (Inr resp)
      have "mr_OK resp" by (rule dispatch_ok [OF d [unfolded Inr]])
      then show ?thesis using assms False b \<open>resolveMedium E p ?t = Inr M\<close> d Inr
        by (auto simp: dispatchMedium_def Let_def intro!: changed typed_ok)
    qed
  qed
qed

lemma dispatchAction_answered:
  assumes "dispatchAction E A p c now st = (r, st')"
  shows "answered r st st'"
proof (cases "findRFC15Action (Trim E (aq_Param c ''action'')) = None \<or> isl (bindPayload A c) \<or> Option.bind p pv_core = None")
  case True
  then show ?thesis using assms
    by (auto simp: dispatchAction_def Let_def refused dest: bind_typed split: option.splits sum.splits)
next
  case False
  then obtain action payload core where f: "findRFC15Action (Trim E (aq_Param c ''action'')) = Some action"
    "bindPayload A c = Inr payload" "Option.bind p pv_core = Some core"
    by (cases "bindPayload A c") auto
  obtain q s where run: "ae_Run A core (ra_Name action) (optionsFromPayload payload) now (as_media st) = (q, s)" by force
  show ?thesis using assms f run
    by (cases q) (auto simp: dispatchAction_def intro!: changed typed_ok)
qed

text \<open>
  C40: whatever the provider (also when it is nil or has no medium), the request and the state, every answer of the
  five routes of the HTTP API is well formed: status 200 with data that says it is ok and no error, or one of 400, 404,
  500, 501 and 503 with an error whose code belongs to that status and no data.  A request that is answered
  with 400 or 404 has changed nothing.
\<close>

theorem api_answers:
  assumes "(path, h) \<in> set (routes E A)" "h p c now st = (r, st')"
  shows "well_typed r \<and> (fst r \<in> {400, 404} \<longrightarrow> st' = st)"
proof -
  have "h \<in> {createWorkspace E A, switchWorkspace E A, handleWorkspaceCommand E A, dispatchMedium E A, dispatchAction E A}"
    using assms(1) unfolding routes_def by auto
  then have "answered r st st'"
    using createWorkspace_answered [of E A p c now st r st'] switchWorkspace_answered [of E A p c now st r st']
      handleWorkspaceCommand_answered [of E A p c now st r st'] dispatchMedium_answered [of E A p c now st r st']
      dispatchAction_answered [of E A p c now st r st'] assms(2) by blast
  then show ?thesis by (simp add: answered_def)
qed

subsection \<open>Writing and reading over HTTP\<close>

lemma lift_read_write:
  assumes "read_write M keeps key valid" "\<And>s t. get (put s t) = s"
  shows "read_write (lift_medium get put ff fr fw M) (\<lambda>t. keeps (get t)) key valid"
proof -
  note rw = read_write.write_inv [OF assms(1)] read_write.read_written [OF assms(1)] read_write.write_default [OF assms(1)]
  show ?thesis
  proof
    fix t e t' now p c md
    assume i: "keeps (get t)" and w: "m_WriteMode (lift_medium get put ff fr fw M) now p c md t = (e, t')"
    then obtain s' where s': "m_WriteMode M now p c md (get t) = (e, s')" "t' = put s' t"
      by (auto simp: lift_medium_def on_part_def split: prod.splits)
    show "keeps (get t')" using rw(1) [OF i s'(1)] by (simp add: s'(2) assms(2))
    show "m_Read (lift_medium get put ff fr fw M) q t' = m_Read (lift_medium get put ff fr fw M) q t"
      if "key q \<noteq> key p \<or> e \<noteq> None" for q
      using read_write.read_other [OF assms(1) i s'(1) that] by (simp add: lift_medium_def s'(2) assms(2))
  next
    fix t t' now p c md
    assume i: "keeps (get t)" "valid p" and w: "m_WriteMode (lift_medium get put ff fr fw M) now p c md t = (None, t')"
    then obtain s' where s': "m_WriteMode M now p c md (get t) = (None, s')" "t' = put s' t"
      by (auto simp: lift_medium_def on_part_def split: prod.splits)
    show "m_Read (lift_medium get put ff fr fw M) p t' = Inr c"
      using rw(2) [OF i s'(1)] by (simp add: lift_medium_def s'(2) assms(2))
  next
    fix now p c t
    show "m_Write (lift_medium get put ff fr fw M) now p c t = m_WriteMode (lift_medium get put ff fr fw M) now p c 420 t"
      by (simp add: lift_medium_def on_part_def rw(3))
  qed
qed

text \<open>A medium that keeps the contract, behind \<open>dispatchMedium\<close>.\<close>

lemma dispatchMedium_200:
  assumes "dispatchMedium E A p c now st = ((200, a), st')"
  obtains payload M resp s where "Trim E (aq_Param c ''type'') \<noteq> ''''" "Trim E (aq_Param c ''op'') \<noteq> ''''"
    "bindPayload A c = Inr payload" "resolveMedium E p (Trim E (aq_Param c ''type'')) = Inr M" "st' = st\<lparr>as_media := s\<rparr>"
    "dispatchMediumOperation E A M (Trim E (aq_Param c ''op'')) (mediumRequestFromPayload payload) now (as_media st) = (Inr resp, s)"
proof -
  have bind: "bindPayload A c \<noteq> Inl (200, a)"
    by (auto simp: bindPayload_def split: option.splits sum.splits)
  have resolve: "resolveMedium E p t \<noteq> Inl (200, a)" for t
    by (auto simp: resolveMedium_def unavailable_def unconfiguredMedium_def notImplemented_def split: option.splits)
  show thesis
    using assms bind resolve that
    by (auto simp: dispatchMedium_def Let_def notImplemented_def split: if_splits sum.splits prod.splits)
qed

lemma write_operation:
  assumes "read_write M keeps key valid" "keeps s" "valid (mq_Path req)" "Lower E op \<in> {''write'', ''writemode''}"
    "dispatchMediumOperation E A M op req now s = (Inr resp, s')"
  shows "m_Read M (mq_Path req) s' = Inr (mq_Content req) \<and> keeps s'"
proof -
  have "\<exists>md. m_WriteMode M now (mq_Path req) (mq_Content req) md s = (None, s')"
    using assms(4,5) read_write.write_default [OF assms(1), of now "mq_Path req" "mq_Content req" s]
    by (auto simp: dispatchMediumOperation_def mediumOperationHandlers_def writeMediumOperation_def writeModeMediumOperation_def
        answer_error_def split: sum.splits prod.splits option.splits) blast
  then show ?thesis
    using read_write.read_written [OF assms(1,2,3)] read_write.write_inv [OF assms(1,2)] by blast
qed

lemma read_operation:
  "Lower E op = ''read'' \<Longrightarrow> m_Read M (mq_Path req) s = Inr c \<Longrightarrow>
    dispatchMediumOperation E A M op req now s = (Inr (ok_response\<lparr>mr_Content := c\<rparr>), s)"
  by (simp add: dispatchMediumOperation_def mediumOperationHandlers_def readMediumOperation_def)

lemma request_simps [simp]:
  "mq_Path (mediumRequestFromPayload w) = stringValue w [''path'']" "mq_Content (mediumRequestFromPayload w) = stringValue w [''content'']"
  by (simp_all add: mediumRequestFromPayload_def)

lemma lift_frame:
  "m_WriteMode (lift_medium get put ff fr fw M) now p c md t = (e, t') \<Longrightarrow> \<exists>s. t' = put s t"
  "m_Write (lift_medium get put ff fr fw M) now p c t = (e, t') \<Longrightarrow> \<exists>s. t' = put s t"
  by (auto simp: lift_medium_def on_part_def split: prod.splits)

lemma write_operation_frame:
  assumes "Lower E op \<in> {''write'', ''writemode''}"
    "dispatchMediumOperation E A (lift_medium get put ff fr fw M) op req now t = (Inr resp, t')"
  shows "\<exists>s. t' = put s t"
  using assms
  by (auto simp: dispatchMediumOperation_def mediumOperationHandlers_def writeMediumOperation_def writeModeMediumOperation_def
      answer_error_def dest: lift_frame split: sum.splits prod.splits option.splits)

lemma provider_memory:
  assumes "NewProvider E S K B new_core Action cores pg = (p, pg')" "Lower E t = ''memory''"
  shows "resolveMedium E (Some p) t = Inr (lift_medium pg_memory put_memory Inr Inr Inr (MemoryMedium_medium E))"
  using assms by (auto simp: NewProvider_def Let_def resolveMedium_def)

text \<open>
  What a request writes into the in-memory medium of a provider of \<open>NewProvider\<close>, with or without a mode, a
  later request reads; and the medium is the provider's own: the store of the memory actions is not changed,
  nor is the file system.
\<close>

lemma api_memory_write_read:
  assumes "go_runtime E" "NewProvider E S K B new_core Action cores pg = (p, pg')"
    "Lower E (Trim E (aq_Param c ''type'')) = ''memory''" "Lower E (Trim E (aq_Param c ''op'')) \<in> {''write'', ''writemode''}"
    "bindPayload A c = Inr w" "dispatchMedium E A (Some p) c now st = ((200, a), st')"
    "aq_Param d ''type'' = aq_Param c ''type''" "Trim E (aq_Param d ''op'') \<noteq> ''''" "Lower E (Trim E (aq_Param d ''op'')) = ''read''"
    "bindPayload A d = Inr r" "stringValue r [''path''] = stringValue w [''path'']"
  shows "(\<exists>data. dispatchMedium E A (Some p) d now' st' = ((200, apiOK data), st') \<and>
      mr_Content data = stringValue w [''content'']) \<and> pg_io (as_media st') = pg_io (as_media st)"
proof -
  note resolve = provider_memory [OF assms(2)]
  obtain payload M resp s where t: "Trim E (aq_Param c ''type'') \<noteq> ''''" "Trim E (aq_Param c ''op'') \<noteq> ''''"
    and b: "bindPayload A c = Inr payload" "resolveMedium E (Some p) (Trim E (aq_Param c ''type'')) = Inr M"
    and s: "st' = st\<lparr>as_media := s\<rparr>"
    and op: "dispatchMediumOperation E A M (Trim E (aq_Param c ''op'')) (mediumRequestFromPayload payload) now (as_media st) = (Inr resp, s)"
    by (rule dispatchMedium_200 [OF assms(6)])
  have M: "M = lift_medium pg_memory put_memory Inr Inr Inr (MemoryMedium_medium E)" and w: "payload = w"
    using b assms(5) resolve [OF assms(3)] by simp_all
  have rw: "read_write M (\<lambda>t. True) (\<lambda>p. p) (\<lambda>_. True)"
    unfolding M by (rule lift_read_write [OF go_runtime.memory_read_write [OF assms(1)]]) simp
  have "m_Read M (stringValue w [''path'']) s = Inr (stringValue w [''content''])"
    using write_operation [OF rw TrueI TrueI assms(4) op] by (simp add: w)
  then have "dispatchMediumOperation E A M (Trim E (aq_Param d ''op'')) (mediumRequestFromPayload r) now' (as_media st') =
      (Inr (ok_response\<lparr>mr_Content := stringValue w [''content'']\<rparr>), s)"
    using read_operation [OF assms(9), where M = M and req = "mediumRequestFromPayload r" and s = s
        and c = "stringValue w [''content'']" and A = A and now = now'] assms(11) s by simp
  moreover have "pg_io s = pg_io (as_media st)"
    using write_operation_frame [OF assms(4) op [unfolded M]] by auto
  ultimately show ?thesis
    using assms(8,10) t b(2) s
    by (simp add: dispatchMedium_def Let_def assms(7))
      (intro exI [of _ "ok_response\<lparr>mr_Content := stringValue w [''content''], mr_Medium := Trim E (aq_Param c ''type''),
         mr_Op := Trim E (aq_Param d ''op'')\<rparr>"], simp)
qed

subsection \<open>What the provider describes\<close>

text \<open>
  \<open>Describe\<close> names the mounted routes in their order, and the actions it lists, which are those \<open>dispatchAction\<close>
  lets through, are those \<open>NewProvider\<close> registers.
\<close>

lemma Describe_routes: "map rd_Path Describe = map fst (routes E A)"
  by (simp add: Describe_def describe_route_def routes_def)

lemma rfc15_registered: "set (map ra_Name rfc15Actions) = set (map fst (provider_actions E S K B))"
  by (auto simp: rfc15Actions_def provider_actions_def io_actions_def cube_actions_def)

lemma findRFC15Action_registered:
  "findRFC15Action name \<noteq> None \<longleftrightarrow> name \<in> set (map fst (provider_actions E S K B))"
  unfolding rfc15_registered [symmetric] by (auto simp: findRFC15Action_def find_None_iff)

subsection \<open>Witnesses\<close>

text \<open>
  A provider over an in-memory medium, with a decoder that takes every body for the content of \<open>a/b\<close>, and no
  action registered.
\<close>

definition sample_api :: "(unit, unit, memory_medium, memory_file, memory_file, memory_writer) api_env" where
  "sample_api =
     \<lparr>ae_JSONUnmarshal = (\<lambda>d. Inr (fmap_of_list [(''path'', GString ''a/b''), (''content'', GString d)])),
      ae_ErrorText = (\<lambda>e. ''error''), ae_Sprint = (\<lambda>v. ''value''), ae_FormatTime = (\<lambda>t. ''''), ae_FloatMode = word_of_int,
      ae_ErrorJoin = (\<lambda>e f. e), ae_Run = (\<lambda>c name opts now s. (RanFailed VNil, s)), ae_ReadFile = (\<lambda>f s. Inr ''''),
      ae_ReadAll = (\<lambda>r s. Inr ''''), ae_WriteString = (\<lambda>w d s. (None, snd (MemoryWriteCloser_Write d w), s)),
      ae_CloseWriter = MemoryWriteCloser_Close go_core, ae_NewMemoryMedium = MemoryMedium_medium go_core\<rparr>"

definition sample_provider :: "(unit, memory_medium, memory_file, memory_file, memory_writer) io_provider" where
  "sample_provider = \<lparr>pv_core = Some (), pv_local = None, pv_memory = Some (MemoryMedium_medium go_core)\<rparr>"

definition sample_request :: "string \<Rightarrow> string \<Rightarrow> string \<Rightarrow> api_request" where
  "sample_request t op body =
     \<lparr>aq_Param = (\<lambda>k. if k = ''type'' then t else if k = ''op'' then op else ''''), aq_Body = Some (Inr body)\<rparr>"

definition sample_service :: "(memory_medium, memory_file, memory_file, memory_writer) api_state" where
  "sample_service = \<lparr>as_media = NewMemoryMedium, as_service = None\<rparr>"

theorem api_answers_witness:
  "(\<exists>a st. dispatchMedium go_core sample_api (Some sample_provider) (sample_request ''memory'' ''write'' ''text'') 1 sample_service
      = ((200, a), st) \<and> ar_Success a \<and> ar_Error a = None) \<and>
   snd (switchWorkspace go_core sample_api (Some sample_provider) (sample_request '''' '''' '''') 1 sample_service) = sample_service"
proof -
  let ?R = "routes go_core sample_api"
  let ?w = "dispatchMedium go_core sample_api (Some sample_provider) (sample_request ''memory'' ''write'' ''text'') 1 sample_service"
  let ?x = "switchWorkspace go_core sample_api (Some sample_provider) (sample_request '''' '''' '''') 1 sample_service"
  have r: "(''/medium/:type/:op'', dispatchMedium go_core sample_api) \<in> set ?R"
    "(''/workspace/:id/switch'', switchWorkspace go_core sample_api) \<in> set ?R" by (simp_all add: routes_def)
  have "fst (fst ?w) = 200" by code_simp
  then obtain a st where w: "?w = ((200, a), st)" by (metis prod.collapse)
  have "fst (fst ?x) = 400" by code_simp
  then obtain b st' where x: "?x = ((400, b), st')" by (metis prod.collapse)
  show ?thesis
    using api_answers [OF r(1) w] api_answers [OF r(2) x] w x by (simp add: well_typed_def)
qed

end
