(* ===== verification/Spec2Isabelle.thy ===== *)
theory Spec2Isabelle
  imports MemoryProps NodeProps Mock CryptoProps StoreProps LocalProps CubeProps WorkspaceProps
    ServiceProps DatanodeProps SqliteProps S3Props ActionsProps SftpProps PwaProps GithubProps WebdavProps ApiProps
begin

text \<open>
  A model of \<open>go-io\<close>, a Go library of storage backends behind one interface, with the theorems
  that make it correct.

  \<^bold>\<open>The program.\<close>  \<open>go/io.go\<close> declares the interface \<open>Medium\<close> (read, write, list, rename, delete,
  streams, ...) and an in-memory implementation; \<open>go/mock.go\<close> a test double.  The other packages
  implement the interface over something else: \<open>go/local\<close> over the operating system below a root
  directory, \<open>go/node\<close> over a tree of files in memory that can be saved as a tar archive,
  \<open>go/store\<close> over a key-value store in a SQL database, \<open>go/datanode\<close> over a Borg DataNode,
  \<open>go/sqlite\<close> over a table of a SQLite database, \<open>go/s3\<close> over the objects of a bucket, \<open>go/cube\<close> over any other medium with the content
  encrypted.  \<open>go/sigil\<close> holds the reversible transformations (hex, base64, gzip,
  authenticated encryption) that the encrypting medium uses, and \<open>go/workspace\<close> named directories
  of a medium with a medium scoped to each of them.

  \<^bold>\<open>The library.\<close>  \<open>Prelude\<close>: errors as the sum \<open>gerr + 'a\<close>, file modes as 32-bit words, finite maps.
  \<open>Runtime\<close>: the functions of Go's packages \<open>strings\<close> and \<open>path\<close>, and the locale \<open>go_runtime\<close>, what
  the code relies on in the external package \<open>core\<close> and in the range over a map, whose order is
  left open.  \<open>Paths\<close> and \<open>AbsPaths\<close>: cleaned relative and absolute paths.  \<open>Medium\<close>: file infos, the
  sort of \<open>go/internal/fsutil\<close>, the interface as a record of methods over a state, \<open>Copy\<close>, and the
  locale \<open>read_write\<close>, the contract between writing and reading that a medium keeps; it is
  interpreted on the in-memory medium, the mock, the node, the store, the cube, the SQLite and the S3 medium.  \<open>Listing\<close> and
  \<open>Moves\<close>: lemmas for the loops that list and rename by prefix.

  \<^item> \<open>Memory\<close>, \<open>MemoryProps\<close>: \<open>MemoryMedium\<close> of \<open>go/io.go\<close>, its four maps as the record
    \<open>memory_medium\<close>, one definition per method.  The inductive relations \<open>mem_step\<close> and \<open>tree_step\<close>
    are its operations; by rule induction the metadata always fits the files, and on normal paths
    the medium stays a tree.  Each operation is characterised on every branch, \<open>List\<close> and the
    directory rename independently of the order of the map ranges.
  \<^item> \<open>Mock\<close>: \<open>MockMedium\<close> of \<open>go/mock.go\<close>.
  \<^item> \<open>Tar\<close>, \<open>Node\<close>, \<open>NodeProps\<close>: the \<open>Node\<close> of \<open>go/node/node.go\<close>.  The tar format is the parameter
    \<open>tar_codec\<close> with the locale \<open>tar_library\<close>; the round trip through an archive, copying to another
    medium, the listing and both renames are proved.
  \<^item> \<open>Sigil\<close>, \<open>SigilProps\<close>, \<open>CryptoSigil\<close>, \<open>CryptoProps\<close>: \<open>go/sigil\<close>.  Hex and base64 are modelled, gzip,
    the hashes, JSON parsing and the cipher are parameters (\<open>gzip_library\<close>, \<open>sha256_library\<close>,
    \<open>aead_library\<close>).  A sigil is \<open>reversible\<close> when \<open>Out\<close> undoes \<open>In\<close>; pipelines of such sigils are
    undone, and the encrypting sigil is one of them for each of the two obfuscators.
  \<^item> \<open>Store\<close>, \<open>StoreProps\<close>: \<open>KeyValueStore\<close> and its medium.  The SQL statements are the parameter
    \<open>store_db\<close>; the locale \<open>sql_store\<close> says what they do to the table.
  \<^item> \<open>Local\<close>, \<open>LocalProps\<close>: the medium over the operating system, which is the parameter \<open>os_api\<close>.
    The resolution of symbolic links is a partial function; every path it lets through is shown to
    lie below the root with no link on the way.
  \<^item> \<open>Cube\<close>, \<open>CubeProps\<close>: the encrypting medium, archives and the action handlers of \<open>go/cube\<close>.  Over
    any medium that keeps \<open>read_write\<close> it keeps \<open>read_write\<close>; unpacking writes at cleaned relative
    paths only.
  \<^item> \<open>Workspace\<close>, \<open>WorkspaceProps\<close>: \<open>workspace.go\<close> and \<open>command.go\<close>.  The locale \<open>dir_medium\<close> extends
    \<open>read_write\<close> with what a workspace relies on; scoped mediums are isolated from each other.
  \<^item> \<open>Service\<close>, \<open>ServiceProps\<close>: the encrypted workspaces of \<open>service.go\<close>, over any medium that keeps
    \<open>abs_medium\<close>, the contract over absolute paths.  Files stay below the directory of their workspace
    and read back what was written.
  \<^item> \<open>Datanode\<close>, \<open>DatanodeProps\<close>: the medium of \<open>go/datanode\<close> over Borg's DataNode, which is the
    parameter \<open>datanode_api\<close>; the locale \<open>datanode_library\<close> says that it is a finite map of files.  The
    loop over the parents is shown to return except for paths with two leading slashes, for which it does not.
  \<^item> \<open>Sqlite\<close>, \<open>SqliteProps\<close>: the medium of \<open>go/sqlite\<close>, one row per file or directory.  The statements
    and the transaction are the parameter \<open>sqlite_db\<close>; the locale \<open>sqlite_library\<close> says what they do to
    the table and describes \<open>LIKE\<close> on ASCII texts by the function \<open>like\<close>.  A rename is atomic; what
    \<open>DeleteAll\<close>, \<open>Rename\<close> and \<open>List\<close> select is what a path prefix says for plain names only.
  \<^item> \<open>S3\<close>, \<open>S3Props\<close>: the medium of \<open>go/s3\<close> and its action handlers.  The interface \<open>Client\<close> is the
    record \<open>s3_client\<close>; the locale \<open>s3_service\<close> says what the requests do to the objects of a bucket and
    how a listing is cut into pages.  The page loop of \<open>DeleteAll\<close> returns, by the number of keys left; the
    inductive relation \<open>s3_step\<close> is any operation, none of which leaves the prefix of the medium.
  \<^item> \<open>Actions\<close>, \<open>ActionsProps\<close>: the functions of \<open>go/io.go\<close> that forward to a medium, the actions of
    \<open>go/actions.go\<close> and the service of \<open>go/service.go\<close> as tables of handlers by name.  What a client
    sees that runs them by name rests on \<open>read_write\<close>.
  \<^item> \<open>Remote\<close>: what the remote mediums of \<open>go/pkg/medium\<close> share: \<open>cleanRelative\<close> and its normal form, URLs, and
    paths within a root.
  \<^item> \<open>Sftp\<close>, \<open>SftpProps\<close>: \<open>go/pkg/medium/sftp\<close>, every method and action.  \<open>sftp_server\<close> states what a
    server without symbolic links promises over a view of its files, directories and open handles;
    \<open>sftp_on_server\<close> proves that no sequence of operations leaves the root (the code checks names only, so a link
    below the root that leads out of it would break this); the server in memory \<open>mem_sftp\<close> meets the promise.
  \<^item> \<open>Pwa\<close>, \<open>PwaProps\<close>: \<open>go/pkg/medium/pwa\<close>, whose medium downloads a site at its first use.  The steps of
    \<open>pwa_step\<close> interleave reads with a network that changes: a failed download is not remembered.
  \<^item> \<open>Github\<close>, \<open>GithubProps\<close>: \<open>go/pkg/medium/github\<close>.  Listing a repository and walking a DataNode are
    \<open>partial_function\<close>s that may not return; over a repository (\<open>github_repo\<close>) they do, and the two ways of
    cloning give the same files.
  \<^item> \<open>Http\<close>: what the HTTP packages use of \<open>strconv\<close>, \<open>net/http\<close> and \<open>net/url\<close>: \<open>ParseInt\<close> with its clamping,
    headers and their canonical keys, requests, percent-decoding.
  \<^item> \<open>Webdav\<close>, \<open>WebdavProps\<close>: \<open>go/pkg/medium/webdav\<close>.  \<open>dav_server\<close> says what a server answers to GET, PUT,
    PROPFIND, MKCOL and DELETE and lets every change fail or stay in doubt; \<open>dav_reliable\<close> adds the statuses
    of MKCOL.  \<open>Delete\<close> spares collections that have members when no name has a percent sign; where all
    members are named as an encoded dot it does what \<open>DeleteAll\<close> does.
  \<^item> \<open>Api\<close>, \<open>Provider\<close>, \<open>ApiProps\<close>: \<open>go/pkg/api\<close>.  \<open>Api\<close> has \<open>handlers.go\<close>: the payload of a request, the eighteen
    operations of a medium by their names, workspaces and actions over HTTP, each handler with its status and answer;
    \<open>Provider\<close> has \<open>provider.go\<close>: \<open>NewProvider\<close>, whose mediums act on parts of one state of the program
    (\<open>lift_medium\<close>), the registration of the actions of \<open>io\<close> and \<open>cube\<close>, routes and their description.
    Every answer is well formed and a rejected request changes nothing; what is written over HTTP can be read
    over HTTP; the described routes and actions are those that exist.

  \<^bold>\<open>Parameters.\<close>  Code outside the repository is an argument of the definitions: the record \<open>go_env\<close> for
  \<open>core\<close> and the order of map ranges, and the records named above.  What is assumed of it are the
  locales, each interpreted on a concrete instance (\<open>go_core\<close>, \<open>plain_tar\<close>, \<open>table_db\<close>, \<open>mem_sqlite\<close>, \<open>mem_s3\<close>,
  \<open>mem_sftp\<close>, \<open>list_api\<close>, \<open>list_datanode\<close>, \<open>mem_do\<close>, \<open>plain_url\<close>,
  \<open>link_disk\<close>, \<open>tag_cipher\<close>, \<open>pad_hash\<close>), on which the witnesses evaluate.  \<open>time.Now()\<close> and the random reader
  are arguments too.

  \<^bold>\<open>Loops.\<close>  A loop that may not return is a \<open>partial_function (option)\<close>, \<open>None\<close> meaning that it does not
  return: the ancestor loops of the in-memory medium are shown to return for every path, the
  archive loop of \<open>Pack\<close> is shown not to return on a directory within a directory of the same
  name, the page loop of the S3 medium to return over every service that keeps its contract.  The only fuel is that of \<open>walk_dir\<close>, the depth \<open>fs.WalkDir\<close> may recurse to.

  \<^bold>\<open>Not modelled.\<close>  Locks (every method is one atomic step), logging, the factory registries of
  \<open>pkg/medium/*\<close> (a registry of package core), the router, the JSON coder and the registry of actions behind
  \<open>pkg/api\<close>, and the links of an SFTP server.
\<close>

end
